(* ===== verification/Prelude.thy ===== *)
theory Prelude
  imports Complex_Main "HOL-Library.Word"
begin

text \<open>
  Shared vocabulary of the development.

  \<^item> Numbers. A Go \<open>int\<close> is an \<open>int\<close> (64-bit overflow is out of reach of every
    value the program stores; the parsers below check the 64-bit range where the library
    does). A Go \<open>float64\<close> is an exact rational; the type \<open>fl\<close> adds \<open>None\<close> for NaN.
    Binary rounding of the hardware is not modelled, the decimal rounding the program asks
    for (\<open>FormatFloat\<close>, \<open>RoundMS\<close>, \<open>math.Round\<close>) is.
  \<^item> Time. \<open>time.Time\<close> and \<open>time.Duration\<close> are nanoseconds (\<open>int\<close>).
  \<^item> Text. A Go string is its list of bytes (\<open>string\<close>); the package strconv and the parts
    of fmt and strings that the program uses are the functions below. White space is the
    ASCII white space of \<open>strings.TrimSpace\<close> and \<open>strings.Fields\<close>.
  \<^item> Maps. A Go map read with a default (\<open>m[k]\<close> of a missing key) is a total function or a
    set; a map whose keys matter is a partial function.
\<close>

named_theorems text_defs \<open>the definitions of the message texts\<close>
named_theorems const_defs \<open>the numeric constants of the specification\<close>

section \<open>Numbers\<close>

type_synonym fl = "rat option"

abbreviation NaN :: fl where "NaN \<equiv> None"

type_synonym nanos = int

definition Millisecond :: nanos where "Millisecond = 1000000"
definition Second :: nanos where "Second = 1000000000"

definition Seconds :: "nanos \<Rightarrow> rat" where
  "Seconds d = of_int d / 1000000000"

definition absInt :: "int \<Rightarrow> int" where
  "absInt x = (if x < 0 then - x else x)"

lemma absInt_abs [simp]: "absInt x = \<bar>x\<bar>"
  by (simp add: absInt_def)

text \<open>Decimal rounding of \<open>FormatFloat\<close>: to the nearest integer, ties to even.\<close>

definition round_half_even :: "rat \<Rightarrow> int" where
  "round_half_even x =
     (let f = \<lfloor>x\<rfloor>; d = x - of_int f
      in if d < 1/2 then f else if 1/2 < d then f + 1 else if even f then f else f + 1)"

text \<open>\<open>math.Round\<close>: ties away from zero.\<close>

definition round_away :: "rat \<Rightarrow> int" where
  "round_away x = (if 0 \<le> x then \<lfloor>x + 1/2\<rfloor> else - \<lfloor>1/2 - x\<rfloor>)"

lemma round_half_even_of_int [simp]: "round_half_even (of_int n) = n"
  by (simp add: round_half_even_def)

lemma round_half_even_mono:
  assumes "x \<le> y"
  shows "round_half_even x \<le> round_half_even y"
proof -
  have fl: "\<lfloor>x\<rfloor> \<le> \<lfloor>y\<rfloor>" using assms by (rule floor_mono)
  show ?thesis
  proof (cases "\<lfloor>x\<rfloor> = \<lfloor>y\<rfloor>")
    case True
    then show ?thesis using assms by (auto simp: round_half_even_def Let_def)
  next
    case False
    with fl have "\<lfloor>x\<rfloor> + 1 \<le> \<lfloor>y\<rfloor>" by simp
    moreover have "round_half_even x \<le> \<lfloor>x\<rfloor> + 1" "\<lfloor>y\<rfloor> \<le> round_half_even y"
      by (auto simp: round_half_even_def Let_def)
    ultimately show ?thesis by linarith
  qed
qed

lemma round_half_even_dist: "\<bar>of_int (round_half_even x) - x\<bar> \<le> 1/2"
proof -
  have "of_int \<lfloor>x\<rfloor> \<le> x" "x < of_int \<lfloor>x\<rfloor> + 1" by linarith+
  then show ?thesis by (auto simp: round_half_even_def Let_def)
qed

lemma round_away_of_int [simp]: "round_away (of_int n) = n"
proof -
  have "\<lfloor>of_int n + (1/2::rat)\<rfloor> = n" "\<lfloor>1/2 - (of_int n :: rat)\<rfloor> = - n"
    by linarith+
  then show ?thesis by (simp add: round_away_def)
qed

section \<open>Text\<close>

definition digit_char :: "nat \<Rightarrow> char" where
  "digit_char n = char_of (48 + n)"

fun nat_digits :: "nat \<Rightarrow> string" where
  "nat_digits n = (if n < 10 then [digit_char n] else nat_digits (n div 10) @ [digit_char (n mod 10)])"

declare nat_digits.simps [simp del]

text \<open>\<open>strconv.Itoa\<close> and the verb \<open>%d\<close>.\<close>

definition itoa :: "int \<Rightarrow> string" where
  "itoa i = (if i < 0 then ''-'' @ nat_digits (nat (- i)) else nat_digits (nat i))"

definition digit_val :: "char \<Rightarrow> nat option" where
  "digit_val c = (let n = of_char c in if 48 \<le> n \<and> n \<le> 57 then Some (n - 48) else None)"

fun digits_val :: "nat \<Rightarrow> string \<Rightarrow> nat option" where
  "digits_val acc [] = Some acc"
| "digits_val acc (c # cs) =
     (case digit_val c of None \<Rightarrow> None | Some d \<Rightarrow> digits_val (acc * 10 + d) cs)"

definition parse_nat :: "string \<Rightarrow> nat option" where
  "parse_nat s = (if s = [] then None else digits_val 0 s)"

text \<open>
  \<open>strconv.Atoi\<close> and \<open>strconv.ParseInt(s, 10, 64)\<close>: an optional sign, at least one
  decimal digit, the range of a 64-bit integer; \<open>None\<close> is the error return.
\<close>

definition atoi :: "string \<Rightarrow> int option" where
  "atoi s =
     (let (neg, ds) = (case s of [] \<Rightarrow> (False, [])
                       | c # cs \<Rightarrow> if c = CHR ''-'' then (True, cs)
                                  else if c = CHR ''+'' then (False, cs) else (False, s))
      in case parse_nat ds of None \<Rightarrow> None
         | Some n \<Rightarrow> (let v = (if neg then - int n else int n)
                      in if - (2 ^ 63) \<le> v \<and> v < 2 ^ 63 then Some v else None))"

text \<open>\<open>strconv.FormatFloat(x, 'f', p, 64)\<close> and the verb \<open>%.pf\<close>.\<close>

definition pad_left :: "nat \<Rightarrow> char \<Rightarrow> string \<Rightarrow> string" where
  "pad_left w c s = replicate (w - length s) c @ s"

definition fmt_abs :: "nat \<Rightarrow> rat \<Rightarrow> string" where
  "fmt_abs p x =
     (let n = nat (round_half_even (x * 10 ^ p))
      in nat_digits (n div 10 ^ p) @
         (if p = 0 then [] else ''.'' @ pad_left p (CHR ''0'') (nat_digits (n mod 10 ^ p))))"

definition fmt_f :: "nat \<Rightarrow> rat \<Rightarrow> string" where
  "fmt_f p x = (if x < 0 then ''-'' @ fmt_abs p (- x) else fmt_abs p x)"

text \<open>The verb \<open>%+.pf\<close>.\<close>

definition fmt_signed :: "nat \<Rightarrow> rat \<Rightarrow> string" where
  "fmt_signed p x = (if x < 0 then ''-'' @ fmt_abs p (- x) else ''+'' @ fmt_abs p x)"

text \<open>The verbs \<open>%t\<close> / \<open>%v\<close> of a bool and \<open>%q\<close> of a printable string.\<close>

definition fmt_bool :: "bool \<Rightarrow> string" where
  "fmt_bool b = (if b then ''true'' else ''false'')"

definition quote_char :: char where "quote_char = CHR 0x22"

definition fmt_q :: "string \<Rightarrow> string" where
  "fmt_q s = [quote_char] @
     concat (map (\<lambda>c. if c = quote_char \<or> c = CHR 0x5C then [CHR 0x5C, c] else [c]) s) @ [quote_char]"

text \<open>The UTF-8 bytes of the section sign.\<close>

definition sect :: string where "sect = [CHR 0xC2, CHR 0xA7]"

fun joins :: "string \<Rightarrow> string list \<Rightarrow> string" where
  "joins sep [] = []"
| "joins sep [x] = x"
| "joins sep (x # y # ys) = x @ sep @ joins sep (y # ys)"

definition has_prefix :: "string \<Rightarrow> string \<Rightarrow> bool" where
  "has_prefix p s \<longleftrightarrow> take (length p) s = p"

definition has_suffix :: "string \<Rightarrow> string \<Rightarrow> bool" where
  "has_suffix p s \<longleftrightarrow> length p \<le> length s \<and> drop (length s - length p) s = p"

definition trim_prefix :: "string \<Rightarrow> string \<Rightarrow> string" where
  "trim_prefix p s = (if has_prefix p s then drop (length p) s else s)"

definition trim_suffix :: "string \<Rightarrow> string \<Rightarrow> string" where
  "trim_suffix p s = (if has_suffix p s then take (length s - length p) s else s)"

fun contains_str :: "string \<Rightarrow> string \<Rightarrow> bool" where
  "contains_str p [] \<longleftrightarrow> p = []"
| "contains_str p (c # cs) \<longleftrightarrow> has_prefix p (c # cs) \<or> contains_str p cs"

definition is_space :: "char \<Rightarrow> bool" where
  "is_space c \<longleftrightarrow> c \<in> {CHR '' '', CHR 0x09, CHR 0x0A, CHR 0x0B, CHR 0x0C, CHR 0x0D}"

definition trim_space :: "string \<Rightarrow> string" where
  "trim_space s = rev (dropWhile is_space (rev (dropWhile is_space s)))"

text \<open>\<open>strings.Split(s, c)\<close> at a one-byte separator: never the empty list.\<close>

fun split_at :: "char \<Rightarrow> string \<Rightarrow> string list" where
  "split_at c [] = [[]]"
| "split_at c (x # xs) =
     (if x = c then [] # split_at c xs
      else case split_at c xs of [] \<Rightarrow> [[x]] | y # ys \<Rightarrow> (x # y) # ys)"

text \<open>\<open>strings.Fields\<close>: the maximal runs of non-space bytes.\<close>

definition Fields :: "string \<Rightarrow> string list" where
  "Fields s = filter (\<lambda>x. x \<noteq> []) (split_at (CHR '' '') (map (\<lambda>c. if is_space c then CHR '' '' else c) s))"

text \<open>\<open>strings.Cut(s, c)\<close>: before, after, found.\<close>

definition cut_at :: "char \<Rightarrow> string \<Rightarrow> string \<times> string \<times> bool" where
  "cut_at c s =
     (if c \<in> set s
      then (takeWhile (\<lambda>x. x \<noteq> c) s, tl (dropWhile (\<lambda>x. x \<noteq> c) s), True)
      else (s, [], False))"

definition NL :: char where "NL = CHR 0x0A"

text \<open>\<open>orText(a, b)\<close> and \<open>orDash\<close>, defined alike in several packages.\<close>

definition orText :: "string \<Rightarrow> string \<Rightarrow> string" where
  "orText a b = (if a \<noteq> [] then a else b)"

definition orDash :: "string \<Rightarrow> string" where
  "orDash s = (if s = [] then ''-'' else s)"

section \<open>Facts about the text functions\<close>

lemma of_char_digit: "n < 10 \<Longrightarrow> of_char (digit_char n) = (48 + n :: nat)"
  by (simp add: digit_char_def)

lemma digit_val_char [simp]: "n < 10 \<Longrightarrow> digit_val (digit_char n) = Some n"
  by (simp add: digit_val_def of_char_digit)

lemma digits_val_append:
  "digits_val acc (xs @ ys) =
     (case digits_val acc xs of None \<Rightarrow> None | Some v \<Rightarrow> digits_val v ys)"
  by (induction acc xs rule: digits_val.induct) (auto split: option.splits)

lemma nat_digits_ne [simp]: "nat_digits n \<noteq> []"
  by (subst nat_digits.simps) simp

lemma digits_val_nat_digits: "digits_val 0 (nat_digits n) = Some n"
proof (induction n rule: nat_digits.induct)
  case (1 n)
  show ?case
  proof (cases "n < 10")
    case True
    then show ?thesis by (subst nat_digits.simps) simp
  next
    case False
    with 1 have "digits_val 0 (nat_digits (n div 10)) = Some (n div 10)" by simp
    with False show ?thesis
      by (subst nat_digits.simps) (simp add: digits_val_append)
  qed
qed

lemma parse_nat_digits [simp]: "parse_nat (nat_digits n) = Some n"
  by (simp add: parse_nat_def digits_val_nat_digits)

lemma digit_char_not_sign: "n < 10 \<Longrightarrow> digit_char n \<noteq> CHR ''-'' \<and> digit_char n \<noteq> CHR ''+''"
  using of_char_digit [of n] by (auto dest: arg_cong [where f = "of_char :: char \<Rightarrow> nat"])

lemma nat_digits_hd: "hd (nat_digits n) \<noteq> CHR ''-'' \<and> hd (nat_digits n) \<noteq> CHR ''+''"
proof (induction n rule: nat_digits.induct)
  case (1 n)
  then show ?case
    by (subst (1 2) nat_digits.simps) (auto simp: digit_char_not_sign)
qed

text \<open>Printing an integer and reading it back gives the same integer.\<close>

lemma atoi_itoa:
  assumes "- (2 ^ 63) \<le> i" "i < 2 ^ 63"
  shows "atoi (itoa i) = Some i"
proof (cases "i < 0")
  case True
  then show ?thesis using assms by (simp add: atoi_def itoa_def)
next
  case False
  obtain c cs where cs: "nat_digits (nat i) = c # cs"
    using nat_digits_ne by (cases "nat_digits (nat i)") auto
  then have "c \<noteq> CHR ''-''" "c \<noteq> CHR ''+''"
    using nat_digits_hd [of "nat i"] by auto
  with False cs show ?thesis using assms parse_nat_digits [of "nat i"]
    by (simp add: atoi_def itoa_def)
qed

lemma itoa_ne [simp]: "itoa i \<noteq> []"
  by (simp add: itoa_def)

lemma itoa_inj: "itoa i = itoa j \<Longrightarrow> i = j"
proof -
  assume eq: "itoa i = itoa j"
  have sign: "(hd (itoa k) = CHR ''-'') = (k < 0)" for k
    using nat_digits_hd [of "nat k"] by (simp add: itoa_def)
  from eq sign have "(i < 0) = (j < 0)" by metis
  moreover have "nat_digits m = nat_digits n \<longleftrightarrow> m = n" for m n
    by (metis parse_nat_digits option.inject)
  ultimately show "i = j" using eq by (auto simp: itoa_def split: if_splits)
qed

lemma has_prefix_append [simp]: "has_prefix p (p @ s)"
  by (simp add: has_prefix_def)

lemma has_prefixE: "has_prefix p s \<Longrightarrow> \<exists>t. s = p @ t"
  unfolding has_prefix_def by (metis append_take_drop_id)

lemma contains_str_iff: "contains_str p s \<longleftrightarrow> (\<exists>a b. s = a @ p @ b)"
proof (induction s)
  case Nil
  then show ?case by simp
next
  case (Cons c cs)
  show ?case
  proof
    assume "contains_str p (c # cs)"
    then consider "has_prefix p (c # cs)" | "contains_str p cs" by auto
    then show "\<exists>a b. c # cs = a @ p @ b"
    proof cases
      case 1
      then show ?thesis by (metis has_prefixE append_Nil)
    next
      case 2
      then show ?thesis using Cons.IH by (metis append_Cons)
    qed
  next
    assume "\<exists>a b. c # cs = a @ p @ b"
    then obtain a b where ab: "c # cs = a @ p @ b" by blast
    show "contains_str p (c # cs)"
    proof (cases a)
      case Nil
      with ab show ?thesis by (metis append_Nil contains_str.simps(2) has_prefix_append)
    next
      case (Cons x a')
      with ab have "cs = a' @ p @ b" by simp
      then show ?thesis using Cons.IH by auto
    qed
  qed
qed

lemma orText_ne: "b \<noteq> [] \<Longrightarrow> orText a b \<noteq> []"
  by (simp add: orText_def)

lemma split_at_ne [simp]: "split_at c s \<noteq> []"
  by (induction c s rule: split_at.induct) (auto split: list.splits)

lemma joins_split_at: "joins [c] (split_at c s) = s"
proof (induction c s rule: split_at.induct)
  case (2 c x xs)
  obtain y ys where y: "split_at c xs = y # ys" by (cases "split_at c xs") auto
  with 2 show ?case by (cases ys) auto
qed simp

section \<open>Searching a list\<close>

lemma find_SomeD: "find P xs = Some x \<Longrightarrow> x \<in> set xs \<and> P x"
  by (induction xs) (auto split: if_splits)

lemma find_NoneD: "find P xs = None \<Longrightarrow> x \<in> set xs \<Longrightarrow> \<not> P x"
  by (simp add: find_None_iff)

section \<open>Readings with a NaN\<close>

text \<open>The comparisons of Go are false when an operand is NaN.\<close>

fun fl_ge :: "fl \<Rightarrow> rat \<Rightarrow> bool" where
  "fl_ge None th \<longleftrightarrow> False"
| "fl_ge (Some v) th \<longleftrightarrow> th \<le> v"

lemma fl_ge_Some: "fl_ge x th \<longleftrightarrow> (\<exists>v. x = Some v \<and> th \<le> v)"
  by (cases x) auto

definition values_of :: "fl list \<Rightarrow> rat list" where
  "values_of xs = List.map_filter (\<lambda>x. x) xs"

lemma values_of_simps [simp]:
  "values_of [] = []"
  "values_of (None # xs) = values_of xs"
  "values_of (Some v # xs) = v # values_of xs"
  "values_of (xs @ ys) = values_of xs @ values_of ys"
  by (simp_all add: values_of_def map_filter_def)

lemma set_values_of: "v \<in> set (values_of xs) \<longleftrightarrow> Some v \<in> set xs"
  by (force simp: values_of_def map_filter_def)

end
