(* ===== verification/Spec_Base.thy ===== *)
theory Spec_Base
  imports Prelude
begin

text \<open>
  The numbers and tables of the test specification: internal/spec/eval.go (constants, channel
  and register tables, step boundaries, \<open>Crossing\<close>) and the data of internal/spec/sample.go.
\<close>

section \<open>Verdicts and constants (eval.go)\<close>

datatype Verdict = Pass | Fail | Inconclusive | Reported | NotApplicable

fun verdict_text :: "Verdict \<Rightarrow> string" where
  "verdict_text Pass = ''PASS''"
| "verdict_text Fail = ''FAIL''"
| "verdict_text Inconclusive = ''INCONCLUSIVE''"
| "verdict_text Reported = ''REPORTED''"
| "verdict_text NotApplicable = ''N/A''"

definition SpecVersion :: string where [text_defs]: "SpecVersion = ''0.5''"

definition ReasonNoPCIeAuto :: string where
  [text_defs]: "ReasonNoPCIeAuto = ''no EC automatic on DCR5 (firmware 0.14)''"

definition PCIeChannel :: int where [const_defs]: "PCIeChannel = 4"
definition HDDInputStepC :: rat where [const_defs]: "HDDInputStepC = 34"

definition LeaveCounts :: int where [const_defs]: "LeaveCounts = 16"
definition HoldCounts :: int where [const_defs]: "HoldCounts = 2"
definition LeaveWithinS :: int where [const_defs]: "LeaveWithinS = 60"
definition ObserveS :: int where [const_defs]: "ObserveS = 900"
definition ObserveFastS :: int where [const_defs]: "ObserveFastS = 180"
definition PreS :: int where [const_defs]: "PreS = 900"
definition PreFastS :: int where [const_defs]: "PreFastS = 300"
definition SettleBandC :: int where [const_defs]: "SettleBandC = 2"
definition SettleHoldS :: int where [const_defs]: "SettleHoldS = 120"
definition T1OwnStepRPM :: int where [const_defs]: "T1OwnStepRPM = 200"
definition T1OtherRPM :: int where [const_defs]: "T1OtherRPM = 50"
definition T1OtherDCR :: int where [const_defs]: "T1OtherDCR = 16"
definition RunsRequired :: nat where [const_defs]: "RunsRequired = 3"
definition MinDuty :: int where [const_defs]: "MinDuty = 100"
definition MaxM :: int where [const_defs]: "MaxM = 200"
definition MOffset :: int where [const_defs]: "MOffset = 48"
definition LimitTctlC :: rat where [const_defs]: "LimitTctlC = 85"
definition LimitNVMeC :: rat where [const_defs]: "LimitNVMeC = 70"
definition LimitHDDC :: rat where [const_defs]: "LimitHDDC = 50"
definition T1StepHoldS :: int where [const_defs]: "T1StepHoldS = 60"
definition SampleS :: int where [const_defs]: "SampleS = 5"
definition GateLoadDiv :: rat where [const_defs]: "GateLoadDiv = 10"
definition GateTempDeltaC :: rat where [const_defs]: "GateTempDeltaC = 1"
definition GateTrendS :: rat where [const_defs]: "GateTrendS = 60"
definition GateWindowS :: int where [const_defs]: "GateWindowS = 300"
definition DueToleranceS :: rat where [const_defs]: "DueToleranceS = 1/2"
definition SettleFastS :: rat where [const_defs]: "SettleFastS = 1"
definition SettleHDDS :: rat where [const_defs]: "SettleHDDS = 10"
definition CrossingC :: rat where [const_defs]: "CrossingC = 2"

section \<open>Per-channel tables\<close>

definition SettleS :: "int \<Rightarrow> rat" where
  "SettleS ch = (if ch = 3 then SettleHDDS else SettleFastS)"

definition T3LimitS :: "int \<Rightarrow> int" where
  "T3LimitS ch = (if ch = 1 \<or> ch = 2 then ObserveFastS else ObserveS)"

definition PreWindowS :: "int \<Rightarrow> int" where
  "PreWindowS ch = (if ch = 1 \<or> ch = 2 then PreFastS else PreS)"

definition GateLoadLimit :: "int \<Rightarrow> rat" where
  "GateLoadLimit cpus = of_int cpus / GateLoadDiv"

text \<open>The loop of \<open>ParseCPUList\<close> over the comma-separated parts; any error returns 0.\<close>

fun cpu_parts :: "int \<Rightarrow> string list \<Rightarrow> int" where
  "cpu_parts n [] = n"
| "cpu_parts n (part # ps) =
     (let (lo, hi, isRange) = cut_at (CHR ''-'') part
      in case atoi lo of None \<Rightarrow> 0
         | Some a \<Rightarrow>
             if isRange then
               (case atoi hi of None \<Rightarrow> 0
                | Some b \<Rightarrow> if b < a then 0 else cpu_parts (n + (b - a + 1)) ps)
             else cpu_parts (n + (a - a + 1)) ps)"

definition ParseCPUList :: "string \<Rightarrow> int" where
  "ParseCPUList s = cpu_parts 0 (split_at (CHR '','') (trim_space s))"

definition Judged :: "int \<Rightarrow> rat \<Rightarrow> bool" where
  "Judged ch t \<longleftrightarrow> SettleS ch - 1/1000 \<le> t"

text \<open>
  One row of samples.csv (\<open>Sample\<close>). \<open>DCR\<close> and \<open>Fan\<close> are the Go arrays of length 5 and 3,
  -1 standing for an unknown value.
\<close>

record Sample =
  s_Time :: nanos
  s_TS :: rat
  s_Phase :: string
  s_Ch :: int
  s_Written :: int
  s_DCR :: "int list"
  s_Fan :: "int list"
  s_ECCPU :: fl
  s_ECSys :: fl
  s_ECBoard :: fl
  s_ECAmb :: fl
  s_HDDMax :: fl
  s_NVMeMax :: fl
  s_Tctl :: fl
  s_Load1 :: fl
  s_RoomT :: fl
  s_RoomRH :: fl

definition NewSample :: "nanos \<Rightarrow> rat \<Rightarrow> string \<Rightarrow> int \<Rightarrow> int \<Rightarrow> Sample" where
  "NewSample t ts phase ch written =
     \<lparr> s_Time = t, s_TS = ts, s_Phase = phase, s_Ch = ch, s_Written = written,
       s_DCR = [-1, -1, -1, -1, -1], s_Fan = [-1, -1, -1],
       s_ECCPU = NaN, s_ECSys = NaN, s_ECBoard = NaN, s_ECAmb = NaN, s_HDDMax = NaN,
       s_NVMeMax = NaN, s_Tctl = NaN, s_Load1 = NaN, s_RoomT = NaN, s_RoomRH = NaN \<rparr>"

definition TableInput :: "int \<Rightarrow> Sample \<Rightarrow> fl" where
  "TableInput ch s =
     (if ch = 1 then s_ECCPU s else if ch = 2 then s_ECBoard s
      else if ch = 3 then s_ECAmb s else NaN)"

definition TableInputName :: "int \<Rightarrow> string" where
  [text_defs]: "TableInputName ch =
     (if ch = 1 then ''EC 0x09 (CPU)'' else if ch = 2 then ''EC 0x05 (board)''
      else if ch = 3 then ''EC 0x06 (ambient)'' else '''')"

definition StepBoundaries :: "int \<Rightarrow> rat list" where
  "StepBoundaries ch =
     (if ch = 1 then [25, 45, 55, 65, 75, 82, 87] else if ch = 2 then [60]
      else if ch = 3 then [HDDInputStepC] else [])"

text \<open>The test inside the two loops of \<open>Crossing\<close>, and the loop over the values.\<close>

definition beyond_step :: "rat \<Rightarrow> rat \<Rightarrow> rat \<Rightarrow> bool" where
  "beyond_step ref v s \<longleftrightarrow> (ref < s \<and> s + CrossingC \<le> v) \<or> (s \<le> ref \<and> v \<le> s - CrossingC)"

definition crossing_text :: "int \<Rightarrow> rat \<Rightarrow> rat \<Rightarrow> rat \<Rightarrow> string" where
  [text_defs]: "crossing_text ch ref v s =
     TableInputName ch @ '' '' @ fmt_f 1 ref @ '' C -> '' @ fmt_f 1 v @
     '' C across the step at '' @ fmt_f 0 s @ '' C''"

fun crossing_loop :: "int \<Rightarrow> rat \<Rightarrow> fl list \<Rightarrow> string" where
  "crossing_loop ch ref [] = ''''"
| "crossing_loop ch ref (NaN # vs) = crossing_loop ch ref vs"
| "crossing_loop ch ref (Some v # vs) =
     (case find (beyond_step ref v) (StepBoundaries ch) of
        Some s \<Rightarrow> crossing_text ch ref v s
      | None \<Rightarrow> crossing_loop ch ref vs)"

definition Crossing :: "int \<Rightarrow> fl \<Rightarrow> fl list \<Rightarrow> string" where
  "Crossing ch ref vals = (case ref of NaN \<Rightarrow> '''' | Some r \<Rightarrow> crossing_loop ch r vals)"

definition JudgedRegs :: "int \<Rightarrow> int list" where
  "JudgedRegs ch =
     (if ch = 1 \<or> ch = 2 then [ch] else if ch = 3 then [3, 4] else if ch = 4 then [5] else [])"

definition OtherRegs :: "int \<Rightarrow> int list" where
  "OtherRegs ch = filter (\<lambda>n. n \<notin> set (JudgedRegs ch)) [1, 2, 3, 4, 5]"

definition regChannel :: "int \<Rightarrow> int" where
  "regChannel n = (if n = 1 \<or> n = 2 then n else if n = 3 \<or> n = 4 then 3 else PCIeChannel)"

definition T1Steps :: "int list" where [const_defs]: "T1Steps = [255, 217, 179, 140]"

definition MValue :: "int \<Rightarrow> int" where
  "MValue a = (let m = a + MOffset; m = (if m > MaxM then MaxM else m)
               in if m < MinDuty then MinDuty else m)"

section \<open>Stored times (sample.go)\<close>

text \<open>
  \<open>RoundMS\<close> prints with three decimals and parses the text back: the nearest multiple of
  1/1000, ties to the even one.
\<close>

definition RoundMS :: "rat \<Rightarrow> rat" where
  "RoundMS t = of_int (round_half_even (t * 1000)) / 1000"

definition SinceMS :: "rat \<Rightarrow> rat \<Rightarrow> rat" where
  "SinceMS a b = RoundMS (RoundMS a - RoundMS b)"

definition PhaseBoot :: string where [text_defs]: "PhaseBoot = ''boot-state''"
definition PhaseGate :: string where [text_defs]: "PhaseGate = ''gate''"
definition PhaseT1Rest :: string where [text_defs]: "PhaseT1Rest = ''t1-rest''"
definition PhaseT2Pre :: string where [text_defs]: "PhaseT2Pre = ''t2-pre''"

definition PhaseT1Step :: "int \<Rightarrow> string" where
  [text_defs]: "PhaseT1Step d = ''t1-'' @ itoa d"

definition PhaseT2Hold :: "int \<Rightarrow> string \<Rightarrow> string" where
  [text_defs]: "PhaseT2Hold rep label = ''t2-r'' @ itoa rep @ ''-'' @ label @ ''-hold''"

definition PhaseT2Auto :: "int \<Rightarrow> string \<Rightarrow> string" where
  [text_defs]: "PhaseT2Auto rep label = ''t2-r'' @ itoa rep @ ''-'' @ label @ ''-auto''"

text \<open>One precondition of the specification (\<open>Gate\<close>); \<open>Result\<close> is PASS, FAIL, PARTIAL or SKIPPED.\<close>

record Gate =
  g_ID :: string
  g_Condition :: string
  g_Result :: string
  g_Detail :: string

section \<open>Facts\<close>

lemma T1Steps_duty: "d \<in> set T1Steps \<Longrightarrow> MinDuty \<le> d \<and> d \<le> 255"
  by (auto simp: const_defs)

lemma MValue_range: "MinDuty \<le> MValue a" "MValue a \<le> MaxM"
  by (auto simp: MValue_def Let_def const_defs)

lemma crossing_text_ne [simp]: "crossing_text ch ref v s \<noteq> []"
  by (simp add: crossing_text_def)

lemma crossing_loop_ne_iff:
  "crossing_loop ch ref vs \<noteq> [] \<longleftrightarrow>
     (\<exists>v. Some v \<in> set vs \<and> (\<exists>s \<in> set (StepBoundaries ch). beyond_step ref v s))"
proof (induction ch ref vs rule: crossing_loop.induct)
  case (3 ch ref v vs)
  show ?case
  proof (cases "find (beyond_step ref v) (StepBoundaries ch)")
    case None
    then have "\<not> (\<exists>s \<in> set (StepBoundaries ch). beyond_step ref v s)" by (auto dest: find_NoneD)
    with None 3 show ?thesis by auto
  next
    case (Some s)
    then show ?thesis by (auto dest: find_SomeD)
  qed
qed auto

lemma Crossing_ne_iff:
  "Crossing ch ref vals \<noteq> [] \<longleftrightarrow>
     (\<exists>r v. ref = Some r \<and> Some v \<in> set vals \<and> (\<exists>s \<in> set (StepBoundaries ch). beyond_step r v s))"
  by (cases ref) (auto simp: Crossing_def crossing_loop_ne_iff)

lemma beyond_step_far: "beyond_step ref v s \<Longrightarrow> CrossingC \<le> \<bar>v - ref\<bar>"
  by (auto simp: beyond_step_def const_defs)

lemma RoundMS_idem [simp]: "RoundMS (RoundMS t) = RoundMS t"
  by (simp add: RoundMS_def)

lemma SinceMS_stored: "SinceMS (RoundMS a) (RoundMS b) = SinceMS a b"
  by (simp add: SinceMS_def)

lemma RoundMS_mono: "a \<le> b \<Longrightarrow> RoundMS a \<le> RoundMS b"
  by (simp add: RoundMS_def round_half_even_mono divide_right_mono)

lemma SinceMS_exact: "SinceMS a b = RoundMS a - RoundMS b"
proof -
  have "(RoundMS a - RoundMS b) * 1000 =
      of_int (round_half_even (a * 1000) - round_half_even (b * 1000))"
    by (simp add: RoundMS_def field_simps)
  then have "SinceMS a b = of_int (round_half_even (a * 1000) - round_half_even (b * 1000)) / 1000"
    unfolding SinceMS_def by (simp only: RoundMS_def [of "RoundMS a - RoundMS b"] round_half_even_of_int)
  then show ?thesis by (simp add: RoundMS_def field_simps)
qed

lemma regs_of_channel:
  assumes "1 \<le> ch" "ch \<le> 4" "1 \<le> n" "n \<le> 5"
  shows "n \<in> set (JudgedRegs ch) \<longleftrightarrow> regChannel n = ch"
proof -
  have "ch = 1 \<or> ch = 2 \<or> ch = 3 \<or> ch = 4" "n = 1 \<or> n = 2 \<or> n = 3 \<or> n = 4 \<or> n = 5"
    using assms by arith+
  then show ?thesis by (elim disjE) (simp_all add: JudgedRegs_def regChannel_def PCIeChannel_def)
qed

end
