(* ===== verification/Spec_Handback.thy ===== *)
theory Spec_Handback
  imports Spec_Base "HOL-Library.Multiset"
begin

text \<open>
  T2 (hand-back) and T3 (settling), internal/spec/eval.go: one sub-run of one duty register
  (\<open>EvalHandback\<close>), one sub-run over every judged register (\<open>EvalHandbackRegs\<close>) and the
  aggregation over the repetitions (\<open>AggregateHandback\<close>). The loops of the Go code are the
  recursive functions; their characterisations follow the definitions.
\<close>

section \<open>Data\<close>

record DCRSample =
  d_T :: rat
  d_DCR :: int

record HandbackRun =
  hr_Label :: string
  hr_Reg :: string
  hr_Written :: int
  hr_Samples :: "DCRSample list"
  hr_TimingKnown :: bool
  hr_Auto :: int
  hr_AutoKnown :: bool
  hr_LimitS :: int
  hr_Crossed :: string

text \<open>
  The Go type \<open>SubResult\<close> nests itself in \<open>Others\<close>, one level deep: the entries of \<open>Others\<close>
  are results of one register (\<open>SubResult\<close>), the value with \<open>Others\<close>, \<open>RegsAgree\<close> and
  \<open>RegNotes\<close> is \<open>RegsResult\<close>.
\<close>

record SubResult =
  sr_Label :: string
  sr_Reg :: string
  sr_Written :: int
  sr_Left :: bool
  sr_LeftAtS :: "rat option"
  sr_MaxDev :: int
  sr_HeldS :: rat
  sr_ObservedS :: rat
  sr_T2 :: Verdict
  sr_T2Reason :: string
  sr_Settled :: bool
  sr_SettleAtS :: "rat option"
  sr_FinalValue :: "int option"
  sr_T3 :: Verdict
  sr_T3Reason :: string

record RegsResult = SubResult +
  sr_Others :: "SubResult list"
  sr_RegsAgree :: "bool option"
  sr_RegNotes :: "string list"

section \<open>Message texts\<close>

definition t2_left_text :: "int \<Rightarrow> rat \<Rightarrow> string" where
  [text_defs]: "t2_left_text w t = ''left the written value '' @ itoa w @ '' by >= '' @ itoa LeaveCounts @
     '' counts after '' @ fmt_f 0 t @ '' s''"

definition t2_late_text :: "rat \<Rightarrow> string" where
  [text_defs]: "t2_late_text t = ''left the written value only after '' @ fmt_f 0 t @ '' s (> '' @
     itoa LeaveWithinS @ '' s)''"

definition t2_untimed_text :: "int \<Rightarrow> int \<Rightarrow> string" where
  [text_defs]: "t2_untimed_text w md = ''left the written value '' @ itoa w @ '' (max deviation '' @ itoa md @
     '' counts), time since the auto command not recorded''"

definition t2_stayed_text :: "int \<Rightarrow> rat \<Rightarrow> string" where
  [text_defs]: "t2_stayed_text w obs = ''DCR stayed within +-'' @ itoa HoldCounts @ '' of '' @ itoa w @
     '' for '' @ fmt_f 0 obs @ '' s''"

definition t2_short_text :: "rat \<Rightarrow> int \<Rightarrow> string" where
  [text_defs]: "t2_short_text obs need = ''DCR within +-'' @ itoa HoldCounts @
     '' of the written value, but observed for '' @ fmt_f 0 obs @ '' s only (need '' @ itoa need @
     '' s after the auto command)''"

definition t2_moved_text :: "int \<Rightarrow> string" where
  [text_defs]: "t2_moved_text md = ''DCR moved by '' @ itoa md @ '' counts (between '' @ itoa (HoldCounts + 1) @
     '' and '' @ itoa (LeaveCounts - 1) @ '')''"

definition t2_close_text :: "int \<Rightarrow> int \<Rightarrow> string \<Rightarrow> string" where
  [text_defs]: "t2_close_text w a why = ''written value '' @ itoa w @ '' too close to the auto value A='' @
     itoa a @ '' (< '' @ itoa LeaveCounts @
     '' counts): leaving it cannot be told from returning to A ('' @ why @ '')''"

definition t3_steady_text :: "int \<Rightarrow> rat \<Rightarrow> string" where
  [text_defs]: "t3_steady_text v t = ''steady at '' @ itoa v @ '' (+-'' @ itoa SettleBandC @ '' for '' @
     itoa SettleHoldS @ '' s) from '' @ fmt_f 0 t @ '' s after the auto command''"

definition t3_late_text :: "rat \<Rightarrow> int \<Rightarrow> string" where
  [text_defs]: "t3_late_text t limit = ''steady state only from '' @ fmt_f 0 t @ '' s (> '' @ itoa limit @ '' s)''"

definition t3_untimed_text :: "int \<Rightarrow> string" where
  [text_defs]: "t3_untimed_text v = ''steady at '' @ itoa v @
     '' over the observed samples, time since the auto command not recorded''"

definition t3_none_text :: "int \<Rightarrow> string" where
  [text_defs]: "t3_none_text limit = ''no steady state within '' @ itoa limit @ '' s''"

definition t3_short_text :: "rat \<Rightarrow> string" where
  [text_defs]: "t3_short_text obs = ''no steady window in '' @ fmt_f 0 obs @ '' s of data''"

definition crossed_why :: "string \<Rightarrow> string" where
  [text_defs]: "crossed_why x = ''table input crossed a step ('' @ x @ '')''"

definition no_samples_text :: string where [text_defs]: "no_samples_text = ''no DCR samples''"

section \<open>One register: EvalHandback\<close>

text \<open>
  The loop over the sorted samples: largest deviation, left, first time it left (recorded when
  the timing is known), every sample within the hold band.
\<close>

fun dev_loop :: "int \<Rightarrow> bool \<Rightarrow> DCRSample list \<Rightarrow> int \<times> bool \<times> rat option \<times> bool
    \<Rightarrow> int \<times> bool \<times> rat option \<times> bool" where
  "dev_loop w tk [] acc = acc"
| "dev_loop w tk (x # xs) (maxDev, left, leftAt, allWithin2) =
     (let d = absInt (d_DCR x - w);
          maxDev' = (if d > maxDev then d else maxDev);
          (left', leftAt') = (if d \<ge> LeaveCounts \<and> \<not> left
                              then (True, if tk then Some (d_T x) else leftAt) else (left, leftAt));
          allWithin2' = (if d > HoldCounts then False else allWithin2)
      in dev_loop w tk xs (maxDev', left', leftAt', allWithin2'))"

text \<open>
  The T3 loop: the first sample whose window of \<open>SettleHoldS\<close> seconds ends inside the log and
  has every sample within the band of the window's first sample.
\<close>

fun settle_loop :: "rat \<Rightarrow> DCRSample list \<Rightarrow> (rat \<times> int) option" where
  "settle_loop last_T [] = None"
| "settle_loop last_T (x # xs) =
     (let end_T = d_T x + of_int SettleHoldS
      in if end_T > last_T then None
         else if list_all (\<lambda>y. \<not> absInt (d_DCR y - d_DCR x) > SettleBandC)
                   (takeWhile (\<lambda>y. d_T y \<le> end_T) (x # xs))
         then Some (d_T x, d_DCR x)
         else settle_loop last_T xs)"

text \<open>The first verdict switch (T2) and the |W - A| rule.\<close>

definition t2_switch :: "HandbackRun \<Rightarrow> int \<Rightarrow> bool \<Rightarrow> rat option \<Rightarrow> int \<Rightarrow> bool \<Rightarrow> rat \<Rightarrow> Verdict \<times> string" where
  "t2_switch r limit left leftAt maxDev allWithin2 obs =
     (case (left, leftAt) of
        (True, Some t) \<Rightarrow>
          if t \<le> of_int LeaveWithinS then (Pass, t2_left_text (hr_Written r) t)
          else (Inconclusive, t2_late_text t)
      | (True, None) \<Rightarrow> (Inconclusive, t2_untimed_text (hr_Written r) maxDev)
      | (False, _) \<Rightarrow>
          if allWithin2 \<and> hr_TimingKnown r \<and> obs \<ge> of_int (limit + SettleHoldS)
          then (Fail, t2_stayed_text (hr_Written r) obs)
          else if allWithin2 then (Inconclusive, t2_short_text obs (limit + SettleHoldS))
          else (Inconclusive, t2_moved_text maxDev))"

definition too_close :: "HandbackRun \<Rightarrow> bool" where
  "too_close r \<longleftrightarrow> hr_AutoKnown r \<and> absInt (hr_Written r - hr_Auto r) < LeaveCounts"

definition t2_close_rule :: "HandbackRun \<Rightarrow> Verdict \<times> string \<Rightarrow> Verdict \<times> string" where
  "t2_close_rule r vw =
     (if too_close r then (Inconclusive, t2_close_text (hr_Written r) (hr_Auto r) (snd vw)) else vw)"

text \<open>The second verdict switch (T3).\<close>

definition t3_switch :: "HandbackRun \<Rightarrow> int \<Rightarrow> (rat \<times> int) option \<Rightarrow> rat \<Rightarrow> rat \<Rightarrow> Verdict \<times> string" where
  "t3_switch r limit win last_T obs =
     (case win of
        Some (t, v) \<Rightarrow>
          if hr_TimingKnown r \<and> t \<le> of_int limit then (Pass, t3_steady_text v t)
          else if hr_TimingKnown r then (Fail, t3_late_text t limit)
          else (Inconclusive, t3_untimed_text v)
      | None \<Rightarrow>
          if hr_TimingKnown r \<and> last_T \<ge> of_int (limit + SettleHoldS) then (Fail, t3_none_text limit)
          else (Inconclusive, t3_short_text obs))"

definition crossed_rule :: "HandbackRun \<Rightarrow> Verdict \<times> string \<Rightarrow> Verdict \<times> string" where
  "crossed_rule r vw =
     (if hr_Crossed r \<noteq> '''' then (Inconclusive, crossed_why (hr_Crossed r) @ ''; '' @ snd vw) else vw)"

definition hr_limit :: "HandbackRun \<Rightarrow> int" where
  "hr_limit r = (if hr_LimitS r = 0 then ObserveS else hr_LimitS r)"

definition EvalHandback :: "HandbackRun \<Rightarrow> SubResult" where
  "EvalHandback r =
     (if hr_Samples r = [] then
        \<lparr> sr_Label = hr_Label r, sr_Reg = hr_Reg r, sr_Written = hr_Written r, sr_Left = False,
          sr_LeftAtS = None, sr_MaxDev = 0, sr_HeldS = 0, sr_ObservedS = 0, sr_T2 = Inconclusive,
          sr_T2Reason = no_samples_text, sr_Settled = False, sr_SettleAtS = None,
          sr_FinalValue = None, sr_T3 = Inconclusive, sr_T3Reason = no_samples_text \<rparr>
      else
        (let limit = hr_limit r;
             smp = sort_key d_T (hr_Samples r);
             first_T = d_T (hd smp);
             last_T = d_T (last smp);
             obs = (if hr_TimingKnown r then last_T else last_T - first_T);
             (maxDev, left, leftAt, allWithin2) =
                dev_loop (hr_Written r) (hr_TimingKnown r) smp (0, False, None, True);
             held = (if allWithin2 then obs else 0);
             (t2, why2) = t2_close_rule r (t2_switch r limit left leftAt maxDev allWithin2 obs);
             win = settle_loop last_T smp;
             (t3, why3) = t3_switch r limit win last_T obs;
             (t2c, why2c) = crossed_rule r (t2, why2);
             (t3c, why3c) = crossed_rule r (t3, why3)
         in \<lparr> sr_Label = hr_Label r, sr_Reg = hr_Reg r, sr_Written = hr_Written r, sr_Left = left,
              sr_LeftAtS = leftAt, sr_MaxDev = maxDev, sr_HeldS = held, sr_ObservedS = obs,
              sr_T2 = t2c, sr_T2Reason = why2c, sr_Settled = (win \<noteq> None),
              sr_SettleAtS = map_option fst win, sr_FinalValue = map_option snd win,
              sr_T3 = t3c, sr_T3Reason = why3c \<rparr>))"

section \<open>Characterisation of the loops\<close>

definition dev :: "int \<Rightarrow> DCRSample \<Rightarrow> int" where
  "dev w x = \<bar>d_DCR x - w\<bar>"

lemma dev_nonneg [simp]: "0 \<le> dev w x" by (simp add: dev_def)

lemma dev_loop_left:
  "fst (snd (dev_loop w tk xs (m, l, a, aw))) \<longleftrightarrow> l \<or> (\<exists>x \<in> set xs. LeaveCounts \<le> dev w x)"
  by (induction xs arbitrary: m l a aw) (auto simp: Let_def dev_def)

lemma dev_loop_within:
  "snd (snd (snd (dev_loop w tk xs (m, l, a, aw)))) \<longleftrightarrow> aw \<and> (\<forall>x \<in> set xs. dev w x \<le> HoldCounts)"
  by (induction xs arbitrary: m l a aw) (auto simp: Let_def dev_def)

lemma dev_loop_max:
  "fst (dev_loop w tk xs (m, l, a, aw)) = foldl max m (map (dev w) xs)"
  by (induction xs arbitrary: m l a aw) (auto simp: Let_def dev_def max_def)

lemma dev_loop_leftAt_kept: "fst (snd (snd (dev_loop w tk xs (m, True, a, aw)))) = a"
  by (induction xs arbitrary: m aw) (auto simp: Let_def)

lemma dev_loop_leftAt:
  "fst (snd (snd (dev_loop w tk xs (m, False, None, aw)))) =
     (if tk then map_option d_T (find (\<lambda>x. LeaveCounts \<le> dev w x) xs) else None)"
proof (induction xs arbitrary: m aw)
  case (Cons x xs)
  then show ?case by (auto simp: Let_def dev_def dev_loop_leftAt_kept)
qed simp

lemma foldl_max_ge: "(m :: int) \<le> foldl max m ys" "y \<in> set ys \<Longrightarrow> y \<le> foldl max m ys"
proof (induction ys arbitrary: m)
  case (Cons z zs)
  { case 1 show ?case using Cons.IH(1) [of "max m z"] by simp }
  { case 2
    have "z \<le> foldl max (max m z) zs" using Cons.IH(1) [of "max m z"] by linarith
    with 2 Cons.IH(2) [of "max m z"] show ?case by auto }
qed auto

text \<open>A steady window: it starts at sample \<open>x\<close> with the samples \<open>xs\<close> from \<open>x\<close> on.\<close>

definition steady_at :: "rat \<Rightarrow> DCRSample list \<Rightarrow> bool" where
  "steady_at last_T xs \<longleftrightarrow>
     d_T (hd xs) + of_int SettleHoldS \<le> last_T \<and>
     (\<forall>y \<in> set xs. d_T y \<le> d_T (hd xs) + of_int SettleHoldS \<longrightarrow> \<bar>d_DCR y - d_DCR (hd xs)\<bar> \<le> SettleBandC)"

lemma takeWhile_sorted_filter:
  fixes f :: "'b \<Rightarrow> rat"
  assumes "sorted (map f xs)"
  shows "takeWhile (\<lambda>y. f y \<le> b) xs = filter (\<lambda>y. f y \<le> b) xs"
  using assms
proof (induction xs)
  case (Cons x xs)
  show ?case
  proof (cases "f x \<le> b")
    case False
    then have "filter (\<lambda>y. f y \<le> b) xs = []"
      using Cons.prems by (fastforce simp: filter_empty_conv)
    with False show ?thesis by simp
  qed (use Cons in simp)
qed simp

lemma window_filter:
  assumes "sorted (map d_T (x # xs))"
  shows "list_all (\<lambda>y. \<not> absInt (d_DCR y - d_DCR x) > SettleBandC)
           (takeWhile (\<lambda>y. d_T y \<le> d_T x + of_int SettleHoldS) (x # xs)) \<longleftrightarrow>
         (\<forall>y \<in> set (x # xs). d_T y \<le> d_T x + of_int SettleHoldS \<longrightarrow> \<bar>d_DCR y - d_DCR x\<bar> \<le> SettleBandC)"
  unfolding takeWhile_sorted_filter [OF assms] list_all_iff by (auto simp: not_less)

lemma settle_loop_Some:
  assumes "sorted (map d_T xs)" "settle_loop last_T xs = Some (t, v)"
  shows "\<exists>i < length xs. t = d_T (xs ! i) \<and> v = d_DCR (xs ! i) \<and> steady_at last_T (drop i xs) \<and>
           (\<forall>j < i. \<not> steady_at last_T (drop j xs))"
  using assms
proof (induction xs)
  case (Cons x xs)
  show ?case
  proof (cases "steady_at last_T (x # xs)")
    case True
    then have "settle_loop last_T (x # xs) = Some (d_T x, d_DCR x)"
      using window_filter [OF Cons.prems(1)] by (simp add: steady_at_def Let_def)
    with Cons.prems(2) True show ?thesis by (intro exI [of _ 0]) simp
  next
    case False
    have rest: "settle_loop last_T xs = Some (t, v)"
      using False Cons.prems(2) window_filter [OF Cons.prems(1)]
      by (auto simp: steady_at_def Let_def split: if_splits)
    obtain i where "i < length xs" "t = d_T (xs ! i)" "v = d_DCR (xs ! i)"
      "steady_at last_T (drop i xs)" "\<forall>j < i. \<not> steady_at last_T (drop j xs)"
      using Cons.IH [OF _ rest] Cons.prems(1) by auto
    with False show ?thesis
      by (intro exI [of _ "Suc i"]) (auto simp: less_Suc_eq_0_disj)
  qed
qed simp

lemma settle_loop_None:
  assumes "sorted (map d_T xs)" "settle_loop last_T xs = None" "i < length xs"
  shows "\<not> steady_at last_T (drop i xs)"
  using assms
proof (induction xs arbitrary: i)
  case (Cons x xs)
  show ?case
  proof (cases "d_T x + of_int SettleHoldS > last_T")
    case True
    have "d_T x \<le> d_T (hd (drop i (x # xs)))"
      using Cons.prems(1,3) by (cases i) (auto simp: hd_drop_conv_nth)
    with True show ?thesis by (simp add: steady_at_def)
  next
    case False
    then have "settle_loop last_T xs = None" and "\<not> steady_at last_T (x # xs)"
      using Cons.prems(2) window_filter [OF Cons.prems(1)]
      by (auto simp: steady_at_def Let_def split: if_splits)
    with Cons show ?thesis by (cases i) auto
  qed
qed simp

section \<open>The verdicts of EvalHandback\<close>

text \<open>The first sample, in time order, at which the register had left the written value.\<close>

definition first_left :: "HandbackRun \<Rightarrow> DCRSample option" where
  "first_left r = find (\<lambda>x. LeaveCounts \<le> dev (hr_Written r) x) (sort_key d_T (hr_Samples r))"

definition last_time :: "HandbackRun \<Rightarrow> rat" where
  "last_time r = d_T (last (sort_key d_T (hr_Samples r)))"

definition first_time :: "HandbackRun \<Rightarrow> rat" where
  "first_time r = d_T (hd (sort_key d_T (hr_Samples r)))"

definition observed :: "HandbackRun \<Rightarrow> rat" where
  "observed r = (if hr_TimingKnown r then last_time r else last_time r - first_time r)"

definition steady_window :: "HandbackRun \<Rightarrow> (rat \<times> int) option" where
  "steady_window r = settle_loop (last_time r) (sort_key d_T (hr_Samples r))"

lemma dev_loop_eval:
  "dev_loop w tk xs (0, False, None, True) =
     (foldl max 0 (map (dev w) xs), (\<exists>x \<in> set xs. LeaveCounts \<le> dev w x),
      (if tk then map_option d_T (find (\<lambda>x. LeaveCounts \<le> dev w x) xs) else None),
      (\<forall>x \<in> set xs. dev w x \<le> HoldCounts))"
  by (simp add: prod_eq_iff dev_loop_max dev_loop_left dev_loop_leftAt dev_loop_within)

lemma EvalHandback_T2:
  assumes "hr_Samples r \<noteq> []"
  shows "sr_T2 (EvalHandback r) =
    (if hr_Crossed r \<noteq> '''' \<or> too_close r then Inconclusive
     else case first_left r of
        Some x \<Rightarrow> if hr_TimingKnown r \<and> d_T x \<le> of_int LeaveWithinS then Pass else Inconclusive
      | None \<Rightarrow> if (\<forall>x \<in> set (hr_Samples r). dev (hr_Written r) x \<le> HoldCounts) \<and> hr_TimingKnown r \<and>
                   of_int (hr_limit r + SettleHoldS) \<le> last_time r
                then Fail else Inconclusive)"
proof -
  let ?smp = "sort_key d_T (hr_Samples r)"
  have left: "(\<exists>x \<in> set (hr_Samples r). LeaveCounts \<le> dev (hr_Written r) x) \<longleftrightarrow> first_left r \<noteq> None"
    by (auto simp: first_left_def find_None_iff)
  show ?thesis
    using assms left
    by (cases "first_left r")
      (simp_all add: EvalHandback_def Let_def dev_loop_eval t2_close_rule_def t2_switch_def
        crossed_rule_def observed_def last_time_def first_left_def split_beta)
qed

lemma EvalHandback_T3:
  assumes "hr_Samples r \<noteq> []"
  shows "sr_T3 (EvalHandback r) =
    (if hr_Crossed r \<noteq> '''' then Inconclusive
     else case steady_window r of
        Some (t, v) \<Rightarrow> if hr_TimingKnown r then (if t \<le> of_int (hr_limit r) then Pass else Fail)
                      else Inconclusive
      | None \<Rightarrow> if hr_TimingKnown r \<and> of_int (hr_limit r + SettleHoldS) \<le> last_time r
                then Fail else Inconclusive)"
  using assms
  by (simp add: EvalHandback_def Let_def dev_loop_eval t3_switch_def crossed_rule_def
      last_time_def steady_window_def split_beta split: option.splits)

lemma EvalHandback_no_samples:
  "hr_Samples r = [] \<Longrightarrow> sr_T2 (EvalHandback r) = Inconclusive \<and> sr_T3 (EvalHandback r) = Inconclusive"
  by (simp add: EvalHandback_def)

lemma EvalHandback_fields [simp]:
  "sr_Label (EvalHandback r) = hr_Label r"
  "sr_Reg (EvalHandback r) = hr_Reg r"
  "sr_Written (EvalHandback r) = hr_Written r"
  by (simp_all add: EvalHandback_def Let_def split_beta)

lemma EvalHandback_Left:
  "sr_Left (EvalHandback r) \<longleftrightarrow> (\<exists>x \<in> set (hr_Samples r). LeaveCounts \<le> dev (hr_Written r) x)"
  by (simp add: EvalHandback_def Let_def dev_loop_eval split_beta)

lemma EvalHandback_Final:
  "hr_Samples r \<noteq> [] \<Longrightarrow> sr_FinalValue (EvalHandback r) = map_option snd (steady_window r)"
  by (simp add: EvalHandback_def Let_def dev_loop_eval split_beta steady_window_def last_time_def)

text \<open>Samples with distinct times are sorted in one way: their recording order does not matter.\<close>

lemma sort_key_order_irrelevant:
  assumes "mset xs = mset ys" "distinct (map d_T xs)"
  shows "sort_key d_T xs = sort_key d_T ys"
proof (rule map_sorted_distinct_set_unique [of d_T])
  have s: "set xs = set ys" using assms(1) by (rule mset_eq_setD)
  have inj: "inj_on d_T (set xs)" using assms(2) by (simp add: distinct_map)
  then show "inj_on d_T (set (sort_key d_T xs) \<union> set (sort_key d_T ys))" by (simp add: s)
  have "mset (map d_T xs) = mset (map d_T ys)" using assms(1) by simp
  then have "distinct (map d_T ys)" using assms(2) by (metis mset_eq_imp_distinct_iff)
  then show "distinct (map d_T (sort_key d_T ys))"
    by (simp add: distinct_map)
  show "distinct (map d_T (sort_key d_T xs))" using assms(2) by (simp add: distinct_map)
  show "set (sort_key d_T xs) = set (sort_key d_T ys)" by (simp add: s)
qed simp_all

section \<open>The verdicts in terms of the samples\<close>

lemma sort_find_least:
  assumes "find P (sort_key d_T xs) = Some x"
  shows "x \<in> set xs" "P x" "\<And>y. y \<in> set xs \<Longrightarrow> P y \<Longrightarrow> d_T x \<le> d_T y"
proof -
  obtain i where i: "i < length (sort_key d_T xs)" "P (sort_key d_T xs ! i)" "x = sort_key d_T xs ! i"
    "\<forall>j < i. \<not> P (sort_key d_T xs ! j)" using assms by (auto simp: find_Some_iff)
  then show "x \<in> set xs" "P x" by (metis nth_mem set_sort, blast)
  fix y assume y: "y \<in> set xs" "P y"
  then obtain j where j: "j < length (sort_key d_T xs)" "y = sort_key d_T xs ! j"
    by (metis in_set_conv_nth set_sort)
  with i y have "i \<le> j" by (metis not_le)
  with i j show "d_T x \<le> d_T y"
    using sorted_nth_mono [of "map d_T (sort_key d_T xs)" i j] by simp
qed

lemma last_time_ge:
  assumes "hr_Samples r \<noteq> []"
  shows "b \<le> last_time r \<longleftrightarrow> (\<exists>x \<in> set (hr_Samples r). b \<le> d_T x)"
proof -
  define s where "s = sort_key d_T (hr_Samples r)"
  have st: "set s = set (hr_Samples r)" by (simp add: s_def)
  have ne: "s \<noteq> []" using assms st by (metis set_empty)
  have "sorted (map d_T s)" by (simp add: s_def)
  then have "sorted (map d_T (butlast s @ [last s]))" using ne by simp
  then have "\<forall>x \<in> set (butlast s). d_T x \<le> d_T (last s)" by (simp add: sorted_append)
  moreover have "set s = insert (last s) (set (butlast s))"
    using append_butlast_last_id [OF ne] by (metis list.simps(15) rotate1.simps(2) set_rotate1)
  ultimately have top: "\<forall>x \<in> set s. d_T x \<le> d_T (last s)" by auto
  have mem: "last s \<in> set s" using ne by (rule last_in_set)
  have "last_time r = d_T (last s)" by (simp add: last_time_def s_def)
  then show ?thesis using top mem st by (metis order_trans)
qed

lemma first_left_within:
  "(\<exists>x. first_left r = Some x \<and> d_T x \<le> b) \<longleftrightarrow>
     (\<exists>x \<in> set (hr_Samples r). LeaveCounts \<le> dev (hr_Written r) x \<and> d_T x \<le> b)"
proof (cases "first_left r")
  case None
  then have "\<forall>x \<in> set (hr_Samples r). \<not> LeaveCounts \<le> dev (hr_Written r) x"
    by (auto simp: first_left_def find_None_iff)
  with None show ?thesis by auto
next
  case (Some x)
  note f = sort_find_least [OF Some [unfolded first_left_def]]
  show ?thesis using Some f by (auto intro: order_trans)
qed

text \<open>A steady window of the log: its first sample, and every sample up to its end.\<close>

definition steady_from :: "DCRSample list \<Rightarrow> DCRSample \<Rightarrow> bool" where
  "steady_from smp x \<longleftrightarrow> x \<in> set smp \<and>
     (\<exists>y \<in> set smp. d_T x + of_int SettleHoldS \<le> d_T y) \<and>
     (\<forall>y \<in> set smp. d_T x \<le> d_T y \<and> d_T y \<le> d_T x + of_int SettleHoldS \<longrightarrow> \<bar>d_DCR y - d_DCR x\<bar> \<le> SettleBandC)"

lemma set_drop_sorted:
  assumes "sorted (map d_T xs)" "distinct (map d_T xs)" "i < length xs"
  shows "set (drop i xs) = {y \<in> set xs. d_T (xs ! i) \<le> d_T y}"
proof -
  have xs: "xs = take i xs @ xs ! i # drop (Suc i) xs" using assms(3) by (rule id_take_nth_drop)
  have d: "drop i xs = xs ! i # drop (Suc i) xs" using assms(3) by (simp add: Cons_nth_drop_Suc)
  define u v where "u = take i xs" and "v = drop (Suc i) xs"
  have "sorted (map d_T (u @ xs ! i # v))" "distinct (map d_T (u @ xs ! i # v))"
    using assms(1,2) xs by (simp_all add: u_def v_def)
  then have "\<forall>y \<in> set u. d_T y \<le> d_T (xs ! i) \<and> d_T y \<noteq> d_T (xs ! i)" "\<forall>y \<in> set v. d_T (xs ! i) \<le> d_T y"
    by (auto simp: sorted_append) (metis image_eqI)
  then have "set (xs ! i # v) = {y \<in> set (u @ xs ! i # v). d_T (xs ! i) \<le> d_T y}" by fastforce
  then show ?thesis using xs d by (simp add: u_def v_def)
qed

lemma steady_at_from:
  assumes "hr_Samples r \<noteq> []" "distinct (map d_T (hr_Samples r))"
    and "i < length (hr_Samples r)"
  shows "steady_at (last_time r) (drop i (sort_key d_T (hr_Samples r))) \<longleftrightarrow>
    steady_from (hr_Samples r) (sort_key d_T (hr_Samples r) ! i)"
proof -
  define s where "s = sort_key d_T (hr_Samples r)"
  have s: "sorted (map d_T s)" "distinct (map d_T s)" "i < length s" "set s = set (hr_Samples r)"
    using assms by (simp_all add: s_def distinct_map)
  have h: "hd (drop i s) = s ! i" using s(3) by (rule hd_drop_conv_nth)
  have m: "s ! i \<in> set (hr_Samples r)" using s(3,4) by (metis nth_mem)
  show ?thesis
    unfolding s_def [symmetric] steady_at_def steady_from_def h set_drop_sorted [OF s(1-3)]
      last_time_ge [OF assms(1)] s(4) using m by auto
qed

lemma steady_window_first:
  assumes ne: "hr_Samples r \<noteq> []" and d: "distinct (map d_T (hr_Samples r))"
  shows "steady_window r = Some (t, v) \<longleftrightarrow>
    (\<exists>x. steady_from (hr_Samples r) x \<and> t = d_T x \<and> v = d_DCR x \<and>
       (\<forall>y. steady_from (hr_Samples r) y \<longrightarrow> t \<le> d_T y))" (is "?l \<longleftrightarrow> ?r")
    and "steady_window r = None \<longleftrightarrow> (\<forall>x. \<not> steady_from (hr_Samples r) x)"
proof -
  define s where "s = sort_key d_T (hr_Samples r)"
  have s: "sorted (map d_T s)" "length s = length (hr_Samples r)" "set s = set (hr_Samples r)"
    "distinct (map d_T s)"
    using d by (simp_all add: s_def distinct_map)
  note sf = steady_at_from [OF ne d, folded s_def]
  have idx: "\<exists>j < length s. y = s ! j" if "steady_from (hr_Samples r) y" for y
    using that s(3) by (metis in_set_conv_nth steady_from_def)
  have 1: "?l \<Longrightarrow> ?r"
  proof -
    assume ?l
    then obtain i where i: "i < length s" "t = d_T (s ! i)" "v = d_DCR (s ! i)"
      "steady_at (last_time r) (drop i s)" "\<forall>j < i. \<not> steady_at (last_time r) (drop j s)"
      using settle_loop_Some [OF s(1)] unfolding steady_window_def s_def [symmetric] by blast
    have "t \<le> d_T y" if y: "steady_from (hr_Samples r) y" for y
    proof -
      obtain j where j: "j < length s" "y = s ! j" using idx [OF y] by blast
      then have "i \<le> j" using i(5) sf y s(2) by (metis not_le)
      then show ?thesis using sorted_nth_mono [OF s(1), of i j] i(1,2) j by simp
    qed
    then show ?r using i sf s(2) by metis
  qed
  have 2: "\<exists>t v. steady_window r = Some (t, v)" if x: "steady_from (hr_Samples r) x" for x
  proof (rule ccontr)
    assume "\<not> (\<exists>t v. steady_window r = Some (t, v))"
    then have n: "settle_loop (last_time r) s = None"
      unfolding steady_window_def s_def by (metis not_None_eq surj_pair)
    obtain j where j: "j < length s" "x = s ! j" using idx [OF x] by blast
    then show False using settle_loop_None [OF s(1) n j(1)] sf x s(2) by metis
  qed
  show "steady_window r = None \<longleftrightarrow> (\<forall>x. \<not> steady_from (hr_Samples r) x)"
  proof
    assume "steady_window r = None"
    then show "\<forall>x. \<not> steady_from (hr_Samples r) x" using 2 by fastforce
  next
    assume n: "\<forall>x. \<not> steady_from (hr_Samples r) x"
    have "steady_window r \<noteq> Some (t', v')" for t' v'
    proof
      assume "steady_window r = Some (t', v')"
      then obtain i where "i < length s" "steady_at (last_time r) (drop i s)"
        using settle_loop_Some [OF s(1)] unfolding steady_window_def s_def [symmetric] by blast
      then show False using n sf s(2) by metis
    qed
    then show "steady_window r = None" by (metis not_None_eq surj_pair)
  qed
  show "?l \<longleftrightarrow> ?r"
  proof
    assume ?r
    then obtain x where x: "steady_from (hr_Samples r) x" "t = d_T x" "v = d_DCR x"
      "\<forall>y. steady_from (hr_Samples r) y \<longrightarrow> t \<le> d_T y" by blast
    obtain t' v' where w: "steady_window r = Some (t', v')" using 2 [OF x(1)] by blast
    then obtain i where i: "i < length s" "t' = d_T (s ! i)" "v' = d_DCR (s ! i)" "steady_at (last_time r) (drop i s)"
      "\<forall>j < i. \<not> steady_at (last_time r) (drop j s)"
      using settle_loop_Some [OF s(1)] unfolding steady_window_def s_def [symmetric] by blast
    have "t \<le> d_T (s ! i)" using x(4) i sf s(2) by metis
    obtain j where j: "j < length s" "x = s ! j" using idx [OF x(1)] by blast
    then have "i \<le> j" using i(5) sf x(1) s(2) by (metis not_le)
    then have "d_T (s ! i) \<le> d_T (s ! j)" using sorted_nth_mono [OF s(1), of i j] j by simp
    with \<open>t \<le> d_T (s ! i)\<close> x(2) j have "map d_T s ! i = map d_T s ! j" using i(1) by simp
    then have "i = j" using nth_eq_iff_index_eq [OF s(4), of i j] i(1) j(1) by simp
    then show ?l using w i j x by simp
  qed (rule 1)
qed

end
