(* ===== verification/Spec_Aggregate.thy ===== *)
theory Spec_Aggregate
  imports Spec_Handback
begin

text \<open>
  The results of the tests and the verdict over registers and repetitions, internal/spec/eval.go:
  \<open>Criterion\<close>, \<open>Result\<close>, \<open>RunResult\<close>, \<open>T1Step\<close>, \<open>combine\<close>, \<open>EvalHandbackRegs\<close> and
  \<open>AggregateHandback\<close>.
\<close>

section \<open>Data\<close>

text \<open>
  The optional \<open>Values\<close> map of a criterion is never set by the code of this repository and is
  left out. \<open>Values\<close> of a result is an \<open>any\<close> in Go; the constructors are the values stored in
  it. A Go map read with a default is a total function.
\<close>

record Criterion =
  c_Name :: string
  c_Met :: "bool option"
  c_Detail :: string

record T1Step =
  st_Duty :: int
  st_DCR :: "int list"
  st_DCR4 :: "int list"
  st_Fans :: "int \<Rightarrow> int list"
  st_Others :: "int \<Rightarrow> int list"
  st_OwnRPM :: rat
  st_T :: "rat list"
  st_Inputs :: "int \<Rightarrow> fl list"
  st_NotJudged :: "string list"

record RunResult =
  rr_Run :: nat
  rr_Verdict :: Verdict
  rr_Reason :: string
  rr_Subs :: "RegsResult list"

datatype Values = NoValues
  | IdentityFields "(string \<times> string) list"
  | MappingSteps "T1Step list"
  | AmbientMax rat nat
  | HandbackValues int int "string list" rat "(int \<times> int) list"

record Result =
  r_ID :: string
  r_Channel :: int
  r_Verdict :: Verdict
  r_Reasons :: "string list"
  r_Criteria :: "Criterion list"
  r_Runs :: "RunResult list"
  r_Values :: Values

definition mk_result :: "string \<Rightarrow> int \<Rightarrow> Verdict \<Rightarrow> string list \<Rightarrow> Result" where
  "mk_result i ch v why =
     \<lparr> r_ID = i, r_Channel = ch, r_Verdict = v, r_Reasons = why, r_Criteria = [], r_Runs = [], r_Values = NoValues \<rparr>"

section \<open>Means\<close>

text \<open>\<open>mean\<close> and \<open>meanF\<close>: \<open>None\<close> stands for the second result false.\<close>

definition mean :: "int list \<Rightarrow> rat option" where
  "mean v = (let xs = filter (\<lambda>x. x \<ge> 0) v
             in if xs = [] then None else Some (of_int (sum_list xs) / of_nat (length xs)))"

definition meanF :: "fl list \<Rightarrow> rat option" where
  "meanF v = (let xs = values_of v
              in if xs = [] then None else Some (sum_list xs / of_nat (length xs)))"

section \<open>combine\<close>

definition combine :: "Verdict list \<Rightarrow> Verdict" where
  "combine vs =
     (if vs = [] then Inconclusive
      else if list_all (\<lambda>x. x = Pass) vs then Pass
      else if list_all (\<lambda>x. x = Fail) vs then Fail
      else Inconclusive)"

lemma combine_Pass: "combine vs = Pass \<longleftrightarrow> vs \<noteq> [] \<and> set vs = {Pass}"
  by (cases vs) (auto simp: combine_def list_all_iff)

lemma combine_Fail: "combine vs = Fail \<longleftrightarrow> vs \<noteq> [] \<and> set vs = {Fail}"
  by (cases vs) (auto simp: combine_def list_all_iff)

lemma combine_all:
  "v \<in> {Pass, Fail} \<Longrightarrow> combine vs = v \<longleftrightarrow> vs \<noteq> [] \<and> (\<forall>x \<in> set vs. x = v)"
  by (cases vs) (auto simp: combine_def list_all_iff)

lemma combine_range: "combine vs \<in> {Pass, Fail, Inconclusive}"
  by (simp add: combine_def)

lemma combine_eq_cong: "set us = set vs \<Longrightarrow> combine us = combine vs"
  by (cases us; cases vs) (auto simp: combine_def list_all_iff)

section \<open>Every judged register of a sub-run: EvalHandbackRegs\<close>

definition regs_result :: "SubResult \<Rightarrow> RegsResult" where
  "regs_result s = SubResult.extend s (RegsResult.fields [] None [])"

definition reg_name :: "nat \<Rightarrow> SubResult \<Rightarrow> string" where
  "reg_name i x = (if sr_Reg x \<noteq> '''' then sr_Reg x else ''register '' @ itoa (int i + 1))"

definition reg_names :: "SubResult list \<Rightarrow> string list" where
  "reg_names rs = map (\<lambda>(i, x). reg_name i x) (List.enumerate 0 rs)"

definition reg_part :: "string \<Rightarrow> Verdict \<times> string \<Rightarrow> string" where
  [text_defs]: "reg_part n vw = n @ '' '' @ verdict_text (fst vw) @ '' ('' @ snd vw @ '')''"

definition disagree_note :: "string \<Rightarrow> string list \<Rightarrow> Verdict list \<Rightarrow> string" where
  [text_defs]: "disagree_note test names vs =
     test @ '': '' @ joins '', '' (map2 (\<lambda>n x. n @ '' '' @ verdict_text x) names vs)"

text \<open>The closure \<open>merge\<close>: the verdict, the reason, and the note it appends when registers disagree.\<close>

definition merge_regs :: "string \<Rightarrow> string list \<Rightarrow> (Verdict \<times> string) list \<Rightarrow> Verdict \<times> string \<times> string option" where
  "merge_regs test names vws =
     (let vs = map fst vws;
          parts = map2 reg_part names vws;
          v = combine vs;
          same = list_all (\<lambda>x. x = hd vs) vs
      in if \<not> same
         then (Inconclusive, joins ''/'' names @ '' disagree: '' @ joins ''; '' parts,
               Some (disagree_note test names vs))
         else (v, joins ''; '' parts, None))"

text \<open>The loop over the final values: the texts and whether a value differs from the first one.\<close>

definition final_text :: "string \<Rightarrow> SubResult \<Rightarrow> string" where
  [text_defs]: "final_text n x = (case sr_FinalValue x of None \<Rightarrow> n @ '' -'' | Some v \<Rightarrow> n @ '' '' @ itoa v)"

definition finals_differ :: "SubResult list \<Rightarrow> bool" where
  "finals_differ rs = list_ex (\<lambda>x. case (sr_FinalValue x, sr_FinalValue (hd rs)) of
     (Some v, Some v0) \<Rightarrow> v \<noteq> v0 | _ \<Rightarrow> False) rs"

definition finals_note :: "string list \<Rightarrow> SubResult list \<Rightarrow> string" where
  [text_defs]: "finals_note names rs =
     ''T3 final values differ (reported, not judged): '' @ joins '', '' (map2 final_text names rs)"

definition no_register :: RegsResult where
  "no_register =
     \<lparr> sr_Label = '''', sr_Reg = '''', sr_Written = 0, sr_Left = False, sr_LeftAtS = None, sr_MaxDev = 0,
       sr_HeldS = 0, sr_ObservedS = 0, sr_T2 = Inconclusive, sr_T2Reason = ''no register'',
       sr_Settled = False, sr_SettleAtS = None, sr_FinalValue = None, sr_T3 = Inconclusive,
       sr_T3Reason = ''no register'', sr_Others = [], sr_RegsAgree = None, sr_RegNotes = [] \<rparr>"

definition EvalHandbackRegs :: "HandbackRun list \<Rightarrow> RegsResult" where
  "EvalHandbackRegs runs =
     (if runs = [] then no_register
      else
        (let rs = map EvalHandback runs;
             s = regs_result (hd rs)
         in if length rs = 1 then s
            else
              (let names = reg_names rs;
                   (t2, why2, note2) = merge_regs ''T2'' names (map (\<lambda>x. (sr_T2 x, sr_T2Reason x)) rs);
                   (t3, why3, note3) = merge_regs ''T3'' names (map (\<lambda>x. (sr_T3 x, sr_T3Reason x)) rs);
                   agree = (note2 = None \<and> note3 = None);
                   notes = (case note2 of None \<Rightarrow> [] | Some n \<Rightarrow> [n]) @ (case note3 of None \<Rightarrow> [] | Some n \<Rightarrow> [n]);
                   notes = (if finals_differ rs then notes @ [finals_note names rs] else notes)
               in s\<lparr> sr_Others := tl rs, sr_T2 := t2, sr_T2Reason := why2, sr_T3 := t3, sr_T3Reason := why3,
                     sr_Left := (sr_Left (hd rs) \<and> list_all sr_Left (tl rs)),
                     sr_RegNotes := notes, sr_RegsAgree := Some agree \<rparr>)))"

section \<open>The repetitions: AggregateHandback\<close>

definition missing_labels :: "string list \<Rightarrow> RegsResult list \<Rightarrow> string list" where
  "missing_labels want subs = filter (\<lambda>l. l \<notin> sr_Label ` set subs) want"

definition missing_text :: "string list \<Rightarrow> string" where
  [text_defs]: "missing_text ms = ''sub-run '' @ joins '', '' ms @ '' missing (one direction only)''"

definition mixed_text :: string where [text_defs]: "mixed_text = ''mixed or undecided sub-runs''"

text \<open>The two \<open>RunResult\<close> of repetition \<open>i\<close>; only T2 names mixed sub-runs.\<close>

definition run_T2 :: "string list \<Rightarrow> nat \<Rightarrow> RegsResult list \<Rightarrow> RunResult" where
  "run_T2 want i subs =
     (let ms = missing_labels want subs; v = combine (map sr_T2 subs)
      in if ms \<noteq> [] then \<lparr> rr_Run = i, rr_Verdict = Inconclusive, rr_Reason = missing_text ms, rr_Subs = subs \<rparr>
         else \<lparr> rr_Run = i, rr_Verdict = v, rr_Reason = (if v = Inconclusive then mixed_text else ''''), rr_Subs = subs \<rparr>)"

definition run_T3 :: "string list \<Rightarrow> nat \<Rightarrow> RegsResult list \<Rightarrow> RunResult" where
  "run_T3 want i subs =
     (let ms = missing_labels want subs
      in \<lparr> rr_Run = i, rr_Verdict = (if ms \<noteq> [] then Inconclusive else combine (map sr_T3 subs)),
           rr_Reason = (if ms \<noteq> [] then missing_text ms else ''''), rr_Subs = subs \<rparr>)"

definition too_few_text :: "nat \<Rightarrow> string" where
  [text_defs]: "too_few_text n = ''n='' @ itoa (int n) @ '' of '' @ itoa (int RunsRequired) @ '' runs''"

definition run_reason :: "RunResult \<Rightarrow> string list" where
  [text_defs]: "run_reason r =
     (if rr_Reason r \<noteq> '''' then [''run '' @ itoa (int (rr_Run r)) @ '': '' @ rr_Reason r] else [])"

definition sub_reason :: "RunResult \<Rightarrow> RegsResult \<Rightarrow> string \<Rightarrow> string" where
  [text_defs]: "sub_reason r s why = ''run '' @ itoa (int (rr_Run r)) @ '' '' @ sr_Label s @ '': '' @ why"

definition left_crit :: "RegsResult list \<Rightarrow> Criterion list" where
  "left_crit subs =
     (let seen = length subs; met = length (filter sr_Left subs)
      in if 0 < seen
         then [\<lparr> c_Name = ''left written value (|DCR - written| >= 16)'', c_Met = Some (met = seen),
                 c_Detail = itoa (int met) @ '' of '' @ itoa (int seen) @ '' sub-runs'' \<rparr>]
         else [])"

text \<open>The closure \<open>regsCrit\<close>: the criterion over the sub-runs with more than one register.\<close>

definition sub_agrees :: "string \<Rightarrow> RegsResult \<Rightarrow> bool" where
  "sub_agrees test s \<longleftrightarrow> \<not> list_ex (has_prefix (test @ '': '')) (sr_RegNotes s)"

definition regs_notes :: "string \<Rightarrow> RunResult list \<Rightarrow> string list" where
  "regs_notes test rs =
     concat (map (\<lambda>r. concat (map (\<lambda>s.
        if sr_RegsAgree s = None then []
        else map (sub_reason r s) (filter (has_prefix test) (sr_RegNotes s))) (rr_Subs r))) rs)"

definition regsCrit :: "string \<Rightarrow> RunResult list \<Rightarrow> Criterion list" where
  "regsCrit test rs =
     (let judged = filter (\<lambda>s. sr_RegsAgree s \<noteq> None) (concat (map rr_Subs rs));
          seen = length judged;
          agree = length (filter (sub_agrees test) judged);
          notes = regs_notes test rs
      in if 0 < seen
         then [\<lparr> c_Name = ''registers agree (DCR3 and DCR4: same '' @ test @ '' verdict per sub-run)'',
                 c_Met = Some (agree = seen),
                 c_Detail = itoa (int agree) @ '' of '' @ itoa (int seen) @ '' sub-runs agree'' @
                   (if notes \<noteq> [] then ''; '' @ joins ''; '' notes else '''') \<rparr>]
         else [])"

definition AggregateHandback :: "int \<Rightarrow> RegsResult list list \<Rightarrow> string list \<Rightarrow> Result \<times> Result" where
  "AggregateHandback ch runs want =
     (let runs2 = map (\<lambda>(i, subs). run_T2 want i subs) (List.enumerate 1 runs);
          runs3 = map (\<lambda>(i, subs). run_T3 want i subs) (List.enumerate 1 runs);
          few = length runs < RunsRequired;
          v2 = (if few then Inconclusive else combine (map rr_Verdict runs2));
          v3 = (if few then Inconclusive else combine (map rr_Verdict runs3));
          reason = (if few then [too_few_text (length runs)] else []);
          why2 = reason @ concat (map (\<lambda>r. run_reason r @
                   map (\<lambda>s. sub_reason r s (sr_T2Reason s)) (rr_Subs r)) runs2);
          why3 = reason @ concat (map (\<lambda>r. map (\<lambda>s. sub_reason r s (sr_T3Reason s)) (rr_Subs r)) runs2)
      in ((mk_result ''T2'' ch v2 why2)\<lparr> r_Runs := runs2,
            r_Criteria := left_crit (concat runs) @ regsCrit ''T2'' runs2 \<rparr>,
          (mk_result ''T3'' ch v3 why3)\<lparr> r_Runs := runs3, r_Criteria := regsCrit ''T3'' runs2 \<rparr>))"

section \<open>The verdict over registers\<close>

lemma regs_result_sel [simp]:
  "sr_T2 (regs_result s) = sr_T2 s" "sr_T3 (regs_result s) = sr_T3 s" "sr_Left (regs_result s) = sr_Left s"
  "sr_Label (regs_result s) = sr_Label s" "sr_Others (regs_result s) = []" "sr_RegsAgree (regs_result s) = None"
  "sr_RegNotes (regs_result s) = []" "sr_FinalValue (regs_result s) = sr_FinalValue s"
  by (simp_all add: regs_result_def SubResult.extend_def RegsResult.fields_def)

lemma same_iff_singleton: "vs \<noteq> [] \<Longrightarrow> list_all (\<lambda>x. x = hd vs) vs \<longleftrightarrow> set vs = {hd vs}"
  by (cases vs) (auto simp: list_all_iff)

lemma merge_regs_verdict:
  assumes "vws \<noteq> []"
  shows "fst (merge_regs test names vws) = combine (map fst vws)"
proof -
  have "combine (map fst vws) = Inconclusive" if "set (map fst vws) \<noteq> {hd (map fst vws)}"
  proof -
    from assms obtain x xs where "map fst vws = x # xs" by (cases vws) auto
    with that show ?thesis by (auto simp: combine_def list_all_iff)
  qed
  with assms show ?thesis
    using same_iff_singleton [of "map fst vws"] by (auto simp: merge_regs_def Let_def)
qed

lemma all_hd_iff: "list_all (\<lambda>x. x = hd vs) vs \<longleftrightarrow> (\<forall>x \<in> set vs. \<forall>y \<in> set vs. x = y)"
proof -
  have "hd vs \<in> set vs" if "vs \<noteq> []" using that by (rule hd_in_set)
  then show ?thesis unfolding list_all_iff by (metis list.set_cases list.distinct(1))
qed

lemma merge_regs_note:
  "snd (snd (merge_regs test names vws)) = None \<longleftrightarrow> (\<forall>x \<in> set vws. \<forall>y \<in> set vws. fst x = fst y)"
proof -
  have "snd (snd (merge_regs test names vws)) = None \<longleftrightarrow> list_all (\<lambda>x. x = hd (map fst vws)) (map fst vws)"
    by (simp only: merge_regs_def Let_def split: if_splits) simp
  then show ?thesis unfolding all_hd_iff by simp
qed

lemma EvalHandbackRegs_verdicts:
  assumes "runs \<noteq> []"
  shows "sr_T2 (EvalHandbackRegs runs) =
           (if length runs = 1 then sr_T2 (EvalHandback (hd runs)) else combine (map (sr_T2 \<circ> EvalHandback) runs))"
    and "sr_T3 (EvalHandbackRegs runs) =
           (if length runs = 1 then sr_T3 (EvalHandback (hd runs)) else combine (map (sr_T3 \<circ> EvalHandback) runs))"
proof -
  let ?rs = "map EvalHandback runs"
  have "fst (merge_regs t names (map (\<lambda>x. (g x, h x)) ?rs)) = combine (map (g \<circ> EvalHandback) runs)"
    for t names and g :: "SubResult \<Rightarrow> Verdict" and h
    using assms by (subst merge_regs_verdict) (simp_all add: comp_def)
  then show "sr_T2 (EvalHandbackRegs runs) =
           (if length runs = 1 then sr_T2 (EvalHandback (hd runs)) else combine (map (sr_T2 \<circ> EvalHandback) runs))"
    and "sr_T3 (EvalHandbackRegs runs) =
           (if length runs = 1 then sr_T3 (EvalHandback (hd runs)) else combine (map (sr_T3 \<circ> EvalHandback) runs))"
    using assms by (simp_all add: EvalHandbackRegs_def Let_def split_beta hd_map del: fst_conv)
qed

lemma EvalHandbackRegs_Left:
  "runs \<noteq> [] \<Longrightarrow> sr_Left (EvalHandbackRegs runs) \<longleftrightarrow> (\<forall>r \<in> set runs. sr_Left (EvalHandback r))"
  by (cases runs) (auto simp: EvalHandbackRegs_def Let_def split_beta list_all_iff)

lemma EvalHandback_T2_range: "sr_T2 (EvalHandback r) \<in> {Pass, Fail, Inconclusive}"
  by (cases "hr_Samples r = []") (auto simp: EvalHandback_no_samples EvalHandback_T2 split: option.splits)

lemma EvalHandback_T3_range: "sr_T3 (EvalHandback r) \<in> {Pass, Fail, Inconclusive}"
  by (cases "hr_Samples r = []") (auto simp: EvalHandback_no_samples EvalHandback_T3 split: option.splits)

lemma combine_single: "v \<in> {Pass, Fail, Inconclusive} \<Longrightarrow> combine [v] = v"
  by (auto simp: combine_def)

text \<open>One register or several: the verdict of the sub-run is the combined verdict of its registers.\<close>

lemma EvalHandbackRegs_combine:
  assumes "runs \<noteq> []"
  shows "sr_T2 (EvalHandbackRegs runs) = combine (map (sr_T2 \<circ> EvalHandback) runs)"
    and "sr_T3 (EvalHandbackRegs runs) = combine (map (sr_T3 \<circ> EvalHandback) runs)"
  using assms EvalHandbackRegs_verdicts [OF assms] EvalHandback_T2_range EvalHandback_T3_range
  by (cases runs; fastforce simp: combine_single)+

lemma EvalHandback_Pass_Left: "sr_T2 (EvalHandback r) = Pass \<Longrightarrow> sr_Left (EvalHandback r)"
  by (cases "hr_Samples r = []")
    (auto simp: EvalHandback_no_samples EvalHandback_T2 EvalHandback_Left first_left_def
      dest!: find_SomeD split: option.splits if_splits)

lemma EvalHandbackRegs_Pass_Left:
  "runs \<noteq> [] \<Longrightarrow> sr_T2 (EvalHandbackRegs runs) = Pass \<Longrightarrow> sr_Left (EvalHandbackRegs runs)"
  using EvalHandback_Pass_Left
  by (fastforce simp: EvalHandbackRegs_combine combine_Pass EvalHandbackRegs_Left)

section \<open>The verdict over repetitions\<close>

lemma run_T2_verdict:
  "rr_Verdict (run_T2 want i subs) =
     (if missing_labels want subs = [] then combine (map sr_T2 subs) else Inconclusive)"
  by (simp add: run_T2_def Let_def)

lemma run_T3_verdict:
  "rr_Verdict (run_T3 want i subs) =
     (if missing_labels want subs = [] then combine (map sr_T3 subs) else Inconclusive)"
  by (simp add: run_T3_def Let_def)

lemma runs_verdicts:
  "map rr_Verdict (map (\<lambda>(i, subs). run_T2 want i subs) (List.enumerate k runs)) =
     map (\<lambda>subs. if missing_labels want subs = [] then combine (map sr_T2 subs) else Inconclusive) runs"
  "map rr_Verdict (map (\<lambda>(i, subs). run_T3 want i subs) (List.enumerate k runs)) =
     map (\<lambda>subs. if missing_labels want subs = [] then combine (map sr_T3 subs) else Inconclusive) runs"
  by (induction runs arbitrary: k) (simp_all add: run_T2_verdict run_T3_verdict)

lemma Aggregate_verdicts:
  "r_Verdict (fst (AggregateHandback ch runs want)) =
     (if length runs < RunsRequired then Inconclusive
      else combine (map (\<lambda>subs. if missing_labels want subs = [] then combine (map sr_T2 subs) else Inconclusive) runs))"
  "r_Verdict (snd (AggregateHandback ch runs want)) =
     (if length runs < RunsRequired then Inconclusive
      else combine (map (\<lambda>subs. if missing_labels want subs = [] then combine (map sr_T3 subs) else Inconclusive) runs))"
  unfolding AggregateHandback_def Let_def runs_verdicts mk_result_def by simp_all

definition complete_run :: "string list \<Rightarrow> RegsResult list \<Rightarrow> bool" where
  "complete_run want subs \<longleftrightarrow> subs \<noteq> [] \<and> set want \<subseteq> sr_Label ` set subs"

lemma missing_none: "missing_labels want subs = [] \<longleftrightarrow> set want \<subseteq> sr_Label ` set subs"
  by (auto simp: missing_labels_def filter_empty_conv)

lemma sub_verdicts_all:
  assumes v: "v \<in> {Pass, Fail}"
  shows "combine (map (\<lambda>subs. if missing_labels want subs = [] then combine (map f subs) else Inconclusive) runs) = v
     \<longleftrightarrow> runs \<noteq> [] \<and> (\<forall>subs \<in> set runs. complete_run want subs \<and> (\<forall>s \<in> set subs. f s = v))"
proof -
  have "(if missing_labels want subs = [] then combine (map f subs) else Inconclusive) = v \<longleftrightarrow>
      complete_run want subs \<and> (\<forall>s \<in> set subs. f s = v)" for subs
    using v combine_all [OF v, of "map f subs"] by (auto simp: complete_run_def missing_none)
  then show ?thesis unfolding combine_all [OF v] by (simp only: set_map ball_simps map_is_Nil_conv)
qed

lemma Aggregate_all:
  assumes v: "v \<in> {Pass, Fail}"
  shows "r_Verdict (fst (AggregateHandback ch runs want)) = v \<longleftrightarrow>
      RunsRequired \<le> length runs \<and> (\<forall>subs \<in> set runs. complete_run want subs \<and> (\<forall>s \<in> set subs. sr_T2 s = v))"
    and "r_Verdict (snd (AggregateHandback ch runs want)) = v \<longleftrightarrow>
      RunsRequired \<le> length runs \<and> (\<forall>subs \<in> set runs. complete_run want subs \<and> (\<forall>s \<in> set subs. sr_T3 s = v))"
  using v sub_verdicts_all [OF v, of want _ runs]
  by (auto simp: Aggregate_verdicts RunsRequired_def not_less)

end
