(* ===== verification/Spec_T1.thy ===== *)
theory Spec_T1
  imports Spec_Aggregate
begin

text \<open>
  T1, the mapping test: \<open>EvalT1\<close> of internal/spec/eval.go. The function is one long body in Go;
  here each criterion is a definition over the arguments (record \<open>T1Input\<close>), and \<open>EvalT1\<close>
  composes them in the order of the code.
\<close>

record T1Input =
  t1_ch :: int
  t1_own :: int
  t1_rest :: "int \<Rightarrow> int list"
  t1_restIn :: "int \<Rightarrow> fl list"
  t1_restDCR :: "int \<Rightarrow> int list"
  t1_steps :: "T1Step list"
  t1_fans :: "int list"

section \<open>Series\<close>

definition judged :: "T1Step \<Rightarrow> int \<Rightarrow> nat \<Rightarrow> bool" where
  "judged s ch i \<longleftrightarrow> (if length (st_T s) \<le> i then st_T s = [] else Judged ch (st_T s ! i))"

fun spread_loop :: "int list \<Rightarrow> int \<times> int \<times> bool \<Rightarrow> int \<times> int \<times> bool" where
  "spread_loop [] r = r"
| "spread_loop (x # xs) (lo, hi, ok) =
     (if x < 0 then spread_loop xs (lo, hi, ok)
      else spread_loop xs (if \<not> ok \<or> x < lo then x else lo, if \<not> ok \<or> x > hi then x else hi, True))"

definition spread :: "int list \<Rightarrow> int \<times> int \<times> bool" where
  "spread v = spread_loop v (0, 0, False)"

definition regSeries :: "int \<Rightarrow> (string \<times> (T1Step \<Rightarrow> int list)) list" where
  "regSeries ch = (if ch = 3 then [(''DCR3'', st_DCR), (''DCR4'', st_DCR4)] else [(''DCR'', st_DCR)])"

section \<open>Samples before the settle time\<close>

definition not_judged_text :: "int \<Rightarrow> T1Step \<Rightarrow> nat \<Rightarrow> string" where
  "not_judged_text ch s k =
     ''+'' @ fmt_f 1 (st_T s ! k) @ '' s: '' @
     joins '', '' (map (\<lambda>(name, get).
        let v = get s in if k < length v \<and> v ! k \<ge> 0 then name @ '' '' @ itoa (v ! k) else name @ '' -'') (regSeries ch))"

definition fill_not_judged :: "int \<Rightarrow> T1Step \<Rightarrow> T1Step" where
  "fill_not_judged ch s =
     s\<lparr> st_NotJudged := map (not_judged_text ch s) (filter (\<lambda>k. \<not> judged s ch k) [0..<length (st_T s)]) \<rparr>"

section \<open>DCR equals the written value\<close>

text \<open>The inner loop over one series: judged samples without a value, judged samples, first difference.\<close>

fun series_loop :: "int \<Rightarrow> T1Step \<Rightarrow> nat \<Rightarrow> int list \<Rightarrow> nat \<times> nat \<times> int option \<Rightarrow> nat \<times> nat \<times> int option" where
  "series_loop ch st i [] acc = acc"
| "series_loop ch st i (v # vs) (nMiss, nJudged, differs) =
     (if \<not> judged st ch i then series_loop ch st (Suc i) vs (nMiss, nJudged, differs)
      else if v < 0 then series_loop ch st (Suc i) vs (nMiss + 1, nJudged + 1, differs)
      else if v \<noteq> st_Duty st \<and> differs = None then series_loop ch st (Suc i) vs (nMiss, nJudged + 1, Some v)
      else series_loop ch st (Suc i) vs (nMiss, nJudged + 1, differs))"

definition series_scan :: "int \<Rightarrow> (T1Step \<Rightarrow> int list) \<Rightarrow> T1Step \<Rightarrow> nat \<times> nat \<times> int option" where
  "series_scan ch get st = series_loop ch st 0 (get st) (0, 0, None)"

definition bad_text :: "string \<Rightarrow> T1Step \<Rightarrow> int \<Rightarrow> string" where
  [text_defs]: "bad_text name st v = ''step '' @ itoa (st_Duty st) @ '': '' @ name @ '' '' @ itoa v"

definition no_judged_text :: "string \<Rightarrow> T1Step \<Rightarrow> string" where
  [text_defs]: "no_judged_text name st = ''step '' @ itoa (st_Duty st) @ '': no judged '' @ name @ '' sample''"

definition missing_dcr_text :: "string \<Rightarrow> T1Step \<Rightarrow> nat \<Rightarrow> nat \<Rightarrow> string" where
  [text_defs]: "missing_dcr_text name st m j = ''step '' @ itoa (st_Duty st) @ '': '' @ itoa (int m) @ '' of '' @
     itoa (int j) @ '' judged samples without '' @ name"

definition cell_bad :: "int \<Rightarrow> (string \<times> (T1Step \<Rightarrow> int list)) \<times> T1Step \<Rightarrow> string list" where
  "cell_bad ch = (\<lambda>((name, get), st). case series_scan ch get st of
     (_, _, Some v) \<Rightarrow> [bad_text name st v] | _ \<Rightarrow> [])"

definition cell_missing :: "int \<Rightarrow> (string \<times> (T1Step \<Rightarrow> int list)) \<times> T1Step \<Rightarrow> string list" where
  "cell_missing ch = (\<lambda>((name, get), st). case series_scan ch get st of
     (nMiss, nJudged, _) \<Rightarrow>
       if nJudged = 0 then [no_judged_text name st]
       else if nMiss > 0 then [missing_dcr_text name st nMiss nJudged] else [])"

definition t1_cells :: "T1Input \<Rightarrow> ((string \<times> (T1Step \<Rightarrow> int list)) \<times> T1Step) list" where
  "t1_cells x = List.product (regSeries (t1_ch x)) (t1_steps x)"

definition t1_bad :: "T1Input \<Rightarrow> string list" where
  "t1_bad x = concat (map (cell_bad (t1_ch x)) (t1_cells x))"

definition t1_missing :: "T1Input \<Rightarrow> string list" where
  "t1_missing x = concat (map (cell_missing (t1_ch x)) (t1_cells x))"

text \<open>\<open>dcrOK\<close> is cleared exactly when a text is appended to \<open>bad\<close>, \<open>dcrKnown\<close> when one is appended to \<open>missing\<close>.\<close>

definition dcrOK :: "T1Input \<Rightarrow> bool" where "dcrOK x \<longleftrightarrow> t1_bad x = []"
definition dcrKnown :: "T1Input \<Rightarrow> bool" where "dcrKnown x \<longleftrightarrow> t1_missing x = []"

definition dcr_crit_name :: "int \<Rightarrow> string" where
  [text_defs]: "dcr_crit_name ch = (if ch = 3 then ''DCR3 and DCR4 equal'' else ''DCR equals'') @
     '' the written value in every judged sample of every step (from +'' @ fmt_f 0 (SettleS ch) @ '' s after the write)''"

definition dcr_crit :: "T1Input \<Rightarrow> Criterion" where
  "dcr_crit x =
     \<lparr> c_Name = dcr_crit_name (t1_ch x),
       c_Met = (if \<not> dcrOK x then Some False else if dcrKnown x then Some True else None),
       c_Detail = (if \<not> dcrOK x then joins ''; '' (t1_bad x @ t1_missing x)
                   else if dcrKnown x then '''' else ''DCR not readable: '' @ joins ''; '' (t1_missing x)) \<rparr>"

section \<open>Tach noise at rest\<close>

definition noisy :: "T1Input \<Rightarrow> string list" where
  "noisy x = concat (map (\<lambda>f. case spread (t1_rest x f) of (lo, hi, ok) \<Rightarrow>
     if ok \<and> hi - lo > T1OtherRPM then [''fan'' @ itoa f @ '' '' @ itoa (hi - lo) @ '' rpm''] else []) (t1_fans x))"

definition noise_crit :: "T1Input \<Rightarrow> Criterion" where
  "noise_crit x = \<lparr> c_Name = ''tach noise at rest <= 50 rpm'', c_Met = Some (noisy x = []),
                    c_Detail = joins ''; '' (noisy x) \<rparr>"

section \<open>Duty registers of the other channels\<close>

fun other_loop :: "int \<Rightarrow> T1Step \<Rightarrow> int \<Rightarrow> nat \<Rightarrow> int list \<Rightarrow> nat \<times> int \<times> int \<times> nat list
    \<Rightarrow> nat \<times> int \<times> int \<times> nat list" where
  "other_loop ch st base i [] acc = acc"
| "other_loop ch st base i (v # vs) (nJudged, maxDev, devVal, miss) =
     (if \<not> judged st ch i then other_loop ch st base (Suc i) vs (nJudged, maxDev, devVal, miss)
      else if v < 0 then other_loop ch st base (Suc i) vs (nJudged + 1, maxDev, devVal, miss @ [i])
      else let d = absInt (v - base)
           in if d > maxDev then other_loop ch st base (Suc i) vs (nJudged + 1, d, v, miss)
              else other_loop ch st base (Suc i) vs (nJudged + 1, maxDev, devVal, miss))"

definition other_scan :: "int \<Rightarrow> int \<Rightarrow> int \<Rightarrow> T1Step \<Rightarrow> nat \<times> int \<times> int \<times> nat list" where
  "other_scan ch n base st = other_loop ch st base 0 (st_Others st n) (0, 0, 0, [])"

definition dev_text :: "int \<Rightarrow> int \<Rightarrow> T1Step \<Rightarrow> int \<Rightarrow> string" where
  [text_defs]: "dev_text n v st base = ''DCR'' @ itoa n @ '' '' @ itoa v @ '' at step '' @ itoa (st_Duty st) @
     '' (rest '' @ itoa base @ '')''"

definition other_sample_text :: "int \<Rightarrow> T1Step \<Rightarrow> nat \<Rightarrow> string" where
  [text_defs]: "other_sample_text n st i = ''step '' @ itoa (st_Duty st) @ '': DCR'' @ itoa n @ '' sample '' @ itoa (int i + 1)"

definition no_rest_text :: "int \<Rightarrow> string" where
  [text_defs]: "no_rest_text n = ''DCR'' @ itoa n @ '': no rest reference''"

text \<open>What one register in one step appends to \<open>moved\<close>, \<open>small\<close> and \<open>otherMissing\<close>.\<close>

definition step_moved :: "int \<Rightarrow> int \<Rightarrow> int \<Rightarrow> T1Step \<Rightarrow> string list" where
  "step_moved ch n base st = (case other_scan ch n base st of (nJudged, maxDev, devVal, miss) \<Rightarrow>
     if nJudged \<noteq> 0 \<and> maxDev \<ge> T1OtherDCR then [dev_text n devVal st base] else [])"

definition step_small :: "int \<Rightarrow> int \<Rightarrow> int \<Rightarrow> T1Step \<Rightarrow> string list" where
  "step_small ch n base st = (case other_scan ch n base st of (nJudged, maxDev, devVal, miss) \<Rightarrow>
     if nJudged \<noteq> 0 \<and> maxDev < T1OtherDCR \<and> maxDev > 0 then [dev_text n devVal st base] else [])"

definition step_missing :: "int \<Rightarrow> int \<Rightarrow> int \<Rightarrow> T1Step \<Rightarrow> string list" where
  "step_missing ch n base st = (case other_scan ch n base st of (nJudged, maxDev, devVal, miss) \<Rightarrow>
     map (other_sample_text n st) miss @ (if nJudged = 0 then [no_judged_text (''DCR'' @ itoa n) st] else []))"

definition rest_base :: "T1Input \<Rightarrow> int \<Rightarrow> int option" where
  "rest_base x n = map_option round_away (mean (t1_restDCR x n))"

definition reg_moved :: "T1Input \<Rightarrow> int \<Rightarrow> string list" where
  "reg_moved x n = (case rest_base x n of None \<Rightarrow> []
     | Some base \<Rightarrow> concat (map (step_moved (t1_ch x) n base) (t1_steps x)))"

definition moved :: "T1Input \<Rightarrow> string list" where
  "moved x = concat (map (reg_moved x) (OtherRegs (t1_ch x)))"

definition small :: "T1Input \<Rightarrow> string list" where
  "small x = concat (map (\<lambda>n. case rest_base x n of None \<Rightarrow> []
     | Some base \<Rightarrow> concat (map (step_small (t1_ch x) n base) (t1_steps x))) (OtherRegs (t1_ch x)))"

definition otherMissing :: "T1Input \<Rightarrow> string list" where
  "otherMissing x = concat (map (\<lambda>n. case rest_base x n of None \<Rightarrow> [no_rest_text n]
     | Some base \<Rightarrow> concat (map (step_missing (t1_ch x) n base) (t1_steps x))) (OtherRegs (t1_ch x)))"

definition movedCh :: "T1Input \<Rightarrow> int \<Rightarrow> bool" where
  "movedCh x c \<longleftrightarrow> list_ex (\<lambda>n. regChannel n = c \<and> reg_moved x n \<noteq> []) (OtherRegs (t1_ch x))"

definition other_crit :: "T1Input \<Rightarrow> Criterion" where
  "other_crit x =
     \<lparr> c_Name = ''duty registers of the other channels stay within '' @ itoa T1OtherDCR @ '' counts of their rest value'',
       c_Met = (if moved x \<noteq> [] then Some False else if otherMissing x = [] then Some True else None),
       c_Detail = (if moved x \<noteq> [] then joins ''; '' (moved x)
                   else if otherMissing x = [] then (if small x \<noteq> [] then ''reported: '' @ joins ''; '' (small x) else '''')
                   else ''not readable: '' @ joins ''; '' (otherMissing x)) \<rparr>"

section \<open>Other tachs: reported\<close>

definition follow_text :: "int \<Rightarrow> int \<Rightarrow> T1Step \<Rightarrow> rat \<Rightarrow> string" where
  [text_defs]: "follow_text f v st base = ''fan'' @ itoa f @ '' '' @ itoa v @ '' rpm at step '' @ itoa (st_Duty st) @
     '' (rest '' @ fmt_f 0 base @ '')''"

definition follows :: "T1Input \<Rightarrow> string list" where
  "follows x = concat (map (\<lambda>f.
     if f = t1_own x then []
     else case mean (t1_rest x f) of None \<Rightarrow> []
       | Some base \<Rightarrow> concat (map (\<lambda>st.
           case find (\<lambda>v. v \<ge> 0 \<and> \<bar>of_int v - base\<bar> > of_int T1OtherRPM) (st_Fans st f) of
             None \<Rightarrow> [] | Some v \<Rightarrow> [follow_text f v st base]) (t1_steps x))) (t1_fans x))"

definition follow_crit :: "T1Input \<Rightarrow> Criterion" where
  "follow_crit x = \<lparr> c_Name = ''other tachs within +-50 rpm (reported, not judged)'', c_Met = Some (follows x = []),
                     c_Detail = joins ''; '' (follows x) \<rparr>"

section \<open>Table inputs of the other channels\<close>

definition t1_inputs :: "T1Input \<Rightarrow> int \<Rightarrow> fl list" where
  "t1_inputs x c = concat (map (\<lambda>st. st_Inputs st c) (t1_steps x))"

definition input_seen :: "T1Input \<Rightarrow> int \<Rightarrow> bool" where
  "input_seen x c \<longleftrightarrow> c \<noteq> t1_ch x \<and> meanF (t1_restIn x c) \<noteq> None \<and> t1_inputs x c \<noteq> []"

definition input_crossed :: "T1Input \<Rightarrow> int \<Rightarrow> string" where
  "input_crossed x c = (if input_seen x c then Crossing c (meanF (t1_restIn x c)) (t1_inputs x c) else '''')"

definition crossed_text :: "int \<Rightarrow> string \<Rightarrow> string" where
  [text_defs]: "crossed_text c s = ''table input of pwm'' @ itoa c @ '' crossed a step ('' @ s @ '')''"

definition crossed :: "T1Input \<Rightarrow> string list" where
  "crossed x = map (\<lambda>c. crossed_text c (input_crossed x c)) (filter (\<lambda>c. input_crossed x c \<noteq> '''') [1, 2, 3])"

definition crossedFollow :: "T1Input \<Rightarrow> string list" where
  "crossedFollow x =
     map (\<lambda>c. crossed_text c (input_crossed x c)) (filter (\<lambda>c. input_crossed x c \<noteq> '''' \<and> movedCh x c) [1, 2, 3])"

definition input_crit :: "T1Input \<Rightarrow> Criterion" where
  "input_crit x =
     (let seen = list_ex (input_seen x) [1, 2, 3]
      in \<lparr> c_Name = ''table inputs of the other channels stay on their side of every step (+-2 C)'',
           c_Met = (if seen then Some (crossed x = []) else None),
           c_Detail = (if seen then joins ''; '' (crossed x) else ''table inputs not recorded'') \<rparr>)"

section \<open>Own tach\<close>

definition own_mean :: "T1Input \<Rightarrow> T1Step \<Rightarrow> rat option" where
  "own_mean x st = (let s = st_Fans st (t1_own x) in mean (if length s > 3 then drop (length s - 3) s else s))"

definition own_unread_text :: "T1Step \<Rightarrow> string" where
  [text_defs]: "own_unread_text st = ''step '' @ itoa (st_Duty st) @ '': own tach not readable''"

definition own_short_text :: "T1Step \<Rightarrow> T1Step \<Rightarrow> rat \<Rightarrow> string" where
  [text_defs]: "own_short_text p st d = itoa (st_Duty p) @ ''->'' @ itoa (st_Duty st) @ '': '' @ fmt_f 0 d @ '' rpm''"

text \<open>The loop over the steps; \<open>prev\<close> is the step before with its mean, when it is known.\<close>

fun own_loop :: "T1Input \<Rightarrow> (T1Step \<times> rat) option \<Rightarrow> T1Step list \<Rightarrow> string list" where
  "own_loop x prev [] = []"
| "own_loop x prev (st # sts) =
     (case own_mean x st of
        None \<Rightarrow> own_unread_text st # own_loop x None sts
      | Some m \<Rightarrow>
          (case prev of None \<Rightarrow> []
           | Some (p, pm) \<Rightarrow> if pm - m < of_int T1OwnStepRPM then [own_short_text p st (pm - m)] else [])
          @ own_loop x (Some (st, m)) sts)"

definition own_short :: "T1Input \<Rightarrow> string list" where
  "own_short x = (if t1_own x > 0 then own_loop x None (t1_steps x) else [])"

text \<open>\<open>ownOK\<close> is cleared exactly when a text is appended to \<open>short\<close>.\<close>

definition ownOK :: "T1Input \<Rightarrow> bool" where "ownOK x \<longleftrightarrow> own_short x = []"

definition own_crit :: "T1Input \<Rightarrow> Criterion list" where
  "own_crit x = (if t1_own x > 0
     then [\<lparr> c_Name = ''own tach changes >= 200 rpm per step (downwards)'', c_Met = Some (ownOK x),
             c_Detail = joins ''; '' (own_short x) \<rparr>] else [])"

definition fill_own :: "T1Input \<Rightarrow> T1Step \<Rightarrow> T1Step" where
  "fill_own x st = (if t1_own x > 0
     then st\<lparr> st_OwnRPM := (case own_mean x st of None \<Rightarrow> 0 | Some m \<Rightarrow> m) \<rparr> else st)"

section \<open>DCR3 against DCR4: reported\<close>

definition pair_text :: "T1Step \<Rightarrow> nat \<Rightarrow> int \<Rightarrow> int \<Rightarrow> string" where
  [text_defs]: "pair_text st i a b = ''step '' @ itoa (st_Duty st) @ '' sample '' @ itoa (int i + 1) @ '': DCR3 '' @
     itoa a @ '', DCR4 '' @ itoa b"

definition pairs :: "T1Input \<Rightarrow> (T1Step \<times> nat \<times> int \<times> int) list" where
  "pairs x = concat (map (\<lambda>st.
     map (\<lambda>i. (st, i, st_DCR st ! i, st_DCR4 st ! i))
       (filter (\<lambda>i. judged st (t1_ch x) i \<and> \<not> (st_DCR st ! i < 0 \<or> st_DCR4 st ! i < 0))
          [0..<min (length (st_DCR st)) (length (st_DCR4 st))])) (t1_steps x))"

definition pair_crit :: "T1Input \<Rightarrow> Criterion list" where
  "pair_crit x =
     (let diff = map (\<lambda>(st, i, a, b). pair_text st i a b) (filter (\<lambda>(st, i, a, b). a \<noteq> b) (pairs x))
      in if t1_ch x = 3
         then [\<lparr> c_Name = ''DCR3 and DCR4 equal in every judged sample (reported)'',
                 c_Met = (if pairs x \<noteq> [] then Some (diff = []) else None), c_Detail = joins ''; '' diff \<rparr>]
         else [])"

section \<open>Verdict\<close>

definition t1_verdict :: "T1Input \<Rightarrow> Verdict \<times> string" where
  "t1_verdict x =
     (if \<not> dcrOK x then (Fail,
        if t1_ch x = 3 then ''DCR3 or DCR4 differs from the written value'' else ''DCR differs from the written value'')
      else if moved x \<noteq> [] \<and> crossed x = [] then
        (Fail, ''another channel's duty register follows the written channel: '' @ joins ''; '' (moved x))
      else if crossedFollow x \<noteq> [] then
        (Inconclusive, joins ''; '' (crossedFollow x) @ ''; another channel's duty register moved'')
      else if \<not> dcrKnown x \<or> otherMissing x \<noteq> [] then
        (Inconclusive, ''DCR not readable: the verdict needs the duty registers (driver 0.2.1+sr1, debug_regs=1)'')
      else if noisy x \<noteq> [] then (Inconclusive, ''tach noise > 50 rpm at rest'')
      else if \<not> ownOK x then
        (Inconclusive, ''own tach moved less than 200 rpm in a step, or was not readable at the end of a step'')
      else if crossed x \<noteq> [] then (Inconclusive, joins ''; '' (crossed x))
      else (Pass,
        if t1_ch x = 3 then ''DCR3 and DCR4 equal to the written value at every step, own tach moved >= 200 rpm per step, other channels' duty registers stayed''
        else if t1_own x > 0 then ''DCR equal to the written value at every step, own tach moved >= 200 rpm per step, other channels' duty registers stayed''
        else ''DCR equal to the written value at every step, other channels' duty registers stayed (channel without tach)''))"

definition follow_reason :: "T1Input \<Rightarrow> string list" where
  "follow_reason x = (if follows x \<noteq> []
     then [''reported, not judged: tach outside +-50 rpm (airflow coupling unless a duty register moved): '' @
           joins ''; '' (follows x)] else [])"

definition EvalT1 :: "T1Input \<Rightarrow> Result" where
  "EvalT1 x0 =
     (let x = x0\<lparr> t1_steps := map (fill_not_judged (t1_ch x0)) (t1_steps x0) \<rparr>
      in (mk_result ''T1'' (t1_ch x) (fst (t1_verdict x)) (snd (t1_verdict x) # follow_reason x))
           \<lparr> r_Criteria := [dcr_crit x, noise_crit x, other_crit x, follow_crit x, input_crit x] @ own_crit x @ pair_crit x,
             r_Values := MappingSteps (map (fill_own x) (t1_steps x)) \<rparr>)"

section \<open>Characterisation of the loops\<close>

text \<open>The values of a series at its judged samples.\<close>

definition judged_vals :: "int \<Rightarrow> T1Step \<Rightarrow> nat \<Rightarrow> int list \<Rightarrow> int list" where
  "judged_vals ch st i vs = map snd (filter (\<lambda>(k, v). judged st ch k) (List.enumerate i vs))"

lemma judged_vals_simps [simp]:
  "judged_vals ch st i [] = []"
  "judged_vals ch st i (v # vs) =
     (if judged st ch i then v # judged_vals ch st (Suc i) vs else judged_vals ch st (Suc i) vs)"
  by (simp_all add: judged_vals_def)

lemma series_loop_eval:
  "series_loop ch st i vs (m, j, d) =
     (m + length (filter (\<lambda>v. v < 0) (judged_vals ch st i vs)), j + length (judged_vals ch st i vs),
      case d of None \<Rightarrow> find (\<lambda>v. 0 \<le> v \<and> v \<noteq> st_Duty st) (judged_vals ch st i vs) | Some v \<Rightarrow> Some v)"
  by (induction vs arbitrary: i m j d) (auto split: option.splits)

lemma series_scan_eval:
  "series_scan ch get st =
     (let J = judged_vals ch st 0 (get st)
      in (length (filter (\<lambda>v. v < 0) J), length J, find (\<lambda>v. 0 \<le> v \<and> v \<noteq> st_Duty st) J))"
  by (simp add: series_scan_def series_loop_eval Let_def)

text \<open>Every judged sample has the duty, and there is one.\<close>

definition on_duty :: "int \<Rightarrow> T1Step \<Rightarrow> int list \<Rightarrow> bool" where
  "on_duty ch st vs \<longleftrightarrow> judged_vals ch st 0 vs \<noteq> [] \<and> (\<forall>v \<in> set (judged_vals ch st 0 vs). 0 \<le> v \<and> v = st_Duty st)"

lemma cell_ok:
  "cell_bad ch ((name, get), st) = [] \<and> cell_missing ch ((name, get), st) = [] \<longleftrightarrow> on_duty ch st (get st)"
  unfolding cell_bad_def cell_missing_def on_duty_def series_scan_eval Let_def
  by (auto simp: find_None_iff filter_empty_conv not_less split: option.splits if_splits dest: find_SomeD)

lemma dcr_ok:
  "dcrOK x \<and> dcrKnown x \<longleftrightarrow>
     (\<forall>(name, get) \<in> set (regSeries (t1_ch x)). \<forall>st \<in> set (t1_steps x). on_duty (t1_ch x) st (get st))"
proof -
  have "dcrOK x \<and> dcrKnown x \<longleftrightarrow>
      (\<forall>c \<in> set (t1_cells x). cell_bad (t1_ch x) c = [] \<and> cell_missing (t1_ch x) c = [])"
    by (auto simp: dcrOK_def dcrKnown_def t1_bad_def t1_missing_def)
  also have "\<dots> \<longleftrightarrow> (\<forall>(name, get) \<in> set (regSeries (t1_ch x)). \<forall>st \<in> set (t1_steps x). on_duty (t1_ch x) st (get st))"
  proof -
    have "cell_bad ch c = [] \<and> cell_missing ch c = [] \<longleftrightarrow> on_duty ch (snd c) (snd (fst c) (snd c))" for ch c
      using cell_ok [of ch "fst (fst c)" "snd (fst c)" "snd c"] by simp
    then show ?thesis by (auto simp: t1_cells_def)
  qed
  finally show ?thesis .
qed

lemma dcr_differs:
  "\<not> dcrOK x \<longleftrightarrow>
     (\<exists>(name, get) \<in> set (regSeries (t1_ch x)). \<exists>st \<in> set (t1_steps x).
        \<exists>v \<in> set (judged_vals (t1_ch x) st 0 (get st)). 0 \<le> v \<and> v \<noteq> st_Duty st)"
proof -
  have bad: "cell_bad ch ((name, get), st) \<noteq> [] \<longleftrightarrow>
      (\<exists>v \<in> set (judged_vals ch st 0 (get st)). 0 \<le> v \<and> v \<noteq> st_Duty st)" for ch name get st
    unfolding cell_bad_def series_scan_eval Let_def by (auto simp: find_None_iff split: option.splits dest: find_SomeD)
  have "\<not> dcrOK x \<longleftrightarrow> (\<exists>c \<in> set (t1_cells x). cell_bad (t1_ch x) c \<noteq> [])"
    by (auto simp: dcrOK_def t1_bad_def)
  also have "\<dots> \<longleftrightarrow> (\<exists>(name, get) \<in> set (regSeries (t1_ch x)). \<exists>st \<in> set (t1_steps x). cell_bad (t1_ch x) ((name, get), st) \<noteq> [])"
    by (force simp: t1_cells_def)
  finally show ?thesis unfolding bad .
qed

lemma other_loop_eval:
  assumes "other_loop ch st base i vs (j, m, dv, ms) = (nJudged, maxDev, devVal, miss)"
  shows "nJudged = j + length (judged_vals ch st i vs)"
    and "(miss = []) = (ms = [] \<and> (\<forall>v \<in> set (judged_vals ch st i vs). 0 \<le> v))"
    and "m < T1OtherDCR \<Longrightarrow> (maxDev < T1OtherDCR) =
           (\<forall>v \<in> set (judged_vals ch st i vs). 0 \<le> v \<longrightarrow> \<bar>v - base\<bar> < T1OtherDCR)"
    and "m \<le> maxDev"
proof -
  have "nJudged = j + length (judged_vals ch st i vs) \<and>
      (miss = []) = (ms = [] \<and> (\<forall>v \<in> set (judged_vals ch st i vs). 0 \<le> v)) \<and>
      (m < T1OtherDCR \<longrightarrow> (maxDev < T1OtherDCR) =
           (\<forall>v \<in> set (judged_vals ch st i vs). 0 \<le> v \<longrightarrow> \<bar>v - base\<bar> < T1OtherDCR)) \<and> m \<le> maxDev"
    using assms
  proof (induction vs arbitrary: i j m dv ms)
    case (Cons v vs)
    show ?case
    proof (cases "judged st ch i \<and> 0 \<le> v \<and> \<bar>v - base\<bar> > m")
      case True
      with Cons.prems have e: "other_loop ch st base (Suc i) vs (j + 1, \<bar>v - base\<bar>, v, ms) =
          (nJudged, maxDev, devVal, miss)" by (simp add: Let_def)
      show ?thesis using Cons.IH [OF e] True by auto
    next
      case False
      define ms' where "ms' = (if judged st ch i \<and> v < 0 then ms @ [i] else ms)"
      define j' where "j' = (if judged st ch i then j + 1 else j)"
      from False Cons.prems have e: "other_loop ch st base (Suc i) vs (j', m, dv, ms') =
          (nJudged, maxDev, devVal, miss)" by (auto simp: Let_def ms'_def j'_def split: if_splits)
      show ?thesis using Cons.IH [OF e] False by (auto simp: ms'_def j'_def split: if_splits)
    qed
  qed auto
  then show "nJudged = j + length (judged_vals ch st i vs)"
    and "(miss = []) = (ms = [] \<and> (\<forall>v \<in> set (judged_vals ch st i vs). 0 \<le> v))"
    and "m < T1OtherDCR \<Longrightarrow> (maxDev < T1OtherDCR) =
           (\<forall>v \<in> set (judged_vals ch st i vs). 0 \<le> v \<longrightarrow> \<bar>v - base\<bar> < T1OtherDCR)"
    and "m \<le> maxDev" by blast+
qed

text \<open>Every judged sample of another register stays near the rest value, and there is one.\<close>

definition stays :: "int \<Rightarrow> int \<Rightarrow> int \<Rightarrow> T1Step \<Rightarrow> bool" where
  "stays ch n base st \<longleftrightarrow>
     (let J = judged_vals ch st 0 (st_Others st n)
      in J \<noteq> [] \<and> (\<forall>v \<in> set J. 0 \<le> v \<and> \<bar>v - base\<bar> < T1OtherDCR))"

lemma step_stays:
  "step_moved ch n base st = [] \<and> step_missing ch n base st = [] \<longleftrightarrow> stays ch n base st"
proof -
  obtain j m dv ms where o: "other_scan ch n base st = (j, m, dv, ms)" by (metis prod_cases4)
  note f = other_loop_eval [OF o [unfolded other_scan_def]]
  have "(0::int) < T1OtherDCR" by (simp add: T1OtherDCR_def)
  note f' = f(3) [OF this]
  show ?thesis
    unfolding step_moved_def step_missing_def o stays_def Let_def using f(1,2) f' by auto
qed

lemma step_moved_iff:
  "step_moved ch n base st \<noteq> [] \<longleftrightarrow>
     (\<exists>v \<in> set (judged_vals ch st 0 (st_Others st n)). 0 \<le> v \<and> T1OtherDCR \<le> \<bar>v - base\<bar>)"
proof -
  obtain j m dv ms where o: "other_scan ch n base st = (j, m, dv, ms)" by (metis prod_cases4)
  note f = other_loop_eval [OF o [unfolded other_scan_def]]
  have "(0::int) < T1OtherDCR" by (simp add: T1OtherDCR_def)
  note f' = f(3) [OF this]
  show ?thesis unfolding step_moved_def o using f(1) f' by (auto simp: not_less)
qed

lemma others_stay:
  "moved x = [] \<and> otherMissing x = [] \<longleftrightarrow>
     (\<forall>n \<in> set (OtherRegs (t1_ch x)). \<exists>base. rest_base x n = Some base \<and>
        (\<forall>st \<in> set (t1_steps x). stays (t1_ch x) n base st))"
proof -
  have "reg_moved x n = [] \<and>
      (case rest_base x n of None \<Rightarrow> [no_rest_text n]
       | Some base \<Rightarrow> concat (map (step_missing (t1_ch x) n base) (t1_steps x))) = [] \<longleftrightarrow>
      (\<exists>base. rest_base x n = Some base \<and> (\<forall>st \<in> set (t1_steps x). stays (t1_ch x) n base st))" for n
    unfolding step_stays [symmetric] by (auto simp: reg_moved_def split: option.splits)
  then show ?thesis unfolding moved_def otherMissing_def concat_eq_Nil_conv by (simp add: ball_conj_distrib) blast
qed

text \<open>The own tach: every step has a mean, and each mean is at least 200 rpm below the one before.\<close>

definition drops :: "T1Input \<Rightarrow> T1Step \<Rightarrow> T1Step \<Rightarrow> bool" where
  "drops x a b \<longleftrightarrow> (\<exists>ma mb. own_mean x a = Some ma \<and> own_mean x b = Some mb \<and> of_int T1OwnStepRPM \<le> ma - mb)"

lemma own_loop_ok:
  assumes "prev = None \<or> (\<exists>p m. prev = Some (p, m) \<and> own_mean x p = Some m)"
  shows "own_loop x prev sts = [] \<longleftrightarrow>
    (\<forall>st \<in> set sts. own_mean x st \<noteq> None) \<and>
    successively (drops x) ((case prev of None \<Rightarrow> [] | Some (p, m) \<Rightarrow> [p]) @ sts)"
  using assms
proof (induction sts arbitrary: prev)
  case Nil
  then show ?case by (auto split: option.splits)
next
  case (Cons st sts)
  show ?case
  proof (cases "own_mean x st")
    case (Some m)
    have IH: "own_loop x (Some (st, m)) sts = [] \<longleftrightarrow>
        (\<forall>st \<in> set sts. own_mean x st \<noteq> None) \<and> successively (drops x) (st # sts)"
      using Cons.IH [of "Some (st, m)"] Some by simp
    from Cons.prems consider "prev = None" | p pm where "prev = Some (p, pm)" "own_mean x p = Some pm" by auto
    then show ?thesis using Some IH by cases (auto simp: drops_def not_less)
  qed simp
qed

lemma ownOK_iff:
  "ownOK x \<longleftrightarrow> (t1_own x > 0 \<longrightarrow>
     (\<forall>st \<in> set (t1_steps x). own_mean x st \<noteq> None) \<and> successively (drops x) (t1_steps x))"
  by (simp add: ownOK_def own_short_def own_loop_ok)

section \<open>The verdict of EvalT1\<close>

lemma fill_not_judged_judged [simp]:
  "judged (fill_not_judged ch st) c i = judged st c i"
  "judged_vals c (fill_not_judged ch st) i vs = judged_vals c st i vs"
  "st_Duty (fill_not_judged ch st) = st_Duty st"
  "st_DCR (fill_not_judged ch st) = st_DCR st"
  "st_DCR4 (fill_not_judged ch st) = st_DCR4 st"
  "st_Others (fill_not_judged ch st) = st_Others st"
  "st_Fans (fill_not_judged ch st) = st_Fans st"
  "st_Inputs (fill_not_judged ch st) = st_Inputs st"
  by (simp_all add: fill_not_judged_def judged_def judged_vals_def cong: if_cong)

definition prepared :: "T1Input \<Rightarrow> T1Input" where
  "prepared x = x\<lparr> t1_steps := map (fill_not_judged (t1_ch x)) (t1_steps x) \<rparr>"

lemma prepared_sel [simp]:
  "t1_ch (prepared x) = t1_ch x" "t1_own (prepared x) = t1_own x" "t1_rest (prepared x) = t1_rest x"
  "t1_restIn (prepared x) = t1_restIn x" "t1_restDCR (prepared x) = t1_restDCR x"
  "t1_fans (prepared x) = t1_fans x"
  "t1_steps (prepared x) = map (fill_not_judged (t1_ch x)) (t1_steps x)"
  by (simp_all add: prepared_def)

lemma EvalT1_verdict: "r_Verdict (EvalT1 x) = fst (t1_verdict (prepared x))"
  by (simp add: EvalT1_def Let_def mk_result_def prepared_def)

lemma series_prepared:
  "(name, get) \<in> set (regSeries ch) \<Longrightarrow> get (fill_not_judged c st) = get st"
  by (auto simp: regSeries_def split: if_splits)

lemma on_duty_prepared [simp]: "on_duty ch (fill_not_judged c st) vs = on_duty ch st vs"
  by (simp add: on_duty_def)

lemma stays_prepared [simp]: "stays ch n base (fill_not_judged c st) = stays ch n base st"
  by (simp add: stays_def)

lemma rest_base_prepared [simp]: "rest_base (prepared x) n = rest_base x n"
  by (simp add: rest_base_def)

lemma own_mean_prepared [simp]: "own_mean (prepared x) (fill_not_judged ch st) = own_mean x st"
  by (simp add: own_mean_def Let_def)

lemma drops_prepared [simp]: "drops (prepared x) (fill_not_judged c a) (fill_not_judged c b) = drops x a b"
  by (simp add: drops_def)

lemma input_crossed_prepared [simp]: "input_crossed (prepared x) c = input_crossed x c"
  by (simp add: input_crossed_def input_seen_def t1_inputs_def comp_def)

lemma crossed_prepared [simp]: "crossed (prepared x) = crossed x"
  by (simp add: crossed_def)

lemma noisy_prepared [simp]: "noisy (prepared x) = noisy x"
  by (simp add: noisy_def)

lemma crossed_nil: "crossed x = [] \<longleftrightarrow> (\<forall>c \<in> {1, 2, 3}. input_crossed x c = '''')"
  by (auto simp: crossed_def)

lemma crossedFollow_nil: "crossed x = [] \<Longrightarrow> crossedFollow x = []"
  by (auto simp: crossed_nil crossedFollow_def)

definition t1_good :: "T1Input \<Rightarrow> bool" where
  "t1_good x \<longleftrightarrow>
     (\<forall>(name, get) \<in> set (regSeries (t1_ch x)). \<forall>st \<in> set (t1_steps x). on_duty (t1_ch x) st (get st)) \<and>
     (\<forall>n \<in> set (OtherRegs (t1_ch x)). \<exists>base. rest_base x n = Some base \<and>
        (\<forall>st \<in> set (t1_steps x). stays (t1_ch x) n base st)) \<and>
     noisy x = [] \<and>
     (t1_own x > 0 \<longrightarrow>
        (\<forall>st \<in> set (t1_steps x). own_mean x st \<noteq> None) \<and> successively (drops x) (t1_steps x)) \<and>
     (\<forall>c \<in> {1, 2, 3}. input_crossed x c = '''')"

lemma t1_good_prepared: "t1_good (prepared x) = t1_good x"
proof -
  have "(\<forall>(name, get) \<in> set (regSeries ch). \<forall>st \<in> set sts. on_duty ch st (get (fill_not_judged c st))) \<longleftrightarrow>
      (\<forall>(name, get) \<in> set (regSeries ch). \<forall>st \<in> set sts. on_duty ch st (get st))" for ch c sts
    using series_prepared by fastforce
  then show ?thesis by (simp add: t1_good_def successively_map)
qed

lemma t1_verdict_Pass: "fst (t1_verdict x) = Pass \<longleftrightarrow> t1_good x"
proof -
  have "fst (t1_verdict x) = Pass \<longleftrightarrow>
      (dcrOK x \<and> dcrKnown x) \<and> (moved x = [] \<and> otherMissing x = []) \<and> noisy x = [] \<and> ownOK x \<and> crossed x = []"
    using crossedFollow_nil [of x] by (auto simp: t1_verdict_def)
  then show ?thesis unfolding dcr_ok others_stay ownOK_iff crossed_nil t1_good_def .
qed

lemma EvalT1_Pass: "r_Verdict (EvalT1 x) = Pass \<longleftrightarrow> t1_good x"
  by (simp add: EvalT1_verdict t1_verdict_Pass t1_good_prepared)

lemma EvalT1_Fail:
  "r_Verdict (EvalT1 x) = Fail \<longleftrightarrow>
     \<not> dcrOK (prepared x) \<or> (moved (prepared x) \<noteq> [] \<and> crossed x = [])"
  by (auto simp: EvalT1_verdict t1_verdict_def)

lemma moved_iff:
  "moved x \<noteq> [] \<longleftrightarrow>
     (\<exists>n \<in> set (OtherRegs (t1_ch x)). \<exists>base. rest_base x n = Some base \<and> (\<exists>st \<in> set (t1_steps x).
        \<exists>v \<in> set (judged_vals (t1_ch x) st 0 (st_Others st n)). 0 \<le> v \<and> T1OtherDCR \<le> \<bar>v - base\<bar>))"
proof -
  have "reg_moved x n \<noteq> [] \<longleftrightarrow>
      (\<exists>base. rest_base x n = Some base \<and> (\<exists>st \<in> set (t1_steps x). step_moved (t1_ch x) n base st \<noteq> []))" for n
    by (auto simp: reg_moved_def split: option.splits)
  moreover have "moved x \<noteq> [] \<longleftrightarrow> (\<exists>n \<in> set (OtherRegs (t1_ch x)). reg_moved x n \<noteq> [])"
    by (auto simp: moved_def)
  ultimately show ?thesis unfolding step_moved_iff by simp
qed

end
