(* ===== verification/Spec_Gates.thy ===== *)
theory Spec_Gates
  imports Spec_Aggregate
begin

text \<open>
  The gate window G4, the tests this tool does not run (T4, T5) and the fixed results of
  internal/spec/eval.go: \<open>EvalG4\<close>, \<open>T4T5Result\<close>, \<open>NotImplemented\<close>, \<open>NotApplicableResult\<close>.
\<close>

section \<open>Fixed results and T4/T5\<close>

definition NotImplemented :: "string \<Rightarrow> int \<Rightarrow> string \<Rightarrow> Result" where
  "NotImplemented i ch reason = mk_result i ch Inconclusive [reason]"

definition NotApplicableResult :: "string \<Rightarrow> int \<Rightarrow> string \<Rightarrow> Result" where
  "NotApplicableResult i ch reason = mk_result i ch NotApplicable [reason]"

definition ReasonT4T5Manual :: string where
  [text_defs]: "ReasonT4T5Manual = ''not implemented, run manually per '' @ sect @ ''5.5''"

definition ReasonHDDBelowStep :: string where
  [text_defs]: "ReasonHDDBelowStep = ''HDD input EC 0x06 below 34 C''"

definition below_step_text :: "rat \<Rightarrow> nat \<Rightarrow> string" where
  [text_defs]: "below_step_text hi n = ReasonHDDBelowStep @ '' (max '' @ fmt_f 1 hi @ '' C in '' @ itoa (int n) @
     '' samples of this run; table step at '' @ fmt_f 0 HDDInputStepC @
     '' C, a crossing by 2 C needs >= '' @ fmt_f 0 (HDDInputStepC + 2) @ '' C; TESTSPEC '' @ sect @ ''6)''"

text \<open>The loop over the samples: \<open>None\<close> is minus infinity, the number counts the values.\<close>

fun amb_loop :: "rat option \<Rightarrow> nat \<Rightarrow> fl list \<Rightarrow> rat option \<times> nat" where
  "amb_loop hi n [] = (hi, n)"
| "amb_loop hi n (NaN # vs) = amb_loop hi n vs"
| "amb_loop hi n (Some v # vs) = amb_loop (Some (case hi of None \<Rightarrow> v | Some h \<Rightarrow> max h v)) (Suc n) vs"

definition T4T5Result :: "string \<Rightarrow> int \<Rightarrow> Sample list \<Rightarrow> Result" where
  "T4T5Result i ch samples =
     (if ch = PCIeChannel then NotApplicableResult i ch ReasonNoPCIeAuto
      else if ch = 3 then
        (case amb_loop None 0 (map s_ECAmb samples) of
           (Some hi, n) \<Rightarrow>
             if n > 0 \<and> hi < HDDInputStepC
             then (NotImplemented i ch (below_step_text hi n))\<lparr> r_Values := AmbientMax hi n \<rparr>
             else NotImplemented i ch ReasonT4T5Manual
         | (None, n) \<Rightarrow>
             if n = 0 then NotImplemented i ch (ReasonT4T5Manual @ '' (EC 0x06 not recorded in this run)'')
             else NotImplemented i ch ReasonT4T5Manual)
      else NotImplemented i ch ReasonT4T5Manual)"

section \<open>G4: EvalG4\<close>

record G4Result =
  g4_Pass :: bool
  g4_Parts :: "string list"
  g4_Limit :: "(string \<times> bool) list"

definition limit_sensors :: "(string \<times> (Sample \<Rightarrow> fl)) list" where
  "limit_sensors = [(''tctl'', s_Tctl), (''nvme'', s_NVMeMax), (''hdd'', s_HDDMax)]"

definition g4_inputs :: "(string \<times> rat \<times> (Sample \<Rightarrow> fl)) list" where
  "g4_inputs = [(''system (ec 0x04)'', GateTempDeltaC, s_ECSys), (''ambient (ec 0x06)'', GateTempDeltaC, s_ECAmb),
                (''hdd'', GateTempDeltaC, s_HDDMax)]"

definition sensor_seen :: "Sample list \<Rightarrow> (Sample \<Rightarrow> fl) \<Rightarrow> bool" where
  "sensor_seen rows get = list_ex (\<lambda>s. get s \<noteq> NaN) rows"

text \<open>The loop over the rows of one input: smallest and largest value, number, first and last minute.\<close>

fun g4_loop :: "rat \<Rightarrow> rat \<Rightarrow> (Sample \<Rightarrow> fl) \<Rightarrow> Sample list \<Rightarrow>
    (rat \<times> rat) option \<times> fl list \<times> fl list \<Rightarrow> (rat \<times> rat) option \<times> fl list \<times> fl list" where
  "g4_loop t0 t1 get [] acc = acc"
| "g4_loop t0 t1 get (s # ss) (lohi, first, late) =
     (case get s of
        NaN \<Rightarrow> g4_loop t0 t1 get ss (lohi, first, late)
      | Some v \<Rightarrow>
          g4_loop t0 t1 get ss
            (Some (case lohi of None \<Rightarrow> (v, v) | Some (lo, hi) \<Rightarrow> (min lo v, max hi v)),
             if s_TS s \<le> t0 + GateTrendS then first @ [Some v] else first,
             if s_TS s \<ge> t1 - GateTrendS then late @ [Some v] else late))"

definition span_text :: "string \<Rightarrow> rat \<Rightarrow> rat \<Rightarrow> bool \<Rightarrow> string" where
  [text_defs]: "span_text name sp trend ok = name @ '' span '' @ fmt_f 1 sp @ '' C, trend '' @ fmt_signed 2 trend @
     '' C: '' @ (if ok then ''ok'' else ''not stable'')"

text \<open>One input: whether it passes, and the text it adds (none for a missing HDD, named above it).\<close>

definition g4_input :: "Sample list \<Rightarrow> string \<times> rat \<times> (Sample \<Rightarrow> fl) \<Rightarrow> bool \<times> string list" where
  "g4_input rows = (\<lambda>(name, mx, get).
     (let t0 = s_TS (hd rows); t1 = s_TS (last rows);
          (lohi, first, late) = g4_loop t0 t1 get rows (None, [], [])
      in case lohi of
           None \<Rightarrow> (False, if name \<noteq> ''hdd'' then [name @ '' not available''] else [])
         | Some (lo, hi) \<Rightarrow>
             (case (meanF first, meanF late) of
                (Some a, Some b) \<Rightarrow>
                  let sp = hi - lo; trend = b - a;
                      ok = (sp \<le> mx + 1/1000000000 \<and> \<bar>trend\<bar> < mx)
                  in (ok, [span_text name sp trend ok])
              | _ \<Rightarrow> (False, [name @ '' has no value in the first or last 60 s'']))))"

text \<open>\<open>rows[0]\<close> of an empty window panics: \<open>None\<close>.\<close>

definition EvalG4 :: "Sample list \<Rightarrow> G4Result option" where
  "EvalG4 rows =
     (if rows = [] then None
      else
        (let limit = map (\<lambda>(name, get). (name, sensor_seen rows get)) limit_sensors;
             parts1 = concat (map (\<lambda>(name, seen). if seen then [] else [''limit sensor '' @ name @ '' not available'']) limit);
             ins = map (g4_input rows) g4_inputs
         in Some \<lparr> g4_Pass = (list_all snd limit \<and> list_all fst ins),
                   g4_Parts = parts1 @ concat (map snd ins),
                   g4_Limit = limit \<rparr>))"

section \<open>Facts\<close>

definition widen_min :: "rat option \<Rightarrow> rat set \<Rightarrow> rat option" where
  "widen_min lo R = (let S = (case lo of None \<Rightarrow> R | Some l \<Rightarrow> insert l R) in if S = {} then None else Some (Min S))"

definition widen_max :: "rat option \<Rightarrow> rat set \<Rightarrow> rat option" where
  "widen_max hi R = (let S = (case hi of None \<Rightarrow> R | Some h \<Rightarrow> insert h R) in if S = {} then None else Some (Max S))"

lemma Max_insert2: "finite R \<Longrightarrow> Max (insert (max h v) R) = Max (insert h (insert v R))" for h :: rat
  by (cases "R = {}") (simp_all add: ac_simps)

lemma Min_insert2: "finite R \<Longrightarrow> Min (insert (min h v) R) = Min (insert h (insert v R))" for h :: rat
  by (cases "R = {}") (simp_all add: ac_simps)

lemma widen_step:
  assumes "finite R"
  shows "widen_max (Some (case hi of None \<Rightarrow> v | Some h \<Rightarrow> max h v)) R = widen_max hi (insert v R)"
    and "widen_min (Some (case hi of None \<Rightarrow> v | Some h \<Rightarrow> min h v)) R = widen_min hi (insert v R)"
  using Max_insert2 [OF assms] Min_insert2 [OF assms]
  by (simp_all add: widen_max_def widen_min_def Let_def split: option.splits)

lemma amb_loop_eval:
  "amb_loop hi n vs = (widen_max hi (set (values_of vs)), n + length (values_of vs))"
proof (induction hi n vs rule: amb_loop.induct)
  case (1 hi n)
  then show ?case by (simp add: widen_max_def split: option.splits)
next
  case (3 hi n v vs)
  then show ?case using widen_step(1) [of "set (values_of vs)" v hi] by simp
qed simp

lemma T4T5_verdict:
  "r_Verdict (T4T5Result i ch samples) = (if ch = PCIeChannel then NotApplicable else Inconclusive)"
  by (auto simp: T4T5Result_def NotImplemented_def NotApplicableResult_def mk_result_def split: option.splits prod.splits)

text \<open>The readings of an input in the window, in its first and in its last minute.\<close>

definition readings :: "(Sample \<Rightarrow> fl) \<Rightarrow> Sample list \<Rightarrow> rat list" where
  "readings get rows = values_of (map get rows)"

definition first_minute :: "Sample list \<Rightarrow> Sample list" where
  "first_minute rows = filter (\<lambda>s. s_TS s \<le> s_TS (hd rows) + GateTrendS) rows"

definition last_minute :: "Sample list \<Rightarrow> Sample list" where
  "last_minute rows = filter (\<lambda>s. s_TS s \<ge> s_TS (last rows) - GateTrendS) rows"

definition average :: "rat list \<Rightarrow> rat" where
  "average xs = sum_list xs / of_nat (length xs)"


lemma readings_simps [simp]:
  "readings get [] = []"
  "readings get (s # ss) = (case get s of NaN \<Rightarrow> readings get ss | Some v \<Rightarrow> v # readings get ss)"
  by (simp_all add: readings_def split: option.splits)

lemma g4_loop_eval:
  assumes "g4_loop t0 t1 get rows (lohi, first, late) = (lohi', first', late')"
  shows "values_of first' = values_of first @ readings get (filter (\<lambda>s. s_TS s \<le> t0 + GateTrendS) rows)"
    and "values_of late' = values_of late @ readings get (filter (\<lambda>s. s_TS s \<ge> t1 - GateTrendS) rows)"
    and "map_option fst lohi' = widen_min (map_option fst lohi) (set (readings get rows))"
    and "map_option snd lohi' = widen_max (map_option snd lohi) (set (readings get rows))"
proof -
  have "values_of first' = values_of first @ readings get (filter (\<lambda>s. s_TS s \<le> t0 + GateTrendS) rows) \<and>
    values_of late' = values_of late @ readings get (filter (\<lambda>s. s_TS s \<ge> t1 - GateTrendS) rows) \<and>
    map_option fst lohi' = widen_min (map_option fst lohi) (set (readings get rows)) \<and>
    map_option snd lohi' = widen_max (map_option snd lohi) (set (readings get rows))"
    using assms
  proof (induction rows arbitrary: lohi first late)
    case Nil
    then show ?case by (cases lohi) (auto simp: widen_min_def widen_max_def)
  next
    case (Cons s ss)
    show ?case
    proof (cases "get s")
      case None
      with Cons.prems Cons.IH [of lohi first late] show ?thesis by simp
    next
      case (Some v)
      note e = Cons.prems [simplified, unfolded Some, simplified]
      have mm: "map_option fst (Some (case lohi of None \<Rightarrow> (v, v) | Some (lo, hi) \<Rightarrow> (min lo v, max hi v))) =
           Some (case map_option fst lohi of None \<Rightarrow> v | Some h \<Rightarrow> min h v)"
         "map_option snd (Some (case lohi of None \<Rightarrow> (v, v) | Some (lo, hi) \<Rightarrow> (min lo v, max hi v))) =
           Some (case map_option snd lohi of None \<Rightarrow> v | Some h \<Rightarrow> max h v)"
        by (auto split: option.splits)
      show ?thesis
        using Cons.IH [OF e] Some unfolding mm widen_step [OF finite_set] by simp
    qed
  qed
  then show "values_of first' = values_of first @ readings get (filter (\<lambda>s. s_TS s \<le> t0 + GateTrendS) rows)"
    and "values_of late' = values_of late @ readings get (filter (\<lambda>s. s_TS s \<ge> t1 - GateTrendS) rows)"
    and "map_option fst lohi' = widen_min (map_option fst lohi) (set (readings get rows))"
    and "map_option snd lohi' = widen_max (map_option snd lohi) (set (readings get rows))" by blast+
qed

text \<open>What a stable input is: readings in the first and the last minute, a span of at most one
  degree over the window and less than one degree between the two averages.\<close>

definition stable_input :: "Sample list \<Rightarrow> rat \<Rightarrow> (Sample \<Rightarrow> fl) \<Rightarrow> bool" where
  "stable_input rows mx get \<longleftrightarrow>
     readings get (first_minute rows) \<noteq> [] \<and> readings get (last_minute rows) \<noteq> [] \<and>
     Max (set (readings get rows)) - Min (set (readings get rows)) \<le> mx + 1/1000000000 \<and>
     \<bar>average (readings get (last_minute rows)) - average (readings get (first_minute rows))\<bar> < mx"

lemma readings_filter: "readings get (filter P rows) \<noteq> [] \<Longrightarrow> readings get rows \<noteq> []"
  by (induction rows) (auto split: if_splits option.splits)

lemma g4_input_pass: "fst (g4_input rows (name, mx, get)) \<longleftrightarrow> stable_input rows mx get"
proof -
  obtain lohi first late where
    e: "g4_loop (s_TS (hd rows)) (s_TS (last rows)) get rows (None, [], []) = (lohi, first, late)"
    by (metis prod_cases3)
  note f = g4_loop_eval [OF e, simplified]
  have fl: "values_of first = readings get (first_minute rows)" "values_of late = readings get (last_minute rows)"
    using f(1,2) by (simp_all add: first_minute_def last_minute_def)
  have m: "meanF first = (if readings get (first_minute rows) = [] then None else Some (average (readings get (first_minute rows))))"
      "meanF late = (if readings get (last_minute rows) = [] then None else Some (average (readings get (last_minute rows))))"
    by (simp_all add: meanF_def fl average_def Let_def)
  show ?thesis
  proof (cases lohi)
    case None
    then have "readings get rows = []" using f(3) by (auto simp: widen_min_def Let_def split: if_splits)
    then have "readings get (first_minute rows) = []"
      using readings_filter unfolding first_minute_def by blast
    with None e show ?thesis by (simp add: g4_input_def stable_input_def)
  next
    case (Some lh)
    then obtain lo hi where lh: "lohi = Some (lo, hi)" by (cases lh) auto
    then have "lo = Min (set (readings get rows))" "hi = Max (set (readings get rows))"
      using f(3,4) by (auto simp: widen_min_def widen_max_def Let_def split: if_splits)
    with lh e m show ?thesis by (simp add: g4_input_def stable_input_def Let_def)
  qed
qed

lemma EvalG4_pass:
  assumes "EvalG4 rows = Some g"
  shows "g4_Pass g \<longleftrightarrow>
     (\<forall>(name, get) \<in> set limit_sensors. readings get rows \<noteq> []) \<and>
     (\<forall>(name, mx, get) \<in> set g4_inputs. stable_input rows mx get)"
proof -
  have seen: "sensor_seen rows get \<longleftrightarrow> readings get rows \<noteq> []" for get
    by (induction rows) (auto simp: sensor_seen_def split: option.splits)
  show ?thesis
    using assms
    by (auto simp: EvalG4_def Let_def limit_sensors_def g4_inputs_def seen g4_input_pass split: if_splits)
qed

end
