(* ===== verification/Spec_Properties.thy ===== *)
theory Spec_Properties
  imports Spec_T1 Spec_Gates
begin

text \<open>
  The properties of the evaluators of internal/spec: the verdicts of T2, T3, T1 and G4 in terms of
  the samples, the aggregation over registers and repetitions, step crossings and stored times.
\<close>

section \<open>T2 and T3\<close>

text \<open>C17: a hand-back sub-run passes T2 exactly when its timing is known, no table input crossed a
  step, the written value is at least 16 counts from a known auto value, and some sample at most
  60 s after the auto command lies at least 16 counts from the written value.\<close>

theorem handback_T2_pass:
  "sr_T2 (EvalHandback r) = Pass \<longleftrightarrow>
     hr_Crossed r = '''' \<and> \<not> too_close r \<and> hr_TimingKnown r \<and>
     (\<exists>x \<in> set (hr_Samples r). LeaveCounts \<le> \<bar>d_DCR x - hr_Written r\<bar> \<and> d_T x \<le> of_int LeaveWithinS)"
proof (cases "hr_Samples r = []")
  case False
  have "(\<exists>x. first_left r = Some x \<and> d_T x \<le> of_int LeaveWithinS) \<longleftrightarrow>
      (\<exists>x \<in> set (hr_Samples r). LeaveCounts \<le> \<bar>d_DCR x - hr_Written r\<bar> \<and> d_T x \<le> of_int LeaveWithinS)"
    using first_left_within [of r "of_int LeaveWithinS"] by (simp add: dev_def)
  then show ?thesis using False by (auto simp: EvalHandback_T2 split: option.splits)
qed (simp add: EvalHandback_no_samples)

text \<open>a hand-back sub-run fails T2 exactly when its timing is known, no input crossed a step,
  the written value is not too close to the auto value, every sample stays within 2 counts of the
  written value, and the log reaches the T3 limit plus 120 s.\<close>

theorem handback_T2_fail:
  "sr_T2 (EvalHandback r) = Fail \<longleftrightarrow>
     hr_Crossed r = '''' \<and> \<not> too_close r \<and> hr_TimingKnown r \<and>
     (\<forall>x \<in> set (hr_Samples r). \<bar>d_DCR x - hr_Written r\<bar> \<le> HoldCounts) \<and>
     (\<exists>x \<in> set (hr_Samples r). of_int (hr_limit r + SettleHoldS) \<le> d_T x)"
proof (cases "hr_Samples r = []")
  case False
  have n: "first_left r = None \<longleftrightarrow> (\<forall>x \<in> set (hr_Samples r). dev (hr_Written r) x < LeaveCounts)"
    by (auto simp: first_left_def find_None_iff not_le)
  have "first_left r = None" if "\<forall>x \<in> set (hr_Samples r). dev (hr_Written r) x \<le> HoldCounts"
    unfolding n using that by (auto simp: const_defs)
  then show ?thesis
    using False last_time_ge [OF False] by (auto simp: EvalHandback_T2 dev_def split: option.splits)
qed (simp add: EvalHandback_no_samples)

text \<open>C14: with distinct sample times, a sub-run passes T3 exactly when its timing is known, no input
  crossed a step and a steady window of the log (120 s long, every sample within 2 counts of its
  first one) starts within the limit of the channel.\<close>

theorem handback_T3_pass:
  assumes "distinct (map d_T (hr_Samples r))"
  shows "sr_T3 (EvalHandback r) = Pass \<longleftrightarrow>
    hr_Crossed r = '''' \<and> hr_TimingKnown r \<and>
    (\<exists>x. steady_from (hr_Samples r) x \<and> d_T x \<le> of_int (hr_limit r))"
proof (cases "hr_Samples r = []")
  case True
  then show ?thesis by (simp add: EvalHandback_no_samples steady_from_def)
next
  case False
  note w = steady_window_first [OF False assms]
  show ?thesis
  proof (cases "steady_window r")
    case None
    then show ?thesis using False w(2) by (auto simp: EvalHandback_T3)
  next
    case (Some tv)
    obtain t v where tv: "tv = (t, v)" by fastforce
    obtain x where x: "steady_from (hr_Samples r) x" "t = d_T x"
      "\<forall>y. steady_from (hr_Samples r) y \<longrightarrow> t \<le> d_T y" using w(1) Some tv by blast
    then have "t \<le> of_int (hr_limit r) \<longleftrightarrow> (\<exists>x. steady_from (hr_Samples r) x \<and> d_T x \<le> of_int (hr_limit r))"
      by (meson order_trans)
    then show ?thesis using False Some tv by (auto simp: EvalHandback_T3)
  qed
qed

definition t3_example :: HandbackRun where
  "t3_example = \<lparr> hr_Label = ''H'', hr_Reg = '''', hr_Written = 255,
     hr_Samples = [\<lparr> d_T = 5, d_DCR = 140 \<rparr>, \<lparr> d_T = 125, d_DCR = 141 \<rparr>], hr_TimingKnown = True,
     hr_Auto = 140, hr_AutoKnown = True, hr_LimitS = 180, hr_Crossed = '''' \<rparr>"

theorem handback_T3_pass_witness:
  "sr_T3 (EvalHandback t3_example) = Pass"
proof -
  have d: "distinct (map d_T (hr_Samples t3_example))" by (simp add: t3_example_def)
  have "steady_from (hr_Samples t3_example) \<lparr> d_T = 5, d_DCR = 140 \<rparr>"
    by (simp add: steady_from_def t3_example_def const_defs)
  then show ?thesis
    unfolding handback_T3_pass [OF d]
    by (intro conjI exI [of _ "\<lparr> d_T = 5, d_DCR = 140 \<rparr>"]) (simp_all add: t3_example_def hr_limit_def)
qed

theorem handback_T2_fail_witness:
  "sr_T2 (EvalHandback (t3_example\<lparr> hr_Samples := [\<lparr> d_T = 5, d_DCR = 255 \<rparr>, \<lparr> d_T = 300, d_DCR = 254 \<rparr>] \<rparr>)) = Fail"
  unfolding handback_T2_fail by (simp add: t3_example_def too_close_def hr_limit_def const_defs)

lemma sample_independent:
  "t2_switch (r\<lparr> hr_Samples := xs \<rparr>) = t2_switch r"
  "t2_close_rule (r\<lparr> hr_Samples := xs \<rparr>) = t2_close_rule r"
  "t3_switch (r\<lparr> hr_Samples := xs \<rparr>) = t3_switch r"
  "crossed_rule (r\<lparr> hr_Samples := xs \<rparr>) = crossed_rule r"
  "hr_limit (r\<lparr> hr_Samples := xs \<rparr>) = hr_limit r"
  by (simp_all add: fun_eq_iff t2_switch_def t2_close_rule_def too_close_def t3_switch_def crossed_rule_def hr_limit_def
      split: option.split bool.split cong: if_cong conj_cong)

text \<open>the order in which the samples of a sub-run were recorded does not matter: two sub-runs
  with the same samples at distinct times have the same evaluation.\<close>

theorem handback_order_irrelevant:
  assumes "mset xs = mset ys" "distinct (map d_T xs)"
  shows "EvalHandback (r\<lparr> hr_Samples := xs \<rparr>) = EvalHandback (r\<lparr> hr_Samples := ys \<rparr>)"
proof -
  have "xs = [] \<longleftrightarrow> ys = []" using assms(1) by auto
  then show ?thesis
    unfolding EvalHandback_def sample_independent
    by (simp add: sort_key_order_irrelevant [OF assms])
qed

theorem handback_order_irrelevant_witness:
  "EvalHandback (t3_example\<lparr> hr_Samples := [\<lparr> d_T = 1, d_DCR = 7 \<rparr>, \<lparr> d_T = 2, d_DCR = 9 \<rparr>] \<rparr>) =
   EvalHandback (t3_example\<lparr> hr_Samples := [\<lparr> d_T = 2, d_DCR = 9 \<rparr>, \<lparr> d_T = 1, d_DCR = 7 \<rparr>] \<rparr>)"
  by (rule handback_order_irrelevant) simp_all

text \<open>the sub-run with H = 255 can be judged for T2 only when the auto value is at most 239, the
  sub-run with M = min(A + 48, 200) only when the auto value is outside 185..215.\<close>

theorem too_close_bounds:
  "(too_close (r\<lparr> hr_Written := 255, hr_Auto := a, hr_AutoKnown := True \<rparr>) \<longleftrightarrow> 240 \<le> a \<and> a \<le> 270) \<and>
   (too_close (r\<lparr> hr_Written := MValue a, hr_Auto := a, hr_AutoKnown := True \<rparr>) \<longleftrightarrow> 185 \<le> a \<and> a \<le> 215)"
  by (auto simp: too_close_def MValue_def Let_def const_defs)

section \<open>Registers and repetitions\<close>

text \<open>a sub-run over several registers passes (fails) T2 and T3 exactly when every register does;
  the registers of a sub-run with more than one agree exactly when all have the same verdicts.\<close>

theorem registers_verdict:
  "v \<in> {Pass, Fail} \<Longrightarrow> runs \<noteq> [] \<Longrightarrow>
     (sr_T2 (EvalHandbackRegs runs) = v \<longleftrightarrow> (\<forall>r \<in> set runs. sr_T2 (EvalHandback r) = v)) \<and>
     (sr_T3 (EvalHandbackRegs runs) = v \<longleftrightarrow> (\<forall>r \<in> set runs. sr_T3 (EvalHandback r) = v))"
  by (simp add: EvalHandbackRegs_combine combine_all)

theorem registers_verdict_witness:
  "sr_T3 (EvalHandbackRegs [t3_example, t3_example]) = Pass \<longleftrightarrow> sr_T3 (EvalHandback t3_example) = Pass"
  using registers_verdict [of Pass "[t3_example, t3_example]"] by simp

text \<open>C32: T2 and T3 of a channel pass (fail) exactly when there are at least three repetitions, each
  has every sub-run, and every sub-run passes (fails).\<close>

theorem aggregate_verdict:
  "v \<in> {Pass, Fail} \<Longrightarrow>
     (r_Verdict (fst (AggregateHandback ch runs want)) = v \<longleftrightarrow>
        3 \<le> length runs \<and> (\<forall>subs \<in> set runs. complete_run want subs \<and> (\<forall>s \<in> set subs. sr_T2 s = v))) \<and>
     (r_Verdict (snd (AggregateHandback ch runs want)) = v \<longleftrightarrow>
        3 \<le> length runs \<and> (\<forall>subs \<in> set runs. complete_run want subs \<and> (\<forall>s \<in> set subs. sr_T3 s = v)))"
  by (simp add: Aggregate_all RunsRequired_def)

theorem aggregate_verdict_witness:
  "r_Verdict (snd (AggregateHandback 1 (replicate 3 [EvalHandbackRegs [t3_example]]) [''H''])) = Pass \<longleftrightarrow>
     complete_run [''H''] [EvalHandbackRegs [t3_example]] \<and> sr_T3 (EvalHandbackRegs [t3_example]) = Pass"
  using aggregate_verdict [of Pass 1 "replicate 3 [EvalHandbackRegs [t3_example]]" "[''H'']"] by simp

section \<open>T1 and the gate window\<close>

text \<open>C18: T1 passes exactly when in every step every judged sample of the channel's registers has the
  written duty (and there is one), the registers of the other channels stay within 15 counts of a
  known rest value, no tach is noisy at rest, the own tach falls by at least 200 rpm per step and
  no table input of another channel crossed a step.\<close>

theorem T1_pass:
  "r_Verdict (EvalT1 x) = Pass \<longleftrightarrow>
     (\<forall>(name, get) \<in> set (regSeries (t1_ch x)). \<forall>st \<in> set (t1_steps x). on_duty (t1_ch x) st (get st)) \<and>
     (\<forall>n \<in> set (OtherRegs (t1_ch x)). \<exists>base. rest_base x n = Some base \<and>
        (\<forall>st \<in> set (t1_steps x). stays (t1_ch x) n base st)) \<and>
     noisy x = [] \<and>
     (t1_own x > 0 \<longrightarrow>
        (\<forall>st \<in> set (t1_steps x). own_mean x st \<noteq> None) \<and> successively (drops x) (t1_steps x)) \<and>
     (\<forall>c \<in> {1, 2, 3}. input_crossed x c = '''')"
  by (simp add: EvalT1_Pass t1_good_def)

definition t1_example :: T1Input where
  "t1_example = \<lparr> t1_ch = 4, t1_own = 0, t1_rest = (\<lambda>_. []), t1_restIn = (\<lambda>_. []), t1_restDCR = (\<lambda>_. [85, 85]),
     t1_steps = [\<lparr> st_Duty = 140, st_DCR = [140], st_DCR4 = [], st_Fans = (\<lambda>_. []), st_Others = (\<lambda>_. [85]), st_OwnRPM = 0,
        st_T = [30], st_Inputs = (\<lambda>_. []), st_NotJudged = [] \<rparr>], t1_fans = [] \<rparr>"

theorem T1_pass_witness: "r_Verdict (EvalT1 t1_example) = Pass"
proof -
  have "map_option round_away (mean [85, 85]) = Some 85" by code_simp
  then have "rest_base t1_example n = Some 85" for n by (simp add: rest_base_def t1_example_def)
  then show ?thesis
    unfolding T1_pass
    by (simp add: t1_example_def regSeries_def on_duty_def stays_def noisy_def input_crossed_def input_seen_def t1_inputs_def
        judged_def Judged_def OtherRegs_def JudgedRegs_def Crossing_def meanF_def SettleS_def const_defs)
qed

lemma dcr_differs_prepared:
  "\<not> dcrOK (prepared x) \<longleftrightarrow>
     (\<exists>(name, get) \<in> set (regSeries (t1_ch x)). \<exists>st \<in> set (t1_steps x).
        \<exists>v \<in> set (judged_vals (t1_ch x) st 0 (get st)). 0 \<le> v \<and> v \<noteq> st_Duty st)"
  unfolding dcr_differs
proof (rule bex_cong)
  fix p assume p: "p \<in> set (regSeries (t1_ch x))"
  obtain name get where n: "p = (name, get)" by fastforce
  from p show "(case p of (name, get) \<Rightarrow> \<exists>st \<in> set (t1_steps (prepared x)).
        \<exists>v \<in> set (judged_vals (t1_ch (prepared x)) st 0 (get st)). 0 \<le> v \<and> v \<noteq> st_Duty st) =
      (case p of (name, get) \<Rightarrow> \<exists>st \<in> set (t1_steps x).
        \<exists>v \<in> set (judged_vals (t1_ch x) st 0 (get st)). 0 \<le> v \<and> v \<noteq> st_Duty st)"
    unfolding n by (simp add: series_prepared)
qed simp

lemma moved_prepared:
  "moved (prepared x) \<noteq> [] \<longleftrightarrow>
     (\<exists>n \<in> set (OtherRegs (t1_ch x)). \<exists>base. rest_base x n = Some base \<and> (\<exists>st \<in> set (t1_steps x).
        \<exists>v \<in> set (judged_vals (t1_ch x) st 0 (st_Others st n)). 0 \<le> v \<and> T1OtherDCR \<le> \<bar>v - base\<bar>))"
  unfolding moved_iff rest_base_prepared by (simp add: prepared_def)

text \<open>T1 fails exactly when a judged sample shows a value other than the duty, or, without a
  crossing of a table input, a judged sample of another channel's register lies at least 16 counts
  from its rest value.\<close>

theorem T1_fail:
  "r_Verdict (EvalT1 x) = Fail \<longleftrightarrow>
     (\<exists>(name, get) \<in> set (regSeries (t1_ch x)). \<exists>st \<in> set (t1_steps x).
        \<exists>v \<in> set (judged_vals (t1_ch x) st 0 (get st)). 0 \<le> v \<and> v \<noteq> st_Duty st) \<or>
     (crossed x = [] \<and>
      (\<exists>n \<in> set (OtherRegs (t1_ch x)). \<exists>base. rest_base x n = Some base \<and> (\<exists>st \<in> set (t1_steps x).
        \<exists>v \<in> set (judged_vals (t1_ch x) st 0 (st_Others st n)). 0 \<le> v \<and> T1OtherDCR \<le> \<bar>v - base\<bar>)))"
  by (simp add: EvalT1_Fail dcr_differs_prepared moved_prepared conj_commute)

text \<open>the gate window passes exactly when every abort-limit sensor has a reading and every input
  (EC 0x04, EC 0x06, HDD) is stable: readings in the first and the last minute, a span of at most
  1 C and less than 1 C between the averages of the two minutes.\<close>

theorem G4_pass:
  "EvalG4 rows = Some g \<Longrightarrow>
     g4_Pass g \<longleftrightarrow>
       (\<forall>(name, get) \<in> set limit_sensors. readings get rows \<noteq> []) \<and>
       (\<forall>(name, mx, get) \<in> set g4_inputs. stable_input rows mx get)"
  by (rule EvalG4_pass)

definition g4_example :: Sample where
  "g4_example = (NewSample 0 0 ''gate'' 1 (-1))\<lparr> s_Tctl := Some 50, s_NVMeMax := Some 40, s_HDDMax := Some 30,
     s_ECSys := Some 35, s_ECAmb := Some 28 \<rparr>"

theorem G4_pass_witness: "\<exists>g. EvalG4 [g4_example] = Some g \<and> g4_Pass g"
proof -
  obtain g where g: "EvalG4 [g4_example] = Some g" by (simp add: EvalG4_def Let_def)
  have "g4_Pass g"
    unfolding G4_pass [OF g]
    by (simp add: limit_sensors_def g4_inputs_def stable_input_def first_minute_def last_minute_def average_def
        g4_example_def NewSample_def const_defs)
  with g show ?thesis by blast
qed

section \<open>Crossings and stored times\<close>

text \<open>a crossing is reported exactly when a known value lies at least 2 C beyond a step boundary
  of the channel on the other side than the known reference; in particular pwm4 never crosses.\<close>

theorem crossing_reported:
  "(Crossing ch ref vals \<noteq> '''' \<longleftrightarrow>
     (\<exists>r v s. ref = Some r \<and> Some v \<in> set vals \<and> s \<in> set (StepBoundaries ch) \<and>
        (r < s \<and> s + 2 \<le> v \<or> s \<le> r \<and> v \<le> s - 2))) \<and>
   Crossing PCIeChannel ref vals = ''''"
proof
  show "Crossing ch ref vals \<noteq> '''' \<longleftrightarrow>
     (\<exists>r v s. ref = Some r \<and> Some v \<in> set vals \<and> s \<in> set (StepBoundaries ch) \<and>
        (r < s \<and> s + 2 \<le> v \<or> s \<le> r \<and> v \<le> s - 2))"
    unfolding Crossing_ne_iff beyond_step_def CrossingC_def by blast
  show "Crossing PCIeChannel ref vals = ''''"
    using Crossing_ne_iff [of PCIeChannel ref vals] by (auto simp: StepBoundaries_def PCIeChannel_def)
qed

text \<open>the time between two stored times is the difference of the stored values, so the runner
  (which has the exact times) and the report (which has the stored ones) compute the same number
  at the limits.\<close>

theorem stored_times_agree:
  "SinceMS (RoundMS a) (RoundMS b) = SinceMS a b \<and> SinceMS a b = RoundMS a - RoundMS b"
  by (simp add: SinceMS_stored SinceMS_exact [symmetric])

end
