(* ===== verification/Files.thy ===== *)
theory Files
  imports Prelude
begin

text \<open>
  What the program reads of the file system: the contents of a file, the sorted names of a
  directory, the real path of a symbolic link. The operations of package os the source uses are
  the functions below; a failed read is \<open>None\<close> (the text of an OS error is not modelled).
\<close>

record filesys =
  fs_file :: "string \<Rightarrow> string option"
  fs_dir :: "string \<Rightarrow> string list option"
  fs_real :: "string \<Rightarrow> string option"

text \<open>\<open>filepath.Join\<close> of clean parts, \<open>filepath.Base\<close> and \<open>filepath.Dir\<close> of a clean path.\<close>

definition join_path :: "string list \<Rightarrow> string" where
  "join_path ps = joins ''/'' (filter (\<lambda>p. p \<noteq> '''') ps)"

definition base_name :: "string \<Rightarrow> string" where
  "base_name p = (if p = '''' then ''.'' else last (split_at (CHR ''/'') p))"

definition dir_name :: "string \<Rightarrow> string" where
  "dir_name p = joins ''/'' (butlast (split_at (CHR ''/'') p))"

definition exists_path :: "filesys \<Rightarrow> string \<Rightarrow> bool" where
  "exists_path fs p \<longleftrightarrow> fs_file fs p \<noteq> None \<or> fs_dir fs p \<noteq> None"

text \<open>\<open>readTrim\<close> / \<open>read\<close>: the trimmed contents, empty when unreadable; \<open>readRaw\<close>: untrimmed.\<close>

definition readTrim :: "filesys \<Rightarrow> string \<Rightarrow> string" where
  "readTrim fs p = (case fs_file fs p of None \<Rightarrow> '''' | Some s \<Rightarrow> trim_space s)"

definition readRaw :: "filesys \<Rightarrow> string \<Rightarrow> string" where
  "readRaw fs p = (case fs_file fs p of None \<Rightarrow> '''' | Some s \<Rightarrow> s)"

text \<open>\<open>strings.TrimRight(s, c)\<close> of one byte, and \<open>filepath.Base\<close> of any path.\<close>

definition trim_right :: "char \<Rightarrow> string \<Rightarrow> string" where
  "trim_right c s = rev (dropWhile (\<lambda>x. x = c) (rev s))"

definition go_base :: "string \<Rightarrow> string" where
  "go_base p =
     (if p = '''' then ''.''
      else let q = trim_right (CHR ''/'') p in if q = '''' then ''/'' else last (split_at (CHR ''/'') q))"

section \<open>Words of a line\<close>

definition word_ok :: "string \<Rightarrow> bool" where
  "word_ok w \<longleftrightarrow> w \<noteq> [] \<and> list_all (\<lambda>c. \<not> is_space c) w"

lemma is_space_blank [simp]: "is_space (CHR '' '')" by (simp add: is_space_def)

lemma split_at_app: "c \<notin> set w \<Longrightarrow> split_at c (w @ c # s) = w # split_at c s"
  by (induction w) (auto split: list.splits)

lemma split_at_one: "c \<notin> set w \<Longrightarrow> split_at c w = [w]"
  by (induction w) auto

lemma Fields_words:
  assumes "list_all word_ok ws"
  shows "Fields (concat (map (\<lambda>w. CHR '' '' # w) ws)) = ws"
proof -
  let ?sp = "\<lambda>c. if is_space c then CHR '' '' else c"
  have keep: "map ?sp w = w \<and> CHR '' '' \<notin> set w" if "word_ok w" for w
    using that unfolding word_ok_def list_all_iff by (force intro: map_idI)
  have "split_at (CHR '' '') (map ?sp (concat (map (\<lambda>w. CHR '' '' # w) ws))) = [] # ws"
    using assms
  proof (induction ws)
    case (Cons w ws)
    then have w: "map ?sp w = w" "CHR '' '' \<notin> set w" using keep by auto
    show ?case
    proof (cases ws)
      case Nil
      with w show ?thesis by (simp add: split_at_one)
    next
      case (Cons v vs)
      then have "split_at (CHR '' '') (map ?sp (concat (map (\<lambda>w. CHR '' '' # w) ws))) = [] # ws"
        using Cons.IH Cons.prems by auto
      then have "split_at (CHR '' '') (w @ map ?sp (concat (map (\<lambda>w. CHR '' '' # w) ws))) = w # ws"
        using w(2) Cons split_at_app [OF w(2)] by auto
      with w(1) show ?thesis by simp
    qed
  qed simp
  moreover have "filter (\<lambda>x. x \<noteq> []) ws = ws"
    using assms by (induction ws) (auto simp: word_ok_def)
  ultimately show ?thesis by (simp add: Fields_def)
qed

lemma trim_space_id:
  assumes "s \<noteq> []" "\<not> is_space (hd s)" "\<not> is_space (last s)"
  shows "trim_space s = s"
proof -
  have "dropWhile is_space s = s" using assms by (cases s) auto
  moreover have "dropWhile is_space (rev s) = rev s" using assms by (cases s rule: rev_cases) auto
  ultimately show ?thesis by (simp add: trim_space_def)
qed

lemma cut_at_app: "c \<notin> set a \<Longrightarrow> cut_at c (a @ c # b) = (a, b, True)"
  by (induction a) (auto simp: cut_at_def)

lemma cut_at_none: "c \<notin> set a \<Longrightarrow> cut_at c a = (a, [], False)"
  by (simp add: cut_at_def)

section \<open>Hexadecimal\<close>

definition hex_digit :: "nat \<Rightarrow> char" where
  "hex_digit n = (if n < 10 then digit_char n else char_of (87 + n))"

definition hex_val :: "char \<Rightarrow> nat option" where
  "hex_val c = (let n = of_char c in
     if 48 \<le> n \<and> n \<le> 57 then Some (n - 48) else if 97 \<le> n \<and> n \<le> 102 then Some (n - 87)
     else if 65 \<le> n \<and> n \<le> 70 then Some (n - 55) else None)"

fun hex_loop :: "nat \<Rightarrow> string \<Rightarrow> nat option" where
  "hex_loop acc [] = Some acc"
| "hex_loop acc (c # cs) = (case hex_val c of None \<Rightarrow> None | Some d \<Rightarrow> hex_loop (acc * 16 + d) cs)"

text \<open>\<open>strconv.ParseUint(s, 16, bits)\<close>; \<open>None\<close> is the error return (syntax or range).\<close>

definition parse_hex :: "nat \<Rightarrow> string \<Rightarrow> nat option" where
  "parse_hex bits s = (if s = [] then None
     else case hex_loop 0 s of None \<Rightarrow> None | Some v \<Rightarrow> if v < 2 ^ bits then Some v else None)"

text \<open>The verb \<open>%02x\<close> of a byte.\<close>

definition hex2 :: "8 word \<Rightarrow> string" where
  "hex2 b = [hex_digit (unat b div 16), hex_digit (unat b mod 16)]"

lemma hex_val_digit [simp]: "n < 16 \<Longrightarrow> hex_val (hex_digit n) = Some n"
  by (auto simp: hex_val_def hex_digit_def digit_char_def)

lemma hex_digit_not_space: "n < 16 \<Longrightarrow> \<not> is_space (hex_digit n)"
proof -
  assume "n < 16"
  then have "of_char (hex_digit n) \<ge> (48::nat)" by (simp add: hex_digit_def digit_char_def)
  moreover have "of_char c < (48::nat)" if "is_space c" for c using that by (auto simp: is_space_def)
  ultimately show ?thesis by force
qed

lemma byte_lt: "unat (b :: 8 word) < 256"
  using unsigned_less [of b] by simp

lemma byte_bounds: "unat (b :: 8 word) div 16 < 16" "unat b mod 16 < 16"
  using byte_lt [of b] by simp_all

lemma parse_hex2 [simp]: "parse_hex 8 (hex2 b) = Some (unat b)"
  using byte_bounds [of b] byte_lt [of b] by (simp add: parse_hex_def hex2_def)

lemma hex2_word_ok: "word_ok (hex2 b)"
  using byte_bounds [of b] by (simp add: word_ok_def hex2_def hex_digit_not_space)

end
