(* ===== verification/Driver.thy ===== *)
theory Driver
  imports Files
begin

text \<open>
  The state of the kernel module and its register dump: src/go/n5/n5driver/n5driver.go. An error
  return is \<open>Inl\<close> with the text; the partly filled value Go returns beside it is not used by any
  caller.
\<close>

section \<open>State\<close>

definition ModuleName :: string where "ModuleName = ''minisforum_n5_it5571''"
definition PackageName :: string where "PackageName = ''minisforum-n5-it5571-dkms''"
definition SysVendor :: string where "SysVendor = ''Micro Computer (HK) Tech Limited''"

record State =
  ds_Loaded :: bool
  ds_Version :: string
  ds_SrcVersion :: string
  ds_Taint :: string
  ds_Params :: "(string \<times> string) list"
  ds_HwmonPath :: string
  ds_Attrs :: "string list"
  ds_PWMVisible :: bool
  ds_DCRPath :: string

definition Param :: "State \<Rightarrow> string \<Rightarrow> string" where
  "Param s name = (case map_of (ds_Params s) name of None \<Rightarrow> '''' | Some v \<Rightarrow> v)"

definition yes :: "string \<Rightarrow> bool" where
  "yes v \<longleftrightarrow> v = ''Y'' \<or> v = ''y'' \<or> v = ''1''"

definition Forced :: "State \<Rightarrow> bool" where "Forced s = yes (Param s ''force'')"

definition WriteDisabled :: "State \<Rightarrow> bool" where
  "WriteDisabled s \<longleftrightarrow> ds_HwmonPath s \<noteq> '''' \<and> \<not> ds_PWMVisible s"

definition Mode :: "State \<Rightarrow> string" where
  "Mode s = (if \<not> ds_Loaded s \<and> ds_HwmonPath s = '''' then ''not-loaded''
             else if ds_HwmonPath s = '''' then ''no-hwmon''
             else if ds_PWMVisible s then ''write-enabled'' else ''write-disabled'')"

definition writeDisabledWhy :: "State \<Rightarrow> string" where
  "writeDisabledWhy s =
     (if Forced s then ''force-loaded''
      else if Param s ''experimental_write'' \<noteq> '''' \<and> \<not> yes (Param s ''experimental_write'') then ''experimental_write=N''
      else ''board not in the driver's write allowlist, DMI vendor mismatch, or experimental_write off'')"

definition Findings :: "State \<Rightarrow> string list" where
  "Findings s =
     (if Forced s then [''force=Y: the driver bound without a known DMI match; from driver 0.2.1+sr1 that binding is always read-only''] else []) @
     (if WriteDisabled s then [''write disabled: the driver hides the pwm nodes ('' @ writeDisabledWhy s @
        ''); fans stay under EC control and n5-fangov cannot regulate''] else []) @
     (if yes (Param s ''debug_regs'') then [''debug_regs=Y: register dump for validation only, it must not stay in modprobe.d''] else [])"

text \<open>\<open>findHwmon\<close>: the first directory, in name order, whose \<open>name\<close> is the module's.\<close>

definition findHwmon :: "filesys \<Rightarrow> string \<Rightarrow> string" where
  "findHwmon fs sysRoot =
     (let dir = join_path [sysRoot, ''class'', ''hwmon'']
      in case fs_dir fs dir of None \<Rightarrow> ''''
         | Some names \<Rightarrow>
             (case find (\<lambda>n. readTrim fs (join_path [dir, n, ''name'']) = ModuleName) names of
                None \<Rightarrow> '''' | Some n \<Rightarrow> join_path [dir, n]))"

definition DCRPath :: "string \<Rightarrow> string" where
  "DCRPath sysRoot = join_path [sysRoot, ''kernel'', ''debug'', ModuleName, ''dcr'']"

definition read_params :: "filesys \<Rightarrow> string \<Rightarrow> (string \<times> string) list" where
  "read_params fs mdir = (case fs_dir fs (join_path [mdir, ''parameters'']) of None \<Rightarrow> []
     | Some es \<Rightarrow> map (\<lambda>e. (e, readTrim fs (join_path [mdir, ''parameters'', e]))) es)"

definition Read :: "filesys \<Rightarrow> string \<Rightarrow> State" where
  "Read fs sysRoot =
     (let mdir = join_path [sysRoot, ''module'', ModuleName];
          hw = findHwmon fs sysRoot
      in \<lparr> ds_Loaded = (fs_dir fs mdir \<noteq> None),
           ds_Version = readTrim fs (join_path [mdir, ''version'']),
           ds_SrcVersion = readTrim fs (join_path [mdir, ''srcversion'']),
           ds_Taint = readTrim fs (join_path [mdir, ''taint'']),
           ds_Params = read_params fs mdir,
           ds_HwmonPath = hw,
           ds_Attrs = (if hw = '''' then [] else case fs_dir fs hw of None \<Rightarrow> []
             | Some es \<Rightarrow> filter (\<lambda>e. fs_file fs (join_path [hw, e]) \<noteq> None) es),
           ds_PWMVisible = (hw \<noteq> '''' \<and> exists_path fs (join_path [hw, ''pwm1'']) \<and>
             exists_path fs (join_path [hw, ''pwm1_enable''])),
           ds_DCRPath = (if exists_path fs (DCRPath sysRoot) then DCRPath sysRoot else '''') \<rparr>)"

section \<open>The register dump\<close>

text \<open>\<open>type DCR [16]byte\<close>: a list of 16 bytes; indexing outside panics in Go and is not reached.\<close>

type_synonym DCR = "8 word list"

definition Reg :: "DCR \<Rightarrow> int \<Rightarrow> int" where
  "Reg d n = uint (d ! nat (2 + n))"

definition ChannelDCR :: "int \<Rightarrow> int option" where
  "ChannelDCR pwm = (if pwm = 1 \<or> pwm = 2 \<or> pwm = 3 then Some pwm else if pwm = 4 then Some 5 else None)"

definition Channel :: "DCR \<Rightarrow> int \<Rightarrow> int option" where
  "Channel d pwm = (case ChannelDCR pwm of None \<Rightarrow> None | Some n \<Rightarrow> Some (Reg d n))"

definition DCR_String :: "DCR \<Rightarrow> string" where
  "DCR_String d = ''1800:'' @ concat (map (\<lambda>v. CHR '' '' # hex2 v) d)"

definition bad_byte_text :: "string \<Rightarrow> string \<Rightarrow> string" where
  [text_defs]: "bad_byte_text what f = ''n5driver: '' @ what @ '': bad byte '' @ fmt_q f"

fun dcr_row :: "nat \<Rightarrow> string list \<Rightarrow> DCR \<times> bool list \<Rightarrow> string + DCR \<times> bool list" where
  "dcr_row off [] ds = Inr ds"
| "dcr_row off (f # fs) (d, seen) =
     (if off \<ge> length d then Inr (d, seen)
      else case parse_hex 8 f of
             None \<Rightarrow> Inl (bad_byte_text ''dcr'' f)
           | Some v \<Rightarrow> dcr_row (off + 1) fs (d[off := of_nat v], seen[off := True]))"

text \<open>The address of a line and its bytes; lines without one, or outside the block, are skipped.\<close>

definition row_of :: "nat \<Rightarrow> nat \<Rightarrow> string \<Rightarrow> (nat \<times> string list) option" where
  "row_of lo hi line =
     (case cut_at (CHR '':'') (trim_space line) of (addr, rest, ok) \<Rightarrow>
        if \<not> ok then None
        else case parse_hex 16 (trim_space addr) of None \<Rightarrow> None
          | Some a \<Rightarrow> if a < lo \<or> a > hi then None else Some (a - lo, Fields rest))"

fun dcr_lines :: "string list \<Rightarrow> DCR \<times> bool list \<Rightarrow> string + DCR \<times> bool list" where
  "dcr_lines [] ds = Inr ds"
| "dcr_lines (l # ls) ds =
     (case row_of 0x1800 0x180f l of
        None \<Rightarrow> dcr_lines ls ds
      | Some (off, fs) \<Rightarrow> (case dcr_row off fs ds of Inl e \<Rightarrow> Inl e | Inr ds' \<Rightarrow> dcr_lines ls ds'))"

definition hex_addr4 :: "nat \<Rightarrow> string" where
  "hex_addr4 n = map (\<lambda>k. hex_digit (n div 16 ^ k mod 16)) [3, 2, 1, 0]"

definition reg_missing_text :: "nat \<Rightarrow> string" where
  [text_defs]: "reg_missing_text off = ''n5driver: dcr: register 0x'' @ hex_addr4 (0x1800 + off) @
     '' missing (need 0x1803..0x1807, DCR1..DCR5)''"

definition ParseDCR :: "string \<Rightarrow> string + DCR" where
  "ParseDCR s =
     (case dcr_lines (split_at NL s) (replicate 16 0, replicate 16 False) of
        Inl e \<Rightarrow> Inl e
      | Inr (d, seen) \<Rightarrow>
          (case find (\<lambda>off. \<not> seen ! off) [3, 4, 5, 6, 7] of
             Some off \<Rightarrow> Inl (reg_missing_text off)
           | None \<Rightarrow> Inr d))"

definition ReadDCR :: "filesys \<Rightarrow> string \<Rightarrow> string + DCR" where
  "ReadDCR fs path = (case fs_file fs path of None \<Rightarrow> Inl (''open '' @ path) | Some b \<Rightarrow> ParseDCR b)"

section \<open>EC RAM\<close>

type_synonym ECRAM = "8 word list"

definition ECRAMPath :: "string \<Rightarrow> string" where
  "ECRAMPath sysRoot = join_path [sysRoot, ''kernel'', ''debug'', ModuleName, ''ecram'']"

definition ECRAM_Hex :: "ECRAM \<Rightarrow> int \<Rightarrow> int \<Rightarrow> string" where
  "ECRAM_Hex e lo hi =
     joins '' '' (map (\<lambda>a. hex2 (e ! nat a)) (filter (\<lambda>a. a \<ge> 0 \<and> a < int (length e)) [lo..hi]))"

definition row_long_text :: "nat \<Rightarrow> string" where
  [text_defs]: "row_long_text a = ''n5driver: ecram: row '' @ hex2 (of_nat a) @ '' longer than the EC RAM''"

fun ecram_row :: "nat \<Rightarrow> nat \<Rightarrow> string list \<Rightarrow> ECRAM \<times> bool list \<Rightarrow> string + ECRAM \<times> bool list" where
  "ecram_row a off [] es = Inr es"
| "ecram_row a off (f # fs) (e, seen) =
     (if off > 0xff then Inl (row_long_text a)
      else case parse_hex 8 f of
             None \<Rightarrow> Inl (bad_byte_text ''ecram'' f)
           | Some v \<Rightarrow> ecram_row a (off + 1) fs (e[off := of_nat v], seen[off := True]))"

fun ecram_lines :: "string list \<Rightarrow> ECRAM \<times> bool list \<Rightarrow> string + ECRAM \<times> bool list" where
  "ecram_lines [] es = Inr es"
| "ecram_lines (l # ls) es =
     (case row_of 0 0xff l of
        None \<Rightarrow> ecram_lines ls es
      | Some (a, fs) \<Rightarrow> (case ecram_row a a fs es of Inl e \<Rightarrow> Inl e | Inr es' \<Rightarrow> ecram_lines ls es'))"

definition byte_missing_text :: "nat \<Rightarrow> string" where
  [text_defs]: "byte_missing_text i = ''n5driver: ecram: byte 0x'' @ hex2 (of_nat i) @ '' missing (incomplete dump)''"

definition ParseECRAM :: "string \<Rightarrow> string + ECRAM" where
  "ParseECRAM s =
     (case ecram_lines (split_at NL s) (replicate 256 0, replicate 256 False) of
        Inl e \<Rightarrow> Inl e
      | Inr (e, seen) \<Rightarrow>
          (case find (\<lambda>i. \<not> seen ! i) [0..<256] of
             Some i \<Rightarrow> Inl (byte_missing_text i)
           | None \<Rightarrow> Inr e))"

section \<open>Facts\<close>

lemma Reg_range: "0 \<le> Reg d n" "Reg d n < 256"
  using uint_lt2p [of "d ! nat (2 + n)"] by (simp_all add: Reg_def)

text \<open>A row that fits fills its bytes from its address on.\<close>

lemma dcr_row_fill:
  assumes "length seen = length d" "off + length vs \<le> length d"
  shows "dcr_row off (map hex2 vs) (d, seen) =
    Inr (take off d @ vs @ drop (off + length vs) d,
         take off seen @ replicate (length vs) True @ drop (off + length vs) seen)"
  using assms
proof (induction vs arbitrary: off d seen)
  case (Cons v vs)
  have "dcr_row (off + 1) (map hex2 vs) (d[off := v], seen[off := True]) =
     Inr (take (off + 1) (d[off := v]) @ vs @ drop (off + 1 + length vs) (d[off := v]),
          take (off + 1) (seen[off := True]) @ replicate (length vs) True @ drop (off + 1 + length vs) (seen[off := True]))"
    using Cons.prems by (intro Cons.IH) simp_all
  with Cons.prems show ?case
    by (simp add: take_Suc_conv_app_nth take_update_swap list_update_append)
qed simp

lemma no_nl_hex2: "NL \<notin> set (hex2 v)" "CHR '':'' \<notin> set (hex2 v)"
proof -
  have "hex_val NL = None" "hex_val (CHR '':'') = None" by (simp_all add: NL_def hex_val_def)
  moreover have "hex_val c \<noteq> None" if "c \<in> set (hex2 v)" for c
    using that byte_bounds [of v] by (auto simp: hex2_def)
  ultimately show "NL \<notin> set (hex2 v)" "CHR '':'' \<notin> set (hex2 v)" by metis+
qed

lemma row_of_String:
  assumes "d \<noteq> []"
  shows "row_of 0x1800 0x180f (DCR_String d) = Some (0, map hex2 d)"
proof -
  let ?ws = "concat (map (\<lambda>v. CHR '' '' # hex2 v) d)"
  have "last (DCR_String d) = hex_digit (unat (last d) mod 16)"
    using assms by (cases d rule: rev_cases) (auto simp: DCR_String_def hex2_def)
  then have "\<not> is_space (last (DCR_String d))" by (simp add: hex_digit_not_space byte_bounds)
  then have "trim_space (DCR_String d) = DCR_String d"
    by (intro trim_space_id) (simp_all add: DCR_String_def is_space_def)
  moreover have "cut_at (CHR '':'') (DCR_String d) = (''1800'', ?ws, True)"
    using cut_at_app [of "CHR '':''" "''1800''" ?ws] by (simp add: DCR_String_def)
  moreover have "Fields ?ws = map hex2 d"
    using Fields_words [of "map hex2 d"] hex2_word_ok by (simp add: list_all_iff comp_def)
  moreover have "trim_space ''1800'' = ''1800''" by (simp add: trim_space_def is_space_def)
  moreover have "parse_hex 16 ''1800'' = Some 0x1800" by (simp add: parse_hex_def hex_val_def)
  ultimately show ?thesis by (simp add: row_of_def)
qed

lemma split_at_String: "split_at NL (DCR_String d) = [DCR_String d]"
  by (rule split_at_one) (auto simp: DCR_String_def no_nl_hex2, simp_all add: NL_def)

text \<open>Printing a dump and parsing it gives the dump back.\<close>

lemma ParseDCR_String:
  assumes "length d = 16"
  shows "ParseDCR (DCR_String d) = Inr d"
proof -
  from assms have "d \<noteq> []" by auto
  then show ?thesis
    using assms dcr_row_fill [of "replicate 16 False" "replicate 16 0" 0 d]
    by (simp add: ParseDCR_def split_at_String row_of_String)
qed

lemma dcr_row_length:
  "dcr_row off fs (d, seen) = Inr (d', seen') \<Longrightarrow> length d' = length d \<and> length seen' = length seen"
  by (induction off fs "(d, seen)" arbitrary: d seen rule: dcr_row.induct)
    (auto split: if_splits option.splits)

lemma dcr_lines_length:
  "dcr_lines ls (d, seen) = Inr (d', seen') \<Longrightarrow> length d' = length d \<and> length seen' = length seen"
proof (induction ls arbitrary: d seen)
  case (Cons l ls)
  then show ?case
    by (auto split: option.splits sum.splits prod.splits dest: dcr_row_length)
qed simp

lemma ParseDCR_length: "ParseDCR s = Inr d \<Longrightarrow> length d = 16"
  by (auto simp: ParseDCR_def split: sum.splits prod.splits option.splits dest: dcr_lines_length)

end
