(* ===== verification/Restore_Values.thy ===== *)
theory Restore_Values
  imports Spec_Base
begin

text \<open>
  The restore value of each channel: src/ectest/internal/runner/restorevals.go. The TOML decoder
  (github.com/BurntSushi/toml) is a parameter: it maps the bytes of the configuration to an error
  text or to the list of its \<open>[[channel]]\<close> tables.
\<close>

definition SourceArg :: string where [text_defs]: "SourceArg = ''--restore''"
definition SourceConfig :: string where [text_defs]: "SourceConfig = ''n5-fangov config''"
definition SourceBuiltin :: string where
  [text_defs]: "SourceBuiltin = ''n5-fangov built-in stop value (config unreadable)''"
definition SourceDefault :: string where
  [text_defs]: "SourceDefault = ''default without n5-fangov config (TESTSPEC '' @ sect @ ''4)''"
definition SourcePCIe :: string where
  [text_defs]: "SourcePCIe = ''fixed 255 for pwm4 (no EC automatic; operator decision 3, 2026-10-16)''"

definition PCIeRestore :: string where "PCIeRestore = ''255''"

record RestoreValues =
  rv_Values :: "int \<Rightarrow> string option"
  rv_Sources :: "int \<Rightarrow> string option"
  rv_Warnings :: "string list"
  rv_Deviations :: "string list"

definition DeviationPCIeRestore :: "string \<Rightarrow> string" where
  [text_defs]: "DeviationPCIeRestore stop = ''restore value of pwm4 is 255, not the n5-fangov stop value '' @ fmt_q stop @
     '' (PCIe/DCR5 has no EC automatic; TESTSPEC '' @ sect @ ''4 takes the stop value; operator decision 3, 2026-10-16)''"

section \<open>ParseRestoreArg\<close>

definition arg_text :: "string \<Rightarrow> string \<Rightarrow> string" where
  [text_defs]: "arg_text s why = ''--restore '' @ fmt_q s @ '': '' @ why"

definition ParseRestoreArg :: "string \<Rightarrow> string + int \<times> string" where
  "ParseRestoreArg s =
     (case cut_at (CHR ''='') (trim_space s) of (k, v, ok) \<Rightarrow>
       if \<not> ok then Inl (arg_text s ''want pwmN=auto|D'')
       else
         (case (if has_prefix ''pwm'' k then atoi (trim_prefix ''pwm'' k) else None) of
            None \<Rightarrow> Inl (arg_text s ''channel is pwm1..pwm4'')
          | Some ch \<Rightarrow>
              if ch < 1 \<or> ch > 4 then Inl (arg_text s ''channel is pwm1..pwm4'')
              else if ch = PCIeChannel \<and> v \<noteq> PCIeRestore
              then Inl (arg_text s (''the restore value of pwm4 is always '' @ PCIeRestore @ '' (no EC automatic)''))
              else if v = ''auto'' then Inr (ch, v)
              else (case atoi v of
                      None \<Rightarrow> Inl (arg_text s ''value is auto or a duty 100..255'')
                    | Some d \<Rightarrow>
                        if d > 255 then Inl (arg_text s ''value is auto or a duty 100..255'')
                        else if d < MinDuty
                        then Inl (arg_text s (''a duty below '' @ itoa MinDuty @ '' is never written (TESTSPEC '' @ sect @ ''4)''))
                        else Inr (ch, itoa d))))"

section \<open>ResolveRestore\<close>

record fangovChannel =
  fc_Name :: string
  fc_PWM :: int
  fc_Stop :: string

text \<open>What reading the configuration file returned.\<close>

datatype config_read = NotExist | ReadError string | Contents string

definition fangovBuiltin :: "int \<Rightarrow> string" where
  "fangovBuiltin ch = (if ch = 1 \<or> ch = 2 \<or> ch = 4 then ''auto'' else if ch = 3 then ''140'' else '''')"

definition unreadable_text :: "string \<Rightarrow> string \<Rightarrow> string" where
  [text_defs]: "unreadable_text path e = path @ '' unreadable ('' @ e @ ''): n5-fangov built-in stop values used''"

definition pwm3_auto_text :: string where
  [text_defs]: "pwm3_auto_text = ''n5-fangov config: pwm3 stop '' @ fmt_q ''auto'' @
     '' is replaced by 140 in n5-fangov (n5pro); restore value 140''"

text \<open>The loop over the tables of the document: the stop values and the warnings.\<close>

fun config_loop :: "fangovChannel list \<Rightarrow> (int \<Rightarrow> string) \<times> string list \<Rightarrow> (int \<Rightarrow> string) \<times> string list" where
  "config_loop [] acc = acc"
| "config_loop (c # cs) (cfg, warns) =
     (if fc_PWM c < 1 \<or> fc_PWM c > 4 then config_loop cs (cfg, warns)
      else
        (let stop = trim_space (fc_Stop c);
             stop = (if stop = '''' then ''auto'' else stop);
             (stop, warns) = (if fc_PWM c = 3 \<and> stop = ''auto'' then (fangovBuiltin 3, warns @ [pwm3_auto_text]) else (stop, warns))
         in config_loop cs (cfg(fc_PWM c := stop), warns)))"

text \<open>The first switch: the configured stop values (\<open>None\<close> without a file), their source, warnings.\<close>

definition read_config :: "(string \<Rightarrow> string + fangovChannel list) \<Rightarrow> string \<Rightarrow> config_read
    \<Rightarrow> (int \<Rightarrow> string) option \<times> string \<times> string list" where
  "read_config decode path r =
     (case r of
        Contents b \<Rightarrow>
          (case decode b of
             Inl e \<Rightarrow> (Some fangovBuiltin, SourceBuiltin, [unreadable_text path e])
           | Inr chans \<Rightarrow> (case config_loop chans (fangovBuiltin, []) of (cfg, w) \<Rightarrow> (Some cfg, SourceConfig, w)))
      | NotExist \<Rightarrow> (None, '''', [])
      | ReadError e \<Rightarrow> (Some fangovBuiltin, SourceBuiltin, [unreadable_text path e]))"

text \<open>The value of one channel before it is checked: value, source, deviation.\<close>

definition pick_value :: "(int \<Rightarrow> string) \<Rightarrow> (int \<Rightarrow> string) option \<Rightarrow> string \<Rightarrow> int \<Rightarrow> string \<times> string \<times> string list" where
  "pick_value args cfg src ch =
     (if args ch \<noteq> '''' then (args ch, SourceArg, [])
      else case cfg of
        Some c \<Rightarrow>
          if ch = PCIeChannel
          then (PCIeRestore, SourcePCIe,
                if c ch \<noteq> PCIeRestore \<and> c ch \<noteq> ''auto'' then [DeviationPCIeRestore (c ch)] else [])
          else (c ch, src, [])
      | None \<Rightarrow> (if ch = PCIeChannel then PCIeRestore else ''auto'', SourceDefault, []))"

definition not_duty_text :: "int \<Rightarrow> string \<Rightarrow> string" where
  [text_defs]: "not_duty_text ch v = ''pwm'' @ itoa ch @ '': restore value '' @ fmt_q v @ '' is not auto or a duty: auto used''"

definition raised_text :: "int \<Rightarrow> int \<Rightarrow> string" where
  [text_defs]: "raised_text ch d = ''pwm'' @ itoa ch @ '': restore value '' @ itoa d @ '' raised to '' @ itoa MinDuty @
     '' (a duty below '' @ itoa MinDuty @ '' is never written, TESTSPEC '' @ sect @ ''4)''"

definition check_value :: "int \<Rightarrow> string \<Rightarrow> string \<times> string list" where
  "check_value ch v =
     (if v \<noteq> ''auto'' then
        (case atoi v of
           None \<Rightarrow> (''auto'', [not_duty_text ch v])
         | Some d \<Rightarrow>
             if d > 255 then (''auto'', [not_duty_text ch v])
             else if d < MinDuty then (itoa MinDuty, [raised_text ch d])
             else (itoa d, []))
      else (v, []))"

fun resolve_loop :: "(int \<Rightarrow> string) \<Rightarrow> (int \<Rightarrow> string) option \<Rightarrow> string \<Rightarrow> int list \<Rightarrow> RestoreValues \<Rightarrow> RestoreValues" where
  "resolve_loop args cfg src [] rv = rv"
| "resolve_loop args cfg src (ch # chs) rv =
     (let (v, s, devs) = pick_value args cfg src ch;
          (v', warns) = check_value ch v
      in resolve_loop args cfg src chs
           (rv\<lparr> rv_Values := (rv_Values rv)(ch \<mapsto> v'), rv_Sources := (rv_Sources rv)(ch \<mapsto> s),
                rv_Warnings := rv_Warnings rv @ warns, rv_Deviations := rv_Deviations rv @ devs \<rparr>))"

definition ResolveRestore :: "(string \<Rightarrow> string + fangovChannel list) \<Rightarrow> (int \<Rightarrow> string) \<Rightarrow> string \<Rightarrow> config_read
    \<Rightarrow> int list \<Rightarrow> RestoreValues" where
  "ResolveRestore decode args path r chans =
     (let (cfg, src, warns) = read_config decode path r
      in resolve_loop args cfg src (sort chans)
           \<lparr> rv_Values = Map.empty, rv_Sources = Map.empty, rv_Warnings = warns, rv_Deviations = [] \<rparr>)"

section \<open>Facts\<close>

text \<open>A value a channel may be restored to: the automatic, or a duty from 100 to 255.\<close>

definition restorable :: "string \<Rightarrow> bool" where
  "restorable v \<longleftrightarrow> v = ''auto'' \<or> (\<exists>d. atoi v = Some d \<and> MinDuty \<le> d \<and> d \<le> 255)"

lemma atoi_itoa_duty: "MinDuty \<le> d \<Longrightarrow> d \<le> 255 \<Longrightarrow> atoi (itoa d) = Some d"
  by (rule atoi_itoa) (simp_all add: MinDuty_def)

lemma check_value_restorable: "restorable (fst (check_value ch v))"
  by (auto simp: check_value_def restorable_def atoi_itoa_duty MinDuty_def split: option.splits)

lemma check_value_kept: "restorable v \<Longrightarrow> snd (check_value ch v) = []"
  by (auto simp: check_value_def restorable_def)

lemma resolve_loop_values:
  assumes "rv_Values (resolve_loop args cfg src chs rv) ch = Some v"
  shows "rv_Values rv ch = Some v \<or>
    ch \<in> set chs \<and> v = fst (check_value ch (fst (pick_value args cfg src ch)))"
  using assms
proof (induction chs arbitrary: rv)
  case (Cons c chs)
  then show ?case by (fastforce simp: Let_def split_beta split: if_splits)
qed simp

lemma resolve_loop_total:
  "ch \<in> set chs \<or> rv_Values rv ch \<noteq> None \<Longrightarrow> rv_Values (resolve_loop args cfg src chs rv) ch \<noteq> None"
  by (induction chs arbitrary: rv) (auto simp: Let_def split_beta)

lemma ResolveRestore_value:
  assumes "rv_Values (ResolveRestore decode args path r chans) ch = Some v"
  shows "ch \<in> set chans" "restorable v"
proof -
  obtain cfg src w where c: "read_config decode path r = (cfg, src, w)" by (metis prod_cases3)
  with assms have "ch \<in> set chans \<and> v = fst (check_value ch (fst (pick_value args cfg src ch)))"
    by (auto simp: ResolveRestore_def dest!: resolve_loop_values)
  then show "ch \<in> set chans" "restorable v" using check_value_restorable by simp_all
qed

lemma ResolveRestore_total:
  "ch \<in> set chans \<Longrightarrow> \<exists>v. rv_Values (ResolveRestore decode args path r chans) ch = Some v"
  using resolve_loop_total [of ch "sort chans"]
  by (auto simp: ResolveRestore_def split: prod.splits)

lemma resolve_pwm4:
  assumes "args PCIeChannel = '''' \<or> args PCIeChannel = PCIeRestore"
    and "rv_Values (ResolveRestore decode args path r chans) PCIeChannel = Some v"
  shows "v = PCIeRestore"
proof -
  obtain cfg src w where c: "read_config decode path r = (cfg, src, w)" by (metis prod_cases3)
  with assms(2) have v: "v = fst (check_value PCIeChannel (fst (pick_value args cfg src PCIeChannel)))"
    by (auto simp: ResolveRestore_def dest!: resolve_loop_values)
  have "fst (pick_value args cfg src PCIeChannel) = PCIeRestore"
    using assms(1) by (auto simp: pick_value_def split: option.splits)
  moreover have "check_value PCIeChannel PCIeRestore = (PCIeRestore, [])"
    by code_simp
  ultimately show ?thesis using v by simp
qed

lemma ParseRestoreArg_accepts:
  assumes "ParseRestoreArg s = Inr (ch, v)"
  shows "1 \<le> ch \<and> ch \<le> 4 \<and> restorable v \<and> (ch = PCIeChannel \<longrightarrow> v = PCIeRestore)"
proof -
  have pcie: "itoa d = PCIeRestore" if "atoi PCIeRestore = Some d" for d
  proof -
    have "atoi PCIeRestore = Some 255" by code_simp
    with that have "d = 255" by simp
    moreover have "itoa 255 = PCIeRestore" by code_simp
    ultimately show ?thesis by simp
  qed
  have "PCIeRestore \<noteq> ''auto''" by (simp add: PCIeRestore_def)
  then show ?thesis
    using assms pcie
    by (auto simp: ParseRestoreArg_def restorable_def atoi_itoa_duty split: prod.splits option.splits if_splits)
qed

end
