(* ===== verification/Pwm_Writer.thy ===== *)
theory Pwm_Writer
  imports Driver Spec_Base Restore_Values
begin

text \<open>
  The only write path: src/ectest/internal/pwmw/pwmw.go. The kernel is a parameter: a view of its
  files and the effect of writing a value to a path (which may fail, and may change anything). The
  hooks \<open>Before\<close> and \<open>After\<close> and the \<open>Recorder\<close> act on a state of their own. A panic is a value of
  the result. A read or a write that hangs longer than its time limit is a failed one.
\<close>

section \<open>Data\<close>

datatype Attr = Duty | Enable

definition Name :: "Attr \<Rightarrow> int \<Rightarrow> string" where
  "Name a ch = (case a of Enable \<Rightarrow> ''pwm'' @ itoa ch @ ''_enable'' | Duty \<Rightarrow> ''pwm'' @ itoa ch)"

record Device =
  dv_Name :: string
  dv_DevicePath :: string
  dv_SrcVersion :: string

definition Device_String :: "Device \<Rightarrow> string" where
  [text_defs]: "Device_String d = dv_Name d @ '' at '' @ dv_DevicePath d @ '' (srcversion '' @ orDash (dv_SrcVersion d) @ '')''"

datatype werror =
    ErrNoDevice string
  | ErrAmbiguous string
  | ErrDeviceChanged string
  | ErrNoAttr string
  | ErrOutOfRange string
  | ErrNotDuty string
  | ErrWrite string

datatype wresult = Done | Failed werror | Panic string

record 'w kernel =
  k_view :: "'w \<Rightarrow> filesys"
  k_write :: "string \<Rightarrow> string \<Rightarrow> 'w \<Rightarrow> 'w \<times> string option"

record 'h Writer =
  wr_SysRoot :: string
  wr_Want :: Device
  wr_Before :: "int \<Rightarrow> Attr \<Rightarrow> int \<Rightarrow> 'h \<Rightarrow> 'h"
  wr_After :: "int \<Rightarrow> Attr \<Rightarrow> int \<Rightarrow> string option \<Rightarrow> 'h \<Rightarrow> 'h"
  wr_Recorder :: "string \<Rightarrow> string \<Rightarrow> 'h \<Rightarrow> 'h"

section \<open>Resolve\<close>

definition resolve_found :: "filesys \<Rightarrow> string \<Rightarrow> string list \<Rightarrow> string list" where
  "resolve_found fs cls names =
     map (\<lambda>n. join_path [cls, n]) (filter (\<lambda>n. readTrim fs (join_path [cls, n, ''name'']) = ModuleName) names)"

definition device_dir :: "string \<Rightarrow> string" where
  "device_dir rp = (if base_name (dir_name rp) = ''hwmon'' then dir_name (dir_name rp) else rp)"

definition Resolve :: "filesys \<Rightarrow> string \<Rightarrow> werror + Device \<times> string" where
  "Resolve fs sysRoot =
     (let cls = join_path [sysRoot, ''class'', ''hwmon'']
      in case fs_dir fs cls of
           None \<Rightarrow> Inl (ErrNoDevice cls)
         | Some names \<Rightarrow>
             (case resolve_found fs cls names of
                [] \<Rightarrow> Inl (ErrNoDevice '''')
              | [d] \<Rightarrow>
                  (case fs_real fs d of
                     None \<Rightarrow> Inl (ErrNoDevice d)
                   | Some rp \<Rightarrow>
                       Inr (\<lparr> dv_Name = ModuleName, dv_DevicePath = device_dir rp,
                              dv_SrcVersion = readTrim fs (join_path [sysRoot, ''module'', ModuleName, ''srcversion'']) \<rparr>,
                            rp))
              | ds \<Rightarrow> Inl (ErrAmbiguous (joins '', '' ds))))"

section \<open>Write\<close>

definition range_panic :: "int \<Rightarrow> string" where
  [text_defs]: "range_panic ch = ''pwmw: channel pwm'' @ itoa ch @ '' out of range''"

definition duty_panic :: "int \<Rightarrow> int \<Rightarrow> string" where
  [text_defs]: "duty_panic ch v = ''pwmw: refusing pwm'' @ itoa ch @ ''='' @ itoa v @ '': a duty below '' @ itoa MinDuty @
     '' is never written (TESTSPEC '' @ sect @ ''4)''"

definition enable_panic :: "int \<Rightarrow> int \<Rightarrow> string" where
  [text_defs]: "enable_panic ch v = ''pwmw: refusing pwm'' @ itoa ch @ ''_enable='' @ itoa v @ '': only 1 (manual) or 2 (EC automatic)''"

text \<open>The checks before the device is looked up.\<close>

definition check_args :: "int \<Rightarrow> Attr \<Rightarrow> int \<Rightarrow> wresult" where
  "check_args ch a v =
     (if ch < 1 \<or> ch > 4 then Panic (range_panic ch)
      else case a of
        Duty \<Rightarrow> if v < MinDuty then Panic (duty_panic ch v)
                else if v > 255 then Failed (ErrOutOfRange (''pwmw: pwm'' @ itoa ch @ ''='' @ itoa v @ '' out of range''))
                else Done
      | Enable \<Rightarrow> if v \<noteq> 1 \<and> v \<noteq> 2 then Panic (enable_panic ch v) else Done)"

definition Write :: "'w kernel \<Rightarrow> 'h Writer \<Rightarrow> int \<Rightarrow> Attr \<Rightarrow> int \<Rightarrow> 'w \<times> 'h \<Rightarrow> wresult \<times> 'w \<times> 'h" where
  "Write k W ch a v = (\<lambda>(w, h).
     (case check_args ch a v of
        Panic p \<Rightarrow> (Panic p, w, h)
      | Failed e \<Rightarrow> (Failed e, w, h)
      | Done \<Rightarrow>
          (case Resolve (k_view k w) (wr_SysRoot W) of
             Inl e \<Rightarrow> (Failed e, w, h)
           | Inr (dev, dir) \<Rightarrow>
               if dev \<noteq> wr_Want W
               then (Failed (ErrDeviceChanged (''now '' @ Device_String dev @ '', at the start '' @ Device_String (wr_Want W))), w, h)
               else
                 (let p = join_path [dir, Name a ch]
                  in if \<not> exists_path (k_view k w) p then (Failed (ErrNoAttr p), w, h)
                     else
                       (let h1 = wr_Before W ch a v h;
                            (w', e) = k_write k p (itoa v) w;
                            h2 = wr_After W ch a v e h1
                        in case e of
                             None \<Rightarrow> (Done, w', wr_Recorder W p (itoa v) h2)
                           | Some msg \<Rightarrow> (Failed (ErrWrite msg), w', h2))))))"

definition EnterManual :: "'w kernel \<Rightarrow> 'h Writer \<Rightarrow> int \<Rightarrow> 'w \<times> 'h \<Rightarrow> wresult \<times> 'w \<times> 'h" where
  "EnterManual k W ch = Write k W ch Enable 1"

definition SetDuty :: "'w kernel \<Rightarrow> 'h Writer \<Rightarrow> int \<Rightarrow> int \<Rightarrow> 'w \<times> 'h \<Rightarrow> wresult \<times> 'w \<times> 'h" where
  "SetDuty k W ch d = Write k W ch Duty d"

definition Auto :: "'w kernel \<Rightarrow> 'h Writer \<Rightarrow> int \<Rightarrow> 'w \<times> 'h \<Rightarrow> wresult \<times> 'w \<times> 'h" where
  "Auto k W ch = Write k W ch Enable 2"

definition RestoreTo :: "'w kernel \<Rightarrow> 'h Writer \<Rightarrow> int \<Rightarrow> string \<Rightarrow> 'w \<times> 'h \<Rightarrow> wresult \<times> 'w \<times> 'h" where
  "RestoreTo k W ch value = (\<lambda>s.
     (if value = ''auto'' then Auto k W ch s
      else case atoi value of
        None \<Rightarrow> (Failed (ErrNotDuty (''pwmw: restore value '' @ fmt_q value @ '' is not auto or a duty'')), s)
      | Some d \<Rightarrow>
          if d < MinDuty \<or> d > 255
          then (Failed (ErrOutOfRange (''pwmw: restore value '' @ itoa d @ '' outside '' @ itoa MinDuty @ ''..255: not written'')), s)
          else (case EnterManual k W ch s of
                  (Done, s') \<Rightarrow> SetDuty k W ch d s'
                | r \<Rightarrow> r)))"

section \<open>What reaches the kernel\<close>

text \<open>
  The interface of a kernel to everything above the writer: an invariant of its state that every
  allowed write keeps. Whatever the callers ask for, the invariant holds afterwards.
\<close>

definition allowed :: "int \<Rightarrow> Attr \<Rightarrow> int \<Rightarrow> bool" where
  "allowed ch a v \<longleftrightarrow> 1 \<le> ch \<and> ch \<le> 4 \<and> (case a of Duty \<Rightarrow> MinDuty \<le> v \<and> v \<le> 255 | Enable \<Rightarrow> v = 1 \<or> v = 2)"

lemma check_args_Done: "check_args ch a v = Done \<longleftrightarrow> allowed ch a v"
  by (auto simp: check_args_def allowed_def split: Attr.splits if_splits)

lemma Write_cases:
  "Write k W ch a v (w, h) = (r, w', h') \<Longrightarrow>
     (w' = w \<and> h' = h \<and> r \<noteq> Done \<and> (check_args ch a v \<noteq> Done \<longrightarrow> r = check_args ch a v)) \<or>
     (\<exists>dir e. allowed ch a v \<and> Resolve (k_view k w) (wr_SysRoot W) = Inr (wr_Want W, dir) \<and>
        exists_path (k_view k w) (join_path [dir, Name a ch]) \<and>
        k_write k (join_path [dir, Name a ch]) (itoa v) w = (w', e) \<and> (e = None \<longleftrightarrow> r = Done))"
  by (auto simp: Write_def Let_def check_args_Done [symmetric]
      split: wresult.splits sum.splits prod.splits option.splits if_splits)

locale safe_kernel =
  fixes k :: "'w kernel" and W :: "'h Writer" and I :: "'w \<Rightarrow> bool"
  assumes allowed_keeps:
    "I w \<Longrightarrow> allowed ch a v \<Longrightarrow> Resolve (k_view k w) (wr_SysRoot W) = Inr (wr_Want W, dir) \<Longrightarrow>
       I (fst (k_write k (join_path [dir, Name a ch]) (itoa v) w))"
begin

lemma Write_keeps:
  assumes "I w" "Write k W ch a v (w, h) = (r, w', h')"
  shows "I w'"
  using Write_cases [OF assms(2)]
proof (elim disjE exE conjE)
  fix dir e
  assume "allowed ch a v" "Resolve (k_view k w) (wr_SysRoot W) = Inr (wr_Want W, dir)"
    "k_write k (join_path [dir, Name a ch]) (itoa v) w = (w', e)"
  then show ?thesis using allowed_keeps [OF assms(1)] by (metis fst_conv)
qed (use assms(1) in simp)

lemma RestoreTo_keeps: "I w \<Longrightarrow> RestoreTo k W ch value (w, h) = (r, w', h') \<Longrightarrow> I w'"
  by (auto simp: RestoreTo_def Auto_def EnterManual_def SetDuty_def
      split: option.splits if_splits prod.splits wresult.splits dest: Write_keeps)

end

text \<open>
  The kernel with a trace of every attempted write, successful or not, and the interpretation: the
  trace of any sequence of calls only holds allowed values, whatever the kernel does.
\<close>

definition traced :: "'w kernel \<Rightarrow> ('w \<times> (string \<times> string) list) kernel" where
  "traced k = \<lparr> k_view = (\<lambda>(w, tr). k_view k w),
                k_write = (\<lambda>p v (w, tr). (case k_write k p v w of (w', e) \<Rightarrow> ((w', tr @ [(p, v)]), e))) \<rparr>"

definition safe_entry :: "string \<times> string \<Rightarrow> bool" where
  "safe_entry e \<longleftrightarrow> (\<exists>dir ch a v. allowed ch a v \<and> e = (join_path [dir, Name a ch], itoa v))"

interpretation traced_kernel:
  safe_kernel "traced k" W "\<lambda>(w, tr). list_all safe_entry tr" for k :: "'w kernel" and W :: "'h Writer"
proof
  fix w :: "'w \<times> (string \<times> string) list" and ch a v dir
  assume "case w of (w, tr) \<Rightarrow> list_all safe_entry tr" "allowed ch a v"
  moreover from this(2) have "safe_entry (join_path [dir, Name a ch], itoa v)" unfolding safe_entry_def by blast
  ultimately show "case fst (k_write (traced k) (join_path [dir, Name a ch]) (itoa v) w) of (w, tr) \<Rightarrow> list_all safe_entry tr"
    by (auto simp: traced_def split: prod.splits)
qed

section \<open>What a restore does\<close>

lemma Write_unchanged:
  "\<not> allowed ch a v \<Longrightarrow> Write k W ch a v s = (check_args ch a v, s)"
  by (cases s) (auto simp: Write_def check_args_Done [symmetric] split: wresult.splits)

lemma RestoreTo_refused:
  "\<not> restorable value \<Longrightarrow> \<exists>e. RestoreTo k W ch value s = (Failed e, s)"
  by (auto simp: RestoreTo_def restorable_def not_le split: option.splits)

lemma Write_Panic:
  assumes "fst (Write k W ch a v s) = Panic p"
  shows "\<not> allowed ch a v" "snd (Write k W ch a v s) = s"
  using assms
  by (cases s; auto simp: Write_def Let_def check_args_Done [symmetric]
      split: wresult.splits sum.splits prod.splits option.splits if_splits)+

lemma RestoreTo_no_panic:
  assumes ch: "1 \<le> ch" "ch \<le> 4"
  shows "fst (RestoreTo k W ch value s) \<noteq> Panic p"
proof (cases "value = ''auto''")
  case True
  then show ?thesis using Write_Panic(1) ch by (fastforce simp: RestoreTo_def Auto_def allowed_def)
next
  case False
  show ?thesis
  proof (cases "\<exists>d. atoi value = Some d \<and> MinDuty \<le> d \<and> d \<le> 255")
    case True
    then obtain d where d: "atoi value = Some d" "MinDuty \<le> d" "d \<le> 255" by blast
    obtain r s' where e: "Write k W ch Enable 1 s = (r, s')" by (metis surj_pair)
    have "r \<noteq> Panic p" using Write_Panic(1) [of k W ch Enable 1 s p] e ch by (auto simp: allowed_def)
    moreover have "fst (Write k W ch Duty d s') \<noteq> Panic p"
      using Write_Panic(1) [of k W ch Duty d s' p] ch d by (auto simp: allowed_def)
    ultimately show ?thesis using False d e
      by (cases r) (auto simp: RestoreTo_def EnterManual_def SetDuty_def not_less)
  next
    case no: False
    with False show ?thesis by (auto simp: RestoreTo_def not_le split: option.splits)
  qed
qed

end
