(* ===== verification/Regulator.thy ===== *)
theory Regulator
  imports Pwm_Writer
begin

text \<open>
  Other pwm writers: src/ectest/internal/regulator/regulator.go, checks (a) to (e). systemctl is a
  parameter (a unit's ActiveState, or the text of its error); /proc is a \<open>filesys\<close>, in which
  \<open>fs_real\<close> of an fd entry is its link target; the writer lock's \<open>Verify\<close> is the argument of
  \<open>Check\<close>.
\<close>

section \<open>Units and processes\<close>

definition Names :: "string list" where
  "Names = [''n5-fangov'', ''n5-fand'', ''fancontrol'', ''fan2go'', ''coolercontrold'', ''thinkfan'']"

definition ScriptNames :: "string list" where
  "ScriptNames = [''f8a-pcie.sh'', ''f8a-stress.sh'']"

definition UnitRunning :: "string \<Rightarrow> bool" where
  "UnitRunning state \<longleftrightarrow> state \<notin> {'''', ''inactive'', ''failed'', ''unknown''}"

definition FangovState :: "(string \<Rightarrow> string + string) \<Rightarrow> string" where
  "FangovState systemctl = (case systemctl ''n5-fangov'' of Inl e \<Rightarrow> '''' | Inr s \<Rightarrow> s)"

fun units_loop :: "(string \<Rightarrow> string + string) \<Rightarrow> string list \<Rightarrow> string list \<Rightarrow> string list \<times> string" where
  "units_loop systemctl [] running = (running, '''')"
| "units_loop systemctl (n # ns) running =
     (case systemctl n of
        Inl e \<Rightarrow> (running, ''systemctl not usable ('' @ e @ ''); process check only'')
      | Inr s \<Rightarrow> units_loop systemctl ns (if UnitRunning s then running @ [''unit '' @ n @ '' '' @ s] else running))"

definition Units :: "(string \<Rightarrow> string + string) \<Rightarrow> string list \<times> string" where
  "Units systemctl = units_loop systemctl Names []"

text \<open>The pattern \<open>/hwmon/hwmon[0-9]+/pwm[0-9]+(_enable)?$\<close>, matched at any place.\<close>

definition is_digit :: "char \<Rightarrow> bool" where "is_digit c \<longleftrightarrow> digit_val c \<noteq> None"

definition strip :: "string \<Rightarrow> string \<Rightarrow> string option" where
  "strip p s = (if has_prefix p s then Some (drop (length p) s) else None)"

definition digits1 :: "string \<Rightarrow> string option" where
  "digits1 s = (case s of [] \<Rightarrow> None | c # cs \<Rightarrow> if is_digit c then Some (dropWhile is_digit cs) else None)"

definition pwm_at :: "string \<Rightarrow> bool" where
  "pwm_at s =
     (case Option.bind (Option.bind (Option.bind (strip ''/hwmon/hwmon'' s) digits1) (strip ''/pwm'')) digits1 of
        None \<Rightarrow> False | Some rest \<Rightarrow> rest = '''' \<or> rest = ''_enable'')"

fun pwmFD :: "string \<Rightarrow> bool" where
  "pwmFD [] = False"
| "pwmFD (c # cs) = (pwm_at (c # cs) \<or> pwmFD cs)"

text \<open>\<open>argv[0]\<close> and, for a shell, the script in \<open>argv[1]\<close>, from the raw cmdline.\<close>

definition argv_names :: "string \<Rightarrow> string \<times> string" where
  "argv_names cl =
     (if cl = '''' then ('''', '''')
      else (let argv = split_at (CHR 0x00) cl; argv0 = base_name (hd argv)
            in (argv0, if (argv0 = ''bash'' \<or> argv0 = ''sh'') \<and> length argv > 1 then base_name (argv ! 1) else '''')))"

definition process_hit :: "int \<Rightarrow> string \<Rightarrow> string \<Rightarrow> string list" where
  "process_hit pid comm cl =
     (let (argv0, script) = argv_names cl; names = Names @ ScriptNames; p = '' (pid '' @ itoa pid @ '')''
      in if comm \<in> set names then [''process '' @ comm @ p]
         else if argv0 \<in> set names then [''process '' @ argv0 @ p]
         else if script \<in> set ScriptNames then [''process '' @ argv0 @ '' '' @ script @ p]
         else [])"

definition fd_hits :: "filesys \<Rightarrow> string \<Rightarrow> int \<Rightarrow> string \<Rightarrow> string list" where
  "fd_hits fs d pid comm =
     (case fs_dir fs (join_path [d, ''fd'']) of None \<Rightarrow> []
      | Some fds \<Rightarrow> concat (map (\<lambda>f. case fs_real fs (join_path [d, ''fd'', f]) of
            None \<Rightarrow> []
          | Some l \<Rightarrow> if pwmFD l then [''pid '' @ itoa pid @ '' ('' @ orDash comm @ '') holds '' @ l @ '' open''] else []) fds))"

definition pid_hits :: "filesys \<Rightarrow> string \<Rightarrow> int \<Rightarrow> string list" where
  "pid_hits fs procRoot pid =
     (let d = join_path [procRoot, itoa pid];
          comm = trim_space (readRaw fs (join_path [d, ''comm'']))
      in process_hit pid comm (readRaw fs (join_path [d, ''cmdline''])) @ fd_hits fs d pid comm)"

definition Processes :: "filesys \<Rightarrow> string \<Rightarrow> (int \<Rightarrow> bool) \<Rightarrow> string list" where
  "Processes fs procRoot self =
     (case fs_dir fs procRoot of
        None \<Rightarrow> [''process list not readable: open '' @ procRoot]
      | Some ents \<Rightarrow>
          concat (map (pid_hits fs procRoot)
            (filter (\<lambda>pid. \<not> self pid) (sort (List.map_filter atoi ents)))))"

section \<open>Expectation\<close>

record Expectation =
  ex_pwm :: "int \<Rightarrow> int option"
  ex_enable :: "int \<Rightarrow> int option"

text \<open>\<open>read\<close>: the current value of an attribute; \<open>dir\<close> is the driver's current directory or empty.\<close>

definition ex_read :: "filesys \<Rightarrow> string \<Rightarrow> int \<Rightarrow> Attr \<Rightarrow> int option" where
  "ex_read fs dir ch a = (if dir = '''' then None else atoi (readTrim fs (join_path [dir, Name a ch])))"

definition Refresh :: "(int \<Rightarrow> Attr \<Rightarrow> int option) \<Rightarrow> int \<Rightarrow> Expectation \<Rightarrow> Expectation" where
  "Refresh rd ch e =
     e\<lparr> ex_pwm := (ex_pwm e)(ch := rd ch Duty), ex_enable := (ex_enable e)(ch := rd ch Enable) \<rparr>"

definition NewExpectation :: "(int \<Rightarrow> Attr \<Rightarrow> int option) \<Rightarrow> Expectation" where
  "NewExpectation rd = fold (Refresh rd) [1, 2, 3, 4] \<lparr> ex_pwm = Map.empty, ex_enable = Map.empty \<rparr>"

definition Expect :: "int \<Rightarrow> Attr \<Rightarrow> int \<Rightarrow> Expectation \<Rightarrow> Expectation" where
  "Expect ch a v e =
     (case a of
        Duty \<Rightarrow> e\<lparr> ex_pwm := (ex_pwm e)(ch \<mapsto> v) \<rparr>
      | Enable \<Rightarrow>
          (let e1 = (if v = 1 \<and> ex_enable e ch \<noteq> Some 1 then e\<lparr> ex_pwm := (ex_pwm e)(ch \<mapsto> 255) \<rparr> else e)
           in e1\<lparr> ex_enable := (ex_enable e1)(ch \<mapsto> v) \<rparr>))"

definition After :: "(int \<Rightarrow> Attr \<Rightarrow> int option) \<Rightarrow> int \<Rightarrow> string option \<Rightarrow> Expectation \<Rightarrow> Expectation" where
  "After rd ch err e = (if err \<noteq> None then Refresh rd ch e else e)"

definition expected :: "Expectation \<Rightarrow> int \<Rightarrow> Attr \<Rightarrow> int option" where
  "expected e ch a = (case a of Enable \<Rightarrow> ex_enable e ch | Duty \<Rightarrow> ex_pwm e ch)"

definition diff_text :: "int \<Rightarrow> Attr \<Rightarrow> int \<Rightarrow> int \<Rightarrow> string" where
  [text_defs]: "diff_text ch a got want = Name a ch @ '' is '' @ itoa got @ '', expected '' @ itoa want @ '': written by another program''"

definition diff_attr :: "(int \<Rightarrow> Attr \<Rightarrow> int option) \<Rightarrow> Expectation \<Rightarrow> int \<times> Attr \<Rightarrow> string list" where
  "diff_attr rd e = (\<lambda>(ch, a).
     (case expected e ch a of None \<Rightarrow> []
      | Some want \<Rightarrow>
          (case rd ch a of None \<Rightarrow> []
           | Some got \<Rightarrow> if got \<noteq> want then [diff_text ch a got want] else [])))"

definition Diff :: "(int \<Rightarrow> Attr \<Rightarrow> int option) \<Rightarrow> Expectation \<Rightarrow> string list" where
  "Diff rd e = concat (map (diff_attr rd e) (List.product [1, 2, 3, 4] [Enable, Duty]))"

section \<open>The checker\<close>

record Checker =
  ck_ProcRoot :: string
  ck_Self :: "int \<Rightarrow> bool"
  ck_Lock :: "string option option"
  ck_Expect :: "Expectation option"

text \<open>\<open>ck_Lock\<close>: no lock, or the result of its \<open>Verify\<close> at this moment (\<open>Some\<close> the error).\<close>

definition Check :: "(string \<Rightarrow> string + string) \<Rightarrow> filesys \<Rightarrow> (int \<Rightarrow> Attr \<Rightarrow> int option) \<Rightarrow> Checker \<Rightarrow> string list" where
  "Check systemctl fs rd c =
     fst (Units systemctl) @ Processes fs (ck_ProcRoot c) (ck_Self c) @
     (case ck_Lock c of Some (Some e) \<Rightarrow> [e] | _ \<Rightarrow> []) @
     (case ck_Expect c of None \<Rightarrow> [] | Some e \<Rightarrow> Diff rd e)"

section \<open>Facts\<close>

lemma Diff_empty:
  "Diff rd e = [] \<longleftrightarrow> (\<forall>ch \<in> {1, 2, 3, 4}. \<forall>a. expected e ch a = None \<or> rd ch a = None \<or> rd ch a = expected e ch a)"
proof -
  have a: "(\<forall>a. P a) \<longleftrightarrow> P Enable \<and> P Duty" for P by (metis Attr.exhaust)
  have "diff_attr rd e (ch, a) = [] \<longleftrightarrow> expected e ch a = None \<or> rd ch a = None \<or> rd ch a = expected e ch a" for ch a
    by (auto simp: diff_attr_def split: option.splits)
  then show ?thesis by (simp add: Diff_def a)
qed

lemma expected_simps [simp]:
  "expected (Expect ch Duty v e) c b = (if c = ch \<and> b = Duty then Some v else expected e c b)"
  "expected (Expect ch Enable v e) c b =
     (if c = ch \<and> b = Enable then Some v
      else if c = ch \<and> v = 1 \<and> expected e ch Enable \<noteq> Some 1 then Some 255 else expected e c b)"
  "expected (Refresh rd ch e) c b = (if c = ch then rd ch b else expected e c b)"
  by (cases b; auto simp: expected_def Expect_def Refresh_def Let_def)+

lemma NewExpectation_expected:
  "expected (NewExpectation rd) ch a = (if ch \<in> {1, 2, 3, 4} then rd ch a else None)"
  by (cases a) (auto simp: NewExpectation_def expected_def Refresh_def)

lemma NewExpectation_clean: "Diff rd (NewExpectation rd) = []"
  by (simp add: Diff_empty NewExpectation_expected)

section \<open>The driver behind the attributes\<close>

text \<open>
  The pwm attributes of the kernel module: \<open>n5_read\<close> and \<open>n5_write\<close> of
  src/driver/upstream/driver-prototype/minisforum_n5_it5571.c as src/driver/patches/0004-remove-ordering.patch
  leaves them (the states dead and unknown, and 255 instead of an automatic mode for pwm4). The channels
  count from 1 here. \<open>hw\<close> is the error of the access to the EC, if the write gets that far.
\<close>

record n5_data =
  nd_pwm :: "int \<Rightarrow> int"
  nd_enable :: "int \<Rightarrow> int"
  nd_unknown :: "int \<Rightarrow> bool"
  nd_dead :: bool
  nd_write_enabled :: bool

definition N5_PWM_PCIE :: int where [const_defs]: "N5_PWM_PCIE = 4"

definition n5_read :: "n5_data \<Rightarrow> int \<Rightarrow> Attr \<Rightarrow> int option" where
  "n5_read d ch a =
     (if nd_dead d \<or> nd_unknown d ch then None
      else case a of Duty \<Rightarrow> Some (nd_pwm d ch) | Enable \<Rightarrow> Some (nd_enable d ch))"

definition n5_write :: "string option \<Rightarrow> int \<Rightarrow> Attr \<Rightarrow> int \<Rightarrow> n5_data \<Rightarrow> string option \<times> n5_data" where
  "n5_write hw ch a v d =
     (let pwm = (\<lambda>x d. d\<lparr> nd_pwm := (nd_pwm d)(ch := x) \<rparr>);
          mode = (\<lambda>m d. d\<lparr> nd_enable := (nd_enable d)(ch := m), nd_unknown := (nd_unknown d)(ch := False) \<rparr>)
      in if \<not> nd_write_enabled d then (Some ''operation not permitted'', d)
         else if nd_dead d then (Some ''no such device'', d)
         else case a of
           Duty \<Rightarrow>
             if v < 0 \<or> v > 255 then (Some ''invalid argument'', d)
             else if nd_enable d ch \<noteq> 1 then (Some ''device or resource busy'', d)
             else (hw, if hw = None then pwm v d else d)
         | Enable \<Rightarrow>
             if v = 0 then (hw, if hw = None then mode 0 (pwm 255 d) else d)
             else if v = 1
             then (if nd_enable d ch \<noteq> 1 then (hw, if hw = None then mode 1 (pwm 255 d) else d) else (None, mode 1 d))
             else if v = 2
             then (hw, if hw = None then mode 2 (if ch = N5_PWM_PCIE then pwm 255 d else d) else d)
             else (Some ''invalid argument'', d))"

text \<open>
  An own write goes through the writer: what \<open>check_args\<close> refuses does not happen; the write is announced,
  it reaches the driver, and after an error the values of the channel are read again.
\<close>

definition own_write ::
  "('d \<Rightarrow> int \<Rightarrow> Attr \<Rightarrow> int option) \<Rightarrow> (string option \<Rightarrow> int \<Rightarrow> Attr \<Rightarrow> int \<Rightarrow> 'd \<Rightarrow> string option \<times> 'd) \<Rightarrow>
     int \<times> Attr \<times> int \<times> string option \<Rightarrow> 'd \<times> Expectation \<Rightarrow> 'd \<times> Expectation" where
  "own_write view put = (\<lambda>(ch, a, v, hw) (d, e).
     (if check_args ch a v \<noteq> Done then (d, e)
      else (let e1 = Expect ch a v e; (err, d') = put hw ch a v d in (d', After (view d') ch err e1))))"

text \<open>
  The interface between the expectation and a driver: a failed write changes nothing, a successful one
  what \<open>Expect\<close> records. The automatic mode of pwm4 is left out: it sets pwm4 to 255.
\<close>

definition pcie_auto :: "int \<Rightarrow> Attr \<Rightarrow> int \<Rightarrow> bool" where
  "pcie_auto ch a v \<longleftrightarrow> ch = N5_PWM_PCIE \<and> a = Enable \<and> v = 2"

locale quiet_cache =
  fixes view :: "'d \<Rightarrow> int \<Rightarrow> Attr \<Rightarrow> int option"
    and put :: "string option \<Rightarrow> int \<Rightarrow> Attr \<Rightarrow> int \<Rightarrow> 'd \<Rightarrow> string option \<times> 'd"
    and bound :: "'d \<Rightarrow> bool"
  assumes failed: "put hw ch a v d = (Some e, d') \<Longrightarrow> d' = d"
    and bound_kept: "bound d \<Longrightarrow> bound (snd (put hw ch a v d))"
    and other_channel: "put hw ch a v d = (None, d') \<Longrightarrow> c \<noteq> ch \<Longrightarrow> view d' c b = view d c b"
    and duty_done: "put hw ch Duty v d = (None, d') \<Longrightarrow> bound d \<Longrightarrow> view d' ch b = (if b = Duty then Some v else view d ch b)"
    and enable_done: "put hw ch Enable v d = (None, d') \<Longrightarrow> bound d \<Longrightarrow> v = 1 \<or> v = 2 \<Longrightarrow> \<not> pcie_auto ch Enable v \<Longrightarrow>
      view d' ch b = (if b = Enable then Some v else if v = 1 \<and> view d ch Enable \<noteq> Some 1 then Some 255 else view d ch b)"
begin

text \<open>What is expected is what the driver shows, before and after every own write.\<close>

definition tracked :: "'d \<times> Expectation \<Rightarrow> bool" where
  "tracked = (\<lambda>(d, e). bound d \<and> (\<forall>c \<in> {1, 2, 3, 4}. \<forall>b. expected e c b = view d c b))"

lemma own_write_tracked:
  assumes t: "tracked (d, e)" and n: "\<not> pcie_auto ch a v"
  shows "tracked (own_write view put (ch, a, v, hw) (d, e))"
proof (cases "check_args ch a v = Done")
  case True
  then have al: "allowed ch a v" by (simp add: check_args_Done)
  obtain err d' where p: "put hw ch a v d = (err, d')" by fastforce
  have b: "bound d" "bound d'" using t bound_kept [of d hw ch a v] p by (simp_all add: tracked_def)
  have "expected (After (view d') ch err (Expect ch a v e)) c x = view d' c x" if c: "c \<in> {1, 2, 3, 4}" for c x
  proof -
    have e: "expected e c y = view d c y" for y using t c by (auto simp: tracked_def)
    show ?thesis
    proof (cases err)
      case None
      then have q: "put hw ch a v d = (None, d')" using p by simp
      show ?thesis
      proof (cases "c = ch")
        case True
        then have "expected e ch y = view d ch y" for y using e by simp
        then show ?thesis using None True al n q duty_done [of hw ch v d d' x] enable_done [of hw ch v d d' x] b(1)
          by (cases a; cases x) (simp_all add: After_def allowed_def)
      next
        case False
        then show ?thesis using None e other_channel [OF q False] by (cases a) (simp_all add: After_def)
      qed
    next
      case (Some m)
      then have "d' = d" using failed p by simp
      then show ?thesis using Some e by (cases a) (simp_all add: After_def)
    qed
  qed
  then show ?thesis using True p b(2) by (simp add: tracked_def own_write_def)
qed (use t in \<open>simp add: own_write_def\<close>)

lemma own_writes_tracked:
  "\<forall>(ch, a, v, hw) \<in> set ws. \<not> pcie_auto ch a v \<Longrightarrow> tracked x \<Longrightarrow> tracked (fold (own_write view put) ws x)"
proof (induction ws arbitrary: x)
  case (Cons w ws)
  obtain ch a v hw where w: "w = (ch, a, v, hw)" by (metis prod_cases4)
  obtain d e where x: "x = (d, e)" by fastforce
  have "tracked (own_write view put w x)" using own_write_tracked [of d e ch a v hw] Cons.prems by (simp add: w x)
  then show ?case using Cons.IH Cons.prems(1) by simp
qed simp

lemma tracked_start: "bound d \<Longrightarrow> tracked (d, NewExpectation (view d))"
  by (simp add: tracked_def NewExpectation_expected)

text \<open>A later view is reported exactly where it shows another value.\<close>

lemma tracked_Diff:
  "tracked (d, e) \<Longrightarrow> Diff rd e = [] \<longleftrightarrow> (\<forall>ch \<in> {1, 2, 3, 4}. \<forall>a. view d ch a = None \<or> rd ch a = None \<or> rd ch a = view d ch a)"
  by (simp add: Diff_empty tracked_def)

end

text \<open>The driver of the repository, bound and with every mode known.\<close>

definition n5_bound :: "n5_data \<Rightarrow> bool" where
  "n5_bound d \<longleftrightarrow> \<not> nd_dead d \<and> (\<forall>ch. \<not> nd_unknown d ch)"

lemma n5_write_failed: "n5_write hw ch a v d = (Some e, d') \<Longrightarrow> d' = d"
  by (auto simp: n5_write_def Let_def split: if_splits Attr.splits)

interpretation driver_cache: quiet_cache n5_read n5_write n5_bound
proof
  fix hw ch a v d e d'
  assume "n5_write hw ch a v d = (Some e, d')"
  then show "d' = d" by (rule n5_write_failed)
next
  fix d hw ch a v
  assume "n5_bound d"
  then show "n5_bound (snd (n5_write hw ch a v d))"
    by (auto simp: n5_bound_def n5_write_def Let_def split: Attr.splits)
next
  fix hw ch a v d d' b and c :: int
  assume "n5_write hw ch a v d = (None, d')" "c \<noteq> ch"
  then show "n5_read d' c b = n5_read d c b"
    by (auto simp: n5_write_def n5_read_def Let_def split: if_splits Attr.splits)
next
  fix hw ch v d d' b
  assume "n5_write hw ch Duty v d = (None, d')" "n5_bound d"
  then show "n5_read d' ch b = (if b = Duty then Some v else n5_read d ch b)"
    by (auto simp: n5_write_def n5_read_def n5_bound_def Let_def split: if_splits Attr.splits)
next
  fix hw ch v d d' b
  assume "n5_write hw ch Enable v d = (None, d')" "n5_bound d" "v = 1 \<or> v = 2" "\<not> pcie_auto ch Enable v"
  then show "n5_read d' ch b = (if b = Enable then Some v else if v = 1 \<and> n5_read d ch Enable \<noteq> Some 1 then Some 255 else n5_read d ch b)"
    by (auto simp: n5_write_def n5_read_def n5_bound_def pcie_auto_def Let_def split: if_splits Attr.splits)
qed

lemma foreign_write_seen:
  assumes "ch \<in> {1, 2, 3, 4}" "expected e ch a = Some want" "rd ch a = Some got" "got \<noteq> want"
  shows "diff_text ch a got want \<in> set (Diff rd e)"
  using assms by (cases a) (auto simp: Diff_def diff_attr_def)

lemma Check_clean_Diff: "Check sc fs rd c = [] \<Longrightarrow> ck_Expect c = Some e \<Longrightarrow> Diff rd e = []"
  by (simp add: Check_def)

end
