(* ===== verification/Device_Properties.thy ===== *)
theory Device_Properties
  imports Regulator Spec_Base
begin

text \<open>
  The properties of the access to the device: the register dump, the restore values, the only write
  path and the detection of other writers.
\<close>

section \<open>The register dump\<close>

text \<open>printing a register dump and parsing the text gives the dump back, and the parser accepts
  nothing but complete dumps of 16 bytes.\<close>

theorem dump_roundtrip:
  "(ParseDCR (DCR_String d) = Inr d) \<longleftrightarrow> length d = 16"
  using ParseDCR_String [of d] ParseDCR_length [of "DCR_String d" d] by blast

section \<open>Restore values\<close>

text \<open>a \<open>--restore\<close> argument that is accepted names a channel 1 to 4 and the automatic or a duty
  of 100 to 255, and 255 for pwm4.\<close>

theorem restore_argument:
  assumes "ParseRestoreArg s = Inr (ch, v)"
  shows "1 \<le> ch \<and> ch \<le> 4 \<and> restorable v \<and> (ch = PCIeChannel \<longrightarrow> v = PCIeRestore)"
  by (rule ParseRestoreArg_accepts [OF assms])

theorem restore_argument_witness:
  "\<exists>v. ParseRestoreArg ''pwm3=140'' = Inr (3, v) \<and> restorable v"
proof -
  have "ParseRestoreArg ''pwm3=140'' = Inr (3, ''140'')" by code_simp
  with restore_argument [OF this] show ?thesis by blast
qed

text \<open>whatever the configuration file holds, each channel of the run gets a value it may be
  restored to, and pwm4 gets 255 unless the caller's argument says otherwise.\<close>

theorem resolved_values:
  assumes "ch \<in> set chans"
  shows "\<exists>v. rv_Values (ResolveRestore decode args path r chans) ch = Some v \<and> restorable v \<and>
    (ch = PCIeChannel \<and> args ch \<in> {[], PCIeRestore} \<longrightarrow> v = PCIeRestore)"
proof -
  obtain v where v: "rv_Values (ResolveRestore decode args path r chans) ch = Some v"
    using ResolveRestore_total [OF assms] by blast
  then have "restorable v" by (rule ResolveRestore_value(2))
  moreover have "v = PCIeRestore" if "ch = PCIeChannel" "args ch \<in> {[], PCIeRestore}"
    using resolve_pwm4 [of args decode path r chans v] v that by auto
  ultimately show ?thesis using v by blast
qed

theorem resolved_values_witness:
  "rv_Values (ResolveRestore (\<lambda>_. Inl ''bad'') (\<lambda>_. []) ''p'' NotExist [1, 4]) 4 = Some PCIeRestore"
  using resolved_values [of 4 "[1, 4]" "\<lambda>_. Inl ''bad''" "\<lambda>_. []" "''p''" NotExist] by (auto simp: PCIeChannel_def)

section \<open>The write path\<close>

text \<open>The calls of a program that has a writer, in any order; a panic ends the program.\<close>

datatype wcall = CallWrite int Attr int | CallManual int | CallDuty int int | CallAuto int | CallRestore int string

fun run_call :: "'w kernel \<Rightarrow> 'h Writer \<Rightarrow> wcall \<Rightarrow> 'w \<times> 'h \<Rightarrow> wresult \<times> 'w \<times> 'h" where
  "run_call k W (CallWrite ch a v) = Write k W ch a v"
| "run_call k W (CallManual ch) = EnterManual k W ch"
| "run_call k W (CallDuty ch d) = SetDuty k W ch d"
| "run_call k W (CallAuto ch) = Auto k W ch"
| "run_call k W (CallRestore ch v) = RestoreTo k W ch v"

fun run_calls :: "'w kernel \<Rightarrow> 'h Writer \<Rightarrow> wcall list \<Rightarrow> 'w \<times> 'h \<Rightarrow> 'w \<times> 'h" where
  "run_calls k W [] s = s"
| "run_calls k W (c # cs) s =
     (case run_call k W c s of (Panic _, s') \<Rightarrow> s' | (_, s') \<Rightarrow> run_calls k W cs s')"

lemma run_call_traced:
  "list_all safe_entry tr \<Longrightarrow> run_call (traced k) W c ((w, tr), h) = (r, (w', tr'), h') \<Longrightarrow> list_all safe_entry tr'"
  using traced_kernel.Write_keeps [of "(w, tr)" k W] traced_kernel.RestoreTo_keeps [of "(w, tr)" k W]
  by (cases c) (auto simp: EnterManual_def SetDuty_def Auto_def)

lemma run_calls_traced:
  "list_all safe_entry (snd (fst s)) \<Longrightarrow> list_all safe_entry (snd (fst (run_calls (traced k) W cs s)))"
proof (induction cs arbitrary: s)
  case (Cons c cs)
  obtain r w tr h where r: "run_call (traced k) W c s = (r, (w, tr), h)" by (metis surj_pair)
  have "list_all safe_entry tr"
    using Cons.prems r run_call_traced by (metis prod.collapse)
  then show ?case using r Cons.IH by (cases r) simp_all
qed simp

text \<open>C28: whatever the callers ask for and whatever the kernel does, every value the writer tries to
  write is 1 or 2 for an enable attribute and 100 to 255 for a duty of the channels 1 to 4.\<close>

theorem writer_only_allowed:
  "\<forall>e \<in> set (snd (fst (run_calls (traced k) W cs ((w, []), h)))).
     \<exists>dir ch a v. allowed ch a v \<and> e = (join_path [dir, Name a ch], itoa v)"
  using run_calls_traced [of "((w, []), h)" k W cs] by (simp add: list_all_iff safe_entry_def)

definition demo_fs :: filesys where
  "demo_fs = \<lparr>
     fs_file = map_of [(''/sys/class/hwmon/hwmon3/name'', ModuleName @ [NL]), (''/sys/devices/d/hwmon/hwmon3/pwm1'', ''85'')],
     fs_dir = map_of [(''/sys/class/hwmon'', [''hwmon3''])],
     fs_real = map_of [(''/sys/class/hwmon/hwmon3'', ''/sys/devices/d/hwmon/hwmon3'')] \<rparr>"

definition demo_kernel :: "unit kernel" where
  "demo_kernel = \<lparr> k_view = (\<lambda>_. demo_fs), k_write = (\<lambda>_ _ _. ((), None)) \<rparr>"

definition demo_writer :: "unit Writer" where
  "demo_writer = \<lparr> wr_SysRoot = ''/sys'', wr_Want = \<lparr> dv_Name = ModuleName, dv_DevicePath = ''/sys/devices/d'', dv_SrcVersion = '''' \<rparr>,
     wr_Before = (\<lambda>_ _ _ h. h), wr_After = (\<lambda>_ _ _ _ h. h), wr_Recorder = (\<lambda>_ _ h. h) \<rparr>"

definition demo_trace :: "(string \<times> string) list" where
  "demo_trace = snd (fst (run_calls (traced demo_kernel) demo_writer [CallDuty 1 120, CallRestore 2 ''50''] (((), []), ())))"

theorem writer_only_allowed_witness:
  "demo_trace = [(''/sys/devices/d/hwmon/hwmon3/pwm1'', ''120'')] \<and>
   (\<exists>dir ch a v. allowed ch a v \<and> (''/sys/devices/d/hwmon/hwmon3/pwm1'', ''120'') = (join_path [dir, Name a ch], itoa v))"
proof -
  have d: "demo_trace = [(''/sys/devices/d/hwmon/hwmon3/pwm1'', ''120'')]"
    unfolding demo_trace_def by code_simp
  have "\<forall>e \<in> set demo_trace. \<exists>dir ch a v. allowed ch a v \<and> e = (join_path [dir, Name a ch], itoa v)"
    unfolding demo_trace_def by (rule writer_only_allowed)
  moreover have "(''/sys/devices/d/hwmon/hwmon3/pwm1'', ''120'') \<in> set demo_trace" unfolding d by (rule list.set_intros(1))
  ultimately show ?thesis using d by blast
qed

text \<open>a restore to a value that is neither the automatic nor a duty of 100 to 255 is an error and
  writes nothing; a restore of a channel 1 to 4 never panics.\<close>

theorem restore_refused:
  "(\<not> restorable v \<longrightarrow> (\<exists>e. RestoreTo k W ch v s = (Failed e, s))) \<and>
   (ch \<in> {1..4} \<longrightarrow> fst (RestoreTo k W ch v s) \<noteq> Panic p)"
  using RestoreTo_refused RestoreTo_no_panic by (metis atLeastAtMost_iff)

theorem restore_refused_witness:
  "\<exists>e. RestoreTo demo_kernel demo_writer 1 ''60'' ((), ()) = (Failed e, (), ())"
proof -
  have "atoi ''60'' = Some 60" by code_simp
  then have "\<not> restorable ''60''" by (simp add: restorable_def MinDuty_def)
  then show ?thesis using restore_refused [of "''60''" demo_kernel demo_writer 1 "((), ())"] by blast
qed

section \<open>Other writers\<close>

text \<open>Any number of own writes, with the outcome of the access to the EC in each.\<close>

definition own_writes :: "(int \<times> Attr \<times> int \<times> string option) list \<Rightarrow> n5_data \<times> Expectation \<Rightarrow> n5_data \<times> Expectation" where
  "own_writes ws x = fold (own_write n5_read n5_write) ws x"

lemma pcie_auto_reported:
  assumes "driver_cache.tracked (d, e)" "nd_write_enabled d" "nd_pwm d 4 \<noteq> 255" "own_writes [(4, Enable, 2, None)] (d, e) = (d', e')"
  shows "Diff (n5_read d') e' = [diff_text 4 Duty 255 (nd_pwm d 4)]"
proof -
  have t: "n5_bound d" "\<And>c b. c \<in> {1, 2, 3, 4} \<Longrightarrow> expected e c b = n5_read d c b"
    using assms(1) by (auto simp: driver_cache.tracked_def)
  have d: "d' = d\<lparr> nd_pwm := (nd_pwm d)(4 := 255), nd_enable := (nd_enable d)(4 := 2), nd_unknown := (nd_unknown d)(4 := False) \<rparr>"
    and e: "e' = Expect 4 Enable 2 e"
    using assms(2,4) t(1) by (auto simp: own_writes_def own_write_def n5_write_def check_args_def n5_bound_def N5_PWM_PCIE_def Let_def After_def)
  show ?thesis
    using t assms(3) by (simp add: Diff_def diff_attr_def d e n5_read_def n5_bound_def)
qed

text \<open>C35: with the driver of the repository (bound, every mode known) own writes through the writer, in any
  number and order, refused and failed ones among them, are never reported as foreign; and after them a
  later view of the attributes is reported exactly if a readable value is another one, each such value with
  its line. The automatic mode of pwm4 is left out, and must be: it sets pwm4 to 255, which the expectation
  does not know, so that it is reported unless pwm4 was 255.\<close>

theorem foreign_writes_detected:
  assumes "n5_bound d" "\<forall>(ch, a, v, hw) \<in> set ws. \<not> pcie_auto ch a v" "own_writes ws (d, NewExpectation (n5_read d)) = (d', e')"
  shows "Diff (n5_read d') e' = [] \<and>
    (Diff rd e' = [] \<longleftrightarrow> (\<forall>ch \<in> {1, 2, 3, 4}. \<forall>a. rd ch a = None \<or> rd ch a = n5_read d' ch a)) \<and>
    (\<forall>ch \<in> {1, 2, 3, 4}. \<forall>a got want. rd ch a = Some got \<and> n5_read d' ch a = Some want \<and> got \<noteq> want \<longrightarrow>
       diff_text ch a got want \<in> set (Diff rd e')) \<and>
    (nd_write_enabled d' \<and> nd_pwm d' 4 \<noteq> 255 \<longrightarrow>
       (case own_writes [(4, Enable, 2, None)] (d', e') of (d2, e2) \<Rightarrow> Diff (n5_read d2) e2 = [diff_text 4 Duty 255 (nd_pwm d' 4)]))"
proof -
  have t: "driver_cache.tracked (d', e')"
    using driver_cache.own_writes_tracked [OF assms(2) driver_cache.tracked_start [OF assms(1)]] assms(3) by (simp add: own_writes_def)
  have r: "n5_read d' ch a \<noteq> None" for ch a
    using t by (auto simp: driver_cache.tracked_def n5_bound_def n5_read_def split: Attr.splits)
  have e: "expected e' ch a = n5_read d' ch a" if "ch \<in> {1, 2, 3, 4}" for ch a using t that by (auto simp: driver_cache.tracked_def)
  have "diff_text ch a got want \<in> set (Diff rd e')"
    if "ch \<in> {1, 2, 3, 4}" "rd ch a = Some got" "n5_read d' ch a = Some want" "got \<noteq> want" for ch a got want
    using that e by (intro foreign_write_seen) auto
  then show ?thesis
    using driver_cache.tracked_Diff [OF t] r pcie_auto_reported [OF t] by (auto split: prod.split)
qed

definition demo_driver :: n5_data where
  "demo_driver = \<lparr> nd_pwm = (\<lambda>_. 120), nd_enable = (\<lambda>_. 2), nd_unknown = (\<lambda>_. False), nd_dead = False, nd_write_enabled = True \<rparr>"

theorem foreign_writes_detected_witness:
  "case own_writes [(1, Duty, 140, None), (1, Enable, 1, None), (1, Duty, 140, None)] (demo_driver, NewExpectation (n5_read demo_driver)) of
     (d, e) \<Rightarrow> n5_read d 1 Duty = Some 140 \<and> Diff (n5_read d) e = [] \<and>
       Diff (n5_read (snd (n5_write None 1 Duty 120 d))) e \<noteq> []"
proof -
  let ?ws = "[(1, Duty, 140, None), (1, Enable, 1, None), (1, Duty, 140, None)]"
  obtain d e where o: "own_writes ?ws (demo_driver, NewExpectation (n5_read demo_driver)) = (d, e)" by fastforce
  have d: "d = demo_driver\<lparr> nd_pwm := (\<lambda>_. 120)(1 := 140), nd_enable := (\<lambda>_. 2)(1 := 1), nd_unknown := (\<lambda>_. False) \<rparr>"
    using o by (auto simp: own_writes_def own_write_def check_args_def n5_write_def demo_driver_def MinDuty_def Let_def fun_eq_iff)
  have "n5_bound demo_driver" by (simp add: n5_bound_def demo_driver_def)
  note f = foreign_writes_detected [OF this _ o, of "n5_read (snd (n5_write None 1 Duty 120 d))"]
  have "n5_read (snd (n5_write None 1 Duty 120 d)) 1 Duty = Some 120" "n5_read d 1 Duty = Some 140"
    by (simp_all add: d n5_write_def n5_read_def demo_driver_def)
  moreover have "1 \<in> {1, 2, 3, 4 :: int}" by simp
  ultimately show ?thesis using f o by (auto simp: pcie_auto_def)
qed

end
