(* ===== verification/Settle.thy ===== *)
theory Settle
  imports Spec_Base Driver "HOL-Library.While_Combinator"
begin

text \<open>
  Waiting for the registers after a write: src/ectest/internal/runner/settle.go. The clock, the
  sleep and the register read are state-passing functions of the caller. The Go loop may run for
  ever when the clock stands still; \<open>WaitDCR\<close> is \<open>None\<close> then.
\<close>

definition SettlePoll :: nanos where "SettlePoll = 200 * Millisecond"

definition SettleTime :: "int \<Rightarrow> nanos" where
  "SettleTime ch = \<lfloor>SettleS ch * 1000000000\<rfloor>"

record Settled =
  se_DCR :: DCR
  se_After :: nanos
  se_Reached :: bool
  se_Err :: "string option"

definition Settled_Text :: "Settled \<Rightarrow> int list \<Rightarrow> string" where
  [text_defs]: "Settled_Text s regs =
     (case se_Err s of
        Some e \<Rightarrow> ''not readable after '' @ fmt_f 1 (Seconds (se_After s)) @ '' s: '' @ e
      | None \<Rightarrow> joins '' '' (map (\<lambda>n. ''DCR'' @ itoa n @ ''='' @ itoa (Reg (se_DCR s) n)) regs) @
                '' after '' @ fmt_f 1 (Seconds (se_After s)) @ '' s'')"

text \<open>The state of the loop: the world, the outcome so far, \<open>have\<close>, and whether it has returned.\<close>

record 'w wait_state =
  ws_world :: 'w
  ws_s :: Settled
  ws_have :: bool
  ws_done :: bool

record 'w wait_env =
  we_now :: "'w \<Rightarrow> 'w \<times> nanos"
  we_sleep :: "nanos \<Rightarrow> 'w \<Rightarrow> 'w \<times> bool"
  we_read :: "'w \<Rightarrow> 'w \<times> (string + DCR)"

text \<open>The read of one iteration (the body of \<open>if el >= min\<close>), and the whole iteration.\<close>

definition wait_read :: "'w wait_env \<Rightarrow> int list \<Rightarrow> int \<Rightarrow> nanos \<Rightarrow> nanos \<Rightarrow> 'w wait_state \<Rightarrow> 'w wait_state" where
  "wait_read E regs want tmo el st =
     (case we_read E (ws_world st) of
        (w, Inr d) \<Rightarrow>
          (let ok = (regs \<noteq> [] \<and> list_all (\<lambda>n. Reg d n = want) regs);
               s = (ws_s st)\<lparr> se_After := el, se_DCR := d, se_Err := None \<rparr>
           in if ok then st\<lparr> ws_world := w, ws_s := s\<lparr> se_Reached := True \<rparr>, ws_have := True, ws_done := True \<rparr>
              else st\<lparr> ws_world := w, ws_s := s, ws_have := True, ws_done := el \<ge> tmo \<rparr>)
      | (w, Inl e) \<Rightarrow>
          (let s = (ws_s st)\<lparr> se_After := el \<rparr>
           in if \<not> ws_have st then st\<lparr> ws_world := w, ws_s := s\<lparr> se_Err := Some e \<rparr>, ws_done := True \<rparr>
              else st\<lparr> ws_world := w, ws_s := s, ws_done := el \<ge> tmo \<rparr>))"

definition wait_step :: "'w wait_env \<Rightarrow> nanos \<Rightarrow> int list \<Rightarrow> int \<Rightarrow> nanos \<Rightarrow> nanos \<Rightarrow> 'w wait_state \<Rightarrow> 'w wait_state" where
  "wait_step E t0 regs want mn tmo st =
     (let (w, now) = we_now E (ws_world st);
          el = now - t0;
          st1 = st\<lparr> ws_world := w \<rparr>;
          st2 = (if el \<ge> mn then wait_read E regs want tmo el st1 else st1)
      in if ws_done st2 then st2
         else
           (let wait = (if el < mn \<and> mn - el < SettlePoll then mn - el else SettlePoll);
                (w', ok) = we_sleep E wait (ws_world st2)
            in st2\<lparr> ws_world := w', ws_done := \<not> ok \<rparr>))"

definition wait_init :: "'w \<Rightarrow> 'w wait_state" where
  "wait_init w = \<lparr> ws_world = w, ws_s = \<lparr> se_DCR = replicate 16 0, se_After = 0, se_Reached = False, se_Err = None \<rparr>,
                   ws_have = False, ws_done = False \<rparr>"

definition WaitDCR :: "'w wait_env \<Rightarrow> nanos \<Rightarrow> int list \<Rightarrow> int \<Rightarrow> nanos \<Rightarrow> nanos \<Rightarrow> 'w \<Rightarrow> ('w \<times> Settled) option" where
  "WaitDCR E t0 regs want mn tmo w =
     map_option (\<lambda>st. (ws_world st, ws_s st))
       (while_option (\<lambda>st. \<not> ws_done st) (wait_step E t0 regs want mn tmo) (wait_init w))"

section \<open>What the wait keeps and what it says\<close>

lemma WaitDCR_inv:
  assumes ret: "WaitDCR E t0 regs want mn tmo w = Some (w', s)"
    and w: "P w"
    and now: "\<And>w. P w \<Longrightarrow> P (fst (we_now E w))"
    and sleep: "\<And>d w. P w \<Longrightarrow> P (fst (we_sleep E d w))"
    and read: "\<And>w. P w \<Longrightarrow> P (fst (we_read E w))"
  shows "P w'"
proof -
  obtain st where st: "while_option (\<lambda>st. \<not> ws_done st) (wait_step E t0 regs want mn tmo) (wait_init w) = Some st"
    "w' = ws_world st" using ret by (auto simp: WaitDCR_def)
  have rd: "P (ws_world (wait_read E regs want tmo el st))" if "P (ws_world st)" for el st
    using read [OF that] by (auto simp: wait_read_def Let_def split: prod.splits sum.splits)
  have "P (ws_world st)"
  proof (rule while_option_rule [OF _ st(1), of "\<lambda>st. P (ws_world st)"])
    fix st :: "'a wait_state"
    assume P: "P (ws_world st)"
    obtain w1 t where n: "we_now E (ws_world st) = (w1, t)" by fastforce
    with now [OF P] have "P w1" by simp
    then have "P (ws_world (if t - t0 \<ge> mn then wait_read E regs want tmo (t - t0) (st\<lparr> ws_world := w1 \<rparr>) else st\<lparr> ws_world := w1 \<rparr>))"
      using rd by simp
    then show "P (ws_world (wait_step E t0 regs want mn tmo st))"
      using sleep n by (auto simp: wait_step_def Let_def split: prod.splits) (metis fst_conv)+
  qed (simp add: wait_init_def w)
  then show ?thesis using st(2) by simp
qed

text \<open>Reached means: the registers of the last reading show the value, and nothing failed.\<close>

lemma WaitDCR_reached:
  assumes "WaitDCR E t0 regs want mn tmo w = Some (w', s)" "se_Reached s"
  shows "se_Err s = None" "\<forall>n \<in> set regs. Reg (se_DCR s) n = want" "mn \<le> se_After s"
proof -
  obtain st where st: "while_option (\<lambda>st. \<not> ws_done st) (wait_step E t0 regs want mn tmo) (wait_init w) = Some st"
    "s = ws_s st" using assms(1) by (auto simp: WaitDCR_def)
  let ?Q = "\<lambda>st :: 'a wait_state. (se_Reached (ws_s st) \<longrightarrow> ws_done st \<and> se_Err (ws_s st) = None \<and>
     (\<forall>n \<in> set regs. Reg (se_DCR (ws_s st)) n = want) \<and> mn \<le> se_After (ws_s st))"
  have "?Q st"
  proof (rule while_option_rule [OF _ st(1), of ?Q])
    fix st :: "'a wait_state"
    assume "?Q st" "\<not> ws_done st"
    then have nr: "\<not> se_Reached (ws_s st)" by blast
    obtain w1 t where n: "we_now E (ws_world st) = (w1, t)" by fastforce
    have rd: "?Q (wait_read E regs want tmo el st')" if "\<not> se_Reached (ws_s st')" "mn \<le> el" for el and st' :: "'a wait_state"
      using that by (auto simp: wait_read_def Let_def list_all_iff split: prod.splits sum.splits)
    have "?Q (if t - t0 \<ge> mn then wait_read E regs want tmo (t - t0) (st\<lparr> ws_world := w1 \<rparr>) else st\<lparr> ws_world := w1 \<rparr>)"
      using rd nr by simp
    then show "?Q (wait_step E t0 regs want mn tmo st)"
      using n by (auto simp: wait_step_def Let_def split: prod.splits)
  qed (simp add: wait_init_def)
  then show "se_Err s = None" "\<forall>n \<in> set regs. Reg (se_DCR s) n = want" "mn \<le> se_After s"
    using assms(2) st(2) by auto
qed

section \<open>The wait returns\<close>

text \<open>
  The interface of a clock: a lower bound of the time of the next \<open>Now\<close>, which \<open>Now\<close> and the
  register read never move back and a completed sleep moves on by its length.
\<close>

locale clock =
  fixes E :: "'w wait_env" and clk :: "'w \<Rightarrow> nanos"
  assumes now_le: "we_now E w = (w', t) \<Longrightarrow> clk w \<le> t \<and> t \<le> clk w'"
    and read_le: "we_read E w = (w', r) \<Longrightarrow> clk w \<le> clk w'"
    and sleep_le: "we_sleep E d w = (w', True) \<Longrightarrow> 0 \<le> d \<Longrightarrow> clk w + d \<le> clk w'"
begin

lemma step_progress:
  assumes "\<not> ws_done (wait_step E t0 regs want mn tmo st)" "\<not> ws_done st"
  shows "clk (ws_world st) < t0 + max mn tmo \<and> clk (ws_world st) < clk (ws_world (wait_step E t0 regs want mn tmo st))"
proof -
  obtain w1 t where n: "we_now E (ws_world st) = (w1, t)" by fastforce
  note t = now_le [OF n]
  define st2 where "st2 = (if t - t0 \<ge> mn then wait_read E regs want tmo (t - t0) (st\<lparr> ws_world := w1 \<rparr>) else st\<lparr> ws_world := w1 \<rparr>)"
  define wait where "wait = (if t - t0 < mn \<and> mn - (t - t0) < SettlePoll then mn - (t - t0) else SettlePoll)"
  obtain w3 ok where s: "we_sleep E wait (ws_world st2) = (w3, ok)" by fastforce
  have step: "wait_step E t0 regs want mn tmo st =
      (if ws_done st2 then st2 else st2\<lparr> ws_world := w3, ws_done := \<not> ok \<rparr>)"
    using n s by (simp add: wait_step_def Let_def st2_def wait_def)
  with assms(1) have nd: "\<not> ws_done st2" and ok by (auto split: if_splits)
  have "wait > 0" by (auto simp: wait_def SettlePoll_def Millisecond_def)
  with sleep_le [of wait "ws_world st2" w3] s \<open>ok\<close> have 3: "clk (ws_world st2) + wait \<le> clk w3" by simp
  have "clk w1 \<le> clk (ws_world st2)"
  proof (cases "t - t0 \<ge> mn")
    case True
    then show ?thesis
      by (auto simp: st2_def wait_read_def Let_def split: prod.splits sum.splits dest!: read_le)
  qed (simp add: st2_def)
  moreover have "t - t0 < max mn tmo"
  proof (cases "t - t0 \<ge> mn")
    case True
    with nd have "\<not> t - t0 \<ge> tmo"
      by (auto simp: st2_def wait_read_def Let_def split: prod.splits sum.splits if_splits)
    then show ?thesis by simp
  qed simp
  ultimately show ?thesis using t 3 \<open>wait > 0\<close> nd step by simp
qed

lemma WaitDCR_returns: "\<exists>w' s. WaitDCR E t0 regs want mn tmo w = Some (w', s)"
proof -
  let ?m = "\<lambda>st :: 'w wait_state. if ws_done st then 0 else Suc (nat (t0 + max mn tmo - clk (ws_world st)))"
  have "\<exists>st. while_option (\<lambda>st. \<not> ws_done st) (wait_step E t0 regs want mn tmo) (wait_init w) = Some st"
  proof (rule measure_while_option_Some [where P = "\<lambda>_. True" and f = ?m])
    fix st :: "'w wait_state"
    assume nd: "\<not> ws_done st"
    show "True \<and> ?m (wait_step E t0 regs want mn tmo st) < ?m st"
      using step_progress [OF _ nd] nd by (auto simp: Let_def)
  qed simp
  then show ?thesis by (auto simp: WaitDCR_def)
qed

end

end
