(* ===== verification/Time_Text.thy ===== *)
theory Time_Text
  imports Prelude
begin

text \<open>
  The parts of package time the program prints with: \<open>Duration.String\<close>, \<open>Duration.Seconds\<close> (in
  Prelude) and \<open>Time.UTC().Format(time.RFC3339)\<close>. A time is nanoseconds since the Unix epoch; the
  Gregorian date is computed from the day number by counting in 400-year eras from 1 March.
\<close>

section \<open>Durations\<close>

text \<open>Go's integer division of durations truncates towards zero.\<close>

definition go_quot :: "int \<Rightarrow> int \<Rightarrow> int" where
  "go_quot a b = (if (a < 0) = (b < 0) then \<bar>a\<bar> div \<bar>b\<bar> else - (\<bar>a\<bar> div \<bar>b\<bar>))"

definition frac_text :: "int \<Rightarrow> nat \<Rightarrow> string" where
  "frac_text v prec =
     (let ds = map (\<lambda>k. digit_char (nat (v div 10 ^ k mod 10))) (rev [0..<prec]);
          kept = rev (dropWhile (\<lambda>c. c = CHR ''0'') (rev ds))
      in itoa (v div 10 ^ prec) @ (if kept = [] then [] else CHR ''.'' # kept))"

definition dur_abs :: "int \<Rightarrow> string" where
  "dur_abs v =
     (if v = 0 then ''0s''
      else if v < 1000 then itoa v @ ''ns''
      else if v < 1000000 then frac_text v 3 @ [CHR 0xC2, CHR 0xB5] @ ''s''
      else if v < 1000000000 then frac_text v 6 @ ''ms''
      else
        (let h = v div 3600000000000; m = v div 60000000000
         in (if h > 0 then itoa h @ ''h'' else []) @
            (if m > 0 then itoa (m mod 60) @ ''m'' else []) @
            frac_text (v mod 60000000000) 9 @ ''s''))"

definition dur_text :: "nanos \<Rightarrow> string" where
  "dur_text d = (if d < 0 then ''-'' @ dur_abs (- d) else dur_abs d)"

section \<open>Dates\<close>

definition civil :: "int \<Rightarrow> int \<times> int \<times> int" where
  "civil days =
     (let z = days + 719468; era = z div 146097; doe = z mod 146097;
          yoe = (doe - doe div 1460 + doe div 36524 - doe div 146096) div 365;
          doy = doe - (365 * yoe + yoe div 4 - yoe div 100);
          mp = (5 * doy + 2) div 153;
          d = doy - (153 * mp + 2) div 5 + 1;
          m = (if mp < 10 then mp + 3 else mp - 9);
          y = yoe + era * 400 + (if m \<le> 2 then 1 else 0)
      in (y, m, d))"

definition pad2 :: "int \<Rightarrow> string" where "pad2 n = pad_left 2 (CHR ''0'') (itoa n)"

definition rfc3339 :: "nanos \<Rightarrow> string" where
  "rfc3339 t =
     (let secs = t div 1000000000; (y, m, d) = civil (secs div 86400); s = secs mod 86400
      in pad_left 4 (CHR ''0'') (itoa y) @ ''-'' @ pad2 m @ ''-'' @ pad2 d @ ''T'' @
         pad2 (s div 3600) @ '':'' @ pad2 (s div 60 mod 60) @ '':'' @ pad2 (s mod 60) @ ''Z'')"

end
