(* ===== verification/Runner_State.thy ===== *)
theory Runner_State
  imports Settle Time_Text Regulator
begin

text \<open>
  The runner, src/ectest/internal/runner/runner.go: its state and its single operations (events,
  samples with the safety limits, holds, writes, restores). The machine, the callers' hooks and
  everything outside the runner are a world \<open>'w\<close>; the interface \<open>Env\<close> and the hooks are
  state-passing functions of it. The fields that a run never changes (\<open>Env\<close>, \<open>Cfg\<close>, the hooks,
  \<open>Tag\<close>) are the record \<open>Setup\<close>, the others the record \<open>runner\<close>. Operations that wait for a
  register may not return and are option-valued.
\<close>

section \<open>Data\<close>

record Readings =
  rd_Fan :: "int \<Rightarrow> int option"
  rd_Tctl :: fl
  rd_NVMeMax :: fl
  rd_HDDMax :: fl
  rd_ECCPU :: fl
  rd_ECSys :: fl
  rd_ECBoard :: fl
  rd_ECAmb :: fl
  rd_Load1 :: fl

text \<open>The error of \<open>Env.Restore\<close>: written but the register differs (\<open>ErrRestoreUnverified\<close>), or not written.\<close>

datatype restore_error = Unverified string | NotRestored string

fun restore_error_text :: "restore_error \<Rightarrow> string" where
  "restore_error_text (Unverified e) = e"
| "restore_error_text (NotRestored e) = e"

definition ErrRestoreUnverified :: string where
  [text_defs]: "ErrRestoreUnverified = ''restore value written, EC register differs''"

text \<open>\<open>e_Sleep\<close> takes whether the context is the background one, which is never cancelled.\<close>

record 'w Env =
  e_Now :: "'w \<Rightarrow> 'w \<times> nanos"
  e_Sleep :: "bool \<Rightarrow> nanos \<Rightarrow> 'w \<Rightarrow> 'w \<times> bool"
  e_EnterManual :: "int \<Rightarrow> 'w \<Rightarrow> 'w \<times> string option"
  e_WriteDuty :: "int \<Rightarrow> int \<Rightarrow> 'w \<Rightarrow> 'w \<times> string option"
  e_Auto :: "int \<Rightarrow> 'w \<Rightarrow> 'w \<times> string option"
  e_Restore :: "int \<Rightarrow> 'w \<Rightarrow> 'w \<times> restore_error option"
  e_DCR :: "'w \<Rightarrow> 'w \<times> (string + DCR)"
  e_Read :: "'w \<Rightarrow> 'w \<times> Readings"

record Config =
  cf_Channel :: int
  cf_OwnTach :: int
  cf_Tachs :: "int list"
  cf_Hold :: nanos
  cf_Sample :: nanos
  cf_Observe :: nanos
  cf_Pre :: nanos
  cf_Window :: nanos
  cf_OnlineCPUs :: int
  cf_Repeat :: nat

record 'w Setup =
  su_Env :: "'w Env"
  su_Cfg :: Config
  su_Guard :: "('w \<Rightarrow> 'w \<times> string) option"
  su_OnSample :: "(Sample \<Rightarrow> 'w \<Rightarrow> 'w) option"
  su_OnEvent :: "(string \<Rightarrow> 'w \<Rightarrow> 'w) option"
  su_BeforeWrite :: "('w \<Rightarrow> 'w \<times> string option) option"
  su_BeforeHot :: "(int \<Rightarrow> 'w \<Rightarrow> 'w \<times> string option) option"
  su_Tag :: string

record 'w runner =
  rn_world :: 'w
  rn_Samples :: "Sample list"
  rn_Events :: "string list"
  rn_Abort :: string
  rn_LimitSensors :: "string \<Rightarrow> bool"
  rn_RestoreWarnings :: "string list"
  rn_RestoreOverrides :: "int \<Rightarrow> string"
  rn_start :: nanos
  rn_touched :: "int \<Rightarrow> bool"
  rn_restoreErr :: "int \<Rightarrow> string"
  rn_nanRun :: "string \<Rightarrow> nat"
  rn_dcrOK :: bool
  rn_dcrErr :: string
  rn_wrote :: bool
  rn_hot :: int
  rn_hotWhy :: string

definition PreWindow :: "Config \<Rightarrow> nanos" where
  "PreWindow c = (if cf_Pre c > 0 then cf_Pre c else cf_Observe c)"

definition HandbackObserve :: "Config \<Rightarrow> nanos" where
  "HandbackObserve c = cf_Observe c + SettleHoldS * Second"

definition lostAfter :: nat where "lostAfter = 3"

definition SpecConfig :: "int \<Rightarrow> int \<Rightarrow> int list \<Rightarrow> Config" where
  "SpecConfig ch ownTach tachs =
     \<lparr> cf_Channel = ch, cf_OwnTach = ownTach, cf_Tachs = tachs, cf_Hold = T1StepHoldS * Second,
       cf_Sample = SampleS * Second, cf_Observe = T3LimitS ch * Second, cf_Pre = PreWindowS ch * Second,
       cf_Window = GateWindowS * Second, cf_OnlineCPUs = 0, cf_Repeat = RunsRequired \<rparr>"

definition TachOf :: "int \<Rightarrow> int" where
  "TachOf ch = (if ch \<ge> 1 \<and> ch \<le> 3 then ch else 0)"

text \<open>\<open>NewRunner\<close> starts the run clock and reads the registers once.\<close>

definition NewRunner :: "'w Env \<Rightarrow> 'w \<Rightarrow> 'w runner" where
  "NewRunner E w =
     (let (w1, t) = e_Now E w; (w2, d) = e_DCR E w1
      in \<lparr> rn_world = w2, rn_Samples = [], rn_Events = [], rn_Abort = '''', rn_LimitSensors = (\<lambda>_. False),
           rn_RestoreWarnings = [], rn_RestoreOverrides = (\<lambda>_. ''''), rn_start = t, rn_touched = (\<lambda>_. False),
           rn_restoreErr = (\<lambda>_. ''''), rn_nanRun = (\<lambda>_. 0), rn_dcrOK = (case d of Inl _ \<Rightarrow> False | Inr _ \<Rightarrow> True),
           rn_dcrErr = (case d of Inl e \<Rightarrow> e | Inr _ \<Rightarrow> ''''), rn_wrote = False, rn_hot = 0, rn_hotWhy = '''' \<rparr>)"

section \<open>Events\<close>

definition FormatEvent :: "nanos \<Rightarrow> rat \<Rightarrow> string \<Rightarrow> string" where
  [text_defs]: "FormatEvent t ts txt = rfc3339 t @ '' [t_s='' @ fmt_f 3 ts @ ''] '' @ txt"

definition eventAt :: "'w Setup \<Rightarrow> string \<Rightarrow> 'w runner \<Rightarrow> 'w runner \<times> nanos" where
  "eventAt S txt r =
     (let (w, now) = e_Now (su_Env S) (rn_world r);
          line = FormatEvent now (Seconds (now - rn_start r)) txt;
          w' = (case su_OnEvent S of None \<Rightarrow> w | Some f \<Rightarrow> f line w)
      in (r\<lparr> rn_world := w', rn_Events := rn_Events r @ [line] \<rparr>, now))"

definition event :: "'w Setup \<Rightarrow> string \<Rightarrow> 'w runner \<Rightarrow> 'w runner" where
  "event S txt r = fst (eventAt S txt r)"

definition tag :: "'w Setup \<Rightarrow> string" where
  "tag S = (if su_Tag S = '''' then '''' else '' ['' @ su_Tag S @ '']'')"

definition stop :: "'w Setup \<Rightarrow> string \<Rightarrow> 'w runner \<Rightarrow> 'w runner" where
  "stop S reason r =
     (if rn_Abort r = '''' then event S (''ABORT '' @ reason) (r\<lparr> rn_Abort := reason \<rparr>) else r)"

section \<open>One sample\<close>

definition off_due_text :: "string \<Rightarrow> rat \<Rightarrow> rat \<Rightarrow> string" where
  [text_defs]: "off_due_text phase late due = ''sample '' @ phase @ '' '' @ fmt_f 3 late @ '' s off its due time t_s='' @
     fmt_f 3 due @ '': stored at its real time''"

text \<open>The time stamp: the due time when the read was close to it.\<close>

definition sample_ts :: "'w Setup \<Rightarrow> string \<Rightarrow> nanos option \<Rightarrow> nanos \<Rightarrow> 'w runner \<Rightarrow> 'w runner \<times> rat" where
  "sample_ts S phase due now r =
     (let ts = Seconds (now - rn_start r)
      in case due of
           None \<Rightarrow> (r, ts)
         | Some t \<Rightarrow>
             (let late = Seconds (now - t)
              in if \<bar>late\<bar> \<le> DueToleranceS then (r, Seconds (t - rn_start r))
                 else (event S (off_due_text phase late (Seconds (t - rn_start r))) r, ts)))"

text \<open>The register read and the readings, as a sample.\<close>

definition dcr_values :: "DCR option \<Rightarrow> int list" where
  "dcr_values d = (case d of None \<Rightarrow> [-1, -1, -1, -1, -1] | Some d \<Rightarrow> map (Reg d) [1, 2, 3, 4, 5])"

definition fan_values :: "Readings \<Rightarrow> int list" where
  "fan_values rd = map (\<lambda>n. case rd_Fan rd n of None \<Rightarrow> -1 | Some v \<Rightarrow> v) [1, 2, 3]"

definition make_sample :: "'w Setup \<Rightarrow> nanos \<Rightarrow> rat \<Rightarrow> string \<Rightarrow> int \<Rightarrow> DCR option \<Rightarrow> Readings \<Rightarrow> Sample" where
  "make_sample S now ts phase written d rd =
     (NewSample now ts phase (cf_Channel (su_Cfg S)) written)
       \<lparr> s_DCR := dcr_values d, s_Fan := fan_values rd,
         s_ECCPU := rd_ECCPU rd, s_ECSys := rd_ECSys rd, s_ECBoard := rd_ECBoard rd, s_ECAmb := rd_ECAmb rd,
         s_HDDMax := rd_HDDMax rd, s_NVMeMax := rd_NVMeMax rd, s_Tctl := rd_Tctl rd, s_Load1 := rd_Load1 rd \<rparr>"

definition read_regs :: "'w Setup \<Rightarrow> 'w runner \<Rightarrow> 'w runner \<times> DCR option" where
  "read_regs S r =
     (if rn_dcrOK r then
        (case e_DCR (su_Env S) (rn_world r) of (w, d) \<Rightarrow>
           (r\<lparr> rn_world := w \<rparr>, case d of Inl _ \<Rightarrow> None | Inr d \<Rightarrow> Some d))
      else (r, None))"

definition record_sample :: "'w Setup \<Rightarrow> Sample \<Rightarrow> 'w runner \<Rightarrow> 'w runner" where
  "record_sample S s r =
     r\<lparr> rn_Samples := rn_Samples r @ [s],
        rn_world := (case su_OnSample S of None \<Rightarrow> rn_world r | Some f \<Rightarrow> f s (rn_world r)) \<rparr>"

definition guard :: "'w Setup \<Rightarrow> 'w runner \<Rightarrow> 'w runner \<times> string" where
  "guard S r =
     (case su_Guard S of None \<Rightarrow> (r, '''')
      | Some g \<Rightarrow> (case g (rn_world r) of (w, why) \<Rightarrow>
           (r\<lparr> rn_world := w \<rparr>, if why \<noteq> '''' then ''another pwm writer became active: '' @ why else '''')))"

text \<open>The limit sensors: \<open>lostAfter\<close> consecutive samples without a value end the run.\<close>

definition lost_text :: "string \<Rightarrow> string" where
  [text_defs]: "lost_text name = ''limit sensor '' @ name @ '' unreadable in '' @ itoa (int lostAfter) @
     '' consecutive samples (its limit cannot be enforced)''"

fun sensor_loop :: "(string \<times> fl) list \<Rightarrow> 'w runner \<Rightarrow> 'w runner \<times> string" where
  "sensor_loop [] r = (r, '''')"
| "sensor_loop ((name, v) # ls) r =
     (if \<not> rn_LimitSensors r name then sensor_loop ls r
      else if v \<noteq> NaN then sensor_loop ls (r\<lparr> rn_nanRun := (rn_nanRun r)(name := 0) \<rparr>)
      else
        (let r' = r\<lparr> rn_nanRun := (rn_nanRun r)(name := rn_nanRun r name + 1) \<rparr>
         in if rn_nanRun r' name \<ge> lostAfter then (r', lost_text name) else sensor_loop ls r'))"

definition limit_values :: "Readings \<Rightarrow> (string \<times> fl) list" where
  "limit_values rd = [(''tctl'', rd_Tctl rd), (''nvme'', rd_NVMeMax rd), (''hdd'', rd_HDDMax rd)]"

text \<open>The temperature limits name the channel of their sensor; the first one counts.\<close>

definition limit_text :: "string \<Rightarrow> fl \<Rightarrow> rat \<Rightarrow> string" where
  [text_defs]: "limit_text name v th = name @ '' '' @ (case v of None \<Rightarrow> ''NaN'' | Some x \<Rightarrow> fmt_f 1 x) @ '' C >= '' @ fmt_f 0 th @ '' C''"

definition hot_limit :: "Readings \<Rightarrow> (int \<times> string) option" where
  "hot_limit rd =
     (if fl_ge (rd_Tctl rd) LimitTctlC then Some (1, limit_text ''CPU Tctl'' (rd_Tctl rd) LimitTctlC)
      else if fl_ge (rd_NVMeMax rd) LimitNVMeC then Some (2, limit_text ''NVMe'' (rd_NVMeMax rd) LimitNVMeC)
      else if fl_ge (rd_HDDMax rd) LimitHDDC then Some (3, limit_text ''HDD'' (rd_HDDMax rd) LimitHDDC)
      else None)"

definition set_hot :: "int \<Rightarrow> string \<Rightarrow> 'w runner \<Rightarrow> 'w runner" where
  "set_hot ch why r = (if rn_hot r = 0 \<and> rn_Abort r = '''' then r\<lparr> rn_hot := ch, rn_hotWhy := why \<rparr> else r)"

text \<open>A tach at 0 rpm while the duty of its channel is not known to be 0.\<close>

definition tach_stopped :: "DCR option \<Rightarrow> Readings \<Rightarrow> int \<Rightarrow> bool" where
  "tach_stopped d rd n \<longleftrightarrow>
     rd_Fan rd n = Some 0 \<and> \<not> (case d of None \<Rightarrow> False | Some d \<Rightarrow> Channel d n = Some 0)"

definition tach_text :: "int \<Rightarrow> string" where
  [text_defs]: "tach_text n = ''fan'' @ itoa n @ '' reports 0 rpm while its duty is > 0''"

definition check_limits :: "'w Setup \<Rightarrow> DCR option \<Rightarrow> Readings \<Rightarrow> 'w runner \<Rightarrow> 'w runner \<times> string" where
  "check_limits S d rd r =
     (case guard S r of (r1, why1) \<Rightarrow>
        if why1 \<noteq> '''' then (r1, why1)
        else (case sensor_loop (limit_values rd) r1 of (r2, why2) \<Rightarrow>
          if why2 \<noteq> '''' then (r2, why2)
          else (case hot_limit rd of
                  Some (ch, why) \<Rightarrow> (set_hot ch why r2, why)
                | None \<Rightarrow>
                    (case find (tach_stopped d rd) (cf_Tachs (su_Cfg S)) of
                       Some n \<Rightarrow> (r2, tach_text n)
                     | None \<Rightarrow> (r2, '''')))))"

definition sampleAt :: "'w Setup \<Rightarrow> string \<Rightarrow> int \<Rightarrow> nanos option \<Rightarrow> 'w runner \<Rightarrow> 'w runner \<times> Sample \<times> string" where
  "sampleAt S phase written due r =
     (let (w, now) = e_Now (su_Env S) (rn_world r);
          (r1, ts) = sample_ts S phase due now (r\<lparr> rn_world := w \<rparr>);
          (r2, d) = read_regs S r1;
          (w3, rd) = e_Read (su_Env S) (rn_world r2);
          s = make_sample S now ts phase written d rd;
          (r4, why) = check_limits S d rd (record_sample S s (r2\<lparr> rn_world := w3 \<rparr>))
      in (r4, s, why))"

section \<open>Holding\<close>

text \<open>One slot: sleep until it is due and sample; \<open>None\<close> when the sleep was cancelled.\<close>

definition hold_slot :: "'w Setup \<Rightarrow> nanos \<Rightarrow> string \<Rightarrow> int \<Rightarrow> 'w runner \<Rightarrow> 'w runner \<times> (Sample \<times> string) option" where
  "hold_slot S due phase written r =
     (let (w, now) = e_Now (su_Env S) (rn_world r);
          wait = (if due - now < 0 then 0 else due - now);
          (w2, ok) = e_Sleep (su_Env S) False wait w;
          r2 = r\<lparr> rn_world := w2 \<rparr>
      in if \<not> ok then (stop S ''cancelled (signal)'' r2, None)
         else (case sampleAt S phase written (Some due) r2 of (r3, s, abort) \<Rightarrow> (r3, Some (s, abort))))"

text \<open>The next slot: slots that were missed are skipped, the last one never.\<close>

definition next_slot :: "'w Setup \<Rightarrow> nanos \<Rightarrow> int \<Rightarrow> int \<Rightarrow> 'w runner \<Rightarrow> 'w runner \<times> int" where
  "next_slot S anchor n k r =
     (let (w, now) = e_Now (su_Env S) (rn_world r);
          next = go_quot (now - anchor) (cf_Sample (su_Cfg S)) + 1;
          next = (if next \<le> k then k + 1 else next);
          next = (if k < n \<and> next > n then n else next)
      in (r\<lparr> rn_world := w \<rparr>, next))"

lemma next_slot_gt: "next_slot S anchor n k r = (r', k') \<Longrightarrow> k < k'"
  by (auto simp: next_slot_def Let_def split: prod.splits if_splits)

function hold_loop :: "'w Setup \<Rightarrow> nanos \<Rightarrow> string \<Rightarrow> int \<Rightarrow> int \<Rightarrow> (Sample \<Rightarrow> 'a \<Rightarrow> 'a) \<Rightarrow> int \<Rightarrow> 'w runner \<Rightarrow> 'a
    \<Rightarrow> 'w runner \<times> 'a \<times> bool" where
  "hold_loop S anchor phase written n each k r acc =
     (if k > n then (r, acc, True)
      else
        (case hold_slot S (anchor + k * cf_Sample (su_Cfg S)) phase written r of
           (r1, None) \<Rightarrow> (r1, acc, False)
         | (r1, Some (s, abort)) \<Rightarrow>
             (if abort \<noteq> [] then (stop S abort r1, each s acc, False)
              else (case next_slot S anchor n k r1 of
                      (r2, next) \<Rightarrow> hold_loop S anchor phase written n each next r2 (each s acc)))))"
  by pat_completeness auto

termination
  by (relation "measure (\<lambda>(S, anchor, phase, written, n, each, k, r, acc). nat (n + 1 - k))")
    (auto dest!: next_slot_gt [OF sym])

declare hold_loop.simps [simp del]

definition holdFrom :: "'w Setup \<Rightarrow> nanos \<Rightarrow> string \<Rightarrow> int \<Rightarrow> nanos \<Rightarrow> (Sample \<Rightarrow> 'a \<Rightarrow> 'a) \<Rightarrow> 'w runner \<Rightarrow> 'a
    \<Rightarrow> 'w runner \<times> 'a \<times> bool" where
  "holdFrom S anchor phase written d each r acc =
     (let n = go_quot d (cf_Sample (su_Cfg S)); n = (if n < 1 then 1 else n)
      in hold_loop S anchor phase written n each 1 r acc)"

definition hold :: "'w Setup \<Rightarrow> string \<Rightarrow> int \<Rightarrow> nanos \<Rightarrow> (Sample \<Rightarrow> 'a \<Rightarrow> 'a) \<Rightarrow> 'w runner \<Rightarrow> 'a
    \<Rightarrow> 'w runner \<times> 'a \<times> bool" where
  "hold S phase written d each r acc =
     (let (w, now) = e_Now (su_Env S) (rn_world r)
      in holdFrom S now phase written d each (r\<lparr> rn_world := w \<rparr>) acc)"

section \<open>Writing\<close>

definition errLowDuty :: "int \<Rightarrow> string" where
  [text_defs]: "errLowDuty d = ''runner: duty below 100 is never written (TESTSPEC '' @ sect @ ''4): '' @ itoa d"

definition firstWrite :: "'w Setup \<Rightarrow> 'w runner \<Rightarrow> 'w runner \<times> string option" where
  "firstWrite S r =
     (if rn_wrote r then (r, None)
      else
        (case su_BeforeWrite S of
           None \<Rightarrow> (r\<lparr> rn_wrote := True \<rparr>, None)
         | Some f \<Rightarrow>
             (case f (rn_world r) of
                (w, Some e) \<Rightarrow> (r\<lparr> rn_world := w \<rparr>, Some (''before the first write: '' @ e))
              | (w, None) \<Rightarrow> (r\<lparr> rn_world := w, rn_wrote := True \<rparr>, None))))"

definition touch :: "int \<Rightarrow> 'w runner \<Rightarrow> 'w runner" where
  "touch ch r = r\<lparr> rn_touched := (rn_touched r)(ch := True) \<rparr>"

definition untouch :: "int \<Rightarrow> 'w runner \<Rightarrow> 'w runner" where
  "untouch ch r = r\<lparr> rn_touched := (rn_touched r)(ch := False) \<rparr>"

definition EventWrite :: "int \<Rightarrow> int \<Rightarrow> string" where
  [text_defs]: "EventWrite ch duty = ''write pwm'' @ itoa ch @ ''='' @ itoa duty"

definition write_failed_text :: "int \<Rightarrow> int \<Rightarrow> string \<Rightarrow> string" where
  [text_defs]: "write_failed_text ch duty e = ''write pwm'' @ itoa ch @ ''='' @ itoa duty @ '' FAILED: '' @ e"

text \<open>\<open>write\<close> of the code: the error text, or the time stamped on the event.\<close>

definition write_duty :: "'w Setup \<Rightarrow> int \<Rightarrow> int \<Rightarrow> 'w runner \<Rightarrow> 'w runner \<times> (string + nanos)" where
  "write_duty S ch duty r =
     (if duty < MinDuty \<or> duty > 255 then (r, Inl (errLowDuty duty))
      else
        (case firstWrite S r of
           (r1, Some e) \<Rightarrow> (r1, Inl e)
         | (r1, None) \<Rightarrow>
             (let r2 = touch ch r1
              in case e_WriteDuty (su_Env S) ch duty (rn_world r2) of
                   (w, Some e) \<Rightarrow> (event S (write_failed_text ch duty e @ tag S) (r2\<lparr> rn_world := w \<rparr>), Inl e)
                 | (w, None) \<Rightarrow>
                     (case eventAt S (EventWrite ch duty @ tag S) (r2\<lparr> rn_world := w \<rparr>) of (r3, t) \<Rightarrow> (r3, Inr t)))))"

definition manual :: "'w Setup \<Rightarrow> int \<Rightarrow> 'w runner \<Rightarrow> 'w runner \<times> string option" where
  "manual S ch r =
     (case firstWrite S r of
        (r1, Some e) \<Rightarrow> (r1, Some e)
      | (r1, None) \<Rightarrow>
          (let r2 = touch ch r1
           in case e_EnterManual (su_Env S) ch (rn_world r2) of
                (w, Some e) \<Rightarrow> (event S (''pwm'' @ itoa ch @ '' manual FAILED: '' @ e @ tag S) (r2\<lparr> rn_world := w \<rparr>), Some e)
              | (w, None) \<Rightarrow>
                  (event S (''pwm'' @ itoa ch @ '' manual (driver sets 255)'' @ tag S) (r2\<lparr> rn_world := w \<rparr>), None)))"

definition auto_cmd :: "'w Setup \<Rightarrow> int \<Rightarrow> 'w runner \<Rightarrow> 'w runner \<times> (string + nanos)" where
  "auto_cmd S ch r =
     (case firstWrite S r of
        (r1, Some e) \<Rightarrow> (r1, Inl e)
      | (r1, None) \<Rightarrow>
          (let r2 = touch ch r1
           in case e_Auto (su_Env S) ch (rn_world r2) of
                (w, Some e) \<Rightarrow> (event S (''pwm'' @ itoa ch @ '' auto FAILED: '' @ e @ tag S) (r2\<lparr> rn_world := w \<rparr>), Inl e)
              | (w, None) \<Rightarrow>
                  (case eventAt S (''pwm'' @ itoa ch @ '' auto (EC automatic command)'' @ tag S) (r2\<lparr> rn_world := w \<rparr>) of
                     (r3, t) \<Rightarrow> (r3, Inr t))))"

section \<open>Restoring\<close>

definition HotChannel :: "'w runner \<Rightarrow> int" where
  "HotChannel r = (if rn_hot r = 0 \<or> \<not> rn_wrote r then 0 else rn_hot r)"

definition hot_why :: "string \<Rightarrow> string" where
  [text_defs]: "hot_why why = ''255 (temperature abort: '' @ why @ ''; TESTSPEC '' @ sect @ ''4)''"

definition hot_before_text :: "int \<Rightarrow> string \<Rightarrow> string \<Rightarrow> string" where
  [text_defs]: "hot_before_text ch when e = ''restore pwm'' @ itoa ch @ ''=255'' @ when @ '': before the write: '' @ e @
     '' (255 is written anyway)''"

definition hot_failed_text :: "int \<Rightarrow> string \<Rightarrow> string \<Rightarrow> string" where
  [text_defs]: "hot_failed_text ch when e = ''restore pwm'' @ itoa ch @ ''=255'' @ when @
     '' after a temperature abort FAILED: '' @ e @ '' - set it by hand (n5-ectest restore)''"

definition hot_differs_text :: "int \<Rightarrow> string \<Rightarrow> string \<Rightarrow> string \<Rightarrow> string" where
  [text_defs]: "hot_differs_text ch when s why = ''restore pwm'' @ itoa ch @ ''=255'' @ when @
     '' WRITTEN, REGISTER DIFFERS: '' @ s @ '': '' @ why"

definition hot_warning :: "int \<Rightarrow> string \<Rightarrow> string" where
  [text_defs]: "hot_warning ch s = ''pwm'' @ itoa ch @ '': '' @ ErrRestoreUnverified @ '': pwm'' @ itoa ch @ ''=255 written, '' @ s"

text \<open>\<open>before_hot\<close>: the hook before the write; \<open>write_hot\<close>: manual mode, then 255.\<close>

definition before_hot :: "'w Setup \<Rightarrow> int \<Rightarrow> string \<Rightarrow> 'w runner \<Rightarrow> 'w runner" where
  "before_hot S ch when r =
     (case su_BeforeHot S of None \<Rightarrow> r
      | Some f \<Rightarrow>
          (case f ch (rn_world r) of
             (w, None) \<Rightarrow> r\<lparr> rn_world := w \<rparr>
           | (w, Some e) \<Rightarrow> event S (hot_before_text ch when e @ tag S) (r\<lparr> rn_world := w \<rparr>)))"

definition write_hot :: "'w Setup \<Rightarrow> int \<Rightarrow> 'w runner \<Rightarrow> 'w runner \<times> string option" where
  "write_hot S ch r =
     (case e_EnterManual (su_Env S) ch (rn_world r) of
        (w, Some e) \<Rightarrow> (r\<lparr> rn_world := w \<rparr>, Some e)
      | (w, None) \<Rightarrow> (case e_WriteDuty (su_Env S) ch 255 w of (w', e) \<Rightarrow> (r\<lparr> rn_world := w' \<rparr>, e)))"

definition wait_env_of :: "'w Env \<Rightarrow> 'w wait_env" where
  "wait_env_of E = \<lparr> we_now = e_Now E, we_sleep = e_Sleep E True, we_read = e_DCR E \<rparr>"

text \<open>The comparison of the registers after the settle time.\<close>

definition check_hot :: "'w Setup \<Rightarrow> int \<Rightarrow> string \<Rightarrow> string \<Rightarrow> nanos \<Rightarrow> 'w runner \<Rightarrow> ('w runner \<times> bool) option" where
  "check_hot S ch when why t0 r =
     (let ok = (\<lambda>r. (event S (''restore pwm'' @ itoa ch @ ''=255'' @ when @ '' ok: '' @ why @ tag S) r, True));
          regs = JudgedRegs ch; st = SettleTime ch
      in if rn_dcrOK r then
           (case WaitDCR (wait_env_of (su_Env S)) t0 regs 255 st st (rn_world r) of
              None \<Rightarrow> None
            | Some (w, s) \<Rightarrow>
                (let r1 = r\<lparr> rn_world := w \<rparr>
                 in if se_Err s = None \<and> \<not> se_Reached s
                    then (let r2 = event S (hot_differs_text ch when (Settled_Text s regs) why @ tag S) r1
                          in Some (r2\<lparr> rn_RestoreWarnings := rn_RestoreWarnings r2 @ [hot_warning ch (Settled_Text s regs)] \<rparr>, True))
                    else Some (ok r1)))
         else Some (ok r))"

definition restoreHot :: "'w Setup \<Rightarrow> int \<Rightarrow> string \<Rightarrow> 'w runner \<Rightarrow> ('w runner \<times> bool) option" where
  "restoreHot S ch when r =
     (let why = hot_why (rn_hotWhy r);
          r1 = before_hot S ch when r;
          (w, t0) = e_Now (su_Env S) (rn_world r1)
      in case write_hot S ch (r1\<lparr> rn_world := w \<rparr>) of
           (r2, Some e) \<Rightarrow>
             (let r3 = event S (hot_failed_text ch when e @ tag S) r2
              in Some (r3\<lparr> rn_restoreErr := (rn_restoreErr r3)(ch := e) \<rparr>, False))
         | (r2, None) \<Rightarrow>
             check_hot S ch when why t0
               (r2\<lparr> rn_RestoreOverrides := (rn_RestoreOverrides r2)(ch := why),
                    rn_restoreErr := (rn_restoreErr r2)(ch := '''') \<rparr>))"

definition restore_text :: "int \<Rightarrow> string \<Rightarrow> restore_error option \<Rightarrow> string" where
  [text_defs]: "restore_text ch when err = ''restore pwm'' @ itoa ch @ when @
     (case err of None \<Rightarrow> '' ok''
      | Some (Unverified e) \<Rightarrow> '' WRITTEN, REGISTER DIFFERS: '' @ e
      | Some (NotRestored e) \<Rightarrow> '' FAILED: '' @ e @ '' - set it by hand (n5-ectest restore)'')"

definition restore :: "'w Setup \<Rightarrow> int \<Rightarrow> string \<Rightarrow> 'w runner \<Rightarrow> ('w runner \<times> bool) option" where
  "restore S ch when r =
     (if ch = HotChannel r then restoreHot S ch when r
      else
        (case e_Restore (su_Env S) ch (rn_world r) of (w, err) \<Rightarrow>
           (let r1 = event S (restore_text ch when err @ tag S) (r\<lparr> rn_world := w \<rparr>)
            in case err of
                 None \<Rightarrow> Some (r1\<lparr> rn_restoreErr := (rn_restoreErr r1)(ch := '''') \<rparr>, True)
               | Some (Unverified e) \<Rightarrow>
                   Some (r1\<lparr> rn_RestoreWarnings := rn_RestoreWarnings r1 @ [''pwm'' @ itoa ch @ '': '' @ e],
                             rn_restoreErr := (rn_restoreErr r1)(ch := '''') \<rparr>, True)
               | Some (NotRestored e) \<Rightarrow> Some (r1\<lparr> rn_restoreErr := (rn_restoreErr r1)(ch := e) \<rparr>, False))))"

text \<open>\<open>if r.restore(ch, when) { delete(r.touched, ch) }\<close>, the form of all its uses.\<close>

definition restore_untouch :: "'w Setup \<Rightarrow> int \<Rightarrow> string \<Rightarrow> 'w runner \<Rightarrow> 'w runner option" where
  "restore_untouch S ch when r =
     (case restore S ch when r of None \<Rightarrow> None
      | Some (r', ok) \<Rightarrow> Some (if ok then untouch ch r' else r'))"

fun close_loop :: "'w Setup \<Rightarrow> int list \<Rightarrow> 'w runner \<Rightarrow> 'w runner option" where
  "close_loop S [] r = Some r"
| "close_loop S (ch # chs) r =
     (if \<not> rn_touched r ch then close_loop S chs r
      else (case restore_untouch S ch '''' r of None \<Rightarrow> None | Some r' \<Rightarrow> close_loop S chs r'))"

definition mark_hot :: "'w runner \<Rightarrow> 'w runner" where
  "mark_hot r = (let h = HotChannel r in if h > 0 \<and> rn_RestoreOverrides r h = '''' then touch h r else r)"

definition Close :: "'w Setup \<Rightarrow> 'w runner \<Rightarrow> 'w runner option" where
  "Close S r = close_loop S [1, 2, 3, 4] (mark_hot r)"

definition Unrestored :: "'w runner \<Rightarrow> string list" where
  "Unrestored r = map (\<lambda>ch. ''pwm'' @ itoa ch @ '': '' @ orText (rn_restoreErr r ch) ''not restored'')
     (filter (rn_touched r) [1, 2, 3, 4])"

end
