(* ===== verification/Runner_Tests.thy ===== *)
theory Runner_Tests
  imports Runner_State Spec_T1 Spec_Gates
begin

text \<open>
  The procedures of the runner, src/ectest/internal/runner/runner.go: the gate window, the mapping
  test T1, the hand-back test T2/T3, and the functions that turn samples into the data of the
  evaluators (used by the report as well). The callbacks of the Go code that append to local
  variables are functions on an accumulator.
\<close>

section \<open>Gates\<close>

definition G3Condition :: string where
  [text_defs]: "G3Condition = ''load average (1 min) < 0.1 x online CPUs''"

definition G4Condition :: string where
  [text_defs]: "G4Condition = ''over 5 min: EC 0x04 (system), EC 0x06 (ambient) and HDD temperature each with mean of the last 60 s - mean of the first 60 s < 1 C and max - min <= 1 C; every abort-limit sensor (Tctl, NVMe, HDD) readable; Tctl is a safety limit only''"

definition G3 :: "Sample \<Rightarrow> int \<Rightarrow> string \<times> string" where
  "G3 first cpus =
     (case s_Load1 first of
        NaN \<Rightarrow> (''FAIL'', ''load average not readable'')
      | Some l \<Rightarrow>
          if cpus \<le> 0 then (''FAIL'', ''load1 '' @ fmt_f 2 l @ '', online CPUs not readable'')
          else
            (let limit = GateLoadLimit cpus;
                 detail = ''load1 '' @ fmt_f 2 l @ '', limit '' @ fmt_f 2 limit @ '' ('' @ itoa cpus @ '' online CPUs)''
             in if l < limit then (''PASS'', detail) else (''FAIL'', detail)))"

definition mk_gate :: "string \<Rightarrow> string \<Rightarrow> string \<Rightarrow> string \<Rightarrow> Gate" where
  "mk_gate i c res det = \<lparr> g_ID = i, g_Condition = c, g_Result = res, g_Detail = det \<rparr>"

definition limit_map :: "(string \<times> bool) list \<Rightarrow> string \<Rightarrow> bool" where
  "limit_map l name = (map_of l name = Some True)"

text \<open>The evaluation of the completed window; the rows are never empty, so \<open>EvalG4\<close> has a result.\<close>

definition gate_result :: "'w Setup \<Rightarrow> Sample list \<Rightarrow> Gate \<Rightarrow> 'w runner \<Rightarrow> 'w runner \<times> Gate \<times> Gate" where
  "gate_result S rows g3 r =
     (case EvalG4 rows of
        None \<Rightarrow> (r, g3, mk_gate ''G4'' G4Condition '''' '''')
      | Some ev \<Rightarrow>
          (r\<lparr> rn_LimitSensors := limit_map (g4_Limit ev) \<rparr>, g3,
           mk_gate ''G4'' G4Condition (if g4_Pass ev then ''PASS'' else ''FAIL'')
             (''over '' @ dur_text (cf_Window (su_Cfg S)) @ '': ['' @ joins '' '' (g4_Parts ev) @ '']'')))"

definition Gates :: "'w Setup \<Rightarrow> 'w runner \<Rightarrow> 'w runner \<times> Gate \<times> Gate" where
  "Gates S r =
     (if rn_Abort r \<noteq> '''' then
        (r, mk_gate ''G3'' G3Condition ''FAIL'' (''not sampled: '' @ rn_Abort r),
            mk_gate ''G4'' G4Condition ''FAIL'' (''not sampled: '' @ rn_Abort r))
      else
        (let (r1, first, abort) = sampleAt S PhaseGate (-1) None r;
             (r2, rows, ok) =
               (if abort \<noteq> '''' then (stop S abort r1, [first], False)
                else hold S PhaseGate (-1) (cf_Window (su_Cfg S)) (\<lambda>s rows. rows @ [s]) r1 [first]);
             (res, det) = G3 first (cf_OnlineCPUs (su_Cfg S));
             g3 = mk_gate ''G3'' G3Condition res det
         in if \<not> ok then (r2, g3, mk_gate ''G4'' G4Condition ''FAIL'' (''window not completed: '' @ rn_Abort r2))
            else gate_result S rows g3 r2))"

section \<open>Samples to data\<close>

text \<open>The Go code tests \<open>n\<close> against the length of the array first.\<close>

definition RegDCR :: "Sample \<Rightarrow> int \<Rightarrow> int" where
  "RegDCR s n = (if n < 1 \<or> n > int (length (s_DCR s)) \<or> s_DCR s ! nat (n - 1) < 0 then -1 else s_DCR s ! nat (n - 1))"

definition push :: "int \<Rightarrow> 'v \<Rightarrow> (int \<Rightarrow> 'v list) \<Rightarrow> int \<Rightarrow> 'v list" where
  "push n v m = m(n := m n @ [v])"

definition AddInputs :: "int \<Rightarrow> Sample \<Rightarrow> (int \<Rightarrow> fl list) \<Rightarrow> int \<Rightarrow> fl list" where
  "AddInputs ch s m = fold (\<lambda>c m. if c \<noteq> ch then push c (TableInput c s) m else m) [1, 2, 3] m"

definition AddOtherDCR :: "int \<Rightarrow> Sample \<Rightarrow> (int \<Rightarrow> int list) \<Rightarrow> int \<Rightarrow> int list" where
  "AddOtherDCR ch s m = fold (\<lambda>n m. push n (RegDCR s n) m) (OtherRegs ch) m"

definition AddFans :: "Sample \<Rightarrow> (int \<Rightarrow> int list) \<Rightarrow> int \<Rightarrow> int list" where
  "AddFans s m = fold (\<lambda>(i, f) m. push i f m) (zip [1, 2, 3] (s_Fan s)) m"

definition reg_of :: "int \<Rightarrow> int" where
  "reg_of ch = (case ChannelDCR ch of None \<Rightarrow> 0 | Some n \<Rightarrow> n)"

definition AddT1Sample :: "int \<Rightarrow> rat \<Rightarrow> Sample \<Rightarrow> T1Step \<Rightarrow> T1Step" where
  "AddT1Sample ch tws s st =
     st\<lparr> st_DCR := st_DCR st @ [RegDCR s (reg_of ch)],
         st_DCR4 := (if ch = 3 then st_DCR4 st @ [RegDCR s 4] else st_DCR4 st),
         st_Fans := AddFans s (st_Fans st),
         st_T := st_T st @ [SinceMS (s_TS s) tws],
         st_Inputs := AddInputs ch s (st_Inputs st),
         st_Others := AddOtherDCR ch s (st_Others st) \<rparr>"

definition new_step :: "int \<Rightarrow> T1Step" where
  "new_step duty = \<lparr> st_Duty = duty, st_DCR = [], st_DCR4 = [], st_Fans = (\<lambda>_. []), st_Others = (\<lambda>_. []),
     st_OwnRPM = 0, st_T = [], st_Inputs = (\<lambda>_. []), st_NotJudged = [] \<rparr>"

definition firstKnown :: "fl list \<Rightarrow> fl" where
  "firstKnown v = (case values_of v of [] \<Rightarrow> NaN | x # _ \<Rightarrow> Some x)"

definition PreCrossing :: "int \<Rightarrow> fl list \<Rightarrow> string" where
  "PreCrossing ch ins = Crossing ch (firstKnown ins) ins"

definition MarkCrossing :: "int \<Rightarrow> string \<Rightarrow> fl list \<Rightarrow> HandbackRun list \<Rightarrow> HandbackRun list" where
  "MarkCrossing ch pre ins hr =
     (let x = (if pre \<noteq> '''' then ''in the window that determined A: '' @ pre
               else Crossing ch (firstKnown ins) ins)
      in map (\<lambda>h. h\<lparr> hr_Crossed := x \<rparr>) hr)"

definition hold_dev_text :: "nat \<Rightarrow> string \<Rightarrow> rat \<Rightarrow> int \<Rightarrow> string list \<Rightarrow> string" where
  [text_defs]: "hold_dev_text rep label t written bad = ''run '' @ itoa (int rep) @ '' '' @ label @ '' hold +'' @ fmt_f 1 t @
     '' s: written '' @ itoa written @ '', '' @ joins '', '' bad"

definition HoldDeviation :: "int \<Rightarrow> nat \<Rightarrow> string \<Rightarrow> int \<Rightarrow> Sample \<Rightarrow> rat \<Rightarrow> string" where
  "HoldDeviation ch rep label written s tws =
     (let t = SinceMS (s_TS s) tws;
          bad = map (\<lambda>n. ''DCR'' @ itoa n @ '' '' @ itoa (RegDCR s n))
                  (filter (\<lambda>n. RegDCR s n \<ge> 0 \<and> RegDCR s n \<noteq> written) (JudgedRegs ch))
      in if \<not> Judged ch t then '''' else if bad = [] then '''' else hold_dev_text rep label t written bad)"

definition AutoValues :: "(int \<Rightarrow> DCRSample list) \<Rightarrow> int list \<Rightarrow> (int \<Rightarrow> int option) \<times> string list" where
  "AutoValues pre regs =
     ((\<lambda>n. if n \<in> set regs \<and> pre n \<noteq> [] then Some (d_DCR (last (pre n))) else None),
      map (\<lambda>n. if pre n \<noteq> [] then ''DCR'' @ itoa n @ '' A='' @ itoa (d_DCR (last (pre n)))
               else ''DCR'' @ itoa n @ '' A=-'') regs)"

definition HandbackRuns :: "int \<Rightarrow> string \<Rightarrow> int \<Rightarrow> int list \<Rightarrow> (int \<Rightarrow> DCRSample list) \<Rightarrow> (int \<Rightarrow> int option)
    \<Rightarrow> HandbackRun list" where
  "HandbackRuns ch label duty regs smp autoA =
     map (\<lambda>n. \<lparr> hr_Label = label, hr_Reg = (if length regs > 1 then ''DCR'' @ itoa n else ''''),
                hr_Written = duty, hr_Samples = smp n, hr_TimingKnown = True,
                hr_Auto = (case autoA n of None \<Rightarrow> 0 | Some a \<Rightarrow> a), hr_AutoKnown = (autoA n \<noteq> None),
                hr_LimitS = T3LimitS ch, hr_Crossed = '''' \<rparr>) regs"

definition FinishHandback :: "int \<Rightarrow> RegsResult list list \<Rightarrow> string \<Rightarrow> int \<Rightarrow> int \<Rightarrow> int list \<Rightarrow> (int \<Rightarrow> int option)
    \<Rightarrow> string list \<Rightarrow> Result \<times> Result" where
  "FinishHandback ch runs abort a m regs autoA holdDev =
     (let (t2, t3) = AggregateHandback ch runs [''H'', ''M''];
          mark = (\<lambda>t. if abort \<noteq> '''' then t\<lparr> r_Verdict := Inconclusive, r_Reasons := (''aborted: '' @ abort) # r_Reasons t \<rparr> else t);
          perReg = (if length regs > 1 then List.map_filter (\<lambda>n. map_option (\<lambda>v. (n, v)) (autoA n)) regs else [])
      in ((mark t2)\<lparr> r_Values := HandbackValues a m holdDev (SettleS ch) perReg \<rparr>, mark t3))"

section \<open>T1\<close>

definition EventT1Complete :: string where [text_defs]: "EventT1Complete = ''T1 complete''"
definition EventT2Complete :: string where [text_defs]: "EventT2Complete = ''T2 complete''"

definition EventT2Auto :: "nat \<Rightarrow> string \<Rightarrow> string" where
  [text_defs]: "EventT2Auto rep label = ''T2 r'' @ itoa (int rep) @ '' '' @ label @ '' auto''"

definition no_regs_text :: "string \<Rightarrow> string" where
  [text_defs]: "no_regs_text e = ''not run: duty registers not readable ('' @ orText e ''unknown'' @
     ''); a verdict needs them, so nothing was written''"

text \<open>The rest reference: tachs, inputs and registers of the other channels.\<close>

type_synonym rest_acc = "(int \<Rightarrow> int list) \<times> (int \<Rightarrow> fl list) \<times> (int \<Rightarrow> int list)"

definition rest_each :: "int \<Rightarrow> Sample \<Rightarrow> rest_acc \<Rightarrow> rest_acc" where
  "rest_each ch s = (\<lambda>(rest, restIn, restDCR). (AddFans s rest, AddInputs ch s restIn, AddOtherDCR ch s restDCR))"

text \<open>The loop over the duties: the steps, and whether every step was completed.\<close>

fun t1_loop :: "'w Setup \<Rightarrow> int \<Rightarrow> int list \<Rightarrow> 'w runner \<Rightarrow> T1Step list \<Rightarrow> 'w runner \<times> T1Step list \<times> bool" where
  "t1_loop S ch [] r steps = (r, steps, True)"
| "t1_loop S ch (duty # ds) r steps =
     (case write_duty S ch duty r of
        (r1, Inl e) \<Rightarrow> (stop S (''write failed: '' @ e) r1, steps, False)
      | (r1, Inr tw) \<Rightarrow>
          (let tws = Seconds (tw - rn_start r1);
               (r2, st, ok) = holdFrom S tw (PhaseT1Step duty) duty (cf_Hold (su_Cfg S)) (AddT1Sample ch tws) r1 (new_step duty);
               steps' = steps @ [st]
           in if \<not> ok then (r2, steps', False) else t1_loop S ch ds r2 steps'))"

definition RunT1 :: "'w Setup \<Rightarrow> 'w runner \<Rightarrow> ('w runner \<times> Result) option" where
  "RunT1 S r =
     (let ch = cf_Channel (su_Cfg S);
          aborted = (\<lambda>r. (r, NotImplemented ''T1'' ch (''aborted: '' @ rn_Abort r)))
      in if \<not> rn_dcrOK r then Some (r, NotImplemented ''T1'' ch (no_regs_text (rn_dcrErr r)))
         else if rn_Abort r \<noteq> '''' then Some (r, NotImplemented ''T1'' ch (''not run: '' @ rn_Abort r))
         else
           (let r0 = event S (''T1 pwm'' @ itoa ch @ '': rest reference'') r;
                (r1, (rest, restIn, restDCR), ok) =
                  hold S PhaseT1Rest (-1) (cf_Hold (su_Cfg S)) (rest_each ch) r0 ((\<lambda>_. []), (\<lambda>_. []), (\<lambda>_. []))
            in if \<not> ok then Some (aborted r1)
               else case manual S ch r1 of
                 (r2, Some e) \<Rightarrow> Some (aborted (stop S (''manual mode failed: '' @ e) r2))
               | (r2, None) \<Rightarrow>
                   (case t1_loop S ch T1Steps r2 [] of (r3, steps, ok) \<Rightarrow>
                      if \<not> ok then Some (aborted r3)
                      else
                        (case restore_untouch S ch '' after T1'' (event S EventT1Complete r3) of
                           None \<Rightarrow> None
                         | Some r4 \<Rightarrow>
                             Some (r4, EvalT1 \<lparr> t1_ch = ch, t1_own = cf_OwnTach (su_Cfg S), t1_rest = rest, t1_restIn = restIn,
                               t1_restDCR = restDCR, t1_steps = steps, t1_fans = cf_Tachs (su_Cfg S) \<rparr>)))))"

section \<open>T2 and T3\<close>

type_synonym obs_acc = "(int \<Rightarrow> DCRSample list) \<times> fl list"

definition observe_each :: "int \<Rightarrow> rat \<Rightarrow> Sample \<Rightarrow> obs_acc \<Rightarrow> obs_acc" where
  "observe_each ch ts0 s = (\<lambda>(out, ins).
     (fold (\<lambda>n m. if RegDCR s n \<ge> 0 then push n \<lparr> d_T = SinceMS (s_TS s) ts0, d_DCR = RegDCR s n \<rparr> m else m)
        (JudgedRegs ch) out,
      ins @ [TableInput ch s]))"

definition observeIn :: "'w Setup \<Rightarrow> nanos \<Rightarrow> string \<Rightarrow> nanos \<Rightarrow> fl list \<Rightarrow> 'w runner \<Rightarrow> 'w runner \<times> obs_acc \<times> bool" where
  "observeIn S t0 phase d ins r =
     holdFrom S t0 phase (-1) d (observe_each (cf_Channel (su_Cfg S)) (Seconds (t0 - rn_start r))) r ((\<lambda>_. []), ins)"

text \<open>
  One sub-run: manual mode, the write, the hold, the auto command, the log. The result says
  whether the loop over the sub-runs goes on (no \<open>break\<close>), and the evaluated sub-run if the log
  was reached. \<open>hold_each\<close> collects the table inputs and the hold deviations.
\<close>

definition hold_each :: "int \<Rightarrow> nat \<Rightarrow> string \<Rightarrow> int \<Rightarrow> rat \<Rightarrow> Sample \<Rightarrow> fl list \<times> string list \<Rightarrow> fl list \<times> string list" where
  "hold_each ch rep label duty tws s = (\<lambda>(ins, devs).
     (ins @ [TableInput ch s],
      (let d = HoldDeviation ch rep label duty s tws in if d \<noteq> '''' then devs @ [d] else devs)))"

definition sub_log :: "'w Setup \<Rightarrow> int \<Rightarrow> nat \<Rightarrow> string \<Rightarrow> (int \<Rightarrow> int option) \<Rightarrow> string \<times> int \<Rightarrow> fl list \<Rightarrow> 'w runner
    \<Rightarrow> 'w runner \<times> RegsResult \<times> bool" where
  "sub_log S ch rep preCross autoA = (\<lambda>(label, duty) ins r.
     (let regs = JudgedRegs ch;
          (r1, t0) = eventAt S (EventT2Auto rep label) r;
          (r2, (smp, ins'), ok) = observeIn S t0 (PhaseT2Auto (int rep) label) (HandbackObserve (su_Cfg S)) ins r1;
          hr = MarkCrossing ch preCross ins' (HandbackRuns ch label duty regs smp autoA)
      in (r2, EvalHandbackRegs hr, ok)))"

definition sub_run :: "'w Setup \<Rightarrow> int \<Rightarrow> nat \<Rightarrow> string \<Rightarrow> (int \<Rightarrow> int option) \<Rightarrow> string \<times> int \<Rightarrow> string list \<Rightarrow> 'w runner
    \<Rightarrow> 'w runner \<times> string list \<times> RegsResult option \<times> bool" where
  "sub_run S ch rep preCross autoA = (\<lambda>(label, duty) devs r.
     (case manual S ch r of
        (r1, Some e) \<Rightarrow> (stop S (''manual mode failed: '' @ e) r1, devs, None, False)
      | (r1, None) \<Rightarrow>
          (case write_duty S ch duty r1 of
             (r2, Inl e) \<Rightarrow> (stop S (''write failed: '' @ e) r2, devs, None, False)
           | (r2, Inr tw) \<Rightarrow>
               (let tws = Seconds (tw - rn_start r2);
                    (r3, (ins, devs'), ok) = holdFrom S tw (PhaseT2Hold (int rep) label) duty (cf_Hold (su_Cfg S))
                       (hold_each ch rep label duty tws) r2 ([], devs)
                in if \<not> ok then (r3, devs', None, False)
                   else case auto_cmd S ch r3 of
                     (r4, Inl e) \<Rightarrow> (stop S (''auto command failed: '' @ e) r4, devs', None, False)
                   | (r4, Inr _) \<Rightarrow>
                       (case sub_log S ch rep preCross autoA (label, duty) ins r4 of
                          (r5, res, ok) \<Rightarrow> (r5, devs', Some res, ok))))))"

fun sub_loop :: "'w Setup \<Rightarrow> int \<Rightarrow> nat \<Rightarrow> string \<Rightarrow> (int \<Rightarrow> int option) \<Rightarrow> (string \<times> int) list \<Rightarrow> string list
    \<Rightarrow> RegsResult list \<Rightarrow> 'w runner \<Rightarrow> 'w runner \<times> string list \<times> RegsResult list" where
  "sub_loop S ch rep preCross autoA [] devs subs r = (r, devs, subs)"
| "sub_loop S ch rep preCross autoA (sb # sbs) devs subs r =
     (case sub_run S ch rep preCross autoA sb devs r of
        (r', devs', res, ok) \<Rightarrow>
          (let subs' = (case res of None \<Rightarrow> subs | Some x \<Rightarrow> subs @ [x])
           in if ok then sub_loop S ch rep preCross autoA sbs devs' subs' r' else (r', devs', subs')))"

fun rep_loop :: "'w Setup \<Rightarrow> int \<Rightarrow> int \<Rightarrow> string \<Rightarrow> (int \<Rightarrow> int option) \<Rightarrow> nat list \<Rightarrow> string list
    \<Rightarrow> RegsResult list list \<Rightarrow> 'w runner \<Rightarrow> 'w runner \<times> string list \<times> RegsResult list list" where
  "rep_loop S ch m preCross autoA [] devs runs r = (r, devs, runs)"
| "rep_loop S ch m preCross autoA (rep # reps) devs runs r =
     (case sub_loop S ch rep preCross autoA [(''H'', 255), (''M'', m)] devs [] r of
        (r', devs', subs) \<Rightarrow>
          (let runs' = (if subs \<noteq> [] then runs @ [subs] else runs)
           in if rn_Abort r' \<noteq> '''' then (r', devs', runs')
              else rep_loop S ch m preCross autoA reps devs' runs' r'))"

definition both :: "(string \<Rightarrow> Result) \<Rightarrow> Result \<times> Result" where
  "both f = (f ''T2'', f ''T3'')"

text \<open>After the A window: the events, the repetitions, the aggregation, the restore.\<close>

definition a_values_text :: "int \<Rightarrow> string list \<Rightarrow> int \<Rightarrow> string" where
  [text_defs]: "a_values_text ch aText m = ''T2 pwm'' @ itoa ch @ '': '' @ joins '', '' aText @ '', H=255, M='' @ itoa m"

definition a_crossed_text :: "int \<Rightarrow> string \<Rightarrow> string" where
  [text_defs]: "a_crossed_text ch x = ''T2 pwm'' @ itoa ch @ '': table input crossed a step in the A window: '' @ x @
     '' (every sub-run INCONCLUSIVE, TESTSPEC '' @ sect @ ''5.2)''"

definition handback_events :: "'w Setup \<Rightarrow> int \<Rightarrow> string list \<Rightarrow> int \<Rightarrow> string \<Rightarrow> 'w runner \<Rightarrow> 'w runner" where
  "handback_events S ch aText m preCross r =
     (let r1 = event S (a_values_text ch aText m) r
      in if preCross \<noteq> '''' then event S (a_crossed_text ch preCross) r1 else r1)"

definition handback_runs :: "'w Setup \<Rightarrow> int \<Rightarrow> (int \<Rightarrow> DCRSample list) \<Rightarrow> fl list \<Rightarrow> 'w runner
    \<Rightarrow> ('w runner \<times> Result \<times> Result) option" where
  "handback_runs S ch pre preIn r =
     (let regs = JudgedRegs ch;
          (autoA, aText) = AutoValues pre regs;
          a = (case autoA (hd regs) of None \<Rightarrow> 0 | Some v \<Rightarrow> v);
          m = MValue a;
          preCross = PreCrossing ch preIn;
          r2 = handback_events S ch aText m preCross r;
          (r3, holdDev, runs) = rep_loop S ch m preCross autoA [1..<Suc (cf_Repeat (su_Cfg S))] [] [] r2;
          r4 = (if rn_Abort r3 = '''' then event S EventT2Complete r3 else r3);
          res = FinishHandback ch runs (rn_Abort r4) a m regs autoA holdDev
      in case restore_untouch S ch '' after T2'' r4 of None \<Rightarrow> None | Some r5 \<Rightarrow> Some (r5, res))"

definition RunHandback :: "'w Setup \<Rightarrow> 'w runner \<Rightarrow> ('w runner \<times> Result \<times> Result) option" where
  "RunHandback S r =
     (let ch = cf_Channel (su_Cfg S);
          aborted = (\<lambda>r. (r, both (\<lambda>t. NotImplemented t ch (''aborted: '' @ orText (rn_Abort r) ''no DCR sample''))))
      in if ch = PCIeChannel then Some (r, both (\<lambda>t. NotApplicableResult t ch ReasonNoPCIeAuto))
         else if \<not> rn_dcrOK r then Some (r, both (\<lambda>t. NotImplemented t ch (no_regs_text (rn_dcrErr r))))
         else if rn_Abort r \<noteq> '''' then Some (r, both (\<lambda>t. NotImplemented t ch (''not run: '' @ rn_Abort r)))
         else
           (let r0 = event S (''T2 pwm'' @ itoa ch @ '': auto value A'') r
            in case auto_cmd S ch r0 of
                 (r1, Inl e) \<Rightarrow>
                   (let r2 = stop S (''auto command failed: '' @ e) r1
                    in Some (r2, both (\<lambda>t. NotImplemented t ch (''aborted: '' @ rn_Abort r2))))
               | (r1, Inr ta) \<Rightarrow>
                   (case observeIn S ta PhaseT2Pre (PreWindow (su_Cfg S)) [] r1 of
                      (r2, (pre, preIn), ok) \<Rightarrow>
                        if \<not> ok \<or> pre (hd (JudgedRegs ch)) = [] then Some (aborted r2)
                        else handback_runs S ch pre preIn r2)))"

end
