(* ===== verification/Runner_Inv.thy ===== *)
theory Runner_Inv
  imports Runner_Tests
begin

text \<open>
  Invariants of the runner. The locale \<open>quiet_steps\<close> is the interface of an invariant of the
  operations that command nothing, \<open>runner_steps\<close> of one kept by each single operation of Runner_State; inside it the holds and the loops of the tests keep it.
  \<open>runner_inv\<close> adds the restores and gives the whole procedures. The relation \<open>runs\<close> is every
  order in which a caller can use the procedures.
\<close>

section \<open>What the operations leave alone\<close>

lemma eventAt_sel [simp]:
  "rn_Samples (fst (eventAt S txt r)) = rn_Samples r" "rn_Abort (fst (eventAt S txt r)) = rn_Abort r"
  "rn_LimitSensors (fst (eventAt S txt r)) = rn_LimitSensors r"
  "rn_RestoreWarnings (fst (eventAt S txt r)) = rn_RestoreWarnings r"
  "rn_RestoreOverrides (fst (eventAt S txt r)) = rn_RestoreOverrides r"
  "rn_start (fst (eventAt S txt r)) = rn_start r" "rn_touched (fst (eventAt S txt r)) = rn_touched r"
  "rn_restoreErr (fst (eventAt S txt r)) = rn_restoreErr r" "rn_nanRun (fst (eventAt S txt r)) = rn_nanRun r"
  "rn_dcrOK (fst (eventAt S txt r)) = rn_dcrOK r" "rn_dcrErr (fst (eventAt S txt r)) = rn_dcrErr r"
  "rn_wrote (fst (eventAt S txt r)) = rn_wrote r" "rn_hot (fst (eventAt S txt r)) = rn_hot r"
  "rn_hotWhy (fst (eventAt S txt r)) = rn_hotWhy r"
  by (simp_all add: eventAt_def Let_def split_beta)

lemma event_sel [simp]:
  "rn_Samples (event S txt r) = rn_Samples r" "rn_Abort (event S txt r) = rn_Abort r"
  "rn_LimitSensors (event S txt r) = rn_LimitSensors r"
  "rn_RestoreWarnings (event S txt r) = rn_RestoreWarnings r"
  "rn_RestoreOverrides (event S txt r) = rn_RestoreOverrides r"
  "rn_start (event S txt r) = rn_start r" "rn_touched (event S txt r) = rn_touched r"
  "rn_restoreErr (event S txt r) = rn_restoreErr r" "rn_nanRun (event S txt r) = rn_nanRun r"
  "rn_dcrOK (event S txt r) = rn_dcrOK r" "rn_dcrErr (event S txt r) = rn_dcrErr r"
  "rn_wrote (event S txt r) = rn_wrote r" "rn_hot (event S txt r) = rn_hot r"
  "rn_hotWhy (event S txt r) = rn_hotWhy r"
  by (simp_all add: event_def)

lemma sensor_loop_sel [simp]:
  "rn_world (fst (sensor_loop ls r)) = rn_world r" "rn_Samples (fst (sensor_loop ls r)) = rn_Samples r"
  "rn_Events (fst (sensor_loop ls r)) = rn_Events r" "rn_Abort (fst (sensor_loop ls r)) = rn_Abort r"
  "rn_LimitSensors (fst (sensor_loop ls r)) = rn_LimitSensors r"
  "rn_RestoreOverrides (fst (sensor_loop ls r)) = rn_RestoreOverrides r"
  "rn_RestoreWarnings (fst (sensor_loop ls r)) = rn_RestoreWarnings r"
  "rn_touched (fst (sensor_loop ls r)) = rn_touched r" "rn_restoreErr (fst (sensor_loop ls r)) = rn_restoreErr r"
  "rn_wrote (fst (sensor_loop ls r)) = rn_wrote r" "rn_hot (fst (sensor_loop ls r)) = rn_hot r"
  "rn_dcrOK (fst (sensor_loop ls r)) = rn_dcrOK r" "rn_start (fst (sensor_loop ls r)) = rn_start r"
  by (induction ls r rule: sensor_loop.induct) (simp_all add: Let_def)

lemma set_hot_sel [simp]:
  "rn_world (set_hot ch why r) = rn_world r" "rn_Samples (set_hot ch why r) = rn_Samples r"
  "rn_Events (set_hot ch why r) = rn_Events r" "rn_Abort (set_hot ch why r) = rn_Abort r"
  "rn_RestoreOverrides (set_hot ch why r) = rn_RestoreOverrides r"
  "rn_RestoreWarnings (set_hot ch why r) = rn_RestoreWarnings r"
  "rn_touched (set_hot ch why r) = rn_touched r" "rn_restoreErr (set_hot ch why r) = rn_restoreErr r"
  "rn_wrote (set_hot ch why r) = rn_wrote r" "rn_dcrOK (set_hot ch why r) = rn_dcrOK r"
  "rn_start (set_hot ch why r) = rn_start r"
  by (simp_all add: set_hot_def)

lemma guard_sel [simp]:
  "rn_Samples (fst (guard S r)) = rn_Samples r" "rn_Events (fst (guard S r)) = rn_Events r"
  "rn_Abort (fst (guard S r)) = rn_Abort r"
  "rn_RestoreOverrides (fst (guard S r)) = rn_RestoreOverrides r"
  "rn_RestoreWarnings (fst (guard S r)) = rn_RestoreWarnings r"
  "rn_touched (fst (guard S r)) = rn_touched r" "rn_restoreErr (fst (guard S r)) = rn_restoreErr r"
  "rn_wrote (fst (guard S r)) = rn_wrote r" "rn_dcrOK (fst (guard S r)) = rn_dcrOK r"
  "rn_start (fst (guard S r)) = rn_start r" "rn_hot (fst (guard S r)) = rn_hot r"
  by (simp_all add: guard_def split_beta split: option.split)

lemma check_limits_sel [simp]:
  "rn_Samples (fst (check_limits S d rd r)) = rn_Samples r" "rn_Events (fst (check_limits S d rd r)) = rn_Events r"
  "rn_Abort (fst (check_limits S d rd r)) = rn_Abort r"
  "rn_RestoreOverrides (fst (check_limits S d rd r)) = rn_RestoreOverrides r"
  "rn_RestoreWarnings (fst (check_limits S d rd r)) = rn_RestoreWarnings r"
  "rn_touched (fst (check_limits S d rd r)) = rn_touched r" "rn_restoreErr (fst (check_limits S d rd r)) = rn_restoreErr r"
  "rn_wrote (fst (check_limits S d rd r)) = rn_wrote r" "rn_dcrOK (fst (check_limits S d rd r)) = rn_dcrOK r"
  "rn_start (fst (check_limits S d rd r)) = rn_start r"
  "rn_world (fst (check_limits S d rd r)) = rn_world (fst (guard S r))"
  by (simp_all add: check_limits_def split_beta split: option.split)

lemma sample_ts_sel [simp]:
  "rn_Abort (fst (sample_ts S phase due now r)) = rn_Abort r"
  "rn_Samples (fst (sample_ts S phase due now r)) = rn_Samples r"
  "rn_RestoreOverrides (fst (sample_ts S phase due now r)) = rn_RestoreOverrides r"
  "rn_RestoreWarnings (fst (sample_ts S phase due now r)) = rn_RestoreWarnings r"
  "rn_touched (fst (sample_ts S phase due now r)) = rn_touched r"
  "rn_restoreErr (fst (sample_ts S phase due now r)) = rn_restoreErr r"
  "rn_wrote (fst (sample_ts S phase due now r)) = rn_wrote r"
  "rn_dcrOK (fst (sample_ts S phase due now r)) = rn_dcrOK r"
  "rn_start (fst (sample_ts S phase due now r)) = rn_start r"
  by (simp_all add: sample_ts_def Let_def split: option.split)

lemma read_regs_sel [simp]:
  "rn_Abort (fst (read_regs S r)) = rn_Abort r" "rn_Samples (fst (read_regs S r)) = rn_Samples r"
  "rn_Events (fst (read_regs S r)) = rn_Events r"
  "rn_RestoreOverrides (fst (read_regs S r)) = rn_RestoreOverrides r"
  "rn_RestoreWarnings (fst (read_regs S r)) = rn_RestoreWarnings r"
  "rn_touched (fst (read_regs S r)) = rn_touched r" "rn_restoreErr (fst (read_regs S r)) = rn_restoreErr r"
  "rn_wrote (fst (read_regs S r)) = rn_wrote r" "rn_dcrOK (fst (read_regs S r)) = rn_dcrOK r"
  "rn_start (fst (read_regs S r)) = rn_start r"
  by (simp_all add: read_regs_def split_beta)

lemma record_sample_sel [simp]:
  "rn_Samples (record_sample S s r) = rn_Samples r @ [s]" "rn_Events (record_sample S s r) = rn_Events r"
  "rn_Abort (record_sample S s r) = rn_Abort r"
  "rn_RestoreOverrides (record_sample S s r) = rn_RestoreOverrides r"
  "rn_RestoreWarnings (record_sample S s r) = rn_RestoreWarnings r"
  "rn_touched (record_sample S s r) = rn_touched r" "rn_restoreErr (record_sample S s r) = rn_restoreErr r"
  "rn_wrote (record_sample S s r) = rn_wrote r" "rn_dcrOK (record_sample S s r) = rn_dcrOK r"
  "rn_start (record_sample S s r) = rn_start r"
  by (simp_all add: record_sample_def)

lemma sampleAt_sel [simp]:
  "rn_Abort (fst (sampleAt S phase written due r)) = rn_Abort r"
  "rn_RestoreOverrides (fst (sampleAt S phase written due r)) = rn_RestoreOverrides r"
  "rn_RestoreWarnings (fst (sampleAt S phase written due r)) = rn_RestoreWarnings r"
  "rn_touched (fst (sampleAt S phase written due r)) = rn_touched r"
  "rn_restoreErr (fst (sampleAt S phase written due r)) = rn_restoreErr r"
  "rn_wrote (fst (sampleAt S phase written due r)) = rn_wrote r"
  "rn_dcrOK (fst (sampleAt S phase written due r)) = rn_dcrOK r"
  "rn_start (fst (sampleAt S phase written due r)) = rn_start r"
  "rn_Samples (fst (sampleAt S phase written due r)) =
     rn_Samples r @ [fst (snd (sampleAt S phase written due r))]"
  by (simp_all add: sampleAt_def Let_def split_beta)

lemma touch_sel [simp]: "rn_touched (touch ch r) c = (c = ch \<or> rn_touched r c)"
  "rn_touched (untouch ch r) c = (c \<noteq> ch \<and> rn_touched r c)"
  "rn_world (touch ch r) = rn_world r" "rn_world (untouch ch r) = rn_world r"
  "rn_wrote (touch ch r) = rn_wrote r" "rn_wrote (untouch ch r) = rn_wrote r"
  "rn_Abort (touch ch r) = rn_Abort r" "rn_Abort (untouch ch r) = rn_Abort r"
  "rn_RestoreOverrides (touch ch r) = rn_RestoreOverrides r" "rn_RestoreOverrides (untouch ch r) = rn_RestoreOverrides r"
  "rn_hot (touch ch r) = rn_hot r" "rn_hot (untouch ch r) = rn_hot r"
  "rn_Samples (touch ch r) = rn_Samples r" "rn_Samples (untouch ch r) = rn_Samples r"
  "rn_Events (touch ch r) = rn_Events r" "rn_Events (untouch ch r) = rn_Events r"
  "rn_restoreErr (touch ch r) = rn_restoreErr r" "rn_restoreErr (untouch ch r) = rn_restoreErr r"
  "rn_RestoreWarnings (untouch ch r) = rn_RestoreWarnings r"
  by (auto simp: touch_def untouch_def)

section \<open>Operations without a restore\<close>

locale quiet_steps =
  fixes S :: "'w Setup" and I :: "'w runner \<Rightarrow> bool"
  assumes keep_event: "I r \<Longrightarrow> I (fst (eventAt S txt r))"
    and keep_abort: "I r \<Longrightarrow> rn_Abort r = [] \<Longrightarrow> I (r\<lparr> rn_Abort := reason \<rparr>)"
    and keep_now: "I r \<Longrightarrow> I (r\<lparr> rn_world := fst (e_Now (su_Env S) (rn_world r)) \<rparr>)"
    and keep_sleep: "I r \<Longrightarrow> I (r\<lparr> rn_world := fst (e_Sleep (su_Env S) False d (rn_world r)) \<rparr>)"
    and keep_sample: "I r \<Longrightarrow> I (fst (sampleAt S phase written due r))"
begin

lemma event_keeps: "I r \<Longrightarrow> I (event S txt r)"
  by (simp add: event_def keep_event)

lemma stop_keeps: "I r \<Longrightarrow> I (stop S reason r)"
  by (simp add: stop_def keep_abort event_keeps)

lemmas quiet_keeps = keep_event keep_now keep_sleep keep_sample event_keeps stop_keeps

lemma hold_slot_keeps: "I r \<Longrightarrow> I (fst (hold_slot S due phase written r))"
proof -
  assume I: "I r"
  have "I (r\<lparr> rn_world := fst (e_Sleep (su_Env S) False d (fst (e_Now (su_Env S) (rn_world r)))) \<rparr>)" for d
    using keep_sleep [OF keep_now [OF I], of d] by simp
  then show ?thesis
    by (simp add: hold_slot_def Let_def split_beta stop_keeps keep_sample)
qed

lemma next_slot_keeps: "I r \<Longrightarrow> I (fst (next_slot S anchor n k r))"
  using keep_now [of r] by (simp add: next_slot_def Let_def split_beta)

lemma hold_loop_keeps: "I r \<Longrightarrow> I (fst (hold_loop S anchor phase written n each k r acc))"
proof (induction "nat (n + 1 - k)" arbitrary: k r acc rule: less_induct)
  case less
  show ?case
  proof (cases "k > n")
    case False
    obtain r1 x where h: "hold_slot S (anchor + k * cf_Sample (su_Cfg S)) phase written r = (r1, x)" by fastforce
    have I1: "I r1" using hold_slot_keeps [OF less.prems] h by (metis fst_conv)
    show ?thesis
    proof (cases x)
      case (Some sa)
      obtain s abort where sa: "sa = (s, abort)" by fastforce
      obtain r2 k2 where n2: "next_slot S anchor n k r1 = (r2, k2)" by fastforce
      have I2: "I r2" using next_slot_keeps [OF I1] n2 by (metis fst_conv)
      have "nat (n + 1 - k2) < nat (n + 1 - k)" using next_slot_gt [OF n2] False by simp
      from less.hyps [OF this I2] show ?thesis
        using False h Some sa n2 I1 by (subst hold_loop.simps) (simp add: stop_keeps)
    qed (use False h I1 in \<open>subst hold_loop.simps, simp\<close>)
  qed (subst hold_loop.simps, simp add: less.prems)
qed

lemma holdFrom_keeps: "I r \<Longrightarrow> I (fst (holdFrom S anchor phase written d each r acc))"
  by (simp add: holdFrom_def Let_def hold_loop_keeps)

lemma hold_keeps: "I r \<Longrightarrow> I (fst (hold S phase written d each r acc))"
  using keep_now [of r] by (simp add: hold_def Let_def split_beta holdFrom_keeps)

lemma observeIn_keeps: "I r \<Longrightarrow> I (fst (observeIn S t0 phase d ins r))"
  by (simp add: observeIn_def holdFrom_keeps)

lemma sub_log_keeps: "I r \<Longrightarrow> I (fst (sub_log S ch rep pc autoA sb ins r))"
  by (simp add: sub_log_def Let_def split_beta quiet_keeps observeIn_keeps)

lemma handback_events_keeps: "I r \<Longrightarrow> I (handback_events S ch aText m pc r)"
  by (simp add: handback_events_def Let_def quiet_keeps)

end

text \<open>The operations that command the machine, in addition; the tests command the channel of their configuration.\<close>

locale runner_steps = quiet_steps +
  assumes keep_manual: "I r \<Longrightarrow> ch = cf_Channel (su_Cfg S) \<Longrightarrow> I (fst (manual S ch r))"
    and keep_write: "I r \<Longrightarrow> ch = cf_Channel (su_Cfg S) \<Longrightarrow> I (fst (write_duty S ch duty r))"
    and keep_auto: "I r \<Longrightarrow> ch = cf_Channel (su_Cfg S) \<Longrightarrow> I (fst (auto_cmd S ch r))"
begin

lemmas step_keeps = quiet_keeps keep_manual keep_write keep_auto

lemma t1_loop_keeps: "I r \<Longrightarrow> ch = cf_Channel (su_Cfg S) \<Longrightarrow> I (fst (t1_loop S ch ds r steps))"
proof (induction ds arbitrary: r steps)
  case (Cons d ds)
  show ?case
    by (simp add: Let_def split_beta step_keeps holdFrom_keeps Cons.prems(1) Cons.prems(2) Cons.IH [unfolded Cons.prems(2)] split: sum.split)
qed simp

lemma sub_run_keeps: "I r \<Longrightarrow> ch = cf_Channel (su_Cfg S) \<Longrightarrow> I (fst (sub_run S ch rep pc autoA sb devs r))"
  by (simp add: sub_run_def Let_def split_beta step_keeps holdFrom_keeps sub_log_keeps split: option.split sum.split)

lemma sub_loop_keeps: "I r \<Longrightarrow> ch = cf_Channel (su_Cfg S) \<Longrightarrow> I (fst (sub_loop S ch rep pc autoA sbs devs subs r))"
proof (induction sbs arbitrary: devs subs r)
  case (Cons sb sbs)
  then show ?case by (simp add: Let_def split_beta sub_run_keeps)
qed simp

lemma rep_loop_keeps: "I r \<Longrightarrow> ch = cf_Channel (su_Cfg S) \<Longrightarrow> I (fst (rep_loop S ch m pc autoA reps devs rs r))"
proof (induction reps arbitrary: devs rs r)
  case (Cons rp reps)
  have "I (fst (sub_loop S ch rp pc autoA [(''H'', 255), (''M'', m)] devs [] r))"
    using Cons.prems by (intro sub_loop_keeps)
  then show ?case using Cons.IH Cons.prems(2) by (simp add: Let_def split_beta del: sub_loop.simps)
qed simp

end

end
