(* ===== verification/Runner_Safety.thy ===== *)
theory Runner_Safety
  imports Runner_Inv
begin

text \<open>
  What a run does to the machine, whatever the machine and the hooks do: the commands it sends,
  which channels it must still restore, and that nothing is written before the hook
  \<open>BeforeWrite\<close> succeeded. The commands are recorded by a wrapper around the \<open>Env\<close> and the
  \<open>BeforeWrite\<close> hook of an arbitrary setup.
\<close>

section \<open>Restores and whole procedures\<close>

locale runner_inv = runner_steps +
  assumes keep_limits: "I r \<Longrightarrow> I (r\<lparr> rn_LimitSensors := l \<rparr>)"
    and keep_mark: "I r \<Longrightarrow> I (mark_hot r)"
    and keep_restore: "I r \<Longrightarrow> rn_touched r ch \<Longrightarrow> restore_untouch S ch when r = Some r' \<Longrightarrow> I r'"
begin

lemma Gates_keeps: "I r \<Longrightarrow> I (fst (Gates S r))"
  by (simp add: Gates_def gate_result_def Let_def split_beta step_keeps hold_keeps keep_limits
      split: option.split)

lemma close_loop_keeps: "I r \<Longrightarrow> close_loop S chs r = Some r' \<Longrightarrow> I r'"
proof (induction chs arbitrary: r)
  case (Cons ch chs)
  show ?case
  proof (cases "rn_touched r ch")
    case True
    then obtain r1 where r1: "restore_untouch S ch '''' r = Some r1" "close_loop S chs r1 = Some r'"
      using Cons.prems(2) by (auto split: option.splits)
    show ?thesis using Cons.IH [OF keep_restore [OF Cons.prems(1) True r1(1)] r1(2)] .
  next
    case False
    then show ?thesis using Cons.IH [OF Cons.prems(1)] Cons.prems(2) by simp
  qed
qed simp

lemma Close_keeps: "I r \<Longrightarrow> Close S r = Some r' \<Longrightarrow> I r'"
  unfolding Close_def by (rule close_loop_keeps [OF keep_mark])

end

text \<open>A channel that is touched stays touched as long as nothing is restored.\<close>

lemma firstWrite_sel [simp]:
  "rn_touched (fst (firstWrite S r)) = rn_touched r" "rn_Abort (fst (firstWrite S r)) = rn_Abort r"
  "rn_RestoreOverrides (fst (firstWrite S r)) = rn_RestoreOverrides r"
  "rn_restoreErr (fst (firstWrite S r)) = rn_restoreErr r" "rn_Samples (fst (firstWrite S r)) = rn_Samples r"
  "rn_Events (fst (firstWrite S r)) = rn_Events r" "rn_hot (fst (firstWrite S r)) = rn_hot r"
  by (simp_all add: firstWrite_def split_beta split: option.split)

lemma write_touched: "rn_touched r c \<Longrightarrow> rn_touched (fst (write_duty S ch duty r)) c"
  by (simp add: write_duty_def Let_def split_beta split: option.split)

lemma auto_touched: "rn_touched r c \<Longrightarrow> rn_touched (fst (auto_cmd S ch r)) c"
  by (simp add: auto_cmd_def Let_def split_beta split: option.split)

lemma manual_touched: "rn_touched r c \<Longrightarrow> rn_touched (fst (manual S ch r)) c"
  by (simp add: manual_def Let_def split_beta split: option.split)

interpretation touched_steps: runner_steps S "\<lambda>r. rn_touched r c" for S :: "'w Setup" and c
  by unfold_locales (simp_all add: write_touched auto_touched manual_touched)

lemma manual_ok_touched: "snd (manual S ch r) = None \<Longrightarrow> rn_touched (fst (manual S ch r)) ch"
  by (simp add: manual_def Let_def split_beta split: option.splits)

lemma auto_ok_touched: "snd (auto_cmd S ch r) = Inr t \<Longrightarrow> rn_touched (fst (auto_cmd S ch r)) ch"
  by (simp add: auto_cmd_def Let_def split_beta split: option.splits)

context runner_inv
begin

lemma RunT1_keeps:
  assumes I: "I r" and run: "RunT1 S r = Some (r', res)"
  shows "I r'"
proof (cases "\<not> rn_dcrOK r \<or> rn_Abort r \<noteq> []")
  case True
  then show ?thesis using I run by (auto simp: RunT1_def Let_def split: if_splits)
next
  case False
  define ch where "ch = cf_Channel (su_Cfg S)"
  obtain r1 acc ok where h0: "hold S PhaseT1Rest (-1) (cf_Hold (su_Cfg S)) (rest_each ch)
      (event S (''T1 pwm'' @ itoa ch @ '': rest reference'') r) ((\<lambda>_. []), (\<lambda>_. []), (\<lambda>_. [])) = (r1, acc, ok)"
    by (rule prod_cases3)
  obtain rest restIn restDCR where "acc = (rest, restIn, restDCR)" by (rule prod_cases3)
  note h = h0 [unfolded this]
  have I1: "I r1" using hold_keeps [OF event_keeps [OF I]] h by (metis fst_conv)
  obtain r2 e where m: "manual S ch r1 = (r2, e)" by fastforce
  have I2: "I r2" using keep_manual [OF I1 ch_def] m by (metis fst_conv)
  obtain r3 steps ok3 where t: "t1_loop S ch T1Steps r2 [] = (r3, steps, ok3)" by (metis prod_cases3)
  have I3: "I r3" using t1_loop_keeps [OF I2 ch_def] t by (metis fst_conv)
  note run' = run [unfolded RunT1_def Let_def, folded ch_def, unfolded h m t prod.case]
  show ?thesis
  proof (cases "ok \<and> e = None \<and> ok3")
    case True
    have "rn_touched r2 ch" using manual_ok_touched [of S ch r1] m True by simp
    then have "rn_touched r3 ch" using touched_steps.t1_loop_keeps [of r2 ch ch S T1Steps "[]"] t ch_def by simp
    then have tch: "rn_touched (event S EventT1Complete r3) ch" by simp
    show ?thesis
      using run' False True keep_restore [OF event_keeps [OF I3] tch] m t by (auto split: option.splits)
  next
    case no: False
    then show ?thesis using run' False m t I1 I2 I3
      by (auto simp: stop_keeps split: if_splits option.splits)
  qed
qed

lemma handback_runs_keeps:
  assumes I: "I r" and t: "rn_touched r ch" and ch: "ch = cf_Channel (su_Cfg S)" and run: "handback_runs S ch pre preIn r = Some (r', res)"
  shows "I r'"
proof -
  obtain autoA aText where av: "AutoValues pre (JudgedRegs ch) = (autoA, aText)" by fastforce
  define m where "m = MValue (case autoA (hd (JudgedRegs ch)) of None \<Rightarrow> 0 | Some v \<Rightarrow> v)"
  define r2 where "r2 = handback_events S ch aText m (PreCrossing ch preIn) r"
  obtain r3 devs rs where rl: "rep_loop S ch m (PreCrossing ch preIn) autoA [1..<Suc (cf_Repeat (su_Cfg S))] [] [] r2 =
      (r3, devs, rs)" by (metis prod_cases3)
  define r4 where "r4 = (if rn_Abort r3 = [] then event S EventT2Complete r3 else r3)"
  have "I r2" "rn_touched r2 ch"
    using I t by (simp_all add: r2_def handback_events_keeps touched_steps.handback_events_keeps)
  then have "I r3" "rn_touched r3 ch"
    using rep_loop_keeps [OF _ ch] touched_steps.rep_loop_keeps [OF _ ch] rl by (metis fst_conv)+
  then have "I r4" "rn_touched r4 ch" by (simp_all add: r4_def event_keeps)
  moreover have "restore_untouch S ch '' after T2'' r4 = Some r'"
    using run unfolding handback_runs_def Let_def av prod.case m_def [symmetric] r2_def [symmetric] rl r4_def [symmetric]
    by (auto split: option.splits)
  ultimately show ?thesis using keep_restore by blast
qed

lemma RunHandback_keeps:
  assumes I: "I r" and run: "RunHandback S r = Some (r', res)"
  shows "I r'"
proof -
  define ch where "ch = cf_Channel (su_Cfg S)"
  obtain r1 x where a: "auto_cmd S ch (event S (''T2 pwm'' @ itoa ch @ '': auto value A'') r) = (r1, x)" by fastforce
  have I1: "I r1" using keep_auto [OF event_keeps [OF I] ch_def] a by (metis fst_conv)
  note run' = run [unfolded RunHandback_def Let_def, folded ch_def, unfolded a prod.case]
  show ?thesis
  proof (cases x)
    case (Inl e)
    then show ?thesis using run' I I1 by (auto simp: stop_keeps split: if_splits)
  next
    case (Inr ta)
    obtain r2 pre preIn ok where o: "observeIn S ta PhaseT2Pre (PreWindow (su_Cfg S)) [] r1 = (r2, (pre, preIn), ok)"
      by (metis surj_pair)
    have I2: "I r2" using observeIn_keeps [OF I1] o by (metis fst_conv)
    have "rn_touched r1 ch" using auto_ok_touched [of S ch] a Inr by (metis fst_conv snd_conv)
    then have "rn_touched r2 ch" using touched_steps.observeIn_keeps o by (metis fst_conv)
    then show ?thesis using run' I I2 handback_runs_keeps [OF I2 _ ch_def] Inr o by (auto split: if_splits)
  qed
qed

end

section \<open>Every order of use\<close>

text \<open>
  What a caller does with a runner: gates, tests, a stop, events of its own, further samples, and
  \<open>Close\<close> as often as it likes. An operation that does not return has no step.
\<close>

inductive runs :: "'w Setup \<Rightarrow> 'w runner \<Rightarrow> 'w runner \<Rightarrow> bool" for S where
  runs_refl: "runs S r r"
| runs_gates: "runs S r0 r \<Longrightarrow> runs S r0 (fst (Gates S r))"
| runs_t1: "runs S r0 r \<Longrightarrow> RunT1 S r = Some (r', res) \<Longrightarrow> runs S r0 r'"
| runs_handback: "runs S r0 r \<Longrightarrow> RunHandback S r = Some (r', res2) \<Longrightarrow> runs S r0 r'"
| runs_close: "runs S r0 r \<Longrightarrow> Close S r = Some r' \<Longrightarrow> runs S r0 r'"
| runs_stop: "runs S r0 r \<Longrightarrow> runs S r0 (stop S reason r)"
| runs_event: "runs S r0 r \<Longrightarrow> runs S r0 (event S txt r)"
| runs_sample: "runs S r0 r \<Longrightarrow> runs S r0 (fst (sampleAt S phase written None r))"

inductive_cases runs_cases: "runs S r r'"

lemma runs_trans: "runs S r1 r2 \<Longrightarrow> runs S r0 r1 \<Longrightarrow> runs S r0 r2"
  by (induction rule: runs.induct) (auto intro: runs.intros)

context runner_inv
begin

lemma runs_keeps: "runs S r0 r \<Longrightarrow> I r0 \<Longrightarrow> I r"
proof (induction rule: runs.induct)
  case (runs_t1 r0 r r' res)
  then show ?case using RunT1_keeps by blast
next
  case (runs_handback r0 r r' res2)
  obtain a b where "res2 = (a, b)" by fastforce
  with runs_handback show ?case using RunHandback_keeps by blast
next
  case (runs_close r0 r r')
  then show ?case using Close_keeps by blast
qed (simp_all add: Gates_keeps step_keeps)

end

end
