(* ===== verification/Runner_Trace.thy ===== *)
theory Runner_Trace
  imports Runner_Safety "HOL-Library.Sublist"
begin

text \<open>
  The commands of a run. \<open>traced\<close> wraps the \<open>Env\<close> and the \<open>BeforeWrite\<close> hook of any setup so
  that each command and its outcome is appended to a list beside the world. The interpretations of
  \<open>runner_inv\<close> at the end say what every run of every setup keeps: the commands are safe, a channel
  that is not in its restore value is touched, the first reason of an abort stays, and the records
  only grow.
\<close>

section \<open>The trace\<close>

datatype cmd = CBefore bool | CManual int bool | CDuty int int bool | CAuto int bool | CRestore int bool

type_synonym 'w traced = "'w \<times> cmd list"

definition lift :: "('w \<Rightarrow> 'w \<times> 'b) \<Rightarrow> 'w traced \<Rightarrow> 'w traced \<times> 'b" where
  "lift f = (\<lambda>(w, tr). case f w of (w', x) \<Rightarrow> ((w', tr), x))"

definition logged :: "('b \<Rightarrow> cmd) \<Rightarrow> ('w \<Rightarrow> 'w \<times> 'b) \<Rightarrow> 'w traced \<Rightarrow> 'w traced \<times> 'b" where
  "logged c f = (\<lambda>(w, tr). case f w of (w', x) \<Rightarrow> ((w', tr @ [c x]), x))"

text \<open>A restore that was written counts as done, verified or not (as in \<open>restore\<close>).\<close>

definition restored :: "restore_error option \<Rightarrow> bool" where
  "restored e = (case e of None \<Rightarrow> True | Some (Unverified _) \<Rightarrow> True | Some (NotRestored _) \<Rightarrow> False)"

definition traced_env :: "'w Env \<Rightarrow> 'w traced Env" where
  "traced_env E =
     \<lparr> e_Now = lift (e_Now E), e_Sleep = (\<lambda>bg d. lift (e_Sleep E bg d)),
       e_EnterManual = (\<lambda>ch. logged (\<lambda>e. CManual ch (e = None)) (e_EnterManual E ch)),
       e_WriteDuty = (\<lambda>ch d. logged (\<lambda>e. CDuty ch d (e = None)) (e_WriteDuty E ch d)),
       e_Auto = (\<lambda>ch. logged (\<lambda>e. CAuto ch (e = None)) (e_Auto E ch)),
       e_Restore = (\<lambda>ch. logged (\<lambda>e. CRestore ch (restored e)) (e_Restore E ch)),
       e_DCR = lift (e_DCR E), e_Read = lift (e_Read E) \<rparr>"

definition traced_setup :: "'w Setup \<Rightarrow> 'w traced Setup" where
  "traced_setup S =
     \<lparr> su_Env = traced_env (su_Env S), su_Cfg = su_Cfg S, su_Guard = map_option lift (su_Guard S),
       su_OnSample = map_option (\<lambda>f s (w, tr). (f s w, tr)) (su_OnSample S),
       su_OnEvent = map_option (\<lambda>f l (w, tr). (f l w, tr)) (su_OnEvent S),
       su_BeforeWrite = map_option (logged (\<lambda>e. CBefore (e = None))) (su_BeforeWrite S),
       su_BeforeHot = map_option (\<lambda>f ch. lift (f ch)) (su_BeforeHot S), su_Tag = su_Tag S \<rparr>"

definition trace :: "'w traced runner \<Rightarrow> cmd list" where
  "trace r = snd (rn_world r)"

lemma lift_sel [simp]: "snd (fst (lift f p)) = snd p"
  by (simp add: lift_def split_beta)

lemma logged_sel [simp]: "snd (fst (logged c f p)) = snd p @ [c (snd (logged c f p))]"
  by (simp add: logged_def split_beta)

lemma traced_sel [simp]:
  "su_Cfg (traced_setup S) = su_Cfg S"
  "snd (fst (e_Now (su_Env (traced_setup S)) p)) = snd p"
  "snd (fst (e_Sleep (su_Env (traced_setup S)) bg d p)) = snd p"
  "snd (fst (e_DCR (su_Env (traced_setup S)) p)) = snd p"
  "snd (fst (e_Read (su_Env (traced_setup S)) p)) = snd p"
  "snd (fst (e_EnterManual (su_Env (traced_setup S)) ch p)) =
     snd p @ [CManual ch (snd (e_EnterManual (su_Env (traced_setup S)) ch p) = None)]"
  "snd (fst (e_WriteDuty (su_Env (traced_setup S)) ch v p)) =
     snd p @ [CDuty ch v (snd (e_WriteDuty (su_Env (traced_setup S)) ch v p) = None)]"
  "snd (fst (e_Auto (su_Env (traced_setup S)) ch p)) =
     snd p @ [CAuto ch (snd (e_Auto (su_Env (traced_setup S)) ch p) = None)]"
  "snd (fst (e_Restore (su_Env (traced_setup S)) ch p)) =
     snd p @ [CRestore ch (restored (snd (e_Restore (su_Env (traced_setup S)) ch p)))]"
  by (simp_all add: traced_setup_def traced_env_def)

lemma trace_update [simp]:
  "trace (r\<lparr> rn_world := w \<rparr>) = snd w" "trace (r\<lparr> rn_Abort := a \<rparr>) = trace r"
  "trace (r\<lparr> rn_LimitSensors := l \<rparr>) = trace r" "trace (touch ch r) = trace r" "trace (untouch ch r) = trace r"
  "trace (r\<lparr> rn_RestoreOverrides := ro \<rparr>) = trace r" "trace (r\<lparr> rn_restoreErr := re \<rparr>) = trace r"
  "trace (r\<lparr> rn_touched := t \<rparr>) = trace r" "trace (r\<lparr> rn_RestoreWarnings := rw \<rparr>) = trace r" "trace (r\<lparr> rn_wrote := b \<rparr>) = trace r"
  by (simp_all add: trace_def)

lemma trace_event [simp]: "trace (fst (eventAt (traced_setup S) txt r)) = trace r"
  "trace (event (traced_setup S) txt r) = trace r"
  by (simp_all add: event_def trace_def eventAt_def Let_def split_beta traced_setup_def traced_env_def
      split: option.split)

lemma trace_guard [simp]: "trace (fst (guard (traced_setup S) r)) = trace r"
  by (simp add: trace_def guard_def traced_setup_def split_beta split: option.split)

lemma trace_check_limits [simp]: "trace (fst (check_limits (traced_setup S) d rd r)) = trace r"
  using trace_guard [of S r] by (simp add: trace_def)

lemma trace_record [simp]: "trace (record_sample (traced_setup S) s r) = trace r"
  by (simp add: trace_def record_sample_def traced_setup_def split_beta split: option.split)

lemma trace_read_regs [simp]: "trace (fst (read_regs (traced_setup S) r)) = trace r"
  by (simp add: trace_def read_regs_def split_beta)

lemma trace_sample_ts [simp]: "trace (fst (sample_ts (traced_setup S) phase due now r)) = trace r"
  by (simp add: sample_ts_def Let_def split: option.split)

lemma trace_sample [simp]: "trace (fst (sampleAt (traced_setup S) phase written due r)) = trace r"
proof -
  have "snd (rn_world (fst (read_regs (traced_setup S) q))) = trace q" for q
    using trace_read_regs [of S q] by (simp add: trace_def)
  then show ?thesis by (simp add: sampleAt_def Let_def split_beta) (simp add: trace_def)
qed

section \<open>The invariant of the commands\<close>

definition on_channel :: "int \<Rightarrow> cmd \<Rightarrow> bool" where
  "on_channel ch c = (case c of CBefore _ \<Rightarrow> False | CManual k _ \<Rightarrow> k = ch | CDuty k _ _ \<Rightarrow> k = ch
     | CAuto k _ \<Rightarrow> k = ch | CRestore k _ \<Rightarrow> k = ch)"

definition safe_cmd :: "cmd \<Rightarrow> bool" where
  "safe_cmd c = (case c of CDuty _ d _ \<Rightarrow> MinDuty \<le> d \<and> d \<le> 255 | _ \<Rightarrow> True)"

definition last_cmd :: "cmd list \<Rightarrow> int \<Rightarrow> cmd option" where
  "last_cmd tr ch = (let cs = filter (on_channel ch) tr in if cs = [] then None else Some (last cs))"

text \<open>
  A channel at rest: never commanded, or restored by its last command, or at 255 in manual mode
  with the reason of a temperature abort recorded.
\<close>

definition at_rest :: "cmd list \<Rightarrow> (int \<Rightarrow> string) \<Rightarrow> int \<Rightarrow> bool" where
  "at_rest tr over ch \<longleftrightarrow>
     (case last_cmd tr ch of None \<Rightarrow> True
      | Some c \<Rightarrow> c = CRestore ch True \<or> (c = CDuty ch 255 True \<and> over ch \<noteq> []))"

text \<open>Nothing is commanded before a successful \<open>BeforeWrite\<close>.\<close>

fun hooked :: "cmd list \<Rightarrow> bool" where
  "hooked [] \<longleftrightarrow> True"
| "hooked (CBefore ok # tr) \<longleftrightarrow> ok \<or> hooked tr"
| "hooked (_ # tr) \<longleftrightarrow> False"

definition only_failed :: "cmd list \<Rightarrow> bool" where
  "only_failed tr \<longleftrightarrow> list_all (\<lambda>c. c = CBefore False) tr"

definition hook_ran :: "cmd list \<Rightarrow> bool" where
  "hook_ran tr \<longleftrightarrow> (\<exists>pre post. tr = pre @ CBefore True # post \<and> only_failed pre)"

definition cmd_inv :: "bool \<Rightarrow> cmd list \<Rightarrow> (int \<Rightarrow> bool) \<Rightarrow> bool \<Rightarrow> (int \<Rightarrow> string) \<Rightarrow> bool" where
  "cmd_inv hook tr touched wrote over \<longleftrightarrow>
     list_all safe_cmd tr \<and>
     (\<forall>ch. \<not> touched ch \<longrightarrow> at_rest tr over ch) \<and>
     (\<not> wrote \<longrightarrow> only_failed tr \<and> (\<forall>ch. \<not> touched ch)) \<and>
     (wrote \<and> hook \<longrightarrow> hook_ran tr)"

lemma only_failed_hooked: "only_failed pre \<Longrightarrow> hooked (pre @ CBefore True # post)"
  by (induction pre) (auto simp: only_failed_def)

lemma hook_ran_hooked: "hook_ran tr \<Longrightarrow> hooked tr"
  by (auto simp: hook_ran_def only_failed_hooked)

lemma only_failed_hooked': "only_failed tr \<Longrightarrow> hooked tr"
  by (induction tr) (auto simp: only_failed_def)

lemma hook_ran_append [simp]: "hook_ran tr \<Longrightarrow> hook_ran (tr @ cs)"
  unfolding hook_ran_def by (metis append_Cons append_assoc)

lemma at_rest_other:
  "\<not> on_channel ch c \<Longrightarrow> at_rest (tr @ [c]) over ch = at_rest tr over ch"
  by (simp add: at_rest_def last_cmd_def)

lemma cmd_inv_command:
  assumes "cmd_inv hook tr touched True over" "safe_cmd c" "\<And>k. on_channel k c \<Longrightarrow> k = ch"
  shows "cmd_inv hook (tr @ [c]) (touched(ch := True)) True over"
proof -
  have "at_rest (tr @ [c]) over k" if "k \<noteq> ch" "\<not> touched k" for k
    using assms(1,3) that at_rest_other [of k c tr over] by (auto simp: cmd_inv_def)
  then show ?thesis using assms(1,2) by (simp add: cmd_inv_def)
qed

lemma cmd_inv_rest:
  assumes "cmd_inv hook tr touched True over" "safe_cmd c" "\<And>k. on_channel k c \<Longrightarrow> k = ch"
    and "at_rest (tr @ [c]) over' ch" "\<And>k. k \<noteq> ch \<Longrightarrow> over' k = over k"
  shows "cmd_inv hook (tr @ [c]) (touched(ch := False)) True over'"
proof -
  have "at_rest (tr @ [c]) over' k" if "k \<noteq> ch" "\<not> touched k" for k
  proof -
    have "\<not> on_channel k c" "over' k = over k" using assms(3,5) that by auto
    then have "at_rest (tr @ [c]) over' k = at_rest tr over k"
      using at_rest_other [of k c tr over'] by (auto simp: at_rest_def split: option.splits)
    then show ?thesis using assms(1) that by (simp add: cmd_inv_def)
  qed
  then show ?thesis using assms by (auto simp: cmd_inv_def)
qed

section \<open>Every operation keeps it\<close>

definition tinv :: "'w Setup \<Rightarrow> 'w traced runner \<Rightarrow> bool" where
  "tinv S r \<longleftrightarrow> cmd_inv (su_BeforeWrite S \<noteq> None) (trace r) (rn_touched r) (rn_wrote r) (rn_RestoreOverrides r)"

lemma tinv_firstWrite:
  assumes "tinv S r"
  shows "tinv S (fst (firstWrite (traced_setup S) r))"
    and "snd (firstWrite (traced_setup S) r) = None \<Longrightarrow> rn_wrote (fst (firstWrite (traced_setup S) r))"
proof -
  have f: "only_failed tr \<Longrightarrow> only_failed (tr @ [CBefore False])" "only_failed tr \<Longrightarrow> hook_ran (tr @ [CBefore True])" for tr
    by (auto simp: only_failed_def hook_ran_def)
  have a: "at_rest (tr @ [CBefore b]) over ch = at_rest tr over ch" for tr b over ch
    by (rule at_rest_other) (simp add: on_channel_def)
  show "tinv S (fst (firstWrite (traced_setup S) r))"
  proof (cases "rn_wrote r")
    case False
    then show ?thesis
      using assms f a
      by (cases "su_BeforeWrite S")
        (auto simp: tinv_def cmd_inv_def firstWrite_def traced_setup_def split_beta safe_cmd_def trace_def
          split: option.split)
  qed (use assms in \<open>simp add: firstWrite_def\<close>)
  show "snd (firstWrite (traced_setup S) r) = None \<Longrightarrow> rn_wrote (fst (firstWrite (traced_setup S) r))"
    by (auto simp: firstWrite_def split_beta split: option.splits if_splits)
qed

lemma tinv_command:
  assumes "tinv S r" "rn_wrote r" "safe_cmd c" "\<And>k. on_channel k c \<Longrightarrow> k = ch"
    and "trace r' = trace r @ [c]" "rn_touched r' = (rn_touched r)(ch := True)" "rn_wrote r' = rn_wrote r"
    "rn_RestoreOverrides r' = rn_RestoreOverrides r"
  shows "tinv S r'"
  using cmd_inv_command [of _ "trace r" "rn_touched r" "rn_RestoreOverrides r" c ch] assms by (simp add: tinv_def)

lemma trace_fold: "snd (rn_world r) = trace r"
  by (simp add: trace_def)

lemma touch_update: "rn_touched (touch ch r) = (rn_touched r)(ch := True)"
  by (simp add: touch_def)

lemma tinv_write: "tinv S r \<Longrightarrow> tinv S (fst (write_duty (traced_setup S) ch duty r))"
proof -
  assume I: "tinv S r"
  let ?f = "firstWrite (traced_setup S) r"
  note f = tinv_firstWrite [OF I]
  show ?thesis
  proof (cases "\<not> (duty < MinDuty \<or> duty > 255) \<and> snd ?f = None")
    case True
    let ?e = "snd (e_WriteDuty (su_Env (traced_setup S)) ch duty (rn_world (fst ?f)))"
    have "safe_cmd (CDuty ch duty (?e = None))" using True by (simp add: safe_cmd_def)
    moreover have "rn_wrote (fst ?f)" using f(2) True by simp
    ultimately show ?thesis
      by (intro tinv_command [OF f(1), of "CDuty ch duty (?e = None)" ch])
        (use True in \<open>simp_all add: write_duty_def Let_def split_beta on_channel_def touch_update trace_fold split: option.split\<close>)
  next
    case False
    then show ?thesis using I f by (auto simp: write_duty_def split_beta split: option.split)
  qed
qed

lemma tinv_manual: "tinv S r \<Longrightarrow> tinv S (fst (manual (traced_setup S) ch r))"
proof -
  assume I: "tinv S r"
  let ?f = "firstWrite (traced_setup S) r"
  note f = tinv_firstWrite [OF I]
  show ?thesis
  proof (cases "snd ?f = None")
    case True
    let ?e = "snd (e_EnterManual (su_Env (traced_setup S)) ch (rn_world (fst ?f)))"
    show ?thesis
      by (rule tinv_command [OF f(1), of "CManual ch (?e = None)" ch])
        (use True f(2) in \<open>simp_all add: manual_def Let_def split_beta on_channel_def safe_cmd_def touch_update trace_fold split: option.split\<close>)
  next
    case False
    then show ?thesis using f by (auto simp: manual_def split_beta split: option.split)
  qed
qed

lemma tinv_auto: "tinv S r \<Longrightarrow> tinv S (fst (auto_cmd (traced_setup S) ch r))"
proof -
  assume I: "tinv S r"
  let ?f = "firstWrite (traced_setup S) r"
  note f = tinv_firstWrite [OF I]
  show ?thesis
  proof (cases "snd ?f = None")
    case True
    let ?e = "snd (e_Auto (su_Env (traced_setup S)) ch (rn_world (fst ?f)))"
    show ?thesis
      by (rule tinv_command [OF f(1), of "CAuto ch (?e = None)" ch])
        (use True f(2) in \<open>simp_all add: auto_cmd_def Let_def split_beta on_channel_def safe_cmd_def touch_update trace_fold split: option.split\<close>)
  next
    case False
    then show ?thesis using f by (auto simp: auto_cmd_def split_beta split: option.split)
  qed
qed

lemma tinv_mark: "tinv S r \<Longrightarrow> tinv S (mark_hot r)"
  by (auto simp: mark_hot_def Let_def tinv_def cmd_inv_def HotChannel_def touch_update touch_sel)

section \<open>Restores\<close>

lemma trace_before_hot [simp]: "trace (before_hot (traced_setup S) ch when r) = trace r"
  by (auto simp: before_hot_def traced_setup_def split_beta trace_fold [symmetric] split: option.split)
    (simp_all add: event_def eventAt_def Let_def split_beta traced_env_def split: option.split)

lemma before_hot_sel [simp]:
  "rn_touched (before_hot S ch when r) = rn_touched r" "rn_wrote (before_hot S ch when r) = rn_wrote r"
  "rn_RestoreOverrides (before_hot S ch when r) = rn_RestoreOverrides r"
  "rn_Abort (before_hot S ch when r) = rn_Abort r" "rn_Samples (before_hot S ch when r) = rn_Samples r"
  "rn_hot (before_hot S ch when r) = rn_hot r"
  by (simp_all add: before_hot_def split_beta split: option.split)

lemma check_hot_sel:
  assumes "check_hot (traced_setup S) ch when why t0 r = Some (r', ok)"
  shows "trace r' = trace r" "rn_touched r' = rn_touched r" "rn_wrote r' = rn_wrote r"
    "rn_RestoreOverrides r' = rn_RestoreOverrides r" "ok"
proof -
  have w: "snd w = trace r" if "WaitDCR (wait_env_of (su_Env (traced_setup S))) t0 regs 255 st st (rn_world r) = Some (w, s)"
    for w s regs st
    using WaitDCR_inv [OF that, of "\<lambda>w. snd w = trace r"] by (simp add: wait_env_of_def trace_fold)
  show "trace r' = trace r" "rn_touched r' = rn_touched r" "rn_wrote r' = rn_wrote r"
    "rn_RestoreOverrides r' = rn_RestoreOverrides r" "ok"
    using assms w by (auto simp: check_hot_def Let_def split: if_splits option.splits)
qed

lemma hot_why_ne [simp]: "hot_why w \<noteq> []"
  by (simp add: hot_why_def)

lemma last_cmd_snoc: "on_channel ch c \<Longrightarrow> last_cmd (tr @ [c]) ch = Some c"
  by (simp add: last_cmd_def)

lemma at_rest_snoc:
  "on_channel ch c \<Longrightarrow> at_rest (tr @ [c]) over ch \<longleftrightarrow> c = CRestore ch True \<or> (c = CDuty ch 255 True \<and> over ch \<noteq> [])"
  by (simp add: at_rest_def last_cmd_snoc)

lemma tinv_restoreHot:
  assumes I: "tinv S r" and w: "rn_wrote r" and t: "rn_touched r ch"
    and run: "restoreHot (traced_setup S) ch when r = Some (r', ok)"
  shows "tinv S (if ok then untouch ch r' else r')"
proof -
  let ?E = "su_Env (traced_setup S)"
  define r1 where "r1 = before_hot (traced_setup S) ch when r"
  obtain w1 t0 where n: "e_Now ?E (rn_world r1) = (w1, t0)" by fastforce
  obtain w2 e1 where em: "e_EnterManual ?E ch w1 = (w2, e1)" by fastforce
  obtain w3 e2 where wd: "e_WriteDuty ?E ch 255 w2 = (w3, e2)" by fastforce
  have tr1: "snd w1 = trace r"
    using traced_sel(2) [of S "rn_world r1"] unfolding n by (simp add: r1_def trace_fold)
  have tr2: "snd w2 = trace r @ [CManual ch (e1 = None)]"
    using traced_sel(6) [of S ch w1] unfolding em by (simp add: tr1)
  have tr3: "snd w3 = trace r @ [CManual ch (e1 = None), CDuty ch 255 (e2 = None)]"
    using traced_sel(7) [of S ch 255 w2] unfolding wd by (simp add: tr2)
  note tr = tr1 tr2 tr3
  have s: "safe_cmd (CDuty ch 255 b)" "on_channel k (CDuty ch 255 b) \<longleftrightarrow> k = ch"
     "safe_cmd (CManual ch b)" "on_channel k (CManual ch b) \<longleftrightarrow> k = ch" for b k
    by (auto simp: safe_cmd_def on_channel_def MinDuty_def)
  have tt: "(rn_touched r)(ch := True) = rn_touched r" using t by (simp add: fun_upd_idem)
  let ?inv = "cmd_inv (su_BeforeWrite S \<noteq> None)"
  have i2: "?inv (trace r @ [CManual ch b]) (rn_touched r) True (rn_RestoreOverrides r)" for b
    using cmd_inv_command [of _ "trace r" "rn_touched r" _ "CManual ch b" ch] I w s tt by (simp add: tinv_def)
  have i3: "?inv (trace r @ [CManual ch b, CDuty ch 255 c]) (rn_touched r) True (rn_RestoreOverrides r)" for b c
    using cmd_inv_command [OF i2, of "CDuty ch 255 c" ch] s tt by simp
  note run' = run [unfolded restoreHot_def Let_def, folded r1_def, unfolded n prod.case write_hot_def]
  show ?thesis
  proof (cases e1)
    case (Some e)
    then have "tinv S r'" "\<not> ok" using run' em tr i2 w by (auto simp: tinv_def r1_def)
    then show ?thesis by simp
  next
    case None
    show ?thesis
    proof (cases e2)
      case (Some e)
      then have "tinv S r'" "\<not> ok" using run' em wd None tr i3 w by (auto simp: tinv_def r1_def)
      then show ?thesis by simp
    next
      case wn: None
      define why where "why = hot_why (rn_hotWhy r)"
      define r3 where "r3 = r1\<lparr> rn_world := w3 \<rparr>"
      define r4 where "r4 = r3\<lparr> rn_RestoreOverrides := (rn_RestoreOverrides r3)(ch := why),
         rn_restoreErr := (rn_restoreErr r3)(ch := []) \<rparr>"
      have c: "check_hot (traced_setup S) ch when why t0 r4 = Some (r', ok)"
        using run' em wd None wn by (simp add: r4_def r3_def why_def)
      note f = check_hot_sel [OF c]
      have "?inv ((trace r @ [CManual ch True]) @ [CDuty ch 255 True]) ((rn_touched r)(ch := False)) True
          ((rn_RestoreOverrides r)(ch := why))"
        by (rule cmd_inv_rest [OF i2]) (use s in \<open>simp_all add: at_rest_snoc why_def del: append_assoc\<close>)
      then show ?thesis using f tr None wn w by (simp add: tinv_def r4_def r3_def r1_def untouch_def)
    qed
  qed
qed

lemma tinv_restore:
  assumes I: "tinv S r" and t: "rn_touched r ch"
    and run: "restore_untouch (traced_setup S) ch when r = Some r'"
  shows "tinv S r'"
proof -
  have w: "rn_wrote r" using I t by (auto simp: tinv_def cmd_inv_def)
  obtain r1 ok where r1: "restore (traced_setup S) ch when r = Some (r1, ok)" "r' = (if ok then untouch ch r1 else r1)"
    using run by (auto simp: restore_untouch_def split: option.splits)
  show ?thesis
  proof (cases "ch = HotChannel r")
    case True
    then show ?thesis using tinv_restoreHot [OF I w t] r1 by (simp add: restore_def)
  next
    case False
    obtain w' e where e: "e_Restore (su_Env (traced_setup S)) ch (rn_world r) = (w', e)" by fastforce
    have trw: "snd w' = trace r @ [CRestore ch (restored e)]"
      using traced_sel(9) [of S ch "rn_world r"] unfolding e by (simp add: trace_fold)
    have tr: "trace r1 = trace r @ [CRestore ch (restored e)] \<and> rn_touched r1 = rn_touched r \<and> rn_wrote r1 = rn_wrote r \<and>
      rn_RestoreOverrides r1 = rn_RestoreOverrides r \<and> ok = restored e"
      using r1(1) False e trw
      by (cases e rule: option.exhaust; (cases "the e")?) (auto simp: restore_def Let_def restored_def)
    have s: "safe_cmd (CRestore ch b)" "on_channel k (CRestore ch b) \<longleftrightarrow> k = ch" for b k
      by (auto simp: safe_cmd_def on_channel_def)
    show ?thesis
    proof (cases ok)
      case True
      have "cmd_inv (su_BeforeWrite S \<noteq> None) (trace r @ [CRestore ch True]) ((rn_touched r)(ch := False)) True
          (rn_RestoreOverrides r)"
        by (rule cmd_inv_rest [of _ _ _ "rn_RestoreOverrides r"])
          (use I w s in \<open>simp_all add: tinv_def at_rest_def last_cmd_snoc\<close>)
      then show ?thesis using True tr w r1(2) by (simp add: tinv_def untouch_def)
    next
      case no: False
      have "tinv S r1"
        by (rule tinv_command [OF I w, of "CRestore ch False" ch])
          (use no tr s t in \<open>simp_all add: fun_upd_idem\<close>)
      then show ?thesis using no r1(2) by simp
    qed
  qed
qed

interpretation commands: runner_inv "traced_setup S" "tinv S" for S :: "'w Setup"
proof
  fix r :: "'w traced runner" and ch whn r'
  assume "tinv S r" "rn_touched r ch" "restore_untouch (traced_setup S) ch whn r = Some r'"
  then show "tinv S r'" by (rule tinv_restore)
qed (simp_all add: tinv_write tinv_manual tinv_auto tinv_mark, simp_all add: tinv_def trace_fold)

section \<open>The start, and what Close leaves\<close>

lemma tinv_start: "tinv S (NewRunner (traced_env E) (w, []))"
proof -
  have l: "lift f (w, tr) = ((fst (f w), tr), snd (f w))" for f :: "'a \<Rightarrow> 'a \<times> 'b" and w tr
    by (simp add: lift_def split_beta)
  show ?thesis
    by (simp add: NewRunner_def traced_env_def l Let_def tinv_def trace_def cmd_inv_def only_failed_def
        at_rest_def last_cmd_def)
qed

lemma runs_tinv: "runs (traced_setup S) (NewRunner (traced_env E) (w, [])) r \<Longrightarrow> tinv S r"
  by (rule commands.runs_keeps [OF _ tinv_start])

lemma tinv_safe: "tinv S r \<Longrightarrow> list_all safe_cmd (trace r)"
  by (simp add: tinv_def cmd_inv_def)

lemma tinv_hooked: "tinv S r \<Longrightarrow> su_BeforeWrite S \<noteq> None \<Longrightarrow> hooked (trace r)"
  by (cases "rn_wrote r") (auto simp: tinv_def cmd_inv_def hook_ran_hooked only_failed_hooked')

lemma tinv_rest: "tinv S r \<Longrightarrow> \<not> rn_touched r ch \<Longrightarrow> at_rest (trace r) (rn_RestoreOverrides r) ch"
  by (simp add: tinv_def cmd_inv_def)

lemma Unrestored_touched:
  "ch \<in> {1, 2, 3, 4} \<Longrightarrow> rn_touched r ch \<Longrightarrow>
     ''pwm'' @ itoa ch @ '': '' @ orText (rn_restoreErr r ch) ''not restored'' \<in> set (Unrestored r)"
  by (auto simp: Unrestored_def)

section \<open>Records and aborts\<close>

lemma prefix_event:
  "prefix es (rn_Events r) \<Longrightarrow> prefix es (rn_Events (fst (eventAt S txt r)))"
  "prefix es (rn_Events r) \<Longrightarrow> prefix es (rn_Events (event S txt r))"
  by (simp_all add: event_def eventAt_def Let_def split_beta)

lemma prefix_sample: "prefix es (rn_Events r) \<Longrightarrow> prefix es (rn_Events (fst (sampleAt S phase written due r)))"
  by (simp add: sampleAt_def Let_def split_beta sample_ts_def prefix_event split: option.split)

lemma prefix_write: "prefix es (rn_Events r) \<Longrightarrow> prefix es (rn_Events (fst (write_duty S ch duty r)))"
  by (simp add: write_duty_def Let_def split_beta prefix_event split: option.split)

lemma prefix_manual: "prefix es (rn_Events r) \<Longrightarrow> prefix es (rn_Events (fst (manual S ch r)))"
  by (simp add: manual_def Let_def split_beta prefix_event split: option.split)

lemma prefix_auto: "prefix es (rn_Events r) \<Longrightarrow> prefix es (rn_Events (fst (auto_cmd S ch r)))"
  by (simp add: auto_cmd_def Let_def split_beta prefix_event split: option.split)

lemma keep_sel [simp]:
  "rn_Abort (fst (write_duty S ch duty r)) = rn_Abort r" "rn_Samples (fst (write_duty S ch duty r)) = rn_Samples r"
  "rn_Abort (fst (manual S ch r)) = rn_Abort r" "rn_Samples (fst (manual S ch r)) = rn_Samples r"
  "rn_Abort (fst (auto_cmd S ch r)) = rn_Abort r" "rn_Samples (fst (auto_cmd S ch r)) = rn_Samples r"
  "rn_Abort (mark_hot r) = rn_Abort r" "rn_Samples (mark_hot r) = rn_Samples r" "rn_Events (mark_hot r) = rn_Events r"
  by (simp_all add: write_duty_def manual_def auto_cmd_def mark_hot_def Let_def split_beta split: option.split)

lemma check_hot_records:
  assumes "check_hot S ch when why t0 r = Some (r', ok)"
  shows "rn_Abort r' = rn_Abort r" "rn_Samples r' = rn_Samples r" "prefix es (rn_Events r) \<Longrightarrow> prefix es (rn_Events r')"
  using assms by (auto simp: check_hot_def Let_def prefix_event split: if_splits option.splits)

lemma restoreHot_records:
  assumes "restoreHot S ch when r = Some (r', ok)"
  shows "rn_Abort r' = rn_Abort r \<and> rn_Samples r' = rn_Samples r \<and> (prefix es (rn_Events r) \<longrightarrow> prefix es (rn_Events r'))"
proof -
  have b: "prefix es (rn_Events r) \<Longrightarrow> prefix es (rn_Events (before_hot S ch when r))"
    by (simp add: before_hot_def split_beta prefix_event split: option.split)
  obtain w1 t0 where n: "e_Now (su_Env S) (rn_world (before_hot S ch when r)) = (w1, t0)" by fastforce
  obtain w2 e where wh: "write_hot S ch ((before_hot S ch when r)\<lparr> rn_world := w1 \<rparr>) = (w2, e)" by fastforce
  have w2: "rn_Abort w2 = rn_Abort r" "rn_Samples w2 = rn_Samples r" "rn_Events w2 = rn_Events (before_hot S ch when r)"
    using wh by (auto simp: write_hot_def split_beta split: option.splits)
  show ?thesis
  proof (cases e)
    case None
    define r3 where "r3 = w2\<lparr> rn_RestoreOverrides := (rn_RestoreOverrides w2)(ch := hot_why (rn_hotWhy r)),
       rn_restoreErr := (rn_restoreErr w2)(ch := []) \<rparr>"
    have "check_hot S ch when (hot_why (rn_hotWhy r)) t0 r3 = Some (r', ok)"
      using assms [unfolded restoreHot_def Let_def n prod.case wh] None by (simp add: r3_def)
    from check_hot_records [OF this] show ?thesis using w2 b by (simp add: r3_def)
  next
    case (Some x)
    then show ?thesis using assms [unfolded restoreHot_def Let_def n prod.case wh] w2 b
      by (auto simp: prefix_event)
  qed
qed

lemma restore_records:
  assumes "restore_untouch S ch when r = Some r'"
  shows "rn_Abort r' = rn_Abort r" "rn_Samples r' = rn_Samples r" "prefix es (rn_Events r) \<Longrightarrow> prefix es (rn_Events r')"
proof -
  obtain r1 ok where r1: "restore S ch when r = Some (r1, ok)" "r' = (if ok then untouch ch r1 else r1)"
    using assms by (auto simp: restore_untouch_def split: option.splits)
  obtain w e where e: "e_Restore (su_Env S) ch (rn_world r) = (w, e)" by fastforce
  have "rn_Abort r1 = rn_Abort r \<and> rn_Samples r1 = rn_Samples r \<and> (prefix es (rn_Events r) \<longrightarrow> prefix es (rn_Events r1))"
  proof (cases "ch = HotChannel r")
    case True
    then show ?thesis using restoreHot_records r1(1) by (simp add: restore_def)
  next
    case False
    have ev: "prefix es (rn_Events r) \<Longrightarrow> prefix es (rn_Events (event S t (r\<lparr> rn_world := w \<rparr>)))" for t
      by (rule prefix_event) simp
    show ?thesis
      using r1(1) [unfolded restore_def] False e ev
      by (auto simp: Let_def split: option.splits restore_error.splits)
  qed
  then show "rn_Abort r' = rn_Abort r" "rn_Samples r' = rn_Samples r" "prefix es (rn_Events r) \<Longrightarrow> prefix es (rn_Events r')"
    using r1(2) by auto
qed

text \<open>The first reason of an abort is kept by everything that follows.\<close>

interpretation first_abort: runner_inv S "\<lambda>r. a = [] \<or> rn_Abort r = a" for S :: "'w Setup" and a
proof
  fix r r' :: "'w runner" and ch whn
  assume "a = [] \<or> rn_Abort r = a" "restore_untouch S ch whn r = Some r'"
  then show "a = [] \<or> rn_Abort r' = a" using restore_records(1) by metis
qed auto

text \<open>Samples and events are only appended.\<close>

interpretation records: runner_inv S "\<lambda>r. prefix ss (rn_Samples r) \<and> prefix es (rn_Events r)"
  for S :: "'w Setup" and ss es
proof
  fix r r' :: "'w runner" and ch whn
  assume "prefix ss (rn_Samples r) \<and> prefix es (rn_Events r)" "restore_untouch S ch whn r = Some r'"
  then show "prefix ss (rn_Samples r') \<and> prefix es (rn_Events r')" using restore_records by metis
qed (simp_all add: prefix_event prefix_sample prefix_write prefix_manual prefix_auto)

section \<open>The procedures return\<close>

lemma check_hot_returns:
  assumes "clock (wait_env_of (su_Env S)) clk"
  shows "(check_hot S ch when why t0 r = None) = False"
proof -
  obtain w s where "WaitDCR (wait_env_of (su_Env S)) t0 (JudgedRegs ch) 255 (SettleTime ch) (SettleTime ch) (rn_world r) =
      Some (w, s)"
    using clock.WaitDCR_returns [OF assms] by metis
  then show ?thesis by (auto simp: check_hot_def Let_def)
qed

lemma restore_returns:
  assumes "clock (wait_env_of (su_Env S)) clk"
  shows "(restore_untouch S ch when r = None) = False"
proof -
  have h: "(restoreHot S ch when r = None) = False"
    by (simp add: restoreHot_def Let_def split_beta check_hot_returns [OF assms] split: option.split del: not_None_eq)
  have "\<exists>x. restore S ch when r = Some x"
  proof (cases "ch = HotChannel r")
    case True
    then show ?thesis using h by (auto simp: restore_def)
  next
    case False
    then show ?thesis
      by (auto simp: restore_def Let_def split_beta split: option.split restore_error.split)
  qed
  then show ?thesis by (auto simp: restore_untouch_def)
qed

lemma close_loop_returns:
  assumes "clock (wait_env_of (su_Env S)) clk"
  shows "(close_loop S chs r = None) = False"
proof (induction chs arbitrary: r)
  case (Cons ch chs)
  then show ?case by (simp add: restore_returns [OF assms] split: option.split del: not_None_eq)
qed simp

lemma Close_returns:
  assumes "clock (wait_env_of (su_Env S)) clk"
  shows "\<exists>r'. Close S r = Some r'"
  using close_loop_returns [OF assms, of "[1, 2, 3, 4]" "mark_hot r"]
  unfolding Close_def by (cases "close_loop S [1, 2, 3, 4] (mark_hot r)") simp_all

lemma RunT1_returns:
  assumes "clock (wait_env_of (su_Env S)) clk"
  shows "(RunT1 S r = None) = False"
  by (simp add: RunT1_def Let_def split_beta restore_returns [OF assms] split: option.split del: not_None_eq t1_loop.simps)

lemma RunHandback_returns:
  assumes "clock (wait_env_of (su_Env S)) clk"
  shows "(RunHandback S r = None) = False"
proof -
  have "(handback_runs S ch pre preIn r = None) = False" for ch pre preIn r
    by (simp add: handback_runs_def Let_def split_beta restore_returns [OF assms] split: option.split
        del: not_None_eq rep_loop.simps upt_Suc)
  then show ?thesis by (simp add: RunHandback_def Let_def split_beta split: sum.split del: not_None_eq)
qed

end
