(* ===== verification/Runner_Results.thy ===== *)
theory Runner_Results
  imports Runner_Trace
begin

text \<open>
  What the procedures leave behind: the samples of a hold and their limits, and the commands of a
  completed mapping. \<open>quiet_trace\<close> says that nothing but the four commands reaches the machine.
\<close>

section \<open>Limits\<close>

definition within_limits :: "Sample \<Rightarrow> bool" where
  "within_limits s \<longleftrightarrow> \<not> fl_ge (s_Tctl s) LimitTctlC \<and> \<not> fl_ge (s_NVMeMax s) LimitNVMeC \<and> \<not> fl_ge (s_HDDMax s) LimitHDDC"

lemma limit_text_nonempty [simp]: "limit_text name v th \<noteq> []" "lost_text name \<noteq> []" "tach_text n \<noteq> []"
  by (simp_all add: text_defs)

lemma sensor_loop_hot [simp]: "rn_hot (fst (sensor_loop ls r)) = rn_hot r" "rn_hotWhy (fst (sensor_loop ls r)) = rn_hotWhy r"
  by (induction ls r rule: sensor_loop.induct) (simp_all add: Let_def)

lemma make_sample_sel [simp]:
  "s_Tctl (make_sample S now ts phase written d rd) = rd_Tctl rd"
  "s_NVMeMax (make_sample S now ts phase written d rd) = rd_NVMeMax rd"
  "s_HDDMax (make_sample S now ts phase written d rd) = rd_HDDMax rd"
  "s_Phase (make_sample S now ts phase written d rd) = phase"
  "s_Written (make_sample S now ts phase written d rd) = written"
  "s_TS (make_sample S now ts phase written d rd) = ts"
  "s_DCR (make_sample S now ts phase written d rd) = dcr_values d"
  by (simp_all add: make_sample_def NewSample_def)

text \<open>The sample and the reason of an abort come from the same readings.\<close>

lemma sampleAt_result:
  "\<exists>now ts d rd r1. sampleAt S phase written due r =
     (fst (check_limits S d rd r1), make_sample S now ts phase written d rd, snd (check_limits S d rd r1)) \<and>
     rn_Abort r1 = rn_Abort r \<and> rn_hot r1 = rn_hot r"
proof -
  obtain w now where n: "e_Now (su_Env S) (rn_world r) = (w, now)" by fastforce
  obtain r1 ts where t: "sample_ts S phase due now (r\<lparr> rn_world := w \<rparr>) = (r1, ts)" by fastforce
  obtain r2 d where d: "read_regs S r1 = (r2, d)" by fastforce
  obtain w3 rd where rd: "e_Read (su_Env S) (rn_world r2) = (w3, rd)" by fastforce
  let ?s = "make_sample S now ts phase written d rd"
  let ?r = "record_sample S ?s (r2\<lparr> rn_world := w3 \<rparr>)"
  have "rn_Abort r1 = rn_Abort r" using sample_ts_sel(1) [of S phase due now "r\<lparr> rn_world := w \<rparr>"] unfolding t by simp
  moreover have "rn_hot r1 = rn_hot r"
    using t by (auto simp: sample_ts_def Let_def event_def eventAt_def split_beta split: option.splits if_splits)
  moreover have "rn_Abort r2 = rn_Abort r1" "rn_hot r2 = rn_hot r1"
    using d by (auto simp: read_regs_def split_beta split: if_splits)
  ultimately have "rn_Abort ?r = rn_Abort r \<and> rn_hot ?r = rn_hot r" by (simp add: record_sample_def)
  moreover have "sampleAt S phase written due r = (fst (check_limits S d rd ?r), ?s, snd (check_limits S d rd ?r))"
    unfolding sampleAt_def Let_def n prod.case t d rd by (simp add: split_beta)
  ultimately show ?thesis by blast
qed

lemma check_limits_fine:
  "snd (check_limits S d rd r) = [] \<Longrightarrow> hot_limit rd = None \<and> find (tach_stopped d rd) (cf_Tachs (su_Cfg S)) = None"
  by (auto simp: check_limits_def hot_limit_def split_beta split: option.splits if_splits)

lemma sampleAt_fine:
  assumes "sampleAt S phase written due r = (r', s, [])"
  shows "within_limits s"
proof -
  obtain now ts d rd r1 where *: "s = make_sample S now ts phase written d rd" "snd (check_limits S d rd r1) = []"
    using sampleAt_result [of S phase written due r] assms by (metis Pair_inject)
  then have "hot_limit rd = None" using check_limits_fine by blast
  then show ?thesis using *(1) by (simp add: within_limits_def hot_limit_def split: if_splits)
qed

lemma sampleAt_phase: "sampleAt S phase written due r = (r', s, why) \<Longrightarrow> s_Phase s = phase \<and> s_Written s = written"
  using sampleAt_result [of S phase written due r] by auto

section \<open>Holds\<close>

text \<open>What a hold adds: samples of its phase, each handed to the callback in order.\<close>

definition held :: "string \<Rightarrow> int \<Rightarrow> (Sample \<Rightarrow> 'a \<Rightarrow> 'a) \<Rightarrow> 'w runner \<Rightarrow> 'a \<Rightarrow> 'w runner \<Rightarrow> 'a \<Rightarrow> Sample list \<Rightarrow> bool" where
  "held phase written each r acc r' acc' ss \<longleftrightarrow>
     rn_Samples r' = rn_Samples r @ ss \<and> acc' = fold each ss acc \<and>
     (\<forall>s \<in> set ss. s_Phase s = phase \<and> s_Written s = written)"

lemma held_step:
  "held phase written each r1 (each s acc) r' acc' ss \<Longrightarrow> rn_Samples r1 = rn_Samples r @ [s] \<Longrightarrow>
     s_Phase s = phase \<Longrightarrow> s_Written s = written \<Longrightarrow> held phase written each r acc r' acc' (s # ss)"
  by (simp add: held_def)

lemma stop_sel [simp]: "rn_Samples (stop S reason r) = rn_Samples r"
  "rn_Abort (stop S reason r) = (if rn_Abort r = [] then reason else rn_Abort r)"
  by (simp_all add: stop_def)

lemma next_slot_sel [simp]: "rn_Samples (fst (next_slot S anchor n k r)) = rn_Samples r"
  "rn_Abort (fst (next_slot S anchor n k r)) = rn_Abort r"
  by (simp_all add: next_slot_def Let_def split_beta)

lemma hold_slot_some:
  assumes "hold_slot S due phase written r = (r1, Some (s, why))"
  shows "rn_Samples r1 = rn_Samples r @ [s]" "rn_Abort r1 = rn_Abort r" "s_Phase s = phase" "s_Written s = written"
    "why = [] \<Longrightarrow> within_limits s"
proof -
  define q where "q = r\<lparr> rn_world := fst (e_Sleep (su_Env S) False (let d = due - snd (e_Now (su_Env S) (rn_world r)) in if d < 0 then 0 else d)
     (fst (e_Now (su_Env S) (rn_world r)))) \<rparr>"
  have q: "sampleAt S phase written (Some due) q = (r1, s, why)" "rn_Samples q = rn_Samples r" "rn_Abort q = rn_Abort r"
    using assms unfolding hold_slot_def Let_def split_beta q_def by (simp_all add: prod_eq_iff split: if_splits)
  then show "rn_Samples r1 = rn_Samples r @ [s]" "rn_Abort r1 = rn_Abort r"
    using sampleAt_sel(1,9) [of S phase written "Some due" q] by simp_all
  show "s_Phase s = phase" "s_Written s = written" using sampleAt_phase [OF q(1)] by simp_all
  show "why = [] \<Longrightarrow> within_limits s" using sampleAt_fine q(1) by blast
qed

lemma hold_slot_none:
  "hold_slot S due phase written r = (r1, None) \<Longrightarrow> rn_Samples r1 = rn_Samples r \<and> rn_Abort r1 \<noteq> []"
  by (auto simp: hold_slot_def Let_def split_beta split: if_splits)

lemma hold_loop_held:
  assumes "hold_loop S anchor phase written n each k r acc = (r', acc', ok)"
  shows "\<exists>ss. held phase written each r acc r' acc' ss \<and> (\<not> ok \<longrightarrow> rn_Abort r' \<noteq> []) \<and>
    (ok \<longrightarrow> rn_Abort r' = rn_Abort r \<and> list_all within_limits ss \<and> (k \<le> n \<longrightarrow> ss \<noteq> []) \<and> int (length ss) \<le> max 0 (n + 1 - k))"
  using assms
proof (induction "nat (n + 1 - k)" arbitrary: k r acc rule: less_induct)
  case less
  show ?case
  proof (cases "k > n")
    case True
    then have "r' = r" "acc' = acc" "ok" using less.prems by (simp_all add: hold_loop.simps)
    then show ?thesis using True by (intro exI [of _ "[]"]) (simp add: held_def)
  next
    case False
    obtain r1 x where h: "hold_slot S (anchor + k * cf_Sample (su_Cfg S)) phase written r = (r1, x)" by fastforce
    show ?thesis
    proof (cases x)
      case None
      then have "r' = r1" "acc' = acc" "\<not> ok" using less.prems False h by (simp_all add: hold_loop.simps)
      then show ?thesis using hold_slot_none [OF h [unfolded None]] by (intro exI [of _ "[]"]) (simp add: held_def)
    next
      case (Some sa)
      obtain s why where sa: "sa = (s, why)" by fastforce
      note f = hold_slot_some [OF h [unfolded Some sa]]
      obtain r2 k2 where n2: "next_slot S anchor n k r1 = (r2, k2)" by fastforce
      have s2: "rn_Samples r2 = rn_Samples r @ [s]" "rn_Abort r2 = rn_Abort r"
        using next_slot_sel [of S anchor n k r1] n2 f(1,2) by simp_all
      show ?thesis
      proof (cases "why = []")
        case True
        have rec: "hold_loop S anchor phase written n each k2 r2 (each s acc) = (r', acc', ok)"
          using less.prems False h Some sa True n2 by (simp add: hold_loop.simps [of _ _ _ _ _ _ k])
        have k2: "k < k2" using next_slot_gt [OF n2] .
        then have "nat (n + 1 - k2) < nat (n + 1 - k)" using False by simp
        from less.hyps [OF this rec] obtain ss where ss: "held phase written each r2 (each s acc) r' acc' ss"
          "\<not> ok \<longrightarrow> rn_Abort r' \<noteq> []"
          "ok \<longrightarrow> rn_Abort r' = rn_Abort r2 \<and> list_all within_limits ss \<and> int (length ss) \<le> max 0 (n + 1 - k2)" by blast
        show ?thesis
          using held_step [OF ss(1) s2(1) f(3,4)] ss(2,3) s2(2) f(5) True k2 False by (intro exI [of _ "s # ss"]) auto
      next
        case no: False
        then have e: "r' = stop S why r1" "acc' = each s acc" "\<not> ok"
          using less.prems False h Some sa by (simp_all add: hold_loop.simps [of _ _ _ _ _ _ k])
        then show ?thesis using f no by (intro exI [of _ "[s]"]) (simp add: held_def)
      qed
    qed
  qed
qed

lemma holdFrom_held:
  assumes "holdFrom S anchor phase written d each r acc = (r', acc', ok)"
  shows "\<exists>ss. held phase written each r acc r' acc' ss \<and> (\<not> ok \<longrightarrow> rn_Abort r' \<noteq> []) \<and>
    (ok \<longrightarrow> rn_Abort r' = rn_Abort r \<and> list_all within_limits ss \<and> ss \<noteq> [] \<and>
       int (length ss) \<le> max 1 (go_quot d (cf_Sample (su_Cfg S))))"
proof -
  let ?n = "max 1 (go_quot d (cf_Sample (su_Cfg S)))"
  have "hold_loop S anchor phase written ?n each 1 r acc = (r', acc', ok)"
    using assms by (auto simp: holdFrom_def Let_def max_def split: if_splits)
  moreover have "max 0 (?n + 1 - 1) = ?n" "1 \<le> ?n" by simp_all
  ultimately show ?thesis using hold_loop_held [of S anchor phase written ?n each 1 r acc r' acc' ok] by auto
qed

lemma hold_held:
  assumes "hold S phase written d each r acc = (r', acc', ok)"
  shows "\<exists>ss. held phase written each r acc r' acc' ss \<and> (\<not> ok \<longrightarrow> rn_Abort r' \<noteq> []) \<and>
    (ok \<longrightarrow> rn_Abort r' = rn_Abort r \<and> list_all within_limits ss \<and> ss \<noteq> [] \<and>
       int (length ss) \<le> max 1 (go_quot d (cf_Sample (su_Cfg S))))"
proof -
  obtain w now where "e_Now (su_Env S) (rn_world r) = (w, now)" by fastforce
  then have "holdFrom S now phase written d each (r\<lparr> rn_world := w \<rparr>) acc = (r', acc', ok)"
    using assms by (simp add: hold_def)
  from holdFrom_held [OF this] show ?thesis by (simp add: held_def)
qed

section \<open>The commands of a mapping\<close>

text \<open>The commands of a trace, without the calls of the hook.\<close>

definition is_command :: "cmd \<Rightarrow> bool" where
  "is_command c = (case c of CBefore _ \<Rightarrow> False | _ \<Rightarrow> True)"

definition commands_of :: "cmd list \<Rightarrow> cmd list" where
  "commands_of tr = filter is_command tr"

lemma commands_of_simps [simp]:
  "commands_of [] = []" "commands_of (a @ b) = commands_of a @ commands_of b"
  "commands_of (c # b) = (if is_command c then c # commands_of b else commands_of b)"
  by (simp_all add: commands_of_def)

lemma is_command_simps [simp]:
  "\<not> is_command (CBefore b)" "is_command (CManual ch b)" "is_command (CDuty ch d b)" "is_command (CAuto ch b)"
  "is_command (CRestore ch b)"
  by (simp_all add: is_command_def)

text \<open>Sampling, events and holds command nothing.\<close>

interpretation quiet_trace: quiet_steps "traced_setup S" "\<lambda>r. trace r = tr" for S :: "'w Setup" and tr
  by unfold_locales (simp_all add: trace_fold)

lemma firstWrite_commands:
  "commands_of (trace (fst (firstWrite (traced_setup S) r))) = commands_of (trace r)"
  by (cases "su_BeforeWrite S")
    (auto simp: firstWrite_def traced_setup_def split_beta trace_def split: option.split)

lemma write_commands:
  assumes "write_duty (traced_setup S) ch d r = (r', Inr t)"
  shows "commands_of (trace r') = commands_of (trace r) @ [CDuty ch d True]"
proof -
  obtain r1 where f: "firstWrite (traced_setup S) r = (r1, None)" "MinDuty \<le> d" "d \<le> 255"
    using assms by (auto simp: write_duty_def split: if_splits option.splits prod.splits)
  obtain w e where w: "e_WriteDuty (su_Env (traced_setup S)) ch d (rn_world (touch ch r1)) = (w, e)" by fastforce
  then have e: "e = None" "r' = fst (eventAt (traced_setup S) (EventWrite ch d @ tag (traced_setup S)) ((touch ch r1)\<lparr> rn_world := w \<rparr>))"
    using assms f by (auto simp: write_duty_def Let_def split_beta split: option.splits)
  have "snd w = trace r1 @ [CDuty ch d True]"
    using traced_sel(7) [of S ch d "rn_world (touch ch r1)"] unfolding w e(1) by (simp add: trace_fold)
  moreover have "commands_of (trace r1) = commands_of (trace r)" using firstWrite_commands [of S r] f(1) by simp
  ultimately show ?thesis unfolding e(2) by simp
qed

lemma manual_commands:
  assumes "manual (traced_setup S) ch r = (r', None)"
  shows "commands_of (trace r') = commands_of (trace r) @ [CManual ch True]"
proof -
  obtain r1 where f: "firstWrite (traced_setup S) r = (r1, None)"
    using assms by (auto simp: manual_def split: if_splits option.splits prod.splits)
  obtain w e where w: "e_EnterManual (su_Env (traced_setup S)) ch (rn_world (touch ch r1)) = (w, e)" by fastforce
  then have e: "e = None" "trace r' = snd w"
    using assms f by (auto simp: manual_def Let_def split_beta split: option.splits)
  have "snd w = trace r1 @ [CManual ch True]"
    using traced_sel(6) [of S ch "rn_world (touch ch r1)"] unfolding w e(1) by (simp add: trace_fold)
  moreover have "commands_of (trace r1) = commands_of (trace r)" using firstWrite_commands [of S r] f(1) by simp
  ultimately show ?thesis unfolding e(2) by simp
qed

lemma t1_loop_commands:
  "t1_loop (traced_setup S) ch ds r steps = (r', steps', True) \<Longrightarrow>
     commands_of (trace r') = commands_of (trace r) @ map (\<lambda>d. CDuty ch d True) ds"
proof (induction ds arbitrary: r steps)
  case (Cons d ds)
  obtain r1 x where w: "write_duty (traced_setup S) ch d r = (r1, x)" by fastforce
  then obtain tw where x: "x = Inr tw" using Cons.prems by (cases x) auto
  obtain r2 st ok where h: "holdFrom (traced_setup S) tw (PhaseT1Step d) d (cf_Hold (su_Cfg S))
      (AddT1Sample ch (Seconds (tw - rn_start r1))) r1 (new_step d) = (r2, st, ok)" by (metis prod_cases3)
  then have ok: ok and rec: "t1_loop (traced_setup S) ch ds r2 (steps @ [st]) = (r', steps', True)"
    using Cons.prems w x by (auto simp: Let_def split: if_splits)
  have "trace r2 = trace r1" using quiet_trace.holdFrom_keeps [of r1 "trace r1"] h by (metis fst_conv)
  then show ?case using Cons.IH [OF rec] write_commands [OF w [unfolded x]] by simp
qed simp

text \<open>What a restore sends: its own command, or manual mode and 255 after a temperature abort.\<close>

definition restore_cmds :: "int \<Rightarrow> cmd list \<Rightarrow> bool" where
  "restore_cmds ch cs \<longleftrightarrow> (\<exists>b c. cs = [CRestore ch b] \<or> cs = [CManual ch b] \<or> cs = [CManual ch True, CDuty ch 255 c])"

lemma write_hot_trace:
  assumes "write_hot (traced_setup S) ch r = (r', e)"
  shows "\<exists>cs. trace r' = trace r @ cs \<and> restore_cmds ch cs"
proof -
  obtain w1 e1 where m: "e_EnterManual (su_Env (traced_setup S)) ch (rn_world r) = (w1, e1)" by fastforce
  have t1: "snd w1 = trace r @ [CManual ch (e1 = None)]"
    using traced_sel(6) [of S ch "rn_world r"] m by (simp add: trace_fold)
  obtain w2 e2 where d: "e_WriteDuty (su_Env (traced_setup S)) ch 255 w1 = (w2, e2)" by fastforce
  have t2: "snd w2 = snd w1 @ [CDuty ch 255 (e2 = None)]" using traced_sel(7) [of S ch 255 w1] d by simp
  show ?thesis
    using assms m d t1 t2 by (cases e1) (auto simp: write_hot_def restore_cmds_def)
qed

lemma check_hot_trace:
  assumes "check_hot (traced_setup S) ch when why t0 r = Some (r', ok)"
  shows "trace r' = trace r"
  using check_hot_sel [OF assms] by simp

lemma restore_trace:
  assumes "restore_untouch (traced_setup S) ch when r = Some r'"
  shows "\<exists>cs. trace r' = trace r @ cs \<and> restore_cmds ch cs"
proof -
  obtain r1 ok where r1: "restore (traced_setup S) ch when r = Some (r1, ok)" "trace r' = trace r1"
    using assms by (auto simp: restore_untouch_def split: option.splits)
  show ?thesis
  proof (cases "ch = HotChannel r")
    case False
    obtain w e where e: "e_Restore (su_Env (traced_setup S)) ch (rn_world r) = (w, e)" by fastforce
    have "snd w = trace r @ [CRestore ch (restored e)]"
      using traced_sel(9) [of S ch "rn_world r"] e by (simp add: trace_fold)
    moreover have "trace r1 = snd w"
      using r1(1) False e by (cases e rule: option.exhaust; (cases "the e")?) (auto simp: restore_def Let_def)
    ultimately show ?thesis using r1(2) by (auto simp: restore_cmds_def)
  next
    case True
    define b where "b = before_hot (traced_setup S) ch when r"
    obtain w t0 where n: "e_Now (su_Env (traced_setup S)) (rn_world b) = (w, t0)" by fastforce
    have tw: "snd w = trace r" using traced_sel(2) [of S "rn_world b"] unfolding n by (simp add: b_def trace_fold)
    obtain r2 e where wh: "write_hot (traced_setup S) ch (b\<lparr> rn_world := w \<rparr>) = (r2, e)" by fastforce
    obtain cs where cs: "trace r2 = trace r @ cs" "restore_cmds ch cs" using write_hot_trace [OF wh] tw by auto
    note run = r1(1) [unfolded restore_def, unfolded if_P [OF True] restoreHot_def Let_def, folded b_def, unfolded n prod.case wh]
    have "trace r1 = trace r2"
      using run by (cases e) (auto dest!: check_hot_trace)
    then show ?thesis using cs r1(2) by metis
  qed
qed

text \<open>A loop over the duties that stops early leaves the reason of an abort.\<close>

lemma t1_loop_aborted: "t1_loop S ch ds r steps = (r', steps', False) \<Longrightarrow> rn_Abort r' \<noteq> []"
proof (induction ds arbitrary: r steps)
  case (Cons d ds)
  obtain r1 x where w: "write_duty S ch d r = (r1, x)" by fastforce
  show ?case
  proof (cases x)
    case (Inr tw)
    obtain r2 st ok where h: "holdFrom S tw (PhaseT1Step d) d (cf_Hold (su_Cfg S))
        (AddT1Sample ch (Seconds (tw - rn_start r1))) r1 (new_step d) = (r2, st, ok)" by (metis prod_cases3)
    then show ?thesis
      using Cons w Inr holdFrom_held [OF h] by (cases ok) (auto simp: Let_def)
  qed (use Cons.prems w in \<open>auto split: if_splits\<close>)
qed simp

text \<open>The whole mapping: a run that was not aborted wrote every duty of T1, in order.\<close>

lemma RunT1_commands:
  assumes run: "RunT1 (traced_setup S) r = Some (r', res)" and ok: "rn_dcrOK r" "rn_Abort r = []" "rn_Abort r' = []"
  shows "\<exists>cs. restore_cmds (cf_Channel (su_Cfg S)) cs \<and> commands_of (trace r') = commands_of (trace r) @
    CManual (cf_Channel (su_Cfg S)) True # map (\<lambda>d. CDuty (cf_Channel (su_Cfg S)) d True) T1Steps @ cs"
proof -
  define ch where "ch = cf_Channel (su_Cfg S)"
  obtain r1 acc okh where h0: "hold (traced_setup S) PhaseT1Rest (-1) (cf_Hold (su_Cfg S)) (rest_each ch)
      (event (traced_setup S) (''T1 pwm'' @ itoa ch @ '': rest reference'') r) ((\<lambda>_. []), (\<lambda>_. []), (\<lambda>_. [])) = (r1, acc, okh)"
    by (rule prod_cases3)
  obtain rest restIn restDCR where "acc = (rest, restIn, restDCR)" by (rule prod_cases3)
  note h = h0 [unfolded this]
  have tr1: "trace r1 = trace r"
    using quiet_trace.hold_keeps [OF quiet_trace.event_keeps [OF refl [of "trace r"]]] h by (metis fst_conv)
  obtain r2 e where m: "manual (traced_setup S) ch r1 = (r2, e)" by fastforce
  obtain r3 steps ok3 where t: "t1_loop (traced_setup S) ch T1Steps r2 [] = (r3, steps, ok3)" by (metis prod_cases3)
  note run' = run [unfolded RunT1_def Let_def traced_sel(1), folded ch_def, unfolded h m t prod.case]
  have all: "okh \<and> e = None \<and> ok3"
  proof (rule ccontr)
    assume no: "\<not> (okh \<and> e = None \<and> ok3)"
    show False
    proof (cases okh)
      case True
      then show False using no run' ok t1_loop_aborted [of "traced_setup S" ch T1Steps r2 "[]"] t m
        by (cases e; cases ok3) (auto split: if_splits)
    next
      case False
      then show False using run' ok hold_held [OF h] by auto
    qed
  qed
  then obtain r4 where r4: "restore_untouch (traced_setup S) ch '' after T1'' (event (traced_setup S) EventT1Complete r3) = Some r4"
    "r' = r4"
    using run' ok all by (auto split: option.splits)
  obtain cs where cs: "trace r4 = trace r3 @ cs" "restore_cmds ch cs" using restore_trace [OF r4(1)] by auto
  have "commands_of cs = cs" using cs(2) by (auto simp: restore_cmds_def)
  then show ?thesis unfolding ch_def [symmetric]
    using cs r4(2) tr1 manual_commands [of S ch r1 r2] m t1_loop_commands [of S ch T1Steps r2 "[]" r3 steps] t
      all by (intro exI [of _ cs]) simp
qed

section \<open>A temperature abort\<close>

lemma write_hot_result:
  assumes "write_hot (traced_setup S) ch r = (r', e)"
  shows "trace r' = trace r @ (if e = None then [CManual ch True, CDuty ch 255 True]
      else if trace r' = trace r @ [CManual ch False] then [CManual ch False] else [CManual ch True, CDuty ch 255 False])"
    and "rn_touched r' = rn_touched r" "rn_RestoreOverrides r' = rn_RestoreOverrides r"
proof -
  obtain w1 e1 where m: "e_EnterManual (su_Env (traced_setup S)) ch (rn_world r) = (w1, e1)" by fastforce
  have t1: "snd w1 = trace r @ [CManual ch (e1 = None)]"
    using traced_sel(6) [of S ch "rn_world r"] unfolding m by (simp add: trace_fold)
  obtain w2 e2 where d: "e_WriteDuty (su_Env (traced_setup S)) ch 255 w1 = (w2, e2)" by fastforce
  have t2: "snd w2 = snd w1 @ [CDuty ch 255 (e2 = None)]" using traced_sel(7) [of S ch 255 w1] unfolding d by simp
  show "trace r' = trace r @ (if e = None then [CManual ch True, CDuty ch 255 True]
      else if trace r' = trace r @ [CManual ch False] then [CManual ch False] else [CManual ch True, CDuty ch 255 False])"
    "rn_touched r' = rn_touched r" "rn_RestoreOverrides r' = rn_RestoreOverrides r"
    using assms m d t1 t2 by (auto simp: write_hot_def split: option.splits)
qed

lemma before_hot_fields [simp]:
  "rn_touched (before_hot S ch when r) = rn_touched r" "rn_RestoreOverrides (before_hot S ch when r) = rn_RestoreOverrides r"
  by (simp_all add: before_hot_def split_beta split: option.split)

text \<open>The restore of the hot channel: it is done exactly when both writes succeeded.\<close>

lemma restoreHot_result:
  assumes "restoreHot (traced_setup S) ch when r = Some (r', ok)"
  shows "rn_touched r' = rn_touched r"
    and "ok \<Longrightarrow> trace r' = trace r @ [CManual ch True, CDuty ch 255 True] \<and> rn_RestoreOverrides r' ch = hot_why (rn_hotWhy r)"
    and "\<not> ok \<Longrightarrow> trace r' \<noteq> trace r @ [CManual ch True, CDuty ch 255 True]"
proof -
  define b where "b = before_hot (traced_setup S) ch when r"
  obtain w t0 where n: "e_Now (su_Env (traced_setup S)) (rn_world b) = (w, t0)" by fastforce
  have tw: "snd w = trace r" using traced_sel(2) [of S "rn_world b"] unfolding n by (simp add: b_def trace_fold)
  obtain r2 e where wh: "write_hot (traced_setup S) ch (b\<lparr> rn_world := w \<rparr>) = (r2, e)" by fastforce
  note f = write_hot_result [OF wh]
  note run = assms [unfolded restoreHot_def Let_def, folded b_def, unfolded n prod.case wh]
  have "rn_touched r' = rn_touched r \<and>
    (ok \<longrightarrow> trace r' = trace r @ [CManual ch True, CDuty ch 255 True] \<and> rn_RestoreOverrides r' ch = hot_why (rn_hotWhy r)) \<and>
    (\<not> ok \<longrightarrow> trace r' \<noteq> trace r @ [CManual ch True, CDuty ch 255 True])"
  proof (cases e)
    case None
    define r3 where "r3 = r2\<lparr> rn_RestoreOverrides := (rn_RestoreOverrides r2)(ch := hot_why (rn_hotWhy r)),
       rn_restoreErr := (rn_restoreErr r2)(ch := []) \<rparr>"
    have "check_hot (traced_setup S) ch when (hot_why (rn_hotWhy r)) t0 r3 = Some (r', ok)"
      using run None by (simp add: r3_def)
    note c = check_hot_sel [OF this]
    then show ?thesis using f None tw by (simp add: r3_def b_def)
  next
    case (Some x)
    then have "\<not> ok" "rn_touched r' = rn_touched r2" "trace r' = trace r2" using run by auto
    moreover have "trace r2 \<noteq> trace r @ [CManual ch True, CDuty ch 255 True]"
      using f(1) Some tw by (auto split: if_splits)
    ultimately show ?thesis using f(2) by (simp add: b_def)
  qed
  then show "rn_touched r' = rn_touched r"
    "ok \<Longrightarrow> trace r' = trace r @ [CManual ch True, CDuty ch 255 True] \<and> rn_RestoreOverrides r' ch = hot_why (rn_hotWhy r)"
    "\<not> ok \<Longrightarrow> trace r' \<noteq> trace r @ [CManual ch True, CDuty ch 255 True]" by blast+
qed

end
