(* ===== verification/Sim.thy ===== *)
theory Sim
  imports Runner_State
begin

text \<open>
  The model of the embedded controller the program rehearses on (--dry-run):
  src/ectest/internal/sim/sim.go. The world of the runner is the model and whether the run's
  context was cancelled; the hook \<open>OnSleep\<close> may change both. The zero \<open>time.Time\<close> of
  \<open>autoAt\<close> is \<open>None\<close>, an unset pending write is \<open>None\<close>. The mutex is not modelled: every
  method holds it to its end, so the methods are atomic.
\<close>

section \<open>The model\<close>

record Sim =
  sm_now :: nanos
  sm_dcr :: "int \<Rightarrow> int"
  sm_manual :: "int \<Rightarrow> bool"
  sm_autoAt :: "int \<Rightarrow> nanos option"
  sm_AutoValue :: "int \<Rightarrow> int"
  sm_AutoDelay :: "int \<Rightarrow> nanos"
  sm_KeepOnAuto :: "int \<Rightarrow> bool"
  sm_Oscillate :: "int \<Rightarrow> bool"
  sm_KeepDCR4OnAuto :: bool
  sm_StopDuty :: "int \<Rightarrow> int"
  sm_RestoreErr :: "int \<Rightarrow> restore_error option"
  sm_Tctl :: fl
  sm_NVMe :: fl
  sm_HDD :: fl
  sm_ECCPU :: fl
  sm_ECSys :: fl
  sm_ECBoard :: fl
  sm_ECAmb :: fl
  sm_Load1 :: fl
  sm_NoDCR :: bool
  sm_Writes :: int
  sm_Log :: "string list"
  sm_sleeps :: int
  sm_ReadLatency :: nanos
  sm_WriteLag :: "int \<Rightarrow> nanos"
  sm_pend :: "int \<Rightarrow> (int \<times> nanos) option"

text \<open>The outcome of a method that may panic.\<close>

datatype sim_result = SimOk | SimErr string | SimPanic string

definition dcrIndex :: "int \<Rightarrow> int" where
  "dcrIndex ch = (case ChannelDCR ch of None \<Rightarrow> 0 | Some n \<Rightarrow> n)"

definition regsOf :: "int \<Rightarrow> int list" where
  "regsOf ch = (if ch = 3 then [3, 4] else [dcrIndex ch])"

definition write_reg :: "int \<Rightarrow> int \<Rightarrow> Sim \<Rightarrow> Sim" where
  "write_reg v n s =
     (if sm_WriteLag s n > 0 then s\<lparr> sm_pend := (sm_pend s)(n \<mapsto> (v, sm_now s + sm_WriteLag s n)) \<rparr>
      else s\<lparr> sm_pend := (sm_pend s)(n := None), sm_dcr := (sm_dcr s)(n := v) \<rparr>)"

definition writeDCR :: "int \<Rightarrow> int \<Rightarrow> Sim \<Rightarrow> Sim" where
  "writeDCR ch v s = fold (write_reg v) (regsOf ch) s"

definition New :: "nanos \<Rightarrow> Sim" where
  "New start =
     \<lparr> sm_now = start, sm_dcr = (\<lambda>_. 0)(1 := 0x55, 2 := 0x4a, 3 := 0x8c, 4 := 0x8c, 5 := 0x8c),
       sm_manual = (\<lambda>_. False), sm_autoAt = (\<lambda>_. None),
       sm_AutoValue = (\<lambda>_. 0)(1 := 0x55, 2 := 0x4a, 3 := 0x57, 4 := 0x8c),
       sm_AutoDelay = (\<lambda>_. 0)(1 := 5 * Second, 2 := 5 * Second, 3 := 10 * Second),
       sm_KeepOnAuto = (\<lambda>_. False)(4 := True), sm_Oscillate = (\<lambda>_. False), sm_KeepDCR4OnAuto = False,
       sm_StopDuty = (\<lambda>_. 0)(3 := 140), sm_RestoreErr = (\<lambda>_. None),
       sm_Tctl = Some 40, sm_NVMe = Some 45, sm_HDD = Some 38, sm_ECCPU = Some 37, sm_ECSys = Some 33,
       sm_ECBoard = Some 27, sm_ECAmb = Some 22, sm_Load1 = Some (1 / 5), sm_NoDCR = False, sm_Writes = 0,
       sm_Log = [], sm_sleeps = 0, sm_ReadLatency = 0, sm_WriteLag = (\<lambda>_. 0), sm_pend = (\<lambda>_. None) \<rparr>"

section \<open>Tachs\<close>

definition curves :: "int \<Rightarrow> (rat \<times> rat) list" where
  "curves f =
     (if f = 1 then [(0x55, 2020), (140, 3120), (179, 3830), (217, 4445), (255, 5073)]
      else if f = 2 then [(0x4a, 2170), (140, 3280), (179, 3790), (217, 4230), (255, 4687)]
      else if f = 3 then [(87, 1237), (105, 1650), (140, 2250), (179, 2725), (217, 3160), (255, 3540)]
      else [])"

definition OnlineCPUs :: int where "OnlineCPUs = 24"

text \<open>The loop over the pairs of neighbouring points of the curve.\<close>

fun interp_from :: "(rat \<times> rat) list \<Rightarrow> rat \<Rightarrow> rat" where
  "interp_from (a # b # c) x =
     (if x \<le> fst b then snd a + (snd b - snd a) * (x - fst a) / (fst b - fst a) else interp_from (b # c) x)"
| "interp_from [a] x = snd a"
| "interp_from [] x = 0"

definition interp :: "(rat \<times> rat) list \<Rightarrow> rat \<Rightarrow> rat" where
  "interp c x = (if x \<le> fst (hd c) then snd (hd c) * x / fst (hd c) else interp_from c x)"

definition RPM :: "int \<Rightarrow> int \<Rightarrow> int" where
  "RPM f duty = (if curves f = [] then 0 else round_away (interp (curves f) (of_int duty)))"

section \<open>Time\<close>

definition setDCR :: "int \<Rightarrow> int \<Rightarrow> Sim \<Rightarrow> Sim" where
  "setDCR ch v s =
     s\<lparr> sm_dcr := (let d = (sm_dcr s)(dcrIndex ch := v) in if ch = 3 then d(4 := v) else d) \<rparr>"

definition settle_pend :: "int \<Rightarrow> Sim \<Rightarrow> Sim" where
  "settle_pend n s =
     (case sm_pend s n of None \<Rightarrow> s
      | Some (v, t) \<Rightarrow>
          if sm_now s \<ge> t then s\<lparr> sm_dcr := (sm_dcr s)(n := v), sm_pend := (sm_pend s)(n := None) \<rparr> else s)"

text \<open>The oscillation: an odd number of whole 5 s periods (Go's \<open>%\<close> of a negative number is not 1).\<close>

definition odd_period :: "nanos \<Rightarrow> bool" where
  "odd_period el \<longleftrightarrow> (let q = go_quot el (5 * Second) in 0 \<le> q \<and> q mod 2 = 1)"

definition settle_auto :: "int \<Rightarrow> Sim \<Rightarrow> Sim" where
  "settle_auto ch s =
     (case sm_autoAt s ch of None \<Rightarrow> s
      | Some t \<Rightarrow>
          if sm_manual s ch \<or> sm_KeepOnAuto s ch then s
          else
            (let el = sm_now s - t
             in if el \<ge> sm_AutoDelay s ch
                then (let v = sm_AutoValue s ch;
                          v = (if sm_Oscillate s ch \<and> odd_period el then v + 20 else v)
                      in if ch = 3 \<and> sm_KeepDCR4OnAuto s then s\<lparr> sm_dcr := (sm_dcr s)(3 := v) \<rparr> else setDCR ch v s)
                else s))"

definition settle :: "Sim \<Rightarrow> Sim" where
  "settle s = fold settle_auto [1, 2, 3, 4] (fold settle_pend [0, 1, 2, 3, 4, 5, 6, 7] s)"

section \<open>The methods\<close>

type_synonym sim_world = "Sim \<times> bool"

text \<open>\<open>ctx.Err()\<close>: the background context is never cancelled.\<close>

definition ctx_err :: "bool \<Rightarrow> sim_world \<Rightarrow> bool" where
  "ctx_err bg w \<longleftrightarrow> \<not> bg \<and> snd w"

definition Sim_Sleep :: "(int \<Rightarrow> sim_world \<Rightarrow> sim_world) option \<Rightarrow> bool \<Rightarrow> nanos \<Rightarrow> sim_world \<Rightarrow> sim_world \<times> bool" where
  "Sim_Sleep hook bg d w =
     (if ctx_err bg w then (w, False)
      else
        (let s = settle ((fst w)\<lparr> sm_now := sm_now (fst w) + d \<rparr>);
             s = s\<lparr> sm_sleeps := sm_sleeps s + 1 \<rparr>;
             w' = (case hook of None \<Rightarrow> (s, snd w) | Some f \<Rightarrow> f (sm_sleeps s) (s, snd w))
         in (w', \<not> ctx_err bg w')))"

definition sim_no_channel :: "int \<Rightarrow> string" where
  [text_defs]: "sim_no_channel ch = ''sim: no pwm'' @ itoa ch"

definition Sim_EnterManual :: "int \<Rightarrow> Sim \<Rightarrow> Sim \<times> sim_result" where
  "Sim_EnterManual ch s =
     (if ch < 1 \<or> ch > 4 then (s, SimErr (sim_no_channel ch))
      else
        (let s1 = s\<lparr> sm_Log := sm_Log s @ [''pwm'' @ itoa ch @ ''_enable=1''] \<rparr>
         in (if \<not> sm_manual s1 ch then writeDCR ch 255 (s1\<lparr> sm_manual := (sm_manual s1)(ch := True) \<rparr>) else s1, SimOk)))"

definition sim_busy :: "int \<Rightarrow> string" where
  [text_defs]: "sim_busy ch = ''sim: pwm'' @ itoa ch @ '' not in manual mode (EBUSY)''"

definition sim_low :: "int \<Rightarrow> int \<Rightarrow> string" where
  [text_defs]: "sim_low duty ch = ''sim: duty '' @ itoa duty @ '' below 100 written to pwm'' @ itoa ch"

definition index_panic :: sim_result where
  [text_defs]: "index_panic = SimPanic ''index out of range''"

definition Sim_WriteDuty :: "int \<Rightarrow> int \<Rightarrow> Sim \<Rightarrow> Sim \<times> sim_result" where
  "Sim_WriteDuty ch duty s =
     (if ch < 0 \<or> ch > 4 then (s, index_panic)
      else if \<not> sm_manual s ch then (s, SimErr (sim_busy ch))
      else if duty < 100 then (s, SimPanic (sim_low duty ch))
      else (writeDCR ch duty (s\<lparr> sm_Writes := sm_Writes s + 1,
               sm_Log := sm_Log s @ [''pwm'' @ itoa ch @ ''='' @ itoa duty] \<rparr>), SimOk))"

definition drop_pend :: "int \<Rightarrow> int \<Rightarrow> Sim \<Rightarrow> Sim" where
  "drop_pend ch n s = (if \<not> sm_KeepOnAuto s ch then s\<lparr> sm_pend := (sm_pend s)(n := None) \<rparr> else s)"

definition Sim_Auto :: "int \<Rightarrow> Sim \<Rightarrow> Sim \<times> sim_result" where
  "Sim_Auto ch s =
     (if ch < 0 \<or> ch > 4 then (s\<lparr> sm_Log := sm_Log s @ [''pwm'' @ itoa ch @ ''_enable=2''] \<rparr>, index_panic)
      else
        (let s1 = s\<lparr> sm_Log := sm_Log s @ [''pwm'' @ itoa ch @ ''_enable=2''] \<rparr>;
             s2 = fold (drop_pend ch) (regsOf ch) s1
         in (settle (s2\<lparr> sm_manual := (sm_manual s2)(ch := False), sm_autoAt := (sm_autoAt s2)(ch \<mapsto> sm_now s2) \<rparr>), SimOk)))"

definition restore_outcome :: "sim_result \<Rightarrow> restore_error option" where
  "restore_outcome r = (case r of SimOk \<Rightarrow> None | SimErr e \<Rightarrow> Some (NotRestored e) | SimPanic e \<Rightarrow> Some (NotRestored e))"

definition Sim_Restore :: "int \<Rightarrow> Sim \<Rightarrow> Sim \<times> restore_error option" where
  "Sim_Restore ch s =
     (if ch < 0 \<or> ch > 4 then (s, restore_outcome index_panic)
      else case sm_RestoreErr s ch of
        Some e \<Rightarrow> (s, Some e)
      | None \<Rightarrow>
          if sm_StopDuty s ch = 0 then (case Sim_Auto ch s of (s', r) \<Rightarrow> (s', restore_outcome r))
          else (case Sim_EnterManual ch s of
                  (s', SimOk) \<Rightarrow> (case Sim_WriteDuty ch (sm_StopDuty s ch) s' of (s'', r) \<Rightarrow> (s'', restore_outcome r))
                | (s', r) \<Rightarrow> (s', restore_outcome r)))"

definition Sim_DCR :: "Sim \<Rightarrow> string + DCR" where
  "Sim_DCR s =
     (if sm_NoDCR s then Inl ''sim: debugfs dcr not present''
      else Inr ([0, 0xff] @ map (\<lambda>i. word_of_int (sm_dcr s i)) [0, 1, 2, 3, 4, 5, 6, 7] @ replicate 6 0))"

definition Sim_Read :: "Sim \<Rightarrow> Sim \<times> Readings" where
  "Sim_Read s =
     (let s1 = (if sm_ReadLatency s > 0 then settle (s\<lparr> sm_now := sm_now s + sm_ReadLatency s \<rparr>) else s)
      in (s1, \<lparr> rd_Fan = (\<lambda>f. if f = 1 \<or> f = 2 \<or> f = 3 then Some (RPM f (sm_dcr s1 f)) else None),
                rd_Tctl = sm_Tctl s1, rd_NVMeMax = sm_NVMe s1, rd_HDDMax = sm_HDD s1, rd_ECCPU = sm_ECCPU s1,
                rd_ECSys = sm_ECSys s1, rd_ECBoard = sm_ECBoard s1, rd_ECAmb = sm_ECAmb s1, rd_Load1 = sm_Load1 s1 \<rparr>))"

section \<open>The interface of the runner\<close>

text \<open>A panic ends the program; here it is an error of the method.\<close>

definition result_error :: "sim_result \<Rightarrow> string option" where
  "result_error r = (case r of SimOk \<Rightarrow> None | SimErr e \<Rightarrow> Some e | SimPanic e \<Rightarrow> Some e)"

definition on_sim :: "(Sim \<Rightarrow> Sim \<times> 'b) \<Rightarrow> ('b \<Rightarrow> 'c) \<Rightarrow> sim_world \<Rightarrow> sim_world \<times> 'c" where
  "on_sim f g w = (case f (fst w) of (s, x) \<Rightarrow> ((s, snd w), g x))"

definition sim_env :: "(int \<Rightarrow> sim_world \<Rightarrow> sim_world) option \<Rightarrow> sim_world Env" where
  "sim_env hook =
     \<lparr> e_Now = (\<lambda>w. (w, sm_now (fst w))), e_Sleep = Sim_Sleep hook,
       e_EnterManual = (\<lambda>ch. on_sim (Sim_EnterManual ch) result_error),
       e_WriteDuty = (\<lambda>ch duty. on_sim (Sim_WriteDuty ch duty) result_error),
       e_Auto = (\<lambda>ch. on_sim (Sim_Auto ch) result_error),
       e_Restore = (\<lambda>ch. on_sim (Sim_Restore ch) id),
       e_DCR = (\<lambda>w. (w, Sim_DCR (fst w))), e_Read = on_sim Sim_Read id \<rparr>"

section \<open>Facts\<close>

lemma settle_pend_now [simp]: "sm_now (settle_pend n s) = sm_now s"
  by (simp add: settle_pend_def split: option.split prod.split)

lemma settle_auto_now [simp]: "sm_now (settle_auto ch s) = sm_now s"
  by (simp add: settle_auto_def Let_def setDCR_def split: option.split)

lemma settle_now [simp]: "sm_now (settle s) = sm_now s"
  by (simp add: settle_def)

text \<open>The clock of the model only moves by the sleeps and the read latency.\<close>

interpretation sim_clock: clock "wait_env_of (sim_env None)" "\<lambda>w. sm_now (fst w)"
proof
  fix w w' :: sim_world and t :: nanos
  assume "we_now (wait_env_of (sim_env None)) w = (w', t)"
  then show "sm_now (fst w) \<le> t \<and> t \<le> sm_now (fst w')" by (auto simp: wait_env_of_def sim_env_def)
next
  fix w w' :: sim_world and r
  assume "we_read (wait_env_of (sim_env None)) w = (w', r)"
  then show "sm_now (fst w) \<le> sm_now (fst w')" by (auto simp: wait_env_of_def sim_env_def)
next
  fix w w' :: sim_world and d :: nanos
  assume "we_sleep (wait_env_of (sim_env None)) d w = (w', True)" "0 \<le> d"
  then show "sm_now (fst w) + d \<le> sm_now (fst w')"
    by (auto simp: wait_env_of_def sim_env_def Sim_Sleep_def ctx_err_def Let_def)
qed

text \<open>Which fields the settling leaves alone, and what it does to a register.\<close>

lemma settle_pend_sel [simp]:
  "sm_manual (settle_pend n s) = sm_manual s" "sm_autoAt (settle_pend n s) = sm_autoAt s"
  "sm_AutoValue (settle_pend n s) = sm_AutoValue s" "sm_AutoDelay (settle_pend n s) = sm_AutoDelay s"
  "sm_KeepOnAuto (settle_pend n s) = sm_KeepOnAuto s" "sm_Oscillate (settle_pend n s) = sm_Oscillate s"
  "sm_KeepDCR4OnAuto (settle_pend n s) = sm_KeepDCR4OnAuto s"
  by (simp_all add: settle_pend_def split: option.split prod.split)

lemma settle_auto_sel [simp]:
  "sm_manual (settle_auto n s) = sm_manual s" "sm_autoAt (settle_auto n s) = sm_autoAt s"
  "sm_AutoValue (settle_auto n s) = sm_AutoValue s" "sm_AutoDelay (settle_auto n s) = sm_AutoDelay s"
  "sm_KeepOnAuto (settle_auto n s) = sm_KeepOnAuto s" "sm_Oscillate (settle_auto n s) = sm_Oscillate s"
  "sm_KeepDCR4OnAuto (settle_auto n s) = sm_KeepDCR4OnAuto s" "sm_pend (settle_auto n s) = sm_pend s"
  by (simp_all add: settle_auto_def Let_def setDCR_def split: option.split)

lemma settle_sel [simp]:
  "sm_manual (settle s) = sm_manual s" "sm_autoAt (settle s) = sm_autoAt s"
  "sm_AutoValue (settle s) = sm_AutoValue s" "sm_AutoDelay (settle s) = sm_AutoDelay s"
  "sm_KeepOnAuto (settle s) = sm_KeepOnAuto s" "sm_Oscillate (settle s) = sm_Oscillate s"
  "sm_KeepDCR4OnAuto (settle s) = sm_KeepDCR4OnAuto s"
  by (simp_all add: settle_def)

lemma dcrIndex_simps [simp]: "dcrIndex 1 = 1" "dcrIndex 2 = 2" "dcrIndex 3 = 3" "dcrIndex 4 = 5"
  by (simp_all add: dcrIndex_def ChannelDCR_def)

text \<open>The channels whose automatic value is in force.\<close>

definition auto_due :: "int \<Rightarrow> Sim \<Rightarrow> bool" where
  "auto_due ch s \<longleftrightarrow> \<not> sm_manual s ch \<and> \<not> sm_KeepOnAuto s ch \<and>
     (case sm_autoAt s ch of None \<Rightarrow> False | Some t \<Rightarrow> sm_AutoDelay s ch \<le> sm_now s - t)"

lemma auto_due_settle [simp]:
  "auto_due ch (settle_auto c s) = auto_due ch s" "auto_due ch (settle_pend n s) = auto_due ch s"
  by (simp_all add: auto_due_def split: option.split)

lemma settle_auto_other: "c \<in> {1, 2, 3, 4} \<Longrightarrow> n \<notin> set (regsOf c) \<Longrightarrow> sm_dcr (settle_auto c s) n = sm_dcr s n"
  by (auto simp: settle_auto_def Let_def setDCR_def regsOf_def split: option.split)

lemma settle_auto_idle: "\<not> auto_due c s \<Longrightarrow> settle_auto c s = s"
  by (auto simp: settle_auto_def auto_due_def Let_def split: option.splits)

lemma settle_auto_value:
  "auto_due c s \<Longrightarrow> \<not> sm_Oscillate s c \<Longrightarrow> \<not> sm_KeepDCR4OnAuto s \<Longrightarrow> n \<in> set (regsOf c) \<Longrightarrow>
     sm_dcr (settle_auto c s) n = sm_AutoValue s c"
  by (auto simp: settle_auto_def auto_due_def Let_def setDCR_def regsOf_def split: option.splits if_splits)

lemma regs_disjoint:
  "c \<in> {1, 2, 3, 4} \<Longrightarrow> ch \<in> {1, 2, 3, 4} \<Longrightarrow> n \<in> set (regsOf ch) \<Longrightarrow> n \<in> set (regsOf c) \<longleftrightarrow> c = ch"
  by (auto simp: regsOf_def split: if_splits)

lemma settle_fold_value:
  assumes "set cs \<subseteq> {1, 2, 3, 4}" "distinct cs" "ch \<in> {1, 2, 3, 4}" "n \<in> set (regsOf ch)"
    "auto_due ch s" "\<not> sm_Oscillate s ch" "\<not> sm_KeepDCR4OnAuto s"
  shows "sm_dcr (fold settle_auto cs s) n = (if ch \<in> set cs then sm_AutoValue s ch else sm_dcr s n)"
  using assms
proof (induction cs arbitrary: s)
  case (Cons c cs)
  then have "sm_dcr (fold settle_auto cs (settle_auto c s)) n =
      (if ch \<in> set cs then sm_AutoValue s ch else sm_dcr (settle_auto c s) n)" by simp
  moreover have "sm_dcr (settle_auto c s) n = (if c = ch then sm_AutoValue s ch else sm_dcr s n)"
    using Cons.prems settle_auto_other [of c n s] settle_auto_value [of ch s n] regs_disjoint [of c ch n] by auto
  ultimately show ?case using Cons.prems(2) by auto
qed simp

lemma settle_value:
  assumes "ch \<in> {1, 2, 3, 4}" "n \<in> set (regsOf ch)" "auto_due ch s" "\<not> sm_Oscillate s ch" "\<not> sm_KeepDCR4OnAuto s"
  shows "sm_dcr (settle s) n = sm_AutoValue s ch"
  using settle_fold_value [of "[1, 2, 3, 4]" ch n "fold settle_pend [0, 1, 2, 3, 4, 5, 6, 7] s"] assms
  by (simp add: settle_def)

text \<open>A channel that keeps its duty: without a pending write nothing changes its registers.\<close>

lemma settle_fold_kept:
  assumes "set cs \<subseteq> {1, 2, 3, 4}" "ch \<in> {1, 2, 3, 4}" "n \<in> set (regsOf ch)" "\<not> auto_due ch s"
  shows "sm_dcr (fold settle_auto cs s) n = sm_dcr s n"
  using assms
proof (induction cs arbitrary: s)
  case (Cons c cs)
  have "sm_dcr (settle_auto c s) n = sm_dcr s n"
    using Cons.prems settle_auto_other [of c n s] settle_auto_idle [of ch s] regs_disjoint [of c ch n] by (cases "c = ch") auto
  then show ?case using Cons by simp
qed simp

lemma settle_pend_other: "sm_pend s n = None \<Longrightarrow> sm_pend (settle_pend m s) n = None \<and> sm_dcr (settle_pend m s) n = sm_dcr s n"
  by (auto simp: settle_pend_def split: option.split prod.split)

lemma settle_kept:
  assumes "ch \<in> {1, 2, 3, 4}" "n \<in> set (regsOf ch)" "\<not> auto_due ch s" "sm_pend s n = None"
  shows "sm_dcr (settle s) n = sm_dcr s n"
proof -
  define s1 where "s1 = fold settle_pend [0, 1, 2, 3, 4, 5, 6, 7] s"
  have "sm_dcr (fold settle_pend ns s) n = sm_dcr s n" if "sm_pend s n = None" for ns s
    using that by (induction ns arbitrary: s) (simp_all add: settle_pend_other)
  then have "sm_dcr s1 n = sm_dcr s n" unfolding s1_def by (simp only: assms(4))
  moreover have "\<not> auto_due ch s1" using assms(3) by (simp add: s1_def)
  ultimately show ?thesis
    using assms(1,2) settle_fold_kept [of "[1, 2, 3, 4]" ch n s1] unfolding settle_def s1_def [symmetric] by simp
qed

lemma settle_pend_none: "sm_pend s n = None \<Longrightarrow> sm_pend (settle s) n = None"
proof -
  assume "sm_pend s n = None"
  then have "sm_pend (fold settle_pend ns s) n = None" for ns
    by (induction ns arbitrary: s) (simp_all add: settle_pend_other)
  moreover have "sm_pend (fold settle_auto cs s') n = sm_pend s' n" for cs s'
    by (induction cs arbitrary: s') simp_all
  ultimately show ?thesis unfolding settle_def by (simp only:)
qed

end
