(* ===== verification/Runner_Examples.thy ===== *)
theory Runner_Examples
  imports Runner_Results Sim
begin

text \<open>
  Two machines on which the properties of the runner are shown to apply: the model of the
  controller (Sim) and a machine on which time passes and nothing else happens.
\<close>

section \<open>Examples\<close>

text \<open>A run of pwm1 on the controller model.\<close>

definition sim_setup :: "sim_world Setup" where
  "sim_setup = \<lparr> su_Env = sim_env None, su_Cfg = SpecConfig 1 1 [1, 2, 3], su_Guard = None, su_OnSample = None,
     su_OnEvent = None, su_BeforeWrite = None, su_BeforeHot = None, su_Tag = '''' \<rparr>"

definition sim_start :: "sim_world traced runner" where
  "sim_start = NewRunner (traced_env (su_Env sim_setup)) ((New 0, False), [])"

lemma traced_sim_clock: "clock (wait_env_of (su_Env (traced_setup sim_setup))) (\<lambda>w. sm_now (fst (fst w)))"
proof
  fix w w' :: "sim_world traced" and t :: nanos
  assume "we_now (wait_env_of (su_Env (traced_setup sim_setup))) w = (w', t)"
  then show "sm_now (fst (fst w)) \<le> t \<and> t \<le> sm_now (fst (fst w'))"
    by (auto simp: wait_env_of_def traced_setup_def traced_env_def sim_setup_def sim_env_def lift_def split_beta)
next
  fix w w' :: "sim_world traced" and r
  assume "we_read (wait_env_of (su_Env (traced_setup sim_setup))) w = (w', r)"
  then show "sm_now (fst (fst w)) \<le> sm_now (fst (fst w'))"
    by (auto simp: wait_env_of_def traced_setup_def traced_env_def sim_setup_def sim_env_def lift_def split_beta)
next
  fix w w' :: "sim_world traced" and d :: nanos
  assume "we_sleep (wait_env_of (su_Env (traced_setup sim_setup))) d w = (w', True)" "0 \<le> d"
  then show "sm_now (fst (fst w)) + d \<le> sm_now (fst (fst w'))"
    by (auto simp: wait_env_of_def traced_setup_def traced_env_def sim_setup_def sim_env_def lift_def split_beta
        Sim_Sleep_def ctx_err_def Let_def)
qed

text \<open>The run of the examples: a write, a stop and the restores.\<close>

definition sim_stopped :: "sim_world traced runner" where
  "sim_stopped = stop (traced_setup sim_setup) ''cancelled (signal)'' sim_start"

lemma sim_closed: "\<exists>r'. Close (traced_setup sim_setup) sim_stopped = Some r'"
  by (rule Close_returns [OF traced_sim_clock])

text \<open>A machine on which time passes and nothing else happens.\<close>

definition calm_env :: "nat Env" where
  "calm_env = \<lparr> e_Now = (\<lambda>w. (w, int w)), e_Sleep = (\<lambda>_ d w. (w + nat d, True)), e_EnterManual = (\<lambda>_ w. (w, None)),
     e_WriteDuty = (\<lambda>_ _ w. (w, None)), e_Auto = (\<lambda>_ w. (w, None)), e_Restore = (\<lambda>_ w. (w, None)),
     e_DCR = (\<lambda>w. (w, Inr (replicate 16 0))),
     e_Read = (\<lambda>w. (w, \<lparr> rd_Fan = (\<lambda>_. Some 1000), rd_Tctl = Some 40, rd_NVMeMax = Some 45, rd_HDDMax = Some 38,
       rd_ECCPU = NaN, rd_ECSys = NaN, rd_ECBoard = NaN, rd_ECAmb = NaN, rd_Load1 = NaN \<rparr>)) \<rparr>"

definition calm_setup :: "nat Setup" where
  "calm_setup = \<lparr> su_Env = calm_env, su_Cfg = (SpecConfig 1 1 [1, 2, 3])\<lparr> cf_Hold := 5 * Second \<rparr>, su_Guard = None,
     su_OnSample = None, su_OnEvent = None, su_BeforeWrite = None, su_BeforeHot = None, su_Tag = '''' \<rparr>"

definition calm_start :: "nat traced runner" where
  "calm_start = NewRunner (traced_env calm_env) (0, [])"

lemma calm_readings: "snd (e_Read (su_Env (traced_setup calm_setup)) w) = snd (e_Read calm_env 0)"
  by (simp add: traced_setup_def traced_env_def calm_setup_def calm_env_def lift_def split_beta)

text \<open>Every sample of it is within the limits.\<close>

definition calm :: "nat traced runner \<Rightarrow> bool" where
  "calm r \<longleftrightarrow> (\<forall>n. \<not> rn_LimitSensors r n) \<and> rn_Abort r = [] \<and> rn_dcrOK r \<and> rn_hot r = 0"

lemma calm_check:
  assumes "calm r"
  shows "snd (check_limits (traced_setup calm_setup) d (snd (e_Read calm_env 0)) r) = [] \<and>
    calm (fst (check_limits (traced_setup calm_setup) d (snd (e_Read calm_env 0)) r))"
proof -
  have g: "guard (traced_setup calm_setup) r = (r, [])"
    by (simp add: guard_def traced_setup_def calm_setup_def)
  have l: "sensor_loop (limit_values (snd (e_Read calm_env 0))) r = (r, [])"
    using assms by (simp add: calm_def limit_values_def)
  have h: "hot_limit (snd (e_Read calm_env 0)) = None"
    by (simp add: hot_limit_def calm_env_def const_defs)
  have t: "find (tach_stopped d (snd (e_Read calm_env 0))) xs = None" for xs
    by (simp add: find_None_iff tach_stopped_def calm_env_def)
  show ?thesis using assms by (simp add: check_limits_def g l h t)
qed

lemma calm_update [simp]:
  "calm (r\<lparr> rn_world := w \<rparr>) = calm r" "calm (r\<lparr> rn_Events := es \<rparr>) = calm r" "calm (record_sample S s r) = calm r"
  "calm (fst (eventAt S txt r)) = calm r" "calm (event S txt r) = calm r" "calm (touch ch r) = calm r"
  "calm (fst (sample_ts S phase due now r)) = calm r" "calm (fst (read_regs S r)) = calm r"
  "calm (r\<lparr> rn_wrote := b \<rparr>) = calm r"
  by (auto simp: calm_def record_sample_def event_def eventAt_def Let_def touch_def read_regs_def sample_ts_def split_beta
      split: option.splits)

lemma calm_sample:
  assumes "calm r"
  shows "snd (snd (sampleAt (traced_setup calm_setup) phase written due r)) = [] \<and>
    calm (fst (sampleAt (traced_setup calm_setup) phase written due r))"
  using assms calm_check by (simp add: sampleAt_def Let_def split_beta calm_readings)

lemma calm_slot:
  assumes "calm r"
  shows "\<exists>r' s. hold_slot (traced_setup calm_setup) due phase written r = (r', Some (s, [])) \<and> calm r'"
proof -
  have "snd (e_Sleep (su_Env (traced_setup calm_setup)) False d w)" for d w
    by (simp add: traced_setup_def traced_env_def calm_setup_def calm_env_def lift_def split_beta)
  then show ?thesis
    using calm_sample assms unfolding hold_slot_def Let_def by (simp add: split_beta)
qed

lemma calm_hold_loop:
  "calm r \<Longrightarrow> snd (snd (hold_loop (traced_setup calm_setup) anchor phase written n each k r acc)) \<and>
     calm (fst (hold_loop (traced_setup calm_setup) anchor phase written n each k r acc))"
proof (induction "nat (n + 1 - k)" arbitrary: k r acc rule: less_induct)
  case less
  show ?case
  proof (cases "k > n")
    case False
    obtain r1 s where h: "hold_slot (traced_setup calm_setup) (anchor + k * cf_Sample (su_Cfg (traced_setup calm_setup))) phase written r =
      (r1, Some (s, []))" "calm r1" using calm_slot [OF less.prems] by blast
    obtain r2 k2 where n2: "next_slot (traced_setup calm_setup) anchor n k r1 = (r2, k2)" by fastforce
    have c2: "calm r2" using n2 h(2) by (auto simp: next_slot_def Let_def split_beta)
    have "nat (n + 1 - k2) < nat (n + 1 - k)" using next_slot_gt [OF n2] False by simp
    from less.hyps [OF this c2] show ?thesis using False h n2 by (simp add: hold_loop.simps [of _ _ _ _ _ _ k])
  qed (simp add: hold_loop.simps less.prems)
qed

lemma calm_holds:
  "calm r \<Longrightarrow> snd (snd (holdFrom (traced_setup calm_setup) anchor phase written d each r acc)) \<and>
     calm (fst (holdFrom (traced_setup calm_setup) anchor phase written d each r acc))"
  "calm r \<Longrightarrow> snd (snd (hold (traced_setup calm_setup) phase written d each r acc)) \<and>
     calm (fst (hold (traced_setup calm_setup) phase written d each r acc))"
  by (simp_all add: hold_def holdFrom_def Let_def split_beta calm_hold_loop)

lemma calm_write:
  assumes "calm r" "MinDuty \<le> duty" "duty \<le> 255"
  shows "\<exists>r' t. write_duty (traced_setup calm_setup) ch duty r = (r', Inr t) \<and> calm r'"
    and "\<exists>r'. manual (traced_setup calm_setup) ch r = (r', None) \<and> calm r'"
proof -
  have f: "\<exists>r1. firstWrite (traced_setup calm_setup) r = (r1, None) \<and> calm r1"
    using assms(1) by (simp add: firstWrite_def traced_setup_def calm_setup_def)
  have e: "snd (e_WriteDuty (su_Env (traced_setup calm_setup)) ch duty w) = None"
    "snd (e_EnterManual (su_Env (traced_setup calm_setup)) ch w) = None" for w
    by (simp_all add: traced_setup_def traced_env_def calm_setup_def calm_env_def logged_def split_beta)
  show "\<exists>r' t. write_duty (traced_setup calm_setup) ch duty r = (r', Inr t) \<and> calm r'"
    using f e assms by (auto simp: write_duty_def Let_def split_beta split: option.split)
  show "\<exists>r'. manual (traced_setup calm_setup) ch r = (r', None) \<and> calm r'"
    using f e by (auto simp: manual_def Let_def split_beta split: option.split)
qed

lemma calm_t1_loop:
  "calm r \<Longrightarrow> list_all (\<lambda>d. MinDuty \<le> d \<and> d \<le> 255) ds \<Longrightarrow>
     \<exists>r' steps'. t1_loop (traced_setup calm_setup) ch ds r steps = (r', steps', True) \<and> calm r'"
proof (induction ds arbitrary: r steps)
  case (Cons d ds)
  obtain r1 t where w: "write_duty (traced_setup calm_setup) ch d r = (r1, Inr t)" "calm r1"
    using calm_write(1) [OF Cons.prems(1), of d ch] Cons.prems(2) by (simp del: split_paired_Ex) blast
  obtain r2 st ok where h: "holdFrom (traced_setup calm_setup) t (PhaseT1Step d) d (cf_Hold (su_Cfg calm_setup))
      (AddT1Sample ch (Seconds (t - rn_start r1))) r1 (new_step d) = (r2, st, ok)" by (metis prod_cases3)
  then have "ok" "calm r2"
    using calm_holds(1) [OF w(2), of t "PhaseT1Step d" d "cf_Hold (su_Cfg calm_setup)" "AddT1Sample ch (Seconds (t - rn_start r1))" "new_step d"]
    by simp_all
  then show ?case using w(1) h Cons.IH [of r2] Cons.prems(2) by (simp add: Let_def)
qed simp

lemma calm_mapping:
  assumes "calm r"
  shows "\<exists>r' res. RunT1 (traced_setup calm_setup) r = Some (r', res) \<and> rn_Abort r' = []"
proof -
  let ?S = "traced_setup calm_setup" let ?ch = "cf_Channel (su_Cfg calm_setup)"
  let ?r0 = "event ?S (''T1 pwm'' @ itoa ?ch @ '': rest reference'') r"
  obtain r1 acc ok1 where h0: "hold ?S PhaseT1Rest (-1) (cf_Hold (su_Cfg calm_setup)) (rest_each ?ch) ?r0
      ((\<lambda>_. []), (\<lambda>_. []), (\<lambda>_. [])) = (r1, acc, ok1)" by (rule prod_cases3)
  obtain rest restIn restDCR where "acc = (rest, restIn, restDCR)" by (rule prod_cases3)
  note h = h0 [unfolded this]
  have "calm ?r0" using assms by simp
  from calm_holds(2) [OF this, of PhaseT1Rest "-1" "cf_Hold (su_Cfg calm_setup)" "rest_each ?ch"
      "((\<lambda>_. []), (\<lambda>_. []), (\<lambda>_. []))", unfolded h]
  have ok1: "ok1" "calm r1" by simp_all
  obtain r2 where m: "manual ?S ?ch r1 = (r2, None)" "calm r2"
    using calm_write(2) [OF ok1(2), of MinDuty] by (auto simp: const_defs)
  have duties: "list_all (\<lambda>d. MinDuty \<le> d \<and> d \<le> 255) T1Steps" by code_simp
  obtain r3 steps where t: "t1_loop ?S ?ch T1Steps r2 [] = (r3, steps, True)" "calm r3"
    using calm_t1_loop [OF m(2) duties] by blast
  have c3: "calm (event ?S EventT1Complete r3)" using t(2) by simp
  obtain w e where rs: "e_Restore (su_Env ?S) ?ch (rn_world (event ?S EventT1Complete r3)) = (w, e)" by fastforce
  have "e = None"
    using rs by (simp add: traced_setup_def traced_env_def calm_setup_def calm_env_def logged_def split_beta prod_eq_iff)
  then obtain r4 where r4: "restore_untouch ?S ?ch '' after T1'' (event ?S EventT1Complete r3) = Some r4"
    using c3 rs by (auto simp: restore_untouch_def restore_def HotChannel_def calm_def calm_setup_def SpecConfig_def Let_def)
  have "rn_Abort r4 = []" using restore_records(1) [OF r4] c3 by (simp add: calm_def)
  then show ?thesis
    using assms h ok1 m t r4 by (simp add: RunT1_def Let_def calm_def)
qed

lemma calm_start_calm: "calm calm_start"
  by (simp add: calm_def calm_start_def NewRunner_def traced_env_def calm_env_def lift_def Let_def)

end
