(* ===== verification/Runner_Properties.thy ===== *)
theory Runner_Properties
  imports Runner_Examples
begin

text \<open>
  The properties of the runner: what a run commands, what it leaves behind, what its records hold,
  and that it returns.
\<close>

section \<open>What a run commands\<close>

text \<open>C1: in every order in which a caller uses the procedures, whatever the machine and the hooks do,
  every duty a run writes is 100 to 255, and with a \<open>BeforeWrite\<close> hook nothing is commanded before a
  call of it succeeded.\<close>

theorem run_commands_safe:
  assumes "runs (traced_setup S) (NewRunner (traced_env (su_Env S)) (w, [])) r"
  shows "list_all safe_cmd (trace r) \<and> (su_BeforeWrite S \<noteq> None \<longrightarrow> hooked (trace r))"
  using tinv_safe tinv_hooked runs_tinv [OF assms] by blast

theorem run_commands_safe_witness:
  "\<exists>r. Close (traced_setup sim_setup) sim_stopped = Some r \<and> list_all safe_cmd (trace r)"
proof -
  obtain r where r: "Close (traced_setup sim_setup) sim_stopped = Some r" using sim_closed by blast
  have "runs (traced_setup sim_setup) sim_start r"
    using runs_close [OF runs_stop [OF runs_refl]] r unfolding sim_stopped_def by blast
  then show ?thesis using run_commands_safe [of sim_setup "(New 0, False)" r] r by (simp add: sim_start_def)
qed

text \<open>C9: after \<open>Close\<close> every channel of the machine is at rest (never commanded, restored by its last
  command, or at 255 with the reason of a temperature abort) or is listed as not restored.\<close>

theorem close_leaves_nothing:
  assumes "runs (traced_setup S) (NewRunner (traced_env (su_Env S)) (w, [])) r" "Close (traced_setup S) r = Some r'"
    "ch \<in> {1, 2, 3, 4}"
  shows "at_rest (trace r') (rn_RestoreOverrides r') ch \<or>
    ''pwm'' @ itoa ch @ '': '' @ orText (rn_restoreErr r' ch) ''not restored'' \<in> set (Unrestored r')"
proof -
  have "tinv S r'" using runs_tinv [OF runs_close [OF assms(1,2)]] .
  then show ?thesis using tinv_rest Unrestored_touched [OF assms(3), of r'] by blast
qed

theorem close_leaves_nothing_witness:
  "\<exists>r. Close (traced_setup sim_setup) sim_stopped = Some r \<and>
     (at_rest (trace r) (rn_RestoreOverrides r) 3 \<or>
      ''pwm'' @ itoa 3 @ '': '' @ orText (rn_restoreErr r 3) ''not restored'' \<in> set (Unrestored r))"
proof -
  obtain r where r: "Close (traced_setup sim_setup) sim_stopped = Some r" using sim_closed by blast
  have "runs (traced_setup sim_setup) sim_start sim_stopped" unfolding sim_stopped_def by (rule runs_stop [OF runs_refl])
  then show ?thesis using close_leaves_nothing [of sim_setup "(New 0, False)" sim_stopped r 3] r by (simp add: sim_start_def)
qed

text \<open>C10: a mapping that was not aborted entered manual mode once, wrote every duty of T1 in its order and
  nothing else, and ended with a restore of the channel.\<close>

theorem mapping_commands:
  assumes "RunT1 (traced_setup S) r = Some (r', res)" "rn_dcrOK r" "rn_Abort r = []" "rn_Abort r' = []"
  shows "\<exists>cs. restore_cmds (cf_Channel (su_Cfg S)) cs \<and> commands_of (trace r') = commands_of (trace r) @
    CManual (cf_Channel (su_Cfg S)) True # map (\<lambda>d. CDuty (cf_Channel (su_Cfg S)) d True) T1Steps @ cs"
  by (rule RunT1_commands [OF assms])

theorem mapping_commands_witness:
  "\<exists>r res cs. RunT1 (traced_setup calm_setup) calm_start = Some (r, res) \<and> restore_cmds 1 cs \<and>
     commands_of (trace r) = CManual 1 True # map (\<lambda>d. CDuty 1 d True) [255, 217, 179, 140] @ cs"
proof -
  obtain r res where r: "RunT1 (traced_setup calm_setup) calm_start = Some (r, res)" "rn_Abort r = []"
    using calm_mapping [OF calm_start_calm] by blast
  moreover have "rn_dcrOK calm_start" "rn_Abort calm_start = []" using calm_start_calm by (simp_all add: calm_def)
  moreover have "trace calm_start = []" "cf_Channel (su_Cfg calm_setup) = 1"
    by (simp_all add: calm_start_def NewRunner_def traced_env_def calm_env_def lift_def Let_def trace_def calm_setup_def
        SpecConfig_def)
  ultimately show ?thesis using mapping_commands [of calm_setup calm_start r res] by (auto simp: T1Steps_def)
qed

text \<open>C33: after a temperature abort the restore of the hot channel is done exactly when manual mode and then 255
  were commanded successfully, and then the reason is recorded with the channel.\<close>

theorem hot_restore:
  assumes "restore_untouch (traced_setup S) ch whn r = Some r'" "ch = HotChannel r" "rn_touched r ch"
  shows "(\<not> rn_touched r' ch \<longleftrightarrow> trace r' = trace r @ [CManual ch True, CDuty ch 255 True]) \<and>
    (\<not> rn_touched r' ch \<longrightarrow> rn_RestoreOverrides r' ch = hot_why (rn_hotWhy r))"
proof -
  obtain r1 ok where r1: "restoreHot (traced_setup S) ch whn r = Some (r1, ok)" "r' = (if ok then untouch ch r1 else r1)"
    using assms(1,2) by (auto simp: restore_untouch_def restore_def split: option.splits)
  note h = restoreHot_result [OF r1(1)]
  show ?thesis using r1(2) h assms(3) by (cases ok) simp_all
qed

theorem hot_restore_witness:
  "\<exists>r. restore_untouch (traced_setup sim_setup) 1 '''' (touch 1 (sim_start\<lparr> rn_hot := 1, rn_wrote := True \<rparr>)) = Some r \<and>
     (\<not> rn_touched r 1 \<longleftrightarrow> trace r = [CManual 1 True, CDuty 1 255 True])"
proof -
  let ?r = "touch 1 (sim_start\<lparr> rn_hot := 1, rn_wrote := True \<rparr>)"
  obtain r where r: "restore_untouch (traced_setup sim_setup) 1 '''' ?r = Some r"
    using restore_returns [OF traced_sim_clock, of 1 "''''" ?r] by auto
  have "HotChannel ?r = 1" "rn_touched ?r 1" by (simp_all add: HotChannel_def)
  moreover have "trace ?r = []"
    by (simp add: trace_def touch_def sim_start_def NewRunner_def traced_env_def lift_def sim_setup_def sim_env_def Let_def split_beta)
  ultimately show ?thesis using hot_restore [OF r] r by simp
qed

text \<open>whatever follows, the first reason of an abort stays.\<close>

theorem abort_reason_stays:
  assumes "runs S r r'" "rn_Abort r \<noteq> []"
  shows "rn_Abort r' = rn_Abort r"
  using first_abort.runs_keeps [OF assms(1), of "rn_Abort r"] assms(2) by simp

theorem abort_reason_stays_witness: "rn_Abort (stop calm_setup ''b'' (stop calm_setup ''a'' (NewRunner calm_env 0))) = ''a''"
proof -
  have a: "rn_Abort (stop calm_setup ''a'' (NewRunner calm_env 0)) = ''a''"
    by (simp add: NewRunner_def calm_env_def)
  then show ?thesis
    using abort_reason_stays [OF runs_stop [OF runs_refl], of "stop calm_setup ''a'' (NewRunner calm_env 0)"] by simp
qed

text \<open>the records only grow: what follows appends samples and events.\<close>

theorem records_only_grow:
  assumes "runs S r r'"
  shows "prefix (rn_Samples r) (rn_Samples r') \<and> prefix (rn_Events r) (rn_Events r')"
  by (rule records.runs_keeps [OF assms]) simp

theorem records_only_grow_witness:
  "prefix (rn_Events (NewRunner calm_env 0)) (rn_Events (event calm_setup ''a'' (NewRunner calm_env 0)))"
  using records_only_grow [OF runs_event [OF runs_refl], of "NewRunner calm_env 0"] by blast

section \<open>Holds and waits\<close>

text \<open>C19: a hold that completed took at least one and at most max(1, duration / cadence) samples, all of its phase
  and within the temperature limits, gave each to the callback in order, and left the abort reason;
  a hold that did not complete leaves a reason of an abort.\<close>

theorem hold_result:
  assumes "hold S phase written d each r acc = (r', acc', ok)"
  shows "\<exists>ss. rn_Samples r' = rn_Samples r @ ss \<and> acc' = fold each ss acc \<and>
    (\<forall>s \<in> set ss. s_Phase s = phase \<and> s_Written s = written) \<and> (\<not> ok \<longrightarrow> rn_Abort r' \<noteq> []) \<and>
    (ok \<longrightarrow> rn_Abort r' = rn_Abort r \<and> list_all within_limits ss \<and> ss \<noteq> [] \<and>
       int (length ss) \<le> max 1 (go_quot d (cf_Sample (su_Cfg S))))"
  using hold_held [OF assms] by (simp add: held_def conj_assoc)

theorem hold_result_witness:
  "\<exists>r n. hold (traced_setup calm_setup) PhaseGate (-1) (60 * Second) (\<lambda>_ n. n + 1) calm_start 0 = (r, n, True) \<and>
     list_all within_limits (rn_Samples r) \<and> n = length (rn_Samples r) \<and> 1 \<le> n \<and> n \<le> 12"
proof -
  obtain r n ok where h: "hold (traced_setup calm_setup) PhaseGate (-1) (60 * Second) (\<lambda>_ n. n + 1) calm_start (0 :: nat) = (r, n, ok)"
    by (metis prod_cases3)
  have ok: ok using calm_holds(2) [OF calm_start_calm, of PhaseGate "-1" "60 * Second" "\<lambda>_ n. n + 1" "0 :: nat"] h by simp
  obtain ss where ss: "rn_Samples r = rn_Samples calm_start @ ss" "n = fold (\<lambda>_ n. n + 1) ss 0" "list_all within_limits ss" "ss \<noteq> []"
    "int (length ss) \<le> max 1 (go_quot (60 * Second) (cf_Sample (su_Cfg (traced_setup calm_setup))))"
    using hold_result [OF h] ok by blast
  have "fold (\<lambda>_ n. n + 1) ss k = k + length ss" for k :: nat by (induction ss arbitrary: k) simp_all
  moreover have "rn_Samples calm_start = []" by (simp add: calm_start_def NewRunner_def Let_def split_beta)
  moreover have "go_quot (60 * Second) (cf_Sample (su_Cfg (traced_setup calm_setup))) = 12"
    by (simp add: calm_setup_def SpecConfig_def go_quot_def Second_def const_defs)
  ultimately show ?thesis using h ok ss by (intro exI [of _ r] exI [of _ n]) (auto simp: Suc_le_eq)
qed

text \<open>under a clock that no call moves back and a sleep moves on by its length, the wait for a register returns; when it
  says that the value was reached, the registers of its last reading show it and at least the
  minimum time has passed.\<close>

theorem wait_for_register:
  assumes "clock E clk"
  shows "\<exists>w' s. WaitDCR E t0 regs want mn tmo w = Some (w', s) \<and>
    (se_Reached s \<longrightarrow> se_Err s = None \<and> (\<forall>n \<in> set regs. Reg (se_DCR s) n = want) \<and> mn \<le> se_After s)"
proof -
  obtain w' s where w: "WaitDCR E t0 regs want mn tmo w = Some (w', s)" using clock.WaitDCR_returns [OF assms] by blast
  then show ?thesis using WaitDCR_reached [OF w] by blast
qed

theorem wait_for_register_witness:
  "\<exists>w s. WaitDCR (wait_env_of (sim_env None)) 0 [1] 0x55 0 Second (New 0, False) = Some (w, s) \<and>
     se_Reached s \<and> Reg (se_DCR s) 1 = 0x55"
proof -
  have "map_option (\<lambda>(w, s). se_Reached s) (WaitDCR (wait_env_of (sim_env None)) 0 [1] 0x55 0 Second (New 0, False)) = Some True"
    by code_simp
  then show ?thesis
    using wait_for_register [OF sim_clock.clock_axioms, of 0 "[1]" "0x55" 0 Second "(New 0, False)"] by auto
qed

text \<open>C34: under such a clock every procedure of the runner returns.\<close>

theorem procedures_return:
  assumes "clock (wait_env_of (su_Env S)) clk"
  shows "Close S r \<noteq> None \<and> RunT1 S r \<noteq> None \<and> RunHandback S r \<noteq> None"
  using Close_returns [OF assms] RunT1_returns [OF assms] RunHandback_returns [OF assms] by fastforce

theorem procedures_return_witness:
  "\<exists>r res. RunT1 (traced_setup sim_setup) sim_start = Some (r, res)"
  using procedures_return [OF traced_sim_clock, of sim_start] by fastforce

text \<open>without a readable register, after an abort, and for pwm4 in the hand-back test, the procedures
  neither command nor sample anything.\<close>

theorem nothing_done:
  assumes "\<not> rn_dcrOK r \<or> rn_Abort r \<noteq> []"
  shows "(\<exists>res. RunT1 S r = Some (r, res) \<and> r_Verdict res = Inconclusive) \<and>
    (\<exists>t2 t3. RunHandback S r = Some (r, t2, t3) \<and>
      r_Verdict t2 = (if cf_Channel (su_Cfg S) = PCIeChannel then NotApplicable else Inconclusive) \<and>
      r_Verdict t3 = r_Verdict t2)"
  using assms
  by (auto simp: RunT1_def RunHandback_def Let_def both_def NotImplemented_def NotApplicableResult_def mk_result_def)

theorem nothing_done_witness:
  "\<exists>res. RunT1 calm_setup (stop calm_setup ''a'' (NewRunner calm_env 0)) =
     Some (stop calm_setup ''a'' (NewRunner calm_env 0), res)"
proof -
  have "rn_Abort (stop calm_setup ''a'' (NewRunner calm_env 0)) \<noteq> []" by (simp add: NewRunner_def calm_env_def)
  then show ?thesis using nothing_done [of "stop calm_setup ''a'' (NewRunner calm_env 0)" calm_setup] by blast
qed

section \<open>The controller model\<close>

text \<open>the controller model: after the auto command and at least the delay of the channel its registers show
  the automatic value; a channel that keeps its duty (pwm4) and has no pending write shows the
  value it had, however long it is left.\<close>

theorem sim_auto_reached:
  assumes "ch \<in> {1, 2, 3, 4}" "sm_AutoDelay s ch \<le> d" "n \<in> set (regsOf ch)"
    "\<not> sm_Oscillate s ch" "\<not> sm_KeepDCR4OnAuto s"
  shows "(\<not> sm_KeepOnAuto s ch \<longrightarrow>
      sm_dcr (fst (fst (Sim_Sleep None True d (fst (Sim_Auto ch s), c)))) n = sm_AutoValue s ch) \<and>
    (sm_KeepOnAuto s ch \<and> sm_pend s n = None \<longrightarrow>
      sm_dcr (fst (fst (Sim_Sleep None True d (fst (Sim_Auto ch s), c)))) n = sm_dcr s n)"
proof -
  define s1 where "s1 = fst (Sim_Auto ch s)"
  define s2 where "s2 = s1\<lparr> sm_now := sm_now s1 + d \<rparr>"
  have sl: "sm_dcr (fst (fst (Sim_Sleep None True d (s1, c)))) n = sm_dcr (settle s2) n"
    by (simp add: Sim_Sleep_def ctx_err_def Let_def s2_def)
  have f: "sm_now s1 = sm_now s" "\<not> sm_manual s1 ch" "sm_autoAt s1 ch = Some (sm_now s)" "sm_AutoDelay s1 = sm_AutoDelay s"
    "sm_AutoValue s1 = sm_AutoValue s" "sm_KeepOnAuto s1 = sm_KeepOnAuto s" "sm_Oscillate s1 = sm_Oscillate s"
    "sm_KeepDCR4OnAuto s1 = sm_KeepDCR4OnAuto s"
    using assms(1) by (auto simp: s1_def Sim_Auto_def drop_pend_def regsOf_def Let_def)
  have "sm_dcr (fst (fst (Sim_Sleep None True d (fst (Sim_Auto ch s), c)))) n = sm_AutoValue s ch" if "\<not> sm_KeepOnAuto s ch"
    using settle_value [OF assms(1,3), of s2] f assms(2,4,5) that
    by (simp add: sl [unfolded s1_def] s2_def [unfolded s1_def] auto_due_def s1_def)
  moreover have "sm_dcr (fst (fst (Sim_Sleep None True d (fst (Sim_Auto ch s), c)))) n = sm_dcr s n"
    if k: "sm_KeepOnAuto s ch" and p: "sm_pend s n = None"
  proof -
    define s0 where "s0 = s\<lparr> sm_Log := sm_Log s @ [''pwm'' @ itoa ch @ ''_enable=2''], sm_manual := (sm_manual s)(ch := False),
       sm_autoAt := (sm_autoAt s)(ch \<mapsto> sm_now s) \<rparr>"
    have "s1 = settle s0" using assms(1) k by (auto simp: s1_def s0_def Sim_Auto_def drop_pend_def regsOf_def Let_def)
    moreover have "\<not> auto_due ch s0" "\<not> auto_due ch s2" "sm_pend s0 n = None" "sm_dcr s0 n = sm_dcr s n"
      using k p f(6) by (simp_all add: auto_due_def s0_def s2_def)
    moreover have "sm_pend s1 n = None" using calculation(1,4) by (simp add: settle_pend_none)
    ultimately have "sm_dcr (settle s2) n = sm_dcr s n"
      using settle_kept [OF assms(1,3), of s0] settle_kept [OF assms(1,3), of s2] by (simp add: s2_def)
    then show ?thesis using sl by (simp add: s1_def)
  qed
  ultimately show ?thesis by blast
qed

theorem sim_auto_reached_witness:
  "sm_dcr (fst (fst (Sim_Sleep None True (10 * Second) (fst (Sim_Auto 3 (New 0)), False)))) 4 = 0x57 \<and>
   sm_dcr (fst (fst (Sim_Sleep None True (10 * Second) (fst (Sim_Auto 4 (New 0)), False)))) 5 = 0x8c"
  using sim_auto_reached [of 3 "New 0" "10 * Second" 4 False] sim_auto_reached [of 4 "New 0" "10 * Second" 5 False]
  by (simp add: New_def regsOf_def Second_def)

end
