(* ===== verification/Decimal.thy ===== *)
theory Decimal
  imports Prelude
begin

text \<open>
  Numbers in text: \<open>strconv.ParseFloat\<close> for decimal numbers and NaN, and the round trip with
  \<open>FormatFloat\<close>. Hexadecimal numbers and infinities are not accepted here; the program writes
  neither.
\<close>

definition lower_char :: "char \<Rightarrow> char" where
  "lower_char c = (if 65 \<le> (of_char c :: nat) \<and> (of_char c :: nat) \<le> 90 then char_of ((of_char c :: nat) + 32) else c)"

definition digit_or_dot :: "char \<Rightarrow> bool" where
  "digit_or_dot c \<longleftrightarrow> c = CHR ''.'' \<or> digit_val c \<noteq> None"

text \<open>Digits with at most one dot and at least one digit.\<close>

definition mantissa :: "string \<Rightarrow> rat option" where
  "mantissa s =
     (let (a, b, found) = cut_at (CHR ''.'') s
      in if a = [] \<and> b = [] then None
         else case (digits_val 0 a, digits_val 0 b) of
                (Some m, Some n) \<Rightarrow> Some (of_nat m + of_nat n / 10 ^ length b)
              | _ \<Rightarrow> None)"

definition sign_of :: "string \<Rightarrow> bool \<times> string" where
  "sign_of s = (case s of [] \<Rightarrow> (False, [])
     | c # cs \<Rightarrow> if c = CHR ''-'' then (True, cs) else if c = CHR ''+'' then (False, cs) else (False, s))"

definition scaled :: "rat \<Rightarrow> string \<Rightarrow> rat option" where
  "scaled v e =
     (let (neg, ds) = sign_of e
      in case parse_nat ds of None \<Rightarrow> None | Some n \<Rightarrow> Some (if neg then v / 10 ^ n else v * 10 ^ n))"

definition ParseFloat :: "string \<Rightarrow> fl option" where
  "ParseFloat s =
     (if map lower_char s = ''nan'' then Some NaN
      else
        (let (neg, r) = sign_of s;
             m = takeWhile digit_or_dot r;
             t = drop (length m) r
         in case mantissa m of None \<Rightarrow> None
            | Some v \<Rightarrow>
                (let v' = (if neg then - v else v)
                 in case t of [] \<Rightarrow> Some (Some v')
                    | c # e \<Rightarrow> if lower_char c = CHR ''e'' then map_option Some (scaled v' e) else None)))"

text \<open>A text of digits and dots; a malformed one gives 0 (the error is ignored).\<close>

definition parse_dec :: "string \<Rightarrow> rat" where
  "parse_dec s = (case mantissa s of None \<Rightarrow> 0 | Some v \<Rightarrow> v)"

section \<open>Round trips\<close>

text \<open>The value \<open>FormatFloat(x, 'f', p)\<close> prints.\<close>

definition round_dec :: "nat \<Rightarrow> rat \<Rightarrow> rat" where
  "round_dec p x = of_int (round_half_even (x * 10 ^ p)) / 10 ^ p"

lemma digits_of_nat_digits: "c \<in> set (nat_digits n) \<Longrightarrow> digit_val c \<noteq> None"
proof (induction n rule: nat_digits.induct)
  case (1 n)
  then show ?case
    by (subst (asm) nat_digits.simps) (auto split: if_splits)
qed

lemma digit_val_dot [simp]: "digit_val (CHR ''.'') = None"
  by (simp add: digit_val_def)

lemma dot_notin_digits: "CHR ''.'' \<notin> set (nat_digits n)"
  using digits_of_nat_digits by fastforce

lemma digits_val_zeros: "digits_val a (replicate k (CHR ''0'') @ s) = digits_val (a * 10 ^ k) s"
  by (induction k arbitrary: a) (simp_all add: digit_val_def algebra_simps)

lemma digits_val_pad: "digits_val 0 (pad_left w (CHR ''0'') (nat_digits n)) = Some n"
  by (simp add: pad_left_def digits_val_zeros digits_val_nat_digits)

lemma length_nat_digits: "n < 10 ^ p \<Longrightarrow> 0 < p \<Longrightarrow> length (nat_digits n) \<le> p"
proof (induction n arbitrary: p rule: nat_digits.induct)
  case (1 n)
  show ?case
  proof (cases "n < 10")
    case True
    then show ?thesis using 1 by (subst nat_digits.simps) simp
  next
    case False
    then obtain q where q: "p = Suc q" "0 < q"
      using 1 by (cases p; cases "p - 1") auto
    then have "n div 10 < 10 ^ q" using 1 by (simp add: div_less_iff_less_mult algebra_simps)
    with 1 False q have "length (nat_digits (n div 10)) \<le> q" by blast
    with False q show ?thesis by (subst nat_digits.simps) simp
  qed
qed

lemma length_pad: "n < 10 ^ p \<Longrightarrow> 0 < p \<Longrightarrow> length (pad_left p (CHR ''0'') (nat_digits n)) = p"
  using length_nat_digits [of n p] by (simp add: pad_left_def)

lemma digits_of_pad: "c \<in> set (pad_left p (CHR ''0'') (nat_digits n)) \<Longrightarrow> digit_val c \<noteq> None"
  using digits_of_nat_digits by (auto simp: pad_left_def digit_val_def)

lemma cut_at_dot: "CHR ''.'' \<notin> set a \<Longrightarrow> cut_at (CHR ''.'') (a @ CHR ''.'' # b) = (a, b, True)"
  by (induction a) (auto simp: cut_at_def)

lemma round_half_even_nonneg: "0 \<le> x \<Longrightarrow> 0 \<le> round_half_even x"
  using round_half_even_mono [of 0 x] round_half_even_of_int [of 0] by simp

lemma round_half_even_minus: "round_half_even (- x) = - round_half_even x"
proof (cases "x = of_int \<lfloor>x\<rfloor>")
  case True
  then show ?thesis by (metis of_int_minus round_half_even_of_int)
next
  case False
  define f where "f = \<lfloor>x\<rfloor>"
  have b: "of_int f < x" "x < of_int f + 1" using False unfolding f_def by linarith+
  have fl: "\<lfloor>- x\<rfloor> = - f - 1" using b by linarith
  have d: "- x - of_int \<lfloor>- x\<rfloor> = 1 - (x - of_int f)" by (simp add: fl)
  show ?thesis
    unfolding round_half_even_def Let_def d fl f_def [symmetric]
    by (cases "x - of_int f < 1/2"; cases "x - of_int f > 1/2") auto
qed

lemma mantissa_fmt_abs:
  assumes "0 \<le> x"
  shows "mantissa (fmt_abs p x) = Some (round_dec p x)"
proof -
  define n where "n = nat (round_half_even (x * 10 ^ p))"
  have n: "of_nat n = (of_int (round_half_even (x * 10 ^ p)) :: rat)"
    unfolding n_def using assms by (simp add: round_half_even_nonneg)
  show ?thesis
  proof (cases "p = 0")
    case True
    with n show ?thesis
      by (simp add: fmt_abs_def mantissa_def cut_at_def dot_notin_digits digits_val_nat_digits round_dec_def n_def [symmetric])
  next
    case False
    let ?b = "pad_left p (CHR ''0'') (nat_digits (n mod 10 ^ p))"
    have len: "length ?b = p" using False by (intro length_pad) auto
    then have ne: "?b \<noteq> []" using False by auto
    have cut: "cut_at (CHR ''.'') (nat_digits (n div 10 ^ p) @ CHR ''.'' # ?b) = (nat_digits (n div 10 ^ p), ?b, True)"
      by (rule cut_at_dot) (rule dot_notin_digits)
    have "mantissa (fmt_abs p x) = Some (of_nat (n div 10 ^ p) + of_nat (n mod 10 ^ p) / 10 ^ p)"
      using False ne len by (simp add: fmt_abs_def mantissa_def n_def [symmetric] cut Let_def digits_val_nat_digits digits_val_pad)
    also have "(of_nat (n div 10 ^ p) + of_nat (n mod 10 ^ p) / 10 ^ p :: rat)
        = of_nat (n div 10 ^ p * 10 ^ p + n mod 10 ^ p) / 10 ^ p"
      by (simp only: of_nat_add of_nat_mult of_nat_power of_nat_numeral add_divide_distrib) simp
    also have "n div 10 ^ p * 10 ^ p + n mod 10 ^ p = n" by (rule div_mult_mod_eq)
    finally show ?thesis using n by (simp add: round_dec_def)
  qed
qed

lemma digit_or_dot_fmt_abs: "c \<in> set (fmt_abs p x) \<Longrightarrow> digit_or_dot c"
  using digits_of_nat_digits digits_of_pad
  by (auto simp: fmt_abs_def digit_or_dot_def Let_def split: if_splits)

lemma fmt_abs_ne [simp]: "fmt_abs p x \<noteq> []"
  by (simp add: fmt_abs_def Let_def)

lemma parse_dec_fmt: "0 \<le> x \<Longrightarrow> parse_dec (fmt_f p x) = round_dec p x"
  by (simp add: parse_dec_def fmt_f_def mantissa_fmt_abs)

lemma ParseFloat_fmt [simp]: "ParseFloat (fmt_f p x) = Some (Some (round_dec p x))"
proof -
  have tw: "takeWhile digit_or_dot (fmt_abs p y) = fmt_abs p y" for y
    using digit_or_dot_fmt_abs by (simp add: takeWhile_eq_all_conv)
  obtain c cs where cs: "fmt_abs p x = c # cs" using fmt_abs_ne by (meson list.exhaust)
  then have "digit_or_dot c" using digit_or_dot_fmt_abs [of c p x] by simp
  then have "sign_of (fmt_abs p x) = (False, fmt_abs p x)" "map lower_char (fmt_abs p x) \<noteq> ''nan''"
    unfolding cs by (auto simp: sign_of_def digit_or_dot_def digit_val_def lower_char_def split: if_splits)
  moreover have "map lower_char (CHR ''-'' # s) \<noteq> ''nan''" for s by (simp add: lower_char_def)
  moreover have "- round_dec p (- x) = round_dec p x"
    by (simp add: round_dec_def round_half_even_minus)
  ultimately show ?thesis
    by (cases "x < 0") (simp_all add: ParseFloat_def fmt_f_def tw mantissa_fmt_abs sign_of_def)
qed

end
