(* ===== verification/Hw_Status.thy ===== *)
theory Hw_Status
  imports Files Decimal
begin

text \<open>
  What is known about a machine: src/go/n5/hwstatus/hwstatus.go, the parser of the results table, the
  lookup of a machine in it, the status of a profile; and the lines of the table that its checksum
  covers (internal/tablesum/tablesum.go; sha256 itself is a parameter). The embedded table is an
  argument, the text of its file. An error return is \<open>Inl\<close> with the text.
\<close>

section \<open>Data\<close>

datatype Status = Validated | Tested | Experimental | Unknown

fun status_text :: "Status \<Rightarrow> string" where
  "status_text Validated = ''validated''"
| "status_text Tested = ''tested''"
| "status_text Experimental = ''experimental''"
| "status_text Unknown = ''unknown''"

definition Verified :: "Status \<Rightarrow> bool" where
  "Verified s \<longleftrightarrow> s = Validated \<or> s = Tested"

text \<open>\<open>Status(f)\<close> with \<open>Valid\<close>: the texts that are one of the four values.\<close>

definition parse_status :: "string \<Rightarrow> Status option" where
  "parse_status t = find (\<lambda>s. status_text s = t) [Validated, Tested, Experimental, Unknown]"

record Entry =
  en_Product :: string
  en_Board :: string
  en_BIOS :: string
  en_EC :: string
  en_Status :: Status
  en_Origin :: string
  en_Date :: string
  en_Note :: string

record TableMeta =
  tm_Source :: string
  tm_SHA :: string
  tm_Generated :: string

record HwIdentity =
  hi_Product :: string
  hi_Board :: string
  hi_BoardVersion :: string
  hi_SysVendor :: string
  hi_BIOS :: string
  hi_BIOSDate :: string
  hi_BIOSRelease :: string
  hi_EC :: string

record HwResult =
  hw_Status :: Status
  hw_Key :: string
  hw_Entry :: "Entry option"
  hw_Reason :: string

section \<open>The table\<close>

definition origins :: "string \<Rightarrow> string option" where
  "origins = map_of [(''eigen'', ''own''), (''own'', ''own''), (''upstream'', ''upstream''), (''bericht'', ''report''),
                     (''report'', ''report'')]"

definition CR :: char where "CR = CHR 0x0D"

text \<open>
  \<open>bufio.Scanner\<close> over lines: an empty last line is no line, a line of 64 KiB or more ends the scan.
  The scanner drops one CR of a line, \<open>Parse\<close> all of them.
\<close>

definition scan_lines :: "string \<Rightarrow> string list" where
  "scan_lines s = (let ls = split_at NL s in if last ls = [] then butlast ls else ls)"

definition MaxLine :: int where "MaxLine = 65536"

definition scan_error :: string where [text_defs]: "scan_error = ''bufio.Scanner: token too long''"

definition fields_text :: "nat \<Rightarrow> nat \<Rightarrow> string" where
  [text_defs]: "fields_text n k = ''line '' @ itoa (int n) @ '': '' @ itoa (int k) @ '' fields, want 8''"

definition empty_key_text :: "nat \<Rightarrow> string" where
  [text_defs]: "empty_key_text n = ''line '' @ itoa (int n) @ '': empty key field''"

definition bad_status_text :: "nat \<Rightarrow> string \<Rightarrow> string" where
  [text_defs]: "bad_status_text n f = ''line '' @ itoa (int n) @ '': unknown status '' @ fmt_q f"

definition bad_origin_text :: "nat \<Rightarrow> string \<Rightarrow> string" where
  [text_defs]: "bad_origin_text n f = ''line '' @ itoa (int n) @ '': unknown origin '' @ fmt_q f"

definition needs_own_text :: "nat \<Rightarrow> Status \<Rightarrow> string \<Rightarrow> string" where
  [text_defs]: "needs_own_text n s f = ''line '' @ itoa (int n) @ '': status '' @ status_text s @
     '' needs origin eigen/own, not '' @ fmt_q f"

text \<open>A line that starts with \<open>#\<close>, and a row.\<close>

definition meta_line :: "string \<Rightarrow> TableMeta \<Rightarrow> TableMeta" where
  "meta_line line m =
     (case cut_at (CHR '':'') (trim_space (trim_prefix ''#'' line)) of
        (k, v, ok) \<Rightarrow>
          if \<not> ok then m
          else (let v = trim_space v; k = trim_space k
                in if k = ''source'' then m\<lparr> tm_Source := v \<rparr>
                   else if k = ''source-table-sha256'' then m\<lparr> tm_SHA := v \<rparr>
                   else if k = ''generated'' then m\<lparr> tm_Generated := v \<rparr>
                   else m))"

definition row_line :: "nat \<Rightarrow> string \<Rightarrow> string + Entry" where
  "row_line n line =
     (let f = split_at (CHR 0x09) line
      in if length f \<noteq> 8 then Inl (fields_text n (length f))
         else
           (let f = map trim_space f
            in if f ! 0 = '''' \<or> f ! 1 = '''' \<or> f ! 2 = '''' \<or> f ! 3 = '''' then Inl (empty_key_text n)
               else case parse_status (f ! 4) of
                 None \<Rightarrow> Inl (bad_status_text n (f ! 4))
               | Some st \<Rightarrow>
                   (case origins (map lower_char (f ! 5)) of
                      None \<Rightarrow> Inl (bad_origin_text n (f ! 5))
                    | Some o' \<Rightarrow>
                        if Verified st \<and> o' \<noteq> ''own'' then Inl (needs_own_text n st (f ! 5))
                        else Inr \<lparr> en_Product = f ! 0, en_Board = f ! 1, en_BIOS = f ! 2, en_EC = f ! 3, en_Status = st,
                                   en_Origin = o', en_Date = f ! 6, en_Note = f ! 7 \<rparr>)))"

fun parse_loop :: "nat \<Rightarrow> string list \<Rightarrow> Entry list \<Rightarrow> TableMeta \<Rightarrow> string + Entry list \<times> TableMeta" where
  "parse_loop n [] out m = Inr (out, m)"
| "parse_loop n (l # ls) out m =
     (if int (length l) \<ge> MaxLine then Inl scan_error
      else
        (let line = trim_right CR l
         in if trim_space line = '''' then parse_loop (Suc n) ls out m
            else if has_prefix ''#'' line then parse_loop (Suc n) ls out (meta_line line m)
            else case row_line n line of Inl e \<Rightarrow> Inl e | Inr r \<Rightarrow> parse_loop (Suc n) ls (out @ [r]) m))"

definition Parse :: "string \<Rightarrow> string + Entry list \<times> TableMeta" where
  "Parse s =
     (case parse_loop 1 (scan_lines s) [] \<lparr> tm_Source = '''', tm_SHA = '''', tm_Generated = '''' \<rparr> of
        Inl e \<Rightarrow> Inl e
      | Inr (out, m) \<Rightarrow>
          if out = [] then Inl ''no rows''
          else if tm_Source m = '''' \<or> tm_Generated m = '''' then Inl ''source or generated line missing''
          else Inr (out, m))"

section \<open>The lookup\<close>

definition ReadIdentity :: "filesys \<Rightarrow> string \<Rightarrow> HwIdentity" where
  "ReadIdentity fs sysRoot =
     (let rd = (\<lambda>name. readTrim fs (join_path [sysRoot, ''class'', ''dmi'', ''id'', name]))
      in \<lparr> hi_Product = rd ''product_name'', hi_Board = rd ''board_name'', hi_BoardVersion = rd ''board_version'',
           hi_SysVendor = rd ''sys_vendor'', hi_BIOS = rd ''bios_version'', hi_BIOSDate = rd ''bios_date'',
           hi_BIOSRelease = rd ''bios_release'', hi_EC = rd ''ec_firmware_release'' \<rparr>)"

definition Key :: "HwIdentity \<Rightarrow> string" where
  "Key i = orText (hi_Product i) ''?'' @ '' / '' @ orText (hi_Board i) ''?'' @ '' / BIOS '' @ orText (hi_BIOS i) ''?'' @
     '' / EC '' @ orText (hi_EC i) ''?''"

text \<open>The score of a row, \<open>None\<close> when it does not match (the three \<open>continue\<close>s).\<close>

definition row_score :: "HwIdentity \<Rightarrow> Entry \<Rightarrow> nat option" where
  "row_score i e =
     (if en_Product e \<noteq> hi_Product i \<or> en_Board e \<noteq> hi_Board i then None
      else
        (let b = (if en_BIOS e = hi_BIOS i \<and> hi_BIOS i \<noteq> '''' then Some 2 else if en_BIOS e = ''*'' then Some 0 else None)
         in case b of None \<Rightarrow> None
            | Some x \<Rightarrow>
                if en_EC e = hi_EC i \<and> hi_EC i \<noteq> '''' then Some (x + 1)
                else if en_EC e = ''*'' then Some x else None))"

fun best_loop :: "HwIdentity \<Rightarrow> Entry list \<Rightarrow> (Entry \<times> nat) option \<Rightarrow> (Entry \<times> nat) option" where
  "best_loop i [] best = best"
| "best_loop i (e # es) best =
     (case row_score i e of
        None \<Rightarrow> best_loop i es best
      | Some sc \<Rightarrow>
          best_loop i es (case best of None \<Rightarrow> Some (e, sc) | Some (b, bs) \<Rightarrow> if sc > bs then Some (e, sc) else best))"

definition not_in_table_text :: string where
  [text_defs]: "not_in_table_text = ''this product/board/BIOS/EC firmware combination is not in the hardware results table''"

definition entry_reason :: "Entry \<Rightarrow> string" where
  [text_defs]: "entry_reason e = status_text (en_Status e) @
     (if en_Origin e = ''upstream'' then '' per the driver author (upstream), not tested by this project''
      else if en_Origin e = ''report'' then '' from a user report, not tested by this project''
      else '' on the reference device'')"

definition lookupIn :: "Entry list \<Rightarrow> HwIdentity \<Rightarrow> HwResult" where
  "lookupIn t i =
     (case best_loop i t None of
        None \<Rightarrow> \<lparr> hw_Status = Unknown, hw_Key = Key i, hw_Entry = None, hw_Reason = not_in_table_text \<rparr>
      | Some (e, _) \<Rightarrow> \<lparr> hw_Status = en_Status e, hw_Key = Key i, hw_Entry = Some e, hw_Reason = entry_reason e \<rparr>)"

definition ForProfile :: "Entry list \<Rightarrow> string \<Rightarrow> HwIdentity \<Rightarrow> HwResult" where
  "ForProfile t profile i =
     (if profile \<noteq> ''n5pro'' then
        \<lparr> hw_Status = Unknown, hw_Key = Key i, hw_Entry = None,
          hw_Reason = (if profile = ''monitor'' then ''monitoring only, no fan control''
                       else ''no hardware results for this profile (from documentation, untested)'') \<rparr>
      else
        (let r = lookupIn t i
         in if hw_Entry r \<noteq> None \<and> hi_Product i \<noteq> ''N5 PRO''
            then r\<lparr> hw_Reason := hw_Reason r @ ''; the n5pro channel table is measured on the N5 PRO only'' \<rparr> else r))"

definition Describe :: "HwResult \<Rightarrow> string" where
  "Describe r = status_text (hw_Status r) @ '' ('' @ hw_Key r @ '': '' @ hw_Reason r @ '')''"

section \<open>The lines of the checksum\<close>

definition Begin :: string where "Begin = ''<!-- hwstatus:begin -->''"
definition End :: string where "End = ''<!-- hwstatus:end -->''"

text \<open>The lines of a file: the text after the last newline is a line when it is not empty.\<close>

definition file_lines :: "string \<Rightarrow> string list" where
  "file_lines s = (let ls = split_at NL s in map (trim_suffix [CR]) (if last ls = [] then butlast ls else ls))"

fun sum_loop :: "bool \<Rightarrow> string list \<Rightarrow> string \<Rightarrow> string option" where
  "sum_loop on [] acc = None"
| "sum_loop on (l # ls) acc =
     (if \<not> on \<and> contains_str Begin l then sum_loop True ls acc
      else if on \<and> contains_str End l then Some acc
      else if on then sum_loop on ls (acc @ l @ [NL])
      else sum_loop on ls acc)"

definition Sum :: "(string \<Rightarrow> string) \<Rightarrow> string \<Rightarrow> string + string" where
  "Sum sha src = (case sum_loop False (file_lines src) [] of
     None \<Rightarrow> Inl ''RESULTS.md: hwstatus markers not found'' | Some t \<Rightarrow> Inr (sha t))"

section \<open>Facts\<close>

text \<open>The chosen row is the first of the rows with the highest score.\<close>

lemma best_loop_max:
  assumes "best_loop i es best = Some (e, sc)"
    "\<forall>b bs. best = Some (b, bs) \<longrightarrow> row_score i b = Some bs"
  shows "row_score i e = Some sc \<and> (e \<in> set es \<or> best = Some (e, sc)) \<and>
    (\<forall>x \<in> set es. \<forall>k. row_score i x = Some k \<longrightarrow> k \<le> sc) \<and> (\<forall>b bs. best = Some (b, bs) \<longrightarrow> bs \<le> sc)"
  using assms
proof (induction es arbitrary: best)
  case (Cons x es)
  show ?case
  proof (cases "row_score i x")
    case None
    then show ?thesis using Cons by auto
  next
    case (Some k)
    define best' where "best' = (case best of None \<Rightarrow> Some (x, k) | Some (b, bs) \<Rightarrow> if k > bs then Some (x, k) else best)"
    have "best_loop i es best' = Some (e, sc)" using Cons.prems(1) Some by (simp add: best'_def)
    moreover have "\<forall>b bs. best' = Some (b, bs) \<longrightarrow> row_score i b = Some bs"
      using Cons.prems(2) Some by (auto simp: best'_def split: option.splits)
    ultimately have IH: "row_score i e = Some sc \<and> (e \<in> set es \<or> best' = Some (e, sc)) \<and>
      (\<forall>y \<in> set es. \<forall>j. row_score i y = Some j \<longrightarrow> j \<le> sc) \<and> (\<forall>b bs. best' = Some (b, bs) \<longrightarrow> bs \<le> sc)"
      by (rule Cons.IH)
    have "k \<le> sc" "\<forall>b bs. best = Some (b, bs) \<longrightarrow> bs \<le> sc"
      using IH by (cases best; force simp: best'_def split: if_splits)+
    moreover have "e \<in> set (x # es) \<or> best = Some (e, sc)"
      using IH by (auto simp: best'_def split: option.splits if_splits)
    ultimately show ?thesis using IH Some by auto
  qed
qed auto

lemma best_loop_None: "best_loop i es best = None \<longleftrightarrow> best = None \<and> (\<forall>e \<in> set es. row_score i e = None)"
  by (induction es arbitrary: best) (auto split: option.splits)

text \<open>A row of a parsed table that counts as verified is of own origin.\<close>

definition own_row :: "Entry \<Rightarrow> bool" where
  "own_row e \<longleftrightarrow> (Verified (en_Status e) \<longrightarrow> en_Origin e = ''own'') \<and> en_Product e \<noteq> '''' \<and> en_Board e \<noteq> '''' \<and>
     en_BIOS e \<noteq> '''' \<and> en_EC e \<noteq> ''''"

lemma row_line_own: "row_line n line = Inr e \<Longrightarrow> own_row e"
  by (auto simp: row_line_def Let_def own_row_def split: if_splits option.splits)

lemma parse_loop_own:
  "parse_loop n ls out m = Inr (out', m') \<Longrightarrow> list_all own_row out \<Longrightarrow> list_all own_row out'"
proof (induction ls arbitrary: n out m)
  case (Cons l ls)
  from Cons.prems show ?case
    by (auto simp: Let_def split: if_splits sum.splits dest!: Cons.IH row_line_own)
qed simp

lemma Parse_own: "Parse s = Inr (out, m) \<Longrightarrow> list_all own_row out \<and> out \<noteq> []"
  by (auto simp: Parse_def split: sum.splits prod.splits if_splits dest!: parse_loop_own)

end
