(* ===== verification/Run_Gates.thy ===== *)
theory Run_Gates
  imports Regulator
begin

text \<open>
  The precondition G2, no scrub, resilver or backup: src/ectest/internal/runner/gates.go. The output
  of \<open>zpool status\<close> (or its failure) is an argument, /proc is a \<open>filesys\<close>.
\<close>

datatype zpool = NoZpool | ZpoolError string | ZpoolText string

definition backupNames :: "string list" where
  "backupNames = [''vzdump'', ''proxmox-backup-client'']"

definition NUL :: char where "NUL = CHR 0x00"

text \<open>The loop over the arguments; \<open>n\<close> is the index of the first one.\<close>

fun backup_args :: "nat \<Rightarrow> string list \<Rightarrow> string" where
  "backup_args n [] = ''''"
| "backup_args n (a # as) =
     (if has_prefix ''task UPID:'' a then
        (let f = split_at (CHR '':'') (trim_prefix ''task '' a)
         in if length f > 5 \<and> f ! 5 \<in> set backupNames then ''PVE task '' @ f ! 5 else backup_args (Suc n) as)
      else if n > 2 then backup_args (Suc n) as
      else if go_base a \<in> set backupNames then ''process '' @ go_base a
      else backup_args (Suc n) as)"

definition BackupProcess :: "string \<Rightarrow> string \<Rightarrow> string" where
  "BackupProcess comm cmdline =
     (if comm \<in> set backupNames then ''process '' @ comm
      else backup_args 0 (split_at NUL (trim_right NUL cmdline)))"

definition zpool_found :: "zpool \<Rightarrow> string list" where
  "zpool_found z =
     (case z of NoZpool \<Rightarrow> []
      | ZpoolError e \<Rightarrow> [''zpool status failed: '' @ e]
      | ZpoolText t \<Rightarrow> filter (\<lambda>k. contains_str k t) [''scrub in progress'', ''resilver in progress''])"

definition backup_found :: "filesys \<Rightarrow> string \<Rightarrow> string list" where
  "backup_found fs procRoot =
     (case fs_dir fs procRoot of None \<Rightarrow> []
      | Some ents \<Rightarrow>
          concat (map (\<lambda>n.
            (let what = BackupProcess (trim_space (readRaw fs (join_path [procRoot, n, ''comm''])))
                          (readRaw fs (join_path [procRoot, n, ''cmdline'']))
             in if what \<noteq> '''' then [what @ '' (pid '' @ n @ '')''] else []))
            (filter (\<lambda>n. atoi n \<noteq> None) ents)))"

definition G2 :: "zpool \<Rightarrow> filesys \<Rightarrow> string \<Rightarrow> Gate" where
  "G2 z fs procRoot =
     (let found = zpool_found z @ backup_found fs procRoot;
          pre = (if z = NoZpool then ''no zpool; '' else '''')
      in \<lparr> g_ID = ''G2'', g_Condition = ''no scrub/resilver/backup'',
           g_Result = (if found \<noteq> [] then ''FAIL'' else ''PASS''),
           g_Detail = pre @ (if found \<noteq> [] then joins '', '' found
                             else ''no scrub, resilver, vzdump or proxmox-backup-client'') \<rparr>)"

section \<open>Facts\<close>

text \<open>A backup process is recognised by its name, by one of its first three arguments or by its task id.\<close>

definition task_of :: "string \<Rightarrow> string \<Rightarrow> bool" where
  "task_of a n \<longleftrightarrow> has_prefix ''task UPID:'' a \<and>
     (let f = split_at (CHR '':'') (trim_prefix ''task '' a) in length f > 5 \<and> f ! 5 = n)"

lemma backup_args_found:
  "backup_args k as \<noteq> [] \<longleftrightarrow>
     (\<exists>i < length as. (\<exists>n \<in> set backupNames. task_of (as ! i) n) \<or>
        (\<not> has_prefix ''task UPID:'' (as ! i) \<and> k + i \<le> 2 \<and> go_base (as ! i) \<in> set backupNames))"
proof (induction k as rule: backup_args.induct)
  case (2 k a as)
  have ex: "(\<exists>i < length (a # as). P i ((a # as) ! i)) \<longleftrightarrow> P 0 a \<or> (\<exists>i < length as. P (Suc i) (as ! i))" for P
    by (auto simp: less_Suc_eq_0_disj)
  have "k + Suc i = Suc k + i" for i by simp
  with 2 show ?case
    by (subst ex [where P = "\<lambda>i x. (\<exists>n \<in> set backupNames. task_of x n) \<or>
          (\<not> has_prefix ''task UPID:'' x \<and> k + i \<le> 2 \<and> go_base x \<in> set backupNames)"])
      (auto simp: task_of_def Let_def)
qed simp

lemma backup_found_nil:
  "backup_found fs procRoot = [] \<longleftrightarrow> (\<forall>ents. fs_dir fs procRoot = Some ents \<longrightarrow> (\<forall>n \<in> set ents. atoi n = None \<or>
      BackupProcess (trim_space (readRaw fs (join_path [procRoot, n, ''comm''])))
        (readRaw fs (join_path [procRoot, n, ''cmdline''])) = []))"
proof (cases "fs_dir fs procRoot")
  case (Some ents)
  define P where "P n = BackupProcess (trim_space (readRaw fs (join_path [procRoot, n, ''comm''])))
        (readRaw fs (join_path [procRoot, n, ''cmdline'']))" for n
  have "backup_found fs procRoot = [] \<longleftrightarrow> (\<forall>n \<in> set (filter (\<lambda>n. atoi n \<noteq> None) ents). P n = [])"
    unfolding backup_found_def P_def [symmetric] using Some by (auto simp: Let_def)
  then show ?thesis unfolding P_def [symmetric] using Some by auto
qed (simp add: backup_found_def)

end
