(* ===== verification/Host_Properties.thy ===== *)
theory Host_Properties
  imports Hw_Status Run_Gates
begin

text \<open>
  The properties of what the program reads of its host: the hardware status of the machine and the
  gate against scrubs, resilvers and backups.
\<close>

section \<open>Hardware status\<close>

text \<open>the lookup of a machine answers with a row of the table that matches it and has the highest score of all
  rows (BIOS before EC firmware, exact before wildcard), and with no row exactly when none matches.\<close>

theorem lookup_best_row:
  "(hw_Entry (lookupIn t i) = None \<longleftrightarrow> (\<forall>e \<in> set t. row_score i e = None)) \<and>
   (hw_Entry (lookupIn t i) = Some e \<longrightarrow> hw_Status (lookupIn t i) = en_Status e \<and> e \<in> set t \<and>
      (\<exists>sc. row_score i e = Some sc \<and> (\<forall>x \<in> set t. \<forall>k. row_score i x = Some k \<longrightarrow> k \<le> sc)))"
proof (cases "best_loop i t None")
  case None
  then show ?thesis using best_loop_None [of i t None] by (simp add: lookupIn_def)
next
  case (Some p)
  obtain b sc where p: "p = (b, sc)" by fastforce
  with Some have r: "best_loop i t None = Some (b, sc)" by simp
  have "row_score i b = Some sc \<and> b \<in> set t \<and> (\<forall>x \<in> set t. \<forall>k. row_score i x = Some k \<longrightarrow> k \<le> sc)"
    using best_loop_max [OF r] by simp
  then show ?thesis using best_loop_None [of i t None] r by (auto simp: lookupIn_def)
qed

definition n5_row :: Entry where
  "n5_row = \<lparr> en_Product = ''N5 PRO'', en_Board = ''F8NAA'', en_BIOS = ''1.05'', en_EC = ''*'', en_Status = Tested,
     en_Origin = ''own'', en_Date = '''', en_Note = '''' \<rparr>"

definition n5_machine :: HwIdentity where
  "n5_machine = \<lparr> hi_Product = ''N5 PRO'', hi_Board = ''F8NAA'', hi_BoardVersion = '''', hi_SysVendor = '''',
     hi_BIOS = ''1.05'', hi_BIOSDate = '''', hi_BIOSRelease = '''', hi_EC = ''0.14'' \<rparr>"

theorem lookup_best_row_witness:
  "hw_Entry (lookupIn [n5_row\<lparr> en_BIOS := ''*'', en_Status := Experimental \<rparr>, n5_row] n5_machine) = Some n5_row \<and>
   hw_Status (lookupIn [n5_row\<lparr> en_BIOS := ''*'', en_Status := Experimental \<rparr>, n5_row] n5_machine) = Tested"
proof -
  have "hw_Entry (lookupIn [n5_row\<lparr> en_BIOS := ''*'', en_Status := Experimental \<rparr>, n5_row] n5_machine) = Some n5_row"
    by (simp add: lookupIn_def row_score_def n5_row_def n5_machine_def)
  then show ?thesis using lookup_best_row by (force simp: n5_row_def)
qed

text \<open>C39: a machine is reported as validated or tested only for the profile n5pro and a row of the parsed table that
  is of own origin, names its product and board, and names its BIOS and EC firmware or a wildcard.\<close>

theorem verified_is_own:
  assumes "Parse s = Inr (t, m)" "Verified (hw_Status (ForProfile t p i))"
  shows "p = ''n5pro'' \<and> (\<exists>e \<in> set t. en_Status e = hw_Status (ForProfile t p i) \<and> en_Origin e = ''own'' \<and>
    en_Product e = hi_Product i \<and> en_Board e = hi_Board i \<and> en_BIOS e \<in> {hi_BIOS i, ''*''} \<and> en_EC e \<in> {hi_EC i, ''*''})"
proof -
  have p: "p = ''n5pro''" using assms(2) by (auto simp: ForProfile_def Verified_def split: if_splits)
  then have st: "hw_Status (ForProfile t p i) = hw_Status (lookupIn t i)" by (simp add: ForProfile_def Let_def)
  with assms(2) obtain b sc where r: "best_loop i t None = Some (b, sc)" "hw_Status (lookupIn t i) = en_Status b"
    by (auto simp: lookupIn_def Verified_def split: option.splits)
  have b: "row_score i b = Some sc" "b \<in> set t" using best_loop_max [OF r(1)] by simp_all
  have "own_row b" using Parse_own [OF assms(1)] b(2) by (simp add: list_all_iff)
  moreover have "en_Product b = hi_Product i \<and> en_Board b = hi_Board i \<and> en_BIOS b \<in> {hi_BIOS i, ''*''} \<and> en_EC b \<in> {hi_EC i, ''*''}"
    using b(1) by (auto simp: row_score_def Let_def split: if_splits option.splits)
  ultimately show ?thesis using p st r(2) b(2) assms(2) by (auto simp: own_row_def)
qed

definition n5_table :: string where
  "n5_table = ''# source: RESULTS.md'' @ [NL] @ ''# generated: by hand'' @ [NL] @
     joins [CHR 0x09] [''N5 PRO'', ''F8NAA'', ''1.05'', ''*'', ''tested'', ''eigen'', ''d'', ''n''] @ [NL]"

theorem verified_is_own_witness:
  "\<exists>t m. Parse n5_table = Inr (t, m) \<and> Verified (hw_Status (ForProfile t ''n5pro'' n5_machine)) \<and>
     (\<exists>e \<in> set t. en_Origin e = ''own'' \<and> en_Board e = ''F8NAA'')"
proof -
  have "\<exists>t m. Parse n5_table = Inr (t, m) \<and> Verified (hw_Status (ForProfile t ''n5pro'' n5_machine))"
  proof -
    have "case Parse n5_table of Inl _ \<Rightarrow> False | Inr (t, m) \<Rightarrow> Verified (hw_Status (ForProfile t ''n5pro'' n5_machine))"
      by code_simp
    then show ?thesis by (auto split: sum.splits prod.splits)
  qed
  then obtain t m where t: "Parse n5_table = Inr (t, m)" "Verified (hw_Status (ForProfile t ''n5pro'' n5_machine))" by blast
  have "hi_Board n5_machine = ''F8NAA''" by (simp add: n5_machine_def)
  with t verified_is_own [OF t] show ?thesis by metis
qed

section \<open>Scrubs, resilvers and backups\<close>

text \<open>the gate G2 passes exactly when \<open>zpool status\<close> is absent or reports neither a scrub nor a resilver, and no
  process of /proc is a backup: by its name, by one of its first three arguments, or by the type of
  its Proxmox task wherever the task id stands.\<close>

theorem G2_pass:
  "g_Result (G2 z fs procRoot) = ''PASS'' \<longleftrightarrow>
     (z = NoZpool \<or> (\<exists>t. z = ZpoolText t \<and> \<not> contains_str ''scrub in progress'' t \<and> \<not> contains_str ''resilver in progress'' t)) \<and>
     (\<forall>ents. fs_dir fs procRoot = Some ents \<longrightarrow> (\<forall>n \<in> set ents. atoi n = None \<or>
        (\<not> trim_space (readRaw fs (join_path [procRoot, n, ''comm''])) \<in> set backupNames \<and>
         (let as = split_at NUL (trim_right NUL (readRaw fs (join_path [procRoot, n, ''cmdline'']))) in
          \<forall>k < length as. \<not> (\<exists>b \<in> set backupNames. task_of (as ! k) b) \<and>
            (has_prefix ''task UPID:'' (as ! k) \<or> 2 < k \<or> go_base (as ! k) \<notin> set backupNames)))))"
proof -
  have b: "BackupProcess c l = [] \<longleftrightarrow> c \<notin> set backupNames \<and> (let as = split_at NUL (trim_right NUL l) in
      \<forall>k < length as. \<not> (\<exists>b \<in> set backupNames. task_of (as ! k) b) \<and>
        (has_prefix ''task UPID:'' (as ! k) \<or> 2 < k \<or> go_base (as ! k) \<notin> set backupNames))" for c l
    using backup_args_found [of 0 "split_at NUL (trim_right NUL l)"] by (auto simp: BackupProcess_def Let_def not_le)
  have "g_Result (G2 z fs procRoot) = ''PASS'' \<longleftrightarrow> zpool_found z = [] \<and> backup_found fs procRoot = []"
    by (simp add: G2_def Let_def)
  moreover have "zpool_found z = [] \<longleftrightarrow>
      z = NoZpool \<or> (\<exists>t. z = ZpoolText t \<and> \<not> contains_str ''scrub in progress'' t \<and> \<not> contains_str ''resilver in progress'' t)"
    by (cases z) (auto simp: zpool_found_def)
  ultimately show ?thesis unfolding b [symmetric] backup_found_nil by blast
qed

definition quiet_proc :: filesys where
  "quiet_proc = \<lparr> fs_file = (\<lambda>_. None), fs_dir = (\<lambda>_. Some []), fs_real = (\<lambda>_. None) \<rparr>"

theorem G2_pass_witness: "g_Result (G2 NoZpool quiet_proc ''/proc'') = ''PASS''"
  unfolding G2_pass by (simp add: quiet_proc_def)

end
