(* ===== verification/Identity.thy ===== *)
theory Identity
  imports Hw_Status Driver Decimal Spec_Aggregate
begin

text \<open>
  The identity of a machine, src/go/n5/identity/identity.go, and its verdict T0,
  src/ectest/internal/spec/t0.go. Beside the \<open>filesys\<close> two functions say of a path whether the
  operating system denies it and what its error text is; the output of dpkg-query and the embedded
  results table are arguments.
\<close>

section \<open>Data\<close>

record Roots =
  ro_Sys :: string
  ro_Proc :: string
  ro_Etc :: string
  ro_Run :: string

definition HostRoots :: Roots where
  "HostRoots = \<lparr> ro_Sys = ''/sys'', ro_Proc = ''/proc'', ro_Etc = ''/etc'', ro_Run = ''/run'' \<rparr>"

record DCRInfo =
  dc_Path :: string
  dc_Dump :: string
  dc_Channels :: "(string \<times> int) list"
  dc_Error :: string

record OSRelease =
  os_ID :: string
  os_VersionID :: string

record Machine =
  id_DMI :: HwIdentity
  id_Kernel :: string
  id_KernelVersion :: string
  id_KernelTaint :: string
  id_BootID :: string
  id_UptimeS :: fl
  id_Driver :: State
  id_DKMSPackage :: string
  id_DCR :: DCRInfo
  id_OS :: OSRelease
  id_Lockdown :: string
  id_Container :: string
  id_ContainerEvidence :: string
  id_HWStatus :: HwResult
  id_HWTable :: TableMeta

text \<open>The operating system's answers beside the contents: permission denied, and the text of an error.\<close>

record os_errors =
  oe_denied :: "string \<Rightarrow> bool"
  oe_text :: "string \<Rightarrow> string"

section \<open>Parts\<close>

definition dcr_denied_text :: "string \<Rightarrow> string" where
  [text_defs]: "dcr_denied_text p = ''debugfs not readable without root: run as root to read '' @ p"

definition no_dcr_text :: "string \<Rightarrow> string" where
  [text_defs]: "no_dcr_text p = ''no '' @ p @ '' (driver 0.2.1+sr1 with debug_regs=1 only; validation, not for operation)''"

definition ReadDCRInfo :: "filesys \<Rightarrow> os_errors \<Rightarrow> string \<Rightarrow> DCRInfo" where
  "ReadDCRInfo fs oe sysRoot =
     (let p = DCRPath sysRoot
      in if \<not> exists_path fs p then
           (if oe_denied oe p then \<lparr> dc_Path = p, dc_Dump = '''', dc_Channels = [], dc_Error = dcr_denied_text p \<rparr>
            else \<lparr> dc_Path = '''', dc_Dump = '''', dc_Channels = [], dc_Error = no_dcr_text p \<rparr>)
         else case ReadDCR fs p of
                Inl e \<Rightarrow> \<lparr> dc_Path = p, dc_Dump = '''', dc_Channels = [], dc_Error = e \<rparr>
              | Inr d \<Rightarrow> \<lparr> dc_Path = p, dc_Dump = DCR_String d,
                           dc_Channels = List.map_filter (\<lambda>ch. map_option (\<lambda>v. (''pwm'' @ itoa ch, v)) (Channel d ch)) [1, 2, 3, 4],
                           dc_Error = '''' \<rparr>)"

text \<open>What the output of dpkg-query says; \<open>None\<close>: it failed.\<close>

definition dpkg_version :: "string option \<Rightarrow> string" where
  "dpkg_version outp =
     (case outp of None \<Rightarrow> ''''
      | Some t \<Rightarrow> (case cut_at (CHR ''|'') (trim_space t) of
            (st, ver, ok) \<Rightarrow> if \<not> ok \<or> \<not> has_suffix '' installed'' st then '''' else ver))"

text \<open>\<open>strings.Trim(v, set)\<close>\<close>

definition trim_set :: "char list \<Rightarrow> string \<Rightarrow> string" where
  "trim_set cs s = rev (dropWhile (\<lambda>c. c \<in> set cs) (rev (dropWhile (\<lambda>c. c \<in> set cs) s)))"

definition os_line :: "string \<Rightarrow> OSRelease \<Rightarrow> OSRelease" where
  "os_line l o' =
     (case cut_at (CHR ''='') (trim_space l) of (k, v, ok) \<Rightarrow>
        if \<not> ok then o'
        else (let v = trim_set [CHR 0x22, CHR 0x27] v
              in if k = ''ID'' then o'\<lparr> os_ID := v \<rparr>
                 else if k = ''VERSION_ID'' then o'\<lparr> os_VersionID := v \<rparr> else o'))"

definition readOSRelease :: "filesys \<Rightarrow> string \<Rightarrow> OSRelease" where
  "readOSRelease fs p = fold os_line (split_at NL (readTrim fs p)) \<lparr> os_ID = '''', os_VersionID = '''' \<rparr>"

text \<open>The first match of \<open>\[([a-z]+)\]\<close>; the empty text when there is none.\<close>

definition lower_letter :: "char \<Rightarrow> bool" where
  "lower_letter c \<longleftrightarrow> 97 \<le> (of_char c :: nat) \<and> (of_char c :: nat) \<le> 122"

fun bracketed :: "string \<Rightarrow> string" where
  "bracketed [] = ''''"
| "bracketed (c # cs) =
     (let w = takeWhile lower_letter cs
      in if c = CHR ''['' \<and> w \<noteq> [] \<and> has_prefix '']'' (drop (length w) cs) then w else bracketed cs)"

definition Lockdown :: "filesys \<Rightarrow> string \<Rightarrow> string" where
  "Lockdown fs sysRoot = bracketed (readTrim fs (join_path [sysRoot, ''kernel'', ''security'', ''lockdown'']))"

definition environ_denied_text :: string where
  [text_defs]: "environ_denied_text = ''/proc/1/environ not readable without root: run as root''"
definition environ_error_text :: "string \<Rightarrow> string" where
  [text_defs]: "environ_error_text e = ''/proc/1/environ not readable ('' @ e @ '')''"
definition pid1_text :: string where
  [text_defs]: "pid1_text = ''container= in the environment of pid 1''"
definition no_container_text :: string where
  [text_defs]: "no_container_text = ''no container= in the environment of pid 1, no /run/systemd/container''"

definition DetectContainer :: "filesys \<Rightarrow> os_errors \<Rightarrow> string \<Rightarrow> string \<Rightarrow> string \<times> string" where
  "DetectContainer fs oe procRoot runRoot =
     (let v = readTrim fs (join_path [runRoot, ''systemd'', ''container'']);
          env = join_path [procRoot, ''1'', ''environ'']
      in if v \<noteq> '''' then (v, ''/run/systemd/container'')
         else case fs_file fs env of
           None \<Rightarrow> (''unknown'', if oe_denied oe env then environ_denied_text else environ_error_text (oe_text oe env))
         | Some b \<Rightarrow>
             (case find (has_prefix ''container='') (split_at (CHR 0x00) b) of
                Some kv \<Rightarrow> (orText (drop (length ''container='') kv) ''unnamed'', pid1_text)
              | None \<Rightarrow>
                  if exists_path fs (join_path [procRoot, ''1'', ''root'', ''.dockerenv'']) then (''docker'', ''/.dockerenv'')
                  else ('''', no_container_text)))"

section \<open>Collect\<close>

definition uptime_of :: "string \<Rightarrow> fl" where
  "uptime_of s =
     (case Fields s of [] \<Rightarrow> Some 0 | f # _ \<Rightarrow> (case ParseFloat f of None \<Rightarrow> Some 0 | Some x \<Rightarrow> x))"

definition Collect :: "filesys \<Rightarrow> os_errors \<Rightarrow> (string \<Rightarrow> string) \<Rightarrow> Entry list \<times> TableMeta \<Rightarrow> Roots \<Rightarrow> Machine" where
  "Collect fs oe query table r =
     (let proc = (\<lambda>rel. readTrim fs (join_path (ro_Proc r # rel)));
          dmi = ReadIdentity fs (ro_Sys r);
          (cont, evid) = DetectContainer fs oe (ro_Proc r) (ro_Run r)
      in \<lparr> id_DMI = dmi,
           id_Kernel = proc [''sys'', ''kernel'', ''osrelease''],
           id_KernelVersion = proc [''sys'', ''kernel'', ''version''],
           id_KernelTaint = proc [''sys'', ''kernel'', ''tainted''],
           id_BootID = proc [''sys'', ''kernel'', ''random'', ''boot_id''],
           id_UptimeS = uptime_of (proc [''uptime'']),
           id_Driver = Read fs (ro_Sys r),
           id_DKMSPackage = query PackageName,
           id_DCR = ReadDCRInfo fs oe (ro_Sys r),
           id_OS = readOSRelease fs (join_path [ro_Etc r, ''os-release'']),
           id_Lockdown = Lockdown fs (ro_Sys r),
           id_Container = cont, id_ContainerEvidence = evid,
           id_HWStatus = lookupIn (fst table) dmi,
           id_HWTable = snd table \<rparr>)"

section \<open>T0\<close>

definition T0Values :: "Machine \<Rightarrow> string \<Rightarrow> string \<Rightarrow> (string \<times> string) list" where
  "T0Values i toolVersion boot =
     [(''product_name'', hi_Product (id_DMI i)), (''board_name'', hi_Board (id_DMI i)),
      (''board_version'', hi_BoardVersion (id_DMI i)), (''bios_version'', hi_BIOS (id_DMI i)),
      (''bios_date'', hi_BIOSDate (id_DMI i)), (''ec_firmware_release'', hi_EC (id_DMI i)),
      (''kernel'', id_Kernel i), (''driver_version'', ds_Version (id_Driver i)),
      (''driver_srcversion'', ds_SrcVersion (id_Driver i)), (''tool_version'', toolVersion),
      (''spec_version'', SpecVersion), (''boot_type'', boot),
      (''uptime'', case id_UptimeS i of NaN \<Rightarrow> '''' | Some u \<Rightarrow> if u > 0 then fmt_f 0 u else ''''),
      (''driver_parameters'', if ds_Params (id_Driver i) \<noteq> [] then ''present'' else '''')]"

definition T0Fields :: "string list" where
  "T0Fields = [''product_name'', ''board_name'', ''board_version'', ''bios_version'', ''bios_date'',
     ''ec_firmware_release'', ''kernel'', ''driver_version'', ''driver_srcversion'', ''driver_parameters'',
     ''tool_version'', ''spec_version'', ''boot_type'', ''uptime'']"

text \<open>The fields named in the reason: \<open>fields[k]\<close> of a missing key is the empty text.\<close>

definition t0_missing :: "(string \<times> string) list \<Rightarrow> string list" where
  "t0_missing flds = filter (\<lambda>k. case map_of flds k of None \<Rightarrow> True | Some v \<Rightarrow> v = '''') T0Fields"

definition T0 :: "(string \<times> string) list \<Rightarrow> string \<Rightarrow> Result" where
  "T0 flds boot =
     (let missing = t0_missing flds
      in (if missing \<noteq> [] then
            mk_result ''T0'' 0 Inconclusive
              ((''missing: '' @ joins '', '' missing) # (if boot = '''' then [''give --boot cold|warm''] else []))
          else mk_result ''T0'' 0 Pass [])\<lparr> r_Values := IdentityFields flds \<rparr>)"

section \<open>Facts\<close>

lemma fmt_f_ne [simp]: "fmt_f p x \<noteq> []"
  by (simp add: fmt_f_def)

lemma t0_missing_nil:
  "t0_missing (T0Values i tv boot) = [] \<longleftrightarrow>
     hi_Product (id_DMI i) \<noteq> [] \<and> hi_Board (id_DMI i) \<noteq> [] \<and> hi_BoardVersion (id_DMI i) \<noteq> [] \<and>
     hi_BIOS (id_DMI i) \<noteq> [] \<and> hi_BIOSDate (id_DMI i) \<noteq> [] \<and> hi_EC (id_DMI i) \<noteq> [] \<and> id_Kernel i \<noteq> [] \<and>
     ds_Version (id_Driver i) \<noteq> [] \<and> ds_SrcVersion (id_Driver i) \<noteq> [] \<and> ds_Params (id_Driver i) \<noteq> [] \<and>
     tv \<noteq> [] \<and> boot \<noteq> [] \<and> (\<exists>u. id_UptimeS i = Some u \<and> 0 < u)"
  unfolding t0_missing_def T0Fields_def T0Values_def
  by (auto simp: SpecVersion_def split: option.splits if_splits)

lemma T0_verdict: "r_Verdict (T0 flds boot) = (if t0_missing flds = [] then Pass else Inconclusive)"
  by (simp add: T0_def mk_result_def Let_def)

text \<open>The bracket expression finds a word in brackets exactly when one is there.\<close>

definition bracket_word :: "string \<Rightarrow> string \<Rightarrow> bool" where
  "bracket_word w s \<longleftrightarrow> w \<noteq> [] \<and> list_all lower_letter w \<and> (\<exists>a b. s = a @ ''['' @ w @ '']'' @ b)"

lemma bracket_word_cons:
  "bracket_word w (c # cs) \<longleftrightarrow>
     (c = CHR ''['' \<and> w \<noteq> [] \<and> w = takeWhile lower_letter cs \<and> has_prefix '']'' (drop (length w) cs)) \<or> bracket_word w cs"
proof
  assume bw: "bracket_word w (c # cs)"
  then obtain a b where ab: "c # cs = a @ ''['' @ w @ '']'' @ b" "w \<noteq> []" "list_all lower_letter w"
    unfolding bracket_word_def by blast
  show "(c = CHR ''['' \<and> w \<noteq> [] \<and> w = takeWhile lower_letter cs \<and> has_prefix '']'' (drop (length w) cs)) \<or> bracket_word w cs"
  proof (cases a)
    case Nil
    with ab have cs: "cs = w @ '']'' @ b" "c = CHR ''[''" by auto
    have "takeWhile lower_letter cs = w"
      using ab(3) unfolding cs(1) by (subst takeWhile_append2) (auto simp: list_all_iff lower_letter_def)
    with cs ab(2) show ?thesis by (simp add: has_prefix_def)
  next
    case (Cons x a')
    with ab have "cs = a' @ ''['' @ w @ '']'' @ b" by simp
    with ab show ?thesis unfolding bracket_word_def by blast
  qed
next
  assume "(c = CHR ''['' \<and> w \<noteq> [] \<and> w = takeWhile lower_letter cs \<and> has_prefix '']'' (drop (length w) cs)) \<or> bracket_word w cs"
  then show "bracket_word w (c # cs)"
  proof
    assume h: "c = CHR ''['' \<and> w \<noteq> [] \<and> w = takeWhile lower_letter cs \<and> has_prefix '']'' (drop (length w) cs)"
    then obtain b where b: "drop (length w) cs = '']'' @ b" using has_prefixE by blast
    have "take (length w) cs = w" using h by (metis takeWhile_eq_take)
    then have "cs = w @ '']'' @ b" by (metis append_take_drop_id b)
    then have e: "c # cs = [] @ ''['' @ w @ '']'' @ b" using h by simp
    have "list_all lower_letter w" using h by (metis list_all_iff set_takeWhileD)
    with h e show ?thesis unfolding bracket_word_def by blast
  next
    assume "bracket_word w cs"
    then show ?thesis unfolding bracket_word_def by (metis append_Cons)
  qed
qed

lemma bracketed_word: "bracketed s \<noteq> [] \<Longrightarrow> bracket_word (bracketed s) s"
  by (induction s) (auto simp: Let_def bracket_word_cons split: if_splits)

lemma bracketed_none: "bracketed s = [] \<Longrightarrow> \<not> bracket_word w s"
proof (induction s)
  case (Cons c cs)
  then show ?case by (auto simp: Let_def bracket_word_cons split: if_splits)
qed (simp add: bracket_word_def)

text \<open>A machine is taken for no container only with a readable environment that names none.\<close>

lemma DetectContainer_none:
  "fst (DetectContainer fs oe procRoot runRoot) = [] \<longleftrightarrow>
     readTrim fs (join_path [runRoot, ''systemd'', ''container'']) = [] \<and>
     \<not> exists_path fs (join_path [procRoot, ''1'', ''root'', ''.dockerenv'']) \<and>
     (\<exists>b. fs_file fs (join_path [procRoot, ''1'', ''environ'']) = Some b \<and>
       (\<forall>kv \<in> set (split_at (CHR 0x00) b). \<not> has_prefix ''container='' kv))"
proof (cases "fs_file fs (join_path [procRoot, ''1'', ''environ''])")
  case (Some b)
  show ?thesis
  proof (cases "find (has_prefix ''container='') (split_at (CHR 0x00) b)")
    case None
    then have "\<forall>kv \<in> set (split_at (CHR 0x00) b). \<not> has_prefix ''container='' kv" by (simp add: find_None_iff)
    with Some None show ?thesis by (simp add: DetectContainer_def Let_def)
  next
    case (Some kv)
    then have "\<exists>kv \<in> set (split_at (CHR 0x00) b). has_prefix ''container='' kv" using find_SomeD by fast
    with Some \<open>fs_file _ _ = Some b\<close> show ?thesis by (auto simp: DetectContainer_def Let_def orText_def)
  qed
qed (simp add: DetectContainer_def Let_def)

end
