(* ===== verification/Report.thy ===== *)
theory Report
  imports Runner_Tests Identity
begin

text \<open>
  The recomputation of the verdicts of a bundle: src/ectest/internal/report/recompute.go. The JSON of
  meta.json and verdict.json and the rows of samples.csv are arguments, already decoded. Matching a
  regular expression of the code is a function that scans the text from left to right. An access
  outside a slice panics: the result is \<open>None\<close>.
\<close>

section \<open>Data\<close>

record Meta =
  me_Command :: string
  me_Channel :: int
  me_ToolVersion :: string
  me_BootType :: string
  me_Identity :: Machine
  me_SpecVersion :: string
  me_Aborted :: string
  me_Gates :: "Gate list"
  me_OnlineCPUs :: int
  me_Provisional :: bool

text \<open>What verdict.json stores of a result, as far as it is compared; verdicts are their texts.\<close>

record StoredSub =
  ss_Label :: string
  ss_T2 :: string
  ss_T3 :: string

record StoredRun =
  st_Run :: int
  st_RunVerdict :: string
  st_Subs :: "StoredSub list"

record StoredTest =
  te_ID :: string
  te_Verdict :: string
  te_Runs :: "StoredRun list"

record Mismatch =
  mi_ID :: string
  mi_Stored :: string
  mi_Recomputed :: string
  mi_Gate :: bool

definition Source :: "Mismatch \<Rightarrow> string" where
  "Source m = (if mi_Gate m then ''meta.json'' else ''verdict.json'')"

definition notRecomputed :: string where [text_defs]: "notRecomputed = ''(not recomputed)''"
definition missing_side :: string where [text_defs]: "missing_side = ''(missing)''"

record Event =
  ev_TS :: rat
  ev_Text :: string
  ev_Line :: string

record SubRun =
  sb_Rep :: int
  sb_Label :: string
  sb_Written :: int
  sb_Regs :: "int \<Rightarrow> DCRSample list"
  sb_Auto :: "int \<Rightarrow> int option"
  sb_Eval :: RegsResult

section \<open>Events\<close>

text \<open>The class \<open>\S\<close> of the expression excludes tab, newline, form feed, return and blank.\<close>

definition re_space :: "char \<Rightarrow> bool" where
  "re_space c \<longleftrightarrow> c \<in> {CHR '' '', CHR 0x09, CHR 0x0A, CHR 0x0C, CHR 0x0D}"

text \<open>\<open>^\S+ \[t_s=([0-9.]+)\] (.*)$\<close>: the number and the text.\<close>

definition match_event :: "string \<Rightarrow> (string \<times> string) option" where
  "match_event l =
     (let word = takeWhile (\<lambda>c. \<not> re_space c) l;
          rest = drop (length word) l
      in if word = [] \<or> \<not> has_prefix '' [t_s='' rest then None
         else
           (let r1 = drop (length '' [t_s='') rest;
                num = takeWhile digit_or_dot r1;
                r2 = drop (length num) r1
            in if num = [] \<or> \<not> has_prefix ''] '' r2 then None
               else (let txt = drop 2 r2 in if NL \<in> set txt then None else Some (num, txt))))"

definition parse_event :: "string \<Rightarrow> Event" where
  "parse_event l =
     (case match_event l of
        None \<Rightarrow> \<lparr> ev_TS = -1, ev_Text = l, ev_Line = l \<rparr>
      | Some (num, txt) \<Rightarrow> \<lparr> ev_TS = parse_dec num, ev_Text = txt, ev_Line = l \<rparr>)"

definition ParseEvents :: "string list \<Rightarrow> Event list" where
  "ParseEvents lines = map parse_event lines"

definition hasEvent :: "Event list \<Rightarrow> string \<Rightarrow> bool" where
  "hasEvent evs txt \<longleftrightarrow> list_ex (\<lambda>e. ev_Text e = txt) evs"

definition phaseSamples :: "Sample list \<Rightarrow> string \<Rightarrow> Sample list" where
  "phaseSamples smp phase = filter (\<lambda>s. s_Phase s = phase) smp"

definition isWrite :: "string \<Rightarrow> string \<Rightarrow> bool" where
  "isWrite txt w \<longleftrightarrow> txt = w \<or> has_prefix (w @ '' ['') txt"

definition writeTS :: "Event list \<Rightarrow> int \<Rightarrow> int \<Rightarrow> rat option" where
  "writeTS evs ch duty = map_option ev_TS (find (\<lambda>e. 0 \<le> ev_TS e \<and> isWrite (ev_Text e) (EventWrite ch duty)) evs)"

text \<open>\<open>^write pwm[1-4]=[0-9]+( \[.*\])?$\<close>\<close>

definition is_digit_char :: "char \<Rightarrow> bool" where
  "is_digit_char c \<longleftrightarrow> digit_val c \<noteq> None"

definition match_write :: "string \<Rightarrow> bool" where
  "match_write t \<longleftrightarrow>
     (let p = ''write pwm''; r = drop (length p) t
      in has_prefix p t \<and>
         (case r of
            c # e # r1 \<Rightarrow>
              (let num = takeWhile is_digit_char r1; tl = drop (length num) r1
               in c \<in> {CHR ''1'', CHR ''2'', CHR ''3'', CHR ''4''} \<and> e = CHR ''='' \<and> num \<noteq> [] \<and>
                  (tl = [] \<or> (has_prefix '' ['' tl \<and> has_suffix '']'' (drop 2 tl) \<and> NL \<notin> set tl)))
          | _ \<Rightarrow> False))"

text \<open>\<open>^T2 r([0-9]+) ([HM]) auto$\<close>; \<open>strconv.Atoi\<close> of a number out of range gives the largest int.\<close>

definition match_auto :: "string \<Rightarrow> (int \<times> string) option" where
  "match_auto t =
     (if \<not> has_prefix ''T2 r'' t then None
      else
        (let r = drop 4 t; num = takeWhile is_digit_char r; tl = drop (length num) r
         in if num = [] then None
            else if tl = '' H auto'' \<or> tl = '' M auto''
                 then Some (case atoi num of Some n \<Rightarrow> n | None \<Rightarrow> 2 ^ 63 - 1, [tl ! 1])
                 else None))"

section \<open>T1\<close>

definition not_run_text :: string where
  [text_defs]: "not_run_text = ''not run (no complete T1 in the bundle)''"

definition rest_data :: "int \<Rightarrow> Sample list \<Rightarrow> rest_acc" where
  "rest_data ch smp = fold (rest_each ch) (phaseSamples smp PhaseT1Rest) ((\<lambda>_. []), (\<lambda>_. []), (\<lambda>_. []))"

definition step_data :: "int \<Rightarrow> Sample list \<Rightarrow> Event list \<Rightarrow> int \<Rightarrow> T1Step" where
  "step_data ch smp evs d =
     (let tws = (case writeTS evs ch d of None \<Rightarrow> 0 | Some t \<Rightarrow> t);
          st = fold (AddT1Sample ch tws) (phaseSamples smp (PhaseT1Step d)) (new_step d)
      in if writeTS evs ch d = None then st\<lparr> st_T := [] \<rparr> else st)"

definition recomputeT1 :: "Meta \<Rightarrow> Sample list \<Rightarrow> Event list \<Rightarrow> Result" where
  "recomputeT1 m smp evs =
     (let ch = me_Channel m
      in if \<not> hasEvent evs EventT1Complete then
           NotImplemented ''T1'' ch (if me_Aborted m \<noteq> '''' then ''aborted: '' @ me_Aborted m else not_run_text)
         else
           (let (rest, restIn, restDCR) = rest_data ch smp
            in EvalT1 \<lparr> t1_ch = ch, t1_own = TachOf ch, t1_rest = rest, t1_restIn = restIn, t1_restDCR = restDCR,
                        t1_steps = map (step_data ch smp evs) T1Steps, t1_fans = [1, 2, 3] \<rparr>))"

section \<open>T2 and T3\<close>

definition no_data_text :: string where
  [text_defs]: "no_data_text = ''not run (no T2 data in the bundle)''"

text \<open>The samples of the A window: \<open>pre\<close> (with the run time) and the table inputs.\<close>

definition pre_each :: "int \<Rightarrow> Sample \<Rightarrow> obs_acc \<Rightarrow> obs_acc" where
  "pre_each ch s = (\<lambda>(out, ins).
     (fold (\<lambda>n m. if RegDCR s n \<ge> 0 then push n \<lparr> d_T = s_TS s, d_DCR = RegDCR s n \<rparr> m else m) (JudgedRegs ch) out,
      ins @ [TableInput ch s]))"

text \<open>The state of the loop over the events.\<close>

record t2_state =
  t2_cur :: int
  t2_lastWrite :: "rat option"
  t2_runs :: "RegsResult list list"
  t2_subs :: "SubRun list"
  t2_holdDev :: "string list"

definition hold_data :: "int \<Rightarrow> int \<Rightarrow> string \<Rightarrow> int \<Rightarrow> rat option \<Rightarrow> Sample \<Rightarrow> fl list \<times> string list \<Rightarrow> fl list \<times> string list" where
  "hold_data ch rep label written lastWrite s = (\<lambda>(ins, devs).
     (ins @ [TableInput ch s],
      (case lastWrite of None \<Rightarrow> devs
       | Some tw \<Rightarrow> (let d = HoldDeviation ch (nat rep) label written s tw in if d \<noteq> '''' then devs @ [d] else devs))))"

definition written_of :: "int \<Rightarrow> string \<Rightarrow> Sample list \<Rightarrow> int" where
  "written_of mv label held =
     (case find (\<lambda>s. s_Written s \<ge> 0) held of
        Some s \<Rightarrow> s_Written s
      | None \<Rightarrow> if label = ''M'' then mv else 255)"

text \<open>One sub-run: its series, its evaluation and the state after it; \<open>None\<close> is the panic of \<open>runs[len(runs)-1]\<close>.\<close>

definition auto_event :: "int \<Rightarrow> Sample list \<Rightarrow> int \<Rightarrow> string \<Rightarrow> (int \<Rightarrow> int option) \<Rightarrow> rat \<Rightarrow> int \<times> string \<Rightarrow> t2_state
    \<Rightarrow> t2_state option" where
  "auto_event ch smp mv preCross autoA ts = (\<lambda>(rep, label) st.
     (let regs = JudgedRegs ch;
          held = phaseSamples smp (PhaseT2Hold rep label);
          written = written_of mv label held;
          (ins, devs) = fold (hold_data ch rep label written (t2_lastWrite st)) held ([], t2_holdDev st);
          (series, ins') = fold (observe_each ch ts) (phaseSamples smp (PhaseT2Auto rep label)) ((\<lambda>_. []), ins);
          hr = MarkCrossing ch preCross ins' (HandbackRuns ch label written regs series autoA);
          sr = EvalHandbackRegs hr;
          runs = (if rep \<noteq> t2_cur st then t2_runs st @ [[]] else t2_runs st)
      in if runs = [] then None
         else Some \<lparr> t2_cur = rep, t2_lastWrite = t2_lastWrite st, t2_runs = butlast runs @ [last runs @ [sr]],
                     t2_subs = t2_subs st @ [\<lparr> sb_Rep = rep, sb_Label = label, sb_Written = written, sb_Regs = series,
                                              sb_Auto = autoA, sb_Eval = sr \<rparr>],
                     t2_holdDev = devs \<rparr>))"

fun t2_loop :: "int \<Rightarrow> Sample list \<Rightarrow> int \<Rightarrow> string \<Rightarrow> (int \<Rightarrow> int option) \<Rightarrow> Event list \<Rightarrow> t2_state \<Rightarrow> t2_state option" where
  "t2_loop ch smp mv preCross autoA [] st = Some st"
| "t2_loop ch smp mv preCross autoA (e # es) st =
     (if 0 \<le> ev_TS e \<and> match_write (ev_Text e)
      then t2_loop ch smp mv preCross autoA es (st\<lparr> t2_lastWrite := Some (ev_TS e) \<rparr>)
      else case match_auto (ev_Text e) of
             None \<Rightarrow> t2_loop ch smp mv preCross autoA es st
           | Some rl \<Rightarrow>
               if ev_TS e < 0 then t2_loop ch smp mv preCross autoA es st
               else (case auto_event ch smp mv preCross autoA (ev_TS e) rl st of
                       None \<Rightarrow> None
                     | Some st' \<Rightarrow> t2_loop ch smp mv preCross autoA es st'))"

definition t2_start :: t2_state where
  "t2_start = \<lparr> t2_cur = 0, t2_lastWrite = None, t2_runs = [], t2_subs = [], t2_holdDev = [] \<rparr>"

definition recomputeT2 :: "Meta \<Rightarrow> Sample list \<Rightarrow> Event list \<Rightarrow> ((Result \<times> Result) \<times> SubRun list) option" where
  "recomputeT2 m smp evs =
     (let ch = me_Channel m
      in if ch = PCIeChannel then Some (both (\<lambda>t. NotApplicableResult t ch ReasonNoPCIeAuto), [])
         else
           (let regs = JudgedRegs ch;
                (pre, preIn) = fold (pre_each ch) (phaseSamples smp PhaseT2Pre) ((\<lambda>_. []), [])
            in if regs = [] then None
               else if pre (hd regs) = [] then
                 Some (both (\<lambda>t. NotImplemented t ch (if me_Aborted m \<noteq> '''' then ''aborted: '' @ me_Aborted m else no_data_text)), [])
               else
                 (let (autoA, _) = AutoValues pre regs;
                      a = (case autoA (hd regs) of None \<Rightarrow> 0 | Some v \<Rightarrow> v);
                      mv = MValue a;
                      preCross = PreCrossing ch preIn
                  in case t2_loop ch smp mv preCross autoA evs t2_start of
                       None \<Rightarrow> None
                     | Some st \<Rightarrow>
                         Some (FinishHandback ch (t2_runs st) (me_Aborted m) a mv regs autoA (t2_holdDev st), t2_subs st))))"

section \<open>Gates\<close>

definition no_gate_samples :: string where
  [text_defs]: "no_gate_samples = ''(no gate samples)''"

definition gate_mismatch :: "Gate \<Rightarrow> string \<Rightarrow> Mismatch" where
  "gate_mismatch g got = \<lparr> mi_ID = g_ID g, mi_Stored = g_Result g, mi_Recomputed = got, mi_Gate = True \<rparr>"

text \<open>A gate that failed because its window was not sampled or not completed.\<close>

definition not_completed :: "Gate \<Rightarrow> bool" where
  "not_completed g \<longleftrightarrow> g_Result g = ''FAIL'' \<and>
     (has_prefix ''not sampled'' (g_Detail g) \<or> has_prefix ''window not completed'' (g_Detail g))"

text \<open>The recomputed result of G3 or G4; \<open>None\<close> skips it (no CPU count in the bundle).\<close>

definition regated :: "int \<Rightarrow> Sample list \<Rightarrow> string \<Rightarrow> string option" where
  "regated cpus gate i =
     (if i = ''G3'' then (if cpus = 0 then None else Some (fst (G3 (hd gate) cpus)))
      else case EvalG4 gate of None \<Rightarrow> Some ''FAIL'' | Some ev \<Rightarrow> Some (if g4_Pass ev then ''PASS'' else ''FAIL''))"

definition check_gate :: "int \<Rightarrow> Sample list \<Rightarrow> Gate \<Rightarrow> Mismatch list" where
  "check_gate cpus gate g =
     (if (g_ID g \<noteq> ''G3'' \<and> g_ID g \<noteq> ''G4'') \<or> (g_Result g \<noteq> ''PASS'' \<and> g_Result g \<noteq> ''FAIL'') then []
      else if not_completed g \<and> (g_ID g = ''G4'' \<or> gate = []) then []
      else if gate = [] then [gate_mismatch g no_gate_samples]
      else case regated cpus gate (g_ID g) of
             None \<Rightarrow> []
           | Some got \<Rightarrow> if got \<noteq> g_Result g then [gate_mismatch g got] else [])"

definition checkGates :: "Meta \<Rightarrow> Sample list \<Rightarrow> Mismatch list" where
  "checkGates m smp = concat (map (check_gate (me_OnlineCPUs m) (phaseSamples smp PhaseGate)) (me_Gates m))"

section \<open>The comparison\<close>

definition sub_view :: "RegsResult \<Rightarrow> StoredSub" where
  "sub_view s = \<lparr> ss_Label = sr_Label s, ss_T2 = verdict_text (sr_T2 s), ss_T3 = verdict_text (sr_T3 s) \<rparr>"

definition run_view :: "RunResult \<Rightarrow> StoredRun" where
  "run_view r = \<lparr> st_Run = int (rr_Run r), st_RunVerdict = verdict_text (rr_Verdict r), st_Subs = map sub_view (rr_Subs r) \<rparr>"

definition test_view :: "Result \<Rightarrow> StoredTest" where
  "test_view r = \<lparr> te_ID = r_ID r, te_Verdict = verdict_text (r_Verdict r), te_Runs = map run_view (r_Runs r) \<rparr>"

definition mismatch :: "string \<Rightarrow> string \<Rightarrow> string \<Rightarrow> Mismatch" where
  "mismatch i a b = \<lparr> mi_ID = i, mi_Stored = a, mi_Recomputed = b, mi_Gate = False \<rparr>"

definition differs :: "string \<Rightarrow> string \<Rightarrow> string \<Rightarrow> Mismatch list" where
  "differs i a b = (if a \<noteq> b then [mismatch i a b] else [])"

text \<open>The loop over the sub-runs of both sides.\<close>

fun compare_subs :: "string \<Rightarrow> StoredSub list \<Rightarrow> StoredSub list \<Rightarrow> Mismatch list" where
  "compare_subs rid [] [] = []"
| "compare_subs rid [] (b # bs) = mismatch (rid @ '' '' @ ss_Label b) missing_side (ss_T2 b) # compare_subs rid [] bs"
| "compare_subs rid (a # as) [] = mismatch (rid @ '' '' @ ss_Label a) (ss_T2 a) notRecomputed # compare_subs rid as []"
| "compare_subs rid (a # as) (b # bs) =
     differs (rid @ '' '' @ ss_Label b @ '' T2'') (ss_T2 a) (ss_T2 b) @
     differs (rid @ '' '' @ ss_Label b @ '' T3'') (ss_T3 a) (ss_T3 b) @ compare_subs rid as bs"

text \<open>A Go map filled in order keeps the last entry of a key.\<close>

definition last_with :: "('a \<Rightarrow> 'k) \<Rightarrow> 'k \<Rightarrow> 'a list \<Rightarrow> 'a option" where
  "last_with f k xs = find (\<lambda>x. f x = k) (rev xs)"

definition run_id :: "string \<Rightarrow> int \<Rightarrow> string" where
  [text_defs]: "run_id i n = i @ '' run '' @ itoa n"

definition compare_run :: "string \<Rightarrow> StoredRun list \<Rightarrow> StoredRun \<Rightarrow> Mismatch list" where
  "compare_run i stored r =
     (let rid = run_id i (st_Run r)
      in case last_with st_Run (st_Run r) stored of
           None \<Rightarrow> [mismatch rid missing_side (st_RunVerdict r)]
         | Some s \<Rightarrow> differs rid (st_RunVerdict s) (st_RunVerdict r) @ compare_subs rid (st_Subs s) (st_Subs r))"

definition compareRuns :: "string \<Rightarrow> StoredRun list \<Rightarrow> StoredRun list \<Rightarrow> Mismatch list" where
  "compareRuns i stored recomputed =
     concat (map (compare_run i stored) recomputed) @
     concat (map (\<lambda>r. if st_Run r \<in> st_Run ` set recomputed then []
                      else [mismatch (run_id i (st_Run r)) (st_RunVerdict r) notRecomputed]) stored)"

definition compare_test :: "StoredTest list \<Rightarrow> StoredTest \<Rightarrow> Mismatch list" where
  "compare_test stored t =
     (case last_with te_ID (te_ID t) stored of
        None \<Rightarrow> [mismatch (te_ID t) missing_side (te_Verdict t)]
      | Some s \<Rightarrow> differs (te_ID t) (te_Verdict s) (te_Verdict t) @ compareRuns (te_ID t) (te_Runs s) (te_Runs t))"

definition compareTests :: "StoredTest list \<Rightarrow> StoredTest list \<Rightarrow> Mismatch list" where
  "compareTests stored recomputed =
     concat (map (compare_test stored) recomputed) @
     concat (map (\<lambda>t. if te_ID t \<in> te_ID ` set recomputed then []
                      else [mismatch (te_ID t) (te_Verdict t) notRecomputed]) stored)"

section \<open>Recompute\<close>

text \<open>
  The branches of map, handback, snapshot and of no or an unknown command; a log run is summarised by
  the logger. The notes are texts. \<open>None\<close> is the panic of a hand-back.
\<close>

record Recomputed =
  re_Tests :: "Result list"
  re_Mismatches :: "Mismatch list"
  re_Notes :: "string list"
  re_SubRuns :: "SubRun list"

definition spec_note :: "string \<Rightarrow> string" where
  [text_defs]: "spec_note v = ''bundle written under TESTSPEC '' @ v @ ''; recomputed with the rules of '' @ SpecVersion @
     '': differences are expected where the rules changed, and the stored verdict stands (TESTSPEC '' @ sect @ ''1 rule 1)''"

definition provisional_note :: string where
  [text_defs]: "provisional_note = ''meta.json is the provisional one written at the start: the run ended before it finished (killed); verdicts cannot be recomputed''"

definition no_meta_note :: string where
  [text_defs]: "no_meta_note = ''meta.json missing: the run ended before it finished (killed); verdicts cannot be recomputed''"

definition t6_text :: string where [text_defs]: "t6_text = ''values only (TESTSPEC '' @ sect @ ''5.4)''"

definition recompute_tests :: "Meta \<Rightarrow> StoredTest list \<Rightarrow> Sample list \<Rightarrow> Event list \<Rightarrow> (Result list \<times> Mismatch list \<times> SubRun list) option" where
  "recompute_tests m stored smp evs =
     (let ch = me_Channel m;
          t0 = T0 (T0Values (me_Identity m) (me_ToolVersion m) (me_BootType m)) (me_BootType m);
          gates = checkGates m smp
      in if me_Command m = ''map'' then Some ([t0, recomputeT1 m smp evs], gates, [])
         else if me_Command m = ''handback'' then
           (case recomputeT2 m smp evs of
              None \<Rightarrow> None
            | Some ((t2, t3), subs) \<Rightarrow>
                Some ([t0, t2, t3, T4T5Result ''T4'' ch smp, T4T5Result ''T5'' ch smp], gates, subs))
         else if me_Command m = ''snapshot'' then
           Some (map (\<lambda>t. mk_result ''T6'' 0 Reported [t6_text]) (filter (\<lambda>t. te_ID t = ''T6'') stored), [], [])
         else Some ([], [], []))"

text \<open>
  The decoded files: \<open>raw\<close> is meta.json (\<open>None\<close>: missing, \<open>Inl\<close>: the error of the decoder), \<open>stored\<close> the
  tests of verdict.json (none when it is missing). \<open>zero\<close> is the zero value of the identity.
\<close>

definition zero_meta :: "Machine \<Rightarrow> Meta" where
  "zero_meta zero = \<lparr> me_Command = '''', me_Channel = 0, me_ToolVersion = '''', me_BootType = '''', me_Identity = zero,
     me_SpecVersion = '''', me_Aborted = '''', me_Gates = [], me_OnlineCPUs = 0, me_Provisional = False \<rparr>"

definition recompute_meta :: "Meta \<Rightarrow> string list \<Rightarrow> StoredTest list \<Rightarrow> Sample list \<Rightarrow> Event list \<Rightarrow> Recomputed option" where
  "recompute_meta m notes stored smp evs =
     (let n2 = (if me_SpecVersion m \<noteq> '''' \<and> me_SpecVersion m \<noteq> SpecVersion then [spec_note (me_SpecVersion m)] else [])
      in if me_Provisional m then
           Some \<lparr> re_Tests = [], re_Mismatches = [], re_Notes = notes @ n2 @ [provisional_note], re_SubRuns = [] \<rparr>
         else case recompute_tests m stored smp evs of
                None \<Rightarrow> None
              | Some (tests, gates, subs) \<Rightarrow>
                  Some \<lparr> re_Tests = tests, re_Mismatches = gates @ compareTests stored (map test_view tests),
                         re_Notes = notes @ n2 @ (if me_Command m \<in> {'''', ''map'', ''handback'', ''snapshot'', ''log''} then []
                                                  else [''unknown command '' @ fmt_q (me_Command m)]),
                         re_SubRuns = subs \<rparr>)"

definition Recompute :: "Machine \<Rightarrow> (string + Meta) option \<Rightarrow> string + StoredTest list \<Rightarrow> Sample list \<Rightarrow> string list
    \<Rightarrow> (string + Recomputed) option" where
  "Recompute zero raw stored smp lines =
     (case (raw, stored) of
        (Some (Inl e), _) \<Rightarrow> Some (Inl (''meta.json: '' @ e))
      | (_, Inl e) \<Rightarrow> Some (Inl (''verdict.json: '' @ e))
      | (None, Inr st) \<Rightarrow> map_option Inr (recompute_meta (zero_meta zero) [no_meta_note] st smp (ParseEvents lines))
      | (Some (Inr m), Inr st) \<Rightarrow> map_option Inr (recompute_meta m [] st smp (ParseEvents lines)))"

end
