(* ===== verification/Time_Parse.thy ===== *)
theory Time_Parse
  imports Time_Text Decimal
begin

text \<open>
  \<open>time.Parse(time.RFC3339, s)\<close> for the strict form, and the round trip with the formatter. What the
  lenient parser of the library accepts beside it is not accepted here; the program writes the strict
  form.
\<close>

section \<open>The parser\<close>

definition leap :: "int \<Rightarrow> bool" where
  "leap y \<longleftrightarrow> y mod 4 = 0 \<and> (y mod 100 \<noteq> 0 \<or> y mod 400 = 0)"

definition days_in :: "int \<Rightarrow> int \<Rightarrow> int" where
  "days_in m y = (if m = 2 then (if leap y then 29 else 28) else if m \<in> {4, 6, 9, 11} then 30 else 31)"

definition days_of :: "int \<Rightarrow> int \<Rightarrow> int \<Rightarrow> int" where
  "days_of y m d =
     (let y' = (if m \<le> 2 then y - 1 else y); era = y' div 400; yoe = y' mod 400;
          mp = (if m > 2 then m - 3 else m + 9);
          doy = (153 * mp + 2) div 5 + d - 1
      in era * 146097 + (yoe * 365 + yoe div 4 - yoe div 100 + doy) - 719468)"

definition uint_in :: "int \<Rightarrow> int \<Rightarrow> string \<Rightarrow> int option" where
  "uint_in lo hi s =
     (case digits_val 0 s of None \<Rightarrow> None
      | Some n \<Rightarrow> if lo \<le> int n \<and> int n \<le> hi then Some (int n) else None)"

definition zone_of :: "string \<Rightarrow> int option" where
  "zone_of s =
     (if s = ''Z'' then Some 0
      else if length s = 6 \<and> s ! 0 \<in> {CHR ''+'', CHR ''-''} \<and> s ! 3 = CHR '':'' then
        (case (uint_in 0 24 (take 2 (drop 1 s)), uint_in 0 60 (take 2 (drop 4 s))) of
           (Some h, Some m) \<Rightarrow> Some ((if s ! 0 = CHR ''-'' then -1 else 1) * (h * 3600 + m * 60))
         | _ \<Rightarrow> None)
      else None)"

definition frac_of :: "string \<Rightarrow> int \<times> string" where
  "frac_of s =
     (case s of [] \<Rightarrow> (0, [])
      | c # cs \<Rightarrow>
          (let ds = takeWhile (\<lambda>c. digit_val c \<noteq> None) cs
           in if c = CHR ''.'' \<and> ds \<noteq> [] then
                ((case digits_val 0 (take 9 (ds @ replicate 9 (CHR ''0''))) of None \<Rightarrow> 0 | Some n \<Rightarrow> int n),
                 drop (length ds) cs)
              else (0, s)))"

definition parse_rfc3339 :: "string \<Rightarrow> nanos option" where
  "parse_rfc3339 s =
     (if length s < 20 \<or> s ! 4 \<noteq> CHR ''-'' \<or> s ! 7 \<noteq> CHR ''-'' \<or> s ! 10 \<noteq> CHR ''T'' \<or> s ! 13 \<noteq> CHR '':'' \<or>
         s ! 16 \<noteq> CHR '':'' then None
      else
        (case (uint_in 0 9999 (take 4 s), uint_in 1 12 (take 2 (drop 5 s))) of
           (Some y, Some m) \<Rightarrow>
             (case (uint_in 1 (days_in m y) (take 2 (drop 8 s)), uint_in 0 23 (take 2 (drop 11 s)),
                    uint_in 0 59 (take 2 (drop 14 s)), uint_in 0 59 (take 2 (drop 17 s)), frac_of (drop 19 s)) of
                (Some d, Some h, Some mi, Some sc, (ns, rest)) \<Rightarrow>
                  map_option (\<lambda>z. (days_of y m d * 86400 + h * 3600 + mi * 60 + sc - z) * 1000000000 + ns) (zone_of rest)
              | _ \<Rightarrow> None)
         | _ \<Rightarrow> None))"

section \<open>Dates\<close>

text \<open>Days of an era before its year \<open>y\<close>, counted from 1 March.\<close>

definition year_start :: "int \<Rightarrow> int" where
  "year_start y = 365 * y + y div 4 - y div 100"

definition year_num :: "int \<Rightarrow> int" where
  "year_num doe = doe - doe div 1460 + doe div 36524 - doe div 146096"

lemma div_is: "(b :: int) * q \<le> a \<Longrightarrow> a < b * q + b \<Longrightarrow> a div b = q"
  by (rule int_div_pos_eq [of a b q "a - b * q"]) auto

lemma div_step:
  assumes "0 < (b :: int)"
  shows "n div b \<le> (n + 1) div b" "(n + 1) div b \<le> n div b + 1"
proof -
  show "n div b \<le> (n + 1) div b" using assms by (intro zdiv_mono1) auto
  have "(n + 1) div b \<le> (n + b) div b" using assms by (intro zdiv_mono1) auto
  then show "(n + 1) div b \<le> n div b + 1" using assms by simp
qed

lemma year_num_step: "year_num n \<le> year_num (n + 1)"
proof -
  define q q' where "q = n div 36524" and "q' = (n + 1) div 36524"
  have a: "(n + 1) div 1460 \<le> n div 1460 + 1" by (rule div_step) simp
  have b: "q \<le> q'" "q' \<le> q + 1" unfolding q_def q'_def by (rule div_step, simp)+
  have "m div 146096 = m div 36524 div 4" for m :: int
    using div_mult2_eq' [of m 36524 4] by (simp add: div_mult2_eq' [symmetric])
  then have "n div 146096 = q div 4" "(n + 1) div 146096 = q' div 4" by (simp_all add: q_def q'_def)
  moreover have "q' div 4 - q div 4 \<le> q' - q" using b by presburger
  ultimately show ?thesis using a unfolding year_num_def q_def q'_def by linarith
qed

lemma year_num_mono: "a \<le> b \<Longrightarrow> year_num a \<le> year_num b"
proof -
  assume "a \<le> b"
  have "year_num a \<le> year_num (a + int k)" for k
  proof (induction k)
    case (Suc k)
    with year_num_step [of "a + int k"] show ?case by (simp add: algebra_simps)
  qed simp
  from this [of "nat (b - a)"] \<open>a \<le> b\<close> show ?thesis by simp
qed

text \<open>A year of the era by its century, its group of four years and the year in it.\<close>

lemma year_split:
  assumes "0 \<le> (y :: int)" "y < 400"
  obtains c q r where "y = 100 * c + 4 * q + r" "0 \<le> c" "c \<le> 3" "0 \<le> q" "q \<le> 24" "0 \<le> r" "r \<le> 3"
proof
  have m: "0 \<le> y mod 100" "y mod 100 < 100" "0 \<le> y mod 100 mod 4" "y mod 100 mod 4 < 4" by simp_all
  show "y = 100 * (y div 100) + 4 * (y mod 100 div 4) + y mod 100 mod 4" by simp
  show "0 \<le> y div 100" "y div 100 \<le> 3" using assms by simp_all
  show "0 \<le> y mod 100 div 4" "0 \<le> y mod 100 mod 4" "y mod 100 mod 4 \<le> 3" using m by simp_all
  show "y mod 100 div 4 \<le> 24" using m(2) by simp
qed

lemma year_start_split:
  assumes "0 \<le> (c :: int)" "c \<le> 3" "0 \<le> q" "q \<le> 24" "0 \<le> r" "r \<le> 3"
  shows "year_start (100 * c + 4 * q + r) = 36524 * c + 1461 * q + 365 * r"
proof -
  have "(100 * c + 4 * q + r) div 4 = 25 * c + q" "(100 * c + 4 * q + r) div 100 = c"
    using assms by (auto intro!: div_is)
  then show ?thesis by (simp add: year_start_def)
qed

lemma year_num_start:
  assumes "0 \<le> y" "y < 400"
  shows "year_num (year_start y) = 365 * y"
proof -
  from assms obtain c q r where y: "y = 100 * c + 4 * q + r" "0 \<le> c" "c \<le> 3" "0 \<le> q" "q \<le> 24" "0 \<le> r" "r \<le> 3"
    by (rule year_split)
  define D where "D = 36524 * c + 1461 * q + 365 * r"
  have "D div 1460 = 25 * c + q" "D div 36524 = c" "D div 146096 = 0"
    using y unfolding D_def by (auto intro!: div_is)
  then show ?thesis using y by (simp add: year_start_split D_def [symmetric] year_num_def) (simp add: D_def)
qed

lemma year_num_end:
  assumes "0 \<le> y" "y < 400"
  shows "year_num (year_start (y + 1) - 1) < 365 * (y + 1)"
proof (cases "y = 399")
  case True
  then show ?thesis by (simp add: year_num_def year_start_def)
next
  case False
  with assms have "0 \<le> y + 1" "y + 1 < 400" by auto
  then obtain c q r where y: "y + 1 = 100 * c + 4 * q + r" "0 \<le> c" "c \<le> 3" "0 \<le> q" "q \<le> 24" "0 \<le> r" "r \<le> 3"
    by (rule year_split)
  define D where "D = 36524 * c + 1461 * q + 365 * r - 1"
  have D1: "D div 1460 = 25 * c + q" and D3: "D div 146096 = 0"
    using y assms unfolding D_def by (auto intro!: div_is)
  have "D \<le> c * 36524 + 36523" using y unfolding D_def by auto
  then have "D div 36524 \<le> (c * 36524 + 36523) div 36524" by (intro zdiv_mono1) auto
  then have "D div 36524 \<le> c" by simp
  with D1 D3 have "year_num D < 365 * (100 * c + 4 * q + r)" by (simp add: year_num_def) (simp add: D_def)
  then show ?thesis unfolding y(1) using y by (simp add: year_start_split D_def)
qed

text \<open>The year of a day of the era.\<close>

lemma year_of_day:
  assumes "0 \<le> doe" "doe < 146097"
  defines "y \<equiv> year_num doe div 365"
  shows "0 \<le> y \<and> y < 400 \<and> year_start y \<le> doe \<and>
    doe < year_start (y + 1) + (if y = 399 then 1 else 0)"
proof -
  have lo: "0 \<le> year_num doe" using year_num_mono [OF assms(1)] by (simp add: year_num_def)
  have "year_num doe \<le> year_num 146096" using assms by (intro year_num_mono) simp
  then have hi: "year_num doe < 146000" by (simp add: year_num_def)
  have y: "0 \<le> y" "y < 400" using lo hi unfolding y_def by auto
  have b: "365 * y \<le> year_num doe" "year_num doe < 365 * (y + 1)" unfolding y_def by auto
  have "year_start y \<le> doe"
  proof (rule ccontr)
    assume n: "\<not> year_start y \<le> doe"
    show False
    proof (cases "y = 0")
      case True
      with n assms show ?thesis by (simp add: year_start_def)
    next
      case False
      with n y have "year_num doe < 365 * y"
        using year_num_end [of "y - 1"] year_num_mono [of doe "year_start y - 1"] by simp
      with b show ?thesis by simp
    qed
  qed
  moreover have "doe < year_start (y + 1) + (if y = 399 then 1 else 0)"
  proof (rule ccontr)
    assume n: "\<not> doe < year_start (y + 1) + (if y = 399 then 1 else 0)"
    show False
    proof (cases "y = 399")
      case True
      then have "year_start (y + 1) = 146096" by (simp add: year_start_def)
      with n assms(2) True show ?thesis by simp
    next
      case False
      with n y have "365 * (y + 1) \<le> year_num doe"
        using year_num_start [of "y + 1"] year_num_mono [of "year_start (y + 1)" doe] by simp
      with b show ?thesis by simp
    qed
  qed
  ultimately show ?thesis using y by simp
qed

lemma div_succ:
  assumes "1 < (b :: int)"
  shows "(n + 1) div b = n div b + (if (n + 1) mod b = 0 then 1 else 0)"
proof (cases "(n + 1) mod b = 0")
  case True
  then have "n = b * ((n + 1) div b - 1) + (b - 1)" by (simp add: algebra_simps) (metis mult_div_mod_eq add_0_right)
  then have "n div b = (n + 1) div b - 1" using assms by (intro int_div_pos_eq [of n b _ "b - 1"]) auto
  with True show ?thesis by simp
next
  case False
  have "(n + 1) mod b > 0" using False assms by (smt (verit) pos_mod_sign)
  moreover have "(n + 1) mod b < b" using assms by (intro pos_mod_bound) auto
  moreover have "n + 1 = b * ((n + 1) div b) + (n + 1) mod b" by (simp only: mult_div_mod_eq)
  ultimately have "n div b = (n + 1) div b"
    by (intro int_div_pos_eq [of n b _ "(n + 1) mod b - 1"]) linarith+
  with False show ?thesis by simp
qed

lemma year_length:
  assumes "0 \<le> y" "y < 400"
  shows "year_start (y + 1) + (if y = 399 then 1 else 0) - year_start y \<le> (if leap (y + 1) then 366 else 365)"
proof -
  have "(y + 1) mod 400 = 0 \<longleftrightarrow> y = 399" using assms by (cases "y = 399") auto
  then show ?thesis unfolding year_start_def leap_def by (auto simp: div_succ)
qed

text \<open>The day number of a date is inverse to the date of a day number, and the date is a valid one.\<close>

lemma civil_days:
  assumes "civil z = (y, m, d)"
  shows "days_of y m d = z" "1 \<le> m" "m \<le> 12" "1 \<le> d" "d \<le> days_in m y"
proof -
  define era where "era = (z + 719468) div 146097"
  define doe where "doe = (z + 719468) mod 146097"
  define yoe where "yoe = year_num doe div 365"
  define doy where "doy = doe - year_start yoe"
  define mp where "mp = (5 * doy + 2) div 153"
  have doe: "0 \<le> doe" "doe < 146097" unfolding doe_def by simp_all
  from year_of_day [OF this] have yoe: "0 \<le> yoe" "yoe < 400" "year_start yoe \<le> doe" "doe < year_start (yoe + 1) + (if yoe = 399 then 1 else 0)"
    unfolding yoe_def by auto
  define m' where "m' = (if mp < 10 then mp + 3 else mp - 9)"
  have "civil z = (yoe + era * 400 + (if m' \<le> 2 then 1 else 0), m', doy - (153 * mp + 2) div 5 + 1)"
    unfolding civil_def Let_def era_def doe_def yoe_def doy_def mp_def m'_def year_num_def year_start_def
    by (simp only: mult.commute)
  then have c: "d = doy - (153 * mp + 2) div 5 + 1" "m = (if mp < 10 then mp + 3 else mp - 9)"
    "y = yoe + era * 400 + (if m \<le> 2 then 1 else 0)"
    using assms unfolding m'_def by simp_all
  have doy: "0 \<le> doy" "doy < (if leap (yoe + 1) then 366 else 365)"
    using yoe year_length [OF yoe(1,2)] unfolding doy_def by (auto split: if_splits)
  then have "doy < 366" by (auto split: if_splits)
  then have "(5 * doy + 2) div 153 \<le> 1827 div 153" by (intro zdiv_mono1) auto
  then have mp: "0 \<le> mp" "mp \<le> 11" using doy(1) unfolding mp_def by (auto simp: pos_imp_zdiv_nonneg_iff)
  obtain k where k: "153 * mp + k = 5 * doy + 2" "0 \<le> k" "k < 153"
    using mult_div_mod_eq [of 153 "5 * doy + 2"] unfolding mp_def by (meson pos_mod_bound pos_mod_sign zero_less_numeral)
  then have mp5: "153 * mp \<le> 5 * doy + 2" "5 * doy + 2 < 153 * (mp + 1)" by auto
  show m: "1 \<le> m" "m \<le> 12" using mp c by auto
  have "(153 * mp + 2) div 5 \<le> (5 * doy + 4) div 5" using mp5 by (intro zdiv_mono1) auto
  then show "1 \<le> d" using c(1) by simp
  have y': "(if m \<le> 2 then y - 1 else y) = yoe + era * 400" using c by simp
  have div: "(yoe + era * 400) div 400 = era" "(yoe + era * 400) mod 400 = yoe" using yoe by auto
  have mp': "(if m > 2 then m - 3 else m + 9) = mp" using c mp by auto
  show "days_of y m d = z"
    unfolding days_of_def Let_def y' div mp' using c(1)
    by (simp add: doy_def year_start_def era_def doe_def)
  have "(yoe + era * 400 + 1) mod 4 = (yoe + 1) mod 4" "(yoe + era * 400 + 1) mod 100 = (yoe + 1) mod 100"
    "(yoe + era * 400 + 1) mod 400 = (yoe + 1) mod 400"
    using mod_mult_self1 [of "yoe + 1" "era * 100" 4] mod_mult_self1 [of "yoe + 1" "era * 4" 100]
      mod_mult_self1 [of "yoe + 1" era 400] by (simp_all add: algebra_simps)
  then have leap: "leap (yoe + era * 400 + 1) = leap (yoe + 1)" by (simp add: leap_def)
  show "d \<le> days_in m y"
  proof (cases "mp = 11")
    case True
    then show ?thesis using c doy leap by (auto simp: days_in_def split: if_splits)
  next
    case False
    with mp have "mp = 0 \<or> mp = 1 \<or> mp = 2 \<or> mp = 3 \<or> mp = 4 \<or> mp = 5 \<or> mp = 6 \<or> mp = 7 \<or> mp = 8 \<or> mp = 9 \<or> mp = 10"
      by arith
    then show ?thesis using c mp5(2) by (auto simp: days_in_def)
  qed
qed

section \<open>The round trip\<close>

lemma uint_pad:
  assumes "0 \<le> v" "v < 10 ^ w" "0 < w" "lo \<le> v" "v \<le> hi"
  shows "uint_in lo hi (pad_left w (CHR ''0'') (itoa v)) = Some v"
    and "length (pad_left w (CHR ''0'') (itoa v)) = w"
proof -
  have i: "itoa v = nat_digits (nat v)" using assms by (simp add: itoa_def)
  have "nat v < 10 ^ w" using assms by (simp add: nat_less_iff)
  with assms show "length (pad_left w (CHR ''0'') (itoa v)) = w" unfolding i by (intro length_pad)
  show "uint_in lo hi (pad_left w (CHR ''0'') (itoa v)) = Some v"
    using assms by (simp add: uint_in_def i digits_val_pad)
qed

lemma list_of_length: "length xs = 2 \<Longrightarrow> \<exists>a b. xs = [a, b]" "length xs = 4 \<Longrightarrow> \<exists>a b c d. xs = [a, b, c, d]"
  by (auto simp: length_Suc_conv eval_nat_numeral)

lemma split_time: "(s :: int) = a + b + c \<Longrightarrow> secs = D + s \<Longrightarrow> t = secs * K + r \<Longrightarrow> (D + a + b + c) * K = t - r"
  by (simp add: algebra_simps)

text \<open>A time is read back without its fraction of a second.\<close>

lemma parse_rfc3339_format:
  assumes "civil (t div 1000000000 div 86400) = (y, m, d)" "0 \<le> y" "y \<le> 9999"
  shows "parse_rfc3339 (rfc3339 t) = Some (t - t mod 1000000000)"
proof -
  define secs where "secs = t div 1000000000"
  define s where "s = secs mod 86400"
  have s: "0 \<le> s" "s < 86400" unfolding s_def by simp_all
  have cv: "civil (secs div 86400) = (y, m, d)" using assms(1) by (simp add: secs_def)
  note c = civil_days [OF cv]
  have "d \<le> 31" using c(5) by (auto simp: days_in_def split: if_splits)
  define ys ms ds hs mn ss where "ys = pad_left 4 (CHR ''0'') (itoa y)" and "ms = pad2 m" and "ds = pad2 d"
    and "hs = pad2 (s div 3600)" and "mn = pad2 (s div 60 mod 60)" and "ss = pad2 (s mod 60)"
  have form: "rfc3339 t = ys @ ''-'' @ ms @ ''-'' @ ds @ ''T'' @ hs @ '':'' @ mn @ '':'' @ ss @ ''Z''"
    by (simp add: rfc3339_def Let_def cv [unfolded secs_def] ys_def ms_def ds_def hs_def mn_def ss_def s_def secs_def)
  have u: "uint_in 0 9999 ys = Some y" "uint_in 1 12 ms = Some m" "uint_in 1 (days_in m y) ds = Some d"
    "uint_in 0 23 hs = Some (s div 3600)" "uint_in 0 59 mn = Some (s div 60 mod 60)" "uint_in 0 59 ss = Some (s mod 60)"
    unfolding ys_def ms_def ds_def hs_def mn_def ss_def pad2_def
    using assms c s \<open>d \<le> 31\<close> by (auto intro!: uint_pad simp: pos_imp_zdiv_nonneg_iff)
  have l: "length ys = 4" "length ms = 2" "length ds = 2" "length hs = 2" "length mn = 2" "length ss = 2"
    unfolding ys_def ms_def ds_def hs_def mn_def ss_def pad2_def
    using assms c s \<open>d \<le> 31\<close>
      by (auto intro!: uint_pad(2) [where lo = 0 and hi = 100000] simp: pos_imp_zdiv_nonneg_iff)
  have "s = s div 3600 * 3600 + s div 60 mod 60 * 60 + s mod 60"
  proof -
    have "s div 3600 = s div 60 div 60" using zdiv_zmult2_eq [of 60 s 60] by simp
    moreover have "s = s div 60 * 60 + s mod 60" "s div 60 = s div 60 div 60 * 60 + s div 60 mod 60" by simp_all
    ultimately show ?thesis by linarith
  qed
  moreover have "secs = secs div 86400 * 86400 + s" by (simp add: s_def)
  moreover have "t = secs * 1000000000 + t mod 1000000000" by (simp add: secs_def)
  ultimately have eq: "(secs div 86400 * 86400 + s div 3600 * 3600 + s div 60 mod 60 * 60 + s mod 60) * 1000000000
      = t - t mod 1000000000" by (rule split_time)
  have fz: "frac_of ''Z'' = (0, ''Z'')" "zone_of ''Z'' = Some 0" by (simp_all add: frac_of_def zone_of_def)
  obtain y1 y2 y3 y4 m1 m2 d1 d2 h1 h2 i1 i2 s1 s2 where e: "ys = [y1, y2, y3, y4]" "ms = [m1, m2]" "ds = [d1, d2]"
    "hs = [h1, h2]" "mn = [i1, i2]" "ss = [s1, s2]"
    using l list_of_length by metis
  show ?thesis
    using u fz eq c(1) unfolding parse_rfc3339_def form unfolding e by simp
qed

end
