(* ===== verification/Sample_Csv.thy ===== *)
theory Sample_Csv
  imports Spec_Base Time_Parse
begin

text \<open>
  The rows of samples.csv: \<open>Row\<close> and \<open>ParseRow\<close> of src/ectest/internal/spec/sample.go. The reader
  tries the temperature columns in the order of the header (the code in the random order of a Go map:
  it may name another bad cell). The library's own error text behind the cell is left out.
\<close>

definition CSVHeader :: "string list" where
  "CSVHeader = [''t_iso'', ''t_s'', ''phase'', ''ch'', ''written'', ''dcr1'', ''dcr2'', ''dcr3'', ''dcr4'', ''dcr5'',
     ''fan1'', ''fan2'', ''fan3'', ''ec_cpu'', ''ec_sys'', ''ec_board'', ''ec_amb'', ''hdd_max'', ''nvme_max'', ''tctl'',
     ''load1'', ''room_t'', ''room_rh'']"

definition cellInt :: "int \<Rightarrow> string" where
  "cellInt v = (if v < 0 then '''' else itoa v)"

definition cellF :: "fl \<Rightarrow> nat \<Rightarrow> string" where
  "cellF v prec = (case v of NaN \<Rightarrow> '''' | Some x \<Rightarrow> fmt_f prec x)"

definition Row :: "Sample \<Rightarrow> string list" where
  "Row s =
     [rfc3339 (s_Time s), fmt_f 3 (s_TS s), s_Phase s, cellInt (s_Ch s), cellInt (s_Written s)] @
     map cellInt (s_DCR s) @ map cellInt (s_Fan s) @
     map (\<lambda>v. cellF v 1) [s_ECCPU s, s_ECSys s, s_ECBoard s, s_ECAmb s, s_HDDMax s, s_NVMeMax s, s_Tctl s] @
     [cellF (s_Load1 s) 2, cellF (s_RoomT s) 1, cellF (s_RoomRH s) 1]"

text \<open>The column of a name; the last one of equal names. A short row has empty cells.\<close>

definition column :: "string list \<Rightarrow> string \<Rightarrow> nat option" where
  "column header name =
     (case filter (\<lambda>i. trim_space (header ! i) = name) [0..<length header] of [] \<Rightarrow> None | is \<Rightarrow> Some (last is))"

definition get_cell :: "string list \<Rightarrow> string list \<Rightarrow> string \<Rightarrow> string" where
  "get_cell header row name =
     (case column header name of None \<Rightarrow> '''' | Some i \<Rightarrow> if i \<ge> length row then '''' else trim_space (row ! i))"

definition bad_cell :: "string \<Rightarrow> string \<Rightarrow> string" where
  [text_defs]: "bad_cell name v = name @ '' '' @ fmt_q v"

definition parse_int_cell :: "string \<Rightarrow> string \<Rightarrow> string + int" where
  "parse_int_cell name v =
     (if v = '''' then Inr (-1) else case atoi v of None \<Rightarrow> Inl (bad_cell name v) | Some n \<Rightarrow> Inr n)"

definition parse_fl_cell :: "string \<Rightarrow> string \<Rightarrow> string + fl" where
  "parse_fl_cell name v =
     (if v = '''' then Inr NaN else case ParseFloat v of None \<Rightarrow> Inl (bad_cell name v) | Some x \<Rightarrow> Inr x)"

text \<open>\<open>time.Time{}\<close> is 1 January of year 1. A NaN in \<open>t_s\<close> is read as 0 here (Go keeps it).\<close>

definition zero_time :: nanos where "zero_time = -62135596800000000000"

definition parse_time_cell :: "string \<Rightarrow> string + nanos" where
  "parse_time_cell v =
     (if v = '''' then Inr zero_time
      else case parse_rfc3339 v of None \<Rightarrow> Inl (bad_cell ''t_iso'' v) | Some t \<Rightarrow> Inr t)"

definition parse_ts_cell :: "string \<Rightarrow> string + rat" where
  "parse_ts_cell v =
     (if v = '''' then Inr 0
      else case ParseFloat v of None \<Rightarrow> Inl (bad_cell ''t_s'' v) | Some NaN \<Rightarrow> Inr 0 | Some (Some x) \<Rightarrow> Inr x)"

fun all_ok :: "('e + 'a) list \<Rightarrow> 'e + 'a list" where
  "all_ok [] = Inr []"
| "all_ok (Inl e # xs) = Inl e"
| "all_ok (Inr v # xs) = (case all_ok xs of Inl e \<Rightarrow> Inl e | Inr vs \<Rightarrow> Inr (v # vs))"

definition int_columns :: "string list" where
  "int_columns = [''ch'', ''written'', ''dcr1'', ''dcr2'', ''dcr3'', ''dcr4'', ''dcr5'', ''fan1'', ''fan2'', ''fan3'']"

definition fl_columns :: "string list" where
  "fl_columns = [''ec_cpu'', ''ec_sys'', ''ec_board'', ''ec_amb'', ''hdd_max'', ''nvme_max'', ''tctl'', ''load1'', ''room_t'',
     ''room_rh'']"

definition row_sample :: "nanos \<Rightarrow> rat \<Rightarrow> string \<Rightarrow> int list \<Rightarrow> fl list \<Rightarrow> Sample" where
  "row_sample t ts phase is fs =
     \<lparr> s_Time = t, s_TS = ts, s_Phase = phase, s_Ch = (if is ! 0 < 0 then 0 else is ! 0), s_Written = is ! 1,
       s_DCR = take 5 (drop 2 is), s_Fan = drop 7 is,
       s_ECCPU = fs ! 0, s_ECSys = fs ! 1, s_ECBoard = fs ! 2, s_ECAmb = fs ! 3, s_HDDMax = fs ! 4, s_NVMeMax = fs ! 5,
       s_Tctl = fs ! 6, s_Load1 = fs ! 7, s_RoomT = fs ! 8, s_RoomRH = fs ! 9 \<rparr>"

definition ParseRow :: "string list \<Rightarrow> string list \<Rightarrow> string + Sample" where
  "ParseRow header row =
     (let get = get_cell header row
      in case parse_time_cell (get ''t_iso'') of
           Inl e \<Rightarrow> Inl e
         | Inr t \<Rightarrow>
             (case parse_ts_cell (get ''t_s'') of
                Inl e \<Rightarrow> Inl e
              | Inr ts \<Rightarrow>
                  (case all_ok (map (\<lambda>n. parse_int_cell n (get n)) int_columns) of
                     Inl e \<Rightarrow> Inl e
                   | Inr is \<Rightarrow>
                       (case all_ok (map (\<lambda>n. parse_fl_cell n (get n)) fl_columns) of
                          Inl e \<Rightarrow> Inl e
                        | Inr fs \<Rightarrow> Inr (row_sample t ts (get ''phase'') is fs)))))"

section \<open>The round trip\<close>

text \<open>What a row keeps of a sample.\<close>

definition unknown_neg :: "int \<Rightarrow> int" where "unknown_neg v = (if v < 0 then -1 else v)"

definition stored_sample :: "Sample \<Rightarrow> Sample" where
  "stored_sample s =
     s\<lparr> s_Time := s_Time s - s_Time s mod 1000000000, s_TS := RoundMS (s_TS s),
        s_Ch := (if s_Ch s < 0 then 0 else s_Ch s), s_Written := unknown_neg (s_Written s),
        s_DCR := map unknown_neg (s_DCR s), s_Fan := map unknown_neg (s_Fan s),
        s_ECCPU := map_option (round_dec 1) (s_ECCPU s), s_ECSys := map_option (round_dec 1) (s_ECSys s),
        s_ECBoard := map_option (round_dec 1) (s_ECBoard s), s_ECAmb := map_option (round_dec 1) (s_ECAmb s),
        s_HDDMax := map_option (round_dec 1) (s_HDDMax s), s_NVMeMax := map_option (round_dec 1) (s_NVMeMax s),
        s_Tctl := map_option (round_dec 1) (s_Tctl s), s_Load1 := map_option (round_dec 2) (s_Load1 s),
        s_RoomT := map_option (round_dec 1) (s_RoomT s), s_RoomRH := map_option (round_dec 1) (s_RoomRH s) \<rparr>"

definition row_ok :: "Sample \<Rightarrow> bool" where
  "row_ok s \<longleftrightarrow> length (s_DCR s) = 5 \<and> length (s_Fan s) = 3 \<and> trim_space (s_Phase s) = s_Phase s \<and>
     list_all (\<lambda>v. v < 2 ^ 63) (s_Ch s # s_Written s # s_DCR s @ s_Fan s) \<and>
     (case civil (s_Time s div 1000000000 div 86400) of (y, _) \<Rightarrow> 0 \<le> y \<and> y \<le> 9999)"

lemma unknown_neg_neg: "unknown_neg v < 0 \<longleftrightarrow> v < 0" by (simp add: unknown_neg_def)
lemma unknown_neg_id: "\<not> v < 0 \<Longrightarrow> unknown_neg v = v" by (simp add: unknown_neg_def)

lemma no_space_digits: "digit_val c \<noteq> None \<Longrightarrow> \<not> is_space c"
  by (auto simp: is_space_def digit_val_def)

lemma trim_no_space: "(\<And>c. c \<in> set s \<Longrightarrow> \<not> is_space c) \<Longrightarrow> trim_space s = s"
proof -
  assume a: "\<And>c. c \<in> set s \<Longrightarrow> \<not> is_space c"
  have "dropWhile is_space t = t" if "set t = set s" for t using a that by (cases t) auto
  then show ?thesis by (simp add: trim_space_def)
qed

lemma trim_itoa [simp]: "trim_space (itoa v) = itoa v"
  using digits_of_nat_digits no_space_digits
  by (intro trim_no_space) (auto simp: itoa_def is_space_def split: if_splits)

lemma trim_fmt_f [simp]: "trim_space (fmt_f p x) = fmt_f p x"
proof (rule trim_no_space)
  fix c assume "c \<in> set (fmt_f p x)"
  then have "c = CHR ''-'' \<or> digit_or_dot c"
    using digit_or_dot_fmt_abs by (auto simp: fmt_f_def split: if_splits)
  then show "\<not> is_space c" using no_space_digits by (auto simp: digit_or_dot_def is_space_def)
qed

lemma trim_nil [simp]: "trim_space [] = []" by (simp add: trim_space_def)

lemma fmt_f_nonempty [simp]: "fmt_f p x \<noteq> []" by (simp add: fmt_f_def)

lemma parse_cellInt: "v < 2 ^ 63 \<Longrightarrow> parse_int_cell n (trim_space (cellInt v)) = Inr (unknown_neg v)"
  by (auto simp: parse_int_cell_def cellInt_def unknown_neg_def atoi_itoa)

lemma parse_cellF: "parse_fl_cell n (trim_space (cellF v p)) = Inr (map_option (round_dec p) v)"
  by (cases v) (simp_all add: parse_fl_cell_def cellF_def)

lemma trim_rfc3339: "trim_space (rfc3339 t) = rfc3339 t"
proof (rule trim_no_space)
  fix c assume "c \<in> set (rfc3339 t)"
  moreover have "c \<in> set (pad_left w (CHR ''0'') (itoa v)) \<Longrightarrow> \<not> is_space c" for w v
    using digits_of_nat_digits no_space_digits by (auto simp: pad_left_def itoa_def is_space_def split: if_splits)
  ultimately show "\<not> is_space c"
    by (auto simp: rfc3339_def Let_def pad2_def is_space_def split: prod.splits)
qed

lemma columns:
  "column CSVHeader ''t_iso'' = Some 0" "column CSVHeader ''t_s'' = Some 1" "column CSVHeader ''phase'' = Some 2"
  "map (column CSVHeader) int_columns = map Some [3, 4, 5, 6, 7, 8, 9, 10, 11, 12]"
  "map (column CSVHeader) fl_columns = map Some [13, 14, 15, 16, 17, 18, 19, 20, 21, 22]"
  by code_simp+

lemma all_ok_Inr: "all_ok (map Inr vs) = Inr vs"
  by (induction vs) auto

lemma ParseRow_Row:
  assumes "row_ok s"
  shows "ParseRow CSVHeader (Row s) = Inr (stored_sample s)"
proof -
  have "length (s_DCR s) = 5" "length (s_Fan s) = 3" using assms by (simp_all add: row_ok_def)
  then obtain a1 a2 a3 a4 a5 f1 f2 f3 where d: "s_DCR s = [a1, a2, a3, a4, a5]" "s_Fan s = [f1, f2, f3]"
    by (auto simp: length_Suc_conv eval_nat_numeral)
  have lt: "s_Ch s < 2 ^ 63" "s_Written s < 2 ^ 63" "a1 < 2 ^ 63" "a2 < 2 ^ 63" "a3 < 2 ^ 63" "a4 < 2 ^ 63" "a5 < 2 ^ 63"
    "f1 < 2 ^ 63" "f2 < 2 ^ 63" "f3 < 2 ^ 63" and ph: "trim_space (s_Phase s) = s_Phase s"
    using assms d by (simp_all add: row_ok_def)
  obtain y m dd where cv: "civil (s_Time s div 1000000000 div 86400) = (y, m, dd)" by (metis prod_cases3)
  with assms have y: "0 \<le> y" "y \<le> 9999" by (simp_all add: row_ok_def)
  have t: "parse_rfc3339 (rfc3339 (s_Time s)) = Some (s_Time s - s_Time s mod 1000000000)" "rfc3339 (s_Time s) \<noteq> []"
    using parse_rfc3339_format [OF cv y] by (auto simp: parse_rfc3339_def)
  have c: "column CSVHeader ''ch'' = Some 3" "column CSVHeader ''written'' = Some 4"
    "column CSVHeader ''dcr1'' = Some 5" "column CSVHeader ''dcr2'' = Some 6" "column CSVHeader ''dcr3'' = Some 7"
    "column CSVHeader ''dcr4'' = Some 8" "column CSVHeader ''dcr5'' = Some 9"
    "column CSVHeader ''fan1'' = Some 10" "column CSVHeader ''fan2'' = Some 11" "column CSVHeader ''fan3'' = Some 12"
    using columns(4) by (simp_all add: int_columns_def)
  have e: "column CSVHeader ''ec_cpu'' = Some 13" "column CSVHeader ''ec_sys'' = Some 14"
    "column CSVHeader ''ec_board'' = Some 15" "column CSVHeader ''ec_amb'' = Some 16" "column CSVHeader ''hdd_max'' = Some 17"
    "column CSVHeader ''nvme_max'' = Some 18" "column CSVHeader ''tctl'' = Some 19" "column CSVHeader ''load1'' = Some 20"
    "column CSVHeader ''room_t'' = Some 21" "column CSVHeader ''room_rh'' = Some 22"
    using columns(5) by (simp_all add: fl_columns_def)
  have row: "Row s = [rfc3339 (s_Time s), fmt_f 3 (s_TS s), s_Phase s, cellInt (s_Ch s), cellInt (s_Written s),
      cellInt a1, cellInt a2, cellInt a3, cellInt a4, cellInt a5, cellInt f1, cellInt f2, cellInt f3,
      cellF (s_ECCPU s) 1, cellF (s_ECSys s) 1, cellF (s_ECBoard s) 1, cellF (s_ECAmb s) 1, cellF (s_HDDMax s) 1,
      cellF (s_NVMeMax s) 1, cellF (s_Tctl s) 1, cellF (s_Load1 s) 2, cellF (s_RoomT s) 1, cellF (s_RoomRH s) 1]"
    by (simp add: Row_def d)
  have ints: "map (\<lambda>n. parse_int_cell n (get_cell CSVHeader (Row s) n)) int_columns =
      map Inr (map unknown_neg [s_Ch s, s_Written s, a1, a2, a3, a4, a5, f1, f2, f3])"
    using lt unfolding int_columns_def row by (simp add: get_cell_def c parse_cellInt)
  have fls: "map (\<lambda>n. parse_fl_cell n (get_cell CSVHeader (Row s) n)) fl_columns =
      map Inr [map_option (round_dec 1) (s_ECCPU s), map_option (round_dec 1) (s_ECSys s), map_option (round_dec 1) (s_ECBoard s),
        map_option (round_dec 1) (s_ECAmb s), map_option (round_dec 1) (s_HDDMax s), map_option (round_dec 1) (s_NVMeMax s),
        map_option (round_dec 1) (s_Tctl s), map_option (round_dec 2) (s_Load1 s), map_option (round_dec 1) (s_RoomT s),
        map_option (round_dec 1) (s_RoomRH s)]"
    unfolding fl_columns_def row by (simp add: get_cell_def e parse_cellF)
  have ts: "round_dec 3 (s_TS s) = RoundMS (s_TS s)" by (simp add: round_dec_def RoundMS_def)
  have g: "get_cell CSVHeader (Row s) ''t_iso'' = rfc3339 (s_Time s)" "get_cell CSVHeader (Row s) ''t_s'' = fmt_f 3 (s_TS s)"
    "get_cell CSVHeader (Row s) ''phase'' = s_Phase s"
    unfolding row by (simp_all add: get_cell_def columns(1-3) trim_rfc3339 ph)
  have tc: "parse_time_cell (rfc3339 (s_Time s)) = Inr (s_Time s - s_Time s mod 1000000000)"
    using t by (simp add: parse_time_cell_def)
  have tsc: "parse_ts_cell (fmt_f 3 (s_TS s)) = Inr (RoundMS (s_TS s))" by (simp add: parse_ts_cell_def ts)
  show ?thesis
    unfolding ParseRow_def Let_def ints fls all_ok_Inr g tc tsc sum.case
    by (intro arg_cong [where f = Inr] Sample.equality)
      (simp_all add: row_sample_def stored_sample_def unknown_neg_neg unknown_neg_id d)
qed

end
