(* ===== verification/Report_Facts.thy ===== *)
theory Report_Facts
  imports Report Sample_Csv Runner_Results
begin

text \<open>
  Facts about the recomputation: reading an event line back, which lines are writes of a duty, what a
  stored sample contributes to the data of T1, when two lists of verdicts compare as equal, and when
  the recomputation of a hand-back panics.
\<close>

section \<open>Event lines\<close>

lemma rfc3339_word: "rfc3339 t \<noteq> [] \<and> (\<forall>c \<in> set (rfc3339 t). \<not> re_space c)"
proof -
  have "c \<in> set (pad_left w (CHR ''0'') (itoa v)) \<Longrightarrow> \<not> re_space c" for c w v
    using digits_of_nat_digits no_space_digits
    by (auto simp: pad_left_def itoa_def re_space_def is_space_def split: if_splits)
  then show ?thesis
    by (auto simp: rfc3339_def Let_def pad2_def re_space_def split: prod.splits)
qed

lemma takeWhile_word: "(\<forall>c \<in> set w. P c) \<Longrightarrow> \<not> P x \<Longrightarrow> takeWhile P (w @ x # s) = w"
  by (induction w) auto

lemma match_event_format:
  "match_event (FormatEvent t ts txt) =
     (if ts < 0 \<or> NL \<in> set txt then None else Some (fmt_f 3 ts, txt))"
proof -
  have word: "takeWhile (\<lambda>c. \<not> re_space c) (FormatEvent t ts txt) = rfc3339 t"
    using rfc3339_word [of t] takeWhile_word [of "rfc3339 t" "\<lambda>c. \<not> re_space c" "CHR '' ''"]
    by (simp add: FormatEvent_def re_space_def)
  have rest: "drop (length (rfc3339 t)) (FormatEvent t ts txt) = '' [t_s='' @ fmt_f 3 ts @ ''] '' @ txt"
    by (simp add: FormatEvent_def)
  show ?thesis
  proof (cases "ts < 0")
    case True
    have "has_prefix '' [t_s='' ('' [t_s='' @ fmt_f 3 ts @ ''] '' @ txt)" by (rule has_prefix_append)
    moreover have "drop (length '' [t_s='') ('' [t_s='' @ fmt_f 3 ts @ ''] '' @ txt) = fmt_f 3 ts @ ''] '' @ txt" by simp
    moreover have "takeWhile digit_or_dot (fmt_f 3 ts @ ''] '' @ txt) = []"
      using True by (simp add: fmt_f_def digit_or_dot_def digit_val_def)
    ultimately show ?thesis using True by (simp only: match_event_def Let_def word rest) simp
  next
    case False
    have num: "takeWhile digit_or_dot (fmt_f 3 ts @ ''] '' @ txt) = fmt_f 3 ts"
      using False digit_or_dot_fmt_abs takeWhile_word [of "fmt_f 3 ts" digit_or_dot "CHR '']''" "'' '' @ txt"]
      by (simp add: fmt_f_def digit_or_dot_def digit_val_def)
    have "has_prefix '' [t_s='' ('' [t_s='' @ fmt_f 3 ts @ ''] '' @ txt)" "has_prefix ''] '' (''] '' @ txt)"
      by (rule has_prefix_append)+
    moreover have "drop (length '' [t_s='') ('' [t_s='' @ fmt_f 3 ts @ ''] '' @ txt) = fmt_f 3 ts @ ''] '' @ txt" by simp
    moreover have "drop (length (fmt_f 3 ts)) (fmt_f 3 ts @ ''] '' @ txt) = ''] '' @ txt" by simp
    moreover have "drop 2 (''] '' @ txt) = txt" by simp
    ultimately show ?thesis
      using False rfc3339_word [of t] by (simp only: match_event_def Let_def word rest num) simp
  qed
qed

lemma parse_event_format:
  "parse_event (FormatEvent t ts txt) =
     (if ts < 0 \<or> NL \<in> set txt
      then \<lparr> ev_TS = -1, ev_Text = FormatEvent t ts txt, ev_Line = FormatEvent t ts txt \<rparr>
      else \<lparr> ev_TS = RoundMS ts, ev_Text = txt, ev_Line = FormatEvent t ts txt \<rparr>)"
  by (simp add: parse_event_def match_event_format parse_dec_fmt round_dec_def RoundMS_def)

lemma RoundMS_nonneg: "0 \<le> ts \<Longrightarrow> 0 \<le> RoundMS ts"
  by (simp add: RoundMS_def round_half_even_nonneg)

section \<open>Write events\<close>

definition write_line :: "int \<Rightarrow> int \<Rightarrow> string \<Rightarrow> bool" where
  "write_line ch d l \<longleftrightarrow> 0 \<le> ev_TS (parse_event l) \<and> isWrite (ev_Text (parse_event l)) (EventWrite ch d)"

lemma writeTS_find: "writeTS (ParseEvents ls) ch d = map_option (\<lambda>l. ev_TS (parse_event l)) (find (write_line ch d) ls)"
  unfolding writeTS_def ParseEvents_def by (induction ls) (auto simp: write_line_def)

definition plain :: "int \<Rightarrow> string list \<Rightarrow> bool" where
  "plain ch ls \<longleftrightarrow> (\<forall>l \<in> set ls. \<forall>d. \<not> write_line ch d l)"

lemma plain_simps [simp]: "plain ch []" "plain ch (a @ b) \<longleftrightarrow> plain ch a \<and> plain ch b"
  by (auto simp: plain_def)

lemma plain_text:
  assumes "\<not> has_prefix ''write '' x"
  shows "plain ch [FormatEvent t ts x]"
proof -
  have "has_prefix ''write '' (EventWrite ch d @ u)" for d u by (simp add: EventWrite_def has_prefix_def)
  then have "\<not> isWrite x (EventWrite ch d)" for d
    using assms has_prefixE [of "EventWrite ch d @ '' [''" x] unfolding isWrite_def
    by (metis append_Nil2 append_assoc)
  then show ?thesis by (auto simp: plain_def write_line_def parse_event_format)
qed

lemma find_plain: "plain ch ls \<Longrightarrow> find (write_line ch d) (ls @ xs) = find (write_line ch d) xs"
  by (induction ls) (auto simp: plain_def)

text \<open>The texts of different duties are told apart, with a tag or without.\<close>

definition tag_text :: "string \<Rightarrow> bool" where
  "tag_text t \<longleftrightarrow> t = [] \<or> has_prefix '' ['' t"

lemma tag_text_tag: "tag_text (tag S)"
  by (simp add: tag_text_def tag_def has_prefix_def)

lemma no_blank_itoa: "CHR '' '' \<notin> set (itoa v)"
  using digits_of_nat_digits [of "CHR '' ''"] by (auto simp: itoa_def digit_val_def split: if_splits)

lemma itoa_tag:
  assumes "tag_text t"
  shows "takeWhile (\<lambda>c. c \<noteq> CHR '' '') (itoa d @ t) = itoa d"
proof (cases "t = []")
  case True
  then show ?thesis using no_blank_itoa by (auto simp: takeWhile_eq_all_conv)
next
  case False
  then obtain s where "t = CHR '' '' # s" using assms by (auto simp: tag_text_def dest: has_prefixE)
  moreover have "\<forall>c \<in> set (itoa d). c \<noteq> CHR '' ''" using no_blank_itoa [of d] by auto
  ultimately show ?thesis using takeWhile_word [of "itoa d" "\<lambda>c. c \<noteq> CHR '' ''" "CHR '' ''" s] by simp
qed

lemma isWrite_EventWrite:
  assumes "tag_text t"
  shows "isWrite (EventWrite ch d @ t) (EventWrite ch e) \<longleftrightarrow> d = e"
proof
  assume "isWrite (EventWrite ch d @ t) (EventWrite ch e)"
  then obtain u where u: "EventWrite ch d @ t = EventWrite ch e @ u" "tag_text u"
    unfolding isWrite_def
  proof
    assume "EventWrite ch d @ t = EventWrite ch e"
    then show thesis using that [of "[]"] by (simp add: tag_text_def)
  next
    assume "has_prefix (EventWrite ch e @ '' ['') (EventWrite ch d @ t)"
    then obtain v where "EventWrite ch d @ t = EventWrite ch e @ '' ['' @ v" using has_prefixE by fastforce
    then show thesis using that [of "'' ['' @ v"] has_prefix_append [of "'' [''" v] by (simp add: tag_text_def)
  qed
  then have "itoa d @ t = itoa e @ u" by (simp add: EventWrite_def)
  then have "itoa d = itoa e" using itoa_tag [OF assms, of d] itoa_tag [OF u(2), of e] by simp
  then show "d = e" by (rule itoa_inj)
next
  assume "d = e"
  then show "isWrite (EventWrite ch d @ t) (EventWrite ch e)"
  proof (cases "t = []")
    case False
    then obtain v where "t = '' ['' @ v" using assms has_prefixE by (fastforce simp: tag_text_def)
    then show ?thesis
      using \<open>d = e\<close> has_prefix_append [of "EventWrite ch e @ '' [''" v] by (simp add: isWrite_def)
  qed (simp add: isWrite_def \<open>d = e\<close>)
qed

lemma NL_notin_EventWrite: "NL \<notin> set (EventWrite ch d)"
  using digits_of_nat_digits [of NL] by (auto simp: EventWrite_def itoa_def NL_def digit_val_def split: if_splits)

lemma write_line_format:
  assumes "tag_text t" "NL \<notin> set t" "0 \<le> ts"
  shows "write_line ch e (FormatEvent now ts (EventWrite ch d @ t)) \<longleftrightarrow> d = e"
    and "ev_TS (parse_event (FormatEvent now ts (EventWrite ch d @ t))) = RoundMS ts"
  using assms NL_notin_EventWrite [of ch d]
  by (simp_all add: write_line_def parse_event_format isWrite_EventWrite RoundMS_nonneg)

section \<open>Stored samples\<close>

text \<open>A sample whose temperatures have at most one decimal loses nothing the evaluation of T1 uses.\<close>

definition tenths :: "fl \<Rightarrow> bool" where
  "tenths v \<longleftrightarrow> map_option (round_dec 1) v = v"

definition storable :: "Sample \<Rightarrow> bool" where
  "storable s \<longleftrightarrow> tenths (s_ECCPU s) \<and> tenths (s_ECBoard s) \<and> tenths (s_ECAmb s) \<and> (\<forall>f \<in> set (s_Fan s). -1 \<le> f)"

lemma stored_sel [simp]:
  "s_Phase (stored_sample s) = s_Phase s" "s_TS (stored_sample s) = RoundMS (s_TS s)"
  "s_DCR (stored_sample s) = map unknown_neg (s_DCR s)"
  by (simp_all add: stored_sample_def)

lemma storable_sel:
  assumes "storable s"
  shows "s_ECCPU (stored_sample s) = s_ECCPU s" "s_ECBoard (stored_sample s) = s_ECBoard s"
    "s_ECAmb (stored_sample s) = s_ECAmb s" "s_Fan (stored_sample s) = s_Fan s"
proof -
  have "unknown_neg f = f" if "-1 \<le> f" for f using that by (auto simp: unknown_neg_def)
  then show "s_Fan (stored_sample s) = s_Fan s"
    using assms by (auto simp: stored_sample_def storable_def intro: map_idI)
qed (use assms in \<open>simp_all add: stored_sample_def storable_def tenths_def\<close>)

lemma RegDCR_stored [simp]: "RegDCR (stored_sample s) n = RegDCR s n"
proof (cases "n < 1 \<or> int (length (s_DCR s)) < n")
  case False
  then have "nat (n - 1) < length (s_DCR s)" by auto
  then show ?thesis by (simp add: RegDCR_def unknown_neg_def)
qed (auto simp: RegDCR_def)

lemma TableInput_stored: "storable s \<Longrightarrow> TableInput c (stored_sample s) = TableInput c s"
  by (simp add: TableInput_def storable_sel)

lemma AddInputs_stored: "storable s \<Longrightarrow> AddInputs ch (stored_sample s) m = AddInputs ch s m"
  by (simp add: AddInputs_def TableInput_stored cong: fold_cong)

lemma AddFans_stored: "storable s \<Longrightarrow> AddFans (stored_sample s) m = AddFans s m"
  by (simp add: AddFans_def storable_sel)

lemma AddOtherDCR_stored: "AddOtherDCR ch (stored_sample s) m = AddOtherDCR ch s m"
  by (simp add: AddOtherDCR_def)

lemma AddT1Sample_stored:
  "storable s \<Longrightarrow> AddT1Sample ch (RoundMS tws) (stored_sample s) st = AddT1Sample ch tws s st"
  by (simp add: AddT1Sample_def AddFans_stored AddInputs_stored AddOtherDCR_stored SinceMS_stored)

lemma rest_each_stored: "storable s \<Longrightarrow> rest_each ch (stored_sample s) acc = rest_each ch s acc"
  by (cases acc) (simp add: rest_each_def AddFans_stored AddInputs_stored AddOtherDCR_stored)

lemma phaseSamples_stored: "phaseSamples (map stored_sample ss) p = map stored_sample (phaseSamples ss p)"
  by (simp add: phaseSamples_def filter_map comp_def)

lemma fold_map_same: "(\<And>x acc. x \<in> set xs \<Longrightarrow> f (g x) acc = h x acc) \<Longrightarrow> fold f (map g xs) acc = fold h xs acc"
  by (induction xs arbitrary: acc) auto

end
