(* ===== verification/Report_T1.thy ===== *)
theory Report_T1
  imports Report_Facts
begin

text \<open>
  The report gives the verdict of the run again: the mapping test T1. A completed mapping leaves, for
  each duty, its write event and the samples of its phase; between the write events are only lines
  that are no write events. From these records, stored in samples.csv and events.log, recomputeT1
  builds the same data as the run did.
\<close>

section \<open>The events of a hold\<close>

definition adds_plain :: "int \<Rightarrow> 'w runner \<Rightarrow> 'w runner \<Rightarrow> bool" where
  "adds_plain ch r r' \<longleftrightarrow> rn_start r' = rn_start r \<and> (\<exists>ls. rn_Events r' = rn_Events r @ ls \<and> plain ch ls)"

lemma adds_plain_trans: "adds_plain ch r1 r2 \<Longrightarrow> adds_plain ch r r1 \<Longrightarrow> adds_plain ch r r2"
  unfolding adds_plain_def by auto

lemma adds_plain_same: "rn_start r' = rn_start r \<Longrightarrow> rn_Events r' = rn_Events r \<Longrightarrow> adds_plain ch r r'"
  unfolding adds_plain_def by auto

lemma eventAt_line:
  "rn_Events (fst (eventAt S x r)) = rn_Events r @
     [FormatEvent (snd (eventAt S x r)) (Seconds (snd (eventAt S x r) - rn_start r)) x]"
  "snd (eventAt S x r) = snd (e_Now (su_Env S) (rn_world r))"
  by (simp_all add: eventAt_def Let_def split_beta)

lemma adds_plain_event: "\<not> has_prefix ''write '' x \<Longrightarrow> adds_plain ch r (event S x r)"
  unfolding adds_plain_def event_def by (auto simp: eventAt_line plain_text)

lemma adds_plain_sample: "adds_plain ch r (fst (sampleAt S phase written due r))"
proof -
  have ts: "adds_plain ch q (fst (sample_ts S phase due now q))" for q :: "'a runner" and now
  proof -
    have "\<not> has_prefix ''write '' (off_due_text phase a b)" for a b by (simp add: off_due_text_def has_prefix_def)
    then show ?thesis
      by (auto simp: sample_ts_def Let_def adds_plain_event intro: adds_plain_same split: option.split)
  qed
  define q where "q = fst (sample_ts S phase due (snd (e_Now (su_Env S) (rn_world r))) (r\<lparr> rn_world := fst (e_Now (su_Env S) (rn_world r)) \<rparr>))"
  have "adds_plain ch (r\<lparr> rn_world := fst (e_Now (su_Env S) (rn_world r)) \<rparr>) q" unfolding q_def by (rule ts)
  then have q: "adds_plain ch r q" by (simp add: adds_plain_def)
  have "rn_start (fst (sampleAt S phase written due r)) = rn_start q" "rn_Events (fst (sampleAt S phase written due r)) = rn_Events q"
    by (simp_all add: sampleAt_def Let_def split_beta q_def)
  with q show ?thesis by (simp add: adds_plain_def)
qed

lemma adds_plain_slot:
  assumes "hold_slot S due phase written r = (r1, Some x)"
  shows "adds_plain ch r r1"
proof -
  define q where "q = r\<lparr> rn_world := fst (e_Sleep (su_Env S) False (let d = due - snd (e_Now (su_Env S) (rn_world r)) in if d < 0 then 0 else d)
     (fst (e_Now (su_Env S) (rn_world r)))) \<rparr>"
  have "r1 = fst (sampleAt S phase written (Some due) q)"
    using assms unfolding hold_slot_def Let_def split_beta q_def by (auto split: if_splits)
  then have "adds_plain ch q r1" using adds_plain_sample by metis
  then show ?thesis by (simp add: adds_plain_def q_def)
qed

lemma adds_plain_next: "adds_plain ch r (fst (next_slot S anchor n k r))"
  by (simp add: adds_plain_def next_slot_def Let_def split_beta)

lemma adds_plain_loop:
  "hold_loop S anchor phase written n each k r acc = (r', acc', True) \<Longrightarrow> adds_plain ch r r'"
proof (induction "nat (n + 1 - k)" arbitrary: k r acc rule: less_induct)
  case less
  show ?case
  proof (cases "k > n")
    case True
    then show ?thesis using less.prems by (simp add: hold_loop.simps adds_plain_same)
  next
    case False
    obtain r1 x where h: "hold_slot S (anchor + k * cf_Sample (su_Cfg S)) phase written r = (r1, x)" by fastforce
    then obtain s why where x: "x = Some (s, why)" "why = []"
      using less.prems False by (cases x) (auto simp: hold_loop.simps [of _ _ _ _ _ _ k] split: if_splits)
    obtain r2 k2 where n2: "next_slot S anchor n k r1 = (r2, k2)" by fastforce
    have rec: "hold_loop S anchor phase written n each k2 r2 (each s acc) = (r', acc', True)"
      using less.prems False h x n2 by (simp add: hold_loop.simps [of _ _ _ _ _ _ k])
    have "nat (n + 1 - k2) < nat (n + 1 - k)" using next_slot_gt [OF n2] False by simp
    from less.hyps [OF this rec] have "adds_plain ch r2 r'" .
    moreover have "adds_plain ch r1 r2" using adds_plain_next [of ch r1 S anchor n k] n2 by simp
    moreover have "adds_plain ch r r1" using adds_plain_slot [OF h [unfolded x(1)]] .
    ultimately show ?thesis by (blast intro: adds_plain_trans)
  qed
qed

lemma adds_plain_holdFrom: "holdFrom S anchor phase written d each r acc = (r', acc', True) \<Longrightarrow> adds_plain ch r r'"
  by (simp add: holdFrom_def Let_def adds_plain_loop)

lemma adds_plain_hold: "hold S phase written d each r acc = (r', acc', True) \<Longrightarrow> adds_plain ch r r'"
  using adds_plain_holdFrom [of S _ phase written d each _ acc r' acc' ch]
  by (force simp: hold_def Let_def split_beta adds_plain_def)

lemma firstWrite_same: "rn_start (fst (firstWrite S r)) = rn_start r" "rn_Events (fst (firstWrite S r)) = rn_Events r"
  "rn_Samples (fst (firstWrite S r)) = rn_Samples r" "rn_Abort (fst (firstWrite S r)) = rn_Abort r"
  by (simp_all add: firstWrite_def split_beta split: option.split)

lemma adds_plain_manual:
  assumes "manual S ch' r = (r', None)"
  shows "adds_plain ch r r' \<and> rn_Samples r' = rn_Samples r \<and> rn_Abort r' = rn_Abort r"
proof -
  obtain r1 where f: "firstWrite S r = (r1, None)"
    using assms by (auto simp: manual_def split: if_splits option.splits prod.splits)
  then obtain w where r': "r' = event S (''pwm'' @ itoa ch' @ '' manual (driver sets 255)'' @ tag S) ((touch ch' r1)\<lparr> rn_world := w \<rparr>)"
    using assms by (auto simp: manual_def Let_def split: option.splits prod.splits)
  have t: "rn_start (touch ch' r1) = rn_start r1" "rn_Events (touch ch' r1) = rn_Events r1" by (simp_all add: touch_def)
  have "adds_plain ch ((touch ch' r1)\<lparr> rn_world := w \<rparr>) r'"
    unfolding r' by (rule adds_plain_event) (simp add: has_prefix_def)
  then show ?thesis using firstWrite_same [of S r] f t by (simp add: adds_plain_def r')
qed

text \<open>A write that is done leaves its event, with the time it returns.\<close>

lemma write_line_left:
  assumes "write_duty S ch d r = (r', Inr t)"
  shows "rn_Events r' = rn_Events r @ [FormatEvent t (Seconds (t - rn_start r)) (EventWrite ch d @ tag S)]"
    "rn_start r' = rn_start r" "rn_Samples r' = rn_Samples r" "\<exists>w. t = snd (e_Now (su_Env S) w)"
proof -
  obtain r1 where f: "firstWrite S r = (r1, None)" "MinDuty \<le> d" "d \<le> 255"
    using assms by (auto simp: write_duty_def split: if_splits option.splits prod.splits)
  obtain w e where w: "e_WriteDuty (su_Env S) ch d (rn_world (touch ch r1)) = (w, e)" by fastforce
  then have e: "(r', t) = eventAt S (EventWrite ch d @ tag S) ((touch ch r1)\<lparr> rn_world := w \<rparr>)"
    using assms f by (auto simp: write_duty_def Let_def split_beta split: option.splits)
  note l = eventAt_line [of S "EventWrite ch d @ tag S" "(touch ch r1)\<lparr> rn_world := w \<rparr>", folded e]
  have s: "rn_start (touch ch r1) = rn_start r" "rn_Events (touch ch r1) = rn_Events r" "rn_Samples (touch ch r1) = rn_Samples r"
    using firstWrite_same [of S r] f by (simp_all add: touch_def)
  show "rn_Events r' = rn_Events r @ [FormatEvent t (Seconds (t - rn_start r)) (EventWrite ch d @ tag S)]"
    using l(1) s by simp
  show "rn_start r' = rn_start r" "rn_Samples r' = rn_Samples r"
    using arg_cong [OF e, of "\<lambda>p. rn_start (fst p)"] arg_cong [OF e, of "\<lambda>p. rn_Samples (fst p)"] s by simp_all
  show "\<exists>w. t = snd (e_Now (su_Env S) w)" using l(2) by auto
qed

section \<open>What the loop over the duties leaves\<close>

text \<open>The record of the steps: for each duty its step, its samples and its lines.\<close>

fun t1_log :: "int \<Rightarrow> int list \<Rightarrow> T1Step list \<Rightarrow> Sample list \<Rightarrow> string list \<Rightarrow> bool" where
  "t1_log ch [] steps ss ls \<longleftrightarrow> steps = [] \<and> ss = [] \<and> ls = []"
| "t1_log ch (d # ds) steps ss ls \<longleftrightarrow>
     (\<exists>tws s1 ss' line l1 ls' steps'.
        steps = fold (AddT1Sample ch tws) s1 (new_step d) # steps' \<and> ss = s1 @ ss' \<and> ls = line # l1 @ ls' \<and>
        (\<forall>e. write_line ch e line \<longleftrightarrow> d = e) \<and> ev_TS (parse_event line) = RoundMS tws \<and> plain ch l1 \<and>
        (\<forall>s \<in> set s1. s_Phase s = PhaseT1Step d) \<and> t1_log ch ds steps' ss' ls')"

lemma t1_loop_log:
  assumes "t1_loop S ch ds r steps = (r', steps', True)" "\<forall>w. rn_start r \<le> snd (e_Now (su_Env S) w)" "NL \<notin> set (su_Tag S)"
  shows "\<exists>new ss ls. steps' = steps @ new \<and> rn_Samples r' = rn_Samples r @ ss \<and> rn_Events r' = rn_Events r @ ls \<and>
    t1_log ch ds new ss ls \<and> rn_start r' = rn_start r"
  using assms(1,2)
proof (induction ds arbitrary: r steps)
  case (Cons d ds)
  obtain r1 x where w: "write_duty S ch d r = (r1, x)" by fastforce
  then obtain t where x: "x = Inr t" using Cons.prems by (cases x) auto
  note wl = write_line_left [OF w [unfolded x]]
  define tws where "tws = Seconds (t - rn_start r)"
  obtain r2 st ok where h: "holdFrom S t (PhaseT1Step d) d (cf_Hold (su_Cfg S)) (AddT1Sample ch tws) r1 (new_step d) = (r2, st, ok)"
    by (metis prod_cases3)
  then have ok: ok and rec: "t1_loop S ch ds r2 (steps @ [st]) = (r', steps', True)"
    using Cons.prems(1) w x wl(2) by (auto simp: Let_def tws_def split: if_splits)
  from holdFrom_held [OF h] ok obtain s1 where s1: "rn_Samples r2 = rn_Samples r1 @ s1" "st = fold (AddT1Sample ch tws) s1 (new_step d)"
    "\<forall>s \<in> set s1. s_Phase s = PhaseT1Step d" by (auto simp: held_def)
  from h ok have "adds_plain ch r1 r2" by (auto dest: adds_plain_holdFrom)
  then obtain l1 where l1: "rn_start r2 = rn_start r1" "rn_Events r2 = rn_Events r1 @ l1" "plain ch l1"
    by (auto simp: adds_plain_def)
  have "\<forall>w. rn_start r2 \<le> snd (e_Now (su_Env S) w)" using Cons.prems(2) l1(1) wl(2) by simp
  from Cons.IH [OF rec this] obtain new ss ls where n: "steps' = (steps @ [st]) @ new" "rn_Samples r' = rn_Samples r2 @ ss"
    "rn_Events r' = rn_Events r2 @ ls" "t1_log ch ds new ss ls" "rn_start r' = rn_start r2" by blast
  let ?line = "FormatEvent t tws (EventWrite ch d @ tag S)"
  have "0 \<le> tws" using wl(4) Cons.prems(2) by (auto simp: tws_def Seconds_def)
  moreover have "NL \<notin> set (tag S)" using assms(3) by (simp add: tag_def NL_def)
  moreover note write_line_format [OF tag_text_tag [of S]]
  ultimately have line: "\<forall>e. write_line ch e ?line \<longleftrightarrow> d = e" "ev_TS (parse_event ?line) = RoundMS tws"
    by simp_all
  have "t1_log ch (d # ds) (st # new) (s1 @ ss) (?line # l1 @ ls)"
    using s1 line l1(3) n(4) by (simp add: exI [of _ tws]) blast
  then show ?case
    using n s1(1) l1 wl by (intro exI [of _ "st # new"] exI [of _ "s1 @ ss"] exI [of _ "?line # l1 @ ls"])
      (simp add: tws_def)
qed simp

section \<open>The data of the report\<close>

lemma PhaseT1Step_inj: "PhaseT1Step d = PhaseT1Step e \<longleftrightarrow> d = e"
  by (auto simp: PhaseT1Step_def dest: itoa_inj)

lemma PhaseT1Rest_step: "PhaseT1Rest \<noteq> PhaseT1Step d"
proof -
  have "CHR ''r'' \<notin> set (itoa d)"
    using digits_of_nat_digits [of "CHR ''r''"] by (auto simp: itoa_def digit_val_def split: if_splits)
  then have "''rest'' \<noteq> itoa d" by (metis list.set_intros(1))
  then show ?thesis by (auto simp: PhaseT1Rest_def PhaseT1Step_def)
qed

lemma t1_log_phases: "t1_log ch ds steps ss ls \<Longrightarrow> s \<in> set ss \<Longrightarrow> \<exists>d \<in> set ds. s_Phase s = PhaseT1Step d"
  by (induction ds arbitrary: steps ss ls) (auto, blast)

lemma phaseSamples_simps [simp]:
  "phaseSamples (a @ b) p = phaseSamples a p @ phaseSamples b p"
  by (simp add: phaseSamples_def)

lemma phaseSamples_all: "\<forall>s \<in> set ss. s_Phase s = p \<Longrightarrow> phaseSamples ss p = ss"
  by (simp add: phaseSamples_def)

lemma phaseSamples_none: "\<forall>s \<in> set ss. s_Phase s \<noteq> p \<Longrightarrow> phaseSamples ss p = []"
  by (simp add: phaseSamples_def)

lemma find_skip: "\<forall>l \<in> set ls. \<not> P l \<Longrightarrow> find P (ls @ xs) = find P xs"
  by (induction ls) auto

text \<open>One step: its time from the write event, its samples from the phase.\<close>

lemma step_data_stored:
  assumes "\<forall>s \<in> set s1. storable s \<and> s_Phase s = PhaseT1Step d"
    "\<forall>s \<in> set (pre @ post). s_Phase s \<noteq> PhaseT1Step d" "\<forall>l \<in> set pls. \<not> write_line ch d l"
    "write_line ch d line" "ev_TS (parse_event line) = RoundMS tws"
  shows "step_data ch (map stored_sample (pre @ s1 @ post)) (ParseEvents (pls @ line # els)) d = fold (AddT1Sample ch tws) s1 (new_step d)"
proof -
  have t: "writeTS (ParseEvents (pls @ line # els)) ch d = Some (RoundMS tws)"
    using assms(3-5) by (simp add: writeTS_find find_skip)
  have p: "phaseSamples (map stored_sample (pre @ s1 @ post)) (PhaseT1Step d) = map stored_sample s1"
    using assms(1,2) by (simp add: phaseSamples_stored phaseSamples_all phaseSamples_none)
  have "fold (AddT1Sample ch (RoundMS tws)) (map stored_sample s1) (new_step d) = fold (AddT1Sample ch tws) s1 (new_step d)"
    using assms(1) by (intro fold_map_same AddT1Sample_stored) auto
  then show ?thesis by (simp only: step_data_def t p Let_def option.case option.distinct if_False)
qed

lemma t1_log_data:
  assumes "t1_log ch ds steps ss ls" "distinct ds" "\<forall>s \<in> set ss. storable s"
    "\<forall>s \<in> set pre. \<forall>d \<in> set ds. s_Phase s \<noteq> PhaseT1Step d" "\<forall>l \<in> set pls. \<forall>d \<in> set ds. \<not> write_line ch d l"
  shows "map (step_data ch (map stored_sample (pre @ ss)) (ParseEvents (pls @ ls @ els))) ds = steps"
  using assms
proof (induction ds arbitrary: steps ss ls pre pls)
  case (Cons d ds)
  from Cons.prems(1) obtain tws s1 ss' line l1 ls' steps' where l: "steps = fold (AddT1Sample ch tws) s1 (new_step d) # steps'"
    "ss = s1 @ ss'" "ls = line # l1 @ ls'" "\<forall>e. write_line ch e line \<longleftrightarrow> d = e" "ev_TS (parse_event line) = RoundMS tws"
    "plain ch l1" "\<forall>s \<in> set s1. s_Phase s = PhaseT1Step d" "t1_log ch ds steps' ss' ls'" by auto
  have post: "\<forall>s \<in> set ss'. s_Phase s \<noteq> PhaseT1Step d"
    using t1_log_phases [OF l(8)] Cons.prems(2) PhaseT1Step_inj by fastforce
  have "step_data ch (map stored_sample (pre @ s1 @ ss')) (ParseEvents (pls @ line # (l1 @ ls' @ els))) d =
      fold (AddT1Sample ch tws) s1 (new_step d)"
    using Cons.prems l post by (intro step_data_stored) auto
  moreover have "map (step_data ch (map stored_sample ((pre @ s1) @ ss')) (ParseEvents ((pls @ line # l1) @ ls' @ els))) ds = steps'"
    using Cons.prems l PhaseT1Step_inj by (intro Cons.IH [OF l(8)]) (auto simp: plain_def)
  ultimately show ?case using l(1-3) by simp
qed simp

section \<open>The whole test\<close>

text \<open>Records made before the test do not look like its own.\<close>

definition no_T1_records :: "int \<Rightarrow> Sample list \<Rightarrow> string list \<Rightarrow> bool" where
  "no_T1_records ch ss ls \<longleftrightarrow>
     (\<forall>s \<in> set ss. s_Phase s \<noteq> PhaseT1Rest \<and> (\<forall>d \<in> set T1Steps. s_Phase s \<noteq> PhaseT1Step d)) \<and>
     (\<forall>l \<in> set ls. \<forall>d \<in> set T1Steps. \<not> write_line ch d l)"

lemma RunT1_stages:
  assumes run: "RunT1 S r = Some (r', res)" and ok: "rn_dcrOK r" "rn_Abort r = []" "rn_Abort r' = []"
  defines "ch \<equiv> cf_Channel (su_Cfg S)"
  obtains r1 rest restIn restDCR r2 r3 steps r4 where
    "hold S PhaseT1Rest (-1) (cf_Hold (su_Cfg S)) (rest_each ch) (event S (''T1 pwm'' @ itoa ch @ '': rest reference'') r)
       ((\<lambda>_. []), (\<lambda>_. []), (\<lambda>_. [])) = (r1, (rest, restIn, restDCR), True)"
    "manual S ch r1 = (r2, None)" "t1_loop S ch T1Steps r2 [] = (r3, steps, True)"
    "restore_untouch S ch '' after T1'' (event S EventT1Complete r3) = Some r'"
    "res = EvalT1 \<lparr> t1_ch = ch, t1_own = cf_OwnTach (su_Cfg S), t1_rest = rest, t1_restIn = restIn,
       t1_restDCR = restDCR, t1_steps = steps, t1_fans = cf_Tachs (su_Cfg S) \<rparr>"
proof -
  obtain r1 acc okh where h0: "hold S PhaseT1Rest (-1) (cf_Hold (su_Cfg S)) (rest_each ch)
      (event S (''T1 pwm'' @ itoa ch @ '': rest reference'') r) ((\<lambda>_. []), (\<lambda>_. []), (\<lambda>_. [])) = (r1, acc, okh)"
    by (rule prod_cases3)
  obtain rest restIn restDCR where "acc = (rest, restIn, restDCR)" by (rule prod_cases3)
  note h = h0 [unfolded this]
  obtain r2 e where m: "manual S ch r1 = (r2, e)" by fastforce
  obtain r3 steps ok3 where t: "t1_loop S ch T1Steps r2 [] = (r3, steps, ok3)" by (metis prod_cases3)
  note run' = run [unfolded RunT1_def Let_def, folded ch_def, unfolded h m t prod.case]
  have all: "okh \<and> e = None \<and> ok3"
  proof (rule ccontr)
    assume no: "\<not> (okh \<and> e = None \<and> ok3)"
    show False
    proof (cases okh)
      case True
      then show False using no run' ok t1_loop_aborted [of S ch T1Steps r2 "[]"] t m
        by (cases e; cases ok3) (auto split: if_splits)
    next
      case False
      then show False using run' ok hold_held [OF h] by auto
    qed
  qed
  then show thesis
    using that [of r1 rest restIn restDCR r2 r3 steps] h m t run' ok by (auto split: option.splits)
qed

lemma restore_adds:
  assumes "restore_untouch S ch wh r = Some r'"
  shows "\<exists>ls. rn_Events r' = rn_Events r @ ls" "rn_Samples r' = rn_Samples r"
  using restore_records(2,3) [OF assms] by (auto simp: prefix_def)

text \<open>The samples and the lines of a completed mapping.\<close>

lemma RunT1_log:
  assumes run: "RunT1 S r = Some (r', res)" and ok: "rn_dcrOK r" "rn_Abort r = []" "rn_Abort r' = []"
    and clock: "\<forall>w. rn_start r \<le> snd (e_Now (su_Env S) w)" and tag: "NL \<notin> set (su_Tag S)"
  defines "ch \<equiv> cf_Channel (su_Cfg S)"
  obtains s0 ss l0 ls now post steps rest restIn restDCR where
    "rn_Samples r' = rn_Samples r @ s0 @ ss" "rn_Events r' = rn_Events r @ l0 @ ls @ FormatEvent now (Seconds (now - rn_start r)) EventT1Complete # post"
    "0 \<le> Seconds (now - rn_start r)" "plain ch l0" "t1_log ch T1Steps steps ss ls" "\<forall>s \<in> set s0. s_Phase s = PhaseT1Rest"
    "fold (rest_each ch) s0 ((\<lambda>_. []), (\<lambda>_. []), (\<lambda>_. [])) = (rest, restIn, restDCR)"
    "res = EvalT1 \<lparr> t1_ch = ch, t1_own = cf_OwnTach (su_Cfg S), t1_rest = rest, t1_restIn = restIn,
       t1_restDCR = restDCR, t1_steps = steps, t1_fans = cf_Tachs (su_Cfg S) \<rparr>"
proof -
  let ?e0 = "event S (''T1 pwm'' @ itoa ch @ '': rest reference'') r"
  obtain r1 rest restIn restDCR r2 r3 steps where st:
    "hold S PhaseT1Rest (-1) (cf_Hold (su_Cfg S)) (rest_each ch) ?e0 ((\<lambda>_. []), (\<lambda>_. []), (\<lambda>_. [])) = (r1, (rest, restIn, restDCR), True)"
    "manual S ch r1 = (r2, None)" "t1_loop S ch T1Steps r2 [] = (r3, steps, True)"
    "restore_untouch S ch '' after T1'' (event S EventT1Complete r3) = Some r'"
    "res = EvalT1 \<lparr> t1_ch = ch, t1_own = cf_OwnTach (su_Cfg S), t1_rest = rest, t1_restIn = restIn,
       t1_restDCR = restDCR, t1_steps = steps, t1_fans = cf_Tachs (su_Cfg S) \<rparr>"
    by (rule RunT1_stages [OF run ok, folded ch_def])
  have e0: "adds_plain ch r ?e0" by (rule adds_plain_event) (simp add: has_prefix_def)
  have "adds_plain ch r r2"
    using adds_plain_manual [OF st(2), of ch] adds_plain_hold [OF st(1), of ch] e0 by (blast intro: adds_plain_trans)
  then obtain l0 where l0: "rn_start r2 = rn_start r" "rn_Events r2 = rn_Events r @ l0" "plain ch l0" by (auto simp: adds_plain_def)
  from hold_held [OF st(1)] obtain s0 where s0: "rn_Samples r1 = rn_Samples r @ s0" "\<forall>s \<in> set s0. s_Phase s = PhaseT1Rest"
    "(rest, restIn, restDCR) = fold (rest_each ch) s0 ((\<lambda>_. []), (\<lambda>_. []), (\<lambda>_. []))" by (auto simp: held_def)
  have s2: "rn_Samples r2 = rn_Samples r1" using adds_plain_manual [OF st(2), of ch] by simp
  have "\<forall>w. rn_start r2 \<le> snd (e_Now (su_Env S) w)" using clock l0 by simp
  from t1_loop_log [OF st(3) this tag] obtain ss ls where t: "rn_Samples r3 = rn_Samples r2 @ ss" "rn_Events r3 = rn_Events r2 @ ls"
    "t1_log ch T1Steps steps ss ls" "rn_start r3 = rn_start r2" by auto
  define now where "now = snd (eventAt S EventT1Complete r3)"
  have ev: "rn_Events (event S EventT1Complete r3) = rn_Events r3 @ [FormatEvent now (Seconds (now - rn_start r)) EventT1Complete]"
    "now = snd (e_Now (su_Env S) (rn_world r3))"
    using eventAt_line [of S EventT1Complete r3] t(4) l0(1) by (simp_all add: event_def now_def)
  obtain post where post: "rn_Events r' = rn_Events (event S EventT1Complete r3) @ post" "rn_Samples r' = rn_Samples r3"
    using restore_adds [OF st(4)] by auto
  have "0 \<le> Seconds (now - rn_start r)" using clock ev(2) by (simp add: Seconds_def)
  then show thesis
    using post s0 s2 t l0 st(5) ev(1) by (intro that [of s0 ss l0 ls now post steps rest restIn restDCR]) simp_all
qed

lemma T1Steps_distinct: "distinct T1Steps" by (simp add: T1Steps_def)

text \<open>Storing and recomputing gives the verdict of the run.\<close>

lemma recomputeT1_stored:
  assumes run: "RunT1 S r = Some (r', res)" and ok: "rn_dcrOK r" "rn_Abort r = []" "rn_Abort r' = []"
    and clock: "\<forall>w. rn_start r \<le> snd (e_Now (su_Env S) w)" and tag: "NL \<notin> set (su_Tag S)"
    and cfg: "cf_OwnTach (su_Cfg S) = TachOf (cf_Channel (su_Cfg S))" "cf_Tachs (su_Cfg S) = [1, 2, 3]"
    and fresh: "no_T1_records (cf_Channel (su_Cfg S)) (rn_Samples r) (rn_Events r)"
    and stored: "\<forall>s \<in> set (rn_Samples r'). storable s"
    and m: "me_Channel m = cf_Channel (su_Cfg S)"
  shows "recomputeT1 m (map stored_sample (rn_Samples r')) (ParseEvents (rn_Events r' @ later)) = res"
proof -
  define ch where "ch = cf_Channel (su_Cfg S)"
  obtain s0 ss l0 ls now post steps rest restIn restDCR where l:
    "rn_Samples r' = rn_Samples r @ s0 @ ss" "rn_Events r' = rn_Events r @ l0 @ ls @ FormatEvent now (Seconds (now - rn_start r)) EventT1Complete # post"
    "0 \<le> Seconds (now - rn_start r)" "plain ch l0" "t1_log ch T1Steps steps ss ls" "\<forall>s \<in> set s0. s_Phase s = PhaseT1Rest"
    "fold (rest_each ch) s0 ((\<lambda>_. []), (\<lambda>_. []), (\<lambda>_. [])) = (rest, restIn, restDCR)"
    "res = EvalT1 \<lparr> t1_ch = ch, t1_own = cf_OwnTach (su_Cfg S), t1_rest = rest, t1_restIn = restIn,
       t1_restDCR = restDCR, t1_steps = steps, t1_fans = cf_Tachs (su_Cfg S) \<rparr>"
    by (rule RunT1_log [OF run ok clock tag, folded ch_def])
  let ?smp = "map stored_sample (rn_Samples r')" and ?evs = "ParseEvents (rn_Events r' @ later)"
  have fr: "\<forall>s \<in> set (rn_Samples r). s_Phase s \<noteq> PhaseT1Rest" "\<forall>s \<in> set (rn_Samples r). \<forall>d \<in> set T1Steps. s_Phase s \<noteq> PhaseT1Step d"
    "\<forall>x \<in> set (rn_Events r). \<forall>d \<in> set T1Steps. \<not> write_line ch d x"
    using fresh by (simp_all add: no_T1_records_def ch_def)
  have "NL \<notin> set EventT1Complete" by (simp add: EventT1Complete_def NL_def)
  then have "parse_event (FormatEvent now (Seconds (now - rn_start r)) EventT1Complete) \<in> set ?evs \<and>
      ev_Text (parse_event (FormatEvent now (Seconds (now - rn_start r)) EventT1Complete)) = EventT1Complete"
    using l(3) by (simp add: l(2) ParseEvents_def parse_event_format)
  then have complete: "hasEvent ?evs EventT1Complete" by (auto simp: hasEvent_def list_ex_iff)
  have "phaseSamples (rn_Samples r) PhaseT1Rest = []" using fr(1) by (rule phaseSamples_none)
  moreover have "phaseSamples ss PhaseT1Rest = []"
    using t1_log_phases [OF l(5)] PhaseT1Rest_step by (intro phaseSamples_none) metis
  ultimately have "phaseSamples ?smp PhaseT1Rest = map stored_sample s0"
    using l(6) by (simp add: l(1) phaseSamples_stored phaseSamples_all)
  then have rd: "rest_data ch ?smp = (rest, restIn, restDCR)"
    unfolding rest_data_def l(7) [symmetric] using stored l(1) by (simp add: fold_map_same rest_each_stored)
  have "map (step_data ch (map stored_sample ((rn_Samples r @ s0) @ ss))
      (ParseEvents ((rn_Events r @ l0) @ ls @ (FormatEvent now (Seconds (now - rn_start r)) EventT1Complete # post) @ later))) T1Steps = steps"
    using l(4,6) fr stored PhaseT1Rest_step unfolding l(1)
    by (intro t1_log_data [OF l(5) T1Steps_distinct]) (auto simp: plain_def)
  then have steps: "map (step_data ch ?smp ?evs) T1Steps = steps" using l(1,2) by simp
  show ?thesis
    using complete rd steps cfg m l(8) by (simp add: recomputeT1_def Let_def ch_def)
qed

end
