(* ===== verification/Report_Checks.thy ===== *)
theory Report_Checks
  imports Report_Facts
begin

text \<open>
  When two lists of verdicts compare as equal, when the gates of a run are confirmed, and when the
  recomputation of a hand-back panics.
\<close>

section \<open>The comparison\<close>

definition sub_verdicts :: "StoredSub \<Rightarrow> string \<times> string" where
  "sub_verdicts s = (ss_T2 s, ss_T3 s)"

lemma differs_nil [simp]: "differs i a b = [] \<longleftrightarrow> a = b"
  by (simp add: differs_def)

lemma compare_subs_nil: "compare_subs rid a b = [] \<longleftrightarrow> map sub_verdicts a = map sub_verdicts b"
  by (induction rid a b rule: compare_subs.induct) (auto simp: sub_verdicts_def)

lemma last_with_Some:
  assumes "distinct (map f xs)"
  shows "last_with f k xs = Some x \<longleftrightarrow> x \<in> set xs \<and> f x = k"
proof
  assume "last_with f k xs = Some x"
  then show "x \<in> set xs \<and> f x = k" unfolding last_with_def using find_SomeD by fastforce
next
  assume x: "x \<in> set xs \<and> f x = k"
  then obtain y where y: "last_with f k xs = Some y"
    unfolding last_with_def by (cases "find (\<lambda>x. f x = k) (rev xs)") (auto simp: find_None_iff)
  then have "y \<in> set xs" "f y = k" unfolding last_with_def using find_SomeD by fastforce+
  with x assms have "y = x" by (metis distinct_map inj_onD)
  with y show "last_with f k xs = Some x" by simp
qed

lemma last_with_None: "last_with f k xs = None \<longleftrightarrow> k \<notin> f ` set xs"
  by (auto simp: last_with_def find_None_iff)

text \<open>What both levels of the comparison share: two lists of keyed entries and a test of a pair.\<close>

lemma keyed_nil:
  assumes "distinct (map f a)"
    and one: "\<And>y. g y = [] \<longleftrightarrow> (\<exists>x. last_with f (f y) a = Some x \<and> Q x y)"
    and other: "\<And>x. h x \<noteq> []"
  shows "concat (map g b) @ concat (map (\<lambda>x. if f x \<in> f ` set b then [] else h x) a) = [] \<longleftrightarrow>
    f ` set a = f ` set b \<and> (\<forall>x \<in> set a. \<forall>y \<in> set b. f x = f y \<longrightarrow> Q x y)"
proof -
  have cn: "concat (map F xs) = [] \<longleftrightarrow> (\<forall>x \<in> set xs. F x = [])" for F :: "'x \<Rightarrow> 'y list" and xs by auto
  have A: "concat (map g b) = [] \<longleftrightarrow> (\<forall>y \<in> set b. \<exists>x \<in> set a. f x = f y \<and> Q x y)"
    unfolding cn one last_with_Some [OF assms(1)] by blast
  have B: "concat (map (\<lambda>x. if f x \<in> f ` set b then [] else h x) a) = [] \<longleftrightarrow> (\<forall>x \<in> set a. f x \<in> f ` set b)"
    unfolding cn using other by simp
  have C: "x = x'" if "x \<in> set a" "x' \<in> set a" "f x = f x'" for x x'
    using assms(1) that by (metis distinct_map inj_onD)
  show ?thesis
    unfolding append_is_Nil_conv A B
  proof
    assume ab: "(\<forall>y \<in> set b. \<exists>x \<in> set a. f x = f y \<and> Q x y) \<and> (\<forall>x \<in> set a. f x \<in> f ` set b)"
    have "Q x y" if "x \<in> set a" "y \<in> set b" "f x = f y" for x y
    proof -
      from ab that obtain x' where "x' \<in> set a" "f x' = f y" "Q x' y" by blast
      then show ?thesis using C [of x' x] that by simp
    qed
    moreover have "f ` set b \<subseteq> f ` set a" using ab by (metis image_iff image_subsetI)
    ultimately show "f ` set a = f ` set b \<and> (\<forall>x \<in> set a. \<forall>y \<in> set b. f x = f y \<longrightarrow> Q x y)" using ab by blast
  next
    assume ab: "f ` set a = f ` set b \<and> (\<forall>x \<in> set a. \<forall>y \<in> set b. f x = f y \<longrightarrow> Q x y)"
    then have "\<forall>y \<in> set b. f y \<in> f ` set a" "\<forall>x \<in> set a. f x \<in> f ` set b" by auto
    with ab show "(\<forall>y \<in> set b. \<exists>x \<in> set a. f x = f y \<and> Q x y) \<and> (\<forall>x \<in> set a. f x \<in> f ` set b)"
      by (metis (no_types, lifting) imageE)
  qed
qed

definition same_run :: "StoredRun \<Rightarrow> StoredRun \<Rightarrow> bool" where
  "same_run x y \<longleftrightarrow> st_RunVerdict x = st_RunVerdict y \<and> map sub_verdicts (st_Subs x) = map sub_verdicts (st_Subs y)"

definition same_runs :: "StoredRun list \<Rightarrow> StoredRun list \<Rightarrow> bool" where
  "same_runs a b \<longleftrightarrow> st_Run ` set a = st_Run ` set b \<and>
     (\<forall>x \<in> set a. \<forall>y \<in> set b. st_Run x = st_Run y \<longrightarrow> same_run x y)"

lemma compareRuns_nil:
  assumes "distinct (map st_Run a)"
  shows "compareRuns i a b = [] \<longleftrightarrow> same_runs a b"
  unfolding compareRuns_def same_runs_def
  by (rule keyed_nil [OF assms]) (auto simp: compare_run_def compare_subs_nil same_run_def Let_def split: option.split)

lemma compareTests_nil:
  assumes "distinct (map te_ID a)" "\<forall>t \<in> set a. distinct (map st_Run (te_Runs t))"
  shows "compareTests a b = [] \<longleftrightarrow> te_ID ` set a = te_ID ` set b \<and>
    (\<forall>x \<in> set a. \<forall>y \<in> set b. te_ID x = te_ID y \<longrightarrow> te_Verdict x = te_Verdict y \<and> same_runs (te_Runs x) (te_Runs y))"
  unfolding compareTests_def
proof (rule keyed_nil [OF assms(1)])
  fix y
  show "compare_test a y = [] \<longleftrightarrow> (\<exists>x. last_with te_ID (te_ID y) a = Some x \<and> te_Verdict x = te_Verdict y \<and>
      same_runs (te_Runs x) (te_Runs y))"
  proof (cases "last_with te_ID (te_ID y) a")
    case (Some x)
    then have "x \<in> set a" using last_with_Some [OF assms(1)] by blast
    with assms(2) have "distinct (map st_Run (te_Runs x))" by blast
    with Some show ?thesis by (simp add: compare_test_def compareRuns_nil)
  qed (simp add: compare_test_def)
qed simp

section \<open>The gates\<close>

text \<open>
  The values of a gate sample keep their decimals when it is stored: tenths of a degree, hundredths of
  load (the EC and the disks report whole degrees, the kernel hundredths of load). Its time is rounded to
  the millisecond; that changes nothing in the window unless a sample gets to the other side of the end
  of the first or of the start of the last minute.
\<close>

definition exact_values :: "Sample \<Rightarrow> bool" where
  "exact_values s \<longleftrightarrow> tenths (s_ECSys s) \<and> tenths (s_ECAmb s) \<and> tenths (s_HDDMax s) \<and>
     map_option (round_dec 2) (s_Load1 s) = s_Load1 s"

definition same_minutes :: "Sample list \<Rightarrow> bool" where
  "same_minutes rows \<longleftrightarrow>
     (let t0 = s_TS (hd rows); t1 = s_TS (last rows)
      in \<forall>s \<in> set rows. (s_TS s \<le> t0 + 60 \<longleftrightarrow> RoundMS (s_TS s) \<le> RoundMS t0 + 60) \<and>
           (t1 - 60 \<le> s_TS s \<longleftrightarrow> RoundMS t1 - 60 \<le> RoundMS (s_TS s)))"

text \<open>It does not where every sample is more than a millisecond away from the two marks.\<close>

lemma RoundMS_near: "\<bar>RoundMS x - x\<bar> \<le> 1/2000"
proof -
  have "\<bar>of_int (round_half_even y) - y\<bar> \<le> 1/2" for y :: rat
  proof -
    have "of_int \<lfloor>y\<rfloor> \<le> y" "y < of_int \<lfloor>y\<rfloor> + 1" by linarith+
    then show ?thesis unfolding round_half_even_def Let_def by (auto simp: abs_if) linarith+
  qed
  from this [of "x * 1000"] show ?thesis by (auto simp: RoundMS_def abs_le_iff field_simps)
qed

lemma same_minutes_apart:
  assumes "\<forall>s \<in> set rows. 1/1000 < \<bar>s_TS s - s_TS (hd rows) - 60\<bar> \<and> 1/1000 < \<bar>s_TS (last rows) - s_TS s - 60\<bar>"
  shows "same_minutes rows"
proof -
  have "(x \<le> y + 60 \<longleftrightarrow> RoundMS x \<le> RoundMS y + 60)" if "1/1000 < \<bar>x - y - 60\<bar>" for x y
    using that RoundMS_near [of x] RoundMS_near [of y] by (auto simp: abs_if split: if_splits)
  moreover have "(y - 60 \<le> x \<longleftrightarrow> RoundMS y - 60 \<le> RoundMS x)" if "1/1000 < \<bar>y - x - 60\<bar>" for x y
    using that RoundMS_near [of x] RoundMS_near [of y] by (auto simp: abs_if split: if_splits)
  ultimately show ?thesis using assms by (simp add: same_minutes_def)
qed

lemma exact_values_sel:
  assumes "exact_values s"
  shows "s_ECSys (stored_sample s) = s_ECSys s" "s_ECAmb (stored_sample s) = s_ECAmb s"
    "s_HDDMax (stored_sample s) = s_HDDMax s" "s_Load1 (stored_sample s) = s_Load1 s"
  using assms by (simp_all add: exact_values_def tenths_def stored_sample_def)

lemma stored_TS: "s_TS (stored_sample s) = RoundMS (s_TS s)"
  by (simp add: stored_sample_def)

lemma g4_loop_stored:
  "(\<And>s. s \<in> set ss \<Longrightarrow> get (f s) = get s \<and> (s_TS s \<le> t0 + GateTrendS \<longleftrightarrow> s_TS (f s) \<le> u0 + GateTrendS) \<and>
      (s_TS s \<ge> t1 - GateTrendS \<longleftrightarrow> s_TS (f s) \<ge> u1 - GateTrendS)) \<Longrightarrow>
    g4_loop u0 u1 get (map f ss) acc = g4_loop t0 t1 get ss acc"
proof (induction ss arbitrary: acc)
  case (Cons s ss)
  then show ?case by (cases acc) (auto split: option.split)
qed simp

lemma g4_input_stored:
  assumes "\<And>s. s \<in> set ss \<Longrightarrow> get (stored_sample s) = get s" "ss \<noteq> []" "same_minutes ss"
  shows "g4_input (map stored_sample ss) (name, mx, get) = g4_input ss (name, mx, get)"
proof -
  have t: "s_TS (hd (map stored_sample ss)) = RoundMS (s_TS (hd ss))" "s_TS (last (map stored_sample ss)) = RoundMS (s_TS (last ss))"
    using assms(2) by (simp_all add: hd_map last_map stored_TS)
  have "g4_loop (RoundMS (s_TS (hd ss))) (RoundMS (s_TS (last ss))) get (map stored_sample ss) acc =
      g4_loop (s_TS (hd ss)) (s_TS (last ss)) get ss acc" for acc
    by (rule g4_loop_stored) (use assms(1,3) in \<open>simp add: same_minutes_def stored_TS GateTrendS_def Let_def\<close>)
  then show ?thesis by (simp only: g4_input_def prod.case t Let_def)
qed

lemma EvalG4_stored:
  assumes "\<forall>s \<in> set rows. exact_values s" "same_minutes rows"
  shows "EvalG4 (map stored_sample rows) = EvalG4 rows"
proof (cases "rows = []")
  case False
  have seen: "sensor_seen (map stored_sample rows) g = sensor_seen rows g" if "g \<in> {s_Tctl, s_NVMeMax, s_HDDMax}" for g
  proof -
    have "(g (stored_sample s) = NaN) = (g s = NaN)" for s using that by (auto simp: stored_sample_def)
    then show ?thesis by (simp add: sensor_seen_def list_ex_iff del: not_None_eq)
  qed
  have ins: "map (g4_input (map stored_sample rows)) g4_inputs = map (g4_input rows) g4_inputs"
    unfolding g4_inputs_def using assms False exact_values_sel by (simp add: g4_input_stored)
  have lim: "map (\<lambda>(name, get). (name, sensor_seen (map stored_sample rows) get)) limit_sensors =
      map (\<lambda>(name, get). (name, sensor_seen rows get)) limit_sensors"
    by (simp add: limit_sensors_def seen)
  show ?thesis using False by (simp only: EvalG4_def ins lim map_is_Nil_conv)
qed (simp add: EvalG4_def)

lemma sampleAt_phase': "s_Phase (fst (snd (sampleAt S phase written due r))) = phase"
  using sampleAt_phase [of S phase written due r] by (metis prod.collapse)

text \<open>The rows of a gate window are the gate samples of the run.\<close>

lemma Gates_rows:
  assumes "Gates S r = (r', g3, g4)" "rn_Abort r = []"
  obtains first rows ok where
    "rn_Samples r' = rn_Samples r @ first # rows" "\<forall>s \<in> set (first # rows). s_Phase s = PhaseGate"
    "g3 = mk_gate ''G3'' G3Condition (fst (G3 first (cf_OnlineCPUs (su_Cfg S)))) (snd (G3 first (cf_OnlineCPUs (su_Cfg S))))"
    "\<not> ok \<longrightarrow> (\<exists>why. g4 = mk_gate ''G4'' G4Condition ''FAIL'' (''window not completed: '' @ why))"
    "ok \<longrightarrow> (\<exists>ev det. EvalG4 (first # rows) = Some ev \<and>
       g4 = mk_gate ''G4'' G4Condition (if g4_Pass ev then ''PASS'' else ''FAIL'') (''over '' @ det))"
proof -
  obtain r1 first abort where s: "sampleAt S PhaseGate (-1) None r = (r1, first, abort)" by (metis prod_cases3)
  have f: "rn_Samples r1 = rn_Samples r @ [first]" "s_Phase first = PhaseGate"
    using sampleAt_sel(9) [of S PhaseGate "-1" None r] sampleAt_phase' [of S PhaseGate "-1" None r] s by simp_all
  obtain r2 rows ok where w: "(if abort \<noteq> [] then (stop S abort r1, [first], False)
      else hold S PhaseGate (-1) (cf_Window (su_Cfg S)) (\<lambda>s rows. rows @ [s]) r1 [first]) = (r2, rows, ok)" by (metis prod_cases3)
  let ?g3 = "mk_gate ''G3'' G3Condition (fst (G3 first (cf_OnlineCPUs (su_Cfg S)))) (snd (G3 first (cf_OnlineCPUs (su_Cfg S))))"
  have g: "(r', g3, g4) = (if \<not> ok then (r2, ?g3, mk_gate ''G4'' G4Condition ''FAIL'' (''window not completed: '' @ rn_Abort r2))
      else gate_result S rows ?g3 r2)"
  proof -
    obtain res det where "G3 first (cf_OnlineCPUs (su_Cfg S)) = (res, det)" by fastforce
    then show ?thesis using assms unfolding Gates_def by (cases ok) (auto simp: s w Let_def)
  qed
  obtain ss where ss: "rows = first # ss" "rn_Samples r2 = rn_Samples r @ first # ss" "\<forall>s \<in> set ss. s_Phase s = PhaseGate"
  proof (cases "abort = []")
    case True
    then have "hold S PhaseGate (-1) (cf_Window (su_Cfg S)) (\<lambda>s rows. rows @ [s]) r1 [first] = (r2, rows, ok)"
      using w by simp
    from hold_held [OF this] obtain ss where "held PhaseGate (-1) (\<lambda>s rows. rows @ [s]) r1 [first] r2 rows ss" by blast
    moreover have "fold (\<lambda>s rows. rows @ [s]) xs acc = acc @ xs" for xs acc :: "Sample list" by (induction xs arbitrary: acc) auto
    ultimately show thesis using that [of ss] f by (simp add: held_def)
  next
    case False
    then show thesis using that [of "[]"] w f by auto
  qed
  obtain ev where ev: "EvalG4 rows = Some ev" using ss(1) by (simp add: EvalG4_def Let_def)
  have gr: "gate_result S rows ?g3 r2 = (r2\<lparr> rn_LimitSensors := limit_map (g4_Limit ev) \<rparr>, ?g3,
      mk_gate ''G4'' G4Condition (if g4_Pass ev then ''PASS'' else ''FAIL'')
        (''over '' @ dur_text (cf_Window (su_Cfg S)) @ '': ['' @ joins '' '' (g4_Parts ev) @ '']''))"
    by (simp only: gate_result_def ev option.case)
  note g' = g [unfolded gr]
  show thesis
  proof (rule that [of first ss ok])
    show "rn_Samples r' = rn_Samples r @ first # ss" using g' ss(2) by (cases ok) simp_all
    show "\<forall>s \<in> set (first # ss). s_Phase s = PhaseGate" using f ss by simp
    show "g3 = ?g3" using g' by (cases ok) simp_all
    show "\<not> ok \<longrightarrow> (\<exists>why. g4 = mk_gate ''G4'' G4Condition ''FAIL'' (''window not completed: '' @ why))"
      using g' by (cases ok) auto
    show "ok \<longrightarrow> (\<exists>ev det. EvalG4 (first # ss) = Some ev \<and>
       g4 = mk_gate ''G4'' G4Condition (if g4_Pass ev then ''PASS'' else ''FAIL'') (''over '' @ det))"
      using g' ev ss(1) by (cases ok) auto
  qed
qed

lemma G3_result: "fst (G3 first cpus) \<in> {''PASS'', ''FAIL''}" "has_prefix ''load'' (snd (G3 first cpus))"
  by (auto simp: G3_def Let_def has_prefix_def split: option.split)

lemma not_completed_load: "has_prefix ''load'' (g_Detail g) \<Longrightarrow> \<not> not_completed g"
  by (auto simp: not_completed_def dest!: has_prefixE)

lemma G3_stored: "exact_values s \<Longrightarrow> G3 (stored_sample s) cpus = G3 s cpus"
  by (simp add: G3_def exact_values_sel)

lemma checkGates_Gates:
  assumes g: "Gates S r = (r', g3, g4)"
    and fresh: "\<forall>s \<in> set (rn_Samples r). s_Phase s \<noteq> PhaseGate"
    and exact: "\<forall>s \<in> set (filter (\<lambda>s. s_Phase s = PhaseGate) (rn_Samples r')). exact_values s"
    and minutes: "same_minutes (filter (\<lambda>s. s_Phase s = PhaseGate) (rn_Samples r'))"
    and m: "me_Gates m = [g3, g4]" "me_OnlineCPUs m = cf_OnlineCPUs (su_Cfg S)"
  shows "checkGates m (map stored_sample (rn_Samples r')) = []"
proof (cases "rn_Abort r = []")
  case False
  then have e: "r' = r" "g3 = mk_gate ''G3'' G3Condition ''FAIL'' (''not sampled: '' @ rn_Abort r)"
    "g4 = mk_gate ''G4'' G4Condition ''FAIL'' (''not sampled: '' @ rn_Abort r)"
    using g by (auto simp: Gates_def)
  have none: "phaseSamples (map stored_sample (rn_Samples r)) PhaseGate = []"
    using fresh by (simp add: phaseSamples_def)
  have "not_completed g3" "not_completed g4"
    using has_prefix_append [of "''not sampled''" "'': '' @ rn_Abort r"] by (simp_all add: e not_completed_def mk_gate_def)
  then show ?thesis by (simp add: checkGates_def m e(1) none check_gate_def e(2,3) mk_gate_def)
next
  case True
  obtain first rows ok where w: "rn_Samples r' = rn_Samples r @ first # rows" "\<forall>s \<in> set (first # rows). s_Phase s = PhaseGate"
    "g3 = mk_gate ''G3'' G3Condition (fst (G3 first (cf_OnlineCPUs (su_Cfg S)))) (snd (G3 first (cf_OnlineCPUs (su_Cfg S))))"
    "\<not> ok \<longrightarrow> (\<exists>why. g4 = mk_gate ''G4'' G4Condition ''FAIL'' (''window not completed: '' @ why))"
    "ok \<longrightarrow> (\<exists>ev det. EvalG4 (first # rows) = Some ev \<and>
       g4 = mk_gate ''G4'' G4Condition (if g4_Pass ev then ''PASS'' else ''FAIL'') (''over '' @ det))"
    by (rule Gates_rows [OF g True])
  have gate: "phaseSamples (map stored_sample (rn_Samples r')) PhaseGate = map stored_sample (first # rows)"
    using fresh w(2) unfolding w(1) by (simp add: phaseSamples_def filter_map comp_def)
  have fl: "filter (\<lambda>s. s_Phase s = PhaseGate) (rn_Samples r') = first # rows" using fresh w(1,2) by simp
  have ex: "\<forall>s \<in> set (first # rows). exact_values s" "same_minutes (first # rows)" using exact minutes unfolding fl by simp_all
  have c3: "check_gate (me_OnlineCPUs m) (map stored_sample (first # rows)) g3 = []"
    using G3_result [of first "cf_OnlineCPUs (su_Cfg S)"] not_completed_load [of g3] G3_stored [of first] ex
    by (auto simp: check_gate_def w(3) mk_gate_def regated_def m(2))
  have c4: "check_gate (me_OnlineCPUs m) (map stored_sample (first # rows)) g4 = []"
  proof (cases ok)
    case False
    then obtain why where "g4 = mk_gate ''G4'' G4Condition ''FAIL'' (''window not completed: '' @ why)" using w(4) by blast
    then show ?thesis
      using has_prefix_append [of "''window not completed''" "'': '' @ why"] by (simp add: check_gate_def mk_gate_def not_completed_def)
  next
    case True
    then obtain ev det where ev: "EvalG4 (first # rows) = Some ev"
      "g4 = mk_gate ''G4'' G4Condition (if g4_Pass ev then ''PASS'' else ''FAIL'') (''over '' @ det)" using w(5) by blast
    have "regated (me_OnlineCPUs m) (map stored_sample (first # rows)) ''G4'' = Some (g_Result g4)"
      unfolding regated_def EvalG4_stored [OF ex] ev by (simp add: mk_gate_def)
    then show ?thesis by (simp add: check_gate_def ev(2) mk_gate_def split: if_splits)
  qed
  show ?thesis using c3 c4 by (simp add: checkGates_def m(1) gate)
qed

section \<open>The panics\<close>

text \<open>The repetitions named by the auto events that count.\<close>

definition auto_reps :: "Event list \<Rightarrow> int list" where
  "auto_reps evs = List.map_filter (\<lambda>e. if 0 \<le> ev_TS e then map_option fst (match_auto (ev_Text e)) else None) evs"

lemma auto_no_write: "match_auto x = Some rl \<Longrightarrow> \<not> match_write x"
proof
  assume "match_auto x = Some rl" "match_write x"
  then have "has_prefix ''T2 r'' x" "has_prefix ''write pwm'' x"
    by (auto simp: match_auto_def match_write_def Let_def split: if_splits)
  then show False by (auto dest!: has_prefixE)
qed

lemma auto_reps_simps [simp]:
  "auto_reps [] = []"
  "auto_reps (e # es) = (case match_auto (ev_Text e) of Some rl \<Rightarrow> if 0 \<le> ev_TS e then fst rl # auto_reps es else auto_reps es
     | None \<Rightarrow> auto_reps es)"
  by (auto simp: auto_reps_def map_filter_def split: option.split)

lemma auto_event_None:
  "auto_event ch smp mv pc autoA ts rl st = None \<longleftrightarrow> fst rl = t2_cur st \<and> t2_runs st = []"
  by (cases rl) (auto simp: auto_event_def Let_def split_beta)

lemma auto_event_runs:
  "auto_event ch smp mv pc autoA ts rl st = Some st' \<Longrightarrow> t2_runs st' \<noteq> []"
  by (cases rl) (auto simp: auto_event_def Let_def split_beta split: if_splits)

lemma t2_loop_runs: "t2_runs st \<noteq> [] \<Longrightarrow> t2_loop ch smp mv pc autoA evs st \<noteq> None"
proof (induction evs arbitrary: st)
  case (Cons e es)
  show ?case
  proof (cases "match_auto (ev_Text e)")
    case (Some rl)
    obtain st' where "auto_event ch smp mv pc autoA (ev_TS e) rl st = Some st'"
      using Cons.prems auto_event_None by fastforce
    with Cons Some auto_event_runs show ?thesis by (auto simp: auto_no_write)
  qed (use Cons in auto)
qed simp

lemma t2_loop_None:
  "t2_runs st = [] \<Longrightarrow> t2_cur st = 0 \<Longrightarrow>
     t2_loop ch smp mv pc autoA evs st = None \<longleftrightarrow> (\<exists>rs. auto_reps evs = 0 # rs)"
proof (induction evs arbitrary: st)
  case (Cons e es)
  show ?case
  proof (cases "match_auto (ev_Text e)")
    case None
    then show ?thesis using Cons by simp
  next
    case (Some rl)
    note nw = auto_no_write [OF Some]
    show ?thesis
    proof (cases "auto_event ch smp mv pc autoA (ev_TS e) rl st")
      case None
      then show ?thesis using Cons Some nw auto_event_None [of ch smp mv pc autoA "ev_TS e" rl st] by auto
    next
      case ev: (Some st')
      then have "fst rl \<noteq> 0" using auto_event_None [of ch smp mv pc autoA "ev_TS e" rl st] Cons.prems by auto
      then show ?thesis
        using Cons Some nw ev t2_loop_runs [OF auto_event_runs [OF ev]] by auto
    qed
  qed
qed simp

lemma pre_each_ne:
  "fst (pre_each ch s acc) n \<noteq> [] \<longleftrightarrow> fst acc n \<noteq> [] \<or> (n \<in> set (JudgedRegs ch) \<and> 0 \<le> RegDCR s n)"
proof -
  have f: "(fold (\<lambda>k m. if RegDCR s k \<ge> 0 then push k \<lparr> d_T = s_TS s, d_DCR = RegDCR s k \<rparr> m else m) ks m) n \<noteq> [] \<longleftrightarrow>
      m n \<noteq> [] \<or> (n \<in> set ks \<and> 0 \<le> RegDCR s n)" for ks m
    by (induction ks arbitrary: m) (auto simp: push_def)
  show ?thesis by (cases acc) (simp add: pre_each_def f)
qed

lemma pre_fold:
  "fst (fold (pre_each ch) ss acc) n \<noteq> [] \<longleftrightarrow>
     fst acc n \<noteq> [] \<or> (n \<in> set (JudgedRegs ch) \<and> (\<exists>s \<in> set ss. 0 \<le> RegDCR s n))"
proof (induction ss arbitrary: acc)
  case (Cons s ss)
  show ?case by (simp only: fold.simps comp_apply Cons.IH pre_each_ne) auto
qed simp

lemma recomputeT2_None:
  "recomputeT2 m smp evs = None \<longleftrightarrow>
     me_Channel m \<notin> {1, 2, 3, 4} \<or>
     (me_Channel m \<noteq> 4 \<and> (\<exists>s \<in> set smp. s_Phase s = PhaseT2Pre \<and> 0 \<le> RegDCR s (me_Channel m)) \<and>
      (\<exists>rs. auto_reps evs = 0 # rs))"
proof -
  define ch where "ch = me_Channel m"
  define pp where "pp = fold (pre_each ch) (phaseSamples smp PhaseT2Pre) ((\<lambda>_. []), [])"
  have regs: "JudgedRegs ch = [] \<longleftrightarrow> ch \<notin> {1, 2, 3, 4}" "ch \<in> {1, 2, 3} \<Longrightarrow> hd (JudgedRegs ch) = ch \<and> ch \<in> set (JudgedRegs ch)"
    by (auto simp: JudgedRegs_def PCIeChannel_def ChannelDCR_def)
  have pre: "ch \<in> {1, 2, 3} \<Longrightarrow> fst pp ch = [] \<longleftrightarrow> \<not> (\<exists>s \<in> set smp. s_Phase s = PhaseT2Pre \<and> 0 \<le> RegDCR s ch)"
    using pre_fold [of ch "phaseSamples smp PhaseT2Pre" "((\<lambda>_. []), [])" ch] regs(2)
    by (auto simp: pp_def phaseSamples_def)
  have loop: "t2_loop ch smp mv pc autoA evs t2_start = None \<longleftrightarrow> (\<exists>rs. auto_reps evs = 0 # rs)" for mv pc autoA
    by (rule t2_loop_None) (simp_all add: t2_start_def)
  then have loop_Some: "(\<exists>x. t2_loop ch smp mv pc autoA evs t2_start = Some x) \<longleftrightarrow> \<not> (\<exists>rs. auto_reps evs = 0 # rs)" for mv pc autoA
    by (metis not_None_eq)
  consider "ch = 4" | "ch \<in> {1, 2, 3}" | "ch \<notin> {1, 2, 3, 4}" by auto
  then show ?thesis
  proof cases
    case 1
    then show ?thesis unfolding ch_def [symmetric] by (simp add: recomputeT2_def ch_def [symmetric] PCIeChannel_def)
  next
    case 2
    then have j: "ch \<noteq> PCIeChannel" "JudgedRegs ch \<noteq> []" "hd (JudgedRegs ch) = ch"
      using regs by (auto simp: PCIeChannel_def)
    have "recomputeT2 m smp evs = None \<longleftrightarrow> fst pp ch \<noteq> [] \<and> (\<exists>rs. auto_reps evs = 0 # rs)"
      unfolding recomputeT2_def Let_def ch_def [symmetric] pp_def [symmetric] split_beta
      by (simp only: j if_False fst_conv snd_conv prod.case)
        (auto simp: loop loop_Some split: option.split)
    moreover have "ch \<noteq> 4" "ch \<in> {1, 2, 3, 4}" using 2 by auto
    ultimately show ?thesis using pre [OF 2] unfolding ch_def [symmetric] by blast
  next
    case 3
    then have "ch \<noteq> PCIeChannel" "JudgedRegs ch = []" using regs(1) by (auto simp: PCIeChannel_def)
    then show ?thesis
      using 3 unfolding recomputeT2_def Let_def ch_def [symmetric] pp_def [symmetric] split_beta by simp
  qed
qed

end
