(* ===== verification/Report_Properties.thy ===== *)
theory Report_Properties
  imports Report_T1 Report_Checks Runner_Examples
begin

text \<open>
  The properties of the bundle's records and of the report that recomputes the verdicts from them
  (sample.go, recompute.go, t0.go). A witness applies a property to a concrete run or file.
\<close>

section \<open>Records\<close>

text \<open>C38: Round trip of a row of samples.csv: reading the row of a sample back gives the sample with its time
  without the fraction of a second, its run time rounded to milliseconds, temperatures to tenths, load
  to hundredths, and every negative integer as unknown.
\<close>

theorem sample_row_roundtrip:
  assumes "row_ok s"
  shows "ParseRow CSVHeader (Row s) = Inr (stored_sample s)"
  by (rule ParseRow_Row [OF assms])

definition plain_sample :: Sample where
  "plain_sample = (NewSample 0 0 PhaseGate 1 (-1))\<lparr> s_DCR := [255, 0, 0, 0, 100], s_Fan := [900, -1, 0] \<rparr>"

theorem sample_row_roundtrip_witness: "ParseRow CSVHeader (Row plain_sample) = Inr (stored_sample plain_sample)"
proof (rule sample_row_roundtrip)
  have "civil 0 = (1970, 1, 1)" by code_simp
  moreover have "trim_space PhaseGate = PhaseGate" by code_simp
  ultimately show "row_ok plain_sample" by (simp add: row_ok_def plain_sample_def NewSample_def)
qed

text \<open>Round trip of a line of events.log: an event at a time of the run, with a text of one line, is read
  back with its text and its time in milliseconds.
\<close>

theorem event_line_roundtrip:
  assumes "0 \<le> ts" "NL \<notin> set x"
  shows "parse_event (FormatEvent t ts x) = \<lparr> ev_TS = RoundMS ts, ev_Text = x, ev_Line = FormatEvent t ts x \<rparr>"
  using assms by (simp add: parse_event_format)

theorem event_line_roundtrip_witness:
  "parse_event (FormatEvent 0 (1/3) ''a'') = \<lparr> ev_TS = RoundMS (1/3), ev_Text = ''a'', ev_Line = FormatEvent 0 (1/3) ''a'' \<rparr>"
  by (rule event_line_roundtrip) (simp_all add: NL_def)

section \<open>The verdicts\<close>

text \<open>C13: The report gives the verdict of a completed mapping again: from the samples and the events the run
  left, stored and read back, recomputeT1 computes the result the run computed, with every criterion and
  every step. The clock does not show a time before the start of the run, the tag is a text of one line,
  there are no records of an earlier mapping, and the temperatures have at most one decimal.
\<close>

theorem report_reproduces_T1:
  assumes "RunT1 S r = Some (r', res)" "rn_dcrOK r" "rn_Abort r = []" "rn_Abort r' = []"
    and "\<forall>w. rn_start r \<le> snd (e_Now (su_Env S) w)" "NL \<notin> set (su_Tag S)"
    and "cf_OwnTach (su_Cfg S) = TachOf (cf_Channel (su_Cfg S))" "cf_Tachs (su_Cfg S) = [1, 2, 3]"
    and "no_T1_records (cf_Channel (su_Cfg S)) (rn_Samples r) (rn_Events r)"
    and "\<forall>s \<in> set (rn_Samples r'). storable s" "me_Channel m = cf_Channel (su_Cfg S)"
  shows "recomputeT1 m (map stored_sample (rn_Samples r')) (ParseEvents (rn_Events r' @ later)) = res"
  by (rule recomputeT1_stored [OF assms])

text \<open>Every sample of the machine of the example can be stored.\<close>

lemma calm_storable_sample:
  "storable (fst (snd (sampleAt (traced_setup calm_setup) phase written due r)))"
proof -
  have "storable (make_sample S now ts phase written d (snd (e_Read calm_env 0)))" for S :: "nat traced Setup" and now ts d
    by (simp add: storable_def tenths_def make_sample_def NewSample_def calm_env_def fan_values_def)
  then show ?thesis by (simp add: sampleAt_def Let_def split_beta calm_readings)
qed

interpretation calm_storable: runner_inv "traced_setup calm_setup" "\<lambda>r. \<forall>s \<in> set (rn_Samples r). storable s"
proof
  fix r r' :: "nat traced runner" and ch whn
  assume "\<forall>s \<in> set (rn_Samples r). storable s" "restore_untouch (traced_setup calm_setup) ch whn r = Some r'"
  then show "\<forall>s \<in> set (rn_Samples r'). storable s" using restore_records(2) by metis
qed (auto simp: calm_storable_sample manual_def write_duty_def auto_cmd_def Let_def split_beta firstWrite_same touch_def mark_hot_def
    split: option.splits)

definition no_machine :: Machine where
  "no_machine = Collect \<lparr> fs_file = (\<lambda>_. None), fs_dir = (\<lambda>_. None), fs_real = (\<lambda>_. None) \<rparr>
     \<lparr> oe_denied = (\<lambda>_. False), oe_text = (\<lambda>_. '''') \<rparr> (\<lambda>_. '''')
     ([], \<lparr> tm_Source = '''', tm_SHA = '''', tm_Generated = '''' \<rparr>) HostRoots"

definition map_meta :: Meta where
  "map_meta = (zero_meta no_machine)\<lparr> me_Command := ''map'', me_Channel := 1 \<rparr>"

theorem report_reproduces_T1_witness:
  "\<exists>r res. RunT1 (traced_setup calm_setup) calm_start = Some (r, res) \<and> rn_Abort r = [] \<and>
     recomputeT1 map_meta (map stored_sample (rn_Samples r)) (ParseEvents (rn_Events r)) = res"
proof -
  obtain r res where r: "RunT1 (traced_setup calm_setup) calm_start = Some (r, res)" "rn_Abort r = []"
    using calm_mapping [OF calm_start_calm] by blast
  have st: "rn_dcrOK calm_start" "rn_Abort calm_start = []" using calm_start_calm by (simp_all add: calm_def)
  have z: "rn_start calm_start = 0" "rn_Samples calm_start = []" "rn_Events calm_start = []"
    by (simp_all add: calm_start_def NewRunner_def Let_def traced_env_def calm_env_def lift_def)
  have clock: "\<forall>w. rn_start calm_start \<le> snd (e_Now (su_Env (traced_setup calm_setup)) w)"
    unfolding z(1) by (simp add: traced_setup_def traced_env_def calm_setup_def calm_env_def lift_def split_beta)
  have cfg: "su_Tag (traced_setup calm_setup) = []" "cf_Channel (su_Cfg (traced_setup calm_setup)) = 1"
    "cf_OwnTach (su_Cfg (traced_setup calm_setup)) = 1" "cf_Tachs (su_Cfg (traced_setup calm_setup)) = [1, 2, 3]"
    by (simp_all add: traced_setup_def calm_setup_def SpecConfig_def)
  have "\<forall>s \<in> set (rn_Samples r). storable s"
    using calm_storable.RunT1_keeps [OF _ r(1)] z(2) by simp
  then have "recomputeT1 map_meta (map stored_sample (rn_Samples r)) (ParseEvents (rn_Events r @ [])) = res"
    using st r z clock cfg
    by (intro report_reproduces_T1 [OF r(1)]) (simp_all add: TachOf_def no_T1_records_def map_meta_def)
  with r show ?thesis by auto
qed

text \<open>C36: The report confirms the gates of a run: with the gate samples of the run stored and read back, G3 and
  G4 come out as the run recorded them, whether the window was completed, ended early or never
  started. Two conditions: the values of the gate samples keep their decimals when they are stored (tenths
  of a degree, hundredths of load), and no gate sample gets to the other side of the end of the first or the
  start of the last minute when the times are rounded to the millisecond. A sample within a millisecond of
  such a mark can: the run compares exact times, the report rounded ones.
\<close>

theorem gates_confirmed:
  assumes "Gates S r = (r', g3, g4)" "\<forall>s \<in> set (rn_Samples r). s_Phase s \<noteq> PhaseGate"
    and "\<forall>s \<in> set (filter (\<lambda>s. s_Phase s = PhaseGate) (rn_Samples r')). exact_values s"
    and "same_minutes (filter (\<lambda>s. s_Phase s = PhaseGate) (rn_Samples r'))"
    and "me_Gates m = [g3, g4]" "me_OnlineCPUs m = cf_OnlineCPUs (su_Cfg S)"
  shows "checkGates m (map stored_sample (rn_Samples r')) = []"
  by (rule checkGates_Gates [OF assms])

text \<open>A run whose guard reports another writer at the first gate sample.\<close>

definition guarded_setup :: "nat Setup" where
  "guarded_setup = calm_setup\<lparr> su_Guard := Some (\<lambda>w. (w, ''x'')) \<rparr>"

theorem gates_confirmed_witness:
  "\<exists>r g3 g4. Gates guarded_setup (NewRunner calm_env 0) = (r, g3, g4) \<and> length (rn_Samples r) = 1 \<and>
     checkGates (map_meta\<lparr> me_Gates := [g3, g4] \<rparr>) (map stored_sample (rn_Samples r)) = []"
proof -
  obtain r1 first abort where s: "sampleAt guarded_setup PhaseGate (-1) None (NewRunner calm_env 0) = (r1, first, abort)"
    by (metis prod_cases3)
  have "abort = snd (snd (sampleAt guarded_setup PhaseGate (-1) None (NewRunner calm_env 0)))" by (simp add: s)
  then have ab: "abort \<noteq> []"
    by (simp add: sampleAt_def Let_def split_beta check_limits_def guard_def guarded_setup_def)
  have "first = fst (snd (sampleAt guarded_setup PhaseGate (-1) None (NewRunner calm_env 0)))" by (simp add: s)
  then have f: "s_TS first = 0" "s_ECSys first = NaN" "s_ECAmb first = NaN" "s_HDDMax first = Some 38" "s_Load1 first = NaN"
    by (simp_all add: sampleAt_def Let_def split_beta sample_ts_def make_sample_def NewSample_def guarded_setup_def
        calm_setup_def calm_env_def NewRunner_def Seconds_def)
  have "round_dec 1 38 = 38" by code_simp
  with f have ex: "exact_values first" by (simp add: exact_values_def tenths_def)
  have ph: "s_Phase first = PhaseGate" using sampleAt_phase' [of guarded_setup PhaseGate "-1" None "NewRunner calm_env 0"] s by simp
  have z: "rn_Samples (NewRunner calm_env 0) = []" "rn_Abort (NewRunner calm_env 0) = []"
    by (simp_all add: NewRunner_def Let_def split_beta)
  have r1: "rn_Samples r1 = [first]"
    using sampleAt_sel(9) [of guarded_setup PhaseGate "-1" None "NewRunner calm_env 0"] s z by simp
  obtain g3 g4 where g: "Gates guarded_setup (NewRunner calm_env 0) = (stop guarded_setup abort r1, g3, g4)"
    using ab z by (auto simp: Gates_def s Let_def split_beta)
  have "checkGates (map_meta\<lparr> me_Gates := [g3, g4] \<rparr>) (map stored_sample (rn_Samples (stop guarded_setup abort r1))) = []"
  proof (rule gates_confirmed [OF g])
    show "\<forall>s \<in> set (rn_Samples (NewRunner calm_env 0)). s_Phase s \<noteq> PhaseGate" by (simp add: z)
    show "\<forall>s \<in> set (filter (\<lambda>s. s_Phase s = PhaseGate) (rn_Samples (stop guarded_setup abort r1))). exact_values s"
      using ex r1 by simp
    show "same_minutes (filter (\<lambda>s. s_Phase s = PhaseGate) (rn_Samples (stop guarded_setup abort r1)))"
      using ph r1 by (simp add: same_minutes_def)
    show "me_OnlineCPUs (map_meta\<lparr> me_Gates := [g3, g4] \<rparr>) = cf_OnlineCPUs (su_Cfg guarded_setup)"
      by (simp add: map_meta_def zero_meta_def guarded_setup_def calm_setup_def SpecConfig_def)
  qed simp
  with g r1 show ?thesis by auto
qed

definition gate_time :: "nat \<Rightarrow> rat" where
  "gate_time k = (if k = 0 then 4/10000 else 45/100000 + 5 * of_nat k)"

definition edge_sample :: "nat \<Rightarrow> Sample" where
  "edge_sample k = (NewSample 0 (gate_time k) PhaseGate 1 (-1))
     \<lparr> s_ECSys := Some (if k < 12 then 30 else 31), s_ECAmb := Some 30, s_HDDMax := Some 38, s_NVMeMax := Some 45, s_Tctl := Some 50 \<rparr>"

definition edge_rows :: "Sample list" where
  "edge_rows = map edge_sample [0..<61]"

definition gate_passes :: "Sample list \<Rightarrow> bool" where
  "gate_passes rows = (case EvalG4 rows of None \<Rightarrow> False | Some g \<Rightarrow> g4_Pass g)"

text \<open>
  Why the second condition is needed. The gate window is evaluated on exact times by the run and on stored times by the report, unlike the
  sub-runs (\<open>SinceMS\<close>): a window exists, on the schedule of the code, that the run fails and the report
  passes, because a sample 60.00005 s after the first one is within the first 60 s once both times are
  rounded.
\<close>

theorem gate_rounding: "\<not> gate_passes edge_rows \<and> gate_passes (map stored_sample edge_rows)"
proof -
  have time: "RoundMS (gate_time k) = 5 * of_nat k" for k
  proof -
    define x where "x = (if k = 0 then 2/5 else 9/20 :: rat)"
    have x: "gate_time k * 1000 = of_int (5000 * int k) + x" "0 \<le> x" "x < 1/2" by (simp_all add: gate_time_def x_def)
    have "\<lfloor>gate_time k * 1000\<rfloor> = 5000 * int k" using x by linarith
    then have "round_half_even (gate_time k * 1000) = 5000 * int k"
      using x by (simp add: round_half_even_def Let_def)
    then show ?thesis by (simp add: RoundMS_def)
  qed
  have one: "round_dec 1 30 = 30" "round_dec 1 31 = 31" "round_dec 1 38 = 38" "round_dec 1 45 = 45" "round_dec 1 50 = 50"
    by code_simp+
  define g where "g = (\<lambda>k :: nat. if k < 12 then 30 else 31 :: rat)"
  have e: "s_TS (edge_sample k) = gate_time k" "s_ECSys (edge_sample k) = Some (g k)" "s_ECAmb (edge_sample k) = Some 30"
    "s_HDDMax (edge_sample k) = Some 38" "s_NVMeMax (edge_sample k) = Some 45" "s_Tctl (edge_sample k) = Some 50" for k
    by (simp_all add: edge_sample_def NewSample_def g_def)
  define st where "st = (\<lambda>k. stored_sample (edge_sample k))"
  have f: "s_TS (st k) = 5 * of_nat k" "s_ECSys (st k) = Some (g k)" "s_ECAmb (st k) = Some 30"
    "s_HDDMax (st k) = Some 38" "s_NVMeMax (st k) = Some 45" "s_Tctl (st k) = Some 50" for k
    by (simp_all add: st_def stored_sample_def e time one [simplified] g_def)
  have up: "k \<le> n \<Longrightarrow> filter P [0..<n] = filter P [0..<k] @ filter P [k..<n]" for P and k n :: nat
    using upt_add_eq_append [of 0 k "n - k"] by simp
  have ends: "hd (map h [0..<61]) = h 0" "last (map h [0..<61]) = h 60" for h :: "nat \<Rightarrow> Sample"
    by (simp_all add: hd_map last_map)
  have r1: "first_minute (map edge_sample [0..<61]) = map edge_sample [0..<12]"
    unfolding first_minute_def ends filter_map e comp_def
    by (subst up [of 12]) (auto simp: gate_time_def GateTrendS_def filter_id_conv filter_empty_conv)
  have r2: "last_minute (map edge_sample [0..<61]) = map edge_sample [48..<61]"
    unfolding last_minute_def ends filter_map e comp_def
    by (subst up [of 48]) (auto simp: gate_time_def GateTrendS_def filter_id_conv filter_empty_conv)
  have s1: "first_minute (map st [0..<61]) = map st [0..<13]"
    unfolding first_minute_def ends filter_map f comp_def by (subst up [of 13]) (auto simp: GateTrendS_def filter_id_conv filter_empty_conv)
  have s2: "last_minute (map st [0..<61]) = map st [48..<61]"
    unfolding last_minute_def ends filter_map f comp_def by (subst up [of 48]) (auto simp: GateTrendS_def filter_id_conv filter_empty_conv)
  have rd: "readings get (map h ks) = map v ks" if "\<And>k. get (h k) = Some (v k)" for get h v ks
    using that by (induction ks) (simp_all add: readings_def)
  have sums: "average (map g [0..<12]) = 30" "average (map g [0..<13]) = 391 / 13" "average (map g [48..<61]) = 31"
    "set (map g [0..<61]) = {30, 31}"
    unfolding g_def average_def by code_simp+
  have const: "average (map (\<lambda>_. c) [0..<13]) = c" "average (map (\<lambda>_. c) [48..<61]) = c" for c
    by (simp_all add: average_def map_replicate_const sum_list_replicate)
  obtain a b where ev: "EvalG4 edge_rows = Some a" "EvalG4 (map stored_sample edge_rows) = Some b"
    by (simp add: EvalG4_def Let_def edge_rows_def)
  have rows: "edge_rows = map edge_sample [0..<61]" "map stored_sample edge_rows = map st [0..<61]"
    by (simp_all add: edge_rows_def st_def comp_def)
  have "\<not> stable_input edge_rows GateTempDeltaC s_ECSys"
    unfolding stable_input_def rows r1 r2 by (simp only: rd [of s_ECSys edge_sample g] e(2) sums) (simp add: GateTempDeltaC_def)
  then have "\<not> g4_Pass a" unfolding EvalG4_pass [OF ev(1)] by (simp add: g4_inputs_def)
  moreover have "g4_Pass b"
  proof -
    have "stable_input (map st [0..<61]) GateTempDeltaC s_ECSys"
      unfolding stable_input_def s1 s2 by (simp only: rd [of s_ECSys st g] f(2) sums) (simp add: GateTempDeltaC_def)
    moreover have "stable_input (map st [0..<61]) GateTempDeltaC s_ECAmb" "stable_input (map st [0..<61]) GateTempDeltaC s_HDDMax"
      unfolding stable_input_def s1 s2
      by (simp_all only: rd [of s_ECAmb st "\<lambda>_. 30"] rd [of s_HDDMax st "\<lambda>_. 38"] f(3,4) const)
        (simp_all add: GateTempDeltaC_def)
    ultimately show ?thesis
      unfolding EvalG4_pass [OF ev(2)] rows(2)
      by (simp add: g4_inputs_def limit_sensors_def rd [of s_Tctl st "\<lambda>_. 50"] rd [of s_NVMeMax st "\<lambda>_. 45"] rd [of s_HDDMax st "\<lambda>_. 38"] f)
  qed
  ultimately show ?thesis by (simp add: gate_passes_def ev)
qed

text \<open>The comparison with the stored verdicts reports nothing exactly when both sides have the same tests with
  the same verdicts, and for each the same runs with the same verdicts and the same T2 and T3 of every sub-run.
\<close>

theorem comparison_complete:
  assumes "distinct (map te_ID a)" "\<forall>t \<in> set a. distinct (map st_Run (te_Runs t))"
  shows "compareTests a b = [] \<longleftrightarrow> te_ID ` set a = te_ID ` set b \<and>
    (\<forall>x \<in> set a. \<forall>y \<in> set b. te_ID x = te_ID y \<longrightarrow> te_Verdict x = te_Verdict y \<and> same_runs (te_Runs x) (te_Runs y))"
  by (rule compareTests_nil [OF assms])

theorem comparison_complete_witness:
  "compareTests [\<lparr> te_ID = ''T1'', te_Verdict = ''PASS'', te_Runs = [] \<rparr>] [\<lparr> te_ID = ''T1'', te_Verdict = ''FAIL'', te_Runs = [] \<rparr>] \<noteq> []"
  by (subst comparison_complete) simp_all

text \<open>C37: The recomputation of a hand-back panics exactly when meta.json names a channel that does not exist, or
  when there are samples of the A window and the first auto event that counts names repetition 0.
\<close>

theorem handback_report_panics:
  "recomputeT2 m smp evs = None \<longleftrightarrow>
     me_Channel m \<notin> {1, 2, 3, 4} \<or>
     (me_Channel m \<noteq> 4 \<and> (\<exists>s \<in> set smp. s_Phase s = PhaseT2Pre \<and> 0 \<le> RegDCR s (me_Channel m)) \<and>
      (\<exists>rs. auto_reps evs = 0 # rs))"
  by (rule recomputeT2_None)

definition pre_sample :: Sample where
  "pre_sample = (NewSample 0 0 PhaseT2Pre 1 (-1))\<lparr> s_DCR := [100, 0, 0, 0, 100] \<rparr>"

theorem handback_report_panics_witness:
  "recomputeT2 (map_meta\<lparr> me_Channel := 0 \<rparr>) [] [] = None \<and>
   recomputeT2 map_meta [pre_sample] (ParseEvents [''x [t_s=1.000] T2 r0 H auto'']) = None"
proof -
  have e: "auto_reps (ParseEvents [''x [t_s=1.000] T2 r0 H auto'']) = [0]" by code_simp
  have "0 \<le> RegDCR pre_sample 1" "s_Phase pre_sample = PhaseT2Pre" by code_simp+
  then show ?thesis unfolding handback_report_panics e by (simp add: map_meta_def zero_meta_def)
qed

text \<open>T0 passes exactly when the machine reports all its identity fields, a driver with parameters is loaded,
  the uptime is known and positive, and the operator named the tool version and the boot type.
\<close>

theorem T0_pass:
  "r_Verdict (T0 (T0Values i tv boot) boot) = Pass \<longleftrightarrow>
     hi_Product (id_DMI i) \<noteq> [] \<and> hi_Board (id_DMI i) \<noteq> [] \<and> hi_BoardVersion (id_DMI i) \<noteq> [] \<and>
     hi_BIOS (id_DMI i) \<noteq> [] \<and> hi_BIOSDate (id_DMI i) \<noteq> [] \<and> hi_EC (id_DMI i) \<noteq> [] \<and> id_Kernel i \<noteq> [] \<and>
     ds_Version (id_Driver i) \<noteq> [] \<and> ds_SrcVersion (id_Driver i) \<noteq> [] \<and> ds_Params (id_Driver i) \<noteq> [] \<and>
     tv \<noteq> [] \<and> boot \<noteq> [] \<and> (\<exists>u. id_UptimeS i = Some u \<and> 0 < u)"
  using t0_missing_nil [of i tv boot] by (simp add: T0_verdict)

end
