(* ===== verification/Writer_Lock.thy ===== *)
theory Writer_Lock
  imports Prelude
begin

text \<open>
  The lock every pwm writer holds: src/go/n5/writerlock/writerlock_unix.go, and what it uses of the
  operating system: open(2), dup(2) by inheritance, close(2) and flock(2). A lock belongs to an open
  file description; it goes away with the last descriptor of the description, also when a process
  is killed. The steps of several processes on one lock file are a step relation.
\<close>

section \<open>The operating system\<close>

record lock_sys =
  ls_file :: "string \<Rightarrow> nat option"
  ls_open :: "(nat \<times> nat) list"
  ls_inode :: "nat \<Rightarrow> nat"
  ls_held :: "nat \<Rightarrow> nat option"
  ls_text :: "nat \<Rightarrow> string"
  ls_fresh :: nat

text \<open>
  The file of a path (its inode), the open descriptors with their open file descriptions, the inode
  of a description, the description that holds the exclusive lock of an inode, the contents of an
  inode; numbers from \<open>ls_fresh\<close> on are unused.
\<close>

definition new_file :: "string \<Rightarrow> lock_sys \<Rightarrow> lock_sys" where
  "new_file p s = s\<lparr> ls_file := (ls_file s)(p := Some (ls_fresh s)), ls_text := (ls_text s)(ls_fresh s := ''''),
                     ls_fresh := ls_fresh s + 1 \<rparr>"

definition unlink :: "string \<Rightarrow> lock_sys \<Rightarrow> lock_sys" where
  "unlink p s = s\<lparr> ls_file := (ls_file s)(p := None) \<rparr>"

definition open_create :: "string \<Rightarrow> lock_sys \<Rightarrow> nat \<times> lock_sys" where
  "open_create p s =
     (let s1 = (if ls_file s p = None then new_file p s else s); f = ls_fresh s1; i = the (ls_file s1 p)
      in (f, s1\<lparr> ls_open := (f, f) # ls_open s1, ls_inode := (ls_inode s1)(f := i), ls_fresh := f + 1 \<rparr>))"

definition inherit :: "nat \<Rightarrow> lock_sys \<Rightarrow> nat \<times> lock_sys" where
  "inherit f s =
     (case map_of (ls_open s) f of
        None \<Rightarrow> (ls_fresh s, s)
      | Some d \<Rightarrow> (ls_fresh s, s\<lparr> ls_open := (ls_fresh s, d) # ls_open s, ls_fresh := ls_fresh s + 1 \<rparr>))"

definition close_fd :: "nat \<Rightarrow> lock_sys \<Rightarrow> lock_sys" where
  "close_fd f s =
     (let op' = filter (\<lambda>(d, q). d \<noteq> f) (ls_open s)
      in s\<lparr> ls_open := op',
            ls_held := (\<lambda>i. case ls_held s i of None \<Rightarrow> None | Some d \<Rightarrow> if d \<in> snd ` set op' then Some d else None) \<rparr>)"

datatype flock_result = Locked | WouldBlock | FlockError string

definition flock_ex :: "string option \<Rightarrow> nat \<Rightarrow> lock_sys \<Rightarrow> flock_result \<times> lock_sys" where
  "flock_ex fault f s =
     (case fault of
        Some e \<Rightarrow> (FlockError e, s)
      | None \<Rightarrow>
          (case map_of (ls_open s) f of
             None \<Rightarrow> (FlockError ''bad file descriptor'', s)
           | Some d \<Rightarrow>
               (case ls_held s (ls_inode s d) of
                  None \<Rightarrow> (Locked, s\<lparr> ls_held := (ls_held s)(ls_inode s d := Some d) \<rparr>)
                | Some d' \<Rightarrow> (if d' = d then Locked else WouldBlock, s))))"

definition flock_un :: "nat \<Rightarrow> lock_sys \<Rightarrow> lock_sys" where
  "flock_un f s =
     (case map_of (ls_open s) f of
        None \<Rightarrow> s
      | Some d \<Rightarrow> if ls_held s (ls_inode s d) = Some d
                  then s\<lparr> ls_held := (ls_held s)(ls_inode s d := None) \<rparr> else s)"

definition set_text :: "nat \<Rightarrow> string \<Rightarrow> lock_sys \<Rightarrow> lock_sys" where
  "set_text f t s =
     (case map_of (ls_open s) f of
        None \<Rightarrow> s
      | Some d \<Rightarrow> s\<lparr> ls_text := (ls_text s)(ls_inode s d := t) \<rparr>)"

definition read_text :: "nat \<Rightarrow> nat \<Rightarrow> lock_sys \<Rightarrow> string" where
  "read_text f n s = (case map_of (ls_open s) f of None \<Rightarrow> '''' | Some d \<Rightarrow> take n (ls_text s (ls_inode s d)))"

section \<open>The lock\<close>

definition lock_dir :: string where [text_defs]: "lock_dir = ''n5-fangov''"
definition lock_name :: string where [text_defs]: "lock_name = ''writer.lock''"

definition lock_path :: "string \<Rightarrow> string" where
  "lock_path runRoot = runRoot @ ''/'' @ lock_dir @ ''/'' @ lock_name"

datatype lock_error = ErrBusy string | ErrReplaced string | LockError string

record Lock =
  lk_f :: "nat option"
  lk_path :: string
  lk_adopted :: bool

text \<open>What may fail on its own, and what the process writes into the file.\<close>

record lock_env =
  le_mkdir :: "string option"
  le_open :: "string option"
  le_flock :: "string option"
  le_pid :: int
  le_now :: string

definition holder_line :: "lock_env \<Rightarrow> string \<Rightarrow> string" where
  [text_defs]: "holder_line v who = who @ '' pid '' @ itoa (le_pid v) @ '' since '' @ le_now v @ [NL]"

definition busy_text :: "string \<Rightarrow> string \<Rightarrow> string" where
  [text_defs]: "busy_text p holder = p @ '' ('' @ (if holder = '''' then ''unknown process'' else holder) @ '')''"

text \<open>
  \<open>Acquire\<close> makes two system calls on the lock file that matter: it opens it and it takes the lock
  of what it opened. Between the two the file can be removed or replaced, and another process can run.
\<close>

definition open_lock :: "lock_env \<Rightarrow> string \<Rightarrow> lock_sys \<Rightarrow> (lock_error + nat) \<times> lock_sys" where
  "open_lock v runRoot s =
     (case le_mkdir v of
        Some e \<Rightarrow> (Inl (LockError e), s)
      | None \<Rightarrow>
          (case le_open v of
             Some e \<Rightarrow> (Inl (LockError e), s)
           | None \<Rightarrow> (let (f, s1) = open_create (lock_path runRoot) s in (Inr f, s1))))"

definition take_lock :: "lock_env \<Rightarrow> string \<Rightarrow> string \<Rightarrow> nat \<Rightarrow> lock_sys \<Rightarrow> (lock_error + Lock) \<times> lock_sys" where
  "take_lock v runRoot who f s =
     (let p = lock_path runRoot
      in case flock_ex (le_flock v) f s of
           (Locked, s2) \<Rightarrow>
             (Inr \<lparr> lk_f = Some f, lk_path = p, lk_adopted = False \<rparr>,
              set_text f (holder_line v who) (set_text f '''' s2))
         | (WouldBlock, s2) \<Rightarrow>
             (Inl (ErrBusy (busy_text p (trim_space (read_text f 256 s2)))), close_fd f s2)
         | (FlockError e, s2) \<Rightarrow>
             (Inl (LockError (''writer lock '' @ p @ '': '' @ e)), close_fd f s2))"

definition Acquire :: "lock_env \<Rightarrow> string \<Rightarrow> string \<Rightarrow> lock_sys \<Rightarrow> (lock_error + Lock) \<times> lock_sys" where
  "Acquire v runRoot who s =
     (case open_lock v runRoot s of
        (Inl e, s1) \<Rightarrow> (Inl e, s1)
      | (Inr f, s1) \<Rightarrow> take_lock v runRoot who f s1)"

text \<open>\<open>Verify\<close>: the file at the path and the file of the descriptor; \<open>None\<close> is success.\<close>

definition Verify :: "Lock \<Rightarrow> lock_sys \<Rightarrow> lock_error option" where
  "Verify l s =
     (case ls_file s (lk_path l) of
        None \<Rightarrow> Some (ErrReplaced (lk_path l @ '': no such file''))
      | Some i \<Rightarrow>
          (case lk_f l of
             None \<Rightarrow> Some (ErrReplaced ''fstat'')
           | Some f \<Rightarrow>
               (case map_of (ls_open s) f of
                  None \<Rightarrow> Some (ErrReplaced ''fstat'')
                | Some d \<Rightarrow> if i \<noteq> ls_inode s d then Some (ErrReplaced (lk_path l @ '' is another file now'')) else None)))"

definition not_holding_text :: string where
  [text_defs]: "not_holding_text = ''inherited descriptor does not hold the writer lock: ''"

definition lock_inherited :: "string option \<Rightarrow> nat \<Rightarrow> string \<Rightarrow> lock_sys \<Rightarrow> (lock_error + Lock) \<times> lock_sys" where
  "lock_inherited fault f runRoot s =
     (case flock_ex fault f s of
        (Locked, s1) \<Rightarrow> (Inr \<lparr> lk_f = Some f, lk_path = lock_path runRoot, lk_adopted = True \<rparr>, s1)
      | (WouldBlock, s1) \<Rightarrow> (Inl (LockError (not_holding_text @ ''resource temporarily unavailable'')), s1)
      | (FlockError e, s1) \<Rightarrow> (Inl (LockError (not_holding_text @ e)), s1))"

definition Adopt :: "string option \<Rightarrow> nat \<Rightarrow> string \<Rightarrow> lock_sys \<Rightarrow> (lock_error + Lock) \<times> lock_sys" where
  "Adopt fault f runRoot s =
     (let l = \<lparr> lk_f = Some f, lk_path = lock_path runRoot, lk_adopted = True \<rparr>
      in case Verify l s of
           Some e \<Rightarrow> (Inl e, s)
         | None \<Rightarrow> lock_inherited fault f runRoot s)"

text \<open>\<open>Release\<close>: an owner unlocks, an adopted lock is only closed.\<close>

definition give_up :: "Lock \<Rightarrow> nat \<Rightarrow> lock_sys \<Rightarrow> lock_sys" where
  "give_up l f s = (if lk_adopted l then s else flock_un f (set_text f '''' s))"

definition Release :: "Lock \<Rightarrow> lock_sys \<Rightarrow> Lock \<times> lock_sys" where
  "Release l s =
     (case lk_f l of
        None \<Rightarrow> (l, s)
      | Some f \<Rightarrow> (l\<lparr> lk_f := None \<rparr>, close_fd f (give_up l f s)))"

section \<open>Several processes\<close>

text \<open>
  Where a process of the protocol is: in \<open>Acquire\<close>, between the opening and the lock; handed a
  descriptor and before \<open>Adopt\<close>; in \<open>Adopt\<close>, between \<open>Verify\<close> and the lock; with a \<open>Lock\<close>; in
  \<open>Release\<close>, before its descriptor is closed. An owner acquired its lock itself.
\<close>

datatype holder = Opened nat | Inherited nat | Adopting nat | Holding Lock | Leaving nat

fun fd_of :: "holder \<Rightarrow> nat option" where
  "fd_of (Opened f) = Some f"
| "fd_of (Inherited f) = Some f"
| "fd_of (Adopting f) = Some f"
| "fd_of (Holding l) = lk_f l"
| "fd_of (Leaving f) = Some f"

fun opened :: "holder \<Rightarrow> bool" where
  "opened (Opened f) = True"
| "opened _ = False"

fun owner :: "holder \<Rightarrow> bool" where
  "owner (Holding l) = (\<not> lk_adopted l)"
| "owner _ = False"

fun child :: "holder \<Rightarrow> bool" where
  "child (Inherited f) = True"
| "child (Adopting f) = True"
| "child (Holding l) = lk_adopted l"
| "child _ = False"

definition description :: "lock_sys \<Rightarrow> holder \<Rightarrow> nat option" where
  "description s h = (case fd_of h of None \<Rightarrow> None | Some f \<Rightarrow> map_of (ls_open s) f)"

text \<open>
  What the processes and the rest of the system do to the lock file below one run directory, one
  system call on the lock at a time. The third component collects the descriptions whose owner has
  unlocked them: an unlock takes the lock from a child of the owner too. A process can be killed at
  any time; the package scripts remove the run directory, and another file may appear at the path.
\<close>

inductive lock_step :: "string \<Rightarrow> lock_sys \<times> holder list \<times> nat set \<Rightarrow> lock_sys \<times> holder list \<times> nat set \<Rightarrow> bool" for R where
  opens: "open_lock v R s = (Inr f, s') \<Longrightarrow> lock_step R (s, hs, U) (s', Opened f # hs, U)"
| not_opened: "open_lock v R s = (Inl e, s') \<Longrightarrow> lock_step R (s, hs, U) (s', hs, U)"
| takes: "take_lock v R who f s = (Inr l, s') \<Longrightarrow> lock_step R (s, xs @ Opened f # ys, U) (s', xs @ Holding l # ys, U)"
| refused: "take_lock v R who f s = (Inl e, s') \<Longrightarrow> lock_step R (s, xs @ Opened f # ys, U) (s', xs @ ys, U)"
| hand_down: "Holding l \<in> set hs \<Longrightarrow> \<not> lk_adopted l \<Longrightarrow> lk_f l = Some f \<Longrightarrow> inherit f s = (f', s') \<Longrightarrow>
     lock_step R (s, hs, U) (s', Inherited f' # hs, U)"
| checks: "Verify \<lparr> lk_f = Some f, lk_path = lock_path R, lk_adopted = True \<rparr> s = None \<Longrightarrow>
     lock_step R (s, xs @ Inherited f # ys, U) (s, xs @ Adopting f # ys, U)"
| not_the_file: "Verify \<lparr> lk_f = Some f, lk_path = lock_path R, lk_adopted = True \<rparr> s = Some e \<Longrightarrow>
     lock_step R (s, xs @ Inherited f # ys, U) (close_fd f s, xs @ ys, U)"
| adopts: "lock_inherited v f R s = (Inr l, s') \<Longrightarrow> lock_step R (s, xs @ Adopting f # ys, U) (s', xs @ Holding l # ys, U)"
| not_adopted: "lock_inherited v f R s = (Inl e, s') \<Longrightarrow>
     lock_step R (s, xs @ Adopting f # ys, U) (close_fd f s', xs @ ys, U)"
| gives_up: "lk_f l = Some f \<Longrightarrow> map_of (ls_open s) f = Some d \<Longrightarrow>
     lock_step R (s, xs @ Holding l # ys, U) (give_up l f s, xs @ Leaving f # ys, if lk_adopted l then U else insert d U)"
| closes: "lock_step R (s, xs @ Leaving f # ys, U) (close_fd f s, xs @ ys, U)"
| killed: "fd_of h = Some f \<Longrightarrow> lock_step R (s, xs @ h # ys, U) (close_fd f s, xs @ ys, U)"
| removed: "lock_step R (s, hs, U) (unlink (lock_path R) s, hs, U)"
| replaced: "lock_step R (s, hs, U) (new_file (lock_path R) s, hs, U)"

text \<open>After the boot nothing is open and nothing is locked.\<close>

definition boot_sys :: lock_sys where
  "boot_sys = \<lparr> ls_file = Map.empty, ls_open = [], ls_inode = (\<lambda>_. 0), ls_held = (\<lambda>_. None), ls_text = (\<lambda>_. ''''), ls_fresh = 0 \<rparr>"

section \<open>The invariant\<close>

text \<open>
  An owner holds the lock of its file, and its description is not among the unlocked ones; a child
  holds it too unless its owner has unlocked it. A descriptor on the way to its lock shares its
  description with nobody, and no two owners share one.
\<close>

definition locks :: "lock_sys \<Rightarrow> nat \<Rightarrow> bool" where
  "locks s d \<longleftrightarrow> ls_held s (ls_inode s d) = Some d"

definition holder_ok :: "lock_sys \<Rightarrow> nat set \<Rightarrow> holder \<Rightarrow> bool" where
  "holder_ok s U h \<longleftrightarrow>
     (\<exists>d. description s h = Some d \<and> (opened h \<or> owner h \<longrightarrow> d \<notin> U) \<and> (owner h \<longrightarrow> locks s d) \<and>
        (child h \<longrightarrow> d \<in> U \<or> locks s d))"

definition fresh_ok :: "lock_sys \<Rightarrow> bool" where
  "fresh_ok s \<longleftrightarrow> list_all (\<lambda>(f, d). f < ls_fresh s \<and> d < ls_fresh s) (ls_open s)"

fun at_path :: "string \<Rightarrow> holder \<Rightarrow> bool" where
  "at_path R (Holding l) = (lk_path l = lock_path R)"
| "at_path R _ = True"

definition apart :: "lock_sys \<Rightarrow> holder \<Rightarrow> holder \<Rightarrow> bool" where
  "apart s g h \<longleftrightarrow> fd_of g \<noteq> fd_of h \<and>
     (description s g = description s h \<longrightarrow> \<not> opened g \<and> \<not> opened h \<and> \<not> (owner g \<and> owner h))"

definition lock_inv :: "string \<Rightarrow> lock_sys \<times> holder list \<times> nat set \<Rightarrow> bool" where
  "lock_inv R = (\<lambda>(s, hs, U).
     fresh_ok s \<and> (\<forall>d \<in> U. d < ls_fresh s) \<and> (\<forall>h \<in> set hs. at_path R h \<and> holder_ok s U h) \<and> sorted_wrt (apart s) hs)"

text \<open>An operation that leaves a process alone: its description, and whether that holds the lock.\<close>

definition keeps_holder :: "lock_sys \<Rightarrow> lock_sys \<Rightarrow> holder \<Rightarrow> bool" where
  "keeps_holder s s' h \<longleftrightarrow>
     (\<forall>d. description s h = Some d \<longrightarrow> description s' h = Some d \<and> (locks s d \<longrightarrow> locks s' d))"

named_theorems lock_ops \<open>the operations of the operating system on the lock file\<close>

declare new_file_def [lock_ops] unlink_def [lock_ops] set_text_def [lock_ops]

lemma fresh_ok_map_of: "fresh_ok s \<Longrightarrow> map_of (ls_open s) f = Some d \<Longrightarrow> f < ls_fresh s \<and> d < ls_fresh s"
  by (auto simp: fresh_ok_def list_all_iff dest!: map_of_SomeD)

lemma map_of_close [simp]:
  "map_of (filter (\<lambda>(d, q). d \<noteq> f) xs) g = (if g = f then None else map_of xs g)"
  by (induction xs) auto

lemma fresh_closed: "fresh_ok s \<Longrightarrow> map_of (ls_open s) (ls_fresh s) = None"
  by (cases "map_of (ls_open s) (ls_fresh s)") (auto dest: fresh_ok_map_of)

lemma description_fd: "description s h = Some d \<longleftrightarrow> (\<exists>f. fd_of h = Some f \<and> map_of (ls_open s) f = Some d)"
  by (auto simp: description_def split: option.splits)

lemma keeps_holder_trans: "keeps_holder s s' h \<Longrightarrow> keeps_holder s' s'' h \<Longrightarrow> keeps_holder s s'' h"
  by (simp add: keeps_holder_def)

lemma keeps_holderI:
  assumes "\<And>f d. fd_of h = Some f \<Longrightarrow> map_of (ls_open s) f = Some d \<Longrightarrow>
     map_of (ls_open s') f = Some d \<and> (ls_held s (ls_inode s d) = Some d \<longrightarrow> ls_held s' (ls_inode s' d) = Some d)"
  shows "keeps_holder s s' h"
  using assms by (fastforce simp: keeps_holder_def description_fd locks_def)

lemma keeps_plain [simp]:
  "keeps_holder s s h" "keeps_holder s (new_file p s) h" "keeps_holder s (unlink p s) h" "keeps_holder s (set_text f t s) h"
  by (auto intro!: keeps_holderI simp: lock_ops split: option.splits)

lemma keeps_open:
  assumes "fresh_ok s"
  shows "keeps_holder s (snd (open_create p s)) h"
proof (rule keeps_holderI)
  fix f d
  assume m: "map_of (ls_open s) f = Some d"
  with assms have "f < ls_fresh s" "d < ls_fresh s" using fresh_ok_map_of by blast+
  with m show "map_of (ls_open (snd (open_create p s))) f = Some d \<and>
      (ls_held s (ls_inode s d) = Some d \<longrightarrow> ls_held (snd (open_create p s)) (ls_inode (snd (open_create p s)) d) = Some d)"
    by (simp add: open_create_def new_file_def Let_def)
qed

lemma keeps_inherit: "fresh_ok s \<Longrightarrow> keeps_holder s (snd (inherit f s)) h"
  by (rule keeps_holderI) (auto simp: inherit_def fresh_closed split: option.splits)

lemma keeps_flock: "keeps_holder s (snd (flock_ex e f s)) h"
  by (rule keeps_holderI) (auto simp: flock_ex_def split: option.splits)

lemma keeps_close: "fd_of h \<noteq> Some f \<Longrightarrow> keeps_holder s (close_fd f s) h"
  by (rule keeps_holderI) (force simp: close_fd_def Let_def dest: map_of_SomeD)

lemma keeps_unlock:
  "description s h \<noteq> map_of (ls_open s) f \<Longrightarrow> keeps_holder s (flock_un f s) h"
  by (rule keeps_holderI) (auto simp: description_def flock_un_def split: option.splits)

lemma description_give_up [simp]: "description (give_up l f s) h = description s h"
  by (auto simp: description_def give_up_def flock_un_def set_text_def split: option.splits)

lemma fresh_ok_ops [simp]:
  "fresh_ok s \<Longrightarrow> fresh_ok (new_file p s)" "fresh_ok (unlink p s) = fresh_ok s"
  "fresh_ok (set_text f t s) = fresh_ok s" "fresh_ok s \<Longrightarrow> fresh_ok (close_fd f s)"
  "fresh_ok (snd (flock_ex e f s)) = fresh_ok s" "fresh_ok (flock_un f s) = fresh_ok s"
  "fresh_ok (give_up l f s) = fresh_ok s"
  by (force simp: fresh_ok_def lock_ops close_fd_def flock_ex_def flock_un_def give_up_def Let_def list_all_iff split: option.splits)+

lemma fresh_ok_open [simp]: "fresh_ok s \<Longrightarrow> fresh_ok (snd (open_create p s))"
  by (force simp: fresh_ok_def open_create_def new_file_def Let_def list_all_iff)

lemma fresh_ok_inherit [simp]: "fresh_ok s \<Longrightarrow> fresh_ok (snd (inherit f s))"
  by (force simp: fresh_ok_def inherit_def list_all_iff dest: map_of_SomeD split: option.splits)

lemma ls_fresh_ops [simp]:
  "ls_fresh (new_file p s) = ls_fresh s + 1" "ls_fresh (unlink p s) = ls_fresh s" "ls_fresh (set_text f t s) = ls_fresh s"
  "ls_fresh (close_fd f s) = ls_fresh s" "ls_fresh (snd (flock_ex e f s)) = ls_fresh s"
  "ls_fresh (flock_un f s) = ls_fresh s" "ls_fresh (give_up l f s) = ls_fresh s"
  by (simp_all add: lock_ops close_fd_def flock_ex_def flock_un_def give_up_def Let_def split: option.splits)

lemma ls_fresh_open: "ls_fresh s \<le> ls_fresh (snd (open_create p s))"
  by (simp add: open_create_def new_file_def Let_def)

lemma ls_fresh_inherit: "ls_fresh s \<le> ls_fresh (snd (inherit f s))"
  by (simp add: inherit_def split: option.split)

text \<open>What the opening gives: a descriptor and a description nobody had.\<close>

lemma open_lock_new:
  assumes "open_lock v R s = (Inr f, s')"
  shows "s' = snd (open_create (lock_path R) s)" "ls_fresh s \<le> f" "f < ls_fresh s'" "map_of (ls_open s') f = Some f"
    "ls_file s' (lock_path R) = Some (ls_inode s' f)" "ls_held s' = ls_held s"
  using assms by (auto simp: open_lock_def open_create_def new_file_def Let_def split: option.splits if_splits)

lemma open_lock_none: "open_lock v R s = (Inl e, s') \<Longrightarrow> s' = s"
  by (auto simp: open_lock_def split: option.splits prod.splits)

lemma take_lock_cases:
  assumes "take_lock v R who f s = (r, s')"
  obtains (got) s2 where "flock_ex (le_flock v) f s = (Locked, s2)" "s' = set_text f (holder_line v who) (set_text f '''' s2)"
      "r = Inr \<lparr> lk_f = Some f, lk_path = lock_path R, lk_adopted = False \<rparr>"
  | (not_got) e where "s' = close_fd f (snd (flock_ex (le_flock v) f s))" "r = Inl e"
  using assms by (auto simp: take_lock_def Let_def split: prod.splits flock_result.splits)

lemma lock_inherited_cases:
  assumes "lock_inherited v f R s = (r, s')"
  shows "s' = snd (flock_ex v f s)"
    "r = Inr l \<Longrightarrow> l = \<lparr> lk_f = Some f, lk_path = lock_path R, lk_adopted = True \<rparr> \<and> flock_ex v f s = (Locked, s')"
  using assms by (auto simp: lock_inherited_def split: prod.splits flock_result.splits)

text \<open>A lock that was got belongs to the description of the descriptor.\<close>

lemma flock_locks: "flock_ex e f s = (Locked, s') \<Longrightarrow> map_of (ls_open s) f = Some d \<Longrightarrow> locks s' d"
  by (auto simp: flock_ex_def locks_def split: option.splits if_splits)

section \<open>Every step keeps the invariant\<close>

lemma apart_sym: "apart s g h \<longleftrightarrow> apart s h g"
  by (auto simp: apart_def)

lemma keeps_holder_ok: "keeps_holder s s' h \<Longrightarrow> holder_ok s U h \<Longrightarrow> holder_ok s' U h \<and> description s' h = description s h"
  by (auto simp: keeps_holder_def holder_ok_def)

lemma lock_invD:
  assumes "lock_inv R (s, hs, U)"
  shows "fresh_ok s" "d \<in> U \<Longrightarrow> d < ls_fresh s" "h \<in> set hs \<Longrightarrow> at_path R h" "h \<in> set hs \<Longrightarrow> holder_ok s U h" "sorted_wrt (apart s) hs"
  using assms by (simp_all add: lock_inv_def)

lemma lock_inv_apart:
  assumes "lock_inv R (s, xs @ h # ys, U)" "g \<in> set (xs @ ys)"
  shows "apart s g h"
  using lock_invD(5) [OF assms(1)] assms(2) apart_sym by (auto simp: sorted_wrt_append)

lemma lock_inv_kept:
  assumes i: "lock_inv R (s, hs, U)" and f: "fresh_ok s'" "ls_fresh s \<le> ls_fresh s'" and k: "\<And>h. h \<in> set hs \<Longrightarrow> keeps_holder s s' h"
  shows "lock_inv R (s', hs, U)"
proof -
  have ok: "holder_ok s' U h \<and> description s' h = description s h" if "h \<in> set hs" for h
    using keeps_holder_ok [OF k [OF that]] lock_invD(4) [OF i that] by blast
  have "sorted_wrt (apart s') hs"
    by (rule sorted_wrt_mono_rel [OF _ lock_invD(5) [OF i]]) (simp add: apart_def ok)
  moreover have "d < ls_fresh s'" if "d \<in> U" for d using lock_invD(2) [OF i that] f(2) by simp
  ultimately show ?thesis using f(1) ok lock_invD(3) [OF i] by (simp add: lock_inv_def)
qed

lemma lock_inv_drop: "lock_inv R (s, xs @ h # ys, U) \<Longrightarrow> lock_inv R (s, xs @ ys, U)"
  by (simp add: lock_inv_def sorted_wrt_append)

lemma lock_inv_add:
  assumes "lock_inv R (s, hs, U)" "holder_ok s U h" "at_path R h" "\<And>g. g \<in> set hs \<Longrightarrow> apart s h g"
  shows "lock_inv R (s, h # hs, U)"
  using assms by (simp add: lock_inv_def)

text \<open>A process goes on, with the same descriptor.\<close>

lemma lock_inv_next:
  assumes i: "lock_inv R (s, xs @ h # ys, U)" and h: "fd_of h' = fd_of h" "at_path R h'" "holder_ok s U h'" "\<not> opened h'"
    "owner h' \<Longrightarrow> opened h \<or> owner h"
  shows "lock_inv R (s, xs @ h' # ys, U)"
proof -
  have d: "description s h' = description s h" using h(1) by (simp add: description_def)
  have "apart s g h'" if "apart s g h" for g using that h(1,4,5) by (auto simp: apart_def d)
  moreover have "apart s h' g" if "apart s h g" for g using that h(1,4,5) by (auto simp: apart_def d)
  ultimately show ?thesis using i h(2,3) by (simp add: lock_inv_def sorted_wrt_append)
qed

lemma lock_inv_fds: "lock_inv R (s, xs @ h # ys, U) \<Longrightarrow> g \<in> set (xs @ ys) \<Longrightarrow> fd_of g \<noteq> fd_of h"
  using lock_inv_apart by (simp add: apart_def)

lemma lock_inv_ok: "lock_inv R (s, hs, U) \<Longrightarrow> h \<in> set hs \<Longrightarrow> holder_ok s U h \<and> at_path R h"
  by (simp add: lock_inv_def)

lemma lock_inv_close:
  assumes "lock_inv R (s, xs @ h # ys, U)" "fd_of h = Some f"
  shows "lock_inv R (close_fd f s, xs @ ys, U)"
  using lock_inv_drop [OF assms(1)]
proof (rule lock_inv_kept)
  show "fresh_ok (close_fd f s)" using assms(1) by (simp add: lock_inv_def)
  show "keeps_holder s (close_fd f s) g" if "g \<in> set (xs @ ys)" for g
    using keeps_close lock_inv_fds [OF assms(1) that] assms(2) by simp
qed simp

lemma lock_inv_flock:
  assumes "lock_inv R (s, hs, U)"
  shows "lock_inv R (snd (flock_ex e f s), hs, U)"
  by (rule lock_inv_kept [OF assms]) (use assms in \<open>simp_all add: lock_inv_def keeps_flock\<close>)

lemma lock_inv_old:
  assumes "lock_inv R (s, hs, U)" "h \<in> set hs"
  shows "\<exists>f d. fd_of h = Some f \<and> description s h = Some d \<and> map_of (ls_open s) f = Some d \<and> f < ls_fresh s \<and> d < ls_fresh s"
proof -
  obtain f d where "fd_of h = Some f" "map_of (ls_open s) f = Some d" "description s h = Some d"
    using lock_inv_ok [OF assms] by (auto simp: holder_ok_def description_fd)
  then show ?thesis using assms(1) fresh_ok_map_of [of s f d] by (auto simp: lock_inv_def)
qed

lemma open_inv:
  assumes i: "lock_inv R (s, hs, U)" and o: "open_lock v R s = (Inr f, s')"
  shows "lock_inv R (s', Opened f # hs, U)"
proof -
  note n = open_lock_new [OF o]
  have f: "fresh_ok s" using i by (simp add: lock_inv_def)
  have k: "keeps_holder s s' h" for h using keeps_open [OF f] n(1) by simp
  have i': "lock_inv R (s', hs, U)"
    using lock_inv_kept [OF i, of s'] fresh_ok_open [OF f] ls_fresh_open k n(1) by simp
  have old: "fd_of g \<noteq> Some f \<and> description s' g \<noteq> Some f" if "g \<in> set hs" for g
    using lock_inv_old [OF i that] k [of g] n(2) by (auto simp: keeps_holder_def)
  have "f \<notin> U" using i n(2) by (force simp: lock_inv_def)
  moreover have "description s' (Opened f) = Some f" using n(4) by (simp add: description_def)
  moreover have "apart s' (Opened f) g" if "g \<in> set hs" for g using old [OF that] calculation(2) by (auto simp: apart_def)
  ultimately show ?thesis using lock_inv_add [OF i', of "Opened f"] by (simp add: holder_ok_def)
qed

lemma take_inv:
  assumes i: "lock_inv R (s, xs @ Opened f # ys, U)" and t: "take_lock v R who f s = (r, s')"
  shows "case r of Inl e \<Rightarrow> lock_inv R (s', xs @ ys, U) | Inr l \<Rightarrow> lock_inv R (s', xs @ Holding l # ys, U)"
  using t
proof (cases rule: take_lock_cases)
  case (got s2)
  have i2: "lock_inv R (s2, xs @ Opened f # ys, U)" using lock_inv_flock [OF i, of "le_flock v" f] got(1) by simp
  have i3: "lock_inv R (s', xs @ Opened f # ys, U)"
    using i2 by (intro lock_inv_kept [OF i2]) (simp_all add: got(2) lock_inv_def keeps_holder_trans [OF keeps_plain(4) keeps_plain(4)])
  obtain d where d: "map_of (ls_open s) f = Some d" using lock_inv_old [OF i, of "Opened f"] by auto
  then have "locks s' d" using flock_locks [OF got(1)] by (simp add: got(2) locks_def set_text_def split: option.split)
  moreover obtain e where "description s' (Opened f) = Some e" "e \<notin> U"
    using lock_inv_ok [OF i3, of "Opened f"] by (auto simp: holder_ok_def)
  moreover have "description s' (Opened f) = Some d"
    using d keeps_flock [of s "le_flock v" f "Opened f"] got(1,2)
    by (auto simp: keeps_holder_def description_def set_text_def split: option.splits)
  ultimately have "holder_ok s' U (Holding \<lparr> lk_f = Some f, lk_path = lock_path R, lk_adopted = False \<rparr>)"
    by (simp add: holder_ok_def description_def)
  then show ?thesis using lock_inv_next [OF i3, of "Holding \<lparr> lk_f = Some f, lk_path = lock_path R, lk_adopted = False \<rparr>"]
    by (simp add: got(3))
next
  case (not_got e)
  then show ?thesis using lock_inv_close [OF lock_inv_flock [OF i], of f] by simp
qed

lemma hand_down_inv:
  assumes i: "lock_inv R (s, hs, U)" and l: "Holding l \<in> set hs" "\<not> lk_adopted l" "lk_f l = Some f" "inherit f s = (f', s')"
  shows "lock_inv R (s', Inherited f' # hs, U)"
proof -
  have f: "fresh_ok s" using i by (simp add: lock_inv_def)
  have k: "keeps_holder s s' h" for h using keeps_inherit [OF f, of f h] l(4) by simp
  have i': "lock_inv R (s', hs, U)"
    using lock_inv_kept [OF i, of s'] fresh_ok_inherit [OF f, of f] ls_fresh_inherit [of s f] k l(4) by simp
  obtain d where d: "map_of (ls_open s) f = Some d" "locks s d"
    using lock_inv_ok [OF i l(1)] l(2,3) by (auto simp: holder_ok_def description_def)
  have e: "f' = ls_fresh s" "description s' (Inherited f') = Some d" "locks s' d" "description s' (Holding l) = Some d"
    using l(3,4) d k [of "Holding l"] by (auto simp: inherit_def description_def locks_def keeps_holder_def)
  have "apart s' (Inherited f') g" if "g \<in> set hs" for g
  proof -
    have "fd_of g \<noteq> Some f'" using lock_inv_old [OF i that] e(1) by auto
    moreover have "\<not> opened g" if o: "description s' g = Some d"
    proof
      assume g: "opened g"
      then have n: "g \<noteq> Holding l" by auto
      obtain xs ys where "hs = xs @ g # ys" using \<open>g \<in> set hs\<close> split_list by metis
      then show False using lock_inv_apart [of R s' xs g ys U "Holding l"] i' l(1) n g o e(4) by (auto simp: apart_def)
    qed
    ultimately show ?thesis using e(2) by (auto simp: apart_def)
  qed
  then show ?thesis using e by (intro lock_inv_add [OF i']) (auto simp: holder_ok_def)
qed

lemma adopt_inv:
  assumes i: "lock_inv R (s, xs @ Adopting f # ys, U)" and a: "lock_inherited v f R s = (r, s')"
  shows "case r of Inl e \<Rightarrow> lock_inv R (close_fd f s', xs @ ys, U) | Inr l \<Rightarrow> lock_inv R (s', xs @ Holding l # ys, U)"
proof -
  have i': "lock_inv R (s', xs @ Adopting f # ys, U)" using lock_inv_flock [OF i] lock_inherited_cases(1) [OF a] by simp
  show ?thesis
  proof (cases r)
    case (Inr l)
    have l: "l = \<lparr> lk_f = Some f, lk_path = lock_path R, lk_adopted = True \<rparr>" using lock_inherited_cases(2) [OF a Inr] by simp
    have "holder_ok s' U (Holding l)" using lock_inv_ok [OF i', of "Adopting f"] by (simp add: l holder_ok_def description_def)
    then show ?thesis using lock_inv_next [OF i', of "Holding l"] Inr l by simp
  qed (use lock_inv_close [OF i'] in simp)
qed

lemma check_inv: "lock_inv R (s, xs @ Inherited f # ys, U) \<Longrightarrow> lock_inv R (s, xs @ Adopting f # ys, U)"
  by (rule lock_inv_next) (use lock_inv_ok [of R s "xs @ Inherited f # ys" U "Inherited f"] in \<open>auto simp: holder_ok_def description_def\<close>)

text \<open>An owner that unlocks takes the lock from its children; nobody else loses one.\<close>

lemma give_up_inv:
  assumes i: "lock_inv R (s, xs @ Holding l # ys, U)" and l: "lk_f l = Some f" "map_of (ls_open s) f = Some d"
  shows "lock_inv R (give_up l f s, xs @ Leaving f # ys, if lk_adopted l then U else insert d U)"
proof (cases "lk_adopted l")
  case True
  have "holder_ok s U (Leaving f)" using l by (simp add: holder_ok_def description_def)
  then show ?thesis using lock_inv_next [OF i, of "Leaving f"] l True by (simp add: give_up_def)
next
  case False
  let ?u = "give_up l f s"
  have "holder_ok ?u (insert d U) h" if h: "h \<in> set (xs @ ys)" for h
  proof -
    obtain c where c: "description s h = Some c" "opened h \<or> owner h \<longrightarrow> c \<notin> U" "owner h \<longrightarrow> locks s c" "child h \<longrightarrow> c \<in> U \<or> locks s c"
      using lock_inv_ok [OF i, of h] h by (auto simp: holder_ok_def)
    have own: "c \<noteq> d" if "opened h \<or> owner h"
      using lock_inv_apart [OF i h] that c(1) False l by (auto simp: apart_def description_def)
    have "keeps_holder s ?u h" if "c \<noteq> d"
    proof -
      have "description (set_text f '''' s) h \<noteq> map_of (ls_open (set_text f '''' s)) f"
        using keeps_plain(4) [of s f "''''" h] c(1) l(2) that by (auto simp: keeps_holder_def set_text_def)
      then show ?thesis using keeps_holder_trans [OF keeps_plain(4) keeps_unlock] False by (simp add: give_up_def)
    qed
    then show ?thesis using c own by (cases "c = d") (auto simp: holder_ok_def keeps_holder_def)
  qed
  moreover have "holder_ok ?u (insert d U) (Leaving f)" using l by (simp add: holder_ok_def description_fd description_def give_up_def flock_un_def set_text_def)
  moreover have "sorted_wrt (apart ?u) (xs @ Leaving f # ys)"
    using lock_inv_next [OF i, of "Leaving f"] lock_invD(5) l unfolding apart_def
    by (fastforce simp: holder_ok_def description_fd)
  moreover have "c < ls_fresh s" if "c \<in> insert d U" for c
    using that lock_invD(1,2) [OF i] l(2) fresh_ok_map_of by blast
  ultimately show ?thesis using lock_invD(1,3) [OF i] False by (auto simp: lock_inv_def)
qed

lemma lock_step_inv: "lock_step R a b \<Longrightarrow> lock_inv R a \<Longrightarrow> lock_inv R b"
proof (induction rule: lock_step.induct)
  case (opens v s f s' hs U)
  then show ?case using open_inv by blast
next
  case (not_opened v s e s' hs U)
  then show ?case using open_lock_none by blast
next
  case (takes v who f s l s' xs ys U)
  then show ?case using take_inv [OF takes.prems takes.hyps] by simp
next
  case (refused v who f s e s' xs ys U)
  then show ?case using take_inv [OF refused.prems refused.hyps] by simp
next
  case (hand_down l hs f s f' s' U)
  then show ?case using hand_down_inv by blast
next
  case (checks f s xs ys U)
  then show ?case using check_inv by blast
next
  case (not_the_file f s e xs ys U)
  then show ?case using lock_inv_close by fastforce
next
  case (adopts v f s l s' xs ys U)
  then show ?case using adopt_inv [OF adopts.prems adopts.hyps] by simp
next
  case (not_adopted v f s e s' xs ys U)
  then show ?case using adopt_inv [OF not_adopted.prems not_adopted.hyps] by simp
next
  case (gives_up l f s d xs ys U)
  then show ?case using give_up_inv by blast
next
  case (closes s xs f ys U)
  then show ?case using lock_inv_close by fastforce
next
  case (killed h f s xs ys U)
  then show ?case using lock_inv_close by blast
next
  case (removed s hs U)
  then show ?case by (intro lock_inv_kept [OF removed]) (simp_all add: lock_inv_def)
next
  case (replaced s hs U)
  then show ?case by (intro lock_inv_kept [OF replaced]) (simp_all add: lock_inv_def)
qed

lemma boot_inv: "lock_inv R (boot_sys, [], {})"
  by (simp add: lock_inv_def boot_sys_def fresh_ok_def)

lemma lock_reachable_inv: "(lock_step R)\<^sup>*\<^sup>* (boot_sys, [], {}) b \<Longrightarrow> lock_inv R b"
  by (induction rule: rtranclp_induct) (simp_all add: boot_inv lock_step_inv)

end
