(* ===== verification/Session.thy ===== *)
theory Session
  imports Files
begin

text \<open>
  Where a writing command is typed from: src/ectest/internal/session/session.go. The process table is
  read from a \<open>filesys\<close>; \<open>getenv\<close> and what standard input is connected to are arguments.
\<close>

unbundle bit_operations_syntax

record Sess =
  se_Remote :: "string list"
  se_Console :: bool
  se_Stdin :: string
  se_Tmux :: string

definition remoteParents :: "string list" where
  "remoteParents = [''sshd'', ''sshd-session'', ''dropbear'', ''termproxy'', ''mosh-server'', ''telnetd'', ''in.telnetd'',
     ''ttyd'', ''shellinaboxd'', ''tmate'']"

section \<open>The process chain\<close>

text \<open>\<open>strings.IndexByte\<close> and \<open>strings.LastIndexByte\<close> where the byte occurs: the text before and after.\<close>

definition procStat :: "filesys \<Rightarrow> string \<Rightarrow> int \<Rightarrow> (string \<times> int \<times> int) option" where
  "procStat fs procRoot pid =
     (case fs_file fs (join_path [procRoot, itoa pid, ''stat'']) of
        None \<Rightarrow> None
      | Some b \<Rightarrow>
          if CHR ''('' \<notin> set b \<or> CHR '')'' \<notin> set b then None
          else
            (let before = takeWhile (\<lambda>c. c \<noteq> CHR ''('') b;
                 tail = rev (takeWhile (\<lambda>c. c \<noteq> CHR '')'') (rev b));
                 op = length before; cl = length b - length tail - 1
             in if cl < op then None
                else (let comm = take (cl - op - 1) (drop (op + 1) b); f = Fields tail
                      in if length f < 5 then None
                         else (case (atoi (f ! 1), atoi (f ! 4)) of
                                 (Some ppid, Some tty) \<Rightarrow> Some (comm, ppid, tty)
                               | _ \<Rightarrow> None))))"

definition LocalConsoleTTY :: "int \<Rightarrow> bool" where
  "LocalConsoleTTY ttyNr =
     (if ttyNr = 0 then False
      else
        (let major = drop_bit 8 ttyNr AND 0xfff;
             minor = (ttyNr AND 0xff) OR (drop_bit 12 ttyNr AND 0xfff00)
         in if major = 4 then 1 \<le> minor
            else if major = 5 then minor = 1
            else major = 229))"

text \<open>The walk through the ancestors: at most 128 hops, and no process twice.\<close>

definition ancestor_text :: "string \<Rightarrow> int \<Rightarrow> string" where
  [text_defs]: "ancestor_text comm pid = ''ancestor process '' @ comm @ '' (pid '' @ itoa pid @ '')''"

fun walk :: "filesys \<Rightarrow> string \<Rightarrow> nat \<Rightarrow> int list \<Rightarrow> int \<Rightarrow> Sess \<Rightarrow> Sess" where
  "walk fs procRoot 0 seen pid s = s"
| "walk fs procRoot (Suc hops) seen pid s =
     (if pid \<le> 0 \<or> pid \<in> set seen then s
      else case procStat fs procRoot pid of
             None \<Rightarrow> s
           | Some (comm, ppid, tty) \<Rightarrow>
               (let s1 = (if comm \<in> set remoteParents
                          then s\<lparr> se_Remote := se_Remote s @ [ancestor_text comm pid] \<rparr> else s);
                    s2 = (if LocalConsoleTTY tty then s1\<lparr> se_Console := True \<rparr> else s1)
                in if pid = 1 then s2 else walk fs procRoot hops (pid # seen) ppid s2))"

definition ssh_vars :: "string list" where
  "ssh_vars = [''SSH_CONNECTION'', ''SSH_CLIENT'', ''SSH_TTY'']"

definition Detect :: "filesys \<Rightarrow> string \<Rightarrow> int \<Rightarrow> (string \<Rightarrow> string) \<Rightarrow> string \<Rightarrow> Sess" where
  "Detect fs procRoot pid getenv stdin =
     walk fs procRoot 128 [] pid
       \<lparr> se_Remote = (case filter (\<lambda>k. getenv k \<noteq> '''') ssh_vars of [] \<Rightarrow> [] | k # ks \<Rightarrow> [k @ '' set'']),
         se_Console = False, se_Stdin = stdin, se_Tmux = '''' \<rparr>"

section \<open>tmux\<close>

definition client_text :: "int \<Rightarrow> string \<Rightarrow> string" where
  [text_defs]: "client_text pid r = ''tmux client pid '' @ itoa pid @ '': '' @ r"

fun judge_clients :: "filesys \<Rightarrow> string \<Rightarrow> int list \<Rightarrow> Sess \<times> bool \<Rightarrow> Sess \<times> bool" where
  "judge_clients fs procRoot [] sa = sa"
| "judge_clients fs procRoot (pid # pids) (s, all) =
     (let c = Detect fs procRoot pid (\<lambda>k. '''') ''''
      in judge_clients fs procRoot pids
           (s\<lparr> se_Remote := se_Remote s @ map (client_text pid) (se_Remote c) \<rparr>, all \<and> se_Console c \<and> se_Remote c = []))"

definition WithTmux :: "filesys \<Rightarrow> string \<Rightarrow> Sess \<Rightarrow> int list \<Rightarrow> Sess" where
  "WithTmux fs procRoot s clients =
     (if clients = [] then s\<lparr> se_Tmux := ''no attached client found'' \<rparr>
      else
        (let (s1, all) = judge_clients fs procRoot clients (s, True)
         in s1\<lparr> se_Console := se_Console s1 \<or> all, se_Tmux := itoa (int (length clients)) @ '' attached client(s)'' \<rparr>))"

text \<open>\<open>detectSession\<close> and \<open>tmuxClients\<close> of src/ectest/cmd/n5-ectest/validate.go: the output of tmux is an argument.\<close>

definition tmuxClients :: "string option \<Rightarrow> int list" where
  "tmuxClients out =
     (case out of None \<Rightarrow> []
      | Some t \<Rightarrow> concat (map (\<lambda>f. case atoi f of Some p \<Rightarrow> if p > 0 then [p] else [] | None \<Rightarrow> []) (Fields t)))"

definition detectSession :: "filesys \<Rightarrow> string \<Rightarrow> int \<Rightarrow> (string \<Rightarrow> string) \<Rightarrow> string \<Rightarrow> string option \<Rightarrow> Sess" where
  "detectSession fs procRoot pid getenv stdin tmux =
     (let s = Detect fs procRoot pid getenv stdin
      in if getenv ''TMUX'' \<noteq> '''' then WithTmux fs procRoot s (tmuxClients tmux) else s)"

text \<open>\<open>StdinTerminal\<close>: whether standard input is a character device, and where its link points.\<close>

definition StdinTerminal :: "bool \<Rightarrow> string option \<Rightarrow> string" where
  "StdinTerminal charDevice link =
     (if \<not> charDevice then ''''
      else case link of
             None \<Rightarrow> ''''
           | Some l \<Rightarrow>
               if has_prefix ''/dev/pts/'' l then ''pts''
               else if has_prefix ''/dev/console'' l then ''console''
               else if has_prefix ''/dev/hvc'' l then ''hvc''
               else if has_prefix ''/dev/tty'' l then ''tty'' else '''')"

section \<open>Facts\<close>

text \<open>The ancestors the walk sees, in order: the specification of the two judgements.\<close>

fun chain :: "filesys \<Rightarrow> string \<Rightarrow> nat \<Rightarrow> int list \<Rightarrow> int \<Rightarrow> (int \<times> string \<times> int) list" where
  "chain fs procRoot 0 seen pid = []"
| "chain fs procRoot (Suc hops) seen pid =
     (if pid \<le> 0 \<or> pid \<in> set seen then []
      else case procStat fs procRoot pid of
             None \<Rightarrow> []
           | Some (comm, ppid, tty) \<Rightarrow>
               (pid, comm, tty) # (if pid = 1 then [] else chain fs procRoot hops (pid # seen) ppid))"

lemma walk_chain:
  "walk fs procRoot n seen pid s =
     s\<lparr> se_Remote := se_Remote s @ map (\<lambda>(p, c, t). ancestor_text c p)
                        (filter (\<lambda>(p, c, t). c \<in> set remoteParents) (chain fs procRoot n seen pid)),
        se_Console := se_Console s \<or> list_ex (\<lambda>(p, c, t). LocalConsoleTTY t) (chain fs procRoot n seen pid) \<rparr>"
  by (induction fs procRoot n seen pid s rule: walk.induct) (auto simp: Let_def split: option.splits)

lemma chain_once:
  "distinct (map fst (chain fs procRoot n seen pid)) \<and> (\<forall>x \<in> set (chain fs procRoot n seen pid). fst x \<notin> set seen)"
  by (induction fs procRoot n seen pid rule: chain.induct) (force split: option.splits)+

lemma Detect_remote:
  "se_Remote (Detect fs procRoot pid getenv stdin) = [] \<longleftrightarrow>
     list_all (\<lambda>k. getenv k = '''') ssh_vars \<and>
     list_all (\<lambda>(p, c, t). c \<notin> set remoteParents) (chain fs procRoot 128 [] pid)"
  by (auto simp: Detect_def walk_chain filter_empty_conv list_all_iff split: list.splits)

lemma Detect_console:
  "se_Console (Detect fs procRoot pid getenv stdin) = list_ex (\<lambda>(p, c, t). LocalConsoleTTY t) (chain fs procRoot 128 [] pid)"
  by (simp add: Detect_def walk_chain)

lemma judge_clients_result:
  "judge_clients fs procRoot pids (s, all) =
     (s\<lparr> se_Remote := se_Remote s @ concat (map (\<lambda>p. map (client_text p) (se_Remote (Detect fs procRoot p (\<lambda>k. '''') ''''))) pids) \<rparr>,
      all \<and> list_all (\<lambda>p. let c = Detect fs procRoot p (\<lambda>k. '''') '''' in se_Console c \<and> se_Remote c = []) pids)"
  by (induction pids arbitrary: s all) (auto simp: Let_def)

end
