(* ===== verification/Boards.thy ===== *)
theory Boards
  imports Identity
begin

text \<open>
  The tool's own board and driver tables: src/ectest/internal/boards/boards.go. A write is allowed
  only when both reasons are empty.
\<close>

definition readonly_text :: "HwIdentity \<Rightarrow> string" where
  [text_defs]: "readonly_text d = ''DMI '' @ fmt_q (hi_Product d) @ ''/'' @ fmt_q (hi_Board d) @
     '' is not an N5-family board (N5 PRO F8NAA/F8NAB, N5 F8NAA, N5A/N5 AIR F8NAB): only identify, diff and report run here''"

definition ReadOnly :: "HwIdentity \<Rightarrow> bool \<times> string" where
  "ReadOnly d =
     (if hi_Product d = ''N5 PRO'' \<and> (hi_Board d = ''F8NAA'' \<or> hi_Board d = ''F8NAB'') then (True, '''')
      else if hi_Product d = ''N5'' \<and> hi_Board d = ''F8NAA'' then (True, '''')
      else if (hi_Product d = ''N5A'' \<or> hi_Product d = ''N5 AIR'') \<and> hi_Board d = ''F8NAB'' then (True, '''')
      else (False, readonly_text d))"

definition PWMExposed :: "filesys \<Rightarrow> State \<Rightarrow> int \<Rightarrow> bool" where
  "PWMExposed fs dr ch =
     (if ds_HwmonPath dr = '''' then False
      else list_all (\<lambda>a. exists_path fs (join_path [ds_HwmonPath dr, a])) [''pwm'' @ itoa ch, ''pwm'' @ itoa ch @ ''_enable''])"

text \<open>The reasons of \<open>WriteGate\<close> in the order the code collects them.\<close>

definition board_why :: "HwIdentity \<Rightarrow> string list" where
  "board_why d =
     (if hi_Product d \<noteq> ''N5 PRO'' \<or> hi_Board d \<noteq> ''F8NAA''
      then [if fst (ReadOnly d)
            then ''DMI '' @ fmt_q (hi_Product d) @ ''/'' @ fmt_q (hi_Board d) @
                 '' is read-only for n5-ectest (writing tests only on N5 PRO/F8NAA)''
            else ''DMI '' @ fmt_q (hi_Product d) @ ''/'' @ fmt_q (hi_Board d) @
                 '' is outside the TESTSPEC scope (writing tests only on N5 PRO/F8NAA)'']
      else [])"

definition vendor_why :: "HwIdentity \<Rightarrow> string list" where
  "vendor_why d =
     (if hi_SysVendor d \<noteq> SysVendor
      then [''DMI sys_vendor '' @ fmt_q (hi_SysVendor d) @ '' is not the measured '' @ fmt_q SysVendor] else [])"

definition driver_why :: "State \<Rightarrow> string list" where
  "driver_why dr =
     (if \<not> ds_Loaded dr then [''driver '' @ ModuleName @ '' not loaded'']
      else if \<not> contains_str ''+sr1'' (ds_Version dr)
      then [''driver version '' @ fmt_q (ds_Version dr) @ '' is not a 0.2.1+sr1 build'']
      else [])"

definition force_why :: "State \<Rightarrow> string list" where
  "force_why dr =
     (if ds_Loaded dr \<and> Param dr ''force'' = '''' then [''module parameter force not readable'']
      else if Forced dr then [''module parameter force=Y (a force-loaded driver never runs writing tests)'']
      else [])"

definition dcr_why :: "DCRInfo \<Rightarrow> string list" where
  "dcr_why d = (if dc_Dump d = '''' then [''duty registers not readable ('' @ dc_Error d @ '')''] else [])"

definition container_why :: "string \<Rightarrow> string \<Rightarrow> string list" where
  "container_why c ev =
     (if c = '''' then []
      else if c = ''unknown'' then [''container state unknown ('' @ ev @ '')'']
      else [''running in a container ('' @ c @ '', '' @ ev @ '')''])"

definition pwm_reason :: "filesys \<Rightarrow> State \<Rightarrow> int \<Rightarrow> string" where
  "pwm_reason fs dr ch =
     (if PWMExposed fs dr ch then ''''
      else ''pwm'' @ itoa ch @ ''/pwm'' @ itoa ch @ ''_enable not present'' @
           (if Findings dr \<noteq> [] then '' ('' @ joins ''; '' (Findings dr) @ '')''
            else if ds_HwmonPath dr = '''' then '' (no hwmon device of '' @ ModuleName @ '')'' else ''''))"

definition WriteGate :: "filesys \<Rightarrow> Machine \<Rightarrow> int \<Rightarrow> string \<times> string" where
  "WriteGate fs i ch =
     (let d = id_DMI i; dr = id_Driver i;
          why = board_why d @ vendor_why d @ driver_why dr @ force_why dr @ dcr_why (id_DCR i) @
                container_why (id_Container i) (id_ContainerEvidence i)
      in (joins ''; '' why, pwm_reason fs dr ch))"

section \<open>Facts\<close>

lemma joins_empty: "list_all (\<lambda>x. x \<noteq> '''') xs \<Longrightarrow> joins sep xs = '''' \<longleftrightarrow> xs = []"
  by (induction sep xs rule: joins.induct) auto

lemma why_texts:
  "list_all (\<lambda>x. x \<noteq> '''') (board_why d)" "list_all (\<lambda>x. x \<noteq> '''') (vendor_why d)"
  "list_all (\<lambda>x. x \<noteq> '''') (driver_why s)" "list_all (\<lambda>x. x \<noteq> '''') (force_why s)"
  "list_all (\<lambda>x. x \<noteq> '''') (dcr_why c)" "list_all (\<lambda>x. x \<noteq> '''') (container_why k ev)"
  by (simp_all add: board_why_def vendor_why_def driver_why_def force_why_def dcr_why_def container_why_def)

text \<open>The machine and driver on which writing tests run.\<close>

definition measured_machine :: "Machine \<Rightarrow> bool" where
  "measured_machine i \<longleftrightarrow>
     hi_Product (id_DMI i) = ''N5 PRO'' \<and> hi_Board (id_DMI i) = ''F8NAA'' \<and> hi_SysVendor (id_DMI i) = SysVendor \<and>
     ds_Loaded (id_Driver i) \<and> contains_str ''+sr1'' (ds_Version (id_Driver i)) \<and>
     Param (id_Driver i) ''force'' \<notin> {'''', ''Y'', ''y'', ''1''} \<and> dc_Dump (id_DCR i) \<noteq> '''' \<and> id_Container i = ''''"

lemma WriteGate_board: "fst (WriteGate fs i ch) = '''' \<longleftrightarrow> measured_machine i"
proof -
  have "fst (WriteGate fs i ch) = '''' \<longleftrightarrow>
      board_why (id_DMI i) @ vendor_why (id_DMI i) @ driver_why (id_Driver i) @ force_why (id_Driver i) @
      dcr_why (id_DCR i) @ container_why (id_Container i) (id_ContainerEvidence i) = []"
    unfolding WriteGate_def Let_def fst_conv by (rule joins_empty) (simp add: why_texts)
  also have "\<dots> \<longleftrightarrow> measured_machine i"
    by (auto simp: board_why_def vendor_why_def driver_why_def force_why_def dcr_why_def container_why_def
        measured_machine_def Forced_def yes_def)
  finally show ?thesis .
qed

lemma WriteGate_pwm:
  "snd (WriteGate fs i ch) = '''' \<longleftrightarrow>
     ds_HwmonPath (id_Driver i) \<noteq> '''' \<and> exists_path fs (join_path [ds_HwmonPath (id_Driver i), ''pwm'' @ itoa ch]) \<and>
     exists_path fs (join_path [ds_HwmonPath (id_Driver i), ''pwm'' @ itoa ch @ ''_enable''])"
  by (simp add: WriteGate_def Let_def pwm_reason_def PWMExposed_def)

end
