(* ===== verification/Redact.thy ===== *)
theory Redact
  imports Identity Decimal
begin

text \<open>
  The redaction of everything the tool stores: src/go/n5/identity/redact.go. The regular
  expressions are values of a datatype with the matching of package regexp: leftmost, and among the
  matches at one place the one a backtracking search finds first. Texts are byte strings; the
  expressions only name ASCII characters, so a byte of a longer UTF-8 sequence is a character of
  none of their positive classes (the case folding of two non-ASCII letters onto s and k is left out).
\<close>

section \<open>Regular expressions\<close>

datatype rx =
    Cls "char \<Rightarrow> bool"
  | Edge
  | Eps
  | Cat rx rx
  | Alt rx rx
  | Star rx
  | Group nat rx

text \<open>The character before, the rest of the text, the groups captured so far.\<close>

type_synonym mstate = "char option \<times> string \<times> (nat \<times> string) list"

definition between :: "char \<Rightarrow> char \<Rightarrow> char \<Rightarrow> bool" where
  "between a b c \<longleftrightarrow> (of_char a :: nat) \<le> of_char c \<and> (of_char c :: nat) \<le> of_char b"

definition word_char :: "char \<Rightarrow> bool" where
  "word_char c \<longleftrightarrow> between (CHR ''0'') (CHR ''9'') c \<or> between (CHR ''A'') (CHR ''Z'') c \<or>
     between (CHR ''a'') (CHR ''z'') c \<or> c = CHR ''_''"

definition edge :: "char option \<Rightarrow> string \<Rightarrow> bool" where
  "edge p s \<longleftrightarrow> (case p of None \<Rightarrow> False | Some c \<Rightarrow> word_char c) \<noteq> (case s of [] \<Rightarrow> False | c # cs \<Rightarrow> word_char c)"

text \<open>A greedy repetition: more rounds come first; a round that consumes nothing ends it.\<close>

fun rounds :: "nat \<Rightarrow> (mstate \<Rightarrow> mstate list) \<Rightarrow> mstate \<Rightarrow> mstate list" where
  "rounds 0 f st = [st]"
| "rounds (Suc n) f st =
     concat (map (\<lambda>st'. if length (fst (snd st')) < length (fst (snd st)) then rounds n f st' else []) (f st)) @ [st]"

fun matches :: "rx \<Rightarrow> mstate \<Rightarrow> mstate list" where
  "matches (Cls P) (p, s, g) = (case s of [] \<Rightarrow> [] | c # cs \<Rightarrow> if P c then [(Some c, cs, g)] else [])"
| "matches Edge (p, s, g) = (if edge p s then [(p, s, g)] else [])"
| "matches Eps st = [st]"
| "matches (Cat a b) st = concat (map (matches b) (matches a st))"
| "matches (Alt a b) st = matches a st @ matches b st"
| "matches (Star a) (p, s, g) = rounds (length s) (matches a) (p, s, g)"
| "matches (Group i a) (p, s, g) =
     map (\<lambda>(p', s', g'). (p', s', (i, take (length s - length s') s) # g')) (matches a (p, s, g))"

definition Opt :: "rx \<Rightarrow> rx" where "Opt a = Alt a Eps"
definition Plus :: "rx \<Rightarrow> rx" where "Plus a = Cat a (Star a)"
fun Seq :: "rx list \<Rightarrow> rx" where
  "Seq [] = Eps"
| "Seq [a] = a"
| "Seq (a # b # rs) = Cat a (Seq (b # rs))"
fun Alts :: "rx list \<Rightarrow> rx" where
  "Alts [] = Cls (\<lambda>c. False)"
| "Alts [a] = a"
| "Alts (a # b # rs) = Alt a (Alts (b # rs))"
fun Exactly :: "nat \<Rightarrow> rx \<Rightarrow> rx" where
  "Exactly 0 a = Eps"
| "Exactly (Suc n) a = Cat a (Exactly n a)"
fun UpTo :: "nat \<Rightarrow> rx \<Rightarrow> rx" where
  "UpTo 0 a = Eps"
| "UpTo (Suc n) a = Opt (Cat a (UpTo n a))"
definition Lit :: "string \<Rightarrow> rx" where "Lit s = Seq (map (\<lambda>c. Cls (\<lambda>x. x = c)) s)"
definition LitI :: "string \<Rightarrow> rx" where "LitI s = Seq (map (\<lambda>c. Cls (\<lambda>x. lower_char x = c)) s)"
definition Range :: "char \<Rightarrow> char \<Rightarrow> rx" where "Range a b = Cls (between a b)"

text \<open>
  \<open>ReplaceAllStringFunc\<close>: the leftmost matches from left to right, none overlapping; the
  replacement sees the match and its groups. An expression that matches the empty text is not used
  by the source: such a match is passed over here.
\<close>

fun group :: "nat \<Rightarrow> (nat \<times> string) list \<Rightarrow> string" where
  "group i g = (case map_of g i of None \<Rightarrow> '''' | Some s \<Rightarrow> s)"

function replace_all :: "rx \<Rightarrow> (string \<Rightarrow> (nat \<times> string) list \<Rightarrow> string) \<Rightarrow> char option \<Rightarrow> string \<Rightarrow> string" where
  "replace_all r f p [] = []"
| "replace_all r f p (c # cs) =
     (case matches r (p, c # cs, []) of
        (p', s', g) # ms \<Rightarrow>
          if length s' < length (c # cs)
          then f (take (length (c # cs) - length s') (c # cs)) g @ replace_all r f p' s'
          else c # replace_all r f (Some c) cs
      | [] \<Rightarrow> c # replace_all r f (Some c) cs)"
  by pat_completeness auto
termination by (relation "measure (\<lambda>(r, f, p, s). length s)") auto

definition ReplaceAll :: "rx \<Rightarrow> (string \<Rightarrow> (nat \<times> string) list \<Rightarrow> string) \<Rightarrow> string \<Rightarrow> string" where
  "ReplaceAll r f s = replace_all r f None s"

section \<open>The expressions of the source\<close>

definition hex_char :: "char \<Rightarrow> bool" where
  "hex_char c \<longleftrightarrow> between (CHR ''0'') (CHR ''9'') c \<or> between (CHR ''A'') (CHR ''F'') c \<or> between (CHR ''a'') (CHR ''f'') c"

definition alnum :: "char \<Rightarrow> bool" where
  "alnum c \<longleftrightarrow> between (CHR ''0'') (CHR ''9'') c \<or> between (CHR ''A'') (CHR ''Z'') c \<or> between (CHR ''a'') (CHR ''z'') c"

definition alpha :: "char \<Rightarrow> bool" where
  "alpha c \<longleftrightarrow> between (CHR ''A'') (CHR ''Z'') c \<or> between (CHR ''a'') (CHR ''z'') c"

definition blank_char :: "char \<Rightarrow> bool" where
  "blank_char c \<longleftrightarrow> c \<in> {CHR '' '', CHR 0x09, CHR 0x0A, CHR 0x0C, CHR 0x0D}"

definition macRe :: rx where
  "macRe = Seq [Edge, Exactly 2 (Cls hex_char),
                Exactly 5 (Seq [Cls (\<lambda>c. c = CHR '':'' \<or> c = CHR ''-''), Exactly 2 (Cls hex_char)]), Edge]"

definition octet :: rx where
  "octet = Alts [Seq [Lit ''25'', Range (CHR ''0'') (CHR ''5'')],
                 Seq [Lit ''2'', Range (CHR ''0'') (CHR ''4''), Range (CHR ''0'') (CHR ''9'')],
                 Seq [Lit ''1'', Range (CHR ''0'') (CHR ''9''), Range (CHR ''0'') (CHR ''9'')],
                 Seq [Opt (Range (CHR ''1'') (CHR ''9'')), Range (CHR ''0'') (CHR ''9'')]]"

definition ipv4Re :: rx where
  "ipv4Re = Seq [Edge, octet, Exactly 3 (Seq [Lit ''.'', octet]), Edge]"

definition ipv6Re :: rx where
  "ipv6Re =
     (let h = UpTo 4 (Cls hex_char); more = Seq [Lit '':'', h]
      in Seq [h, Exactly 2 more, UpTo 5 more,
              Opt (Seq [Lit ''%'', Plus (Cls (\<lambda>c. alnum c \<or> c \<in> {CHR ''_'', CHR ''.'', CHR ''-''}))])])"

definition serial_word :: rx where
  "serial_word =
     Alts [Seq [LitI ''serial'',
                Opt (Seq [Opt (Cls (\<lambda>c. c \<in> {CHR '' '', CHR ''_'', CHR ''-''})),
                          Alt (LitI ''number'') (Seq [LitI ''no'', Opt (Lit ''.'')])])],
           LitI ''s/n'', LitI ''sn'']"

definition serialRe :: rx where
  "serialRe =
     Seq [Edge, Group 1 serial_word,
          Group 2 (Seq [Star (Cls blank_char), Cls (\<lambda>c. c = CHR '':'' \<or> c = CHR ''=''), Star (Cls blank_char)]),
          Group 3 (let v = Cls (\<lambda>c. alnum c \<or> c \<in> {CHR ''.'', CHR ''_'', CHR ''-''}) in Seq [Exactly 4 v, Star v])]"

definition homeRe :: rx where
  "homeRe = Seq [Lit ''/home/'', Plus (Cls (\<lambda>c. c \<noteq> CHR ''/'' \<and> \<not> blank_char c \<and> c \<noteq> quote_char \<and> c \<noteq> CHR 0x27))]"

definition mailRe :: rx where
  "mailRe =
     (let d = Cls (\<lambda>c. alnum c \<or> c = CHR ''-'')
      in Seq [Plus (Cls (\<lambda>c. alnum c \<or> c \<in> {CHR ''.'', CHR ''_'', CHR ''%'', CHR ''+'', CHR ''-''})), Lit ''@'', Plus d,
              Star (Seq [Lit ''.'', Plus d]), Lit ''.'',
              Group 1 (Seq [Exactly 2 (Cls alpha), Star (Cls alpha)]), Edge])"

definition unitSuffix :: "string list" where
  [text_defs]: "unitSuffix = [''service'', ''timer'', ''socket'', ''mount'', ''target'', ''path'', ''slice'', ''scope'',
     ''device'', ''swap'', ''automount'']"

section \<open>IPv6 addresses\<close>

text \<open>
  \<open>net.ParseIP\<close> of a text of hexadecimal digits and colons with at least one colon: the number of
  groups read, whether \<open>::\<close> was seen, the rest.
\<close>

function ip6_loop :: "nat \<Rightarrow> bool \<Rightarrow> string \<Rightarrow> bool" where
  "ip6_loop n el s =
     (if 8 \<le> n then s = [] \<and> \<not> el
      else
        (let d = takeWhile hex_char s; r = dropWhile hex_char s
         in if d = [] \<or> 4 < length d then False
            else case r of
                   [] \<Rightarrow> if n + 1 < 8 then el else \<not> el
                 | c # r1 \<Rightarrow>
                     if c \<noteq> CHR '':'' then False
                     else (case r1 of
                             [] \<Rightarrow> False
                           | c2 # r2 \<Rightarrow>
                               if c2 \<noteq> CHR '':'' then ip6_loop (n + 1) el r1
                               else if el then False
                               else if r2 = [] then n + 1 < 8
                               else ip6_loop (n + 1) True r2)))"
  by pat_completeness auto
termination
proof (relation "measure (\<lambda>(n, el, s). length s)", goal_cases)
  case (2 n el s d r c r1 c2 r2)
  have "length (c # c2 # r2) \<le> length s" using 2 by (metis length_dropWhile_le)
  then show ?case using 2 by simp
next
  case (3 n el s d r c r1 c2 r2)
  have "length (c # c2 # r2) \<le> length s" using 3 by (metis length_dropWhile_le)
  then show ?case using 3 by simp
qed simp

declare ip6_loop.simps [simp del]

definition ParseIP6 :: "string \<Rightarrow> bool" where
  "ParseIP6 s =
     (if has_prefix ''::'' s then (if length s = 2 then True else ip6_loop 0 True (drop 2 s))
      else ip6_loop 0 False s)"

definition ipv6_replacement :: "string \<Rightarrow> string" where
  "ipv6_replacement m =
     (let host = takeWhile (\<lambda>c. c \<noteq> CHR ''%'') m
      in if \<not> ParseIP6 host then m
         else if \<not> contains_str ''::'' host \<and> length (filter (\<lambda>c. c = CHR '':'') host) \<noteq> 7 then m
         else ''[ipv6]'')"

definition mail_replacement :: "string \<Rightarrow> (nat \<times> string) list \<Rightarrow> string" where
  "mail_replacement m g = (if map lower_char (group 1 g) \<in> set unitSuffix then m else ''[mail]'')"

section \<open>The redactor\<close>

record Redactor =
  rd_hosts :: "string list"
  rd_protected :: "string list"

definition HostPlaceholder :: string where "HostPlaceholder = ''n5host''"

text \<open>\<open>sort.Slice\<close> by length, longest first (stable, as the insertion sort of short slices is).\<close>

definition longest_first :: "string list \<Rightarrow> string list" where
  "longest_first xs = sort_key (\<lambda>s. - int (length s)) xs"

definition Protect :: "Redactor \<Rightarrow> string list \<Rightarrow> Redactor" where
  "Protect r vals =
     r\<lparr> rd_protected := longest_first (rd_protected r @ filter (\<lambda>v. v \<noteq> '''') (map trim_space vals)) \<rparr>"

definition identity_values :: "string \<Rightarrow> string \<Rightarrow> string \<Rightarrow> string \<Rightarrow> string \<Rightarrow> HwIdentity \<Rightarrow> string list" where
  "identity_values krel kversion os dkms driver d =
     [krel, kversion, os, dkms, driver, hi_Product d, hi_Board d, hi_BoardVersion d, hi_SysVendor d, hi_BIOS d,
      hi_BIOSDate d, hi_BIOSRelease d, hi_EC d]"

definition ProtectIdentity :: "Redactor \<Rightarrow> Machine \<Rightarrow> Redactor" where
  "ProtectIdentity r i =
     Protect r (identity_values (id_Kernel i) (id_KernelVersion i) (os_ID (id_OS i)) (id_DKMSPackage i)
                  (ds_Version (id_Driver i)) (id_DMI i))"

fun add_hosts :: "string list \<Rightarrow> string list \<Rightarrow> string list" where
  "add_hosts [] seen = seen"
| "add_hosts (n # ns) seen =
     (let n' = trim_space n
      in if length n' < 3 \<or> n' \<in> set seen \<or> n' = HostPlaceholder then add_hosts ns seen
         else add_hosts ns (seen @ [n']))"

definition host_candidates :: "filesys \<Rightarrow> string \<Rightarrow> string list \<Rightarrow> string option \<Rightarrow> string list" where
  "host_candidates fs procRoot extra hostname =
     extra @ (case hostname of None \<Rightarrow> [] | Some h \<Rightarrow> [h]) @
     (if procRoot \<noteq> '''' then [readTrim fs (procRoot @ ''/sys/kernel/hostname'')] else [])"

definition NewRedactor :: "filesys \<Rightarrow> string \<Rightarrow> string list \<Rightarrow> string option \<Rightarrow> Redactor" where
  "NewRedactor fs procRoot extra hostname =
     \<lparr> rd_hosts = longest_first
         (add_hosts (concat (map (\<lambda>h. [h, takeWhile (\<lambda>c. c \<noteq> CHR ''.'') h]) (host_candidates fs procRoot extra hostname))) []),
       rd_protected = [] \<rparr>"

text \<open>\<open>newRedactor\<close> of src/ectest/cmd/n5-ectest/common.go.\<close>

definition newRedactor :: "filesys \<Rightarrow> Roots \<Rightarrow> string option \<Rightarrow> Redactor" where
  "newRedactor fs r hostname =
     (let proc = (\<lambda>rel. readTrim fs (join_path (ro_Proc r # rel)))
      in Protect (NewRedactor fs (ro_Proc r) [] hostname)
           (identity_values (proc [''sys'', ''kernel'', ''osrelease'']) (proc [''sys'', ''kernel'', ''version'']) '''' ''''
              (readTrim fs (join_path [ro_Sys r, ''module'', ModuleName, ''version''])) (ReadIdentity fs (ro_Sys r))))"

text \<open>\<open>strings.ReplaceAll\<close> of a text that is not empty.\<close>

function replace_text :: "string \<Rightarrow> string \<Rightarrow> string \<Rightarrow> string" where
  "replace_text old new [] = []"
| "replace_text old new (c # cs) =
     (if old \<noteq> [] \<and> has_prefix old (c # cs) then new @ replace_text old new (drop (length old) (c # cs))
      else c # replace_text old new cs)"
  by pat_completeness auto
termination by (relation "measure (\<lambda>(old, new, s). length s)") (auto simp: neq_Nil_conv)

definition mask_of :: "nat \<Rightarrow> string" where
  "mask_of i = [CHR 0x00] @ itoa (int i) @ [CHR 0x00]"

fun mask_loop :: "string list \<Rightarrow> nat \<Rightarrow> string list \<Rightarrow> string \<times> (string \<times> string) list \<Rightarrow> string \<times> (string \<times> string) list" where
  "mask_loop hosts i [] sm = sm"
| "mask_loop hosts i (p # ps) (s, masks) =
     (if \<not> list_ex (\<lambda>h. contains_str h p) hosts \<or> \<not> contains_str p s then mask_loop hosts (i + 1) ps (s, masks)
      else mask_loop hosts (i + 1) ps (replace_text p (mask_of i) s, masks @ [(mask_of i, p)]))"

definition redact_hosts :: "Redactor \<Rightarrow> string \<Rightarrow> string" where
  "redact_hosts r s =
     (if rd_hosts r = [] then s
      else
        (let (s1, masks) = mask_loop (rd_hosts r) 0 (rd_protected r) (s, []);
             s2 = fold (\<lambda>h t. replace_text h HostPlaceholder t) (rd_hosts r) s1
         in fold (\<lambda>(m, p) t. replace_text m p t) masks s2))"

definition redact_mac :: "string \<Rightarrow> string" where
  "redact_mac = ReplaceAll macRe (\<lambda>m g. ''[mac]'')"

definition redact_serial :: "string \<Rightarrow> string" where
  "redact_serial = ReplaceAll serialRe (\<lambda>m g. group 1 g @ group 2 g @ ''[serial]'')"

definition Redactor_String :: "Redactor \<Rightarrow> string \<Rightarrow> string" where
  "Redactor_String r s =
     (let s1 = redact_mac (redact_hosts r s);
          s2 = ReplaceAll ipv6Re (\<lambda>m g. ipv6_replacement m) s1;
          s3 = ReplaceAll ipv4Re (\<lambda>m g. ''[ipv4]'') s2;
          s4 = redact_serial s3;
          s5 = ReplaceAll homeRe (\<lambda>m g. ''/home/[user]'') s4
      in ReplaceAll mailRe mail_replacement s5)"

section \<open>What a match is\<close>

text \<open>
  The texts an expression describes, without the boundary conditions: every match is one of them.
\<close>

fun lang :: "rx \<Rightarrow> string set" where
  "lang (Cls P) = {[c] | c. P c}"
| "lang Edge = {[]}"
| "lang Eps = {[]}"
| "lang (Cat a b) = {u @ v | u v. u \<in> lang a \<and> v \<in> lang b}"
| "lang (Alt a b) = lang a \<union> lang b"
| "lang (Star a) = {concat us | us. set us \<subseteq> lang a}"
| "lang (Group i a) = lang a"

lemma rounds_sound:
  assumes f: "\<And>st st'. st' \<in> set (f st) \<Longrightarrow> \<exists>u. fst (snd st) = u @ fst (snd st') \<and> u \<in> L"
  shows "st' \<in> set (rounds n f st) \<Longrightarrow> \<exists>us. fst (snd st) = concat us @ fst (snd st') \<and> set us \<subseteq> L"
proof (induction n arbitrary: st)
  case (Suc n)
  from Suc.prems consider "st' = st" | q where "q \<in> set (f st)" "st' \<in> set (rounds n f q)"
    by (auto split: if_splits)
  then show ?case
  proof cases
    case 1
    then show ?thesis by (intro exI [of _ "[]"]) simp
  next
    case 2
    then obtain u us where "fst (snd st) = u @ fst (snd q)" "u \<in> L" "fst (snd q) = concat us @ fst (snd st')" "set us \<subseteq> L"
      using f Suc.IH by meson
    then show ?thesis by (intro exI [of _ "u # us"]) simp
  qed
qed (auto intro: exI [of _ "[]"])

lemma matches_sound:
  "st' \<in> set (matches r st) \<Longrightarrow> \<exists>u. fst (snd st) = u @ fst (snd st') \<and> u \<in> lang r"
proof (induction r arbitrary: st st')
  case (Cls P)
  obtain p s g where "st = (p, s, g)" by (metis prod_cases3)
  with Cls show ?case by (cases s) (auto split: if_splits)
next
  case Edge
  obtain p s g where "st = (p, s, g)" by (metis prod_cases3)
  with Edge show ?case by (auto split: if_splits)
next
  case (Cat a b)
  from Cat.prems obtain q where "q \<in> set (matches a st)" "st' \<in> set (matches b q)" by auto
  with Cat.IH obtain u v where "fst (snd st) = u @ fst (snd q)" "u \<in> lang a" "fst (snd q) = v @ fst (snd st')" "v \<in> lang b"
    by meson
  then show ?case by (intro exI [of _ "u @ v"]) auto
next
  case (Star a)
  obtain p s g where st: "st = (p, s, g)" by (metis prod_cases3)
  have "\<exists>us. fst (snd st) = concat us @ fst (snd st') \<and> set us \<subseteq> lang a"
    using Star st by (intro rounds_sound [of "matches a"]) auto
  then show ?case by auto
next
  case (Group i a)
  obtain p s g where st: "st = (p, s, g)" by (metis prod_cases3)
  with Group.prems obtain q where "q \<in> set (matches a st)" "fst (snd st') = fst (snd q)" by auto
  with Group.IH show ?case using st by fastforce
next
  case (Alt a b)
  from Alt.prems consider "st' \<in> set (matches a st)" | "st' \<in> set (matches b st)" by auto
  then show ?case
  proof cases
    case 1
    then show ?thesis using Alt.IH(1) [OF 1] by auto
  next
    case 2
    then show ?thesis using Alt.IH(2) [OF 2] by auto
  qed
qed simp

text \<open>An expression none of whose texts occurs in a text leaves it as it is.\<close>

lemma replace_all_kept:
  assumes "\<And>u g. u \<in> lang r \<Longrightarrow> u \<noteq> [] \<Longrightarrow> contains_str u s \<Longrightarrow> f u g = u"
  shows "replace_all r f p s = s"
  using assms
proof (induction "length s" arbitrary: s p rule: less_induct)
  case less
  have sub: "replace_all r f q t = t" if "s = a @ t" "a \<noteq> []" for a t q
  proof (rule less.hyps)
    show "length t < length s" using that by simp
    show "f u g = u" if "u \<in> lang r" "u \<noteq> []" "contains_str u t" for u g
      using less.prems [OF that(1,2)] that(3) \<open>s = a @ t\<close> by (metis append_assoc contains_str_iff)
  qed
  show ?case
  proof (cases s)
    case s: (Cons c cs)
    have skip: "replace_all r f (Some c) cs = cs" using sub [of "[c]" cs] s by simp
    show ?thesis
    proof (cases "matches r (p, s, [])")
      case Nil
      then show ?thesis using skip s by simp
    next
      case (Cons m ms)
      obtain p' s' g where m: "m = (p', s', g)" by (metis prod_cases3)
      then obtain u where u: "s = u @ s'" "u \<in> lang r"
        using matches_sound [of m r "(p, s, [])"] Cons by auto
      show ?thesis
      proof (cases "length s' < length s")
        case True
        then have ne: "u \<noteq> []" using u by auto
        have "f u g = u" using less.prems [OF u(2) ne] u(1) by (metis append_Nil contains_str_iff)
        moreover have "take (length s - length s') s = u" using u(1) by simp
        ultimately show ?thesis using Cons m True s u(1) sub [OF u(1) ne] by simp
      qed (use skip Cons m s in simp)
    qed
  qed simp
qed

section \<open>Texts the redaction does not touch\<close>

definition count_in :: "(char \<Rightarrow> bool) \<Rightarrow> string \<Rightarrow> nat" where
  "count_in P s = length (filter P s)"

lemma count_in_simps [simp]:
  "count_in P [] = 0" "count_in P (c # s) = (if P c then 1 else 0) + count_in P s"
  "count_in P (s @ t) = count_in P s + count_in P t"
  by (simp_all add: count_in_def)

lemma count_in_mono: "contains_str u s \<Longrightarrow> count_in P u \<le> count_in P s"
  by (auto simp: contains_str_iff count_in_def)

lemma contains_trans: "contains_str u v \<Longrightarrow> contains_str v s \<Longrightarrow> contains_str u s"
  by (clarsimp simp: contains_str_iff) (metis append.assoc)

definition mac_sep :: "char \<Rightarrow> bool" where
  "mac_sep c \<longleftrightarrow> c = CHR '':'' \<or> c = CHR ''-''"

text \<open>
  A text without the marks of an address, a serial number, a home directory or a mail address, and
  without a name of the host: what the tool writes itself.
\<close>

definition plain_text :: "Redactor \<Rightarrow> string \<Rightarrow> bool" where
  "plain_text r s \<longleftrightarrow>
     \<not> list_ex (\<lambda>h. contains_str h s) (rd_hosts r) \<and> count_in mac_sep s < 5 \<and> \<not> contains_str ''::'' s \<and>
     count_in (\<lambda>c. c = CHR ''.'') s < 3 \<and> CHR ''@'' \<notin> set s \<and> \<not> contains_str ''/home/'' s \<and>
     \<not> list_ex (\<lambda>w. contains_str w (map lower_char s)) [''serial'', ''s/n'', ''sn'']"

lemma replace_text_kept: "\<not> contains_str old s \<Longrightarrow> replace_text old new s = s"
  by (induction old new s rule: replace_text.induct) (auto simp: has_prefix_def)

lemma mask_loop_kept:
  "\<not> list_ex (\<lambda>h. contains_str h s) hosts \<Longrightarrow> mask_loop hosts i ps (s, ms) = (s, ms)"
  by (induction hosts i ps "(s, ms)" rule: mask_loop.induct) (auto simp: list_ex_iff dest: contains_trans)

lemma redact_hosts_kept:
  assumes "\<not> list_ex (\<lambda>h. contains_str h s) (rd_hosts r)"
  shows "redact_hosts r s = s"
proof -
  have "fold (\<lambda>h t. replace_text h HostPlaceholder t) hs s = s" if "\<not> list_ex (\<lambda>h. contains_str h s) hs" for hs
    using that by (induction hs) (simp_all add: replace_text_kept)
  with assms show ?thesis by (simp add: redact_hosts_def mask_loop_kept)
qed

lemmas lang_simps = Plus_def Opt_def Lit_def LitI_def Range_def numeral_eq_Suc

lemma lang_mac: "u \<in> lang macRe \<Longrightarrow> 5 \<le> count_in mac_sep u"
  by (auto simp: macRe_def lang_simps mac_sep_def)

lemma lang_ipv4: "u \<in> lang ipv4Re \<Longrightarrow> 3 \<le> count_in (\<lambda>c. c = CHR ''.'') u"
  by (auto simp: ipv4Re_def lang_simps)

lemma lang_home: "u \<in> lang homeRe \<Longrightarrow> contains_str ''/home/'' u"
  by (auto simp: homeRe_def lang_simps has_prefix_def)

lemma lang_mail: "u \<in> lang mailRe \<Longrightarrow> CHR ''@'' \<in> set u"
  by (auto simp: mailRe_def lang_simps Let_def)

lemma lang_LitI: "u \<in> lang (LitI w) \<Longrightarrow> map lower_char u = w"
proof (induction w arbitrary: u)
  case (Cons c w)
  then show ?case by (cases w) (auto simp: LitI_def)
qed (simp add: LitI_def)

lemma lang_serial_word:
  assumes "g \<in> lang serial_word"
  shows "\<exists>w v t. g = w @ t \<and> w \<in> lang (LitI v) \<and> v \<in> {''serial'', ''s/n'', ''sn''}"
proof -
  from assms consider a b where "g = a @ b" "a \<in> lang (LitI ''serial'')"
    | "g \<in> lang (LitI ''s/n'')" | "g \<in> lang (LitI ''sn'')"
    unfolding serial_word_def Seq.simps Alts.simps lang.simps by blast
  then show ?thesis by cases (blast intro: append_Nil2 [symmetric])+
qed

lemma lang_serial:
  assumes "u \<in> lang serialRe"
  shows "list_ex (\<lambda>w. contains_str w (map lower_char u)) [''serial'', ''s/n'', ''sn'']"
proof -
  obtain g t where g: "u = g @ t" "g \<in> lang serial_word" using assms by (auto simp: serialRe_def)
  then obtain w v t' where w: "u = w @ t'" "w \<in> lang (LitI v)" "v \<in> {''serial'', ''s/n'', ''sn''}"
    using lang_serial_word [OF g(2)] by (metis append_assoc)
  have "contains_str v (map lower_char u)"
    unfolding contains_str_iff w(1) map_append lang_LitI [OF w(2)] by (metis append_Nil)
  with w(3) show ?thesis by (auto simp del: contains_str.simps)
qed

lemma ipv6_kept:
  assumes "contains_str u s" "count_in mac_sep s < 5" "\<not> contains_str ''::'' s"
  shows "ipv6_replacement u = u"
proof -
  let ?h = "takeWhile (\<lambda>c. c \<noteq> CHR ''%'') u"
  have h: "contains_str ?h u" unfolding contains_str_iff by (metis append_Nil takeWhile_dropWhile_id)
  have "count_in (\<lambda>c. c = CHR '':'') ?h \<le> count_in mac_sep ?h"
    by (induction u) (auto simp: count_in_def mac_sep_def)
  also have "\<dots> < 5" using count_in_mono [OF contains_trans [OF h assms(1)], of mac_sep] assms(2) by simp
  finally have "length (filter (\<lambda>c. c = CHR '':'') ?h) \<noteq> 7" by (simp add: count_in_def)
  moreover have "\<not> contains_str ''::'' ?h" using assms(1,3) h contains_trans by blast
  ultimately show ?thesis by (simp add: ipv6_replacement_def Let_def)
qed

lemma redaction_kept:
  assumes p: "plain_text r s"
  shows "Redactor_String r s = s"
proof -
  have no: "u \<notin> lang macRe" "u \<notin> lang ipv4Re" "u \<notin> lang homeRe" "u \<notin> lang mailRe" "u \<notin> lang serialRe"
    if u: "contains_str u s" for u
  proof -
    show "u \<notin> lang macRe" using lang_mac [of u] count_in_mono [OF u, of mac_sep] p by (auto simp: plain_text_def)
    show "u \<notin> lang ipv4Re" using lang_ipv4 [of u] count_in_mono [OF u, of "\<lambda>c. c = CHR ''.''"] p
      by (auto simp: plain_text_def)
    show "u \<notin> lang homeRe" using lang_home [of u] contains_trans [OF _ u] p unfolding plain_text_def by blast
    show "u \<notin> lang mailRe" using lang_mail [of u] u p by (auto simp: plain_text_def contains_str_iff)
    have "contains_str (map lower_char u) (map lower_char s)" using u by (force simp: contains_str_iff)
    then show "u \<notin> lang serialRe" using lang_serial [of u] p contains_trans [of _ "map lower_char u"]
      unfolding plain_text_def list_ex_iff by blast
  qed
  have k: "ReplaceAll e f s = s" if "\<And>u g. contains_str u s \<Longrightarrow> u \<notin> lang e" for e f
    unfolding ReplaceAll_def by (rule replace_all_kept) (use that in blast)
  have v6: "ReplaceAll ipv6Re (\<lambda>m g. ipv6_replacement m) s = s"
    unfolding ReplaceAll_def by (rule replace_all_kept) (use p ipv6_kept in \<open>auto simp: plain_text_def\<close>)
  have h: "redact_hosts r s = s" using p by (simp add: redact_hosts_kept plain_text_def)
  show ?thesis
    by (simp add: Redactor_String_def redact_mac_def redact_serial_def h v6 k no)
qed

section \<open>No MAC address is left\<close>

text \<open>Whether an expression matches anywhere in a text; \<open>p\<close> is the character before it.\<close>

fun has_match :: "rx \<Rightarrow> char option \<Rightarrow> string \<Rightarrow> bool" where
  "has_match r p [] \<longleftrightarrow> matches r (p, [], []) \<noteq> []"
| "has_match r p (c # cs) \<longleftrightarrow> matches r (p, c # cs, []) \<noteq> [] \<or> has_match r (Some c) cs"

fun fits :: "(char \<Rightarrow> bool) list \<Rightarrow> string \<Rightarrow> bool" where
  "fits [] s \<longleftrightarrow> True"
| "fits (P # Ps) [] \<longleftrightarrow> False"
| "fits (P # Ps) (c # cs) \<longleftrightarrow> P c \<and> fits Ps cs"

definition mac_shape :: "(char \<Rightarrow> bool) list" where
  "mac_shape = [hex_char, hex_char] @ concat (replicate 5 [mac_sep, hex_char, hex_char])"

definition mac_at :: "char option \<Rightarrow> string \<Rightarrow> bool" where
  "mac_at p s \<longleftrightarrow> edge p s \<and> fits mac_shape s \<and> edge (Some (s ! 16)) (drop 17 s)"

lemma concat_map_map: "concat (map f (concat (map g xs))) = concat (map (\<lambda>x. concat (map f (g x))) xs)"
  by (induction xs) auto

text \<open>A sequence in a normal form, from left to right, and the sequence of classes of the address.\<close>

lemma matches_Cat_fun: "matches (Cat a b) = (\<lambda>st. concat (map (matches b) (matches a st)))"
  by (rule ext) simp

definition classes :: "(char \<Rightarrow> bool) list \<Rightarrow> rx \<Rightarrow> rx" where
  "classes Ps r = foldr (\<lambda>P. Cat (Cls P)) Ps r"

lemma matches_classes:
  "matches (classes Ps r) (p, s, g) =
     (if fits Ps s then matches r (if Ps = [] then p else Some (s ! (length Ps - 1)), drop (length Ps) s, g) else [])"
proof (induction Ps arbitrary: p s)
  case (Cons P Ps)
  then show ?case by (cases s) (auto simp: classes_def nth_Cons split: nat.splits)
qed (simp add: classes_def)

lemma mac_sep_fun: "(\<lambda>c. c = CHR '':'' \<or> c = CHR ''-'') = mac_sep"
  by (auto simp: mac_sep_def)

lemma matches_macRe: "matches macRe st = matches (Cat Edge (classes mac_shape Edge)) st"
proof -
  let ?e = "Seq [Cls mac_sep, Exactly 2 (Cls hex_char)]"
  have x: "matches (Cat (Exactly n ?e) r) = matches (classes (concat (replicate n [mac_sep, hex_char, hex_char])) r)" for n r
  proof (induction n)
    case (Suc n)
    have "matches (Cat (Exactly (Suc n) ?e) r) =
        matches (Cat (Cls mac_sep) (Cat (Cls hex_char) (Cat (Cls hex_char) (Cat (Exactly n ?e) r))))"
      by (rule ext) (simp add: matches_Cat_fun numeral_eq_Suc concat_map_map)
    then show ?case using Suc by (simp add: classes_def matches_Cat_fun)
  qed (simp add: classes_def matches_Cat_fun)
  have "matches macRe = matches (Cat Edge (Cat (Cls hex_char) (Cat (Cls hex_char) (Cat (Exactly 5 ?e) Edge))))"
    by (rule ext) (simp add: macRe_def mac_sep_fun matches_Cat_fun numeral_2_eq_2 concat_map_map)
  also have "\<dots> = matches (Cat Edge (classes mac_shape Edge))"
    using x [of 5 Edge] by (simp add: classes_def mac_shape_def matches_Cat_fun)
  finally show ?thesis by simp
qed

lemma matches_mac:
  "matches macRe (p, s, g) = (if mac_at p s then [(Some (s ! 16), drop 17 s, g)] else [])"
proof -
  have "length mac_shape = 17" "mac_shape \<noteq> []" by (simp_all add: mac_shape_def numeral_eq_Suc)
  then show ?thesis by (simp add: matches_macRe matches_classes mac_at_def)
qed

abbreviation mac_all :: "char option \<Rightarrow> string \<Rightarrow> string" where
  "mac_all p s \<equiv> replace_all macRe (\<lambda>m g. ''[mac]'') p s"

lemma mac_all_Cons:
  "mac_all p (c # cs) =
     (if mac_at p (c # cs) then ''[mac]'' @ mac_all (Some ((c # cs) ! 16)) (drop 17 (c # cs)) else c # mac_all (Some c) cs)"
  by (auto simp: matches_mac less_Suc_eq_le simp del: drop.simps)

lemma shape_classes: "P \<in> set mac_shape \<Longrightarrow> P c \<Longrightarrow> hex_char c \<or> mac_sep c"
  by (auto simp: mac_shape_def)

lemma not_hex [simp]:
  "\<not> hex_char (CHR ''['')" "\<not> hex_char (CHR '']'')" "\<not> hex_char (CHR ''m'')" "\<not> mac_sep (CHR ''['')" "\<not> mac_sep (CHR '']'')"
  "hex_char (CHR ''a'')" "hex_char (CHR ''c'')"
  by (simp_all add: hex_char_def between_def mac_sep_def)

lemma hex_word: "hex_char c \<Longrightarrow> word_char c"
  by (auto simp: hex_char_def word_char_def between_def)

lemma fits_mac_all:
  assumes "list_all (\<lambda>P. \<not> P (CHR ''['')) Ps" "fits Ps (mac_all p s)"
  shows "fits Ps s \<and> drop (length Ps) (mac_all p s) =
           mac_all (if Ps = [] then p else Some (s ! (length Ps - 1))) (drop (length Ps) s) \<and>
         (Ps \<noteq> [] \<longrightarrow> mac_all p s ! (length Ps - 1) = s ! (length Ps - 1))"
  using assms
proof (induction Ps arbitrary: p s)
  case (Cons P Ps)
  show ?case
  proof (cases s)
    case s: (Cons c cs)
    have "\<not> P (CHR ''['')" using Cons.prems(1) by simp
    then have n: "\<not> mac_at p (c # cs)" using Cons.prems(2) s by (auto simp: mac_all_Cons simp del: replace_all.simps)
    then have m: "mac_all p s = c # mac_all (Some c) cs" using s by (simp add: mac_all_Cons del: replace_all.simps)
    then show ?thesis using Cons.IH [of "Some c" cs] Cons.prems s n
      by (auto simp del: replace_all.simps simp: nth_Cons split: nat.splits)
  qed (use Cons.prems in simp)
qed simp

lemma fits_nth: "fits Ps s \<Longrightarrow> i < length Ps \<Longrightarrow> (Ps ! i) (s ! i)"
  by (induction Ps s arbitrary: i rule: fits.induct) (auto simp: nth_Cons split: nat.splits)

lemma length_shape: "length mac_shape = 17" "mac_shape \<noteq> []"
  by (simp_all add: mac_shape_def numeral_eq_Suc)

lemma fits_shape:
  "fits mac_shape (c # s) \<Longrightarrow> hex_char c" "fits mac_shape (c # d # e # s) \<Longrightarrow> mac_sep e"
  "fits mac_shape s \<Longrightarrow> hex_char (s ! 16)" "fits mac_shape (c # d # s) \<Longrightarrow> hex_char d"
  using fits_nth [of mac_shape s 16] by (simp_all add: mac_shape_def numeral_eq_Suc)

lemma no_mac_left:
  assumes "q = p \<or> q = Some (CHR '']'') \<and> (\<exists>h. p = Some h \<and> word_char h) \<and> edge p s"
  shows "\<not> has_match macRe q (mac_all p s)"
  using assms
proof (induction "length s" arbitrary: s p q rule: less_induct)
  case less
  have at: "matches macRe (q, t, []) = [] \<longleftrightarrow> \<not> mac_at q t" for q t by (simp add: matches_mac)
  show ?case
  proof (cases s)
    case Nil
    then show ?thesis by (simp add: at mac_at_def) (simp add: mac_shape_def)
  next
    case s: (Cons c cs)
    show ?thesis
    proof (cases "mac_at p s")
      case True
      then have m: "mac_all p s = ''[mac]'' @ mac_all (Some (s ! 16)) (drop 17 s)" using s by (simp add: mac_all_Cons del: replace_all.simps)
      have "word_char (s ! 16)" "edge (Some (s ! 16)) (drop 17 s)"
        using True hex_word fits_shape(3) by (auto simp: mac_at_def)
      then have "\<not> has_match macRe (Some (CHR '']'')) (mac_all (Some (s ! 16)) (drop 17 s))"
        using less.hyps [of "drop 17 s"] s by auto
      moreover have "\<not> mac_at x (d # t)" if "\<not> hex_char d" for x d t using fits_shape(1) that by (auto simp: mac_at_def)
      moreover have "\<not> mac_at x (d # e # CHR '']'' # t)" for x d e t by (auto simp: mac_at_def dest: fits_shape(2))
      moreover have "\<not> mac_at x (d # CHR '']'' # t)" for x d t by (auto simp: mac_at_def dest: fits_shape(4))
      ultimately show ?thesis unfolding m by (simp add: at)
    next
      case False
      then have m: "mac_all p s = c # mac_all (Some c) cs" using s by (simp add: mac_all_Cons del: replace_all.simps)
      have "\<not> has_match macRe (Some c) (mac_all (Some c) cs)" using less.hyps [of cs] s by auto
      moreover have "\<not> mac_at q (mac_all p s)"
      proof
        assume a: "mac_at q (mac_all p s)"
        then have f: "fits mac_shape (mac_all p s)" "edge q (mac_all p s)" by (simp_all add: mac_at_def)
        have "fits mac_shape s \<and> drop 17 (mac_all p s) = mac_all (Some (s ! 16)) (drop 17 s) \<and> mac_all p s ! 16 = s ! 16"
          using fits_mac_all [OF _ f(1)] shape_classes length_shape not_hex(1,4) by (force simp: list_all_iff)
        then have g: "fits mac_shape s" "drop 17 (mac_all p s) = mac_all (Some (s ! 16)) (drop 17 s)" "mac_all p s ! 16 = s ! 16"
          by simp_all
        have c: "word_char c" using g(1) s fits_shape(1) hex_word by blast
        have "q = p" using less.prems c s by (auto simp: edge_def)
        then have "edge p s" using f(2) m s by (simp add: edge_def)
        moreover have "edge (Some (s ! 16)) (drop 17 s)"
        proof (cases "mac_at (Some (s ! 16)) (drop 17 s)")
          case False
          then have "edge (Some (s ! 16)) (mac_all (Some (s ! 16)) (drop 17 s)) = edge (Some (s ! 16)) (drop 17 s)"
            by (cases "drop 17 s") (simp_all add: mac_all_Cons edge_def del: replace_all.simps(2))
          then show ?thesis using a g(2,3) by (simp add: mac_at_def)
        qed (simp add: mac_at_def)
        ultimately show False using False g(1) by (simp add: mac_at_def)
      qed
      ultimately show ?thesis unfolding m by (simp add: at)
    qed
  qed
qed

end
