(* ===== verification/Hw_Read.thy ===== *)
theory Hw_Read
  imports Decimal Driver Spec_Base Runner_State
begin

text \<open>
  The values of a sample: src/ectest/internal/hwread/hwread.go over the reads of
  src/ectest/internal/sysroot/sysroot.go (a read that hangs is a failed read), and what
  \<open>liveEnv.Read\<close> of src/ectest/cmd/n5-ectest/validate.go makes of them.
\<close>

record Reading =
  hr_Fan :: "int \<Rightarrow> int"
  hr_Label :: "int \<Rightarrow> string"
  hr_EC :: "string \<rightharpoonup> fl"
  hr_Tctl :: fl
  hr_NVMeMax :: fl
  hr_HDDMax :: fl
  hr_Load1 :: fl
  hr_PWM :: "int \<Rightarrow> int"
  hr_Enable :: "int \<Rightarrow> int"
  hr_Errors :: int
  hr_Hwmon :: string

definition ecLabels :: "string \<rightharpoonup> string" where
  "ecLabels = map_of [(''CPU Temp'', ''cpu''), (''System Temp'', ''system''), (''Board Temp'', ''board''), (''Ambient Temp'', ''ambient'')]"

section \<open>Reads\<close>

definition ReadTimeout :: "filesys \<Rightarrow> string \<Rightarrow> string option" where
  "ReadTimeout fs p = map_option trim_space (fs_file fs p)"

definition readInt :: "filesys \<Rightarrow> string \<Rightarrow> int option" where
  "readInt fs p = (case ReadTimeout fs p of None \<Rightarrow> None | Some s \<Rightarrow> atoi s)"

definition hw_OnlineCPUs :: "filesys \<Rightarrow> string \<Rightarrow> int" where
  "hw_OnlineCPUs fs sysRoot = ParseCPUList (readTrim fs (join_path [sysRoot, ''devices'', ''system'', ''cpu'', ''online'']))"

text \<open>\<open>os.ReadDir\<close> gives the names in order, and so the paths.\<close>

definition hwmonDirs :: "filesys \<Rightarrow> string \<Rightarrow> string list" where
  "hwmonDirs fs sysRoot =
     (let cls = join_path [sysRoot, ''class'', ''hwmon'']
      in case fs_dir fs cls of None \<Rightarrow> [] | Some names \<Rightarrow> map (\<lambda>n. join_path [cls, n]) names)"

definition DriverHwmon :: "filesys \<Rightarrow> string \<Rightarrow> string" where
  "DriverHwmon fs sysRoot =
     (case find (\<lambda>d. readTrim fs (join_path [d, ''name'']) = ModuleName) (hwmonDirs fs sysRoot) of
        None \<Rightarrow> '''' | Some d \<Rightarrow> d)"

text \<open>\<open>filepath.Glob(d/temp*suffix)\<close>.\<close>

definition glob_temp :: "filesys \<Rightarrow> string \<Rightarrow> string \<Rightarrow> string list" where
  "glob_temp fs d suffix =
     (case fs_dir fs d of
        None \<Rightarrow> []
      | Some names \<Rightarrow>
          map (\<lambda>n. join_path [d, n])
            (filter (\<lambda>n. length (''temp'' @ suffix) \<le> length n \<and> has_prefix ''temp'' n \<and> has_suffix suffix n) names))"

definition milli :: "int \<Rightarrow> rat" where "milli v = of_int v / 1000"

fun max_files :: "filesys \<Rightarrow> string list \<Rightarrow> fl \<Rightarrow> fl" where
  "max_files fs [] m = m"
| "max_files fs (f # ps) m =
     (case readInt fs f of
        None \<Rightarrow> max_files fs ps m
      | Some v \<Rightarrow>
          (let c = milli v
           in max_files fs ps (case m of None \<Rightarrow> Some c | Some x \<Rightarrow> if c > x then Some c else m)))"

definition maxTemp :: "filesys \<Rightarrow> string \<Rightarrow> string \<Rightarrow> fl" where
  "maxTemp fs sysRoot name =
     fold (\<lambda>d m. if readTrim fs (join_path [d, ''name'']) \<noteq> name then m else max_files fs (glob_temp fs d ''_input'') m)
       (hwmonDirs fs sysRoot) None"

fun tctl_labels :: "filesys \<Rightarrow> string list \<Rightarrow> fl" where
  "tctl_labels fs [] = None"
| "tctl_labels fs (l # ls) =
     (if readTrim fs l = ''Tctl''
      then (case readInt fs (trim_suffix ''_label'' l @ ''_input'') of Some v \<Rightarrow> Some (milli v) | None \<Rightarrow> tctl_labels fs ls)
      else tctl_labels fs ls)"

fun tctl_dirs :: "filesys \<Rightarrow> string list \<Rightarrow> fl" where
  "tctl_dirs fs [] = None"
| "tctl_dirs fs (d # ds) =
     (if readTrim fs (join_path [d, ''name'']) \<noteq> ''k10temp'' then tctl_dirs fs ds
      else case tctl_labels fs (glob_temp fs d ''_label'') of Some v \<Rightarrow> Some v | None \<Rightarrow> tctl_dirs fs ds)"

definition Tctl :: "filesys \<Rightarrow> string \<Rightarrow> fl" where
  "Tctl fs sysRoot = tctl_dirs fs (hwmonDirs fs sysRoot)"

definition Load1 :: "filesys \<Rightarrow> string \<Rightarrow> fl" where
  "Load1 fs procRoot =
     (case Fields (readTrim fs (join_path [procRoot, ''loadavg''])) of
        [] \<Rightarrow> None
      | f # rest \<Rightarrow> (case ParseFloat f of None \<Rightarrow> None | Some x \<Rightarrow> x))"

section \<open>One read of everything\<close>

definition hr_start :: "filesys \<Rightarrow> string \<Rightarrow> string \<Rightarrow> Reading" where
  "hr_start fs sysRoot procRoot =
     \<lparr> hr_Fan = (\<lambda>n. if n \<in> {1, 2, 3, 4} then -1 else 0), hr_Label = (\<lambda>n. ''''),
       hr_EC = [''cpu'' \<mapsto> None, ''system'' \<mapsto> None, ''board'' \<mapsto> None, ''ambient'' \<mapsto> None],
       hr_Tctl = Tctl fs sysRoot, hr_NVMeMax = maxTemp fs sysRoot ''nvme'', hr_HDDMax = maxTemp fs sysRoot ''drivetemp'',
       hr_Load1 = Load1 fs procRoot, hr_PWM = (\<lambda>n. if n \<in> {1, 2, 3, 4} then -1 else 0),
       hr_Enable = (\<lambda>n. if n \<in> {1, 2, 3, 4} then -1 else 0), hr_Errors = 0, hr_Hwmon = DriverHwmon fs sysRoot \<rparr>"

text \<open>
  One attribute: absent, unreadable (counted), or a value. \<open>stat\<close> says whether the file is there: it may
  be, and the read still fails or times out.
\<close>

definition hr_attr :: "(string \<Rightarrow> bool) \<Rightarrow> filesys \<Rightarrow> string \<Rightarrow> (int \<Rightarrow> Reading \<Rightarrow> Reading) \<Rightarrow> Reading \<Rightarrow> Reading" where
  "hr_attr stat fs p store r =
     (if \<not> stat p then r
      else case readInt fs p of Some v \<Rightarrow> store v r | None \<Rightarrow> r\<lparr> hr_Errors := hr_Errors r + 1 \<rparr>)"

definition hr_temp_id :: "filesys \<Rightarrow> string \<Rightarrow> int \<Rightarrow> string" where
  "hr_temp_id fs hwmon n =
     (case ecLabels (readTrim fs (join_path [hwmon, ''temp'' @ itoa n @ ''_label''])) of
        Some i \<Rightarrow> i | None \<Rightarrow> ''temp'' @ itoa n)"

definition hr_channel :: "(string \<Rightarrow> bool) \<Rightarrow> filesys \<Rightarrow> int \<Rightarrow> Reading \<Rightarrow> Reading" where
  "hr_channel stat fs n r =
     (let h = hr_Hwmon r;
          r1 = hr_attr stat fs (join_path [h, ''fan'' @ itoa n @ ''_input'']) (\<lambda>v r. r\<lparr> hr_Fan := (hr_Fan r)(n := v) \<rparr>) r;
          r2 = r1\<lparr> hr_Label := (hr_Label r1)(n := readTrim fs (join_path [h, ''fan'' @ itoa n @ ''_label''])) \<rparr>;
          r3 = hr_attr stat fs (join_path [h, ''temp'' @ itoa n @ ''_input''])
                 (\<lambda>v r. r\<lparr> hr_EC := (hr_EC r)(hr_temp_id fs h n \<mapsto> Some (milli v)) \<rparr>) r2;
          r4 = hr_attr stat fs (join_path [h, ''pwm'' @ itoa n]) (\<lambda>v r. r\<lparr> hr_PWM := (hr_PWM r)(n := v) \<rparr>) r3
      in hr_attr stat fs (join_path [h, ''pwm'' @ itoa n @ ''_enable'']) (\<lambda>v r. r\<lparr> hr_Enable := (hr_Enable r)(n := v) \<rparr>) r4)"

definition Read_All :: "(string \<Rightarrow> bool) \<Rightarrow> filesys \<Rightarrow> string \<Rightarrow> string \<Rightarrow> Reading" where
  "Read_All stat fs sysRoot procRoot =
     (let r = hr_start fs sysRoot procRoot
      in if hr_Hwmon r = '''' then r else fold (hr_channel stat fs) [1, 2, 3, 4] r)"

text \<open>\<open>liveEnv.Read\<close>: the map \<open>EC\<close> gives 0 for a key that is not there.\<close>

definition ec_of :: "Reading \<Rightarrow> string \<Rightarrow> fl" where
  "ec_of h k = (case hr_EC h k of None \<Rightarrow> Some 0 | Some x \<Rightarrow> x)"

definition live_Read :: "(string \<Rightarrow> bool) \<Rightarrow> filesys \<Rightarrow> string \<Rightarrow> string \<Rightarrow> Readings" where
  "live_Read stat fs sysRoot procRoot =
     (let h = Read_All stat fs sysRoot procRoot
      in \<lparr> rd_Fan = (\<lambda>f. if f \<in> {1, 2, 3} then Some (hr_Fan h f) else None),
           rd_Tctl = hr_Tctl h, rd_NVMeMax = hr_NVMeMax h, rd_HDDMax = hr_HDDMax h,
           rd_ECCPU = ec_of h ''cpu'', rd_ECSys = ec_of h ''system'', rd_ECBoard = ec_of h ''board'',
           rd_ECAmb = ec_of h ''ambient'', rd_Load1 = hr_Load1 h \<rparr>)"

section \<open>Facts\<close>

definition temps_of :: "filesys \<Rightarrow> string list \<Rightarrow> rat list" where
  "temps_of fs ps = concat (map (\<lambda>p. case readInt fs p of None \<Rightarrow> [] | Some v \<Rightarrow> [milli v]) ps)"

definition sensor_temps :: "filesys \<Rightarrow> string \<Rightarrow> string \<Rightarrow> rat list" where
  "sensor_temps fs sysRoot name =
     concat (map (\<lambda>d. temps_of fs (glob_temp fs d ''_input''))
       (filter (\<lambda>d. readTrim fs (join_path [d, ''name'']) = name) (hwmonDirs fs sysRoot)))"

definition max_fl :: "rat list \<Rightarrow> fl" where
  "max_fl xs = (if xs = [] then None else Some (Max (set xs)))"

lemma max_fl_app:
  "max_fl (xs @ [c]) = (case max_fl xs of None \<Rightarrow> Some c | Some x \<Rightarrow> if c > x then Some c else max_fl xs)"
proof (cases "xs = []")
  case False
  obtain m where m: "Max (set xs) = m" by blast
  with False have "Max (set (xs @ [c])) = max c m" by simp
  with False m show ?thesis by (simp only: max_fl_def) (simp add: max_def not_le [symmetric] m [symmetric] del: Max_less_iff Max_ge_iff)
qed (simp add: max_fl_def)

lemma max_files_max: "max_files fs ps (max_fl xs) = max_fl (xs @ temps_of fs ps)"
proof (induction ps arbitrary: xs)
  case (Cons p ps)
  show ?case
  proof (cases "readInt fs p")
    case (Some v)
    have "max_files fs (p # ps) (max_fl xs) = max_files fs ps (max_fl (xs @ [milli v]))"
      using Some by (simp add: Let_def max_fl_app)
    then show ?thesis using Cons [of "xs @ [milli v]"] Some by (simp add: temps_of_def)
  qed (use Cons in \<open>simp add: temps_of_def\<close>)
qed (simp add: temps_of_def)

lemma maxTemp_max: "maxTemp fs sysRoot name = max_fl (sensor_temps fs sysRoot name)"
proof -
  have "fold (\<lambda>d m. if readTrim fs (join_path [d, ''name'']) \<noteq> name then m else max_files fs (glob_temp fs d ''_input'') m)
      ds (max_fl xs) =
    max_fl (xs @ concat (map (\<lambda>d. temps_of fs (glob_temp fs d ''_input''))
      (filter (\<lambda>d. readTrim fs (join_path [d, ''name'']) = name) ds)))" for ds xs
    by (induction ds arbitrary: xs) (simp_all add: max_files_max)
  from this [of _ "[]"] show ?thesis by (simp add: maxTemp_def sensor_temps_def max_fl_def)
qed

end
