(* ===== verification/Text_Sort.thy ===== *)
theory Text_Sort
  imports Prelude "HOL-Library.Multiset"
begin

text \<open>\<open>sort.Strings\<close>: bytes are compared from the left; a stable insertion sort.\<close>

fun text_less :: "string \<Rightarrow> string \<Rightarrow> bool" where
  "text_less s [] \<longleftrightarrow> False"
| "text_less [] (c # cs) \<longleftrightarrow> True"
| "text_less (a # s) (c # cs) \<longleftrightarrow> (of_char a :: nat) < of_char c \<or> (a = c \<and> text_less s cs)"

fun insert_text :: "string \<Rightarrow> string list \<Rightarrow> string list" where
  "insert_text x [] = [x]"
| "insert_text x (y # ys) = (if text_less y x then y # insert_text x ys else x # y # ys)"

definition sort_texts :: "string list \<Rightarrow> string list" where
  "sort_texts xs = foldr insert_text xs []"

lemma text_less_irrefl [simp]: "\<not> text_less s s"
  by (induction s) auto

lemma text_less_trans: "text_less a b \<Longrightarrow> text_less b c \<Longrightarrow> text_less a c"
proof (induction a c arbitrary: b rule: text_less.induct)
  case (2 c cs)
  then show ?case by (cases b) auto
next
  case (3 a s c cs)
  then show ?case by (cases b) auto
qed auto

lemma text_less_total: "text_less a b \<or> a = b \<or> text_less b a"
proof (induction a b rule: text_less.induct)
  case (3 a s c cs)
  have "(of_char a :: nat) \<noteq> of_char c" if "a \<noteq> c" using that by simp
  with 3 show ?case by (metis linorder_neqE_nat text_less.simps(3))
qed (auto simp: neq_Nil_conv split: list.splits, metis text_less.simps(2) neq_Nil_conv)

lemma text_not_less: "\<not> text_less a b \<longleftrightarrow> b = a \<or> text_less b a"
  by (metis text_less_irrefl text_less_total text_less_trans)

lemma mset_insert_text [simp]: "mset (insert_text x xs) = {#x#} + mset xs"
  by (induction xs) auto

lemma mset_sort_texts [simp]: "mset (sort_texts xs) = mset xs"
  unfolding sort_texts_def by (induction xs) auto

lemma set_sort_texts [simp]: "set (sort_texts xs) = set xs"
  by (metis mset_sort_texts set_mset_mset)

lemma distinct_sort_texts [simp]: "distinct (sort_texts xs) \<longleftrightarrow> distinct xs"
  by (metis mset_sort_texts mset_eq_imp_distinct_iff)

definition text_le :: "string \<Rightarrow> string \<Rightarrow> bool" where
  "text_le a b \<longleftrightarrow> \<not> text_less b a"

lemma text_le_trans: "text_le a b \<Longrightarrow> text_le b c \<Longrightarrow> text_le a c"
  unfolding text_le_def by (metis text_less_total text_less_trans)

lemma sorted_insert_text: "sorted_wrt text_le xs \<Longrightarrow> sorted_wrt text_le (insert_text x xs)"
proof (induction xs)
  case (Cons y ys)
  have "text_le y z" if "z \<in> set (insert_text x ys)" "text_less y x" for z
  proof -
    from that(1) have "z = x \<or> z \<in> set ys" by (metis mset_insert_text set_mset_mset set_mset_union insert_iff set_mset_add_mset_insert add_mset_add_single union_commute)
    then show ?thesis using Cons.prems that(2) by (auto simp: text_le_def dest: text_less_trans)
  qed
  moreover have "text_le x z" if "\<not> text_less y x" "z = y \<or> z \<in> set ys" for z
    using that Cons.prems text_le_trans [of x y z] by (auto simp: text_le_def)
  ultimately show ?case using Cons by auto
qed simp

lemma sorted_sort_texts: "sorted_wrt text_le (sort_texts xs)"
  unfolding sort_texts_def by (induction xs) (auto intro: sorted_insert_text)

end
