(* ===== verification/Snapshot.thy ===== *)
theory Snapshot
  imports Redact Hw_Read Text_Sort
begin

text \<open>
  State snapshots and their comparison: src/ectest/internal/snapshot/snapshot.go. \<open>stat\<close> says whether
  a file is there (it may be and the read still fails); the glob of a configuration directory is its
  listing in a \<open>filesys\<close>.
\<close>

section \<open>Text\<close>

record Header =
  hd_Tool :: string
  hd_Version :: string
  hd_SpecVersion :: string
  hd_Label :: string
  hd_Mode :: string
  hd_Boot :: string
  hd_DateUTC :: string
  hd_FangovState :: string

record ModeB =
  mb_Text :: string
  mb_Incomplete :: "string list"
  mb_Reading :: Reading
  mb_DCR :: DCRInfo

definition orNA :: "string \<Rightarrow> string" where "orNA s = orText s ''n/a''"

definition section_head :: "string \<Rightarrow> string" where
  "section_head name = [NL] @ ''=== '' @ name @ '' ==='' @ [NL]"

definition c1 :: "fl \<Rightarrow> string" where
  "c1 v = (case v of None \<Rightarrow> ''n/a'' | Some x \<Rightarrow> fmt_f 1 x)"

fun nat_hex :: "nat \<Rightarrow> string" where
  "nat_hex n = (if n < 16 then [hex_digit n] else nat_hex (n div 16) @ [hex_digit (n mod 16)])"

declare nat_hex.simps [simp del]

definition hex_pad :: "nat \<Rightarrow> nat \<Rightarrow> string" where
  "hex_pad w n = pad_left w (CHR ''0'') (nat_hex n)"

text \<open>Rows of 16 bytes.\<close>

function rows_of :: "nat \<Rightarrow> string list \<Rightarrow> (nat \<times> string list) list" where
  "rows_of off [] = []"
| "rows_of off (x # xs) = (off, take 16 (x # xs)) # rows_of (off + 16) (drop 16 (x # xs))"
  by pat_completeness auto
termination by (relation "measure (\<lambda>(off, xs). length xs)") auto

definition row_text :: "nat \<Rightarrow> nat \<times> string list \<Rightarrow> string" where
  "row_text w r = hex_pad w (fst r) @ '':'' @ concat (map (\<lambda>x. '' '' @ x) (snd r))"

definition I2ECRows :: "nat \<Rightarrow> 8 word list \<Rightarrow> string" where
  "I2ECRows base data = concat (map (\<lambda>r. row_text 4 r @ [NL]) (rows_of base (map hex2 data)))"

definition begin_ecram :: "int \<Rightarrow> string" where "begin_ecram n = ''=== BEGIN EC_RAM '' @ itoa n @ '' ===''"
definition end_ecram :: "int \<Rightarrow> string" where "end_ecram n = ''=== END EC_RAM '' @ itoa n @ '' ===''"
definition begin_i2ec :: string where "begin_i2ec = ''=== BEGIN I2EC ===''"
definition end_i2ec :: string where "end_i2ec = ''=== END I2EC ===''"

definition ECRAMSection :: "int \<Rightarrow> string list \<Rightarrow> string" where
  "ECRAMSection n data =
     begin_ecram n @ [NL] @ concat (map (\<lambda>r. row_text 2 r @ [NL]) (rows_of 0 data)) @ end_ecram n @ [NL]"

definition readAll :: "filesys \<Rightarrow> string \<Rightarrow> string" where
  "readAll fs p = (case fs_file fs p of None \<Rightarrow> '''' | Some b \<Rightarrow> b)"

definition filterLines :: "filesys \<Rightarrow> string \<Rightarrow> (string \<Rightarrow> bool) \<Rightarrow> string \<Rightarrow> string" where
  "filterLines fs p keep none =
     (let out = filter keep (split_at NL (readAll fs p))
      in if out = [] then none @ [NL] else joins [NL] out @ [NL])"

section \<open>Mode B\<close>

definition mode_b_note :: string where
  [text_defs]: "mode_b_note = ''mode B: driver module loaded; no port I/O (hwmon and the debugfs dcr file only)''"

definition provenance_section :: "Header \<Rightarrow> string" where
  "provenance_section h = section_head ''provenance'' @
     ''tool: '' @ hd_Tool h @ '' '' @ hd_Version h @ [NL] @ ''spec_version: '' @ hd_SpecVersion h @ [NL] @
     ''label: '' @ hd_Label h @ [NL] @ ''mode: '' @ hd_Mode h @ [NL] @ ''boot_type: '' @ hd_Boot h @ [NL] @
     ''date_utc: '' @ hd_DateUTC h @ [NL] @ mode_b_note @ [NL]"

definition fmt_fl2 :: "fl \<Rightarrow> string" where
  "fmt_fl2 v = (case v of None \<Rightarrow> ''NaN'' | Some x \<Rightarrow> fmt_f 2 x)"

definition dmi_lines :: "HwIdentity \<Rightarrow> (string \<times> string) list" where
  "dmi_lines d = [(''product_name'', hi_Product d), (''board_name'', hi_Board d), (''board_version'', hi_BoardVersion d),
     (''sys_vendor'', hi_SysVendor d), (''bios_version'', hi_BIOS d), (''bios_date'', hi_BIOSDate d),
     (''bios_release'', hi_BIOSRelease d), (''ec_firmware_release'', hi_EC d)]"

definition identity_section :: "Machine \<Rightarrow> string" where
  "identity_section i = section_head ''identity'' @
     ''uptime_s: '' @ fmt_fl2 (id_UptimeS i) @ [NL] @ ''boot_id: '' @ id_BootID i @ [NL] @ ''kernel: '' @ id_Kernel i @ [NL] @
     ''kernel_version: '' @ id_KernelVersion i @ [NL] @ ''host: '' @ HostPlaceholder @ [NL] @
     concat (map (\<lambda>(k, v). ''dmi.'' @ k @ '': '' @ v @ [NL]) (dmi_lines (id_DMI i))) @
     ''os: '' @ os_ID (id_OS i) @ '' '' @ os_VersionID (id_OS i) @ [NL] @ ''lockdown: '' @ orNA (id_Lockdown i) @ [NL] @
     ''container: '' @ orDash (id_Container i) @ [NL] @
     (let dr = id_Driver i
      in ''driver: '' @ ModuleName @ '' '' @ orDash (ds_Version dr) @ '', srcversion '' @ orDash (ds_SrcVersion dr) @
         '', taint '' @ orDash (ds_Taint dr) @ '', '' @ Mode dr @ ''; package '' @ orDash (id_DKMSPackage i) @ [NL])"

definition keep_module :: "string \<Rightarrow> bool" where
  "keep_module l \<longleftrightarrow> (case Fields l of [] \<Rightarrow> False
     | f # _ \<Rightarrow> f \<in> {ModuleName, ''k10temp'', ''drivetemp'', ''nvme'', ''it87'', ''nct6775''})"

definition keep_port :: "string \<Rightarrow> bool" where
  "keep_port l \<longleftrightarrow> list_ex (\<lambda>p. has_prefix p (trim_space l)) [''002e-'', ''002f-'', ''0062-'', ''0066-'', ''0068-'', ''006c-'']"

definition conf_lines :: "filesys \<Rightarrow> string \<Rightarrow> string list" where
  "conf_lines fs etcRoot =
     concat (map (\<lambda>d. case fs_dir fs (join_path [etcRoot, d]) of
         None \<Rightarrow> []
       | Some names \<Rightarrow>
           concat (map (\<lambda>n. let f = join_path [etcRoot, d, n]
             in map (\<lambda>l. f @ '':'' @ l) (filter (contains_str ''minisforum'') (split_at NL (readAll fs f))))
             (filter (has_suffix ''.conf'') names)))
       [''modprobe.d'', ''modules-load.d''])"

definition module_section :: "filesys \<Rightarrow> string \<Rightarrow> string \<Rightarrow> State \<Rightarrow> string" where
  "module_section fs procRoot etcRoot dr =
     section_head ''lsmod (filtered)'' @ filterLines fs (join_path [procRoot, ''modules'']) keep_module ''(none)'' @
     section_head ''/proc/ioports 002e-002f/0062/0066/0068/006c'' @
     filterLines fs (join_path [procRoot, ''ioports'']) keep_port ''(no entries: ports not reserved)'' @
     section_head ''module parameters'' @
     (if ds_Params dr = [] then ''module not loaded'' @ [NL]
      else concat (map (\<lambda>k. k @ ''='' @ Param dr k @ [NL]) (sort_texts (map fst (ds_Params dr))))) @
     ''modprobe.d / modules-load.d entries:'' @ [NL] @
     (let conf = conf_lines fs etcRoot in if conf = [] then ''(none)'' @ [NL] else joins [NL] conf @ [NL])"

definition temps_line :: "fl \<Rightarrow> fl \<Rightarrow> fl \<Rightarrow> string" where
  "temps_line tctl nvme hdd = ''Tctl='' @ c1 tctl @ '' NVMe_max='' @ c1 nvme @ '' HDD_max='' @ c1 hdd @ [NL]"

definition fan_unreadable :: "int \<Rightarrow> string" where
  [text_defs]: "fan_unreadable n = ''fan'' @ itoa n @ ''_input unreadable''"

text \<open>A fan line, and whether it makes the snapshot incomplete.\<close>

definition fan_missing :: "(string \<Rightarrow> bool) \<Rightarrow> Reading \<Rightarrow> int \<Rightarrow> bool" where
  "fan_missing stat r n \<longleftrightarrow> hr_Fan r n < 0 \<and> stat (join_path [hr_Hwmon r, ''fan'' @ itoa n @ ''_input''])"

definition fan_line :: "(string \<Rightarrow> bool) \<Rightarrow> Reading \<Rightarrow> int \<Rightarrow> string" where
  "fan_line stat r n =
     ''fan'' @ itoa n @ ''_input='' @
     (if hr_Fan r n < 0 then (if fan_missing stat r n then ''error'' else ''absent'') else itoa (hr_Fan r n)) @
     '' ('' @ orText (hr_Label r n) ''no label'' @ '')'' @ [NL]"

definition pwm_line :: "Reading \<Rightarrow> int \<Rightarrow> string" where
  "pwm_line r n =
     (if hr_PWM r n < 0 \<and> hr_Enable r n < 0 then ''pwm'' @ itoa n @ '': not visible (read-only driver profile)'' @ [NL]
      else ''pwm'' @ itoa n @ ''='' @ itoa (hr_PWM r n) @ '' pwm'' @ itoa n @ ''_enable='' @ itoa (hr_Enable r n) @
           '' (driver cache, not EC state)'' @ [NL])"

definition tach_line :: "Reading \<Rightarrow> int \<Rightarrow> string" where
  "tach_line r n =
     (if hr_Fan r n \<ge> 0 then ''TACH'' @ itoa n @ '': '' @ itoa (hr_Fan r n) @ '' RPM (hwmon fan'' @ itoa n @ ''_input)'' @ [NL]
      else '''')"

definition hwmon_section :: "(string \<Rightarrow> bool) \<Rightarrow> Reading \<Rightarrow> string \<times> string list" where
  "hwmon_section stat r =
     (let head = section_head (''hwmon '' @ ModuleName @ '' ('' @ orNA (hr_Hwmon r) @ '')'')
      in if hr_Hwmon r = '''' then (head, [''no hwmon device of the driver''])
         else (head @ concat (map (fan_line stat r) [1, 2, 3, 4]) @
               concat (map (\<lambda>k. ''ec_'' @ k @ ''='' @ c1 (ec_of r k) @ [NL]) [''cpu'', ''system'', ''board'', ''ambient'']) @
               concat (map (tach_line r) [1, 2, 3]) @ concat (map (pwm_line r) [1, 2, 3, 4]),
               map fan_unreadable (filter (fan_missing stat r) [1, 2, 3, 4])))"

definition dcr_section :: "DCRInfo \<Rightarrow> string" where
  "dcr_section d = section_head ''dcr (debugfs, I2EC 0x1800-0x180F)'' @
     (if dc_Dump d \<noteq> '''' then
        (let dcr = (case ParseDCR (dc_Dump d) of Inr x \<Rightarrow> x | Inl _ \<Rightarrow> replicate 16 0);
             h = (\<lambda>n. hex_pad 2 (nat (Reg dcr n)))
         in begin_i2ec @ [NL] @ I2ECRows 0x1800 dcr @ end_i2ec @ [NL] @
            ''DCR1(CPU)='' @ h 1 @ '' DCR2(SSD)='' @ h 2 @ '' DCR3/4(HDD)='' @ h 3 @ ''/'' @ h 4 @ '' DCR5(PCIe)='' @ h 5 @ [NL])
      else ''dcr unavailable: '' @ dc_Error d @ [NL])"

definition result_line :: "string list \<Rightarrow> string" where
  "result_line inc = [NL] @
     (if inc \<noteq> [] then ''RESULT: INCOMPLETE ('' @ joins ''; '' inc @ '')'' @ [NL] else ''RESULT: complete'' @ [NL])"

text \<open>
  The whole snapshot; the files may change between the reads of the beginning (\<open>fs\<close>) and Tctl at
  the end (\<open>fs'\<close>).
\<close>

definition TakeModeB :: "(string \<Rightarrow> bool) \<Rightarrow> os_errors \<Rightarrow> filesys \<Rightarrow> filesys \<Rightarrow> Header \<Rightarrow> Machine \<Rightarrow> string \<Rightarrow> string \<Rightarrow> string \<Rightarrow> ModeB" where
  "TakeModeB stat oe fs fs' h i sysRoot procRoot etcRoot =
     (let r = Read_All stat fs sysRoot procRoot;
          (hw, inc) = hwmon_section stat r;
          d = ReadDCRInfo fs oe sysRoot
      in \<lparr> mb_Text = provenance_section h @ identity_section i @ module_section fs procRoot etcRoot (id_Driver i) @
             section_head ''independent temperatures (k10temp, nvme, drivetemp)'' @
             temps_line (hr_Tctl r) (hr_NVMeMax r) (hr_HDDMax r) @
             section_head ''n5-fangov'' @ ''is-active: '' @ orNA (hd_FangovState h) @ [NL] @ hw @ dcr_section d @
             section_head ''independent temperatures (end)'' @
             temps_line (Tctl fs' sysRoot) (hr_NVMeMax r) (hr_HDDMax r) @ result_line inc,
           mb_Incomplete = inc, mb_Reading = r, mb_DCR = d \<rparr>)"

section \<open>Reading a snapshot\<close>

record SnapFile =
  sf_Name :: string
  sf_ECRAM :: "int \<rightharpoonup> (int \<rightharpoonup> string)"
  sf_I2EC :: "(int \<times> string) list"
  sf_Incomplete :: string

text \<open>The addresses of \<open>sf_I2EC\<close> are distinct: a later byte replaces an earlier one.\<close>

fun put_byte :: "int \<Rightarrow> string \<Rightarrow> (int \<times> string) list \<Rightarrow> (int \<times> string) list" where
  "put_byte k v [] = [(k, v)]"
| "put_byte k v ((a, b) # xs) = (if a = k then (k, v) # xs else (a, b) # put_byte k v xs)"

definition isHexAddr :: "string \<Rightarrow> nat \<Rightarrow> bool" where
  "isHexAddr s digits \<longleftrightarrow> length s = digits + 1 \<and> s ! digits = CHR '':'' \<and> parse_hex 32 (take digits s) \<noteq> None"

text \<open>
  \<open>bufio.Scanner\<close> with a buffer of 2^20 bytes: the lines without their end, up to the first that does
  not fit.
\<close>

definition snap_lines :: "nat \<Rightarrow> string \<Rightarrow> string list" where
  "snap_lines buf t =
     (let ls = split_at NL t
      in map (\<lambda>l. if has_suffix [CHR 0x0D] l then butlast l else l)
           (takeWhile (\<lambda>l. length l < buf) (if last ls = [] then butlast ls else ls)))"

text \<open>\<open>fmt.Sscanf(l, "=== BEGIN EC_RAM %d ===", &n)\<close> of a line with that prefix.\<close>

definition scan_blank :: "char \<Rightarrow> bool" where
  "scan_blank c \<longleftrightarrow> c = CHR '' '' \<or> c = CHR 0x09 \<or> c = CHR 0x0D"

definition begin_prefix :: string where "begin_prefix = ''=== BEGIN EC_RAM ''"

definition dump_number :: "string \<Rightarrow> int option" where
  "dump_number l =
     (let t = dropWhile scan_blank (drop (length begin_prefix) l);
          sgn = (case t of c # cs \<Rightarrow> if c = CHR ''-'' \<or> c = CHR ''+'' then [c] else [] | [] \<Rightarrow> []);
          ds = takeWhile (\<lambda>c. digit_val c \<noteq> None) (drop (length sgn) t);
          rest = drop (length sgn + length ds) t
      in if rest \<noteq> [] \<and> scan_blank (hd rest) \<and> has_prefix ''==='' (dropWhile scan_blank rest) then atoi (sgn @ ds) else None)"

record parse_state =
  ps_file :: SnapFile
  ps_dump :: int
  ps_i2ec :: bool

fun put_row :: "int \<Rightarrow> string list \<Rightarrow> (int \<rightharpoonup> string) \<Rightarrow> (int \<rightharpoonup> string)" where
  "put_row o' [] m = m"
| "put_row o' (v # vs) m = put_row (o' + 1) vs (m(o' \<mapsto> map lower_char v))"

fun put_i2ec :: "int \<Rightarrow> string list \<Rightarrow> (int \<times> string) list \<Rightarrow> (int \<times> string) list" where
  "put_i2ec o' [] m = m"
| "put_i2ec o' (v # vs) m = put_i2ec (o' + 1) vs (put_byte o' (map lower_char v) m)"

definition row_base :: "nat \<Rightarrow> string \<Rightarrow> int" where
  "row_base n f = (case parse_hex 16 (take n f) of None \<Rightarrow> 0 | Some v \<Rightarrow> int v)"

definition data_line :: "string \<Rightarrow> parse_state \<Rightarrow> parse_state" where
  "data_line l st =
     (case Fields l of
        [] \<Rightarrow> st
      | f # vs \<Rightarrow>
          if 0 < ps_dump st \<and> isHexAddr f 2 then
            st\<lparr> ps_file := (ps_file st)\<lparr> sf_ECRAM := (sf_ECRAM (ps_file st))(ps_dump st \<mapsto>
                 put_row (row_base 2 f) vs (case sf_ECRAM (ps_file st) (ps_dump st) of None \<Rightarrow> Map.empty | Some m \<Rightarrow> m)) \<rparr> \<rparr>
          else if ps_i2ec st \<and> isHexAddr f 4 then
            st\<lparr> ps_file := (ps_file st)\<lparr> sf_I2EC := put_i2ec (row_base 4 f) vs (sf_I2EC (ps_file st)) \<rparr> \<rparr>
          else st)"

definition incomplete_prefix :: string where "incomplete_prefix = ''RESULT: INCOMPLETE''"

definition parse_line :: "string \<Rightarrow> parse_state \<Rightarrow> parse_state" where
  "parse_line l st =
     (if has_prefix begin_prefix l \<and> has_suffix '' ==='' l then
        (case dump_number l of
           None \<Rightarrow> st
         | Some n \<Rightarrow>
             st\<lparr> ps_dump := n,
                 ps_file := (if sf_ECRAM (ps_file st) n = None
                             then (ps_file st)\<lparr> sf_ECRAM := (sf_ECRAM (ps_file st))(n \<mapsto> Map.empty) \<rparr> else ps_file st) \<rparr>)
      else if has_prefix ''=== END EC_RAM '' l then st\<lparr> ps_dump := 0 \<rparr>
      else if l = begin_i2ec then st\<lparr> ps_i2ec := True \<rparr>
      else if l = end_i2ec then st\<lparr> ps_i2ec := False \<rparr>
      else if has_prefix incomplete_prefix l
      then st\<lparr> ps_file := (ps_file st)\<lparr> sf_Incomplete := trim_space (trim_prefix incomplete_prefix l) \<rparr> \<rparr>
      else data_line l st)"

definition parse_start :: "string \<Rightarrow> parse_state" where
  "parse_start name =
     \<lparr> ps_file = \<lparr> sf_Name = name, sf_ECRAM = Map.empty, sf_I2EC = [], sf_Incomplete = '''' \<rparr>, ps_dump = 0, ps_i2ec = False \<rparr>"

definition Parse_Snapshot :: "string \<Rightarrow> string \<Rightarrow> SnapFile" where
  "Parse_Snapshot name t = ps_file (fold parse_line (snap_lines 1048576 t) (parse_start name))"

definition ParsePath :: "filesys \<Rightarrow> string \<Rightarrow> SnapFile option" where
  "ParsePath fs p =
     (let q = (if fs_dir fs p \<noteq> None then join_path [p, ''snapshot.txt''] else p)
      in map_option (Parse_Snapshot (go_base q)) (fs_file fs q))"

section \<open>Comparison\<close>

definition dump_of :: "SnapFile \<Rightarrow> int \<Rightarrow> int \<rightharpoonup> string" where
  "dump_of f n = (case sf_ECRAM f n of None \<Rightarrow> Map.empty | Some m \<Rightarrow> m)"

definition complete_dump :: "SnapFile \<Rightarrow> int \<Rightarrow> bool" where
  "complete_dump f n \<longleftrightarrow> 256 \<le> length (filter (\<lambda>off. dump_of f n off \<noteq> None) [0..255])"

definition TempOffsets :: "int list" where "TempOffsets = [0x04, 0x05, 0x06, 0x09]"
definition CurveRegions :: "(int \<times> int) list" where "CurveRegions = [(0x10, 0x28), (0x30, 0x39), (0x70, 0x82)]"

definition DiffIdentical :: int where "DiffIdentical = 0"
definition DiffChanged :: int where "DiffChanged = 1"
definition DiffIncomplete :: int where "DiffIncomplete = 2"

definition byte_of :: "(int \<rightharpoonup> string) \<Rightarrow> int \<Rightarrow> string" where
  "byte_of m o' = (case m o' of None \<Rightarrow> '''' | Some v \<Rightarrow> v)"

definition hex0x :: "nat \<Rightarrow> int \<Rightarrow> string" where "hex0x w n = ''0x'' @ hex_pad w (nat n)"

definition ram_changes :: "(int \<rightharpoonup> string) \<Rightarrow> (int \<rightharpoonup> string) \<Rightarrow> int list" where
  "ram_changes ra rb = filter (\<lambda>o'. o' \<notin> set TempOffsets \<and> byte_of ra o' \<noteq> byte_of rb o') [0..255]"

definition region_changes :: "(int \<rightharpoonup> string) \<Rightarrow> (int \<rightharpoonup> string) \<Rightarrow> int \<times> int \<Rightarrow> int list" where
  "region_changes ra rb reg = filter (\<lambda>o'. byte_of ra o' \<noteq> byte_of rb o') [fst reg..snd reg - 1]"

definition region_unknown :: "(int \<rightharpoonup> string) \<Rightarrow> (int \<rightharpoonup> string) \<Rightarrow> int \<times> int \<Rightarrow> bool" where
  "region_unknown ra rb reg \<longleftrightarrow> list_ex (\<lambda>o'. byte_of ra o' = ''??'' \<or> byte_of rb o' = ''??'') [fst reg..snd reg - 1]"

definition region_line :: "(int \<rightharpoonup> string) \<Rightarrow> (int \<rightharpoonup> string) \<Rightarrow> int \<times> int \<Rightarrow> string" where
  "region_line ra rb reg = ''  '' @ hex0x 2 (fst reg) @ ''-'' @ hex0x 2 (snd reg - 1) @ '': '' @
     (let ch = region_changes ra rb reg
      in if ch = [] then ''identical'' else ''CHANGED at '' @ joins '' '' (map (hex0x 2) ch)) @ [NL]"

definition i2ec_changes :: "SnapFile \<Rightarrow> SnapFile \<Rightarrow> int list" where
  "i2ec_changes a b =
     filter (\<lambda>k. map_of (sf_I2EC b) k = None \<or> map_of (sf_I2EC b) k \<noteq> map_of (sf_I2EC a) k) (sort (map fst (sf_I2EC a)))"

definition i2ec_text :: "SnapFile \<Rightarrow> SnapFile \<Rightarrow> string" where
  "i2ec_text a b =
     (if sf_I2EC a = [] \<or> sf_I2EC b = [] then ''  (I2EC section missing in one file)'' @ [NL]
      else
        (let ks = i2ec_changes a b
         in if ks = [] then ''  (none)'' @ [NL]
            else concat (map (\<lambda>k. ''  '' @ hex0x 4 k @ '': '' @ byte_of (map_of (sf_I2EC a)) k @ '' -> '' @
                   (case map_of (sf_I2EC b) k of None \<Rightarrow> ''missing'' | Some v \<Rightarrow> v) @ [NL]) ks)))"

definition no_dump_text :: "SnapFile \<Rightarrow> string" where
  [text_defs]: "no_dump_text f = ''no complete EC RAM dump 1 in '' @ sf_Name f @ '' (mode-B file?)'' @ [NL]"

definition diff_body :: "SnapFile \<Rightarrow> SnapFile \<Rightarrow> string" where
  "diff_body a b =
     (let ra = dump_of a 1; rb = dump_of b 1; ch = ram_changes ra rb
      in ''diff A='' @ sf_Name a @ [NL] @ ''     B='' @ sf_Name b @ [NL] @
         ''EC RAM bytes changed (temperature offsets 0x04 0x05 0x06 0x09 excluded):'' @ [NL] @
         concat (map (\<lambda>o'. ''  '' @ hex0x 2 o' @ '': '' @ byte_of ra o' @ '' -> '' @ byte_of rb o' @ [NL]) ch) @
         (if ch = [] then ''  (none)'' @ [NL] else '''') @
         ''curve-table regions (TESTSPEC C1):'' @ [NL] @ concat (map (region_line ra rb) CurveRegions) @
         ''I2EC 0x1800-0x182F bytes changed (0x1803 DCR1 CPU, 0x1804 DCR2 SSD, 0x1805/0x1806 DCR3/4 HDD, 0x1807 DCR5 PCIe):'' @ [NL] @
         i2ec_text a b)"

definition marked_text :: "SnapFile \<Rightarrow> string" where
  [text_defs]: "marked_text f = ''input incomplete: '' @ sf_Name f @ '' is marked INCOMPLETE '' @ sf_Incomplete f @ [NL]"
definition unknown_text :: string where
  [text_defs]: "unknown_text = ''input incomplete: a curve-table byte reads ?? (EC read timeout)'' @ [NL]"
definition c1_text :: "string \<Rightarrow> string" where
  [text_defs]: "c1_text v = ''C1 curve tables 0x10-0x27, 0x30-0x38, 0x70-0x81: '' @ v @ [NL]"

definition Diff_Snapshots :: "SnapFile \<Rightarrow> SnapFile \<Rightarrow> string \<times> int" where
  "Diff_Snapshots a b =
     (case find (\<lambda>f. \<not> complete_dump f 1) [a, b] of
        Some f \<Rightarrow> (no_dump_text f, DiffIncomplete)
      | None \<Rightarrow>
          (let ra = dump_of a 1; rb = dump_of b 1; t = diff_body a b
           in case find (\<lambda>f. sf_Incomplete f \<noteq> '''') [a, b] of
                Some f \<Rightarrow> (t @ marked_text f, DiffIncomplete)
              | None \<Rightarrow>
                  if list_ex (region_unknown ra rb) CurveRegions then (t @ unknown_text, DiffIncomplete)
                  else if list_ex (\<lambda>r. region_changes ra rb r \<noteq> []) CurveRegions then (t @ c1_text ''CHANGED'', DiffChanged)
                  else (t @ c1_text ''identical'', DiffIdentical)))"

section \<open>What the comparison says\<close>

definition curve_offsets :: "int set" where
  "curve_offsets = {0x10..0x27} \<union> {0x30..0x38} \<union> {0x70..0x81}"

text \<open>A snapshot the comparison can judge.\<close>

definition judgeable :: "SnapFile \<Rightarrow> bool" where
  "judgeable f \<longleftrightarrow> (\<forall>o' \<in> {0..255}. dump_of f 1 o' \<noteq> None) \<and> sf_Incomplete f = '''' \<and>
     (\<forall>o' \<in> curve_offsets. dump_of f 1 o' \<noteq> Some ''??'')"

lemma filter_full: "length (filter P xs) = length xs \<longleftrightarrow> list_all P xs"
proof (induction xs)
  case (Cons x xs)
  have "length (filter P xs) \<noteq> Suc (length xs)" using length_filter_le [of P xs] by linarith
  with Cons show ?case by simp
qed simp

lemma complete_dump_iff: "complete_dump f n \<longleftrightarrow> (\<forall>o' \<in> {0..255}. dump_of f n o' \<noteq> None)"
proof -
  let ?P = "\<lambda>off. dump_of f n off \<noteq> None"
  have "256 \<le> length (filter ?P [0..255]) \<longleftrightarrow> length (filter ?P [0..255]) = length [0..255::int]"
    using length_filter_le [of ?P "[0..255]"] by simp
  then show ?thesis unfolding complete_dump_def filter_full by (simp add: list_all_iff)
qed

lemma judgeable_iff:
  "judgeable f \<longleftrightarrow> complete_dump f 1 \<and> sf_Incomplete f = '''' \<and> (\<forall>o' \<in> curve_offsets. dump_of f 1 o' \<noteq> Some ''??'')"
  by (simp add: judgeable_def complete_dump_iff)

lemma curve_regions:
  "list_ex (region_unknown ra rb) CurveRegions \<longleftrightarrow>
     (\<exists>o' \<in> curve_offsets. byte_of ra o' = ''??'' \<or> byte_of rb o' = ''??'')"
  "list_ex (\<lambda>r. region_changes ra rb r \<noteq> []) CurveRegions \<longleftrightarrow> (\<exists>o' \<in> curve_offsets. byte_of ra o' \<noteq> byte_of rb o')"
  by (auto simp: CurveRegions_def region_unknown_def region_changes_def curve_offsets_def list_ex_iff filter_empty_conv)

lemma curve_in_dump: "o' \<in> curve_offsets \<Longrightarrow> o' \<in> {0..255}"
  by (auto simp: curve_offsets_def)


lemma Diff_verdict:
  "snd (Diff_Snapshots a b) =
     (if \<not> judgeable a \<or> \<not> judgeable b then DiffIncomplete
      else if \<exists>o' \<in> curve_offsets. dump_of a 1 o' \<noteq> dump_of b 1 o' then DiffChanged else DiffIdentical)"
proof (cases "complete_dump a 1 \<and> complete_dump b 1")
  case False
  then show ?thesis by (auto simp: Diff_Snapshots_def judgeable_iff)
next
  case True
  then have c: "dump_of a 1 o' \<noteq> None" "dump_of b 1 o' \<noteq> None" if "o' \<in> curve_offsets" for o'
    using that curve_in_dump unfolding complete_dump_iff by blast+
  have "byte_of (dump_of a 1) o' = ''??'' \<longleftrightarrow> dump_of a 1 o' = Some ''??''"
    "byte_of (dump_of b 1) o' = ''??'' \<longleftrightarrow> dump_of b 1 o' = Some ''??''"
    "byte_of (dump_of a 1) o' = byte_of (dump_of b 1) o' \<longleftrightarrow> dump_of a 1 o' = dump_of b 1 o'"
    if "o' \<in> curve_offsets" for o'
    using c [OF that] by (auto simp: byte_of_def)
  then have u: "(\<exists>o' \<in> curve_offsets. byte_of (dump_of a 1) o' = ''??'' \<or> byte_of (dump_of b 1) o' = ''??'') \<longleftrightarrow>
      (\<exists>o' \<in> curve_offsets. dump_of a 1 o' = Some ''??'' \<or> dump_of b 1 o' = Some ''??'')"
    and d: "(\<exists>o' \<in> curve_offsets. byte_of (dump_of a 1) o' \<noteq> byte_of (dump_of b 1) o') \<longleftrightarrow>
      (\<exists>o' \<in> curve_offsets. dump_of a 1 o' \<noteq> dump_of b 1 o')"
    by (simp_all cong: bex_cong)
  show ?thesis using True
    by (auto simp: Diff_Snapshots_def Let_def curve_regions u d judgeable_iff)
qed

end
