(* ===== verification/Snapshot_Facts.thy ===== *)
theory Snapshot_Facts
  imports Snapshot
begin

text \<open>
  The dumps a snapshot is written with are read back: the rows of src/ectest/internal/snapshot/snapshot.go
  through its own parser.
\<close>

section \<open>Lines\<close>

definition plain_line :: "string \<Rightarrow> bool" where
  "plain_line l \<longleftrightarrow> NL \<notin> set l \<and> \<not> has_suffix [CHR 0x0D] l \<and> length l < 1048576"

lemma split_lines: "list_all (\<lambda>l. NL \<notin> set l) ls \<Longrightarrow> split_at NL (concat (map (\<lambda>l. l @ [NL]) ls)) = ls @ [[]]"
  by (induction ls) (simp_all add: split_at_app)

lemma scan_plain:
  assumes "list_all plain_line ls"
  shows "snap_lines 1048576 (concat (map (\<lambda>l. l @ [NL]) ls)) = ls"
proof -
  have s: "split_at NL (concat (map (\<lambda>l. l @ [NL]) ls)) = ls @ [[]]"
    using assms by (intro split_lines) (auto simp: list_all_iff plain_line_def)
  have t: "takeWhile (\<lambda>l. length l < 1048576) ls = ls"
    using assms by (auto simp: list_all_iff plain_line_def)
  have m: "map (\<lambda>l. if has_suffix [CHR 0x0D] l then butlast l else l) ls = ls"
    using assms by (induction ls) (auto simp: plain_line_def)
  show ?thesis by (simp add: snap_lines_def s t m)
qed

section \<open>Rows\<close>

lemma zero_digit: "hex_digit 0 = CHR ''0''"
  by code_simp

lemma hex_pad_byte: "n < 256 \<Longrightarrow> hex_pad 2 n = [hex_digit (n div 16), hex_digit (n mod 16)]"
  by (subst hex_pad_def, subst nat_hex.simps) (auto simp: pad_left_def nat_hex.simps [of "n div 16"] zero_digit)

lemma hex_digit_ne: "n < 16 \<Longrightarrow> hex_val c = None \<Longrightarrow> hex_digit n \<noteq> c"
  by auto

lemma row_word:
  assumes "n < 256"
  shows "word_ok (hex_pad 2 n @ '':'')" "isHexAddr (hex_pad 2 n @ '':'') 2" "row_base 2 (hex_pad 2 n @ '':'') = int n"
proof -
  have d: "n div 16 < 16" "n mod 16 < 16" "n div 16 * 16 + n mod 16 = n" using assms by auto
  have colon: "\<not> is_space (CHR '':'')" by (simp add: is_space_def)
  show "word_ok (hex_pad 2 n @ '':'')"
    using d colon by (simp add: hex_pad_byte [OF assms] word_ok_def hex_digit_not_space)
  show "isHexAddr (hex_pad 2 n @ '':'') 2"
    using d assms by (simp add: hex_pad_byte [OF assms] isHexAddr_def parse_hex_def)
  show "row_base 2 (hex_pad 2 n @ '':'') = int n"
    using d assms by (simp add: hex_pad_byte [OF assms] row_base_def parse_hex_def)
qed

lemma Fields_row:
  assumes "n < 256" "list_all word_ok ws"
  shows "Fields (row_text 2 (n, ws)) = (hex_pad 2 n @ '':'') # ws"
proof -
  have skip: "Fields (CHR '' '' # s) = Fields s" for s by (simp add: Fields_def)
  have "Fields (concat (map (\<lambda>w. CHR '' '' # w) ((hex_pad 2 n @ '':'') # ws))) = (hex_pad 2 n @ '':'') # ws"
    using assms row_word(1) [OF assms(1)] by (intro Fields_words) simp
  then show ?thesis by (simp add: skip row_text_def)
qed

text \<open>A byte as the snapshot prints it.\<close>

definition dump_word :: "string \<Rightarrow> bool" where
  "dump_word w \<longleftrightarrow> word_ok w \<and> length w \<le> 2 \<and> map lower_char w = w"

lemma parse_row:
  assumes "n < 256" "list_all word_ok ws" "ps_dump st = 1" "sf_ECRAM (ps_file st) 1 = Some m"
  shows "parse_line (row_text 2 (n, ws)) st =
    st\<lparr> ps_file := (ps_file st)\<lparr> sf_ECRAM := (sf_ECRAM (ps_file st))(1 \<mapsto> put_row (int n) ws m) \<rparr> \<rparr>"
proof -
  have h: "row_text 2 (n, ws) = hex_digit (n div 16) # tl (row_text 2 (n, ws))"
    using assms(1) by (simp add: row_text_def hex_pad_byte)
  have "hex_digit (n div 16) \<noteq> CHR ''=''" "hex_digit (n div 16) \<noteq> CHR ''R''"
    using assms(1) by (simp_all add: hex_digit_ne hex_val_def)
  then have "\<not> has_prefix begin_prefix (row_text 2 (n, ws))" "\<not> has_prefix ''=== END EC_RAM '' (row_text 2 (n, ws))"
    "row_text 2 (n, ws) \<noteq> begin_i2ec" "row_text 2 (n, ws) \<noteq> end_i2ec" "\<not> has_prefix incomplete_prefix (row_text 2 (n, ws))"
    by (subst h; simp add: has_prefix_def begin_prefix_def incomplete_prefix_def begin_i2ec_def end_i2ec_def)+
  then have "parse_line (row_text 2 (n, ws)) st = data_line (row_text 2 (n, ws)) st" by (simp add: parse_line_def)
  then show ?thesis using assms row_word [OF assms(1)] by (simp add: data_line_def Fields_row)
qed

lemma put_row_app: "put_row o' (a @ b) m = put_row (o' + int (length a)) b (put_row o' a m)"
  by (induction a arbitrary: o' m) (simp_all add: algebra_simps)

lemma put_row_nth:
  "put_row o' vs m k = (if o' \<le> k \<and> k < o' + int (length vs) then Some (map lower_char (vs ! nat (k - o'))) else m k)"
proof (induction vs arbitrary: o' m)
  case (Cons v vs)
  have "nat (k - o') = Suc (nat (k - (o' + 1)))" if "o' < k" using that by linarith
  then show ?case by (auto simp: Cons.IH nth_Cons split: nat.splits)
qed auto

lemma parse_rows:
  assumes "off + length ws \<le> 256" "list_all word_ok ws" "ps_dump st = 1" "sf_ECRAM (ps_file st) 1 = Some m"
  shows "fold parse_line (map (row_text 2) (rows_of off ws)) st =
    st\<lparr> ps_file := (ps_file st)\<lparr> sf_ECRAM := (sf_ECRAM (ps_file st))(1 \<mapsto> put_row (int off) ws m) \<rparr> \<rparr>"
  using assms
proof (induction off ws arbitrary: st m rule: rows_of.induct)
  case (2 off x xs)
  let ?w = "x # xs"
  let ?st = "st\<lparr> ps_file := (ps_file st)\<lparr> sf_ECRAM := (sf_ECRAM (ps_file st))(1 \<mapsto> put_row (int off) (take 16 ?w) m) \<rparr> \<rparr>"
  have ok: "list_all word_ok (take 16 ?w)" "list_all word_ok (drop 16 ?w)"
    using 2(3) by (auto simp: list_all_iff dest: in_set_takeD in_set_dropD)
  have one: "parse_line (row_text 2 (off, take 16 ?w)) st = ?st"
    using 2(2,4,5) ok(1) by (intro parse_row) auto
  have rest: "put_row (int off) ?w m = put_row (int (off + 16)) (drop 16 ?w) (put_row (int off) (take 16 ?w) m)"
  proof (cases "length ?w \<le> 16")
    case False
    then have "length (take 16 ?w) = 16" by simp
    then show ?thesis using put_row_app [of "int off" "take 16 ?w" "drop 16 ?w" m] by simp
  qed simp
  show ?case
  proof (cases "drop 16 ?w")
    case Nil
    then have "take 16 ?w = ?w" by simp
    then show ?thesis using one Nil by (simp only: rows_of.simps list.map fold_simps id_apply)
  next
    case (Cons y ys)
    have "16 + length (drop 16 ?w) = length ?w" using arg_cong [OF Cons, of length] by simp
    then have "off + 16 + length (drop 16 ?w) \<le> 256" using 2(2) by linarith
    then show ?thesis using 2(1) [of ?st "put_row (int off) (take 16 ?w) m"] ok(2) 2(4) one rest
      by (simp del: fun_upd_apply put_row.simps take.simps drop.simps add: fun_upd_same)
  qed
qed (auto simp: fun_upd_idem intro!: parse_state.equality SnapFile.equality)

section \<open>A dump written and read\<close>

lemma rows_of_parts:
  "r \<in> set (rows_of off xs) \<Longrightarrow> fst r < off + length xs \<and> length (snd r) \<le> 16 \<and> set (snd r) \<subseteq> set xs"
proof (induction off xs rule: rows_of.induct)
  case (2 off x xs)
  from 2(2) consider "r = (off, take 16 (x # xs))" | "r \<in> set (rows_of (off + 16) (drop 16 (x # xs)))" by auto
  then show ?case
  proof cases
    case 1
    then show ?thesis by (auto dest: in_set_takeD)
  next
    case 2
    then have "drop 16 (x # xs) \<noteq> []" by auto
    then have "16 < length (x # xs)" by simp
    then show ?thesis using "2.IH" [OF 2] set_drop_subset [of 16 "x # xs"] by auto
  qed
qed simp

lemma row_plain:
  assumes "fst r < 256" "length (snd r) \<le> 16" "list_all dump_word (snd r)"
  shows "plain_line (row_text 2 r)"
proof -
  have d: "fst r div 16 < 16" "fst r mod 16 < 16" using assms(1) by auto
  have w: "\<not> is_space c" if "w \<in> set (snd r)" "c \<in> set w" for w c
    using assms(3) that by (auto simp: list_all_iff dump_word_def word_ok_def)
  have colon: "\<not> is_space (CHR '':'')" by (simp add: is_space_def)
  have c: "c = CHR '' '' \<or> \<not> is_space c" if "c \<in> set (row_text 2 r)" for c
    using that w d hex_digit_not_space colon
    by (fastforce simp: row_text_def hex_pad_byte [OF assms(1)] split: if_splits)
  have nl: "NL \<notin> set (row_text 2 r)" "CHR 0x0D \<notin> set (row_text 2 r)"
    using c by (force simp: NL_def is_space_def)+
  have "length (concat (map (\<lambda>x. '' '' @ x) ws)) \<le> 3 * length ws" if "list_all dump_word ws" for ws
    using that by (induction ws) (auto simp: dump_word_def)
  from this [OF assms(3)] have "length (row_text 2 r) < 1048576"
    using assms(2) by (simp add: row_text_def hex_pad_byte [OF assms(1)])
  moreover have "\<not> has_suffix [CHR 0x0D] (row_text 2 r)"
    using nl(2) in_set_dropD [of "CHR 0x0D" "length (row_text 2 r) - 1" "row_text 2 r"] by (auto simp: has_suffix_def)
  ultimately show ?thesis using nl(1) by (simp add: plain_line_def)
qed

lemma parse_begin:
  "parse_line (begin_ecram 1) (parse_start name) =
     (parse_start name)\<lparr> ps_dump := 1, ps_file := (ps_file (parse_start name))\<lparr> sf_ECRAM := [1 \<mapsto> Map.empty] \<rparr> \<rparr>"
proof -
  have "has_prefix begin_prefix (begin_ecram 1)" "has_suffix '' ==='' (begin_ecram 1)" "dump_number (begin_ecram 1) = Some 1"
    by code_simp+
  then show ?thesis by (simp add: parse_line_def parse_start_def)
qed

lemma parse_end: "ps_file (parse_line (end_ecram 1) st) = ps_file st"
proof -
  have "\<not> has_prefix begin_prefix (end_ecram 1)" "has_prefix ''=== END EC_RAM '' (end_ecram 1)" by code_simp+
  then show ?thesis by (simp add: parse_line_def)
qed

lemma section_lines:
  "ECRAMSection 1 data = concat (map (\<lambda>l. l @ [NL]) (begin_ecram 1 # map (row_text 2) (rows_of 0 data) @ [end_ecram 1]))"
  by (simp add: ECRAMSection_def comp_def)

lemma mark_plain: "plain_line (begin_ecram 1)" "plain_line (end_ecram 1)"
proof -
  have "NL \<notin> set (begin_ecram 1) \<and> \<not> has_suffix [CHR 0x0D] (begin_ecram 1) \<and> length (begin_ecram 1) < 100"
    "NL \<notin> set (end_ecram 1) \<and> \<not> has_suffix [CHR 0x0D] (end_ecram 1) \<and> length (end_ecram 1) < 100"
    by code_simp+
  then show "plain_line (begin_ecram 1)" "plain_line (end_ecram 1)" by (simp_all add: plain_line_def)
qed

lemma dump_read_back:
  assumes "length data = 256" "list_all dump_word data"
  shows "Parse_Snapshot name (ECRAMSection 1 data) =
    \<lparr> sf_Name = name, sf_ECRAM = [1 \<mapsto> put_row 0 data Map.empty], sf_I2EC = [], sf_Incomplete = '''' \<rparr>"
proof -
  have "plain_line (begin_ecram 1)" "plain_line (end_ecram 1)" by (rule mark_plain)+
  moreover have "plain_line (row_text 2 r)" if "r \<in> set (rows_of 0 data)" for r
    using rows_of_parts [OF that] assms by (intro row_plain) (auto simp: list_all_iff)
  ultimately have l: "snap_lines 1048576 (ECRAMSection 1 data) = begin_ecram 1 # map (row_text 2) (rows_of 0 data) @ [end_ecram 1]"
    unfolding section_lines by (intro scan_plain) (auto simp: list_all_iff)
  have w: "list_all word_ok data" using assms(2) by (auto simp: list_all_iff dump_word_def)
  let ?st = "(parse_start name)\<lparr> ps_dump := 1, ps_file := (ps_file (parse_start name))\<lparr> sf_ECRAM := [1 \<mapsto> Map.empty] \<rparr> \<rparr>"
  have "fold parse_line (map (row_text 2) (rows_of 0 data)) ?st =
      ?st\<lparr> ps_file := (ps_file ?st)\<lparr> sf_ECRAM := (sf_ECRAM (ps_file ?st))(1 \<mapsto> put_row 0 data Map.empty) \<rparr> \<rparr>"
    using parse_rows [of 0 data ?st Map.empty] assms(1) w by simp
  then show ?thesis
    unfolding Parse_Snapshot_def l by (simp add: parse_begin parse_end) (simp add: parse_start_def)
qed

end
