(* ===== verification/Bundle.thy ===== *)
theory Bundle
  imports Sample_Csv Redact Text_Sort Files
begin

text \<open>
  A result directory: src/ectest/internal/bundle/bundle.go. The directory is a tree of its entries in
  the order the directory is read (by name); the SHA-256 function, the OS error texts and the decoding of
  a CSV text into rows are parameters.
\<close>

definition MetaName :: string where "MetaName = ''meta.json''"
definition SamplesName :: string where "SamplesName = ''samples.csv''"
definition EventsName :: string where "EventsName = ''events.log''"
definition VerdictName :: string where "VerdictName = ''verdict.json''"
definition SumsName :: string where "SumsName = ''SHA256SUMS''"

section \<open>Names\<close>

text \<open>\<open>unsafeName.ReplaceAllString(s, "_")\<close>: each maximal run of other characters becomes one.\<close>

definition safe_char :: "char \<Rightarrow> bool" where
  "safe_char c \<longleftrightarrow> alnum c \<or> c \<in> {CHR ''.'', CHR ''_'', CHR ''-''}"

fun replace_unsafe :: "bool \<Rightarrow> string \<Rightarrow> string" where
  "replace_unsafe in_run [] = []"
| "replace_unsafe in_run (c # cs) =
     (if safe_char c then c # replace_unsafe False cs
      else if in_run then replace_unsafe True cs else CHR ''_'' # replace_unsafe True cs)"

definition clean_name :: "string \<Rightarrow> string" where
  "clean_name s = (let t = replace_unsafe False (trim_space s) in if t = '''' then ''unknown'' else t)"

text \<open>\<open>t.Format("20060102-1504")\<close>.\<close>

definition minute_stamp :: "nanos \<Rightarrow> string" where
  "minute_stamp t =
     (let secs = t div 1000000000; (y, m, d) = civil (secs div 86400); s = secs mod 86400
      in pad_left 4 (CHR ''0'') (itoa y) @ pad2 m @ pad2 d @ ''-'' @ pad2 (s div 3600) @ pad2 (s mod 3600 div 60))"

definition DirName :: "nanos \<Rightarrow> string \<Rightarrow> string \<Rightarrow> string \<Rightarrow> string" where
  "DirName t board bios test = joins ''-'' [minute_stamp t, clean_name board, clean_name bios, clean_name test]"

section \<open>The open directory\<close>

record bundle_writer =
  bw_Dir :: string
  bw_red :: "Redactor option"
  bw_events :: string
  bw_samples :: "string list list"
  bw_closed :: bool

definition bw_redact :: "bundle_writer \<Rightarrow> string \<Rightarrow> string" where
  "bw_redact w s = (case bw_red w of None \<Rightarrow> s | Some r \<Rightarrow> Redactor_String r s)"

text \<open>
  \<open>Create\<close>: \<open>mkdir\<close>, \<open>open_e\<close> and \<open>open_s\<close> are the errors of the three calls, \<open>write_h\<close> that
  of the header.
\<close>

definition Create :: "string option \<Rightarrow> string option \<Rightarrow> string option \<Rightarrow> string option \<Rightarrow> string \<Rightarrow> Redactor option \<Rightarrow> string + bundle_writer" where
  "Create mkdir open_e open_s write_h dir red =
     (case mkdir of Some e \<Rightarrow> Inl e
      | None \<Rightarrow> case open_e of Some e \<Rightarrow> Inl e
      | None \<Rightarrow> case open_s of Some e \<Rightarrow> Inl e
      | None \<Rightarrow> case write_h of Some e \<Rightarrow> Inl e
      | None \<Rightarrow> Inr \<lparr> bw_Dir = dir, bw_red = red, bw_events = '''', bw_samples = [CSVHeader], bw_closed = False \<rparr>)"

definition bw_Event :: "bundle_writer \<Rightarrow> string \<Rightarrow> bundle_writer" where
  "bw_Event w line =
     (if bw_closed w then w
      else w\<lparr> bw_events := bw_events w @ bw_redact w (trim_right NL line) @ [NL] \<rparr>)"

definition bw_Sample :: "bundle_writer \<Rightarrow> Sample \<Rightarrow> bundle_writer" where
  "bw_Sample w s = (if bw_closed w then w else w\<lparr> bw_samples := bw_samples w @ [Row s] \<rparr>)"

definition bad_name_text :: "string \<Rightarrow> string" where
  [text_defs]: "bad_name_text name = ''bundle: invalid file name '' @ fmt_q name"

text \<open>\<open>WriteFile\<close>: the error, or the file and the contents that go to \<open>WriteAtomic\<close>.\<close>

definition bw_WriteFile :: "bundle_writer \<Rightarrow> string \<Rightarrow> string \<Rightarrow> string + string \<times> string" where
  "bw_WriteFile w name contents =
     (if CHR ''/'' \<in> set name \<or> CHR 0x5C \<in> set name \<or> name = SumsName \<or> name = EventsName \<or> name = SamplesName
      then Inl (bad_name_text name)
      else Inr (join_path [bw_Dir w, name], bw_redact w contents))"

definition bw_Finish :: "bundle_writer \<Rightarrow> bundle_writer" where
  "bw_Finish w = (if bw_closed w then w else w\<lparr> bw_closed := True \<rparr>)"

section \<open>Atomic writes\<close>

text \<open>
  \<open>WriteAtomic\<close> and \<open>writeAtomicIn\<close> as the directories that can be seen while they run (a crash leaves
  the last of them): the temporary file appears, is written (a failed write leaves a part), and is renamed.
  A failure before the rename removes it.
\<close>

datatype write_failure = FailCreate | FailWrite nat | FailSettle | FailRename

type_synonym directory = "string \<rightharpoonup> string"

definition write_states :: "write_failure option \<Rightarrow> directory \<Rightarrow> string \<Rightarrow> string \<Rightarrow> string \<Rightarrow> directory list" where
  "write_states fault d tmp p contents =
     (let made = d(tmp \<mapsto> []); full = d(tmp \<mapsto> contents); removed = d(tmp := None);
          renamed = (d(tmp := None))(p \<mapsto> contents)
      in case fault of
           Some FailCreate \<Rightarrow> [d]
         | Some (FailWrite n) \<Rightarrow> [d, made, d(tmp \<mapsto> take n contents), removed]
         | Some FailSettle \<Rightarrow> [d, made, full, removed]
         | Some FailRename \<Rightarrow> [d, made, full, removed]
         | None \<Rightarrow> [d, made, full, renamed])"

definition write_error :: "write_failure option \<Rightarrow> bool" where
  "write_error fault \<longleftrightarrow> fault \<noteq> None"

text \<open>The names \<open>writeAtomicIn\<close> tries: the first that is free, at most 100.\<close>

definition temp_name :: "string \<Rightarrow> int \<Rightarrow> int \<Rightarrow> string" where
  "temp_name name pid stamp = ''.'' @ name @ ''.tmp'' @ itoa pid @ ''-'' @ itoa stamp"

definition free_temp :: "directory \<Rightarrow> string \<Rightarrow> int \<Rightarrow> (nat \<Rightarrow> int) \<Rightarrow> string option" where
  "free_temp d name pid clock =
     find (\<lambda>t. d t = None) (map (\<lambda>i. temp_name name pid (clock i + int i)) [0..<100])"

section \<open>Checksums\<close>

datatype node =
    NFile string
  | NDir "(string \<times> node) list"
  | NDenied
  | NOther

text \<open>\<open>listFS\<close>: the visible regular files, and whether the walk came to its end.\<close>

function list_nodes :: "string \<Rightarrow> (string \<times> node) list \<Rightarrow> string list \<times> bool" where
  "list_nodes pre [] = ([], True)"
| "list_nodes pre ((n, x) # es) =
     (if has_prefix ''.'' n then list_nodes pre es
      else case x of
             NFile c \<Rightarrow> (let (ns, ok) = list_nodes pre es in (if pre @ n \<noteq> SumsName then (pre @ n) # ns else ns, ok))
           | NOther \<Rightarrow> list_nodes pre es
           | NDenied \<Rightarrow> ([], False)
           | NDir sub \<Rightarrow>
               (case list_nodes (pre @ n @ ''/'') sub of
                  (a, False) \<Rightarrow> (a, False)
                | (a, True) \<Rightarrow> (let (b, ok) = list_nodes pre es in (a @ b, ok))))"
  by pat_completeness auto
termination by (relation "measure (\<lambda>(pre, es). size_list (size_prod (\<lambda>x. 0) size) es)") auto

definition listFS :: "(string \<times> node) list \<Rightarrow> string list \<times> bool" where
  "listFS es = (let (ns, ok) = list_nodes '''' es in (sort_texts ns, ok))"

text \<open>
  One look at a file: what \<open>Lstat\<close> says (the file's identity, whether it is regular) and what is opened
  a moment later (identity and contents).
\<close>

record file_view =
  fv_lstat :: "string \<Rightarrow> string + nat \<times> bool"
  fv_open :: "string \<Rightarrow> string + nat \<times> string"

definition irregular_text :: "string \<Rightarrow> string" where
  [text_defs]: "irregular_text n = ''bundle: '' @ n @ '' is not a regular file''"
definition swapped_text :: "string \<Rightarrow> string" where
  [text_defs]: "swapped_text n = ''bundle: '' @ n @ '' changed while opened''"

definition rootFileSum :: "(string \<Rightarrow> string) \<Rightarrow> file_view \<Rightarrow> string \<Rightarrow> string + string" where
  "rootFileSum sha v name =
     (case fv_lstat v name of
        Inl e \<Rightarrow> Inl e
      | Inr (i, regular) \<Rightarrow>
          if \<not> regular then Inl (irregular_text name)
          else case fv_open v name of
                 Inl e \<Rightarrow> Inl e
               | Inr (j, c) \<Rightarrow> if i \<noteq> j then Inl (swapped_text name) else Inr (sha c))"

fun sum_lines :: "(string \<Rightarrow> string) \<Rightarrow> file_view \<Rightarrow> string list \<Rightarrow> string + string" where
  "sum_lines sha v [] = Inr ''''"
| "sum_lines sha v (n # ns) =
     (case rootFileSum sha v n of
        Inl e \<Rightarrow> Inl e
      | Inr s \<Rightarrow> case sum_lines sha v ns of Inl e \<Rightarrow> Inl e | Inr t \<Rightarrow> Inr (s @ ''  '' @ n @ [NL] @ t))"

text \<open>\<open>WriteSumsIn\<close>: the error, or the text that replaces \<open>SHA256SUMS\<close>.\<close>

definition walk_text :: string where
  [text_defs]: "walk_text = ''the directory cannot be read''"

definition WriteSumsIn :: "(string \<Rightarrow> string) \<Rightarrow> file_view \<Rightarrow> (string \<times> node) list \<Rightarrow> string + string" where
  "WriteSumsIn sha v es =
     (case listFS es of (ns, ok) \<Rightarrow> if \<not> ok then Inl walk_text else sum_lines sha v ns)"

text \<open>\<open>OpenDir\<close>: what \<open>Lstat\<close> says of the path (identity, directory), and what was opened.\<close>

definition not_dir_text :: "string \<Rightarrow> string" where
  [text_defs]: "not_dir_text d = ''bundle: '' @ d @ '' is not a directory (symlinks are refused)''"

definition OpenDir :: "string + nat \<times> bool \<Rightarrow> string + nat option \<Rightarrow> string \<Rightarrow> string + nat" where
  "OpenDir lstat opened dir =
     (case lstat of
        Inl e \<Rightarrow> Inl e
      | Inr (i, isdir) \<Rightarrow>
          if \<not> isdir then Inl (not_dir_text dir)
          else case opened of
                 Inl e \<Rightarrow> Inl e
               | Inr j \<Rightarrow> if j = Some i then Inr i else Inl (swapped_text dir))"

definition WriteSums :: "(string \<Rightarrow> string) \<Rightarrow> string + nat \<times> bool \<Rightarrow> string + nat option \<Rightarrow> file_view \<Rightarrow> (string \<times> node) list \<Rightarrow> string \<Rightarrow> string + string" where
  "WriteSums sha lstat opened v es dir =
     (case OpenDir lstat opened dir of Inl e \<Rightarrow> Inl e | Inr i \<Rightarrow> WriteSumsIn sha v es)"

text \<open>\<open>strings.Cut(l, "  ")\<close>, and \<open>filepath.IsLocal\<close> on Unix.\<close>

fun cut_blanks :: "string \<Rightarrow> (string \<times> string) option" where
  "cut_blanks (a # b # s) =
     (if a = CHR '' '' \<and> b = CHR '' '' then Some ('''', s)
      else map_option (\<lambda>(x, y). (a # x, y)) (cut_blanks (b # s)))"
| "cut_blanks s = None"

fun stays_inside :: "nat \<Rightarrow> string list \<Rightarrow> bool" where
  "stays_inside d [] \<longleftrightarrow> True"
| "stays_inside d (p # ps) \<longleftrightarrow>
     (if p = '''' \<or> p = ''.'' then stays_inside d ps
      else if p = ''..'' then (case d of 0 \<Rightarrow> False | Suc d' \<Rightarrow> stays_inside d' ps)
      else stays_inside (Suc d) ps)"

definition IsLocal :: "string \<Rightarrow> bool" where
  "IsLocal p \<longleftrightarrow> p \<noteq> '''' \<and> hd p \<noteq> CHR ''/'' \<and> stays_inside 0 (split_at (CHR ''/'') p)"

definition outside_text :: "string \<Rightarrow> string" where
  [text_defs]: "outside_text n = n @ '': path outside the bundle''"
definition differs_text :: "string \<Rightarrow> string" where
  [text_defs]: "differs_text n = n @ '': checksum differs''"
definition unlisted_text :: "string \<Rightarrow> string" where
  [text_defs]: "unlisted_text n = n @ '': not in SHA256SUMS''"
definition no_sums_text :: "string \<Rightarrow> string" where
  [text_defs]: "no_sums_text e = ''SHA256SUMS missing: '' @ e"

text \<open>\<open>VerifySums\<close>: \<open>found\<close> is the list read, \<open>opn\<close> opens a file below the directory.\<close>

fun verify_lines :: "(string \<Rightarrow> string) \<Rightarrow> (string \<Rightarrow> string + string) \<Rightarrow> string list \<Rightarrow> string list \<times> string list" where
  "verify_lines sha opn [] = ([], [])"
| "verify_lines sha opn (l # ls) =
     (let (listed, probs) = verify_lines sha opn ls
      in case cut_blanks l of
           None \<Rightarrow> (listed, probs)
         | Some (digest, name) \<Rightarrow>
             (name # listed,
              (if \<not> IsLocal name then [outside_text name]
               else case opn name of
                      Inl e \<Rightarrow> [name @ '': '' @ e]
                    | Inr c \<Rightarrow> if sha c \<noteq> digest then [differs_text name] else []) @ probs))"

definition VerifySums :: "(string \<Rightarrow> string) \<Rightarrow> string + string \<Rightarrow> (string \<Rightarrow> string + string) \<Rightarrow> (string \<times> node) list \<Rightarrow> string list" where
  "VerifySums sha found opn es =
     (case found of
        Inl e \<Rightarrow> [no_sums_text e]
      | Inr t \<Rightarrow>
          (let (listed, probs) = verify_lines sha opn (split_at NL (trim_space t))
           in probs @ map unlisted_text (filter (\<lambda>n. n \<notin> set listed) (fst (listFS es)))))"

section \<open>Reading a bundle\<close>

text \<open>A decoded CSV text: its rows up to the end or an error of the decoder.\<close>

type_synonym csv_data = "string list list \<times> string option"

text \<open>\<open>ScanTimes\<close>: the times handed over before the error or the end.\<close>

definition no_column_text :: string where
  [text_defs]: "no_column_text = ''samples.csv without a t_iso column''"
definition bad_time_text :: "nat \<Rightarrow> string \<Rightarrow> string" where
  [text_defs]: "bad_time_text n v = ''line '' @ itoa (int n) @ '': t_iso '' @ fmt_q v"

fun scan_rows :: "nat \<Rightarrow> nat \<Rightarrow> string list list \<Rightarrow> string option \<Rightarrow> nanos list \<times> string option" where
  "scan_rows col n [] err = ([], err)"
| "scan_rows col n (row # rows) err =
     (if length row \<le> col \<or> trim_space (row ! col) = '''' then scan_rows col (Suc n) rows err
      else case parse_rfc3339 (trim_space (row ! col)) of
             None \<Rightarrow> ([], Some (bad_time_text n (row ! col)))
           | Some t \<Rightarrow> (let (ts, e) = scan_rows col (Suc n) rows err in (t # ts, e)))"

definition ScanTimes :: "csv_data \<Rightarrow> nanos list \<times> string option" where
  "ScanTimes d =
     (case d of
        ([], err) \<Rightarrow> ([], err)
      | (header # rows, err) \<Rightarrow>
          (case column header ''t_iso'' of
             None \<Rightarrow> ([], Some no_column_text)
           | Some col \<Rightarrow> scan_rows col 2 rows err))"

definition bad_line_text :: "nat \<Rightarrow> string \<Rightarrow> string" where
  [text_defs]: "bad_line_text n e = ''line '' @ itoa (int n) @ '': '' @ e"

fun read_rows :: "string list \<Rightarrow> nat \<Rightarrow> string list list \<Rightarrow> string option \<Rightarrow> string + Sample list" where
  "read_rows header n [] err = (case err of None \<Rightarrow> Inr [] | Some e \<Rightarrow> Inl e)"
| "read_rows header n (row # rows) err =
     (case ParseRow header row of
        Inl e \<Rightarrow> Inl (bad_line_text n e)
      | Inr s \<Rightarrow> case read_rows header (Suc n) rows err of Inl e \<Rightarrow> Inl e | Inr ss \<Rightarrow> Inr (s # ss))"

definition ReadSamples :: "csv_data \<Rightarrow> string + Sample list" where
  "ReadSamples d =
     (case d of ([], None) \<Rightarrow> Inr [] | ([], Some e) \<Rightarrow> Inl e | (header # rows, err) \<Rightarrow> read_rows header 2 rows err)"

text \<open>
  \<open>Load\<close>: the files read (\<open>None\<close>: missing or unreadable), the decoder of meta.json, samples.csv as
  missing, unreadable or decoded.
\<close>

record 'm Loaded =
  lo_Dir :: string
  lo_MetaRaw :: string
  lo_Meta :: "'m option"
  lo_Samples :: "Sample list"
  lo_Events :: "string list"
  lo_VerdictRaw :: string
  lo_SumProblems :: "string list"

datatype samples_file = SamplesMissing | SamplesError string | SamplesRows csv_data

definition event_lines :: "string \<Rightarrow> string list" where
  "event_lines b = filter (\<lambda>s. s \<noteq> '''') (split_at NL (trim_right NL b))"

definition meta_text :: "string \<Rightarrow> string" where
  [text_defs]: "meta_text e = ''bundle: meta.json: '' @ e"
definition samples_text :: "string \<Rightarrow> string" where
  [text_defs]: "samples_text e = ''bundle: samples.csv: '' @ e"
definition no_dir_text :: "string \<Rightarrow> string" where
  [text_defs]: "no_dir_text d = ''bundle: '' @ d @ '' is not a directory''"

definition Load :: "(string \<Rightarrow> string + 'm) \<Rightarrow> (string \<Rightarrow> string option) \<Rightarrow> samples_file \<Rightarrow> bool \<Rightarrow> string list \<Rightarrow> string \<Rightarrow> string + 'm Loaded" where
  "Load json files smp isdir problems dir =
     (if \<not> isdir then Inl (no_dir_text dir)
      else
        (let raw = (\<lambda>n. case files n of None \<Rightarrow> '''' | Some b \<Rightarrow> b);
             rest = (\<lambda>m. case (case smp of SamplesMissing \<Rightarrow> Inr [] | SamplesError e \<Rightarrow> Inl e
                                | SamplesRows d \<Rightarrow> (case ReadSamples d of Inl e \<Rightarrow> Inl (samples_text e) | Inr ss \<Rightarrow> Inr ss)) of
                        Inl e \<Rightarrow> Inl e
                      | Inr ss \<Rightarrow>
                          Inr \<lparr> lo_Dir = dir, lo_MetaRaw = raw MetaName, lo_Meta = m, lo_Samples = ss,
                                lo_Events = (case files EventsName of None \<Rightarrow> [] | Some b \<Rightarrow> event_lines b),
                                lo_VerdictRaw = raw VerdictName, lo_SumProblems = problems \<rparr>)
         in case files MetaName of
              None \<Rightarrow> rest None
            | Some b \<Rightarrow> case json b of Inl e \<Rightarrow> Inl (meta_text e) | Inr m \<Rightarrow> rest (Some m)))"

end
