(* ===== verification/Bundle_Facts.thy ===== *)
theory Bundle_Facts
  imports Bundle
begin

text \<open>
  What the checksums of a bundle detect, and that a file of it is replaced as a whole or not at all.
\<close>

section \<open>Atomic writes\<close>

lemma write_states_all_or_nothing:
  assumes "d' \<in> set (write_states fault d tmp p c)" "tmp \<noteq> p"
  shows "d' p = d p \<or> d' p = Some c" "q \<noteq> p \<Longrightarrow> q \<noteq> tmp \<Longrightarrow> d' q = d q"
  using assms by (auto simp: write_states_def Let_def split: option.splits write_failure.splits if_splits)

lemma write_states_last:
  assumes "tmp \<noteq> p" "d tmp = None"
  shows "last (write_states fault d tmp p c) = (if write_error fault then d else d(p \<mapsto> c))"
  using assms by (auto simp: write_states_def write_error_def Let_def fun_eq_iff split: option.splits write_failure.splits)

lemma free_temp_free: "free_temp d name pid clock = Some t \<Longrightarrow> d t = None \<and> has_prefix (''.'' @ name) t"
  unfolding free_temp_def by (drule find_SomeD) (auto simp: temp_name_def has_prefix_def)

section \<open>Names\<close>

definition entry_name :: "string \<Rightarrow> bool" where
  "entry_name n \<longleftrightarrow> n \<noteq> '''' \<and> CHR ''/'' \<notin> set n \<and> NL \<notin> set n \<and> \<not> is_space (last n)"

function entries_ok :: "(string \<times> node) list \<Rightarrow> bool" where
  "entries_ok [] \<longleftrightarrow> True"
| "entries_ok ((n, x) # es) \<longleftrightarrow> entry_name n \<and> entries_ok es \<and> (case x of NDir sub \<Rightarrow> entries_ok sub | _ \<Rightarrow> True)"
  by pat_completeness auto
termination by (relation "measure (\<lambda>es. size_list (size_prod (\<lambda>x. 0) size) es)") auto

definition visible_name :: "string \<Rightarrow> bool" where
  "visible_name n \<longleftrightarrow> entry_name n \<and> \<not> has_prefix ''.'' n"

definition path_of :: "string list \<Rightarrow> string" where
  "path_of cs = joins ''/'' cs"

lemma path_of_Cons: "cs \<noteq> [] \<Longrightarrow> path_of (c # cs) = c @ ''/'' @ path_of cs"
  by (cases cs) (simp_all add: path_of_def)

definition below :: "string \<Rightarrow> string \<Rightarrow> bool" where
  "below pre p \<longleftrightarrow> (\<exists>cs. p = pre @ path_of cs \<and> cs \<noteq> [] \<and> list_all visible_name cs)"

lemma below_name: "visible_name n \<Longrightarrow> below pre (pre @ n)"
  unfolding below_def by (rule exI [of _ "[n]"]) (simp add: path_of_def)

lemma below_dir: "visible_name n \<Longrightarrow> below (pre @ n @ ''/'') p \<Longrightarrow> below pre p"
  unfolding below_def by (metis append.assoc list.discI list.pred_inject(2) path_of_Cons)

lemma listed_dir:
  "p \<in> set (fst (list_nodes pre ((n, NDir sub) # es))) \<Longrightarrow> \<not> has_prefix ''.'' n \<Longrightarrow>
     p \<in> set (fst (list_nodes (pre @ n @ ''/'') sub)) \<or> snd (list_nodes (pre @ n @ ''/'') sub) \<and> p \<in> set (fst (list_nodes pre es))"
  by (auto split: prod.splits bool.splits)

lemma listed_file:
  "p \<in> set (fst (list_nodes pre ((n, NFile c) # es))) \<Longrightarrow> \<not> has_prefix ''.'' n \<Longrightarrow>
     p = pre @ n \<or> p \<in> set (fst (list_nodes pre es))"
  by (auto split: prod.splits if_splits)

lemma listed_below: "entries_ok es \<Longrightarrow> p \<in> set (fst (list_nodes pre es)) \<Longrightarrow> below pre p"
proof (induction pre es rule: list_nodes.induct)
  case (2 pre n x es)
  show ?case
  proof (cases "has_prefix ''.'' n")
    case True
    with 2 show ?thesis by simp
  next
    case vis: False
    then have n: "visible_name n" using 2(6) by (simp add: visible_name_def)
    show ?thesis
    proof (cases x)
      case (NFile c)
      then show ?thesis using listed_file [of p pre n c es] 2 n vis below_name [OF n, of pre] by auto
    next
      case (NDir sub)
      obtain a ok where a: "list_nodes (pre @ n @ ''/'') sub = (a, ok)" by fastforce
      show ?thesis using listed_dir [of p pre n sub es] 2 n vis below_dir [OF n, of pre p] NDir a by (cases ok) auto
    qed (use vis 2 in auto)
  qed
qed simp

lemma split_path_of: "list_all entry_name cs \<Longrightarrow> cs \<noteq> [] \<Longrightarrow> split_at (CHR ''/'') (path_of cs) = cs"
proof (induction cs)
  case (Cons c cs)
  then have c: "CHR ''/'' \<notin> set c" by (simp add: entry_name_def)
  show ?case
  proof (cases "cs = []")
    case True
    then show ?thesis using c by (simp add: path_of_def split_at_one)
  next
    case False
    then show ?thesis using Cons split_at_app [OF c, of "path_of cs"] by (simp add: path_of_Cons)
  qed
qed simp

lemma stays_inside_words: "list_all visible_name cs \<Longrightarrow> stays_inside d cs"
  by (induction cs arbitrary: d) (auto simp: visible_name_def has_prefix_def)

lemma visible_entry: "list_all visible_name cs \<Longrightarrow> list_all entry_name cs"
  by (auto simp: list_all_iff visible_name_def)

lemma path_of_chars: "cs \<noteq> [] \<Longrightarrow> list_all entry_name cs \<Longrightarrow> path_of cs \<noteq> '''' \<and> hd (path_of cs) \<noteq> CHR ''/'' \<and>
    NL \<notin> set (path_of cs) \<and> \<not> is_space (last (path_of cs))"
proof (induction cs)
  case (Cons c cs)
  have c: "c \<noteq> '''' \<and> CHR ''/'' \<notin> set c \<and> NL \<notin> set c \<and> \<not> is_space (last c)" using Cons by (simp add: entry_name_def)
  then have h: "hd c \<noteq> CHR ''/''" by (cases c) auto
  show ?case
  proof (cases "cs = []")
    case True
    then show ?thesis using c h by (simp add: path_of_def)
  next
    case False
    then show ?thesis using Cons c h by (auto simp: path_of_Cons NL_def)
  qed
qed simp

lemma listed_name:
  assumes "entries_ok es" "n \<in> set (fst (listFS es))"
  shows "IsLocal n" "n \<noteq> ''''" "NL \<notin> set n" "\<not> is_space (last n)"
proof -
  have "n \<in> set (fst (list_nodes '''' es))" using assms(2) by (auto simp: listFS_def split: prod.splits)
  then have "below '''' n" using listed_below [OF assms(1), of n "''''"] by simp
  then obtain cs where cs: "n = path_of cs" "cs \<noteq> []" "list_all visible_name cs" unfolding below_def by auto
  note e = visible_entry [OF cs(3)]
  show "IsLocal n" "n \<noteq> ''''" "NL \<notin> set n" "\<not> is_space (last n)"
    using path_of_chars [OF cs(2) e] split_path_of [OF e cs(2)] stays_inside_words [OF cs(3)] by (auto simp: cs(1) IsLocal_def)
qed

section \<open>The list of checksums\<close>

text \<open>\<open>hex.EncodeToString\<close> of a digest.\<close>

definition digest_ok :: "(string \<Rightarrow> string) \<Rightarrow> bool" where
  "digest_ok sha \<longleftrightarrow> (\<forall>c. sha c \<noteq> '''' \<and> list_all hex_char (sha c))"

definition sum_line :: "(string \<Rightarrow> string) \<Rightarrow> string \<times> string \<Rightarrow> string" where
  "sum_line sha nc = sha (snd nc) @ ''  '' @ fst nc"

lemma sum_lines_form:
  "sum_lines sha v ns = Inr t \<Longrightarrow>
     \<exists>cs. length cs = length ns \<and> (\<forall>(n, c) \<in> set (zip ns cs). \<exists>i. fv_lstat v n = Inr (i, True) \<and> fv_open v n = Inr (i, c)) \<and>
       t = concat (map (\<lambda>nc. sum_line sha nc @ [NL]) (zip ns cs))"
proof (induction ns arbitrary: t)
  case (Cons n ns)
  obtain s where s: "rootFileSum sha v n = Inr s" using Cons.prems by (auto split: sum.splits)
  then obtain i c where c: "fv_lstat v n = Inr (i, True)" "fv_open v n = Inr (i, c)" "s = sha c"
    by (auto simp: rootFileSum_def split: sum.splits if_splits)
  obtain u where u: "sum_lines sha v ns = Inr u" "t = s @ ''  '' @ n @ [NL] @ u"
    using Cons.prems s by (auto split: sum.splits)
  from Cons.IH [OF u(1)] obtain cs where "length cs = length ns"
    "\<forall>(n, c) \<in> set (zip ns cs). \<exists>i. fv_lstat v n = Inr (i, True) \<and> fv_open v n = Inr (i, c)"
    "u = concat (map (\<lambda>nc. sum_line sha nc @ [NL]) (zip ns cs))" by blast
  then show ?case using c u(2) by (intro exI [of _ "c # cs"]) (auto simp: sum_line_def)
qed simp

lemma hex_char_props: "hex_char c \<Longrightarrow> \<not> is_space c \<and> c \<noteq> CHR '' '' \<and> c \<noteq> NL"
  by (auto simp: hex_char_def between_def is_space_def NL_def)

lemma cut_blanks_digest: "CHR '' '' \<notin> set d \<Longrightarrow> cut_blanks (d @ ''  '' @ n) = Some (d, n)"
proof (induction d)
  case (Cons c d)
  then show ?case by (cases d) auto
qed simp

lemma trim_lines:
  assumes "list_all (\<lambda>l. l \<noteq> [] \<and> \<not> is_space (hd l) \<and> \<not> is_space (last l) \<and> NL \<notin> set l) ls" "ls \<noteq> []"
  shows "split_at NL (trim_space (concat (map (\<lambda>l. l @ [NL]) ls))) = ls"
proof -
  obtain xs x where ls: "ls = xs @ [x]" using assms(2) by (cases ls rule: rev_cases) auto
  let ?t = "concat (map (\<lambda>l. l @ [NL]) xs) @ x"
  have x: "x \<noteq> []" "\<not> is_space (last x)" "NL \<notin> set x" using assms(1) ls by auto
  have xs: "list_all (\<lambda>l. NL \<notin> set l) xs" using assms(1) ls by (auto simp: list_all_iff)
  have h: "?t \<noteq> []" "\<not> is_space (hd ?t)"
  proof -
    show "?t \<noteq> []" using x by simp
    show "\<not> is_space (hd ?t)" using assms(1) x ls by (cases xs) (auto simp: neq_Nil_conv)
  qed
  have "trim_space (?t @ [NL]) = ?t"
  proof -
    have "dropWhile is_space (?t @ [NL]) = ?t @ [NL]" using h by (cases ?t) auto
    moreover have "dropWhile is_space (rev ?t) = rev ?t"
    proof -
      have "last ?t = last x" using x by simp
      then show ?thesis using h(1) x(2) by (cases ?t rule: rev_cases) auto
    qed
    ultimately show ?thesis by (simp add: trim_space_def NL_def is_space_def)
  qed
  moreover have "split_at NL ?t = xs @ [x]"
    using xs x(3) by (induction xs) (simp_all add: split_at_app split_at_one)
  ultimately show ?thesis by (simp add: ls)
qed

definition file_problems :: "(string \<Rightarrow> string) \<Rightarrow> (string \<Rightarrow> string + string) \<Rightarrow> string \<times> string \<Rightarrow> string list" where
  "file_problems sha opn nc =
     (case opn (fst nc) of
        Inl e \<Rightarrow> [fst nc @ '': '' @ e]
      | Inr c \<Rightarrow> if sha c \<noteq> sha (snd nc) then [differs_text (fst nc)] else [])"

lemma digest_chars:
  assumes "digest_ok sha"
  shows "sha c \<noteq> ''''" "CHR '' '' \<notin> set (sha c)" "NL \<notin> set (sha c)" "\<not> is_space (hd (sha c))"
proof -
  have d: "sha c \<noteq> ''''" "\<forall>x \<in> set (sha c). hex_char x" using assms by (auto simp: digest_ok_def list_all_iff)
  then show "sha c \<noteq> ''''" "CHR '' '' \<notin> set (sha c)" "NL \<notin> set (sha c)" using hex_char_props by auto
  show "\<not> is_space (hd (sha c))" using d hd_in_set hex_char_props by blast
qed

lemma verify_lines_form:
  assumes "digest_ok sha" "list_all (\<lambda>nc. IsLocal (fst nc)) ncs"
  shows "verify_lines sha opn (map (sum_line sha) ncs) = (map fst ncs, concat (map (file_problems sha opn) ncs))"
  using assms(2)
proof (induction ncs)
  case (Cons nc ncs)
  then show ?case using cut_blanks_digest [OF digest_chars(2) [OF assms(1)], of "snd nc" "fst nc"]
    by (simp add: sum_line_def file_problems_def split: sum.split)
qed simp

lemma verify_list:
  assumes "digest_ok sha" "\<forall>nc \<in> set ncs. IsLocal (fst nc) \<and> fst nc \<noteq> '''' \<and> NL \<notin> set (fst nc) \<and> \<not> is_space (last (fst nc))"
  shows "verify_lines sha opn (split_at NL (trim_space (concat (map (\<lambda>nc. sum_line sha nc @ [NL]) ncs)))) =
     (map fst ncs, concat (map (file_problems sha opn) ncs))"
proof (cases "ncs = []")
  case True
  then show ?thesis by (simp add: trim_space_def)
next
  case False
  have "list_all (\<lambda>l. l \<noteq> [] \<and> \<not> is_space (hd l) \<and> \<not> is_space (last l) \<and> NL \<notin> set l) (map (sum_line sha) ncs)"
    using assms digest_chars [OF assms(1)] by (auto simp: list_all_iff sum_line_def NL_def)
  from trim_lines [OF this] False
  have "split_at NL (trim_space (concat (map (\<lambda>nc. sum_line sha nc @ [NL]) ncs))) = map (sum_line sha) ncs"
    by (simp add: comp_def)
  then show ?thesis using verify_lines_form [OF assms(1), of ncs opn] assms(2) by (simp add: list_all_iff)
qed

lemma file_problems_nil: "file_problems sha opn nc = [] \<longleftrightarrow> (\<exists>c. opn (fst nc) = Inr c \<and> sha c = sha (snd nc))"
  by (auto simp: file_problems_def split: sum.splits)

lemma verified_iff:
  assumes "digest_ok sha" "entries_ok es" "WriteSumsIn sha v es = Inr t"
  shows "VerifySums sha (Inr t) opn es2 = [] \<longleftrightarrow>
    (\<forall>n \<in> set (fst (listFS es)). \<exists>i c c'. fv_open v n = Inr (i, c) \<and> opn n = Inr c' \<and> sha c' = sha c) \<and>
    set (fst (listFS es2)) \<subseteq> set (fst (listFS es))"
proof -
  obtain ns where ns: "listFS es = (ns, True)" "sum_lines sha v ns = Inr t"
    using assms(3) by (auto simp: WriteSumsIn_def split: prod.splits if_splits)
  from sum_lines_form [OF ns(2)] obtain cs where cs: "length cs = length ns"
    "\<forall>(n, c) \<in> set (zip ns cs). \<exists>i. fv_lstat v n = Inr (i, True) \<and> fv_open v n = Inr (i, c)"
    "t = concat (map (\<lambda>nc. sum_line sha nc @ [NL]) (zip ns cs))" by blast
  have names: "\<forall>nc \<in> set (zip ns cs). IsLocal (fst nc) \<and> fst nc \<noteq> '''' \<and> NL \<notin> set (fst nc) \<and> \<not> is_space (last (fst nc))"
    using listed_name [OF assms(2)] ns(1) by (auto dest!: set_zip_leftD)
  have fst_set: "set (map fst (zip ns cs)) = set ns" using cs(1) by (simp only: map_fst_zip)
  have "VerifySums sha (Inr t) opn es2 = [] \<longleftrightarrow>
      (\<forall>nc \<in> set (zip ns cs). \<exists>c'. opn (fst nc) = Inr c' \<and> sha c' = sha (snd nc)) \<and> set (fst (listFS es2)) \<subseteq> set ns"
    unfolding cs(3) VerifySums_def by (simp only: sum.case verify_list [OF assms(1) names] prod.case Let_def)
      (auto simp: file_problems_nil filter_empty_conv fst_set [simplified])
  moreover have "(\<forall>nc \<in> set (zip ns cs). \<exists>c'. opn (fst nc) = Inr c' \<and> sha c' = sha (snd nc)) \<longleftrightarrow>
      (\<forall>n \<in> set ns. \<exists>i c c'. fv_open v n = Inr (i, c) \<and> opn n = Inr c' \<and> sha c' = sha c)" (is "?L \<longleftrightarrow> ?R")
  proof
    assume l: ?L
    show ?R
    proof
      fix n assume "n \<in> set ns"
      then obtain c where "(n, c) \<in> set (zip ns cs)" using cs(1) fst_set by (metis in_set_impl_in_set_zip1)
      then show "\<exists>i c c'. fv_open v n = Inr (i, c) \<and> opn n = Inr c' \<and> sha c' = sha c" using cs(2) l by fastforce
    qed
  next
    assume r: ?R
    then show ?L using cs(2) by (fastforce dest: set_zip_leftD)
  qed
  ultimately show ?thesis by (simp add: ns(1))
qed

section \<open>The name of a bundle\<close>

lemma safe_digits: "list_all safe_char (nat_digits n)"
proof (induction n rule: nat_digits.induct)
  case (1 n)
  have d: "safe_char (digit_char k)" if "k < 10" for k
    using that by (simp add: safe_char_def alnum_def between_def of_char_digit)
  show ?case using 1 d by (cases "n < 10") (simp_all add: nat_digits.simps [of n])
qed

lemma safe_itoa: "list_all safe_char (itoa i)"
proof -
  have "safe_char (CHR ''-'')" by (simp add: safe_char_def)
  then show ?thesis by (simp add: itoa_def safe_digits)
qed

lemma safe_pad: "list_all safe_char s \<Longrightarrow> list_all safe_char (pad_left w (CHR ''0'') s)"
proof -
  have "safe_char (CHR ''0'')" by (simp add: safe_char_def alnum_def between_def)
  then show "list_all safe_char s \<Longrightarrow> ?thesis" by (auto simp: pad_left_def list_all_iff)
qed

lemma safe_replace: "list_all safe_char (replace_unsafe b s)"
proof -
  have "safe_char (CHR ''_'')" by (simp add: safe_char_def)
  then show ?thesis by (induction b s rule: replace_unsafe.induct) auto
qed

lemma safe_clean: "list_all safe_char (clean_name s)" "clean_name s \<noteq> ''''"
proof -
  have "list_all safe_char ''unknown''" by code_simp
  then show "list_all safe_char (clean_name s)" using safe_replace by (simp add: clean_name_def Let_def)
qed (simp add: clean_name_def Let_def)

lemma safe_DirName: "list_all safe_char (DirName t board bios test)"
proof -
  have m: "safe_char (CHR ''-'')" by (simp add: safe_char_def)
  have "list_all safe_char (minute_stamp t)"
    using m by (simp add: minute_stamp_def Let_def pad2_def safe_pad safe_itoa split: prod.split)
  then show ?thesis using m by (simp add: DirName_def safe_clean)
qed

end
