(* ===== verification/Guard_Properties.thy ===== *)
theory Guard_Properties
  imports Writer_Lock Session Boards Snapshot_Facts Bundle_Facts Hw_Read
begin

text \<open>
  The properties of what surrounds a run: who may write (the writer lock, the session, the gate of
  the board), what is stored (the redactor, snapshots, bundles) and what is read.
\<close>

section \<open>Who may write\<close>

text \<open>A process that would write: it holds a lock whose \<open>Verify\<close> succeeds.\<close>

fun verified :: "lock_sys \<Rightarrow> holder \<Rightarrow> bool" where
  "verified s (Holding l) = (Verify l s = None)"
| "verified s _ = False"

lemma verified_description:
  assumes "lock_inv R (s, hs, U)" "h \<in> set hs" "verified s h" "description s h \<notin> Some ` U"
  shows "\<exists>i d. ls_file s (lock_path R) = Some i \<and> description s h = Some d \<and> ls_inode s d = i \<and> ls_held s i = Some d"
proof -
  obtain l where h: "h = Holding l" using assms(3) by (cases h) auto
  then have p: "lk_path l = lock_path R" using lock_invD(3) [OF assms(1,2)] by simp
  obtain f d where d: "lk_f l = Some f" "map_of (ls_open s) f = Some d" "locks s d"
    using lock_invD(4) [OF assms(1,2)] assms(4) h by (fastforce simp: holder_ok_def description_fd)
  then have "description s h = Some d" using h by (simp add: description_def)
  then show ?thesis using assms(3) h p d by (auto simp: Verify_def locks_def split: option.splits if_splits)
qed

lemma distinct_one:
  assumes "distinct (map f xs)" "\<And>x. x \<in> set xs \<Longrightarrow> f x = c"
  shows "length xs \<le> 1"
proof (cases xs)
  case (Cons x ys)
  then show ?thesis using assms by (cases ys) auto
qed simp

lemma owner_not_unlocked:
  "lock_inv R (s, hs, U) \<Longrightarrow> h \<in> set hs \<Longrightarrow> owner h \<Longrightarrow> description s h \<notin> Some ` U"
  using lock_invD(4) by (fastforce simp: holder_ok_def)

lemma owners_distinct: "sorted_wrt (apart s) hs \<Longrightarrow> distinct (map (description s) (filter owner hs))"
  by (induction hs) (auto simp: apart_def)

lemma verified_owners:
  assumes "lock_inv R (s, hs, U)"
  shows "length (filter (\<lambda>h. owner h \<and> verified s h) hs) \<le> 1"
proof -
  let ?vs = "filter (verified s) (filter owner hs)"
  have "distinct (map (description s) ?vs)" using owners_distinct [OF lock_invD(5) [OF assms]] by (rule distinct_map_filter)
  moreover have "description s h = (case ls_file s (lock_path R) of None \<Rightarrow> None | Some i \<Rightarrow> ls_held s i)" if "h \<in> set ?vs" for h
    using verified_description [OF assms, of h] owner_not_unlocked [OF assms, of h] that by auto
  ultimately have "length ?vs \<le> 1" by (rule distinct_one)
  then show ?thesis by (simp add: conj_commute)
qed

text \<open>A lock got while the file at the path is locked by another description is on another file.\<close>

lemma other_flock:
  assumes "ls_file s p = Some i" "ls_held s i = Some d" "map_of (ls_open s) f = Some e" "d \<noteq> e"
    "flock_ex v f s = (Locked, s')"
  shows "ls_file s' p = Some i" "map_of (ls_open s') f = Some e" "ls_inode s' e \<noteq> i"
  using assms by (auto simp: flock_ex_def split: option.splits if_splits)

lemma late_lock_fails:
  assumes i: "lock_inv R (s, hs, U)" "h \<in> set hs" "verified s h" "description s h \<notin> Some ` U" "Opened f \<in> set hs"
    and t: "take_lock v R who f s = (Inr l, s')"
  shows "Verify l s' \<noteq> None"
  using t
proof (cases rule: take_lock_cases)
  case (got s2)
  obtain n d where d: "ls_file s (lock_path R) = Some n" "description s h = Some d" "ls_inode s d = n" "ls_held s n = Some d"
    using verified_description [OF i(1-4)] by blast
  obtain e where e: "map_of (ls_open s) f = Some e" "description s (Opened f) = Some e"
    using lock_inv_old [OF i(1,5)] by auto
  have "h \<noteq> Opened f" using i(3) by auto
  then have "d \<noteq> e" using lock_inv_apart [of R s _ "Opened f" _ U h] i(1,2) split_list [OF i(5)] d(2) e(2)
    by (fastforce simp: apart_def)
  note o = other_flock [OF d(1,4) e(1) this got(1)]
  show ?thesis using o got(2,3) by (auto simp: Verify_def set_text_def)
qed simp

lemma Acquire_refused:
  assumes i: "lock_inv R (s, hs, U)" "h \<in> set hs" "verified s h" "description s h \<notin> Some ` U"
  shows "fst (Acquire v R who s) \<noteq> Inr l"
proof
  assume a: "fst (Acquire v R who s) = Inr l"
  obtain f s1 s2 where o: "open_lock v R s = (Inr f, s1)" "take_lock v R who f s1 = (Inr l, s2)"
    using a by (auto simp: Acquire_def split: prod.splits sum.splits) (metis prod.collapse)
  note n = open_lock_new [OF o(1)]
  obtain k d where d: "ls_file s (lock_path R) = Some k" "description s h = Some d" "ls_inode s d = k" "ls_held s k = Some d"
    using verified_description [OF i] by blast
  then have "d \<noteq> f" using lock_inv_old [OF i(1,2)] n(2) by auto
  moreover have "ls_file s1 (lock_path R) = Some k" unfolding n(1) using d(1) by (simp add: open_create_def Let_def)
  with n(5) have "ls_inode s1 f = k" by simp
  ultimately show False using o(2) d(4) n(4,6)
    by (auto simp: take_lock_def flock_ex_def Let_def split: prod.splits option.splits if_splits)
qed

text \<open>C2: One writer. Processes open the lock file, take the lock, hand it down, adopt and release it one system call at a time, are killed, and the file is removed or replaced, in any order. Then at most one process that acquired the lock itself passes Verify; all processes that pass it share one description of the file, those aside that inherited a lock its owner has unlocked since (which no owner has); and while one of them passes it, a whole Acquire gives no lock, and one that had opened the file before gets a lock that does not pass Verify.\<close>
theorem writer_exclusive:
  assumes "(lock_step R)\<^sup>*\<^sup>* (boot_sys, [], {}) (s, hs, U)"
  shows "length (filter (\<lambda>h. owner h \<and> verified s h) hs) \<le> 1 \<and>
    (\<forall>h \<in> set hs. owner h \<longrightarrow> description s h \<notin> Some ` U) \<and>
    (let writers = filter (\<lambda>h. verified s h \<and> description s h \<notin> Some ` U) hs
     in (\<forall>g \<in> set writers. \<forall>h \<in> set writers. description s g = description s h) \<and>
        (writers \<noteq> [] \<longrightarrow>
           (\<forall>v who l. fst (Acquire v R who s) \<noteq> Inr l) \<and>
           (\<forall>v who f l s'. Opened f \<in> set hs \<and> take_lock v R who f s = (Inr l, s') \<longrightarrow> Verify l s' \<noteq> None)))"
proof -
  have i: "lock_inv R (s, hs, U)" using lock_reachable_inv [OF assms] .
  have one: "description s g = description s h"
    if "g \<in> set hs" "verified s g" "description s g \<notin> Some ` U" "h \<in> set hs" "verified s h" "description s h \<notin> Some ` U" for g h
    using verified_description [OF i that(1-3)] verified_description [OF i that(4-6)] by auto
  show ?thesis
    using verified_owners [OF i] owner_not_unlocked [OF i] one Acquire_refused [OF i] late_lock_fails [OF i]
    by (auto simp: Let_def filter_empty_conv)
qed

text \<open>
  The order of the two system calls of \<open>Acquire\<close> that gives two locks: the file is opened, removed,
  acquired by another process, and then the first descriptor is locked. Its lock does not pass \<open>Verify\<close>.
\<close>

definition free_env :: lock_env where
  "free_env = \<lparr> le_mkdir = None, le_open = None, le_flock = None, le_pid = 1, le_now = '''' \<rparr>"

definition late_sys :: "nat \<times> lock_sys" where
  "late_sys =
     (let R = ''/run''; (r, s1) = open_lock free_env R boot_sys; (r2, s2) = open_lock free_env R (unlink (lock_path R) s1)
      in case r2 of Inl e \<Rightarrow> (0, s2) | Inr g \<Rightarrow> (g, snd (take_lock free_env R ''n5-fangov'' g s2)))"

theorem writer_exclusive_witness:
  "case take_lock free_env ''/run'' ''n5-ectest'' 1 (snd late_sys) of
     (Inl e, s) \<Rightarrow> False
   | (Inr l, s) \<Rightarrow> Verify l s \<noteq> None \<and> Verify \<lparr> lk_f = Some (fst late_sys), lk_path = lock_path ''/run'', lk_adopted = False \<rparr> (snd late_sys) = None"
proof -
  let ?R = "''/run''"
  define s1 where "s1 = snd (open_lock free_env ?R boot_sys)"
  define s1' where "s1' = unlink (lock_path ?R) s1"
  define s2 where "s2 = snd (open_lock free_env ?R s1')"
  define s3 where "s3 = snd (take_lock free_env ?R ''n5-fangov'' 3 s2)"
  note defs = open_lock_def free_env_def open_create_def boot_sys_def new_file_def unlink_def flock_ex_def take_lock_def set_text_def Let_def
  let ?l = "\<lparr> lk_f = Some 3, lk_path = lock_path ?R, lk_adopted = False \<rparr>"
  have o1: "open_lock free_env ?R boot_sys = (Inr 1, s1)" unfolding s1_def by (simp add: defs)
  have o2: "open_lock free_env ?R s1' = (Inr 3, s2)" unfolding s2_def s1'_def s1_def by (simp add: defs)
  have t: "take_lock free_env ?R ''n5-fangov'' 3 s2 = (Inr ?l, s3)" unfolding s3_def s2_def s1'_def s1_def by (simp add: defs)
  have late: "late_sys = (3, s3)" using o1 o2 t by (simp add: late_sys_def s1'_def)
  have v: "Verify ?l s3 = None" unfolding s3_def s2_def s1'_def s1_def by (simp add: defs Verify_def)
  obtain l s where q: "take_lock free_env ?R ''n5-ectest'' 1 s3 = (Inr l, s)"
    unfolding s3_def s2_def s1'_def s1_def by (simp add: defs)
  have d: "description s3 (Holding ?l) = Some 3" unfolding s3_def s2_def s1'_def s1_def by (simp add: defs description_def)
  have "lock_step ?R (boot_sys, [], {}) (s1, [Opened 1], {})" by (rule lock_step.opens [OF o1])
  moreover have "lock_step ?R (s1, [Opened 1], {}) (s1', [Opened 1], {})" unfolding s1'_def by (rule lock_step.removed)
  moreover have "lock_step ?R (s1', [Opened 1], {}) (s2, [Opened 3, Opened 1], {})" by (rule lock_step.opens [OF o2])
  moreover have "lock_step ?R (s2, [Opened 3, Opened 1], {}) (s3, [Holding ?l, Opened 1], {})"
    using lock_step.takes [OF t, of "[]" "[Opened 1]" "{}"] by simp
  ultimately have "(lock_step ?R)\<^sup>*\<^sup>* (boot_sys, [], {}) (s3, [Holding ?l, Opened 1], {})" by (meson rtranclp.rtrancl_refl rtranclp.rtrancl_into_rtrancl)
  from writer_exclusive [OF this] have "Verify l s \<noteq> None" using q v d by (auto simp: Let_def)
  then show ?thesis using q v by (simp add: late)
qed

text \<open>Where a session comes from. It is local, with a console, exactly when no SSH variable is set, no ancestor of the process serves remote shells, and, inside tmux, none of an attached client does; and an ancestor has a local console, or there are attached clients and each of them has one.\<close>
theorem session_judged:
  "let own = chain fs proc 128 [] pid;
       clients = map (chain fs proc 128 []) (if getenv ''TMUX'' = '''' then [] else tmuxClients tmux);
       served = list_ex (\<lambda>(p, c, t). c \<in> set remoteParents);
       seated = list_ex (\<lambda>(p, c, t). LocalConsoleTTY t);
       s = detectSession fs proc pid getenv stdin tmux
   in se_Remote s = [] \<and> se_Console s \<longleftrightarrow>
     list_all (\<lambda>k. getenv k = '''') ssh_vars \<and> \<not> served own \<and> list_all (\<lambda>c. \<not> served c) clients \<and>
     (seated own \<or> clients \<noteq> [] \<and> list_all seated clients)"
proof -
  have r: "se_Remote (Detect fs proc p (\<lambda>k. '''') '''') = [] \<longleftrightarrow>
      \<not> list_ex (\<lambda>(p, c, t). c \<in> set remoteParents) (chain fs proc 128 [] p)" for p
    by (auto simp: Detect_remote list_all_iff list_ex_iff)
  have n: "\<not> list_ex P xs \<longleftrightarrow> list_all (\<lambda>x. \<not> P x) xs" for P :: "'x \<Rightarrow> bool" and xs by (auto simp: list_all_iff list_ex_iff)
  have own: "se_Remote (Detect fs proc pid getenv stdin) = [] \<longleftrightarrow>
      list_all (\<lambda>k. getenv k = '''') ssh_vars \<and> \<not> list_ex (\<lambda>(p, c, t). c \<in> set remoteParents) (chain fs proc 128 [] pid)"
    by (auto simp: Detect_remote list_all_iff list_ex_iff)
  show ?thesis
    by (auto simp: detectSession_def WithTmux_def Let_def judge_clients_result Detect_console own r list_all_iff list.pred_map
        split: prod.splits)
qed

text \<open>Where writing tests run. The gate gives no reason against the machine exactly when product, board and vendor are the measured ones, the repository's driver is loaded without force, its register dump is readable and the process is in no container; and no reason against the channel exactly when the driver exposes both of its files.\<close>
theorem write_gate:
  "(fst (WriteGate fs i ch) = '''' \<longleftrightarrow> measured_machine i) \<and>
   (snd (WriteGate fs i ch) = '''' \<longleftrightarrow>
     ds_HwmonPath (id_Driver i) \<noteq> '''' \<and> exists_path fs (join_path [ds_HwmonPath (id_Driver i), ''pwm'' @ itoa ch]) \<and>
     exists_path fs (join_path [ds_HwmonPath (id_Driver i), ''pwm'' @ itoa ch @ ''_enable'']))"
  by (simp only: WriteGate_board WriteGate_pwm)

section \<open>What is stored\<close>

text \<open>The replacement of MAC addresses is complete. Whatever text the redactor is given, the expression for MAC addresses matches nowhere in what the replacement returns: a placeholder forms no new address with what precedes or follows it.\<close>
theorem mac_replacement_complete:
  "\<not> has_match macRe None (redact_mac s)"
  unfolding redact_mac_def ReplaceAll_def by (rule no_mac_left) simp

text \<open>The redactor only changes what it is meant to: a text without the marks of an address, a serial number, a home directory, a mail address or a name of the host is kept as it is.\<close>
theorem redaction_keeps_text:
  assumes "plain_text r s"
  shows "Redactor_String r s = s"
  by (rule redaction_kept [OF assms])

theorem redaction_keeps_text_witness:
  "Redactor_String \<lparr> rd_hosts = [''pve''], rd_protected = [] \<rparr> ''fan2 0 rpm in 2 consecutive samples'' =
     ''fan2 0 rpm in 2 consecutive samples''"
  by (rule redaction_keeps_text) code_simp

text \<open>Two snapshots. They are compared only if both are complete dumps without unreadable bytes in the curves, and are then reported as changed exactly when a byte of a curve differs.\<close>
theorem snapshots_compared:
  "snd (Diff_Snapshots a b) =
     (if judgeable a \<and> judgeable b
      then (if \<exists>o' \<in> curve_offsets. dump_of a 1 o' \<noteq> dump_of b 1 o' then DiffChanged else DiffIdentical)
      else DiffIncomplete)"
  by (simp add: Diff_verdict)

text \<open>A dump that is written into a snapshot is read back byte for byte, and as a complete one.\<close>
theorem snapshot_roundtrip:
  assumes "length data = 256" "list_all dump_word data"
  shows "Parse_Snapshot name (ECRAMSection 1 data) =
      \<lparr> sf_Name = name, sf_ECRAM = [1 \<mapsto> put_row 0 data Map.empty], sf_I2EC = [], sf_Incomplete = '''' \<rparr> \<and>
    dump_of (Parse_Snapshot name (ECRAMSection 1 data)) 1 =
      (\<lambda>k. if 0 \<le> k \<and> k < 256 then Some (data ! nat k) else None)"
proof -
  have "map lower_char (data ! nat k) = data ! nat k" if "0 \<le> k" "k < 256" for k
    using assms that by (auto simp: list_all_length dump_word_def)
  then show ?thesis using assms(1) by (simp add: dump_read_back [OF assms] dump_of_def put_row_nth fun_eq_iff)
qed

theorem snapshot_roundtrip_witness:
  "dump_of (Parse_Snapshot ''a'' (ECRAMSection 1 (replicate 256 ''ff''))) 1 200 = Some ''ff''"
proof -
  have "dump_word ''ff''" by code_simp
  then have "list_all dump_word (replicate 256 ''ff'')" by (simp add: list_all_length)
  from conjunct2 [OF snapshot_roundtrip [OF _ this]] show ?thesis by simp
qed

text \<open>C25: What a verified bundle is. Checked against the sums written over its files, a bundle has no problem exactly when every listed file can be read and has the digest it was listed with, and the bundle has no visible file that is not listed.\<close>
theorem bundle_verified:
  assumes "digest_ok sha" "entries_ok es" "WriteSumsIn sha v es = Inr t"
  shows "VerifySums sha (Inr t) opn es2 = [] \<longleftrightarrow>
    (\<forall>n \<in> set (fst (listFS es)). \<exists>i c c'. fv_open v n = Inr (i, c) \<and> opn n = Inr c' \<and> sha c' = sha c) \<and>
    set (fst (listFS es2)) \<subseteq> set (fst (listFS es))"
  by (rule verified_iff [OF assms])

theorem bundle_verified_witness:
  "VerifySums (\<lambda>c. ''ab'') (Inr ''ab  a.txt\<newline>'') (\<lambda>n. Inr '''') [(''a.txt'', NFile ''''), (''b.txt'', NFile '''')] \<noteq> []"
proof -
  let ?es = "[(''a.txt'', NFile '''')]" and ?v = "\<lparr> fv_lstat = (\<lambda>n. Inr (1, True)), fv_open = (\<lambda>n. Inr (1, '''')) \<rparr>"
  have l: "fst (listFS ?es) = [''a.txt'']" "fst (listFS (?es @ [(''b.txt'', NFile '''')])) = [''a.txt'', ''b.txt'']" by code_simp+
  have d: "digest_ok (\<lambda>c. ''ab'')" by (simp add: digest_ok_def hex_char_def between_def)
  have e: "entries_ok ?es" by (simp add: entry_name_def is_space_def NL_def)
  have w: "WriteSumsIn (\<lambda>c. ''ab'') ?v ?es = Inr ''ab  a.txt\<newline>'' " by code_simp
  show ?thesis using bundle_verified [OF d e w, of "\<lambda>n. Inr ''''" "?es @ [(''b.txt'', NFile '''')]"] l by simp
qed

text \<open>A file is replaced as a whole. At every moment of an atomic write, also one that fails or is cut off, the file has its old or its new contents and no other file but the temporary one is touched; at the end of a failed one the directory is what it was.\<close>
theorem atomic_write:
  assumes "tmp \<noteq> p" "d tmp = None"
  shows "list_all (\<lambda>d'. (d' p = d p \<or> d' p = Some c) \<and> d' |` (- {p, tmp}) = d |` (- {p, tmp})) (write_states fault d tmp p c) \<and>
    last (write_states fault d tmp p c) = (if write_error fault then d else d(p \<mapsto> c))"
proof -
  have "(d' p = d p \<or> d' p = Some c) \<and> d' |` (- {p, tmp}) = d |` (- {p, tmp})" if "d' \<in> set (write_states fault d tmp p c)" for d'
    using write_states_all_or_nothing [OF that assms(1)] by (auto simp: restrict_map_def fun_eq_iff)
  then show ?thesis using write_states_last [where tmp = tmp and p = p and d = d, OF assms] by (simp add: list_all_iff)
qed

theorem atomic_write_witness:
  "last (write_states (Some (FailWrite 1)) [''meta.json'' \<mapsto> ''old''] ''.meta.json.tmp1'' ''meta.json'' ''new'') = [''meta.json'' \<mapsto> ''old'']"
  using atomic_write [of "''.meta.json.tmp1''" "''meta.json''" "[''meta.json'' \<mapsto> ''old'']" "''new''" "Some (FailWrite 1)"]
  by (simp add: write_error_def)

section \<open>What is read\<close>

text \<open>The temperature of a group of sensors is the highest of its readable ones, and missing exactly when there is none.\<close>
theorem highest_temperature:
  "maxTemp fs sysRoot name = max_fl (sensor_temps fs sysRoot name)"
  by (rule maxTemp_max)

end
