(* ===== verification/Log_Base.thy ===== *)
theory Log_Base
  imports Bundle Time_Parse
begin

text \<open>
  The criteria of the long-term logger and what it reads back of a run directory:
  src/ectest/internal/logger/criteria.go and the second half of events.go.
\<close>

section \<open>Criteria\<close>

definition K1MaxPerRun :: int where [const_defs]: "K1MaxPerRun = 300"
definition CheckIntervalS :: int where [const_defs]: "CheckIntervalS = 300"
definition CheckGapMaxS :: int where [const_defs]: "CheckGapMaxS = 660"
definition GapMaxS :: int where [const_defs]: "GapMaxS = 90"
definition ThTctl :: rat where [const_defs]: "ThTctl = 85"
definition ThNVMe :: rat where [const_defs]: "ThNVMe = 70"
definition ThHDD :: rat where [const_defs]: "ThHDD = 50"
definition ThECCPU :: rat where [const_defs]: "ThECCPU = 90"
definition DataMaxMB :: int where [const_defs]: "DataMaxMB = 200"
definition RootMinFreeGB :: int where [const_defs]: "RootMinFreeGB = 5"
definition AlertCooldownS :: int where [const_defs]: "AlertCooldownS = 3600"
definition AnnotWindowS :: int where [const_defs]: "AnnotWindowS = 600"
definition OutboxMaxMB :: int where [const_defs]: "OutboxMaxMB = 20"

definition FangovUnit :: string where "FangovUnit = ''n5-fangov.service''"
definition FangovNotInstalled :: string where "FangovNotInstalled = ''not-installed''"

definition Keys :: "string list" where
  "Keys = [''K1'', ''K2'', ''K3'', ''K4'', ''K5'', ''K6'', ''K7'', ''K8'']"

definition KeyText :: "string \<Rightarrow> string" where
  [text_defs]: "KeyText k =
     (if k = ''K1'' then ''kernel log: Oops/BUG/WARNING/Call Trace/hung task/soft lockup/RCU stall/watchdog/MCE/AER/NVMe reset/EC error''
      else if k = ''K2'' then ''reboot (boot ID changed)''
      else if k = ''K3'' then ''n5-fangov inactive, restart counter increased, or warnings in its journal''
      else if k = ''K4'' then ''fan at 0 rpm in two consecutive samples, a temperature limit, EC read errors or the EC hwmon missing''
      else if k = ''K5'' then ''sampler gap > 90 s''
      else if k = ''K6'' then ''data directory above its limit or free space of the log target low''
      else if k = ''K7'' then ''kernel taint changed against the start of the run''
      else if k = ''K8'' then ''the logger itself: journal unreadable, state file not written, duty registers (dcr) not readable''
      else '''')"

text \<open>The expressions of K1; \<open>.\<close> is any character but a line feed.\<close>

definition any_char :: rx where "any_char = Star (Cls (\<lambda>c. c \<noteq> NL))"

definition K1Pattern :: rx where
  "K1Pattern =
     Alts [Lit ''Oops'', Lit ''BUG:'', Lit ''WARNING:'', Lit ''kernel BUG at'', Lit ''general protection'', Lit ''Call Trace'',
           Seq [Lit ''INFO: task '', any_char, Lit '' blocked for more than''], Lit ''hung_task'', Lit ''soft lockup'',
           Lit ''hard LOCKUP'', Seq [Lit ''rcu'', any_char, Lit ''stall''], Lit ''watchdog: '', Lit ''Hardware Error'',
           Lit ''mce:'', Lit ''Machine check'', Lit ''AER:'', Lit ''PCIe Bus Error'',
           Seq [Lit ''nvme'', any_char, Alt (Lit ''timeout'') (Lit ''reset'')],
           Seq [Lit ''minisforum'', any_char,
                Alts [Seq [Lit ''time'', Opt (Lit ''d''), Opt (Lit '' ''), Lit ''out''], Lit ''fail'', Lit ''error'']]]"

definition K1Ignore :: rx where
  "K1Ignore = Alts [Lit ''NMI watchdog: Enabled'', Lit ''minisforum_n5_it5571: module verification failed'', Lit ''AER: enabled with IRQ'']"

definition K1IgnorePrevBoot :: rx where
  "K1IgnorePrevBoot = Seq [Lit ''watchdog: watchdog'', Plus (Range (CHR ''0'') (CHR ''9'')), Lit '': watchdog did not stop'']"

definition K1Hit :: "string \<Rightarrow> bool \<Rightarrow> bool" where
  "K1Hit msg prevBoot \<longleftrightarrow>
     (if \<not> has_match K1Pattern None msg \<or> has_match K1Ignore None msg then False
      else \<not> (prevBoot \<and> has_match K1IgnorePrevBoot None msg))"

section \<open>Events\<close>

record LogEvent =
  le_Time :: nanos
  le_Key :: string
  le_ID :: int
  le_Detail :: string
  le_Line :: string

text \<open>
  \<open>^(\S+) \[t_s=[0-9.-]+\] (K[0-9]) #([0-9]+) (.*)$\<close> of a line: word, key, number, detail. Each
  repetition is followed by a character it does not match, so it takes all it can.
\<close>

definition ts_char :: "char \<Rightarrow> bool" where
  "ts_char c \<longleftrightarrow> digit_val c \<noteq> None \<or> c = CHR ''.'' \<or> c = CHR ''-''"

definition match_log_line :: "string \<Rightarrow> (string \<times> string \<times> string \<times> string) option" where
  "match_log_line l =
     (let word = takeWhile (\<lambda>c. \<not> blank_char c) l; r1 = drop (length word) l
      in if word = [] \<or> \<not> has_prefix '' [t_s='' r1 then None
         else
           (let r2 = drop 6 r1; ts = takeWhile ts_char r2; r3 = drop (length ts) r2
            in if ts = [] \<or> \<not> has_prefix ''] K'' r3 then None
               else
                 (let r4 = drop 3 r3
                  in case r4 of [] \<Rightarrow> None
                     | k # r5 \<Rightarrow>
                         if digit_val k = None \<or> \<not> has_prefix '' #'' r5 then None
                         else
                           (let r6 = drop 2 r5; num = takeWhile (\<lambda>c. digit_val c \<noteq> None) r6; r7 = drop (length num) r6
                            in if num = [] \<or> \<not> has_prefix '' '' r7 \<or> NL \<in> set r7 then None
                               else Some (word, ''K'' @ [k], num, drop 1 r7)))))"

text \<open>\<open>id, _ := strconv.Atoi(...)\<close> of digits: a number out of range is the largest one.\<close>

definition event_number :: "string \<Rightarrow> int" where
  "event_number s = (case atoi s of Some n \<Rightarrow> n | None \<Rightarrow> 2 ^ 63 - 1)"

definition log_event :: "string \<Rightarrow> LogEvent option" where
  "log_event l =
     (case match_log_line l of
        None \<Rightarrow> None
      | Some (word, key, num, detail) \<Rightarrow>
          (case parse_rfc3339 word of
             None \<Rightarrow> None
           | Some t \<Rightarrow> Some \<lparr> le_Time = t, le_Key = key, le_ID = event_number num, le_Detail = detail, le_Line = l \<rparr>))"

definition ParseEventLog :: "string option \<Rightarrow> LogEvent list" where
  "ParseEventLog f = (case f of None \<Rightarrow> [] | Some b \<Rightarrow> List.map_filter log_event (split_at NL b))"

section \<open>Annotations\<close>

record Annotation =
  an_Time :: nanos
  an_Events :: "int list"
  an_Down :: bool
  an_End :: nanos
  an_Text :: string
  an_Raw :: string

definition annotation_of :: "string \<Rightarrow> Annotation option" where
  "annotation_of raw =
     (case Fields raw of
        f0 # f1 # rest \<Rightarrow>
          if has_prefix ''#'' f0 then None
          else (case parse_rfc3339 f0 of
                  None \<Rightarrow> None
                | Some t \<Rightarrow>
                    if f1 = ''DOWN'' then
                      (case rest of [] \<Rightarrow> None
                       | f2 # words \<Rightarrow> (case parse_rfc3339 f2 of None \<Rightarrow> None
                           | Some e \<Rightarrow> Some \<lparr> an_Time = t, an_Events = [], an_Down = True, an_End = e,
                                              an_Text = joins '' '' words, an_Raw = raw \<rparr>))
                    else Some \<lparr> an_Time = t, an_Events = List.map_filter (\<lambda>r. atoi (trim_prefix ''#'' r)) (split_at (CHR '','') f1),
                                an_Down = False, an_End = zero_time, an_Text = joins '' '' rest, an_Raw = raw \<rparr>)
      | _ \<Rightarrow> None)"

definition ParseAnnotations :: "string option \<Rightarrow> Annotation list" where
  "ParseAnnotations f = (case f of None \<Rightarrow> [] | Some b \<Rightarrow> List.map_filter annotation_of (split_at NL b))"

definition explains :: "LogEvent \<Rightarrow> Annotation \<Rightarrow> bool" where
  "explains e a \<longleftrightarrow> le_ID e \<in> set (an_Events a) \<or>
     (an_Down a \<and> (le_Key e = ''K2'' \<or> le_Key e = ''K5'') \<and> an_Time a \<le> le_Time e \<and>
      le_Time e \<le> an_End a + AnnotWindowS * Second)"

definition Explained :: "LogEvent \<Rightarrow> Annotation list \<Rightarrow> bool" where
  "Explained e ann \<longleftrightarrow> list_ex (explains e) ann"

section \<open>Coverage\<close>

definition maxT :: "nanos \<Rightarrow> nanos \<Rightarrow> nanos" where "maxT a b = (if a > b then a else b)"
definition minT :: "nanos \<Rightarrow> nanos \<Rightarrow> nanos" where "minT a b = (if a < b then a else b)"

definition overlap :: "nanos \<Rightarrow> nanos \<Rightarrow> Annotation \<Rightarrow> rat" where
  "overlap a b x =
     (if \<not> an_Down x then 0
      else (let lo = maxT a (an_Time x); hi = minT b (an_End x) in if hi > lo then Seconds (hi - lo) else 0))"

text \<open>What a gap adds to the uncovered time.\<close>

definition gap_uncovered :: "rat \<Rightarrow> Annotation list \<Rightarrow> nanos \<Rightarrow> nanos \<Rightarrow> rat" where
  "gap_uncovered intervalS ann a b =
     (let g = Seconds (b - a)
      in if g \<le> of_int GapMaxS then 0
         else (let u = g - intervalS - sum_list (map (overlap a b) ann) in if u > 0 then u else 0))"

fun uncovered :: "rat \<Rightarrow> Annotation list \<Rightarrow> nanos \<Rightarrow> nanos \<Rightarrow> nanos \<Rightarrow> nanos list \<Rightarrow> rat" where
  "uncovered intervalS ann from to prev [] = gap_uncovered intervalS ann prev to"
| "uncovered intervalS ann from to prev (t # ts) =
     (if t < from \<or> t > to then uncovered intervalS ann from to prev ts
      else gap_uncovered intervalS ann prev t + uncovered intervalS ann from to t ts)"

text \<open>samples.csv as missing (or unreadable) or its decoded rows.\<close>

definition Coverage :: "csv_data option \<Rightarrow> nanos \<Rightarrow> nanos \<Rightarrow> rat \<Rightarrow> Annotation list \<Rightarrow> rat" where
  "Coverage smp from to intervalS ann =
     (case smp of
        None \<Rightarrow> 0
      | Some d \<Rightarrow>
          (let span = Seconds (to - from)
           in if span \<le> 0 then 100
              else case ScanTimes d of
                     (ts, Some e) \<Rightarrow> 0
                   | (ts, None) \<Rightarrow>
                       (let c = 100 * (1 - uncovered intervalS ann from to from ts / span) in if c < 0 then 0 else c)))"

section \<open>Annotating\<close>

definition oneLine :: "string \<Rightarrow> string" where "oneLine s = joins '' '' (Fields s)"

definition need_text :: string where
  [text_defs]: "need_text = ''annotate: event number(s) and a text are needed''"
definition no_event_text :: "int \<Rightarrow> string \<Rightarrow> string" where
  [text_defs]: "no_event_text i p = ''annotate: no event #'' @ itoa i @ '' in '' @ p"
definition to_before_from_text :: string where
  [text_defs]: "to_before_from_text = ''annotate: TO before FROM''"
definition need_down_text :: string where
  [text_defs]: "need_down_text = ''annotate: a text is needed''"

text \<open>The error, or the line that is appended.\<close>

definition AnnotateEvents :: "string \<Rightarrow> string option \<Rightarrow> nanos \<Rightarrow> int list \<Rightarrow> string \<Rightarrow> string + string" where
  "AnnotateEvents dir events now ids t =
     (if trim_space t = '''' \<or> ids = [] then Inl need_text
      else case find (\<lambda>i. i \<notin> set (map le_ID (ParseEventLog events))) ids of
             Some i \<Rightarrow> Inl (no_event_text i (join_path [dir, EventsName]))
           | None \<Rightarrow> Inr (rfc3339 now @ '' '' @ joins '','' (map (\<lambda>i. ''#'' @ itoa i) ids) @ '' '' @ oneLine t))"

definition AnnotateDown :: "nanos \<Rightarrow> nanos \<Rightarrow> string \<Rightarrow> string + string" where
  "AnnotateDown from to t =
     (if to < from then Inl to_before_from_text
      else if trim_space t = '''' then Inl need_down_text
      else Inr (rfc3339 from @ '' DOWN '' @ rfc3339 to @ '' '' @ oneLine t))"

end
