(* ===== verification/Log_Run.thy ===== *)
theory Log_Run
  imports Log_Base Hw_Read
begin

text \<open>
  The logger: its stored state, its files and its operations, src/ectest/internal/logger/logger.go and
  the mail functions of events.go. The outside world (clock, sleep, journal, n5-fangov, mail command, the
  files of /proc and /sys, the outcome of a write) is a parameter with a state of its own that every
  call may change; the run directory is explicit. state.json holds the state itself: the JSON
  coder is the library's. A write that fails leaves the file as it was.
\<close>

section \<open>State\<close>

record LogConfig =
  lc_RunID :: string
  lc_Dir :: string
  lc_Duration :: nanos
  lc_Interval :: nanos
  lc_MailTo :: string

record JLine =
  jl_Time :: nanos
  jl_Boot :: string
  jl_Msg :: string
  jl_Cursor :: string

record LState =
  ls_RunID :: string
  ls_StartEpoch :: int
  ls_EndEpoch :: int
  ls_IntervalS :: rat
  ls_BootIDStart :: string
  ls_TaintStart :: string
  ls_LastBoot :: string
  ls_LastTaint :: string
  ls_LastSampleWall :: int
  ls_LastSampleMono :: rat
  ls_Samples :: int
  ls_EventSeq :: int
  ls_CursorKernel :: string
  ls_CursorFangov :: string
  ls_LastCheck :: int
  ls_LastDaily :: int
  ls_FangovNR :: int
  ls_Episodes :: "string list"
  ls_ZeroRun :: "int \<Rightarrow> int"
  ls_MissRun :: int
  ls_LastSent :: "string \<Rightarrow> int"
  ls_Pending :: "string \<Rightarrow> string list"
  ls_K1Count :: int
  ls_Restarts :: int
  ls_Finished :: bool
  ls_MailsDropped :: int
  ls_MailSeq :: int
  ls_Identity :: "(string \<times> string) list option"
  ls_IdentityChanges :: "string list"

record Summary =
  sm_Samples :: int
  sm_CoveragePct :: rat
  sm_Keys :: "string \<Rightarrow> int \<times> int \<times> int"
  sm_OpenEpisodes :: "string list"
  sm_Annotations :: int
  sm_DataMB :: rat
  sm_Restarts :: int
  sm_MailsDropped :: int

text \<open>What the logger adds to the provenance (\<open>Deps.Meta\<close>).\<close>

record log_meta =
  lm_started :: string
  lm_planned_end :: string
  lm_finished :: string
  lm_log :: "Summary option"
  lm_identity_changes :: "string list"

datatype stored_state = NoState | BadState string | Stored LState

record log_dir =
  fd_State :: stored_state
  fd_Events :: "string option"
  fd_Samples :: "string list list option"
  fd_Aux :: "string list list option"
  fd_Outbox :: "(string \<times> string) list"
  fd_Annotations :: "string option"
  fd_Meta :: "string option"

record 'w Deps =
  dp_Now :: "'w \<Rightarrow> 'w \<times> nanos"
  dp_Sleep :: "nanos \<Rightarrow> 'w \<Rightarrow> 'w \<times> bool"
  dp_Fangov :: "'w \<Rightarrow> 'w \<times> (string + string \<times> int)"
  dp_Journal :: "string \<Rightarrow> string \<Rightarrow> nanos \<Rightarrow> 'w \<Rightarrow> 'w \<times> (JLine list \<times> string \<times> string option)"
  dp_Mail :: "(string \<Rightarrow> string \<Rightarrow> 'w \<Rightarrow> 'w \<times> string option) option"
  dp_FreeBytes :: "string \<Rightarrow> 'w \<Rightarrow> 'w \<times> (string + int)"
  dp_Notify :: "(string \<Rightarrow> 'w \<Rightarrow> 'w) option"
  dp_Print :: "(string \<Rightarrow> 'w \<Rightarrow> 'w) option"
  dp_Redact :: "Redactor option"
  dp_Identity :: "('w \<Rightarrow> 'w \<times> (string \<times> string) list) option"
  dp_Files :: "'w \<Rightarrow> filesys"
  dp_Stat :: "'w \<Rightarrow> string \<Rightarrow> string option"
  dp_ReadError :: "'w \<Rightarrow> string \<Rightarrow> string"
  dp_Roots :: Roots
  dp_Write :: "string \<Rightarrow> 'w \<Rightarrow> 'w \<times> string option"
  dp_Sums :: "'w \<Rightarrow> 'w \<times> string option"
  dp_Size :: "string \<Rightarrow> 'w \<Rightarrow> int"
  dp_Random :: "'w \<Rightarrow> string"
  dp_Json :: "log_meta \<Rightarrow> string"

record 'w LSetup =
  se_Cfg :: LogConfig
  se_Deps :: "'w Deps"

record 'w logger =
  lg_w :: 'w
  lg_st :: LState
  lg_start :: nanos
  lg_mailDown :: bool
  lg_dir :: log_dir
  lg_meta :: "log_meta option"

definition StateFile :: string where "StateFile = ''state.json''"
definition AuxCSV :: string where "AuxCSV = ''aux.csv''"
definition AnnotationsFile :: string where "AnnotationsFile = ''annotations.txt''"

definition AuxHeader :: "string list" where
  "AuxHeader = [''t_iso'', ''boot_id'', ''uptime_s'', ''mono_s'', ''pwm1'', ''pwm2'', ''pwm3'', ''pwm4'', ''pwm1_enable'',
     ''pwm2_enable'', ''pwm3_enable'', ''pwm4_enable'', ''ec_read_errors'', ''fangov_state'', ''fangov_nrestarts'']"

definition OutboxDir :: "string \<Rightarrow> string" where "OutboxDir d = d @ ''.outbox''"

abbreviation unix :: "nanos \<Rightarrow> int" where "unix t \<equiv> t div 1000000000"

definition set_st :: "(LState \<Rightarrow> LState) \<Rightarrow> 'w logger \<Rightarrow> 'w logger" where
  "set_st f L = L\<lparr> lg_st := f (lg_st L) \<rparr>"

section \<open>Writing\<close>

definition lred :: "'w LSetup \<Rightarrow> string \<Rightarrow> string" where
  "lred S s = (case dp_Redact (se_Deps S) of None \<Rightarrow> s | Some r \<Rightarrow> Redactor_String r s)"

definition lprint :: "'w LSetup \<Rightarrow> string \<Rightarrow> 'w logger \<Rightarrow> 'w logger" where
  "lprint S s L = (case dp_Print (se_Deps S) of None \<Rightarrow> L | Some f \<Rightarrow> L\<lparr> lg_w := f s (lg_w L) \<rparr>)"

definition notify :: "'w LSetup \<Rightarrow> string \<Rightarrow> 'w logger \<Rightarrow> 'w logger" where
  "notify S s L = (case dp_Notify (se_Deps S) of None \<Rightarrow> L | Some f \<Rightarrow> L\<lparr> lg_w := f s (lg_w L) \<rparr>)"

text \<open>A write to a file of the run: \<open>f\<close> is its effect when it succeeds.\<close>

definition lwrite :: "'w LSetup \<Rightarrow> string \<Rightarrow> (log_dir \<Rightarrow> log_dir) \<Rightarrow> 'w logger \<Rightarrow> 'w logger \<times> string option" where
  "lwrite S name f L =
     (case dp_Write (se_Deps S) name (lg_w L) of
        (w, None) \<Rightarrow> (L\<lparr> lg_w := w, lg_dir := f (lg_dir L) \<rparr>, None)
      | (w, Some e) \<Rightarrow> (L\<lparr> lg_w := w \<rparr>, Some e))"

definition saveState :: "'w LSetup \<Rightarrow> 'w logger \<Rightarrow> 'w logger \<times> string option" where
  "saveState S L = lwrite S StateFile (\<lambda>d. d\<lparr> fd_State := Stored (lg_st L) \<rparr>) L"

definition add_line :: "string \<Rightarrow> string option \<Rightarrow> string option" where
  "add_line line f = Some ((case f of None \<Rightarrow> '''' | Some t \<Rightarrow> t) @ line @ [NL])"

definition add_row :: "string list \<Rightarrow> string list \<Rightarrow> string list list option \<Rightarrow> string list list option" where
  "add_row header row f = Some ((case f of None \<Rightarrow> [header] | Some rows \<Rightarrow> rows) @ [row])"

definition append_events :: "'w LSetup \<Rightarrow> string \<Rightarrow> 'w logger \<Rightarrow> 'w logger" where
  "append_events S line L = fst (lwrite S EventsName (\<lambda>d. d\<lparr> fd_Events := add_line line (fd_Events d) \<rparr>) L)"

definition event_text :: "nanos \<Rightarrow> nanos \<Rightarrow> string \<Rightarrow> int \<Rightarrow> string \<Rightarrow> string" where
  "event_text tm start key n detail =
     rfc3339 tm @ '' [t_s='' @ fmt_f 3 (Seconds (tm - start)) @ ''] '' @ key @ '' #'' @ itoa n @ '' '' @ detail"

definition flat :: "string \<Rightarrow> string" where
  "flat s = map (\<lambda>c. if c = NL then CHR '' '' else c) s"

definition pending_lines :: "int \<Rightarrow> nanos \<Rightarrow> string \<Rightarrow> string list \<Rightarrow> string list" where
  "pending_lines n tm detail evidence =
     (''#'' @ itoa n @ '' '' @ rfc3339 tm @ '' '' @ detail) # map (\<lambda>e. ''    '' @ e) evidence"

definition log_ev :: "'w LSetup \<Rightarrow> string \<Rightarrow> nanos \<Rightarrow> string \<Rightarrow> string list \<Rightarrow> 'w logger \<Rightarrow> 'w logger" where
  "log_ev S key tm detail evidence L =
     (let n = ls_EventSeq (lg_st L) + 1; d = flat detail;
          line = lred S (event_text tm (lg_start L) key n d);
          L1 = append_events S line (set_st (\<lambda>s. s\<lparr> ls_EventSeq := n \<rparr>) L);
          p = ls_Pending (lg_st L1) key;
          L2 = (if length p < 200
                then set_st (\<lambda>s. s\<lparr> ls_Pending := (ls_Pending s)(key := p @ pending_lines n tm d evidence) \<rparr>) L1 else L1)
      in lprint S line L2)"

definition log_note :: "'w LSetup \<Rightarrow> nanos \<Rightarrow> string \<Rightarrow> 'w logger \<Rightarrow> 'w logger" where
  "log_note S tm t L =
     append_events S (lred S (rfc3339 tm @ '' [t_s='' @ fmt_f 3 (Seconds (tm - lg_start L)) @ ''] '' @ t)) L"

definition changed_text :: "string \<Rightarrow> string \<Rightarrow> string \<Rightarrow> string" where
  "changed_text k old new = k @ '': '' @ orDash old @ '' -> '' @ orDash new"

definition id_value :: "(string \<times> string) list \<Rightarrow> string \<Rightarrow> string" where
  "id_value m k = (case map_of m k of None \<Rightarrow> '''' | Some v \<Rightarrow> v)"

text \<open>The identity is a map: the keys of the list are distinct.\<close>

definition identitySnapshot :: "'w LSetup \<Rightarrow> nanos \<Rightarrow> string \<Rightarrow> 'w logger \<Rightarrow> 'w logger" where
  "identitySnapshot S now why L =
     (case dp_Identity (se_Deps S) of
        None \<Rightarrow> L
      | Some f \<Rightarrow>
          (let (w, ids) = f (lg_w L); keys = sort_texts (map fst ids); old = ls_Identity (lg_st L);
               parts = map (\<lambda>k. k @ ''='' @ orDash (id_value ids k)) keys;
               changes = (case old of None \<Rightarrow> []
                          | Some m \<Rightarrow> map (\<lambda>k. changed_text k (id_value m k) (id_value ids k))
                                       (filter (\<lambda>k. id_value m k \<noteq> id_value ids k) keys));
               L1 = log_note S now (''identity ('' @ why @ ''): '' @ joins '', '' parts) (L\<lparr> lg_w := w \<rparr>);
               L2 = fold (\<lambda>c K. log_note S now (''identity changed ('' @ why @ ''): '' @ c)
                       (set_st (\<lambda>s. s\<lparr> ls_IdentityChanges := ls_IdentityChanges s @ [rfc3339 now @ '' '' @ c] \<rparr>) K)) changes L1
           in set_st (\<lambda>s. s\<lparr> ls_Identity := Some ids \<rparr>) L2))"

section \<open>Mail\<close>

definition trySend :: "'w LSetup \<Rightarrow> string \<Rightarrow> string \<Rightarrow> 'w logger \<Rightarrow> 'w logger \<times> bool" where
  "trySend S subject body L =
     (case dp_Mail (se_Deps S) of
        None \<Rightarrow> (L, False)
      | Some send \<Rightarrow>
          if lg_mailDown L then (L, False)
          else
            (let L1 = notify S ''WATCHDOG=1'' L
             in case send subject body (lg_w L1) of
                  (w, None) \<Rightarrow> (L1\<lparr> lg_w := w \<rparr>, True)
                | (w, Some e) \<Rightarrow> (L1\<lparr> lg_w := w, lg_mailDown := True \<rparr>, False)))"

text \<open>\<open>subjectClean\<close>: what is not printable ASCII is dropped.\<close>

definition subject_clean :: "string \<Rightarrow> string" where
  "subject_clean s = filter (between (CHR '' '') (CHR ''~'')) s"

definition pad0 :: "nat \<Rightarrow> int \<Rightarrow> string" where
  "pad0 w n = (if n < 0 then ''-'' @ pad_left (w - 1) (CHR ''0'') (itoa (- n)) else pad_left w (CHR ''0'') (itoa n))"

definition queued_message :: "string \<Rightarrow> string \<Rightarrow> string \<Rightarrow> string" where
  "queued_message rcpt subject body =
     ''To: '' @ rcpt @ [NL] @ ''Subject: '' @ subject @ [NL] @ ''MIME-Version: 1.0'' @ [NL] @
     ''Content-Type: text/plain; charset=utf-8'' @ [NL, NL] @ body @ [NL]"

definition drop_mail :: "'w logger \<Rightarrow> 'w logger" where
  "drop_mail = set_st (\<lambda>s. s\<lparr> ls_MailsDropped := ls_MailsDropped s + 1 \<rparr>)"

text \<open>The queueing of a mail; \<open>dp_Random\<close> is the random part of the file name.\<close>

definition queue_mail :: "'w LSetup \<Rightarrow> string \<Rightarrow> string \<Rightarrow> 'w logger \<Rightarrow> 'w logger" where
  "queue_mail S subject body L =
     (let dir = OutboxDir (lc_Dir (se_Cfg S))
      in if dp_Size (se_Deps S) dir (lg_w L) > OutboxMaxMB * 1024 * 1024 then drop_mail L
         else
           (let L1 = set_st (\<lambda>s. s\<lparr> ls_MailSeq := ls_MailSeq s + 1 \<rparr>) L;
                (w, t) = dp_Now (se_Deps S) (lg_w L1);
                name = pad0 11 (unix t) @ ''-'' @ pad0 6 (ls_MailSeq (lg_st L1)) @ ''-'' @ dp_Random (se_Deps S) w @ ''.eml'';
                msg = queued_message (lc_MailTo (se_Cfg S)) subject body
            in case lwrite S name (\<lambda>d. d\<lparr> fd_Outbox := fd_Outbox d @ [(name, msg)] \<rparr>) (L1\<lparr> lg_w := w \<rparr>) of
                 (L2, Some e) \<Rightarrow> drop_mail L2
               | (L2, None) \<Rightarrow> lprint S (''mail queued in '' @ join_path [dir, name] @ '': '' @ subject) L2))"

definition log_mail :: "'w LSetup \<Rightarrow> string \<Rightarrow> string \<Rightarrow> 'w logger \<Rightarrow> 'w logger" where
  "log_mail S subject body L =
     (let subj = ''[n5-ectest] '' @ subject_clean (lred S subject); b = lred S body
      in case trySend S subj b L of (L1, True) \<Rightarrow> L1 | (L1, False) \<Rightarrow> queue_mail S subj b L1)"

text \<open>A queued message read back: the last subject of its head, the body.\<close>

function cut_head :: "string \<Rightarrow> string \<times> string" where
  "cut_head s =
     (case s of [] \<Rightarrow> ('''', '''')
      | c # cs \<Rightarrow> if has_prefix [NL, NL] s then ('''', drop 2 s) else (let (h, b) = cut_head cs in (c # h, b)))"
  by pat_completeness auto
termination by (relation "measure length") auto

declare cut_head.simps [simp del]

definition subject_of :: "string \<Rightarrow> string" where
  "subject_of head =
     fold (\<lambda>h subj. if has_prefix ''Subject: '' h then drop 9 h else subj) (split_at NL head) ''''"

fun flush_loop :: "'w LSetup \<Rightarrow> string list \<Rightarrow> 'w logger \<Rightarrow> 'w logger" where
  "flush_loop S [] L = L"
| "flush_loop S (n # ns) L =
     (case map_of (fd_Outbox (lg_dir L)) n of
        None \<Rightarrow> flush_loop S ns L
      | Some msg \<Rightarrow>
          (let (head, body) = cut_head msg
           in case trySend S (subject_of head) (trim_suffix [NL] body) L of
                (L1, False) \<Rightarrow> L1
              | (L1, True) \<Rightarrow>
                  flush_loop S ns
                    (fst (lwrite S n (\<lambda>d. d\<lparr> fd_Outbox := filter (\<lambda>m. fst m \<noteq> n) (fd_Outbox d) \<rparr>) L1))))"

definition flushOutbox :: "'w LSetup \<Rightarrow> 'w logger \<Rightarrow> 'w logger" where
  "flushOutbox S L =
     (if dp_Mail (se_Deps S) = None \<or> lg_mailDown L then L
      else flush_loop S (sort_texts (filter (has_suffix ''.eml'') (map fst (fd_Outbox (lg_dir L))))) L)"

section \<open>A sample\<close>

definition drop_episode :: "string \<Rightarrow> string list \<Rightarrow> string list" where
  "drop_episode name es = filter (\<lambda>e. e \<noteq> name) es"

definition episode :: "'w LSetup \<Rightarrow> string \<Rightarrow> string \<Rightarrow> bool \<Rightarrow> nanos \<Rightarrow> string \<Rightarrow> 'w logger \<Rightarrow> 'w logger" where
  "episode S key name on now detail L =
     (let L1 = (if on \<and> name \<notin> set (ls_Episodes (lg_st L)) then log_ev S key now detail [] L else L)
      in set_st (\<lambda>s. s\<lparr> ls_Episodes :=
           (if on then (if name \<in> set (ls_Episodes s) then ls_Episodes s else ls_Episodes s @ [name])
            else drop_episode name (ls_Episodes s)) \<rparr>) L1)"

definition readUptime :: "filesys \<Rightarrow> string \<Rightarrow> fl" where
  "readUptime fs proc =
     (case Fields (readTrim fs (join_path [proc, ''uptime''])) of
        [] \<Rightarrow> None
      | f # rest \<Rightarrow> (case ParseFloat f of None \<Rightarrow> None | Some x \<Rightarrow> x))"

definition boot_id :: "filesys \<Rightarrow> string \<Rightarrow> string" where
  "boot_id fs proc = readTrim fs (join_path [proc, ''sys'', ''kernel'', ''random'', ''boot_id''])"

definition kernel_taint :: "filesys \<Rightarrow> string \<Rightarrow> string" where
  "kernel_taint fs proc = readTrim fs (join_path [proc, ''sys'', ''kernel'', ''tainted''])"

text \<open>The duty registers: the values, the read errors, the reason when there are none.\<close>

definition not_parsable_text :: "string \<Rightarrow> string" where
  [text_defs]: "not_parsable_text e = ''dcr not parsable: '' @ e"
definition dcr_error_text :: "string \<Rightarrow> string" where
  [text_defs]: "dcr_error_text e = ''dcr read error: '' @ e"
definition dcr_missing_text :: "string \<Rightarrow> string" where
  [text_defs]: "dcr_missing_text e =
     ''dcr not readable ('' @ e @ ''): dcr1-dcr5 stay empty; load the driver with debug_regs=1''"

definition sample_dcr :: "'w LSetup \<Rightarrow> 'w \<Rightarrow> string \<Rightarrow> int list \<times> int \<times> string" where
  "sample_dcr S w hwmon =
     (let D = se_Deps S; p = DCRPath (ro_Sys (dp_Roots D)); none = [-1, -1, -1, -1, -1]
      in if hwmon = '''' then (none, 0, '''')
         else case dp_Stat D w p of
                Some e \<Rightarrow> (none, 0, dcr_missing_text e)
              | None \<Rightarrow>
                  (case ReadTimeout (dp_Files D w) p of
                     None \<Rightarrow> (none, 1, dcr_error_text (dp_ReadError D w p))
                   | Some t \<Rightarrow>
                       (case ParseDCR t of
                          Inl e \<Rightarrow> (none, 0, not_parsable_text e)
                        | Inr dcr \<Rightarrow> (map (Reg dcr) [1, 2, 3, 4, 5], 0, ''''))))"

definition cellI :: "int \<Rightarrow> string" where "cellI v = (if v < 0 then '''' else itoa v)"
definition cellFl :: "fl \<Rightarrow> nat \<Rightarrow> string" where
  "cellFl v prec = (case v of None \<Rightarrow> '''' | Some x \<Rightarrow> fmt_f prec x)"

definition log_sample :: "nanos \<Rightarrow> nanos \<Rightarrow> Reading \<Rightarrow> int list \<Rightarrow> Sample" where
  "log_sample now start r dcr =
     (NewSample now (Seconds (now - start)) ''log'' 0 (-1))
       \<lparr> s_DCR := dcr, s_Fan := map (hr_Fan r) [1, 2, 3], s_ECCPU := ec_of r ''cpu'', s_ECSys := ec_of r ''system'',
         s_ECBoard := ec_of r ''board'', s_ECAmb := ec_of r ''ambient'', s_HDDMax := hr_HDDMax r,
         s_NVMeMax := hr_NVMeMax r, s_Tctl := hr_Tctl r, s_Load1 := hr_Load1 r \<rparr>"

definition aux_row :: "nanos \<Rightarrow> string \<Rightarrow> fl \<Rightarrow> Reading \<Rightarrow> int \<Rightarrow> string \<Rightarrow> int \<Rightarrow> string list" where
  "aux_row now boot up r errs fgState fgNR =
     [rfc3339 now, boot, cellFl up 2, cellFl up 3] @ map (\<lambda>n. cellI (hr_PWM r n)) [1, 2, 3, 4] @
     map (\<lambda>n. cellI (hr_Enable r n)) [1, 2, 3, 4] @ [if hr_Hwmon r = '''' then '''' else itoa errs, fgState, cellI fgNR]"

text \<open>K2 and K5.\<close>

definition boot_changed_text :: "string \<Rightarrow> string \<Rightarrow> string" where
  [text_defs]: "boot_changed_text old new = ''boot_id changed: '' @ take 8 old @ '' -> '' @ take 8 new"
definition wall_gap_text :: "int \<Rightarrow> string" where
  [text_defs]: "wall_gap_text gap = ''gap '' @ itoa gap @ '' s between samples across a reboot (wall clock)''"
definition mono_gap_text :: "rat \<Rightarrow> string \<Rightarrow> string" where
  [text_defs]: "mono_gap_text gap boot = ''gap '' @ fmt_f 0 gap @ '' s between samples (monotonic, boot '' @ take 8 boot @ '')''"

definition check_boot :: "'w LSetup \<Rightarrow> nanos \<Rightarrow> string \<Rightarrow> fl \<Rightarrow> 'w logger \<Rightarrow> 'w logger" where
  "check_boot S now boot up L =
     (let st = lg_st L
      in if \<not> (ls_Samples st > 0 \<or> ls_Restarts st > 0) then L
         else if boot \<noteq> '''' \<and> ls_LastBoot st \<noteq> '''' \<and> boot \<noteq> ls_LastBoot st then
           (let L1 = identitySnapshot S now ''reboot'' (log_ev S ''K2'' now (boot_changed_text (ls_LastBoot st) boot) [] L);
                gap = unix now - ls_LastSampleWall (lg_st L1);
                L2 = (if ls_LastSampleWall (lg_st L1) > 0 \<and> gap > GapMaxS
                      then log_ev S ''K5'' now (wall_gap_text gap) [] L1 else L1)
            in set_st (\<lambda>s. s\<lparr> ls_FangovNR := 0 \<rparr>) L2)
         else
           (case up of
              None \<Rightarrow> L
            | Some m \<Rightarrow>
                if ls_LastSampleMono st > 0 \<and> m - ls_LastSampleMono st > of_int GapMaxS
                then log_ev S ''K5'' now (mono_gap_text (m - ls_LastSampleMono st) boot) [] L else L))"

text \<open>K3: the state and the restarts of n5-fangov.\<close>

definition fangov_unknown_text :: "string \<Rightarrow> string" where
  [text_defs]: "fangov_unknown_text e = ''n5-fangov state not readable: '' @ e"
definition fangov_state_text :: "string \<Rightarrow> string" where
  [text_defs]: "fangov_state_text s = FangovUnit @ '' ActiveState='' @ orDash s"
definition fangov_restarts_text :: "int \<Rightarrow> int \<Rightarrow> string" where
  [text_defs]: "fangov_restarts_text a b = FangovUnit @ '' NRestarts '' @ itoa a @ '' -> '' @ itoa b"

definition check_fangov :: "'w LSetup \<Rightarrow> nanos \<Rightarrow> string + string \<times> int \<Rightarrow> 'w logger \<Rightarrow> 'w logger" where
  "check_fangov S now fg L =
     (case fg of
        Inl e \<Rightarrow> episode S ''K3'' ''fangov_unknown'' True now (fangov_unknown_text e) L
      | Inr (state, nr) \<Rightarrow>
          (let L1 = (if state = FangovNotInstalled then L
                     else if state \<noteq> ''active'' then episode S ''K3'' ''fangov_inactive'' True now (fangov_state_text state) L
                     else episode S ''K3'' ''fangov_unknown'' False now '''' (episode S ''K3'' ''fangov_inactive'' False now '''' L));
               L2 = (if nr > ls_FangovNR (lg_st L1)
                     then log_ev S ''K3'' now (fangov_restarts_text (ls_FangovNR (lg_st L1)) nr) [] L1 else L1)
           in set_st (\<lambda>s. s\<lparr> ls_FangovNR := nr \<rparr>) L2))"

text \<open>K4: fans, missing values, read errors, temperatures.\<close>

definition zero_fan_text :: "int \<Rightarrow> string" where
  [text_defs]: "zero_fan_text f = ''fan'' @ itoa f @ '' 0 rpm in 2 consecutive samples''"
definition no_values_text :: string where
  [text_defs]: "no_values_text = ''EC hwmon missing or without values (2 samples)''"
definition ec_errors_text :: "int \<Rightarrow> string" where
  [text_defs]: "ec_errors_text n = itoa n @ '' EC read error(s) or timeout(s) in one sample (episode: reported once until a sample without errors)''"
definition hot_text :: "string \<Rightarrow> rat \<Rightarrow> rat \<Rightarrow> string" where
  [text_defs]: "hot_text name v th = name @ ''='' @ fmt_f 1 v @ '' >= '' @ fmt_f 0 th"

definition check_fan :: "'w LSetup \<Rightarrow> nanos \<Rightarrow> Reading \<Rightarrow> int \<Rightarrow> 'w logger \<Rightarrow> 'w logger" where
  "check_fan S now r f L =
     (if hr_Fan r f = 0 then
        (let L1 = set_st (\<lambda>s. s\<lparr> ls_ZeroRun := (ls_ZeroRun s)(f := ls_ZeroRun s f + 1) \<rparr>) L
         in if ls_ZeroRun (lg_st L1) f = 2 then log_ev S ''K4'' now (zero_fan_text f) [] L1 else L1)
      else set_st (\<lambda>s. s\<lparr> ls_ZeroRun := (ls_ZeroRun s)(f := 0) \<rparr>) L)"

definition no_values :: "Reading \<Rightarrow> bool" where
  "no_values r \<longleftrightarrow> hr_Hwmon r = '''' \<or> (hr_Fan r 1 < 0 \<and> ec_of r ''cpu'' = None)"

definition check_missing :: "'w LSetup \<Rightarrow> nanos \<Rightarrow> Reading \<Rightarrow> 'w logger \<Rightarrow> 'w logger" where
  "check_missing S now r L =
     (if no_values r then
        (let L1 = set_st (\<lambda>s. s\<lparr> ls_MissRun := ls_MissRun s + 1 \<rparr>) L
         in if ls_MissRun (lg_st L1) = 2 then log_ev S ''K4'' now no_values_text [] L1 else L1)
      else set_st (\<lambda>s. s\<lparr> ls_MissRun := 0 \<rparr>) L)"

definition check_hot_one :: "'w LSetup \<Rightarrow> nanos \<Rightarrow> string \<times> fl \<times> rat \<Rightarrow> 'w logger \<Rightarrow> 'w logger" where
  "check_hot_one S now h L =
     (case h of (name, v, th) \<Rightarrow>
        (case v of None \<Rightarrow> L | Some x \<Rightarrow> episode S ''K4'' (''hot_'' @ name) (x \<ge> th) now (hot_text name x th) L))"

definition hot_sensors :: "Reading \<Rightarrow> (string \<times> fl \<times> rat) list" where
  "hot_sensors r = [(''Tctl'', hr_Tctl r, ThTctl), (''NVMe'', hr_NVMeMax r, ThNVMe), (''HDD'', hr_HDDMax r, ThHDD),
     (''EC_CPU'', ec_of r ''cpu'', ThECCPU)]"

text \<open>K7.\<close>

definition taint_text :: "string \<Rightarrow> string \<Rightarrow> string \<Rightarrow> string" where
  [text_defs]: "taint_text old new start = ''kernel taint '' @ orDash old @ '' -> '' @ new @ '' (start '' @ orDash start @ '')''"

definition check_taint :: "'w LSetup \<Rightarrow> nanos \<Rightarrow> string \<Rightarrow> 'w logger \<Rightarrow> 'w logger" where
  "check_taint S now taint L =
     (if taint \<noteq> '''' \<and> taint \<noteq> ls_LastTaint (lg_st L)
      then set_st (\<lambda>s. s\<lparr> ls_LastTaint := taint \<rparr>)
             (log_ev S ''K7'' now (taint_text (ls_LastTaint (lg_st L)) taint (ls_TaintStart (lg_st L))) [] L)
      else L)"

definition count_sample :: "nanos \<Rightarrow> fl \<Rightarrow> 'w logger \<Rightarrow> 'w logger" where
  "count_sample now up =
     set_st (\<lambda>s. s\<lparr> ls_Samples := ls_Samples s + 1, ls_LastSampleWall := unix now,
                    ls_LastSampleMono := (case up of None \<Rightarrow> ls_LastSampleMono s | Some m \<Rightarrow> m) \<rparr>)"

text \<open>The criteria of one sample but K7.\<close>

definition judge_sample :: "'w LSetup \<Rightarrow> nanos \<Rightarrow> string \<Rightarrow> fl \<Rightarrow> Reading \<Rightarrow> int \<Rightarrow> string \<Rightarrow> string + string \<times> int \<Rightarrow> 'w logger \<Rightarrow> 'w logger" where
  "judge_sample S now boot up r errs dcrWhy fg L =
     (let L1 = check_boot S now boot up L;
          L2 = (if boot \<noteq> '''' then set_st (\<lambda>s. s\<lparr> ls_LastBoot := boot \<rparr>) L1 else L1);
          L3 = fold (check_fan S now r) [1, 2, 3] (check_fangov S now fg L2);
          L4 = episode S ''K4'' ''ec_read_errors'' (errs > 0) now (ec_errors_text errs) (check_missing S now r L3);
          L5 = episode S ''K8'' ''dcr'' (dcrWhy \<noteq> '''') now dcrWhy L4
      in fold (check_hot_one S now) (hot_sensors r) L5)"

definition take_sample :: "'w LSetup \<Rightarrow> nanos \<Rightarrow> 'w logger \<Rightarrow> 'w logger" where
  "take_sample S now L =
     (let D = se_Deps S; sys = ro_Sys (dp_Roots D); proc = ro_Proc (dp_Roots D); fs = dp_Files D (lg_w L);
          boot = boot_id fs proc; up = readUptime fs proc;
          r = Read_All (\<lambda>p. dp_Stat D (lg_w L) p = None) fs sys proc;
          (dcr, dcrErr, dcrWhy) = sample_dcr S (lg_w L) (hr_Hwmon r);
          errs = hr_Errors r + dcrErr;
          (w, fg) = dp_Fangov D (lg_w L);
          (fgState, fgNR) = (case fg of Inl e \<Rightarrow> ('''', -1) | Inr x \<Rightarrow> x);
          L1 = fst (lwrite S SamplesName
                 (\<lambda>d. d\<lparr> fd_Samples := add_row CSVHeader (Row (log_sample now (lg_start L) r dcr)) (fd_Samples d) \<rparr>) (L\<lparr> lg_w := w \<rparr>));
          L2 = fst (lwrite S AuxCSV
                 (\<lambda>d. d\<lparr> fd_Aux := add_row AuxHeader (aux_row now boot up r errs fgState fgNR) (fd_Aux d) \<rparr>) L1);
          L3 = judge_sample S now boot up r errs dcrWhy fg L2
      in count_sample now up (check_taint S now (kernel_taint (dp_Files D (lg_w L3)) proc) L3))"

section \<open>The periodic check\<close>

definition no_dashes :: "string \<Rightarrow> string" where "no_dashes s = filter (\<lambda>c. c \<noteq> CHR ''-'') s"

definition kernel_unreadable_text :: "string \<Rightarrow> string" where
  [text_defs]: "kernel_unreadable_text e = ''kernel log not readable: '' @ e"
definition flood_text :: "int \<Rightarrow> string" where
  [text_defs]: "flood_text n = ''K1 flood: '' @ itoa n @ '' further hit(s) not recorded one by one (cap '' @ itoa K1MaxPerRun @ '' per run)''"
definition journal_text :: "nat \<Rightarrow> string" where
  [text_defs]: "journal_text n = itoa (int n) @ '' journal line(s) >= warning of '' @ FangovUnit"
definition data_text :: "int \<Rightarrow> string" where
  [text_defs]: "data_text sz = ''data directory '' @ itoa (sz div 1024 div 1024) @ '' MB > '' @ itoa DataMaxMB @ '' MB''"
definition free_text :: "int \<Rightarrow> string" where
  [text_defs]: "free_text free = ''free space of the log target '' @ itoa (free div 1024 div 1024) @ '' MB < '' @ itoa RootMinFreeGB @ '' GB''"
definition not_written_text :: "string \<Rightarrow> string" where
  [text_defs]: "not_written_text e = ''state file not written: '' @ e"

text \<open>The lines of the kernel log: the hits beyond the cap are counted.\<close>

fun k1_loop :: "'w LSetup \<Rightarrow> string \<Rightarrow> JLine list \<Rightarrow> int \<Rightarrow> 'w logger \<Rightarrow> 'w logger \<times> int" where
  "k1_loop S boot [] dropped L = (L, dropped)"
| "k1_loop S boot (j # js) dropped L =
     (let msg = trim_prefix ''kernel: '' (jl_Msg j)
      in if \<not> K1Hit msg (jl_Boot j \<noteq> '''' \<and> boot \<noteq> '''' \<and> jl_Boot j \<noteq> boot) then k1_loop S boot js dropped L
         else if ls_K1Count (lg_st L) \<ge> K1MaxPerRun then k1_loop S boot js (dropped + 1) L
         else k1_loop S boot js dropped
                (log_ev S ''K1'' (jl_Time j) (take 200 msg) [rfc3339 (jl_Time j) @ '' '' @ msg]
                   (set_st (\<lambda>s. s\<lparr> ls_K1Count := ls_K1Count s + 1 \<rparr>) L)))"

definition journal_evidence :: "JLine list \<Rightarrow> string list" where
  "journal_evidence js = map (\<lambda>j. rfc3339 (jl_Time j) @ '' '' @ jl_Msg j) (drop (length js - 40) js)"

definition check_kernel :: "'w LSetup \<Rightarrow> nanos \<Rightarrow> nanos \<Rightarrow> 'w logger \<Rightarrow> 'w logger" where
  "check_kernel S now since L =
     (let D = se_Deps S; boot = no_dashes (boot_id (dp_Files D (lg_w L)) (ro_Proc (dp_Roots D)));
          (w, js, cur, err) = dp_Journal D '''' (ls_CursorKernel (lg_st L)) since (lg_w L);
          L1 = (case err of
                  Some e \<Rightarrow> episode S ''K8'' ''journal_kernel'' True now (kernel_unreadable_text e) (L\<lparr> lg_w := w \<rparr>)
                | None \<Rightarrow> episode S ''K8'' ''journal_kernel'' False now '''' (L\<lparr> lg_w := w \<rparr>));
          L2 = (if cur \<noteq> '''' then set_st (\<lambda>s. s\<lparr> ls_CursorKernel := cur \<rparr>) L1 else L1);
          (L3, dropped) = k1_loop S boot js 0 L2
      in if dropped > 0 then log_ev S ''K1'' now (flood_text dropped) [] L3 else L3)"

definition check_fangov_journal :: "'w LSetup \<Rightarrow> nanos \<Rightarrow> nanos \<Rightarrow> 'w logger \<Rightarrow> 'w logger" where
  "check_fangov_journal S now since L =
     (let (w, js, cur, err) = dp_Journal (se_Deps S) FangovUnit (ls_CursorFangov (lg_st L)) since (lg_w L);
          L1 = L\<lparr> lg_w := w \<rparr>
      in if err \<noteq> None then L1
         else
           (let L2 = (if cur \<noteq> '''' then set_st (\<lambda>s. s\<lparr> ls_CursorFangov := cur \<rparr>) L1 else L1)
            in if js = [] then L2 else log_ev S ''K3'' now (journal_text (length js)) (journal_evidence js) L2))"

definition check_disk :: "'w LSetup \<Rightarrow> nanos \<Rightarrow> 'w logger \<Rightarrow> 'w logger" where
  "check_disk S now L =
     (let D = se_Deps S; dir = lc_Dir (se_Cfg S); sz = dp_Size D dir (lg_w L);
          (w, free) = dp_FreeBytes D dir (lg_w L);
          k6 = (if sz > DataMaxMB * 1024 * 1024 then [data_text sz] else []) @
               (case free of Inl e \<Rightarrow> [] | Inr n \<Rightarrow> if n < RootMinFreeGB * 1024 * 1024 * 1024 then [free_text n] else [])
      in episode S ''K6'' ''disk'' (k6 \<noteq> []) now (joins ''; '' k6) (L\<lparr> lg_w := w \<rparr>))"

definition split3 :: "string \<Rightarrow> string" where
  "split3 s =
     (case cut_at (CHR '' '') s of
        (a, rest, True) \<Rightarrow> (case cut_at (CHR '' '') rest of (b, c, True) \<Rightarrow> c | _ \<Rightarrow> '''')
      | _ \<Rightarrow> '''')"

definition alert_body :: "string \<Rightarrow> string \<Rightarrow> string list \<Rightarrow> string" where
  "alert_body run k p =
     ''Run: '' @ run @ [NL] @ ''Criterion: '' @ k @ '' - '' @ KeyText k @ [NL, NL] @
     ''Events since the last mail of '' @ k @ '' (at most 50 lines):'' @ [NL, NL] @
     joins [NL] (drop (length p - 50) p) @ [NL, NL] @ ''Explain a planned event: n5-ectest log annotate '' @ run @
     '' --event N '' @ fmt_q ''text'' @ [NL]"

definition alert_due :: "int \<Rightarrow> string \<Rightarrow> LState \<Rightarrow> bool" where
  "alert_due now k st \<longleftrightarrow> \<not> (ls_Pending st k = [] \<or> now - ls_LastSent st k < AlertCooldownS)"

definition alert_one :: "'w LSetup \<Rightarrow> nanos \<Rightarrow> string \<Rightarrow> 'w logger \<Rightarrow> 'w logger" where
  "alert_one S now k L =
     (if \<not> alert_due (unix now) k (lg_st L) then L
      else
        (let p = ls_Pending (lg_st L) k; run = lc_RunID (se_Cfg S);
             L1 = log_mail S (''ALERT '' @ k @ '' '' @ take 80 (split3 (hd p))) (alert_body run k p) L
         in set_st (\<lambda>s. s\<lparr> ls_LastSent := (ls_LastSent s)(k := unix now), ls_Pending := (ls_Pending s)(k := []) \<rparr>) L1))"

definition alerts :: "'w LSetup \<Rightarrow> nanos \<Rightarrow> 'w logger \<Rightarrow> 'w logger" where
  "alerts S now L = fold (alert_one S now) Keys L"

text \<open>The state is written before any mail; a failure of that is a K8 event.\<close>

definition save_or_report :: "'w LSetup \<Rightarrow> nanos \<Rightarrow> 'w logger \<Rightarrow> 'w logger" where
  "save_or_report S now L =
     (case saveState S L of
        (L1, None) \<Rightarrow> L1
      | (L1, Some e) \<Rightarrow> log_ev S ''K8'' now (not_written_text e) [] L1)"

definition log_check :: "'w LSetup \<Rightarrow> nanos \<Rightarrow> 'w logger \<Rightarrow> 'w logger" where
  "log_check S now L =
     (let st = lg_st L;
          since = (if ls_LastCheck st > 0 then ls_LastCheck st else ls_StartEpoch st) * 1000000000;
          L1 = check_disk S now (check_fangov_journal S now since (check_kernel S now since L));
          L2 = save_or_report S now (set_st (\<lambda>s. s\<lparr> ls_LastCheck := unix now \<rparr>) L1)
      in alerts S now (flushOutbox S L2))"

section \<open>Summary\<close>

definition count_key :: "LogEvent list \<Rightarrow> Annotation list \<Rightarrow> string \<Rightarrow> int \<times> int \<times> int" where
  "count_key evs ann k =
     (let es = filter (\<lambda>e. le_Key e = k) evs
      in (int (length es), int (length (filter (\<lambda>e. Explained e ann) es)), int (length (filter (\<lambda>e. \<not> Explained e ann) es))))"

definition Summarize :: "'w LSetup \<Rightarrow> 'w logger \<Rightarrow> LState \<Rightarrow> nanos \<Rightarrow> nanos \<Rightarrow> Summary" where
  "Summarize S L st since until =
     (let evs = ParseEventLog (fd_Events (lg_dir L)); ann = ParseAnnotations (fd_Annotations (lg_dir L))
      in \<lparr> sm_Samples = ls_Samples st,
           sm_CoveragePct = Coverage (map_option (\<lambda>rows. (rows, None)) (fd_Samples (lg_dir L)))
                              (ls_StartEpoch st * 1000000000) until (ls_IntervalS st) ann,
           sm_Keys = (\<lambda>k. if k \<in> set Keys then count_key (filter (\<lambda>e. since \<le> le_Time e) evs) ann k else (0, 0, 0)),
           sm_OpenEpisodes = sort_texts (ls_Episodes st), sm_Annotations = int (length ann),
           sm_DataMB = of_int (dp_Size (se_Deps S) (lc_Dir (se_Cfg S)) (lg_w L)) / 1024 / 1024,
           sm_Restarts = ls_Restarts st, sm_MailsDropped = ls_MailsDropped st \<rparr>)"

definition pad_right :: "nat \<Rightarrow> string \<Rightarrow> string" where
  "pad_right w s = s @ replicate (w - length s) (CHR '' '')"

definition key_line :: "Summary \<Rightarrow> string \<Rightarrow> string" where
  "key_line s k =
     (case sm_Keys s k of (n, expl, unexpl) \<Rightarrow>
        pad_right 9 k @ ''  '' @ pad_left 5 (CHR '' '') (itoa n) @ ''  '' @ pad_left 9 (CHR '' '') (itoa expl) @
        ''  '' @ pad_left 11 (CHR '' '') (itoa unexpl) @ [NL])"

definition summary_text :: "Summary \<Rightarrow> string" where
  "summary_text s =
     ''samples: '' @ itoa (sm_Samples s) @ '', coverage '' @ fmt_f 2 (sm_CoveragePct s) @ '' %, data '' @ fmt_f 1 (sm_DataMB s) @
     '' MB, logger restarts '' @ itoa (sm_Restarts s) @ [NL, NL] @ ''criterion  total  explained  unexplained'' @ [NL] @
     concat (map (key_line s) Keys) @
     (if sm_OpenEpisodes s \<noteq> [] then [NL] @ ''open episodes: '' @ joins '', '' (sm_OpenEpisodes s) @ [NL] else '''') @
     ''annotations: '' @ itoa (sm_Annotations s) @ [NL] @
     (if sm_MailsDropped s > 0 then ''mails dropped (outbox full): '' @ itoa (sm_MailsDropped s) @ [NL] else '''')"

definition daily_body :: "string \<Rightarrow> int \<Rightarrow> nanos \<Rightarrow> Summary \<Rightarrow> Summary \<Rightarrow> string" where
  "daily_body run day now all recent =
     ''Run '' @ run @ '', day '' @ itoa day @ '', '' @ rfc3339 now @ [NL, NL] @ ''Whole run so far:'' @ [NL] @ summary_text all @
     [NL] @ ''Last 24 h:'' @ [NL] @ summary_text recent"

definition daily :: "'w LSetup \<Rightarrow> nanos \<Rightarrow> 'w logger \<Rightarrow> 'w logger" where
  "daily S now L =
     (let day = go_quot (now - lg_start L) (86400 * Second); run = lc_RunID (se_Cfg S);
          all = Summarize S L (lg_st L) (lg_start L) now;
          recent = Summarize S L (lg_st L) (now - 86400 * Second) now
      in set_st (\<lambda>s. s\<lparr> ls_LastDaily := unix now \<rparr>)
           (log_mail S (''DAILY '' @ run @ '' day '' @ itoa day) (daily_body run day now all recent) L))"

section \<open>A run\<close>

text \<open>How \<open>Run\<close> returns: without an error, with one, or because the run was finished before.\<close>

datatype run_end = Returned | Failed string | AlreadyFinished string

definition end_body :: "'w LSetup \<Rightarrow> nanos \<Rightarrow> Summary \<Rightarrow> string" where
  "end_body S now s =
     ''Run '' @ lc_RunID (se_Cfg S) @ '' finished '' @ rfc3339 now @ ''.'' @ [NL, NL] @ summary_text s @ [NL] @
     ''The raw data is in '' @ go_base (lc_Dir (se_Cfg S)) @ ''; report: n5-ectest report <dir>.'' @ [NL]"

definition write_meta :: "'w LSetup \<Rightarrow> 'w logger \<Rightarrow> 'w logger" where
  "write_meta S L =
     (case lg_meta L of
        None \<Rightarrow> L
      | Some m \<Rightarrow>
          fst (lwrite S MetaName (\<lambda>d. d\<lparr> fd_Meta := Some (lred S (dp_Json (se_Deps S) m) @ [NL]) \<rparr>) L))"

definition finish :: "'w LSetup \<Rightarrow> nanos \<Rightarrow> 'w logger \<Rightarrow> 'w logger \<times> run_end" where
  "finish S now L =
     (let L1 = log_check S now L;
          s = Summarize S L1 (lg_st L1) (lg_start L1) (ls_EndEpoch (lg_st L1) * 1000000000);
          L2 = log_note S now ''logger finished'' (set_st (\<lambda>st. st\<lparr> ls_Finished := True \<rparr>) L1);
          L3 = log_mail S (''END '' @ lc_RunID (se_Cfg S)) (end_body S now s) L2
      in case saveState S L3 of
           (L4, Some e) \<Rightarrow> (L4, Failed e)
         | (L4, None) \<Rightarrow>
             (let L5 = write_meta S (L4\<lparr> lg_meta := map_option (\<lambda>m. m\<lparr> lm_finished := rfc3339 now, lm_log := Some s,
                         lm_identity_changes := ls_IdentityChanges (lg_st L4) \<rparr>) (lg_meta L4) \<rparr>);
                  L6 = notify S ''STOPPING=1'' L5
              in case dp_Sums (se_Deps S) (lg_w L6) of
                   (w, None) \<Rightarrow> (L6\<lparr> lg_w := w \<rparr>, Returned)
                 | (w, Some e) \<Rightarrow> (L6\<lparr> lg_w := w \<rparr>, Failed e)))"

text \<open>One pass of the loop up to the sleep.\<close>

definition pass :: "'w LSetup \<Rightarrow> nanos \<Rightarrow> 'w logger \<Rightarrow> 'w logger" where
  "pass S now L =
     (let L1 = take_sample S now L;
          L2 = (if unix now - ls_LastCheck (lg_st L1) \<ge> CheckIntervalS then log_check S now L1 else L1);
          L3 = (if unix now - ls_LastDaily (lg_st L2) \<ge> 86400 then daily S now L2 else L2)
      in notify S ''WATCHDOG=1'' (save_or_report S now L3))"

definition stopped_text :: string where
  [text_defs]: "stopped_text = ''logger stopped (signal); resumes on the next start''"

definition stop_logger :: "'w LSetup \<Rightarrow> 'w logger \<Rightarrow> 'w logger" where
  "stop_logger S L =
     (let (w, now) = dp_Now (se_Deps S) (lg_w L)
      in notify S ''STOPPING=1'' (fst (saveState S (log_note S now stopped_text (L\<lparr> lg_w := w \<rparr>)))))"

partial_function (option) log_loop :: "'w LSetup \<Rightarrow> 'w logger \<Rightarrow> ('w logger \<times> run_end) option" where
  "log_loop S L =
     (let (w, now) = dp_Now (se_Deps S) (lg_w L); L0 = L\<lparr> lg_w := w \<rparr>
      in if unix now \<ge> ls_EndEpoch (lg_st L0) then Some (finish S now L0)
         else
           (let L1 = pass S now L0; (w1, awake) = dp_Sleep (se_Deps S) (lc_Interval (se_Cfg S)) (lg_w L1); L2 = L1\<lparr> lg_w := w1 \<rparr>
            in if \<not> awake then Some (stop_logger S L2, Returned) else log_loop S (L2\<lparr> lg_mailDown := False \<rparr>)))"

definition interval_text :: string where
  [text_defs]: "interval_text = ''log: interval and duration must be > 0''"
definition finished_text :: "string \<Rightarrow> string \<Rightarrow> string" where
  [text_defs]: "finished_text run dir = ''log run already finished: run '' @ run @ '' in '' @ dir"
definition started_text :: "string \<Rightarrow> nanos \<Rightarrow> string \<Rightarrow> string" where
  [text_defs]: "started_text run interval until =
     ''logger started: run '' @ run @ '', interval '' @ dur_text interval @ '', until '' @ until"
definition start_body :: "string \<Rightarrow> nanos \<Rightarrow> nanos \<Rightarrow> string \<Rightarrow> string" where
  [text_defs]: "start_body run now interval until =
     ''Run '' @ run @ '' started '' @ rfc3339 now @ '', interval '' @ dur_text interval @ '', until '' @ until @ ''.'' @ [NL] @
     ''This mail arriving proves the mail path of the alerts.'' @ [NL]"

definition new_state :: "LogConfig \<Rightarrow> nanos \<Rightarrow> string \<Rightarrow> string \<Rightarrow> LState" where
  "new_state cfg now boot taint =
     \<lparr> ls_RunID = lc_RunID cfg, ls_StartEpoch = unix now, ls_EndEpoch = unix (now + lc_Duration cfg),
       ls_IntervalS = Seconds (lc_Interval cfg), ls_BootIDStart = boot, ls_TaintStart = taint,
       ls_LastBoot = boot, ls_LastTaint = taint, ls_LastSampleWall = 0, ls_LastSampleMono = 0, ls_Samples = 0,
       ls_EventSeq = 0, ls_CursorKernel = '''', ls_CursorFangov = '''', ls_LastCheck = 0, ls_LastDaily = unix now,
       ls_FangovNR = 0, ls_Episodes = [], ls_ZeroRun = (\<lambda>f. 0), ls_MissRun = 0, ls_LastSent = (\<lambda>k. 0),
       ls_Pending = (\<lambda>k. []), ls_K1Count = 0, ls_Restarts = 0, ls_Finished = False, ls_MailsDropped = 0, ls_MailSeq = 0,
       ls_Identity = None, ls_IdentityChanges = [] \<rparr>"

definition meta_times :: "nanos \<Rightarrow> nanos \<Rightarrow> log_meta option \<Rightarrow> log_meta option" where
  "meta_times started planned = map_option (\<lambda>m. m\<lparr> lm_started := rfc3339 started, lm_planned_end := rfc3339 planned \<rparr>)"

definition fresh_run :: "'w LSetup \<Rightarrow> nanos \<Rightarrow> log_dir \<Rightarrow> log_meta option \<Rightarrow> 'w \<Rightarrow> 'w logger \<times> string option" where
  "fresh_run S now d m w =
     (let D = se_Deps S; cfg = se_Cfg S; fs = dp_Files D w; proc = ro_Proc (dp_Roots D);
          st = new_state cfg now (boot_id fs proc) (kernel_taint fs proc);
          until = rfc3339 (ls_EndEpoch st * 1000000000);
          (w1, fg) = dp_Fangov D w;
          st1 = (case fg of Inl e \<Rightarrow> st | Inr (s, n) \<Rightarrow> st\<lparr> ls_FangovNR := n \<rparr>);
          L = write_meta S \<lparr> lg_w = w1, lg_st = st1, lg_start = now, lg_mailDown = False, lg_dir = d,
                lg_meta = meta_times now (ls_EndEpoch st * 1000000000) m \<rparr>;
          L1 = identitySnapshot S now ''start'' (log_note S now (started_text (lc_RunID cfg) (lc_Interval cfg) until) L)
      in case saveState S L1 of
           (L2, Some e) \<Rightarrow> (L2, Some e)
         | (L2, None) \<Rightarrow>
             (log_mail S (''START '' @ lc_RunID cfg) (start_body (lc_RunID cfg) now (lc_Interval cfg) until) L2, None))"

definition resumed_text :: "int \<Rightarrow> string" where
  [text_defs]: "resumed_text n = ''logger resumed (restart '' @ itoa n @ '')''"

definition resumed_run :: "'w LSetup \<Rightarrow> nanos \<Rightarrow> LState \<Rightarrow> log_dir \<Rightarrow> log_meta option \<Rightarrow> 'w \<Rightarrow> 'w logger" where
  "resumed_run S now st d m w =
     (let st1 = st\<lparr> ls_Restarts := ls_Restarts st + 1 \<rparr>; start = ls_StartEpoch st * 1000000000;
          L = \<lparr> lg_w = w, lg_st = st1, lg_start = start, lg_mailDown = False, lg_dir = d, lg_meta = m \<rparr>;
          L1 = identitySnapshot S now ''resume'' (log_note S now (resumed_text (ls_Restarts st1)) L)
      in L1\<lparr> lg_meta := meta_times start (ls_EndEpoch st * 1000000000) (lg_meta L1) \<rparr>)"

text \<open>The rest of \<open>Run\<close> once the state is there.\<close>

definition run_on :: "'w LSetup \<Rightarrow> 'w logger \<Rightarrow> ('w logger \<times> run_end) option" where
  "run_on S L =
     (case saveState S L of
        (L1, Some e) \<Rightarrow> Some (L1, Failed e)
      | (L1, None) \<Rightarrow> log_loop S (notify S ''READY=1'' L1))"

text \<open>A logger without a run: what \<open>Run\<close> leaves when it returns before it has one.\<close>

definition no_run :: "'w \<Rightarrow> log_dir \<Rightarrow> log_meta option \<Rightarrow> 'w logger" where
  "no_run w d m =
     \<lparr> lg_w = w, lg_st = new_state \<lparr> lc_RunID = '''', lc_Dir = '''', lc_Duration = 0, lc_Interval = 0, lc_MailTo = '''' \<rparr> 0 '''' '''',
       lg_start = 0, lg_mailDown = False, lg_dir = d, lg_meta = m \<rparr>"

definition Run_Log :: "'w LSetup \<Rightarrow> string option \<Rightarrow> log_dir \<Rightarrow> log_meta option \<Rightarrow> 'w \<Rightarrow> ('w logger \<times> run_end) option" where
  "Run_Log S mkdir d m w0 =
     (let cfg = se_Cfg S; (w, now) = dp_Now (se_Deps S) w0
      in if lc_Interval cfg \<le> 0 \<or> lc_Duration cfg \<le> 0 then Some (no_run w0 d m, Failed interval_text)
         else case mkdir of
                Some e \<Rightarrow> Some (no_run w d m, Failed e)
              | None \<Rightarrow>
                  (case fd_State d of
                     BadState e \<Rightarrow> Some (no_run w d m, Failed e)
                   | Stored st \<Rightarrow>
                       if ls_Finished st
                       then Some (notify S ''STOPPING=1'' (notify S ''READY=1'' (no_run w d m)),
                                  AlreadyFinished (finished_text (ls_RunID st) (lc_Dir cfg)))
                       else run_on S (resumed_run S now st d m w)
                   | NoState \<Rightarrow>
                       (case fresh_run S now d m w of
                          (L, Some e) \<Rightarrow> Some (L, Failed e)
                        | (L, None) \<Rightarrow> run_on S L)))"

end

