(* ===== verification/Log_Steps.thy ===== *)
theory Log_Steps
  imports Log_Run
begin

text \<open>
  What the logger may do, as a relation of single actions, and every operation as a sequence of them:
  the changes of the stored state, a call of the outside world, a write, an attempt to mail.
\<close>

section \<open>Changes of the state\<close>

text \<open>The conditions that are reported once while they last.\<close>

definition EpisodeNames :: "string list" where
  "EpisodeNames = [''fangov_unknown'', ''fangov_inactive'', ''ec_read_errors'', ''dcr'', ''hot_Tctl'', ''hot_NVMe'', ''hot_HDD'',
     ''hot_EC_CPU'', ''journal_kernel'', ''disk'']"

inductive lupdate :: "nanos \<Rightarrow> LState \<Rightarrow> LState \<Rightarrow> bool" for now where
  upd_seq: "lupdate now s (s\<lparr> ls_EventSeq := ls_EventSeq s + 1 \<rparr>)"
| upd_pending: "k \<in> set Keys \<Longrightarrow> length (ls_Pending s k) < 200 \<Longrightarrow> length ev \<le> 41 \<Longrightarrow> ev \<noteq> [] \<Longrightarrow>
    lupdate now s (s\<lparr> ls_Pending := (ls_Pending s)(k := ls_Pending s k @ ev) \<rparr>)"
| upd_changes: "lupdate now s (s\<lparr> ls_IdentityChanges := ls_IdentityChanges s @ [c] \<rparr>)"
| upd_identity: "lupdate now s (s\<lparr> ls_Identity := Some ids \<rparr>)"
| upd_dropped: "lupdate now s (s\<lparr> ls_MailsDropped := ls_MailsDropped s + 1 \<rparr>)"
| upd_mailseq: "lupdate now s (s\<lparr> ls_MailSeq := ls_MailSeq s + 1 \<rparr>)"
| upd_on: "name \<in> set EpisodeNames \<Longrightarrow> name \<notin> set (ls_Episodes s) \<Longrightarrow> lupdate now s (s\<lparr> ls_Episodes := ls_Episodes s @ [name] \<rparr>)"
| upd_off: "lupdate now s (s\<lparr> ls_Episodes := drop_episode name (ls_Episodes s) \<rparr>)"
| upd_nr: "lupdate now s (s\<lparr> ls_FangovNR := n \<rparr>)"
| upd_zero: "f \<in> {1, 2, 3} \<Longrightarrow> z \<in> {0, ls_ZeroRun s f + 1} \<Longrightarrow> lupdate now s (s\<lparr> ls_ZeroRun := (ls_ZeroRun s)(f := z) \<rparr>)"
| upd_miss: "z \<in> {0, ls_MissRun s + 1} \<Longrightarrow> lupdate now s (s\<lparr> ls_MissRun := z \<rparr>)"
| upd_boot: "b \<noteq> '''' \<Longrightarrow> lupdate now s (s\<lparr> ls_LastBoot := b \<rparr>)"
| upd_taint: "b \<noteq> '''' \<Longrightarrow> lupdate now s (s\<lparr> ls_LastTaint := b \<rparr>)"
| upd_sample: "lupdate now s (s\<lparr> ls_Samples := ls_Samples s + 1, ls_LastSampleWall := unix now, ls_LastSampleMono := m \<rparr>)"
| upd_k1: "ls_K1Count s < K1MaxPerRun \<Longrightarrow> lupdate now s (s\<lparr> ls_K1Count := ls_K1Count s + 1 \<rparr>)"
| upd_cursor: "lupdate now s (s\<lparr> ls_CursorKernel := c \<rparr>)"
| upd_fcursor: "lupdate now s (s\<lparr> ls_CursorFangov := c \<rparr>)"
| upd_alert: "k \<in> set Keys \<Longrightarrow> alert_due (unix now) k s \<Longrightarrow>
    lupdate now s (s\<lparr> ls_LastSent := (ls_LastSent s)(k := unix now), ls_Pending := (ls_Pending s)(k := []) \<rparr>)"
| upd_check: "lupdate now s (s\<lparr> ls_LastCheck := unix now \<rparr>)"
| upd_daily: "lupdate now s (s\<lparr> ls_LastDaily := unix now \<rparr>)"
| upd_finished: "lupdate now s (s\<lparr> ls_Finished := True \<rparr>)"

section \<open>Changes of the files\<close>

definition text_of :: "string option \<Rightarrow> string" where
  "text_of f = (case f of None \<Rightarrow> '''' | Some t \<Rightarrow> t)"

definition rows_in :: "string list list option \<Rightarrow> string list list" where
  "rows_in f = (case f of None \<Rightarrow> [] | Some r \<Rightarrow> r)"

definition extends :: "'a list \<Rightarrow> 'a list \<Rightarrow> bool" where
  "extends a b \<longleftrightarrow> take (length a) b = a"

lemma extends_refl [simp]: "extends a a" "extends a (a @ b)" "extends [] b"
  by (simp_all add: extends_def)

lemma extends_trans: "extends a b \<Longrightarrow> extends b c \<Longrightarrow> extends a c"
  unfolding extends_def by (metis append_take_drop_id append.assoc append_eq_conv_conj)

definition dir_grows :: "LState \<Rightarrow> log_dir \<Rightarrow> log_dir \<Rightarrow> bool" where
  "dir_grows s d d' \<longleftrightarrow>
     extends (text_of (fd_Events d)) (text_of (fd_Events d')) \<and>
     extends (rows_in (fd_Samples d)) (rows_in (fd_Samples d')) \<and>
     extends (rows_in (fd_Aux d)) (rows_in (fd_Aux d')) \<and>
     fd_Annotations d' = fd_Annotations d \<and>
     (fd_State d' = fd_State d \<or> fd_State d' = Stored s)"

section \<open>Actions\<close>

inductive lact :: "'w LSetup \<Rightarrow> nanos \<Rightarrow> 'w logger \<Rightarrow> 'w logger \<Rightarrow> bool" for S now where
  act_now: "lact S now L (L\<lparr> lg_w := fst (dp_Now (se_Deps S) (lg_w L)) \<rparr>)"
| act_fangov: "lact S now L (L\<lparr> lg_w := fst (dp_Fangov (se_Deps S) (lg_w L)) \<rparr>)"
| act_journal: "lact S now L (L\<lparr> lg_w := fst (dp_Journal (se_Deps S) u c t (lg_w L)) \<rparr>)"
| act_free: "lact S now L (L\<lparr> lg_w := fst (dp_FreeBytes (se_Deps S) p (lg_w L)) \<rparr>)"
| act_ids: "dp_Identity (se_Deps S) = Some f \<Longrightarrow> lact S now L (L\<lparr> lg_w := fst (f (lg_w L)) \<rparr>)"
| act_print: "dp_Print (se_Deps S) = Some f \<Longrightarrow> lact S now L (L\<lparr> lg_w := f t (lg_w L) \<rparr>)"
| act_notify: "dp_Notify (se_Deps S) = Some f \<Longrightarrow> lact S now L (L\<lparr> lg_w := f t (lg_w L) \<rparr>)"
| act_sums: "lact S now L (L\<lparr> lg_w := fst (dp_Sums (se_Deps S) (lg_w L)) \<rparr>)"
| act_failed: "dp_Write (se_Deps S) name (lg_w L) = (w, Some e) \<Longrightarrow> lact S now L (L\<lparr> lg_w := w \<rparr>)"
| act_write: "dp_Write (se_Deps S) name (lg_w L) = (w, None) \<Longrightarrow> dir_grows (lg_st L) (lg_dir L) d \<Longrightarrow>
    lact S now L (L\<lparr> lg_w := w, lg_dir := d \<rparr>)"
| act_mail: "dp_Mail (se_Deps S) = Some send \<Longrightarrow> \<not> lg_mailDown L \<Longrightarrow> send subject body (lg_w L) = (w, r) \<Longrightarrow>
    lact S now L (L\<lparr> lg_w := w, lg_mailDown := (r \<noteq> None) \<rparr>)"
| act_state: "lupdate now (lg_st L) s \<Longrightarrow> lact S now L (L\<lparr> lg_st := s \<rparr>)"
| act_meta: "lact S now L (L\<lparr> lg_meta := m \<rparr>)"

abbreviation lacts :: "'w LSetup \<Rightarrow> nanos \<Rightarrow> 'w logger \<Rightarrow> 'w logger \<Rightarrow> bool" where
  "lacts S now \<equiv> (lact S now)\<^sup>*\<^sup>*"

named_theorems acts \<open>an operation of the logger as a sequence of actions\<close>

lemma acts_trans: "lacts S now L L1 \<Longrightarrow> lacts S now L1 L2 \<Longrightarrow> lacts S now L L2"
  by (rule rtranclp_trans)

lemma acts_upd: "lupdate now (lg_st L) (f (lg_st L)) \<Longrightarrow> lacts S now L (set_st f L)"
  unfolding set_st_def by (intro r_into_rtranclp act_state)

lemma acts_print [acts]: "lacts S now L (lprint S t L)"
  unfolding lprint_def by (auto split: option.split intro: act_print)

lemma acts_notify [acts]: "lacts S now L (notify S t L)"
  unfolding notify_def by (auto split: option.split intro: act_notify)

lemma acts_write:
  "dir_grows (lg_st L) (lg_dir L) (f (lg_dir L)) \<Longrightarrow> lacts S now L (fst (lwrite S name f L))"
  unfolding lwrite_def by (auto split: prod.split option.split intro: act_write act_failed)

lemma st_simps [simp]:
  "lg_st (set_st f L) = f (lg_st L)" "lg_dir (set_st f L) = lg_dir L" "lg_start (set_st f L) = lg_start L"
  "lg_mailDown (set_st f L) = lg_mailDown L" "lg_w (set_st f L) = lg_w L" "lg_meta (set_st f L) = lg_meta L"
  by (simp_all add: set_st_def)

lemma lprint_sel [simp]:
  "lg_st (lprint S t L) = lg_st L" "lg_dir (lprint S t L) = lg_dir L" "lg_start (lprint S t L) = lg_start L"
  "lg_mailDown (lprint S t L) = lg_mailDown L"
  by (auto simp: lprint_def split: option.split)

lemma notify_sel [simp]:
  "lg_st (notify S t L) = lg_st L" "lg_dir (notify S t L) = lg_dir L" "lg_start (notify S t L) = lg_start L"
  "lg_mailDown (notify S t L) = lg_mailDown L"
  by (auto simp: notify_def split: option.split)

lemma lwrite_sel [simp]:
  "lg_st (fst (lwrite S n f L)) = lg_st L" "lg_start (fst (lwrite S n f L)) = lg_start L"
  "lg_mailDown (fst (lwrite S n f L)) = lg_mailDown L"
  by (auto simp: lwrite_def split: prod.split option.split)

lemma append_events_sel [simp]:
  "lg_st (append_events S l L) = lg_st L" "lg_start (append_events S l L) = lg_start L"
  "lg_mailDown (append_events S l L) = lg_mailDown L"
  by (simp_all add: append_events_def)

section \<open>Writing\<close>

lemma grows_events: "dir_grows s d (d\<lparr> fd_Events := add_line l (fd_Events d) \<rparr>)"
  by (simp add: dir_grows_def add_line_def text_of_def split: option.split)

lemma grows_samples: "dir_grows s d (d\<lparr> fd_Samples := add_row h r (fd_Samples d) \<rparr>)"
  by (simp add: dir_grows_def add_row_def rows_in_def split: option.split)

lemma grows_aux: "dir_grows s d (d\<lparr> fd_Aux := add_row h r (fd_Aux d) \<rparr>)"
  by (simp add: dir_grows_def add_row_def rows_in_def split: option.split)

lemma grows_state: "dir_grows s d (d\<lparr> fd_State := Stored s \<rparr>)"
  by (simp add: dir_grows_def)

lemma grows_other: "dir_grows s d (d\<lparr> fd_Outbox := b \<rparr>)" "dir_grows s d (d\<lparr> fd_Meta := m \<rparr>)"
  by (simp_all add: dir_grows_def)

lemma acts_append [acts]: "lacts S now L (append_events S l L)"
  unfolding append_events_def by (intro acts_write grows_events)

lemma acts_note [acts]: "lacts S now L (log_note S t l L)"
  unfolding log_note_def by (rule acts_append)

lemma acts_save [acts]: "lacts S now L (fst (saveState S L))"
  unfolding saveState_def by (intro acts_write grows_state)

lemma acts_event [acts]:
  assumes "key \<in> set Keys" "length evidence \<le> 40"
  shows "lacts S now L (log_ev S key t detail evidence L)"
proof -
  let ?L1 = "append_events S (lred S (event_text t (lg_start L) key (ls_EventSeq (lg_st L) + 1) (flat detail)))
      (set_st (\<lambda>s. s\<lparr> ls_EventSeq := ls_EventSeq (lg_st L) + 1 \<rparr>) L)"
  let ?ev = "pending_lines (ls_EventSeq (lg_st L) + 1) t (flat detail) evidence"
  have "lacts S now L (set_st (\<lambda>s. s\<lparr> ls_EventSeq := ls_EventSeq (lg_st L) + 1 \<rparr>) L)"
    by (intro acts_upd upd_seq)
  then have a: "lacts S now L ?L1" by (rule acts_trans) (rule acts_append)
  have b: "lacts S now ?L1 (set_st (\<lambda>s. s\<lparr> ls_Pending := (ls_Pending s)(key := ls_Pending (lg_st ?L1) key @ ?ev) \<rparr>) ?L1)"
    if "length (ls_Pending (lg_st ?L1) key) < 200"
    using that assms by (intro acts_upd upd_pending) (simp_all add: pending_lines_def)
  show ?thesis
    unfolding log_ev_def Let_def by (rule acts_trans [OF _ acts_print]) (use a b in \<open>auto intro: acts_trans [OF a]\<close>)
qed

lemma acts_fold:
  assumes "\<And>x K. x \<in> set xs \<Longrightarrow> lacts S now K (f x K)"
  shows "lacts S now L (fold f xs L)"
  using assms by (induction xs arbitrary: L) (auto intro: acts_trans)

lemma acts_identity [acts]: "lacts S now L (identitySnapshot S t why L)"
proof (cases "dp_Identity (se_Deps S)")
  case None
  then show ?thesis by (simp add: identitySnapshot_def)
next
  case (Some f)
  have step: "lacts S now K (log_note S t (g c) (set_st (\<lambda>s. s\<lparr> ls_IdentityChanges := ls_IdentityChanges s @ [h c] \<rparr>) K))" for g h c K
    by (rule acts_trans [OF acts_upd acts_note]) (rule upd_changes)
  have last: "lacts S now K (set_st (\<lambda>s. s\<lparr> ls_Identity := Some ids \<rparr>) K)" for ids K
    by (intro acts_upd upd_identity)
  have world: "lacts S now L (L\<lparr> lg_w := w \<rparr>)" if "f (lg_w L) = (w, ids)" for w ids
    using act_ids [OF Some, of now L] that by auto
  show ?thesis
    by (auto simp: identitySnapshot_def Some Let_def split: prod.split
        intro!: acts_trans [OF _ last] acts_trans [OF _ acts_fold] acts_trans [OF world acts_note] step)
qed

section \<open>Mail\<close>

lemma acts_trySend [acts]: "lacts S now L (fst (trySend S s b L))"
proof (cases "dp_Mail (se_Deps S)")
  case None
  then show ?thesis by (simp add: trySend_def)
next
  case (Some send)
  show ?thesis
  proof (cases "lg_mailDown L")
    case True
    with Some show ?thesis by (simp add: trySend_def)
  next
    case False
    let ?K = "notify S ''WATCHDOG=1'' L"
    obtain w r where r: "send s b (lg_w ?K) = (w, r)" by fastforce
    have "lacts S now L (?K\<lparr> lg_w := w, lg_mailDown := (r \<noteq> None) \<rparr>)"
      using act_mail [OF Some, of ?K s b w r now] False r by (auto intro: acts_trans [OF acts_notify])
    moreover have "?K\<lparr> lg_w := w, lg_mailDown := False \<rparr> = ?K\<lparr> lg_w := w \<rparr>"
      using False by (intro logger.equality) simp_all
    ultimately show ?thesis using Some False r by (cases r) (simp_all add: trySend_def Let_def)
  qed
qed

lemma acts_drop [acts]: "lacts S now L (drop_mail L)"
  unfolding drop_mail_def by (intro acts_upd upd_dropped)

lemma acts_now: "dp_Now (se_Deps S) (lg_w L) = (w, t) \<Longrightarrow> lacts S now L (L\<lparr> lg_w := w \<rparr>)"
  using act_now [of S now L] by auto

lemma lwrite_pair: "lwrite S n f L = (L', r) \<Longrightarrow> L' = fst (lwrite S n f L)"
  by simp

lemma acts_queue [acts]: "lacts S now L (queue_mail S s b L)"
proof -
  let ?L1 = "set_st (\<lambda>s. s\<lparr> ls_MailSeq := ls_MailSeq s + 1 \<rparr>) L"
  have a: "lacts S now L ?L1" by (intro acts_upd upd_mailseq)
  obtain w t where w: "dp_Now (se_Deps S) (lg_w ?L1) = (w, t)" by fastforce
  have c: "lacts S now L (fst (lwrite S n (\<lambda>d. d\<lparr> fd_Outbox := fd_Outbox d @ [(n, m)] \<rparr>) (?L1\<lparr> lg_w := w \<rparr>)))" for n m
    by (rule acts_trans [OF a], rule acts_trans [OF acts_now [OF w]], rule acts_write) (rule grows_other)
  show ?thesis
    using w c by (auto simp: queue_mail_def Let_def split: prod.split option.split
        dest!: lwrite_pair intro: acts acts_trans [OF _ acts_drop] acts_trans [OF _ acts_print])
qed

lemma acts_mail [acts]: "lacts S now L (log_mail S s b L)"
  unfolding log_mail_def Let_def
  using acts_trySend [of S now L "''[n5-ectest] '' @ subject_clean (lred S s)" "lred S b"]
  by (auto split: prod.split bool.split intro: acts_trans [OF _ acts_queue])

lemma trySend_sel [simp]:
  "lg_st (fst (trySend S s b L)) = lg_st L" "lg_dir (fst (trySend S s b L)) = lg_dir L"
  "lg_start (fst (trySend S s b L)) = lg_start L"
  by (auto simp: trySend_def Let_def split: option.split prod.split)

lemma queue_mail_st [simp]:
  "ls_Pending (lg_st (queue_mail S s b L)) = ls_Pending (lg_st L)" "ls_LastSent (lg_st (queue_mail S s b L)) = ls_LastSent (lg_st L)"
proof -
  have w: "lwrite S n f K = (K', r) \<Longrightarrow> lg_st K' = lg_st K" for n f K K' r by (metis fst_conv lwrite_sel(1))
  show "ls_Pending (lg_st (queue_mail S s b L)) = ls_Pending (lg_st L)"
    "ls_LastSent (lg_st (queue_mail S s b L)) = ls_LastSent (lg_st L)"
    unfolding queue_mail_def Let_def drop_mail_def by (auto split: prod.split option.split dest!: w)
qed

lemma log_mail_st [simp]:
  "ls_Pending (lg_st (log_mail S s b L)) = ls_Pending (lg_st L)" "ls_LastSent (lg_st (log_mail S s b L)) = ls_LastSent (lg_st L)"
proof -
  let ?s = "''[n5-ectest] '' @ subject_clean (lred S s)" and ?b = "lred S b"
  obtain L1 ok where t: "trySend S ?s ?b L = (L1, ok)" by fastforce
  then have "lg_st L1 = lg_st L" by (metis fst_conv trySend_sel(1))
  then show "ls_Pending (lg_st (log_mail S s b L)) = ls_Pending (lg_st L)"
    "ls_LastSent (lg_st (log_mail S s b L)) = ls_LastSent (lg_st L)"
    using t by (cases ok; simp add: log_mail_def)+
qed

lemma acts_flush_loop: "lacts S now L (flush_loop S ns L)"
proof (induction S ns L rule: flush_loop.induct)
  case (2 S n ns L)
  show ?case
  proof (cases "map_of (fd_Outbox (lg_dir L)) n")
    case None
    with 2 show ?thesis by simp
  next
    case (Some msg)
    obtain h b where hb: "cut_head msg = (h, b)" by fastforce
    obtain L1 ok where t: "trySend S (subject_of h) (trim_suffix [NL] b) L = (L1, ok)" by fastforce
    then have a: "lacts S now L L1" using acts_trySend by (metis fst_conv)
    show ?thesis
    proof (cases ok)
      case False
      with a Some hb t show ?thesis by simp
    next
      case True
      let ?L2 = "fst (lwrite S n (\<lambda>d. d\<lparr> fd_Outbox := filter (\<lambda>m. fst m \<noteq> n) (fd_Outbox d) \<rparr>) L1)"
      have "lacts S now L1 ?L2" by (intro acts_write grows_other)
      moreover have "lacts S now ?L2 (flush_loop S ns ?L2)"
        using 2(2) [OF Some] hb t True by simp
      ultimately show ?thesis using a Some hb t True by (auto intro: acts_trans)
    qed
  qed
qed simp

lemma acts_flush [acts]: "lacts S now L (flushOutbox S L)"
  by (simp add: flushOutbox_def acts_flush_loop)

section \<open>Samples\<close>

lemma acts_episode [acts]:
  assumes "key \<in> set Keys" "name \<in> set EpisodeNames"
  shows "lacts S now L (episode S key name on t detail L)"
proof -
  have off: "lacts S now K (set_st (\<lambda>s. s\<lparr> ls_Episodes := drop_episode name (ls_Episodes s) \<rparr>) K)" for K
    by (intro acts_upd upd_off)
  have on: "lacts S now K (set_st (\<lambda>s. s\<lparr> ls_Episodes := if name \<in> set (ls_Episodes s) then ls_Episodes s else ls_Episodes s @ [name] \<rparr>) K)" for K
  proof (cases "name \<in> set (ls_Episodes (lg_st K))")
    case True
    then have "set_st (\<lambda>s. s\<lparr> ls_Episodes := if name \<in> set (ls_Episodes s) then ls_Episodes s else ls_Episodes s @ [name] \<rparr>) K = K"
      by (simp add: set_st_def)
    then show ?thesis by simp
  next
    case False
    then show ?thesis using upd_on [OF assms(2), of "lg_st K" now] by (intro acts_upd) simp
  qed
  have ev: "lacts S now L (log_ev S key t detail [] L)" using assms(1) by (intro acts_event) simp_all
  show ?thesis
    unfolding episode_def Let_def by (cases on) (auto intro: on off acts_trans [OF ev on])
qed

lemma keys [simp]: "''K1'' \<in> set Keys" "''K2'' \<in> set Keys" "''K3'' \<in> set Keys" "''K4'' \<in> set Keys" "''K5'' \<in> set Keys"
  "''K6'' \<in> set Keys" "''K7'' \<in> set Keys" "''K8'' \<in> set Keys"
  by (simp_all add: Keys_def)

lemma episode_names [simp]: "''fangov_unknown'' \<in> set EpisodeNames" "''fangov_inactive'' \<in> set EpisodeNames"
  "''ec_read_errors'' \<in> set EpisodeNames" "''dcr'' \<in> set EpisodeNames" "''journal_kernel'' \<in> set EpisodeNames"
  "''disk'' \<in> set EpisodeNames"
  by (simp_all add: EpisodeNames_def)

lemma acts_boot [acts]: "lacts S now L (check_boot S now boot up L)"
proof -
  have nr: "lacts S now K (set_st (\<lambda>s. s\<lparr> ls_FangovNR := 0 \<rparr>) K)" for K by (intro acts_upd upd_nr)
  have ev: "k \<in> set Keys \<Longrightarrow> lacts S now K (log_ev S k now d [] K)" for k d K by (intro acts_event) simp_all
  have snap: "lacts S now L (identitySnapshot S now w (log_ev S ''K2'' now d [] L))" for w d
    by (rule acts_trans [OF ev acts_identity]) simp
  show ?thesis
    unfolding check_boot_def Let_def
    by (auto split: option.split intro!: acts_trans [OF _ nr] intro: snap ev acts_trans [OF snap ev])
qed

lemma acts_fangov [acts]: "lacts S now L (check_fangov S now fg L)"
proof -
  have nr: "lacts S now K (set_st (\<lambda>s. s\<lparr> ls_FangovNR := n \<rparr>) K)" for n K by (intro acts_upd upd_nr)
  have ep: "n \<in> set EpisodeNames \<Longrightarrow> lacts S now K (episode S ''K3'' n on now d K)" for n on d K by (intro acts_episode) simp_all
  have ev: "lacts S now K (log_ev S ''K3'' now d [] K)" for d K by (intro acts_event) simp_all
  show ?thesis
    unfolding check_fangov_def Let_def
    by (auto split: sum.split intro!: acts_trans [OF _ nr] acts_trans [OF _ ev] acts_trans [OF ep ep] ep)
qed

lemma acts_fan: "f \<in> {1, 2, 3} \<Longrightarrow> lacts S now L (check_fan S now r f L)"
proof -
  assume f: "f \<in> {1, 2, 3}"
  have z: "lacts S now L (set_st (\<lambda>s. s\<lparr> ls_ZeroRun := (ls_ZeroRun s)(f := 0) \<rparr>) L)"
    "lacts S now L (set_st (\<lambda>s. s\<lparr> ls_ZeroRun := (ls_ZeroRun s)(f := ls_ZeroRun s f + 1) \<rparr>) L)"
    using f by (intro acts_upd upd_zero; simp)+
  have ev: "lacts S now K (log_ev S ''K4'' now d [] K)" for d K by (intro acts_event) simp_all
  show ?thesis unfolding check_fan_def Let_def using z by (auto intro: acts_trans [OF z(2) ev])
qed

lemma acts_missing [acts]: "lacts S now L (check_missing S now r L)"
proof -
  have z: "lacts S now L (set_st (\<lambda>s. s\<lparr> ls_MissRun := 0 \<rparr>) L)"
    "lacts S now L (set_st (\<lambda>s. s\<lparr> ls_MissRun := ls_MissRun s + 1 \<rparr>) L)"
    by (intro acts_upd upd_miss; simp)+
  have ev: "lacts S now K (log_ev S ''K4'' now d [] K)" for d K by (intro acts_event) simp_all
  show ?thesis unfolding check_missing_def Let_def using z by (auto intro: acts_trans [OF z(2) ev])
qed

lemma acts_hot: "h \<in> set (hot_sensors r) \<Longrightarrow> lacts S now L (check_hot_one S now h L)"
proof -
  assume "h \<in> set (hot_sensors r)"
  then have "''hot_'' @ fst h \<in> set EpisodeNames" by (auto simp: hot_sensors_def EpisodeNames_def)
  then show ?thesis by (auto simp: check_hot_one_def split: prod.split option.split intro: acts_episode)
qed

lemma acts_taint [acts]: "lacts S now L (check_taint S now b L)"
proof -
  have ev: "lacts S now L (log_ev S ''K7'' now d [] L)" for d by (intro acts_event) simp_all
  have t: "b \<noteq> '''' \<Longrightarrow> lacts S now K (set_st (\<lambda>s. s\<lparr> ls_LastTaint := b \<rparr>) K)" for K by (intro acts_upd upd_taint)
  show ?thesis unfolding check_taint_def by (auto intro: acts_trans [OF ev t])
qed

lemma acts_count [acts]: "lacts S now L (count_sample now up L)"
  unfolding count_sample_def by (intro acts_upd upd_sample)

lemma acts_world_fangov: "dp_Fangov (se_Deps S) (lg_w L) = (w, fg) \<Longrightarrow> lacts S now L (L\<lparr> lg_w := w \<rparr>)"
  using act_fangov [of S now L] by auto

lemma acts_judge [acts]: "lacts S now L (judge_sample S now boot up r errs why fg L)"
proof -
  have boot: "lacts S now K (if boot \<noteq> '''' then set_st (\<lambda>s. s\<lparr> ls_LastBoot := boot \<rparr>) K else K)" for K :: "'a logger"
    by (auto intro: acts_upd upd_boot)
  have fans: "lacts S now K (fold (check_fan S now r) [1, 2, 3] K)" for K by (intro acts_fold acts_fan) auto
  have hot: "lacts S now K (fold (check_hot_one S now) (hot_sensors r) K)" for K by (intro acts_fold acts_hot)
  have ep: "n \<in> set EpisodeNames \<Longrightarrow> k \<in> set Keys \<Longrightarrow> lacts S now K (episode S k n on now d K)" for k n on d K by (intro acts_episode)
  show ?thesis
    unfolding judge_sample_def Let_def
    by (rule acts_trans [OF _ hot], rule acts_trans [OF _ ep], rule acts_trans [OF _ ep], rule acts_trans [OF _ acts_missing],
        rule acts_trans [OF _ fans], rule acts_trans [OF _ acts_fangov], rule acts_trans [OF acts_boot boot]) simp_all
qed

lemma acts_sample [acts]: "lacts S now L (take_sample S now L)"
proof -
  have rows: "lacts S now K (fst (lwrite S n (\<lambda>d. d\<lparr> fd_Samples := add_row h r (fd_Samples d) \<rparr>) K))"
    "lacts S now K (fst (lwrite S n (\<lambda>d. d\<lparr> fd_Aux := add_row h r (fd_Aux d) \<rparr>) K))" for n h r K
    by (intro acts_write grows_samples grows_aux)+
  obtain w fg where w: "dp_Fangov (se_Deps S) (lg_w L) = (w, fg)" by fastforce
  show ?thesis
    unfolding take_sample_def Let_def w prod.case split_def fst_conv snd_conv
    by (rule acts_trans [OF _ acts_count], rule acts_trans [OF _ acts_taint], rule acts_trans [OF _ acts_judge],
        rule acts_trans [OF _ rows(2)], rule acts_trans [OF _ rows(1)], rule acts_world_fangov [OF w])
qed

section \<open>Checks\<close>

lemma acts_k1: "lacts S now L (fst (k1_loop S boot js n L))"
proof (induction S boot js n L rule: k1_loop.induct)
  case (2 S boot j js n L)
  let ?msg = "trim_prefix ''kernel: '' (jl_Msg j)"
  let ?L1 = "set_st (\<lambda>s. s\<lparr> ls_K1Count := ls_K1Count s + 1 \<rparr>) L"
  let ?L2 = "log_ev S ''K1'' (jl_Time j) (take 200 ?msg) [rfc3339 (jl_Time j) @ '' '' @ ?msg] ?L1"
  show ?case
  proof (cases "K1Hit ?msg (jl_Boot j \<noteq> '''' \<and> boot \<noteq> '''' \<and> jl_Boot j \<noteq> boot) \<and> ls_K1Count (lg_st L) < K1MaxPerRun")
    case True
    then have "lacts S now L ?L1" by (intro acts_upd upd_k1) simp
    moreover have "lacts S now ?L1 ?L2" by (intro acts_event) simp_all
    moreover have "lacts S now ?L2 (fst (k1_loop S boot js n ?L2))" using 2(3) True by (simp add: Let_def)
    ultimately show ?thesis using True by (simp add: Let_def)
  next
    case False
    then show ?thesis using 2(1,2) by (auto simp: Let_def)
  qed
qed simp

lemma acts_world_journal: "dp_Journal (se_Deps S) u c t (lg_w L) = (w, r) \<Longrightarrow> lacts S now L (L\<lparr> lg_w := w \<rparr>)"
  using act_journal [of S now L u c t] by auto

lemma acts_kernel [acts]: "lacts S now L (check_kernel S now since L)"
proof -
  obtain w js cur err where j: "dp_Journal (se_Deps S) '''' (ls_CursorKernel (lg_st L)) since (lg_w L) = (w, js, cur, err)"
    by (metis prod_cases4)
  have ep: "lacts S now L (episode S ''K8'' ''journal_kernel'' on now d (L\<lparr> lg_w := w \<rparr>))" for on d
    by (rule acts_trans [OF acts_world_journal [OF j] acts_episode]) simp_all
  have cu: "lacts S now K (set_st (\<lambda>s. s\<lparr> ls_CursorKernel := cur \<rparr>) K)" for K by (intro acts_upd upd_cursor)
  have ev: "lacts S now K (log_ev S ''K1'' now d [] K)" for d K by (intro acts_event) simp_all
  have k1: "k1_loop S b js n K = (K', m) \<Longrightarrow> lacts S now K K'" for b n K K' m using acts_k1 by (metis fst_conv)
  show ?thesis
    unfolding check_kernel_def Let_def j prod.case
    by (auto split: prod.split option.split dest!: k1 intro: acts_trans [OF _ ev] acts_trans [OF ep] acts_trans [OF ep acts_trans [OF cu]]
        intro: acts_trans)
qed

lemma acts_fangov_journal [acts]: "lacts S now L (check_fangov_journal S now since L)"
proof -
  obtain w js cur err where j: "dp_Journal (se_Deps S) FangovUnit (ls_CursorFangov (lg_st L)) since (lg_w L) = (w, js, cur, err)"
    by (metis prod_cases4)
  have w: "lacts S now L (L\<lparr> lg_w := w \<rparr>)" by (rule acts_world_journal [OF j])
  have cu: "lacts S now K (set_st (\<lambda>s. s\<lparr> ls_CursorFangov := cur \<rparr>) K)" for K by (intro acts_upd upd_fcursor)
  have ev: "lacts S now K (log_ev S ''K3'' now d (journal_evidence js) K)" for d K
    by (intro acts_event) (simp_all add: journal_evidence_def)
  show ?thesis
    unfolding check_fangov_journal_def Let_def j prod.case
    by (auto intro: w acts_trans [OF w cu] acts_trans [OF w ev] acts_trans [OF acts_trans [OF w cu] ev])
qed

lemma acts_disk [acts]: "lacts S now L (check_disk S now L)"
proof -
  obtain w r where w: "dp_FreeBytes (se_Deps S) (lc_Dir (se_Cfg S)) (lg_w L) = (w, r)" by fastforce
  then have "lacts S now L (L\<lparr> lg_w := w \<rparr>)" using act_free [of S now L "lc_Dir (se_Cfg S)"] by auto
  then show ?thesis unfolding check_disk_def Let_def w prod.case
    by (rule acts_trans) (rule acts_episode; simp)
qed

lemma acts_alert: "k \<in> set Keys \<Longrightarrow> lacts S now L (alert_one S now k L)"
proof (cases "alert_due (unix now) k (lg_st L)")
  case False
  then show ?thesis by (simp add: alert_one_def)
next
  case True
  assume k: "k \<in> set Keys"
  have due: "alert_due (unix now) k (lg_st (log_mail S s b L))" for s b
    using True by (simp add: alert_due_def)
  have "lacts S now (log_mail S s b L) (set_st (\<lambda>s. s\<lparr> ls_LastSent := (ls_LastSent s)(k := unix now),
      ls_Pending := (ls_Pending s)(k := []) \<rparr>) (log_mail S s b L))" for s b
    by (intro acts_upd upd_alert k due)
  from acts_trans [OF acts_mail this] show ?thesis using True by (simp add: alert_one_def Let_def)
qed

lemma acts_alerts [acts]: "lacts S now L (alerts S now L)"
  unfolding alerts_def by (intro acts_fold acts_alert)

lemma acts_save_report [acts]: "lacts S now L (save_or_report S now L)"
proof -
  obtain L1 r where r: "saveState S L = (L1, r)" by fastforce
  then have a: "lacts S now L L1" using acts_save by (metis fst_conv)
  have ev: "lacts S now L1 (log_ev S ''K8'' now d [] L1)" for d by (intro acts_event) simp_all
  show ?thesis using a by (auto simp: save_or_report_def r split: option.split intro: acts_trans [OF a ev])
qed

lemma acts_check [acts]: "lacts S now L (log_check S now L)"
proof -
  have lc: "lacts S now K (set_st (\<lambda>s. s\<lparr> ls_LastCheck := unix now \<rparr>) K)" for K by (intro acts_upd upd_check)
  show ?thesis
    unfolding log_check_def Let_def
    by (rule acts_trans [OF _ acts_alerts], rule acts_trans [OF _ acts_flush], rule acts_trans [OF _ acts_save_report],
        rule acts_trans [OF _ lc], rule acts_trans [OF _ acts_disk], rule acts_trans [OF _ acts_fangov_journal], rule acts_kernel)
qed

lemma acts_daily [acts]: "lacts S now L (daily S now L)"
proof -
  have ld: "lacts S now K (set_st (\<lambda>s. s\<lparr> ls_LastDaily := unix now \<rparr>) K)" for K by (intro acts_upd upd_daily)
  show ?thesis unfolding daily_def Let_def by (rule acts_trans [OF acts_mail ld])
qed

lemma acts_pass [acts]: "lacts S now L (pass S now L)"
  unfolding pass_def Let_def
  by (rule acts_trans [OF _ acts_notify], rule acts_trans [OF _ acts_save_report])
    (auto intro: acts_trans [OF acts_sample] acts_trans [OF acts_sample acts_trans [OF acts_check acts_daily]] acts)

lemma acts_write_meta [acts]: "lacts S now L (write_meta S L)"
  by (auto simp: write_meta_def split: option.split intro: acts_write grows_other)

lemma acts_finish [acts]: "lacts S now L (fst (finish S now L))"
proof -
  have fin: "lacts S now K (set_st (\<lambda>st. st\<lparr> ls_Finished := True \<rparr>) K)" for K by (intro acts_upd upd_finished)
  have meta: "lacts S now K (K\<lparr> lg_meta := m \<rparr>)" for K m by (intro r_into_rtranclp act_meta)
  have sums: "lacts S now K (K\<lparr> lg_w := w \<rparr>)" if "dp_Sums (se_Deps S) (lg_w K) = (w, r)" for K w r
    using that act_sums [of S now K] by auto
  let ?L3 = "\<lambda>s. log_mail S (''END '' @ lc_RunID (se_Cfg S)) (end_body S now s)
      (log_note S now ''logger finished'' (set_st (\<lambda>st. st\<lparr> ls_Finished := True \<rparr>) (log_check S now L)))"
  have l3: "lacts S now L (?L3 s)" for s
    by (rule acts_trans [OF _ acts_mail], rule acts_trans [OF _ acts_note], rule acts_trans [OF acts_check fin])
  define s where "s = Summarize S (log_check S now L) (lg_st (log_check S now L)) (lg_start (log_check S now L))
      (ls_EndEpoch (lg_st (log_check S now L)) * 1000000000)"
  obtain L4 r where r: "saveState S (?L3 s) = (L4, r)" by fastforce
  then have l4: "lacts S now L L4" using acts_trans [OF l3 acts_save, of s] by (metis fst_conv)
  show ?thesis
  proof (cases r)
    case (Some e)
    then show ?thesis using r l4 by (simp add: finish_def Let_def s_def)
  next
    case None
    let ?L6 = "notify S ''STOPPING=1'' (write_meta S (L4\<lparr> lg_meta := map_option (\<lambda>m. m\<lparr> lm_finished := rfc3339 now,
        lm_log := Some s, lm_identity_changes := ls_IdentityChanges (lg_st L4) \<rparr>) (lg_meta L4) \<rparr>))"
    obtain w q where q: "dp_Sums (se_Deps S) (lg_w ?L6) = (w, q)" by fastforce
    have "lacts S now L (?L6\<lparr> lg_w := w \<rparr>)"
      by (rule acts_trans [OF _ sums [OF q]], rule acts_trans [OF _ acts_notify], rule acts_trans [OF _ acts_write_meta],
          rule acts_trans [OF l4 meta])
    moreover have "fst (finish S now L) = ?L6\<lparr> lg_w := w \<rparr>"
      using r None q by (simp add: finish_def Let_def s_def [symmetric] split: option.split)
    ultimately show ?thesis by simp
  qed
qed

end
