(* ===== verification/Log_Facts.thy ===== *)
theory Log_Facts
  imports Log_Steps
begin

text \<open>
  Invariants of the logger, by induction on its actions: the stored state is well formed over every run
  and restart, its files only grow, a run ends.
\<close>

section \<open>The state\<close>

definition log_ok :: "LState \<Rightarrow> bool" where
  "log_ok s \<longleftrightarrow>
     0 \<le> ls_EventSeq s \<and> 0 \<le> ls_Samples s \<and> 0 \<le> ls_K1Count s \<and> ls_K1Count s \<le> K1MaxPerRun \<and>
     0 \<le> ls_Restarts s \<and> 0 \<le> ls_MailsDropped s \<and> 0 \<le> ls_MailSeq s \<and> 0 \<le> ls_MissRun s \<and>
     (\<forall>f. 0 \<le> ls_ZeroRun s f) \<and> (\<forall>f. f \<notin> {1, 2, 3} \<longrightarrow> ls_ZeroRun s f = 0) \<and>
     set (ls_Episodes s) \<subseteq> set EpisodeNames \<and> distinct (ls_Episodes s) \<and>
     (\<forall>k. length (ls_Pending s k) \<le> 240) \<and> (\<forall>k. k \<notin> set Keys \<longrightarrow> ls_Pending s k = [])"

lemma lupdate_ok: "lupdate now s s' \<Longrightarrow> log_ok s \<Longrightarrow> log_ok s'"
  by (induction rule: lupdate.induct) (auto simp: log_ok_def drop_episode_def)

lemma new_state_ok: "log_ok (new_state cfg now boot taint)"
  by (simp add: log_ok_def new_state_def const_defs)

lemma log_ok_other:
  "log_ok s \<Longrightarrow> log_ok (s\<lparr> ls_FangovNR := n \<rparr>)" "log_ok s \<Longrightarrow> log_ok (s\<lparr> ls_Restarts := ls_Restarts s + 1 \<rparr>)"
  by (simp_all add: log_ok_def)

text \<open>What a run never changes, and what only grows.\<close>

definition same_log :: "LState \<Rightarrow> LState \<Rightarrow> bool" where
  "same_log s s' \<longleftrightarrow>
     ls_RunID s' = ls_RunID s \<and> ls_StartEpoch s' = ls_StartEpoch s \<and> ls_EndEpoch s' = ls_EndEpoch s \<and>
     ls_IntervalS s' = ls_IntervalS s \<and> ls_BootIDStart s' = ls_BootIDStart s \<and> ls_TaintStart s' = ls_TaintStart s \<and>
     ls_Restarts s' = ls_Restarts s \<and> ls_EventSeq s \<le> ls_EventSeq s' \<and> ls_Samples s \<le> ls_Samples s' \<and>
     ls_K1Count s \<le> ls_K1Count s' \<and> ls_MailsDropped s \<le> ls_MailsDropped s' \<and> ls_MailSeq s \<le> ls_MailSeq s' \<and>
     (ls_Finished s \<longrightarrow> ls_Finished s')"

lemma same_log_refl [simp]: "same_log s s"
  by (simp add: same_log_def)

lemma same_log_trans: "same_log a b \<Longrightarrow> same_log b c \<Longrightarrow> same_log a c"
  unfolding same_log_def by auto

lemma lupdate_same: "lupdate now s s' \<Longrightarrow> same_log s s'"
  by (induction rule: lupdate.induct) (simp_all add: same_log_def)

section \<open>Runs\<close>

text \<open>The loop: actions of any times, sleeps, and the new mail attempt of every pass.\<close>

inductive lrun :: "'w LSetup \<Rightarrow> 'w logger \<Rightarrow> 'w logger \<Rightarrow> bool" for S L where
  run_refl: "lrun S L L"
| run_act: "lrun S L L1 \<Longrightarrow> lact S now L1 L2 \<Longrightarrow> lrun S L L2"
| run_sleep: "lrun S L L1 \<Longrightarrow> lrun S L (L1\<lparr> lg_w := fst (dp_Sleep (se_Deps S) d (lg_w L1)) \<rparr>)"
| run_pass: "lrun S L L1 \<Longrightarrow> lrun S L (L1\<lparr> lg_mailDown := False \<rparr>)"

lemma lrun_trans: "lrun S L1 L2 \<Longrightarrow> lrun S L L1 \<Longrightarrow> lrun S L L2"
  by (induction rule: lrun.induct) (auto intro: lrun.intros)

lemma lrun_acts: "lacts S now L1 L2 \<Longrightarrow> lrun S L L1 \<Longrightarrow> lrun S L L2"
  by (induction rule: rtranclp_induct) (auto intro: run_act)

lemma lrun_of_acts: "lacts S now L L' \<Longrightarrow> lrun S L L'"
  by (rule lrun_acts [OF _ run_refl])

lemma acts_stop: "lrun S L (stop_logger S L)"
proof -
  obtain w t where w: "dp_Now (se_Deps S) (lg_w L) = (w, t)" by fastforce
  have "lacts S t L (stop_logger S L)"
    unfolding stop_logger_def Let_def w prod.case
    by (rule acts_trans [OF _ acts_notify], rule acts_trans [OF _ acts_save], rule acts_trans [OF acts_now [OF w] acts_note])
  then show ?thesis by (rule lrun_of_acts)
qed

lemma log_loop_run':
  assumes "log_loop S L = Some y"
  shows "lrun S L (fst y)"
proof (rule log_loop.raw_induct [where P = "\<lambda>S L y. lrun S L (fst y)", OF _ assms], goal_cases)
  case (1 loop S L y)
  obtain L' r where y: "y = (L', r)" by fastforce
  obtain w now where w: "dp_Now (se_Deps S) (lg_w L) = (w, now)" by fastforce
  let ?L0 = "L\<lparr> lg_w := w \<rparr>"
  have a: "lrun S L ?L0" by (rule lrun_of_acts [OF acts_now [OF w]])
  have "lrun S L L'"
  proof (cases "unix now \<ge> ls_EndEpoch (lg_st ?L0)")
    case True
    then have "finish S now ?L0 = (L', r)" using 1(2) w y by (simp add: Let_def)
    then have "lacts S now ?L0 L'" using acts_finish by (metis fst_conv)
    then show ?thesis using a by (rule lrun_acts)
  next
    case False
    let ?L1 = "pass S now ?L0"
    obtain w1 awake where s: "dp_Sleep (se_Deps S) (lc_Interval (se_Cfg S)) (lg_w ?L1) = (w1, awake)" by fastforce
    have b: "lrun S L ?L1" by (rule lrun_acts [OF acts_pass a])
    have c: "lrun S L (?L1\<lparr> lg_w := w1 \<rparr>)" using run_sleep [OF b, of "lc_Interval (se_Cfg S)"] s by simp
    show ?thesis
    proof (cases awake)
      case True
      then have "loop S (?L1\<lparr> lg_w := w1, lg_mailDown := False \<rparr>) = Some (L', r)" using 1(2) False w s y by (simp add: Let_def)
      from 1(1) [OF this] have "lrun S (?L1\<lparr> lg_w := w1, lg_mailDown := False \<rparr>) L'" by simp
      moreover have "lrun S L (?L1\<lparr> lg_w := w1, lg_mailDown := False \<rparr>)" using run_pass [OF c] by simp
      ultimately show ?thesis by (rule lrun_trans)
    next
      case sl: False
      then have "L' = stop_logger S (?L1\<lparr> lg_w := w1 \<rparr>)" using 1(2) False w s y by (simp add: Let_def)
      then show ?thesis using acts_stop lrun_trans [OF _ c] by blast
    qed
  qed
  then show ?case by (simp add: y)
qed

lemma log_loop_run: "log_loop S L = Some (L', r) \<Longrightarrow> lrun S L L'"
  using log_loop_run' [of S L "(L', r)"] by simp

lemma run_on_run: "run_on S L = Some (L', r) \<Longrightarrow> lrun S L L'"
proof -
  assume r: "run_on S L = Some (L', r)"
  obtain L1 e where s: "saveState S L = (L1, e)" by fastforce
  then have a: "lacts S 0 L L1" using acts_save by (metis fst_conv)
  show ?thesis
  proof (cases e)
    case None
    then have l: "log_loop S (notify S ''READY=1'' L1) = Some (L', r)" using r s by (simp add: run_on_def)
    have "lacts S 0 L (notify S ''READY=1'' L1)" by (rule acts_trans [OF a acts_notify])
    then show ?thesis using lrun_trans [OF log_loop_run [OF l]] lrun_of_acts by blast
  next
    case (Some x)
    then show ?thesis using r s a by (auto simp: run_on_def intro: lrun_of_acts)
  qed
qed

text \<open>How a run starts: the logger before its first action.\<close>

definition started :: "'w LSetup \<Rightarrow> log_dir \<Rightarrow> 'w logger \<Rightarrow> bool" where
  "started S d L \<longleftrightarrow> lg_dir L = d \<and>
     (case fd_State d of
        Stored st \<Rightarrow> \<not> ls_Finished st \<and> lg_st L = st\<lparr> ls_Restarts := ls_Restarts st + 1 \<rparr> \<and> lg_start L = ls_StartEpoch st * 1000000000
      | NoState \<Rightarrow> (\<exists>now boot taint n. lg_st L = (new_state (se_Cfg S) now boot taint)\<lparr> ls_FangovNR := n \<rparr> \<and> lg_start L = now)
      | BadState e \<Rightarrow> False)"

lemma resumed_started:
  assumes "fd_State d = Stored st" "\<not> ls_Finished st"
  shows "\<exists>L. started S d L \<and> lrun S L (resumed_run S now st d m w)"
proof -
  let ?L = "\<lparr> lg_w = w, lg_st = st\<lparr> ls_Restarts := ls_Restarts st + 1 \<rparr>, lg_start = ls_StartEpoch st * 1000000000,
      lg_mailDown = False, lg_dir = d, lg_meta = m \<rparr>"
  have meta: "lacts S now K (K\<lparr> lg_meta := x \<rparr>)" for K x by (intro r_into_rtranclp act_meta)
  have "lacts S now ?L (resumed_run S now st d m w)"
    unfolding resumed_run_def Let_def by (rule acts_trans [OF _ meta], rule acts_trans [OF acts_note acts_identity])
  moreover have "started S d ?L" using assms by (simp add: started_def)
  ultimately show ?thesis using lrun_of_acts by blast
qed

lemma fresh_started:
  assumes "fd_State d = NoState" "fresh_run S now d m w = (L', r)"
  shows "\<exists>L. started S d L \<and> lrun S L L'"
proof -
  let ?fs = "dp_Files (se_Deps S) w" and ?proc = "ro_Proc (dp_Roots (se_Deps S))"
  let ?st = "new_state (se_Cfg S) now (boot_id ?fs ?proc) (kernel_taint ?fs ?proc)"
  obtain w1 fg where fg: "dp_Fangov (se_Deps S) w = (w1, fg)" by fastforce
  define st1 where "st1 = (case fg of Inl e \<Rightarrow> ?st | Inr (s, n) \<Rightarrow> ?st\<lparr> ls_FangovNR := n \<rparr>)"
  have st1: "\<exists>n. st1 = ?st\<lparr> ls_FangovNR := n \<rparr>"
  proof (cases fg)
    case (Inl e)
    then have "st1 = ?st\<lparr> ls_FangovNR := ls_FangovNR ?st \<rparr>" by (simp add: st1_def)
    then show ?thesis ..
  next
    case (Inr x)
    then show ?thesis by (cases x) (auto simp: st1_def)
  qed
  let ?L = "\<lparr> lg_w = w1, lg_st = st1, lg_start = now, lg_mailDown = False, lg_dir = d,
      lg_meta = meta_times now (ls_EndEpoch ?st * 1000000000) m \<rparr>"
  have l1: "lacts S now ?L (identitySnapshot S now y (log_note S now z (write_meta S ?L)))" for y z
    by (rule acts_trans [OF _ acts_identity], rule acts_trans [OF acts_write_meta acts_note])
  let ?L1 = "identitySnapshot S now ''start'' (log_note S now (started_text (lc_RunID (se_Cfg S)) (lc_Interval (se_Cfg S))
      (rfc3339 (ls_EndEpoch ?st * 1000000000))) (write_meta S ?L))"
  obtain L2 e where s: "saveState S ?L1 = (L2, e)" by fastforce
  then have l2: "lacts S now ?L L2" using acts_trans [OF l1 acts_save] by (metis fst_conv)
  have "lacts S now ?L L'"
    using assms(2) s l2 acts_trans [OF l2 acts_mail]
    by (auto simp: fresh_run_def Let_def fg st1_def split: option.splits)
  moreover have "started S d ?L" using assms(1) st1 by (auto simp: started_def)
  ultimately show ?thesis using lrun_of_acts by blast
qed

text \<open>Every return of \<open>Run\<close>: without a run, or after one of a started logger.\<close>

lemma Run_Log_cases:
  assumes "Run_Log S mk d m w = Some (L', r)"
  obtains "lg_dir L' = d" "\<exists>cfg now b t. lg_st L' = new_state cfg now b t" "r \<noteq> Returned"
  | L where "started S d L" "lrun S L L'"
proof -
  obtain w1 now where n: "dp_Now (se_Deps S) w = (w1, now)" by fastforce
  have no_run: "lg_dir (no_run x d m) = d \<and> (\<exists>cfg now b t. lg_st (no_run x d m) = new_state cfg now b t)" for x :: 'a
    unfolding no_run_def by (simp, intro exI, rule refl)
  consider (none) "lg_dir L' = d \<and> (\<exists>cfg now b t. lg_st L' = new_state cfg now b t) \<and> r \<noteq> Returned"
    | (old) st where "fd_State d = Stored st" "\<not> ls_Finished st" "run_on S (resumed_run S now st d m w1) = Some (L', r)"
    | (new) L e where "fd_State d = NoState" "fresh_run S now d m w1 = (L, e)"
        "(e = None \<and> run_on S L = Some (L', r)) \<or> (e \<noteq> None \<and> L' = L)"
  proof (cases "lc_Interval (se_Cfg S) \<le> 0 \<or> lc_Duration (se_Cfg S) \<le> 0 \<or> mk \<noteq> None")
    case True
    then have "(L' = no_run w d m \<or> L' = no_run w1 d m) \<and> r \<noteq> Returned"
      using assms n by (auto simp: Run_Log_def Let_def split: if_splits option.splits)
    then show thesis using that(1) no_run by blast
  next
    case False
    then have mk: "mk = None" "\<not> lc_Interval (se_Cfg S) \<le> 0" "\<not> lc_Duration (se_Cfg S) \<le> 0" by auto
    show thesis
    proof (cases "fd_State d")
      case NoState
      obtain L e where f: "fresh_run S now d m w1 = (L, e)" by fastforce
      then show thesis using assms n mk NoState that(3) [OF NoState f] by (cases e) (auto simp: Run_Log_def Let_def)
    next
      case (BadState x)
      then have "L' = no_run w1 d m \<and> r \<noteq> Returned" using assms n mk by (auto simp: Run_Log_def Let_def)
      then show thesis using that(1) no_run by blast
    next
      case (Stored st)
      show thesis
      proof (cases "ls_Finished st")
        case True
        then have "L' = notify S ''STOPPING=1'' (notify S ''READY=1'' (no_run w1 d m)) \<and> r \<noteq> Returned"
          using Stored assms n mk by (auto simp: Run_Log_def Let_def)
        then show thesis using that(1) no_run [of w1] by simp
      next
        case False
        then show thesis using Stored assms n mk that(2) [OF Stored] by (simp add: Run_Log_def Let_def)
      qed
    qed
  qed
  then show thesis
  proof cases
    case none
    then show ?thesis using that(1) by blast
  next
    case old
    from resumed_started [OF old(1,2), where S = S and now = now and m = m and w = w1] obtain L where "started S d L" "lrun S L (resumed_run S now st d m w1)" by blast
    then show ?thesis using that(2) lrun_trans [OF run_on_run [OF old(3)]] by blast
  next
    case new
    from fresh_started [OF new(1,2)] obtain K where "started S d K" "lrun S K L" by blast
    then show ?thesis using that(2) new(3) lrun_trans [OF run_on_run] by blast
  qed
qed

section \<open>Invariants of runs\<close>

definition dir_ok :: "log_dir \<Rightarrow> bool" where
  "dir_ok d \<longleftrightarrow> (case fd_State d of Stored st \<Rightarrow> log_ok st | _ \<Rightarrow> True)"

lemma lact_ok: "lact S now L L' \<Longrightarrow> log_ok (lg_st L) \<and> dir_ok (lg_dir L) \<Longrightarrow> log_ok (lg_st L') \<and> dir_ok (lg_dir L')"
  by (induction rule: lact.induct) (auto simp: dir_grows_def dir_ok_def dest: lupdate_ok)

lemma lrun_ok: "lrun S L L' \<Longrightarrow> log_ok (lg_st L) \<and> dir_ok (lg_dir L) \<Longrightarrow> log_ok (lg_st L') \<and> dir_ok (lg_dir L')"
  by (induction rule: lrun.induct) (auto dest: lact_ok)

lemma started_ok: "started S d L \<Longrightarrow> dir_ok d \<Longrightarrow> log_ok (lg_st L) \<and> dir_ok (lg_dir L)"
  using new_state_ok log_ok_other by (auto simp: started_def dir_ok_def split: stored_state.splits)

definition files_grow :: "log_dir \<Rightarrow> log_dir \<Rightarrow> bool" where
  "files_grow d d' \<longleftrightarrow>
     extends (text_of (fd_Events d)) (text_of (fd_Events d')) \<and>
     extends (rows_in (fd_Samples d)) (rows_in (fd_Samples d')) \<and>
     extends (rows_in (fd_Aux d)) (rows_in (fd_Aux d')) \<and> fd_Annotations d' = fd_Annotations d"

lemma files_grow_refl [simp]: "files_grow d d"
  by (simp add: files_grow_def)

lemma files_grow_trans: "files_grow a b \<Longrightarrow> files_grow b c \<Longrightarrow> files_grow a c"
  unfolding files_grow_def by (auto intro: extends_trans)

lemma lact_grow: "lact S now L L' \<Longrightarrow> files_grow (lg_dir L) (lg_dir L') \<and> same_log (lg_st L) (lg_st L')"
  by (induction rule: lact.induct) (auto simp: dir_grows_def files_grow_def dest: lupdate_same)

lemma lrun_grow: "lrun S L L' \<Longrightarrow> files_grow (lg_dir L) (lg_dir L') \<and> same_log (lg_st L) (lg_st L')"
  by (induction rule: lrun.induct) (auto dest: lact_grow intro: files_grow_trans same_log_trans)

end
