(* ===== verification/Log_World.thy ===== *)
theory Log_World
  imports Log_Facts
begin

text \<open>
  What the logger relies on of the outside world, as locales: calls that keep a relation between the
  states of the world, a clock that sleeping moves on, a count of the mails that failed.
\<close>

section \<open>Calls\<close>

definition calls_keep :: "'w LSetup \<Rightarrow> ('w \<Rightarrow> 'w \<Rightarrow> bool) \<Rightarrow> bool" where
  "calls_keep S keeps \<longleftrightarrow>
     (\<forall>w. keeps w (fst (dp_Now (se_Deps S) w)) \<and> keeps w (fst (dp_Fangov (se_Deps S) w)) \<and>
        (\<forall>u c t. keeps w (fst (dp_Journal (se_Deps S) u c t w))) \<and> (\<forall>p. keeps w (fst (dp_FreeBytes (se_Deps S) p w))) \<and>
        (\<forall>f. dp_Identity (se_Deps S) = Some f \<longrightarrow> keeps w (fst (f w))) \<and>
        (\<forall>f t. dp_Print (se_Deps S) = Some f \<longrightarrow> keeps w (f t w)) \<and>
        (\<forall>f t. dp_Notify (se_Deps S) = Some f \<longrightarrow> keeps w (f t w)) \<and>
        (\<forall>n. keeps w (fst (dp_Write (se_Deps S) n w))) \<and> keeps w (fst (dp_Sums (se_Deps S) w)))"

locale log_world =
  fixes S :: "'w LSetup" and keeps :: "'w \<Rightarrow> 'w \<Rightarrow> bool"
  assumes calls: "calls_keep S keeps"
    and keeps_refl: "keeps w w"
    and keeps_trans: "keeps w1 w2 \<Longrightarrow> keeps w2 w3 \<Longrightarrow> keeps w1 w3"
begin

lemma calls_write: "keeps w (fst (dp_Write (se_Deps S) n w))"
  using calls by (simp add: calls_keep_def)

text \<open>An action is a call that keeps the relation, no call, or an attempt to mail.\<close>

lemma action_keeps:
  assumes "lact S now L L'"
  shows "keeps (lg_w L) (lg_w L') \<and> lg_mailDown L' = lg_mailDown L \<or>
    (\<exists>send s b r. dp_Mail (se_Deps S) = Some send \<and> \<not> lg_mailDown L \<and> send s b (lg_w L) = (lg_w L', r) \<and>
       lg_mailDown L' = (r \<noteq> None))"
  using assms
proof (cases rule: lact.cases)
  case (act_failed name w e)
  then show ?thesis using calls_write [of "lg_w L" name] by simp
next
  case (act_write name w d)
  then show ?thesis using calls_write [of "lg_w L" name] by simp
next
  case (act_mail send subject body w r)
  then show ?thesis by auto
qed (use calls keeps_refl in \<open>auto simp: calls_keep_def\<close>)

end

section \<open>The clock\<close>

locale log_clock = log_world S "\<lambda>w w'. clock w \<le> clock w'" for S :: "'w LSetup" and clock :: "'w \<Rightarrow> int" +
  assumes now_reads: "snd (dp_Now (se_Deps S) w) = clock w"
    and mail_keeps: "dp_Mail (se_Deps S) = Some send \<Longrightarrow> clock w \<le> clock (fst (send s b w))"
    and sleep_moves: "clock w < clock (fst (dp_Sleep (se_Deps S) d w))"
begin

lemma actions_clock: "lacts S now L L' \<Longrightarrow> clock (lg_w L) \<le> clock (lg_w L')"
proof (induction rule: rtranclp_induct)
  case (step L1 L2)
  from action_keeps [OF step(2)] have "clock (lg_w L1) \<le> clock (lg_w L2)"
  proof
    assume "\<exists>send s b r. dp_Mail (se_Deps S) = Some send \<and> \<not> lg_mailDown L1 \<and> send s b (lg_w L1) = (lg_w L2, r) \<and>
       lg_mailDown L2 = (r \<noteq> None)"
    then obtain send s b r where "dp_Mail (se_Deps S) = Some send" "send s b (lg_w L1) = (lg_w L2, r)" by blast
    then show ?thesis using mail_keeps [of send "lg_w L1" s b] by simp
  qed simp
  with step.IH show ?case by simp
qed simp

lemma pass_end: "ls_EndEpoch (lg_st (pass S now L)) = ls_EndEpoch (lg_st L)"
proof -
  have "lrun S L (pass S now L)" by (rule lrun_of_acts [OF acts_pass])
  then show ?thesis using lrun_grow [of S L "pass S now L"] by (simp add: same_log_def)
qed

text \<open>The loop ends: every pass brings the clock nearer to the end of the run.\<close>

lemma loop_returns: "\<exists>y. log_loop S L = Some y"
proof (induction "nat (ls_EndEpoch (lg_st L) * 1000000000 - clock (lg_w L))" arbitrary: L rule: less_induct)
  case less
  obtain w now where n: "dp_Now (se_Deps S) (lg_w L) = (w, now)" by fastforce
  have now: "now = clock (lg_w L)" using now_reads [of "lg_w L"] n by simp
  let ?L0 = "L\<lparr> lg_w := w \<rparr>" and ?L1 = "pass S now (L\<lparr> lg_w := w \<rparr>)"
  obtain w1 awake where s: "dp_Sleep (se_Deps S) (lc_Interval (se_Cfg S)) (lg_w ?L1) = (w1, awake)" by fastforce
  show ?case
  proof (cases "unix now \<ge> ls_EndEpoch (lg_st L) \<or> \<not> awake")
    case True
    then show ?thesis using n s by (subst log_loop.simps) (auto simp: Let_def)
  next
    case False
    then have early: "now < ls_EndEpoch (lg_st L) * 1000000000" by linarith
    have "clock (lg_w L) \<le> clock (lg_w ?L1)"
      using actions_clock [OF acts_trans [OF acts_now [OF n] acts_pass]] by simp
    also have "\<dots> < clock w1" using sleep_moves [of "lg_w ?L1" "lc_Interval (se_Cfg S)"] s by simp
    finally have "\<exists>y. log_loop S (?L1\<lparr> lg_w := w1, lg_mailDown := False \<rparr>) = Some y"
      using early now pass_end [of now ?L0] by (intro less) simp
    then show ?thesis using False n s by (subst log_loop.simps) (auto simp: Let_def)
  qed
qed

lemma run_on_returns: "\<exists>a b. run_on S L = Some (a, b)"
proof -
  obtain L1 r where r: "saveState S L = (L1, r)" by fastforce
  show ?thesis using loop_returns [of "notify S ''READY=1'' L1"] by (cases r) (auto simp: run_on_def r)
qed

lemma run_returns: "\<exists>y. Run_Log S mk d m w = Some y"
  by (auto simp: Run_Log_def Let_def run_on_returns split: prod.split option.split stored_state.split)

end

text \<open>A run that no signal stops comes to its end and is marked finished.\<close>

lemma finish_finished: "ls_Finished (lg_st (fst (finish S now L)))"
proof -
  let ?L2 = "log_note S now ''logger finished'' (set_st (\<lambda>st. st\<lparr> ls_Finished := True \<rparr>) (log_check S now L))"
  have f: "ls_Finished (lg_st ?L2)" by (simp add: log_note_def)
  have mail: "ls_Finished (lg_st K) \<Longrightarrow> ls_Finished (lg_st (log_mail S s b K))" for s b K
    using lrun_grow [OF lrun_of_acts [OF acts_mail [where now = now]], of K S s b] by (simp add: same_log_def)
  have save: "ls_Finished (lg_st K) \<Longrightarrow> saveState S K = (K', r) \<Longrightarrow> ls_Finished (lg_st K')" for K K' r
    by (metis fst_conv lwrite_sel(1) saveState_def)
  have meta: "lg_st (write_meta S K) = lg_st K" for K
    by (simp add: write_meta_def split: option.split)
  show ?thesis
    unfolding finish_def Let_def
    by (auto split: prod.split option.split simp: meta intro: save [OF mail [OF f]])
qed

lemma undisturbed_finishes:
  assumes "log_loop S L = Some y" "\<forall>d w. snd (dp_Sleep (se_Deps S) d w)"
  shows "ls_Finished (lg_st (fst y))"
proof (rule log_loop.raw_induct [where P = "\<lambda>S' L y. S' = S \<longrightarrow> ls_Finished (lg_st (fst y))", OF _ assms(1), THEN mp], goal_cases)
  case (1 loop S' L y)
  show ?case
  proof
    assume eq: "S' = S"
    obtain w now where n: "dp_Now (se_Deps S) (lg_w L) = (w, now)" by fastforce
    let ?L1 = "pass S now (L\<lparr> lg_w := w \<rparr>)"
    obtain w1 awake where s: "dp_Sleep (se_Deps S) (lc_Interval (se_Cfg S)) (lg_w ?L1) = (w1, awake)" by fastforce
    then have awake using assms(2) by (metis snd_conv)
    then show "ls_Finished (lg_st (fst y))"
      using 1 n s eq finish_finished by (auto simp: Let_def split: if_splits)
  qed
qed simp

lemma stored_write_meta [simp]: "fd_State (lg_dir (write_meta S L)) = fd_State (lg_dir L)" "lg_st (write_meta S L) = lg_st L"
  by (auto simp: write_meta_def lwrite_def split: option.split prod.split)

lemma saved_state: "saveState S L = (L', None) \<Longrightarrow> fd_State (lg_dir L') = Stored (lg_st L') \<and> lg_st L' = lg_st L"
  by (auto simp: saveState_def lwrite_def split: prod.splits option.splits)

lemma finish_stored: "finish S now L = (L', Returned) \<Longrightarrow> fd_State (lg_dir L') = Stored (lg_st L')"
  by (auto simp: finish_def Let_def split: prod.splits option.splits dest!: saved_state)

lemma loop_finished:
  assumes "log_loop S L = Some y" "\<forall>d w. snd (dp_Sleep (se_Deps S) d w)" "snd y = Returned"
  shows "fd_State (lg_dir (fst y)) = Stored (lg_st (fst y))"
proof -
  have "S = S \<longrightarrow> snd y = Returned \<longrightarrow> fd_State (lg_dir (fst y)) = Stored (lg_st (fst y))"
  proof (rule log_loop.raw_induct [where P = "\<lambda>S' L y. S' = S \<longrightarrow> snd y = Returned \<longrightarrow>
        fd_State (lg_dir (fst y)) = Stored (lg_st (fst y))", OF _ assms(1)], goal_cases)
    case (1 loop S' L y)
    show ?case
    proof (intro impI)
      assume eq: "S' = S" and r: "snd y = Returned"
      obtain w now where n: "dp_Now (se_Deps S) (lg_w L) = (w, now)" by fastforce
      let ?L1 = "pass S now (L\<lparr> lg_w := w \<rparr>)"
      obtain w1 awake where s: "dp_Sleep (se_Deps S) (lc_Interval (se_Cfg S)) (lg_w ?L1) = (w1, awake)" by fastforce
      then have awake using assms(2) by (metis snd_conv)
      then show "fd_State (lg_dir (fst y)) = Stored (lg_st (fst y))"
        using 1 n s eq r finish_stored [of S now "L\<lparr> lg_w := w \<rparr>" "fst y"] by (cases y) (auto simp: Let_def split: if_splits)
    qed
  qed
  with assms(3) show ?thesis by simp
qed

lemma Returned_loop:
  assumes "Run_Log S mk d m w = Some (L', Returned)"
  shows "\<exists>L. log_loop S L = Some (L', Returned)"
proof -
  have on: "run_on S K = Some (L', Returned) \<Longrightarrow> \<exists>L. log_loop S L = Some (L', Returned)" for K
    by (auto simp: run_on_def split: prod.splits option.splits)
  then show ?thesis
    using assms by (auto simp: Run_Log_def Let_def split: prod.splits option.splits stored_state.splits if_splits)
qed

section \<open>Failed mails\<close>

locale log_mails = log_world S "\<lambda>w w'. fails w' = fails w" for S :: "'w LSetup" and fails :: "'w \<Rightarrow> nat" +
  assumes mail_counts: "dp_Mail (se_Deps S) = Some send \<Longrightarrow>
    fails (fst (send s b w)) = fails w + (if snd (send s b w) = None then 0 else 1)"
begin

lemma actions_fails:
  "lacts S now L L' \<Longrightarrow> (lg_mailDown L \<longrightarrow> lg_mailDown L') \<and>
     fails (lg_w L') = fails (lg_w L) + (if lg_mailDown L' \<and> \<not> lg_mailDown L then 1 else 0)"
proof (induction rule: rtranclp_induct)
  case (step L1 L2)
  from action_keeps [OF step(2)] show ?case
  proof
    assume "\<exists>send s b r. dp_Mail (se_Deps S) = Some send \<and> \<not> lg_mailDown L1 \<and> send s b (lg_w L1) = (lg_w L2, r) \<and>
       lg_mailDown L2 = (r \<noteq> None)"
    then obtain send s b r where m: "dp_Mail (se_Deps S) = Some send" "\<not> lg_mailDown L1" "send s b (lg_w L1) = (lg_w L2, r)"
      "lg_mailDown L2 = (r \<noteq> None)" by blast
    have "fails (lg_w L2) = fails (lg_w L1) + (if r = None then 0 else 1)"
      using mail_counts [OF m(1), of s b "lg_w L1"] m(3) by simp
    then show ?case using m step.IH by auto
  qed (use step.IH in auto)
qed simp

lemma one_failure: "lacts S now L L' \<Longrightarrow> fails (lg_w L') \<le> fails (lg_w L) + 1"
  using actions_fails [of now L L'] by auto

end

section \<open>A world\<close>

text \<open>
  A world without sensors: its clock, the failed mails, whether the mail command works. Sleeping takes
  its time.
\<close>

definition bare_deps :: "(int \<times> nat \<times> bool) Deps" where
  "bare_deps =
     \<lparr> dp_Now = (\<lambda>w. (w, fst w)), dp_Sleep = (\<lambda>d w. ((fst w + max 1 d, snd w), True)),
       dp_Fangov = (\<lambda>w. (w, Inr (''active'', 0))), dp_Journal = (\<lambda>u c t w. (w, [], c, None)),
       dp_Mail = Some (\<lambda>s b (t, n, ok). if ok then ((t, n, ok), None) else ((t, Suc n, ok), Some ''exit 75'')),
       dp_FreeBytes = (\<lambda>p w. (w, Inr (2 ^ 40))), dp_Notify = None, dp_Print = None, dp_Redact = None, dp_Identity = None,
       dp_Files = (\<lambda>w. \<lparr> fs_file = (\<lambda>p. None), fs_dir = (\<lambda>p. None), fs_real = (\<lambda>p. None) \<rparr>),
       dp_Stat = (\<lambda>w p. Some ''no such file''), dp_ReadError = (\<lambda>w p. ''no such file''), dp_Roots = HostRoots,
       dp_Write = (\<lambda>n w. (w, None)), dp_Sums = (\<lambda>w. (w, None)), dp_Size = (\<lambda>p w. 0), dp_Random = (\<lambda>w. ''x''),
       dp_Json = (\<lambda>m. ''{}'') \<rparr>"

definition bare_setup :: "nanos \<Rightarrow> nanos \<Rightarrow> (int \<times> nat \<times> bool) LSetup" where
  "bare_setup duration interval =
     \<lparr> se_Cfg = \<lparr> lc_RunID = ''r1'', lc_Dir = ''run'', lc_Duration = duration, lc_Interval = interval, lc_MailTo = ''root'' \<rparr>,
       se_Deps = bare_deps \<rparr>"

lemma bare_keeps: "(\<And>w. keeps w w) \<Longrightarrow> calls_keep (bare_setup d i) keeps"
  by (simp add: calls_keep_def bare_setup_def bare_deps_def)

interpretation bare_clock: log_clock "bare_setup d i" fst
  by unfold_locales (auto simp: bare_keeps, auto simp: bare_setup_def bare_deps_def split: if_splits prod.splits)

interpretation bare_mails: log_mails "bare_setup d i" "\<lambda>w. fst (snd w)"
  by unfold_locales (auto simp: bare_keeps, auto simp: bare_setup_def bare_deps_def split: if_splits prod.splits)

definition empty_dir :: log_dir where
  "empty_dir = \<lparr> fd_State = NoState, fd_Events = None, fd_Samples = None, fd_Aux = None, fd_Outbox = [], fd_Annotations = None, fd_Meta = None \<rparr>"

text \<open>A logger of the bare world at a moment.\<close>

definition bare_logger :: "int \<Rightarrow> bool \<Rightarrow> (int \<times> nat \<times> bool) logger" where
  "bare_logger t ok = \<lparr> lg_w = (t, 0, ok), lg_st = new_state (se_Cfg (bare_setup (3600 * Second) (60 * Second))) 0 '''' '''',
     lg_start = 0, lg_mailDown = False, lg_dir = empty_dir, lg_meta = None \<rparr>"

end
