(* ===== verification/Log_Tools.thy ===== *)
theory Log_Tools
  imports Log_Run
begin

text \<open>
  The logger's connections: the mail command, the readers of the journal and the check from outside, the
  rest of src/ectest/internal/logger/events.go. The commands run, the JSON decoder and the kernel's ring
  buffer are parameters.
\<close>

section \<open>The mail command\<close>

definition no_rcpt_text :: string where
  [text_defs]: "no_rcpt_text = ''no mail command or recipient''"
definition dash_rcpt_text :: string where
  [text_defs]: "dash_rcpt_text = ''recipient starts with '' @ [CHR 0x27] @ ''-'' @ [CHR 0x27] @ '': refused''"

definition full_message :: "string \<Rightarrow> string \<Rightarrow> string \<Rightarrow> string" where
  "full_message rcpt subject body =
     ''To: '' @ rcpt @ [NL] @ ''Subject: '' @ subject @ [NL] @ ''MIME-Version: 1.0'' @ [NL] @
     ''Content-Type: text/plain; charset=utf-8'' @ [NL] @ ''Content-Transfer-Encoding: 8bit'' @ [NL, NL] @ body @ [NL]"

text \<open>The arguments and the standard input of the command.\<close>

definition mail_call :: "string list \<Rightarrow> string \<Rightarrow> string \<Rightarrow> string \<Rightarrow> string + string list \<times> string" where
  "mail_call cmd rcpt subject body =
     (case cmd of
        [] \<Rightarrow> Inl no_rcpt_text
      | prog # opts \<Rightarrow>
          if rcpt = '''' then Inl no_rcpt_text
          else if has_prefix ''-'' rcpt then Inl dash_rcpt_text
          else if go_base prog \<in> {''mail'', ''mailx'', ''s-nail'', ''bsd-mailx''}
          then Inr (prog # opts @ [''-s'', subject, rcpt], body @ [NL])
          else Inr (prog # opts @ [rcpt], full_message rcpt subject body))"

text \<open>\<open>run\<close> executes a command within the time limit: its error and output, or nothing.\<close>

definition CommandMailer ::
  "(string list \<Rightarrow> string \<Rightarrow> 'w \<Rightarrow> 'w \<times> (string \<times> string) option) \<Rightarrow> string list \<Rightarrow> string \<Rightarrow> string \<Rightarrow> string \<Rightarrow> 'w \<Rightarrow> 'w \<times> string option" where
  "CommandMailer run cmd rcpt subject body w =
     (case mail_call cmd rcpt subject body of
        Inl e \<Rightarrow> (w, Some e)
      | Inr (argv, stdin) \<Rightarrow>
          (case run argv stdin w of
             (w', None) \<Rightarrow> (w', None)
           | (w', Some (err, out)) \<Rightarrow> (w', Some (hd cmd @ '': '' @ err @ '': '' @ take 200 out))))"

section \<open>The journal\<close>

definition journal_args :: "string \<Rightarrow> string \<Rightarrow> nanos \<Rightarrow> string list" where
  "journal_args u cursor since =
     [''-q'', ''--no-pager'', ''-o'', ''json''] @ (if u = '''' then [''-k''] else [''-u'', u, ''-p'', ''warning'']) @
     [if cursor \<noteq> '''' then ''--after-cursor='' @ cursor else ''--since=@'' @ itoa (unix since)]"

text \<open>
  The fields of an entry that are used: the message as a text or as a list of elements (numbers as
  bytes, others skipped), the rest as texts; the decoder gives nothing for a line that is no object.
\<close>

datatype json_message = MText string | MBytes "int option list" | MOther

record journal_entry =
  je_message :: json_message
  je_realtime :: "string option"
  je_boot :: "string option"
  je_cursor :: "string option"

definition byte_char :: "int \<Rightarrow> char" where "byte_char n = char_of (nat (n mod 256))"

definition message_text :: "json_message \<Rightarrow> string" where
  "message_text m =
     (case m of MText t \<Rightarrow> t | MBytes bs \<Rightarrow> List.map_filter (map_option byte_char) bs | MOther \<Rightarrow> '''')"

definition opt_text :: "string option \<Rightarrow> string" where
  "opt_text s = (case s of None \<Rightarrow> '''' | Some t \<Rightarrow> t)"

definition journal_line :: "journal_entry \<Rightarrow> JLine" where
  "journal_line e =
     \<lparr> jl_Time = (case je_realtime e of None \<Rightarrow> zero_time
                  | Some s \<Rightarrow> (case atoi s of None \<Rightarrow> zero_time | Some us \<Rightarrow> us * 1000)),
       jl_Boot = no_dashes (opt_text (je_boot e)), jl_Msg = message_text (je_message e),
       jl_Cursor = opt_text (je_cursor e) \<rparr>"

text \<open>The scanner: \<open>too_long\<close> is its error when a line does not fit into its buffer of 2^22 bytes.\<close>

definition ParseJournalJSON :: "(string \<Rightarrow> journal_entry option) \<Rightarrow> nat \<Rightarrow> string \<Rightarrow> string \<Rightarrow> JLine list \<times> string \<times> string option" where
  "ParseJournalJSON json buf too_long out =
     (let ls = split_at NL out; ls1 = (if last ls = [] then butlast ls else ls);
          fit = takeWhile (\<lambda>l. length l < buf) ls1;
          js = map journal_line (List.map_filter (\<lambda>l. json (if has_suffix [CHR 0x0D] l then butlast l else l)) fit)
      in (js, fold (\<lambda>j cur. if jl_Cursor j \<noteq> '''' then jl_Cursor j else cur) js '''',
          if length fit < length ls1 then Some too_long else None))"

definition JournalCtl ::
  "(string list \<Rightarrow> 'w \<Rightarrow> 'w \<times> (string + string)) \<Rightarrow> (string \<Rightarrow> journal_entry option) \<Rightarrow> string \<Rightarrow> string \<Rightarrow> string \<Rightarrow> nanos \<Rightarrow> 'w \<Rightarrow>
     'w \<times> (JLine list \<times> string \<times> string option)" where
  "JournalCtl run json too_long u cursor since w =
     (case run (''journalctl'' # journal_args u cursor since) w of
        (w', Inl e) \<Rightarrow> (w', ([], '''', Some (''journalctl: '' @ e)))
      | (w', Inr out) \<Rightarrow> (w', ParseJournalJSON json (2 ^ 22) too_long out))"

text \<open>The kernel's ring buffer: \<open>prio,seq,us,flags;message\<close>.\<close>

definition kmsg_record :: "nanos \<Rightarrow> int \<Rightarrow> string \<Rightarrow> (int \<times> JLine) option" where
  "kmsg_record boot aft rec =
     (case cut_at (CHR '';'') rec of
        (head, msg, False) \<Rightarrow> None
      | (head, msg, True) \<Rightarrow>
          (let fl = split_at (CHR '','') head
           in if length fl < 3 then None
              else case (atoi (fl ! 1), atoi (fl ! 2)) of
                     (Some seq, Some us) \<Rightarrow>
                       if seq \<le> aft then None
                       else Some (seq, \<lparr> jl_Time = boot + us * 1000, jl_Boot = '''', jl_Msg = fst (cut_at NL msg), jl_Cursor = '''' \<rparr>)
                   | _ \<Rightarrow> None))"

text \<open>A number that cannot be read is 0, one out of range the nearest.\<close>

definition atoi_or :: "string \<Rightarrow> int" where
  "atoi_or s =
     (let neg = has_prefix ''-'' s; ds = (if has_prefix ''-'' s \<or> has_prefix ''+'' s then tl s else s)
      in case atoi s of Some n \<Rightarrow> n
         | None \<Rightarrow> if parse_nat ds = None then 0 else if neg then - (2 ^ 63) else 2 ^ 63 - 1)"

definition kmsg_after :: "string \<Rightarrow> int" where
  "kmsg_after cursor = (if has_prefix ''kmsg:'' cursor then atoi_or (drop 5 cursor) else -1)"

definition Kmsg :: "string + string list \<Rightarrow> string \<Rightarrow> nanos \<Rightarrow> JLine list \<times> string \<times> string option" where
  "Kmsg recs cursor boot =
     (case recs of
        Inl e \<Rightarrow> ([], '''', Some e)
      | Inr rs \<Rightarrow>
          (let hits = List.map_filter (kmsg_record boot (kmsg_after cursor)) rs
           in (map snd hits, (if hits = [] then cursor else ''kmsg:'' @ itoa (fst (last hits))), None)))"

section \<open>The check from outside\<close>

record CheckResult =
  ck_Stale :: bool
  ck_AgeS :: int
  ck_Finished :: bool
  ck_Text :: string

record check_state =
  cs_LastMail :: int
  cs_LastFailedMail :: int
  cs_FailedSince :: int

definition no_state_text :: "string \<Rightarrow> string" where
  [text_defs]: "no_state_text e = ''no state.json: '' @ e"
definition run_finished_text :: "string \<Rightarrow> string" where
  [text_defs]: "run_finished_text r = ''run '' @ r @ '' finished''"
definition age_text :: "LState \<Rightarrow> int \<Rightarrow> string" where
  [text_defs]: "age_text st age = ''run '' @ ls_RunID st @ '': last sample '' @ itoa age @ '' s ago ('' @ itoa (ls_Samples st) @ '' samples)''"
definition failed_subject :: "LState \<Rightarrow> string \<Rightarrow> string" where
  [text_defs]: "failed_subject st u = ''[n5-ectest] FAILED '' @ ls_RunID st @ '': '' @ subject_clean u"
definition failed_body :: "string \<Rightarrow> int \<Rightarrow> string \<Rightarrow> string" where
  [text_defs]: "failed_body u n t = ''The log unit '' @ u @ '' failed ('' @ itoa n @
     '' failure(s) since the last such mail; at most one mail per hour). '' @ t @ ''.'' @ [NL] @
     ''systemd restarts it (Restart=on-failure, at most 10 starts per hour); the gap is recorded as K5.'' @ [NL] @
     ''Status: systemctl status '' @ u @ [NL]"
definition stale_subject :: "LState \<Rightarrow> int \<Rightarrow> string" where
  [text_defs]: "stale_subject st age = ''[n5-ectest] ALERT K5 '' @ ls_RunID st @ '': no sample for '' @ itoa age @ '' s''"
definition stale_body :: "LState \<Rightarrow> string \<Rightarrow> string" where
  [text_defs]: "stale_body st t = ''Outside check (n5-ectest log check): '' @ t @ '', limit '' @ itoa CheckGapMaxS @ '' s.'' @ [NL] @
     ''The sampler is stopped or hangs. Status: systemctl status n5-ectest-log@'' @ ls_RunID st @ [NL]"

text \<open>
  The state of the checker and the mail it sends: \<open>mtime\<close> is the time samples.csv was modified (in
  seconds), if it is there; \<open>missing\<close> the error of a state that is not there.
\<close>

definition last_sample :: "LState \<Rightarrow> int option \<Rightarrow> int" where
  "last_sample st mtime =
     (let l = (case mtime of None \<Rightarrow> ls_LastSampleWall st
               | Some m \<Rightarrow> if m > ls_LastSampleWall st then m else ls_LastSampleWall st)
      in if l = 0 then ls_StartEpoch st else l)"

definition check_mail :: "LState \<Rightarrow> int \<Rightarrow> int \<Rightarrow> string \<Rightarrow> string \<Rightarrow> check_state \<Rightarrow> check_state \<times> (string \<times> string) option" where
  "check_mail st now age t unitFailed cs =
     (if unitFailed \<noteq> '''' then
        (let n = cs_FailedSince cs + 1
         in if now - cs_LastFailedMail cs \<ge> AlertCooldownS
            then (cs\<lparr> cs_LastFailedMail := now, cs_FailedSince := 0 \<rparr>, Some (failed_subject st unitFailed, failed_body unitFailed n t))
            else (cs\<lparr> cs_FailedSince := n \<rparr>, None))
      else if age > CheckGapMaxS \<and> now - cs_LastMail cs \<ge> AlertCooldownS
      then (cs\<lparr> cs_LastMail := now \<rparr>, Some (stale_subject st age, stale_body st t))
      else (cs, None))"

text \<open>\<open>Check\<close>: the result, the mail that is sent, the state that is written.\<close>

definition Check_log :: "string \<Rightarrow> stored_state \<Rightarrow> int option \<Rightarrow> nanos \<Rightarrow> string \<Rightarrow> check_state \<Rightarrow> CheckResult \<times> (string \<times> string) option \<times> check_state option" where
  "Check_log missing stored mtime now unitFailed cs =
     (case stored of
        NoState \<Rightarrow> (\<lparr> ck_Stale = True, ck_AgeS = 0, ck_Finished = False, ck_Text = no_state_text missing \<rparr>, None, None)
      | BadState e \<Rightarrow> (\<lparr> ck_Stale = True, ck_AgeS = 0, ck_Finished = False, ck_Text = no_state_text e \<rparr>, None, None)
      | Stored st \<Rightarrow>
          if ls_Finished st
          then (\<lparr> ck_Stale = False, ck_AgeS = 0, ck_Finished = True, ck_Text = run_finished_text (ls_RunID st) \<rparr>, None, None)
          else
            (let age = unix now - last_sample st mtime; t = age_text st age;
                 (cs', msg) = check_mail st (unix now) age t unitFailed cs
             in (\<lparr> ck_Stale = age > CheckGapMaxS, ck_AgeS = age, ck_Finished = False, ck_Text = t \<rparr>, msg,
                 if unitFailed \<noteq> '''' \<or> msg \<noteq> None then Some cs' else None)))"

end
