(* ===== verification/Log_Criteria.thy ===== *)
theory Log_Criteria
  imports Log_Tools Log_Steps Report_Facts
begin

text \<open>
  What the criteria of the logger report: one event for every stall of a fan and for every episode, a
  gap; what becomes of a mail; the events, coverage and mails read back.
\<close>

section \<open>Counting events\<close>

abbreviation seq :: "'w logger \<Rightarrow> int" where "seq L \<equiv> ls_EventSeq (lg_st L)"

lemma log_ev_st [simp]:
  "ls_EventSeq (lg_st (log_ev S k t d ev L)) = ls_EventSeq (lg_st L) + 1"
  "ls_ZeroRun (lg_st (log_ev S k t d ev L)) = ls_ZeroRun (lg_st L)"
  "ls_Episodes (lg_st (log_ev S k t d ev L)) = ls_Episodes (lg_st L)"
  "ls_MissRun (lg_st (log_ev S k t d ev L)) = ls_MissRun (lg_st L)"
  "ls_LastSampleWall (lg_st (log_ev S k t d ev L)) = ls_LastSampleWall (lg_st L)"
  "ls_LastSent (lg_st (log_ev S k t d ev L)) = ls_LastSent (lg_st L)"
  by (simp_all add: log_ev_def Let_def)

text \<open>The stalls in a series: the positions at which a second zero follows a first.\<close>

definition stall_at :: "bool list \<Rightarrow> nat \<Rightarrow> bool" where
  "stall_at zs i \<longleftrightarrow> 1 \<le> i \<and> zs ! i \<and> zs ! (i - 1) \<and> (2 \<le> i \<longrightarrow> \<not> zs ! (i - 2))"

definition stalls :: "bool list \<Rightarrow> nat" where
  "stalls zs = length (filter (stall_at zs) [0..<length zs])"

definition trail :: "bool list \<Rightarrow> nat" where
  "trail zs = length (takeWhile (\<lambda>z. z) (rev zs))"

lemma trail_snoc: "trail (zs @ [z]) = (if z then trail zs + 1 else 0)"
  by (simp add: trail_def)

lemma trail_one: "trail zs = 1 \<longleftrightarrow> zs \<noteq> [] \<and> last zs \<and> (2 \<le> length zs \<longrightarrow> \<not> zs ! (length zs - 2))"
proof (cases zs rule: rev_cases)
  case (snoc ys y)
  show ?thesis
  proof (cases ys rule: rev_cases)
    case Nil
    then show ?thesis using snoc by (simp add: trail_def)
  next
    case (snoc us u)
    then show ?thesis using \<open>zs = ys @ [y]\<close> by (auto simp: trail_def nth_append)
  qed
qed (simp add: trail_def)

lemma stalls_snoc: "stalls (zs @ [z]) = stalls zs + (if z \<and> trail zs = 1 then 1 else 0)"
proof -
  have "filter (stall_at (zs @ [z])) [0..<length zs] = filter (stall_at zs) [0..<length zs]"
    by (rule filter_cong) (auto simp: stall_at_def nth_append)
  moreover have "stall_at (zs @ [z]) (length zs) \<longleftrightarrow> z \<and> trail zs = 1"
    unfolding trail_one stall_at_def by (cases zs rule: rev_cases) (auto simp: nth_append)
  ultimately show ?thesis by (simp add: stalls_def del: One_nat_def)
qed

lemma fan_series:
  fixes S :: "'w LSetup" and L :: "'w logger"
  assumes "ls_ZeroRun (lg_st L) f = 0"
  defines "L' \<equiv> \<lambda>rs. fold (\<lambda>(t, r). check_fan S t r f) rs L"
  shows "ls_ZeroRun (lg_st (L' rs)) f = int (trail (map (\<lambda>(t, r). hr_Fan r f = 0) rs)) \<and>
    seq (L' rs) = seq L + int (stalls (map (\<lambda>(t, r). hr_Fan r f = 0) rs))"
proof (induction rs rule: rev_induct)
  case Nil
  then show ?case using assms by (simp add: trail_def stalls_def)
next
  case (snoc x rs)
  obtain t r where x: "x = (t, r)" by fastforce
  let ?zs = "map (\<lambda>(t, r). hr_Fan r f = 0) rs"
  have step: "L' (rs @ [x]) = check_fan S t r f (L' rs)" by (simp add: L'_def x)
  show ?case
    unfolding step using snoc by (simp add: x trail_snoc stalls_snoc check_fan_def Let_def)
qed

text \<open>The beginnings of an episode.\<close>

definition rises :: "bool list \<Rightarrow> nat" where
  "rises zs = length (filter (\<lambda>i. zs ! i \<and> (1 \<le> i \<longrightarrow> \<not> zs ! (i - 1))) [0..<length zs])"

lemma rises_snoc: "rises (zs @ [z]) = rises zs + (if z \<and> (zs = [] \<or> \<not> last zs) then 1 else 0)"
proof -
  let ?P = "\<lambda>zs i. zs ! i \<and> (1 \<le> i \<longrightarrow> \<not> zs ! (i - 1))"
  have "filter (?P (zs @ [z])) [0..<length zs] = filter (?P zs) [0..<length zs]"
    by (rule filter_cong) (auto simp: nth_append)
  moreover have "?P (zs @ [z]) (length zs) \<longleftrightarrow> z \<and> (zs = [] \<or> \<not> last zs)"
    by (cases zs rule: rev_cases) (auto simp: nth_append)
  ultimately show ?thesis by (simp add: rises_def)
qed

lemma episode_st [simp]:
  "ls_EventSeq (lg_st (episode S k n on t d L)) =
     ls_EventSeq (lg_st L) + (if on \<and> n \<notin> set (ls_Episodes (lg_st L)) then 1 else 0)"
  "n \<in> set (ls_Episodes (lg_st (episode S k n on t d L))) \<longleftrightarrow> on"
  by (auto simp: episode_def Let_def drop_episode_def)

lemma episode_series:
  fixes S :: "'w LSetup" and L :: "'w logger" and k :: string
  assumes "n \<notin> set (ls_Episodes (lg_st L))"
  defines "L' \<equiv> \<lambda>xs. fold (\<lambda>(on, t, d). episode S k n on t d) xs L"
  shows "(n \<in> set (ls_Episodes (lg_st (L' xs))) \<longleftrightarrow> xs \<noteq> [] \<and> fst (last xs)) \<and> seq (L' xs) = seq L + int (rises (map fst xs))"
proof (induction xs rule: rev_induct)
  case Nil
  then show ?case using assms by (simp add: rises_def)
next
  case (snoc x xs)
  obtain on t d where x: "x = (on, t, d)" by (metis prod_cases3)
  have step: "L' (xs @ [x]) = episode S k n on t d (L' xs)" by (simp add: L'_def x)
  have l: "xs \<noteq> [] \<Longrightarrow> last (map fst xs) = fst (last xs)" by (simp add: last_map)
  show ?case unfolding step using snoc l by (auto simp: x rises_snoc)
qed

text \<open>Gaps.\<close>

lemma fold_keeps: "(\<And>x K. h (f x K) = h K) \<Longrightarrow> h (fold f xs L) = h L"
  by (induction xs arbitrary: L) simp_all

lemma identitySnapshot_st [simp]:
  "ls_EventSeq (lg_st (identitySnapshot S t why L)) = ls_EventSeq (lg_st L)"
  "ls_LastSampleWall (lg_st (identitySnapshot S t why L)) = ls_LastSampleWall (lg_st L)"
proof -
  have n: "lg_st (log_note S t x K) = lg_st K" for x K by (simp add: log_note_def)
  show "ls_EventSeq (lg_st (identitySnapshot S t why L)) = ls_EventSeq (lg_st L)"
    "ls_LastSampleWall (lg_st (identitySnapshot S t why L)) = ls_LastSampleWall (lg_st L)"
    unfolding identitySnapshot_def Let_def
    by (auto split: option.split prod.split simp: n fold_keeps [where h = "\<lambda>K. ls_EventSeq (lg_st K)"]
        fold_keeps [where h = "\<lambda>K. ls_LastSampleWall (lg_st K)"])
qed

definition rebooted :: "LState \<Rightarrow> string \<Rightarrow> bool" where
  "rebooted st boot \<longleftrightarrow> boot \<noteq> '''' \<and> ls_LastBoot st \<noteq> '''' \<and> boot \<noteq> ls_LastBoot st"

lemma boot_events:
  "seq (check_boot S now boot up L) = seq L +
     (if ls_Samples (lg_st L) \<le> 0 \<and> ls_Restarts (lg_st L) \<le> 0 then 0
      else if rebooted (lg_st L) boot
      then 1 + (if ls_LastSampleWall (lg_st L) > 0 \<and> unix now - ls_LastSampleWall (lg_st L) > GapMaxS then 1 else 0)
      else (case up of None \<Rightarrow> 0 | Some m \<Rightarrow>
              if ls_LastSampleMono (lg_st L) > 0 \<and> m - ls_LastSampleMono (lg_st L) > of_int GapMaxS then 1 else 0))"
  by (auto simp: check_boot_def Let_def rebooted_def split: option.split)

section \<open>Alerts\<close>

lemma alert_one_st:
  "ls_LastSent (lg_st (alert_one S now k L)) =
     (if alert_due (unix now) k (lg_st L) then (ls_LastSent (lg_st L))(k := unix now) else ls_LastSent (lg_st L))"
  "ls_Pending (lg_st (alert_one S now k L)) =
     (if alert_due (unix now) k (lg_st L) then (ls_Pending (lg_st L))(k := []) else ls_Pending (lg_st L))"
  by (simp_all add: alert_one_def Let_def)

lemma alert_due_other:
  "j \<noteq> k \<Longrightarrow> alert_due now j (lg_st (alert_one S t k L)) = alert_due now j (lg_st L)"
  by (simp add: alert_due_def alert_one_st)

lemma alerts_fold:
  assumes "distinct ks"
  shows "ls_LastSent (lg_st (fold (alert_one S now) ks L)) j =
      (if j \<in> set ks \<and> alert_due (unix now) j (lg_st L) then unix now else ls_LastSent (lg_st L) j) \<and>
    ls_Pending (lg_st (fold (alert_one S now) ks L)) j =
      (if j \<in> set ks \<and> alert_due (unix now) j (lg_st L) then [] else ls_Pending (lg_st L) j)"
  using assms
proof (induction ks arbitrary: L)
  case (Cons k ks)
  let ?L = "alert_one S now k L"
  from Cons have IH: "ls_LastSent (lg_st (fold (alert_one S now) ks ?L)) j =
      (if j \<in> set ks \<and> alert_due (unix now) j (lg_st ?L) then unix now else ls_LastSent (lg_st ?L) j)"
    "ls_Pending (lg_st (fold (alert_one S now) ks ?L)) j =
      (if j \<in> set ks \<and> alert_due (unix now) j (lg_st ?L) then [] else ls_Pending (lg_st ?L) j)" and k: "k \<notin> set ks"
    by auto
  show ?case
  proof (cases "j = k")
    case True
    then show ?thesis using IH k by (simp add: alert_one_st)
  next
    case False
    then show ?thesis using IH alert_due_other [OF False, of "unix now" S now L] by (simp add: alert_one_st)
  qed
qed simp

section \<open>Mail\<close>

text \<open>A mail is sent, or waits in the outbox, or is counted as dropped.\<close>

lemma mail_kept:
  fixes S :: "'w LSetup" and L :: "'w logger"
  defines "subj \<equiv> \<lambda>s. ''[n5-ectest] '' @ subject_clean (lred S s)"
  shows "(\<exists>send w w'. dp_Mail (se_Deps S) = Some send \<and> \<not> lg_mailDown L \<and> send (subj s) (lred S b) w = (w', None) \<and>
       lg_dir (log_mail S s b L) = lg_dir L \<and> lg_st (log_mail S s b L) = lg_st L) \<or>
     (\<exists>name. fd_Outbox (lg_dir (log_mail S s b L)) = fd_Outbox (lg_dir L) @ [(name, queued_message (lc_MailTo (se_Cfg S)) (subj s) (lred S b))] \<and>
       ls_MailsDropped (lg_st (log_mail S s b L)) = ls_MailsDropped (lg_st L)) \<or>
     (lg_dir (log_mail S s b L) = lg_dir L \<and> ls_MailsDropped (lg_st (log_mail S s b L)) = ls_MailsDropped (lg_st L) + 1)"
proof -
  obtain L1 ok where t: "trySend S (subj s) (lred S b) L = (L1, ok)" by fastforce
  then have l1: "lg_st L1 = lg_st L" "lg_dir L1 = lg_dir L" by (metis fst_conv trySend_sel(1), metis fst_conv trySend_sel(2))
  show ?thesis
  proof (cases ok)
    case True
    then have m: "log_mail S s b L = L1" using t by (simp add: log_mail_def subj_def)
    have "\<exists>send w w'. dp_Mail (se_Deps S) = Some send \<and> \<not> lg_mailDown L \<and> send (subj s) (lred S b) w = (w', None)"
      using t True by (auto simp: trySend_def Let_def split: option.splits if_splits prod.splits)
    then show ?thesis using m l1 by auto
  next
    case False
    then have m: "log_mail S s b L = queue_mail S (subj s) (lred S b) L1" using t by (simp add: log_mail_def subj_def)
    obtain w x where n: "dp_Now (se_Deps S) (lg_w L1) = (w, x)" by fastforce
    show ?thesis
      unfolding m queue_mail_def Let_def drop_mail_def using n l1
      by (auto simp: lwrite_def split: prod.split option.split)
  qed
qed

text \<open>A queued mail read back.\<close>

lemma cut_head_app: "\<not> contains_str [NL, NL] (h @ [NL]) \<Longrightarrow> cut_head (h @ [NL, NL] @ b) = (h, b)"
proof (induction h)
  case Nil
  then show ?case by (subst cut_head.simps) (simp add: has_prefix_def)
next
  case (Cons c h)
  have n: "\<not> has_prefix [NL, NL] ((c # h) @ [NL, NL] @ b)"
  proof
    assume "has_prefix [NL, NL] ((c # h) @ [NL, NL] @ b)"
    then have "c = NL" "hd (h @ [NL]) = NL" by (cases h; simp add: has_prefix_def)+
    then have "has_prefix [NL, NL] ((c # h) @ [NL])" by (cases h) (auto simp: has_prefix_def)
    then show False using Cons.prems by simp
  qed
  have "\<not> contains_str [NL, NL] (h @ [NL])" using Cons.prems by simp
  then have "cut_head (h @ [NL, NL] @ b) = (h, b)" using Cons.IH by simp
  then show ?case using n by (subst cut_head.simps) simp
qed

lemma plain_no_break: "NL \<notin> set s \<Longrightarrow> \<not> contains_str [NL, NL] (s @ NL # t) \<longleftrightarrow> \<not> contains_str [NL, NL] (NL # t)"
  by (induction s) (auto simp: has_prefix_def)

lemma no_break_line: "NL \<notin> set s \<Longrightarrow> s \<noteq> [] \<Longrightarrow> \<not> contains_str [NL, NL] (NL # s @ t) \<longleftrightarrow> \<not> contains_str [NL, NL] (s @ t)"
  by (cases s) (auto simp: has_prefix_def)

definition queued_head :: "string \<Rightarrow> string \<Rightarrow> string" where
  "queued_head rcpt subj = (''To: '' @ rcpt) @ [NL] @ (''Subject: '' @ subj) @ [NL] @ ''MIME-Version: 1.0'' @ [NL] @
     ''Content-Type: text/plain; charset=utf-8''"

lemma no_break_lines:
  "list_all (\<lambda>l. l \<noteq> [] \<and> NL \<notin> set l) ls \<Longrightarrow> \<not> contains_str [NL, NL] (concat (map (\<lambda>l. l @ [NL]) ls))"
proof (induction ls)
  case (Cons l ls)
  have "\<not> contains_str [NL, NL] (NL # concat (map (\<lambda>l. l @ [NL]) ls))"
    using Cons by (cases ls) (auto simp: has_prefix_def neq_Nil_conv)
  then show ?case using Cons.prems plain_no_break [of l "concat (map (\<lambda>l. l @ [NL]) ls)"] by simp
qed simp

lemma NL_text: "NL \<notin> set ''To: ''" "NL \<notin> set ''Subject: ''" "NL \<notin> set ''MIME-Version: 1.0''"
  "NL \<notin> set ''Content-Type: text/plain; charset=utf-8''"
  by code_simp+

lemma queued_read_back:
  assumes "NL \<notin> set rcpt" "NL \<notin> set subj"
  shows "cut_head (queued_message rcpt subj body) = (queued_head rcpt subj, body @ [NL])"
    "subject_of (queued_head rcpt subj) = subj" "trim_suffix [NL] (body @ [NL]) = body"
proof -
  let ?ls = "[''To: '' @ rcpt, ''Subject: '' @ subj, ''MIME-Version: 1.0'', ''Content-Type: text/plain; charset=utf-8'']"
  have lines: "list_all (\<lambda>l. l \<noteq> [] \<and> NL \<notin> set l) ?ls" using assms NL_text by simp
  have "queued_head rcpt subj @ [NL] = concat (map (\<lambda>l. l @ [NL]) ?ls)" by (simp add: queued_head_def)
  then have "\<not> contains_str [NL, NL] (queued_head rcpt subj @ [NL])" using no_break_lines [OF lines] by simp
  from cut_head_app [OF this] show "cut_head (queued_message rcpt subj body) = (queued_head rcpt subj, body @ [NL])"
    by (simp add: queued_message_def queued_head_def)
  have "split_at NL (queued_head rcpt subj) = ?ls"
  proof -
    have s: "NL \<notin> set (''To: '' @ rcpt)" "NL \<notin> set (''Subject: '' @ subj)" using assms NL_text by simp_all
    show ?thesis
      unfolding queued_head_def
      using split_at_app [OF s(1)] split_at_app [OF s(2)] split_at_app [OF NL_text(3)] split_at_one [OF NL_text(4)]
      by (simp only: append_Cons append_Nil append.assoc)
  qed
  moreover have "\<not> has_prefix ''Subject: '' (''To: '' @ rcpt)" "has_prefix ''Subject: '' (''Subject: '' @ subj)"
    "\<not> has_prefix ''Subject: '' ''MIME-Version: 1.0''"
    "\<not> has_prefix ''Subject: '' ''Content-Type: text/plain; charset=utf-8''"
    by (simp_all add: has_prefix_def)
  ultimately show "subject_of (queued_head rcpt subj) = subj" by (simp add: subject_of_def)
  show "trim_suffix [NL] (body @ [NL]) = body" by (simp add: trim_suffix_def has_suffix_def)
qed

lemma subject_clean_line: "NL \<notin> set (subject_clean s)"
  by (auto simp: subject_clean_def between_def NL_def)

section \<open>The event log read back\<close>

lemma rfc3339_plain: "rfc3339 t \<noteq> [] \<and> list_all (\<lambda>c. \<not> blank_char c) (rfc3339 t)"
proof -
  have "re_space c = blank_char c" for c by (auto simp: re_space_def blank_char_def)
  then show ?thesis using rfc3339_word [of t] by (simp add: list_all_iff)
qed

lemma ts_chars_nat: "list_all ts_char (nat_digits n)"
proof (induction n rule: nat_digits.induct)
  case (1 n)
  have d: "ts_char (digit_char k)" if "k < 10" for k using that by (simp add: ts_char_def)
  show ?case using 1 d by (cases "n < 10") (simp_all add: nat_digits.simps [of n])
qed

lemma ts_chars_fmt: "list_all ts_char (fmt_f p x)"
proof -
  have z: "ts_char (CHR ''0'')" "ts_char (CHR ''.'')" "ts_char (CHR ''-'')" by (simp_all add: ts_char_def digit_val_def)
  have pad: "list_all ts_char s \<Longrightarrow> list_all ts_char (pad_left w (CHR ''0'') s)" for w s
    using z by (auto simp: pad_left_def list_all_iff)
  have "list_all ts_char (fmt_abs p y)" for y
    using z by (simp add: fmt_abs_def Let_def ts_chars_nat pad)
  then show ?thesis using z by (simp add: fmt_f_def)
qed

lemma takeWhile_stop: "list_all P w \<Longrightarrow> s = [] \<or> \<not> P (hd s) \<Longrightarrow> takeWhile P (w @ s) = w"
  by (induction w) (auto simp: neq_Nil_conv takeWhile_eq_Nil_iff)

lemma itoa_digits: "0 \<le> n \<Longrightarrow> list_all (\<lambda>c. digit_val c \<noteq> None) (itoa n)"
proof -
  have "list_all (\<lambda>c. digit_val c \<noteq> None) (nat_digits m)" for m
  proof (induction m rule: nat_digits.induct)
    case (1 m)
    then show ?case by (cases "m < 10") (simp_all add: nat_digits.simps [of m])
  qed
  then show "0 \<le> n \<Longrightarrow> ?thesis" by (simp add: itoa_def)
qed

lemma key_char: "key \<in> set Keys \<Longrightarrow> \<exists>c. key = ''K'' @ [c] \<and> digit_val c \<noteq> None"
proof -
  have "\<forall>k \<in> set Keys. length k = 2 \<and> k ! 0 = CHR ''K'' \<and> digit_val (k ! 1) \<noteq> None" by code_simp
  moreover assume "key \<in> set Keys"
  ultimately have k: "length key = 2" "key ! 0 = CHR ''K''" "digit_val (key ! 1) \<noteq> None" by auto
  then have "key = ''K'' @ [key ! 1]" by (cases key; cases "tl key") auto
  with k show ?thesis by blast
qed

lemma match_event_text:
  assumes "key \<in> set Keys" "0 \<le> n" "NL \<notin> set detail"
  shows "match_log_line (event_text t start key n detail) = Some (rfc3339 t, key, itoa n, detail)"
proof -
  let ?ts = "fmt_f 3 (Seconds (t - start))"
  obtain c where c: "key = ''K'' @ [c]" "digit_val c \<noteq> None" using key_char [OF assms(1)] by blast
  have ne: "rfc3339 t \<noteq> []" and w1: "list_all (\<lambda>c. \<not> blank_char c) (rfc3339 t)" using rfc3339_plain by blast+
  let ?r1 = "'' [t_s='' @ ?ts @ ''] '' @ key @ '' #'' @ itoa n @ '' '' @ detail"
  have e: "event_text t start key n detail = rfc3339 t @ ?r1" by (simp add: event_text_def)
  have t1: "takeWhile (\<lambda>c. \<not> blank_char c) (rfc3339 t @ ?r1) = rfc3339 t"
    by (rule takeWhile_stop [OF w1]) (simp add: blank_char_def)
  let ?r3 = "''] '' @ key @ '' #'' @ itoa n @ '' '' @ detail"
  have t2: "takeWhile ts_char (?ts @ ?r3) = ?ts"
    by (rule takeWhile_stop [OF ts_chars_fmt]) (simp add: ts_char_def digit_val_def)
  let ?r7 = "'' '' @ detail"
  have t3: "takeWhile (\<lambda>c. digit_val c \<noteq> None) (itoa n @ ?r7) = itoa n"
    by (rule takeWhile_stop [OF itoa_digits [OF assms(2)]]) (simp add: digit_val_def)
  have fne: "?ts \<noteq> []" by (rule fmt_f_nonempty)
  have nl: "NL \<notin> set ?r7" using assms(3) by (simp add: NL_def)
  show ?thesis
    unfolding match_log_line_def Let_def e t1
    using ne fne t2 t3 nl c by (simp add: has_prefix_def)
qed

lemma log_event_text:
  assumes "civil (t div 1000000000 div 86400) = (y, m, d)" "0 \<le> y" "y \<le> 9999" "key \<in> set Keys" "0 \<le> n" "n < 2 ^ 63" "NL \<notin> set detail"
  shows "log_event (event_text t start key n detail) =
    Some \<lparr> le_Time = t - t mod 1000000000, le_Key = key, le_ID = n, le_Detail = detail, le_Line = event_text t start key n detail \<rparr>"
proof -
  have "atoi (itoa n) = Some n" using assms(5,6) by (intro atoi_itoa) simp_all
  then show ?thesis
    using match_event_text [OF assms(4,5,7)] parse_rfc3339_format [OF assms(1-3)] by (simp add: log_event_def event_number_def)
qed

lemma map_filter_app: "List.map_filter f (xs @ ys) = List.map_filter f xs @ List.map_filter f ys"
  by (simp add: List.map_filter_def)

lemma split_at_snoc: "split_at c (v @ [c]) = split_at c v @ [[]]"
  by (induction v) (auto split: list.splits)

lemma split_ends:
  assumes "u = [] \<or> last u = c"
  shows "last (split_at c u) = []" "u \<noteq> [] \<Longrightarrow> butlast (split_at c u) \<noteq> []"
proof -
  have "u = [] \<or> (\<exists>v. u = v @ [c])" using assms by (metis append_butlast_last_id)
  then show "last (split_at c u) = []" "u \<noteq> [] \<Longrightarrow> butlast (split_at c u) \<noteq> []"
    by (auto simp: split_at_snoc)
qed

lemma split_last_line: "t = [] \<or> last t = NL \<Longrightarrow> split_at NL (t @ s) = butlast (split_at NL t) @ split_at NL s"
proof (induction t)
  case (Cons c t)
  show ?case
  proof (cases "t = []")
    case True
    then show ?thesis using Cons.prems by simp
  next
    case False
    then have IH: "split_at NL (t @ s) = butlast (split_at NL t) @ split_at NL s" using Cons by simp
    have two: "butlast (split_at NL t) \<noteq> []"
      using False Cons.prems split_ends(2) [of t NL] by auto
    then show ?thesis using IH by (cases "split_at NL t") (auto split: list.splits)
  qed
qed simp

lemma log_event_empty: "log_event [] = None"
  by (simp add: log_event_def match_log_line_def)

lemma parse_added_line:
  assumes "NL \<notin> set line" "f = None \<or> (\<exists>u. f = Some u \<and> (u = [] \<or> last u = NL))"
  shows "ParseEventLog (add_line line f) = ParseEventLog f @ (case log_event line of None \<Rightarrow> [] | Some e \<Rightarrow> [e])"
proof -
  let ?u = "text_of f"
  have u: "?u = [] \<or> last ?u = NL" using assms(2) by (auto simp: text_of_def)
  have l: "split_at NL (line @ [NL]) = [line, []]" using split_at_app [OF assms(1), of "[]"] by simp
  have last: "last (split_at NL ?u) = []" using split_ends(1) [OF u] .
  have sp: "split_at NL ?u = butlast (split_at NL ?u) @ [[]]" using last append_butlast_last_id [of "split_at NL ?u"] by simp
  have "List.map_filter log_event (butlast (split_at NL ?u) @ [[]]) = List.map_filter log_event (butlast (split_at NL ?u))"
    by (simp add: List.map_filter_def log_event_empty)
  then have "List.map_filter log_event (split_at NL ?u) = List.map_filter log_event (butlast (split_at NL ?u))"
    by (simp only: sp [symmetric])
  moreover have "ParseEventLog (add_line line f) = List.map_filter log_event (split_at NL (?u @ line @ [NL]))"
    by (simp add: ParseEventLog_def add_line_def text_of_def)
  moreover have "ParseEventLog f = List.map_filter log_event (split_at NL ?u)"
    using log_event_empty by (auto simp: ParseEventLog_def text_of_def List.map_filter_def split: option.split)
  ultimately show ?thesis
    using split_last_line [OF u, of "line @ [NL]"] l log_event_empty
    by (simp add: map_filter_app) (simp add: List.map_filter_def split: option.split)
qed

end
