(* ===== verification/Log_Coverage.thy ===== *)
theory Log_Coverage
  imports Log_Tools
begin

text \<open>
  What the coverage of a run says, and how often the check from outside mails.
\<close>

section \<open>Coverage\<close>

definition kept :: "nanos \<Rightarrow> nanos \<Rightarrow> nanos list \<Rightarrow> nanos list" where
  "kept lo hi ts = filter (\<lambda>t. lo \<le> t \<and> t \<le> hi) ts"

fun neighbours :: "'a \<Rightarrow> 'a list \<Rightarrow> 'a \<Rightarrow> ('a \<times> 'a) list" where
  "neighbours a [] z = [(a, z)]"
| "neighbours a (b # bs) z = (a, b) # neighbours b bs z"

lemma uncovered_sum:
  "uncovered i ann lo hi prev ts = (\<Sum>(a, b) \<leftarrow> neighbours prev (kept lo hi ts) hi. gap_uncovered i ann a b)"
  by (induction i ann lo hi prev ts rule: uncovered.induct) (auto simp: kept_def)

lemma gap_nonneg: "0 \<le> gap_uncovered i ann a b"
  by (simp add: gap_uncovered_def Let_def)

text \<open>A gap that costs nothing in the sum of \<open>Coverage\<close>, which adds what each annotation has of it.\<close>

definition gap_covered :: "rat \<Rightarrow> Annotation list \<Rightarrow> nanos \<Rightarrow> nanos \<Rightarrow> bool" where
  "gap_covered i ann a b \<longleftrightarrow> Seconds (b - a) \<le> of_int GapMaxS \<or> Seconds (b - a) \<le> i + sum_list (map (overlap a b) ann)"

lemma gap_zero: "gap_uncovered i ann a b = 0 \<longleftrightarrow> gap_covered i ann a b"
  by (auto simp: gap_uncovered_def gap_covered_def Let_def)

lemma uncovered_nonneg: "0 \<le> uncovered i ann lo hi prev ts"
  unfolding uncovered_sum by (rule sum_list_nonneg) (auto simp: gap_nonneg)

lemma uncovered_zero:
  "uncovered i ann lo hi prev ts = 0 \<longleftrightarrow> (\<forall>(a, b) \<in> set (neighbours prev (kept lo hi ts) hi). gap_covered i ann a b)"
proof -
  have "uncovered i ann lo hi prev ts = 0 \<longleftrightarrow>
      (\<forall>x \<in> set (map (\<lambda>(a, b). gap_uncovered i ann a b) (neighbours prev (kept lo hi ts) hi)). x = 0)"
    unfolding uncovered_sum by (rule sum_list_nonneg_eq_0_iff) (auto simp: gap_nonneg)
  then show ?thesis by (auto simp: gap_zero)
qed

lemma Coverage_bounds: "0 \<le> Coverage smp lo hi i ann" "Coverage smp lo hi i ann \<le> 100"
proof -
  show "0 \<le> Coverage smp lo hi i ann"
    by (auto simp: Coverage_def Let_def split: option.split prod.split)
  have "0 \<le> 100 * uncovered i ann lo hi lo ts / Seconds (hi - lo)" if "0 < Seconds (hi - lo)" for ts
    using that uncovered_nonneg by (simp add: divide_nonneg_pos)
  then show "Coverage smp lo hi i ann \<le> 100"
    by (auto simp: Coverage_def Let_def not_le split: option.split prod.split)
qed

lemma Coverage_full:
  assumes "lo < hi" "ScanTimes d = (ts, None)"
  shows "Coverage (Some d) lo hi i ann = 100 \<longleftrightarrow>
    (\<forall>(a, b) \<in> set (neighbours lo (kept lo hi ts) hi). gap_covered i ann a b)"
proof -
  have s: "0 < Seconds (hi - lo)" using assms(1) by (simp add: Seconds_def)
  have "Coverage (Some d) lo hi i ann = 100 \<longleftrightarrow> uncovered i ann lo hi lo ts = 0"
    using s assms(2) uncovered_nonneg [of i ann lo hi lo ts] by (auto simp: Coverage_def Let_def)
  then show ?thesis by (simp add: uncovered_zero)
qed

text \<open>
  What the coverage means to say: the time (in nanoseconds) of a gap that lies in planned downtime, and a
  gap that is explained by it: short enough, or at most an interval of it is not planned.
\<close>

definition planned :: "Annotation list \<Rightarrow> nanos \<Rightarrow> nanos \<Rightarrow> nanos set" where
  "planned ann a b = {t. a \<le> t \<and> t < b \<and> (\<exists>x \<in> set ann. an_Down x \<and> an_Time x \<le> t \<and> t < an_End x)}"

definition gap_explained :: "rat \<Rightarrow> Annotation list \<Rightarrow> nanos \<Rightarrow> nanos \<Rightarrow> bool" where
  "gap_explained i ann a b \<longleftrightarrow> Seconds (b - a) \<le> of_int GapMaxS \<or> Seconds (b - a - int (card (planned ann a b))) \<le> i"

text \<open>Planned downtimes that do not overlap.\<close>

definition planned_apart :: "Annotation list \<Rightarrow> bool" where
  "planned_apart ann \<longleftrightarrow> sorted_wrt (\<lambda>x y. an_End x \<le> an_Time y \<or> an_End y \<le> an_Time x) (filter an_Down ann)"

lemma planned_Cons: "planned (x # ann) a b = planned [x] a b \<union> planned ann a b"
  by (auto simp: planned_def)

lemma planned_finite [simp]: "finite (planned ann a b)"
  by (rule finite_subset [of _ "{a..<b}"]) (auto simp: planned_def)

lemma overlap_planned: "overlap a b x = Seconds (int (card (planned [x] a b)))"
proof -
  have "planned [x] a b = (if an_Down x then {maxT a (an_Time x)..<minT b (an_End x)} else {})"
    by (auto simp: planned_def maxT_def minT_def)
  then show ?thesis by (simp add: overlap_def Let_def Seconds_def)
qed

lemma Seconds_add: "Seconds (m + n) = Seconds m + Seconds n"
  by (simp add: Seconds_def add_divide_distrib)

lemma Seconds_mono: "m \<le> n \<Longrightarrow> Seconds m \<le> Seconds n"
  by (simp add: Seconds_def divide_right_mono)

lemma overlap_sum: "Seconds (int (card (planned ann a b))) \<le> sum_list (map (overlap a b) ann)"
proof (induction ann)
  case (Cons x ann)
  have "int (card (planned (x # ann) a b)) \<le> int (card (planned [x] a b)) + int (card (planned ann a b))"
    unfolding planned_Cons [of x ann] using card_Un_le [of "planned [x] a b" "planned ann a b"] by linarith
  then have "Seconds (int (card (planned (x # ann) a b))) \<le> Seconds (int (card (planned [x] a b)) + int (card (planned ann a b)))"
    by (rule Seconds_mono)
  then show ?case using Cons by (simp add: overlap_planned Seconds_add)
qed (simp add: planned_def Seconds_def)

lemma overlap_sum_apart:
  "planned_apart ann \<Longrightarrow> Seconds (int (card (planned ann a b))) = sum_list (map (overlap a b) ann)"
proof (induction ann)
  case (Cons x ann)
  have "planned [x] a b \<inter> planned ann a b = {}"
    using Cons.prems by (fastforce simp: planned_apart_def planned_def split: if_splits)
  then have "int (card (planned (x # ann) a b)) = int (card (planned [x] a b)) + int (card (planned ann a b))"
    by (simp add: planned_Cons [of x ann] card_Un_disjoint)
  moreover have "planned_apart ann" using Cons.prems by (auto simp: planned_apart_def split: if_splits)
  ultimately show ?case using Cons.IH by (simp add: overlap_planned Seconds_add)
qed (simp add: planned_def Seconds_def)

lemma gap_explained_iff: "gap_explained i ann a b \<longleftrightarrow>
    Seconds (b - a) \<le> of_int GapMaxS \<or> Seconds (b - a) \<le> i + Seconds (int (card (planned ann a b)))"
  using Seconds_add [of "b - a - int (card (planned ann a b))" "int (card (planned ann a b))"] by (auto simp: gap_explained_def)

lemma gap_explained_covered: "gap_explained i ann a b \<Longrightarrow> gap_covered i ann a b"
  using overlap_sum [of ann a b] by (auto simp: gap_explained_iff gap_covered_def)

lemma gap_covered_explained: "planned_apart ann \<Longrightarrow> gap_covered i ann a b \<Longrightarrow> gap_explained i ann a b"
  using overlap_sum_apart [of ann a b] by (simp add: gap_explained_iff gap_covered_def)

text \<open>The same downtime annotated twice counts twice.\<close>

definition down_for :: "nanos \<Rightarrow> nanos \<Rightarrow> Annotation" where
  "down_for a b = \<lparr> an_Time = a, an_Events = [], an_Down = True, an_End = b, an_Text = ''planned'', an_Raw = '''' \<rparr>"

lemma coverage_counts_twice:
  "let d = ([[''t_iso'']], None); dn = down_for 0 (500 * Second)
   in Coverage (Some d) 0 (1000 * Second) 5 [dn] = 101/2 \<and> Coverage (Some d) 0 (1000 * Second) 5 [dn, dn] = 100"
  by code_simp

section \<open>The check from outside\<close>

text \<open>Repeated checks: what each found, when, and the mail it sent.\<close>

fun check_runs :: "check_state \<Rightarrow> (stored_state \<times> int option \<times> nanos \<times> string) list \<Rightarrow> (int \<times> string \<times> (string \<times> string) option) list" where
  "check_runs cs [] = []"
| "check_runs cs ((st, mt, now, u) # xs) =
     (case Check_log ''missing'' st mt now u cs of
        (r, msg, cs') \<Rightarrow> (unix now, u, msg) # check_runs (case cs' of None \<Rightarrow> cs | Some c \<Rightarrow> c) xs)"

definition mail_times :: "bool \<Rightarrow> (int \<times> string \<times> (string \<times> string) option) list \<Rightarrow> int list" where
  "mail_times failed ms = map fst (filter (\<lambda>(t, u, msg). msg \<noteq> None \<and> (u \<noteq> '''') = failed) ms)"

definition spaced :: "int list \<Rightarrow> bool" where
  "spaced ts \<longleftrightarrow> sorted_wrt (\<lambda>a b. a + AlertCooldownS \<le> b) ts"

lemma spaced_Cons:
  assumes "t0 + AlertCooldownS \<le> t" "spaced (t # ts)"
  shows "spaced (t0 # t # ts)"
  using assms by (auto simp: spaced_def AlertCooldownS_def)

lemma Check_step:
  assumes "Check_log m st mt now u cs = (r, msg, cs')"
  defines "c \<equiv> (case cs' of None \<Rightarrow> cs | Some x \<Rightarrow> x)"
  shows "if msg \<noteq> None \<and> u = '''' then cs_LastMail cs + AlertCooldownS \<le> unix now \<and> cs_LastMail c = unix now
         else cs_LastMail c = cs_LastMail cs"
    and "if msg \<noteq> None \<and> u \<noteq> '''' then cs_LastFailedMail cs + AlertCooldownS \<le> unix now \<and> cs_LastFailedMail c = unix now
         else cs_LastFailedMail c = cs_LastFailedMail cs"
  using assms by (auto simp: Check_log_def check_mail_def Let_def split: stored_state.splits if_splits)

lemma check_runs_spaced: "spaced (cs_LastMail cs # mail_times False (check_runs cs xs))"
  "spaced (cs_LastFailedMail cs # mail_times True (check_runs cs xs))"
proof (induction cs xs rule: check_runs.induct)
  case (1 cs)
  show "spaced (cs_LastMail cs # mail_times False (check_runs cs []))"
    "spaced (cs_LastFailedMail cs # mail_times True (check_runs cs []))" by (simp_all add: mail_times_def spaced_def)
next
  case (2 cs st mt now u xs)
  obtain r msg cs' where c: "Check_log ''missing'' st mt now u cs = (r, msg, cs')" by (metis prod_cases3)
  note step = Check_step [OF c]
  note IH = 2 [OF c [symmetric] refl]
  show "spaced (cs_LastMail cs # mail_times False (check_runs cs ((st, mt, now, u) # xs)))"
    using step(1) IH(1) spaced_Cons [of "cs_LastMail cs" "unix now"] by (auto simp: c mail_times_def split: if_splits)
  show "spaced (cs_LastFailedMail cs # mail_times True (check_runs cs ((st, mt, now, u) # xs)))"
    using step(2) IH(2) spaced_Cons [of "cs_LastFailedMail cs" "unix now"] by (auto simp: c mail_times_def split: if_splits)
qed

lemma Check_stale:
  "ck_Stale (fst (Check_log m st mt now u cs)) \<longleftrightarrow>
     (case st of Stored s \<Rightarrow> \<not> ls_Finished s \<and> last_sample s mt + CheckGapMaxS < unix now | _ \<Rightarrow> True)"
  by (auto simp: Check_log_def Let_def split: stored_state.split prod.split)

end
