(* ===== verification/Log_Properties.thy ===== *)
theory Log_Properties
  imports Log_World Log_Criteria Log_Coverage
begin

text \<open>
  The properties of the logger: its runs, its criteria, its mails, and what is read back of a run
  directory.
\<close>

section \<open>Runs\<close>

text \<open>C8: Well-formed state. Whatever the outside world does, every return of the logger leaves a well-formed state (counters that are not negative, K1 hits up to the cap, at most 240 pending lines of the known criteria only, episodes of the known names without repetition), in memory and in state.json, if state.json held one or nothing before: so over every number of restarts.\<close>
theorem logger_state_ok:
  assumes "dir_ok d" "Run_Log S mk d m w = Some (L, r)"
  shows "log_ok (lg_st L) \<and> dir_ok (lg_dir L)"
  using Run_Log_cases [OF assms(2)]
proof cases
  case 1
  then show ?thesis using assms(1) new_state_ok by auto
next
  case (2 K)
  then show ?thesis using lrun_ok started_ok assms(1) by blast
qed

theorem logger_state_ok_witness:
  "\<exists>L r. Run_Log (bare_setup (3600 * Second) (60 * Second)) None empty_dir None (0, 0, True) = Some (L, r) \<and> log_ok (lg_st L) \<and> dir_ok (lg_dir L)"
proof -
  have d: "dir_ok empty_dir" by (simp add: dir_ok_def empty_dir_def)
  show ?thesis using bare_clock.run_returns [of "3600 * Second" "60 * Second" None empty_dir None "(0, 0, True)"] logger_state_ok [OF d] by fastforce
qed

text \<open>C7: The logger ends. If the clock never goes back, a sleep moves it on and \<open>Now\<close> reads it, \<open>Run\<close> returns, however the journal, the mails, the sensors and the writes turn out. If no signal ends a sleep and \<open>Run\<close> returns without an error, the run is finished, and state.json says so.\<close>
theorem logger_run_ends:
  fixes clock :: "'w \<Rightarrow> int"
  assumes "calls_keep S (\<lambda>w w'. clock w \<le> clock w')" "\<And>w. snd (dp_Now (se_Deps S) w) = clock w"
    and "\<And>send s b w. dp_Mail (se_Deps S) = Some send \<Longrightarrow> clock w \<le> clock (fst (send s b w))"
    and "\<And>n w. clock w < clock (fst (dp_Sleep (se_Deps S) n w))"
  shows "\<exists>L r. Run_Log S mk d m w = Some (L, r) \<and>
    ((\<forall>n v. snd (dp_Sleep (se_Deps S) n v)) \<and> r = Returned \<longrightarrow> ls_Finished (lg_st L) \<and> fd_State (lg_dir L) = Stored (lg_st L))"
proof -
  have c: "log_clock S clock"
    using assms by (intro log_clock.intro log_world.intro log_clock_axioms.intro) auto
  obtain L r where run: "Run_Log S mk d m w = Some (L, r)" using log_clock.run_returns [OF c] by (metis surj_pair)
  have "ls_Finished (lg_st L) \<and> fd_State (lg_dir L) = Stored (lg_st L)"
    if "\<forall>n v. snd (dp_Sleep (se_Deps S) n v)" "r = Returned"
  proof -
    from Returned_loop [of S mk d m w L] run that(2) obtain K where "log_loop S K = Some (L, Returned)" by blast
    then show ?thesis using undisturbed_finishes [of S K] loop_finished [of S K] that(1) by fastforce
  qed
  with run show ?thesis by blast
qed

theorem logger_run_ends_witness:
  "\<exists>L r. Run_Log (bare_setup (3600 * Second) (60 * Second)) None empty_dir None (0, 0, False) = Some (L, r)"
proof -
  let ?S = "bare_setup (3600 * Second) (60 * Second)"
  have k: "calls_keep ?S (\<lambda>w w'. fst w \<le> fst w')" by (rule bare_keeps) simp
  have "\<exists>L r. Run_Log ?S None empty_dir None (0, 0, False) = Some (L, r) \<and>
      ((\<forall>n v. snd (dp_Sleep (se_Deps ?S) n v)) \<and> r = Returned \<longrightarrow> ls_Finished (lg_st L) \<and> fd_State (lg_dir L) = Stored (lg_st L))"
    by (rule logger_run_ends [OF k]) (auto simp: bare_setup_def bare_deps_def split: if_splits prod.splits)
  then show ?thesis by blast
qed

text \<open>C11: The record only grows. Whatever happens, a run appends to events.log, samples.csv and aux.csv and never touches the annotations; a resumed run keeps its number, its start, its end and its event numbers, which go on from where they were, and counts one restart more.\<close>
theorem logger_only_adds:
  assumes "Run_Log S mk d m w = Some (L, r)"
  shows "files_grow d (lg_dir L) \<and>
    (\<forall>st. fd_State d = Stored st \<and> r = Returned \<longrightarrow>
      ls_RunID (lg_st L) = ls_RunID st \<and> ls_StartEpoch (lg_st L) = ls_StartEpoch st \<and>
      ls_EndEpoch (lg_st L) = ls_EndEpoch st \<and> ls_EventSeq st \<le> ls_EventSeq (lg_st L) \<and> ls_Restarts (lg_st L) = ls_Restarts st + 1)"
  using Run_Log_cases [OF assms]
proof cases
  case (2 K)
  then show ?thesis using lrun_grow [of S K L] by (auto simp: started_def same_log_def)
qed auto

theorem logger_only_adds_witness:
  "\<exists>L r. Run_Log (bare_setup (3600 * Second) (60 * Second)) None empty_dir None (0, 0, True) = Some (L, r) \<and> files_grow empty_dir (lg_dir L)"
  using bare_clock.run_returns [of "3600 * Second" "60 * Second" None empty_dir None "(0, 0, True)"] logger_only_adds by fastforce

text \<open>A run that cannot or need not start writes nothing: no interval or duration, no directory, an unreadable state, a finished run.\<close>
theorem run_refused:
  assumes "lc_Interval (se_Cfg S) \<le> 0 \<or> lc_Duration (se_Cfg S) \<le> 0 \<or> mk \<noteq> None \<or> (\<exists>e. fd_State d = BadState e) \<or>
    (\<exists>st. fd_State d = Stored st \<and> ls_Finished st)"
  shows "\<exists>L r. Run_Log S mk d m w = Some (L, r) \<and> r \<noteq> Returned \<and> lg_dir L = d"
  using assms by (auto simp: Run_Log_def Let_def no_run_def split: prod.split option.split)

theorem run_refused_witness:
  "\<exists>L r. Run_Log (bare_setup 0 (60 * Second)) None empty_dir None (0, 0, True) = Some (L, r) \<and> r \<noteq> Returned \<and> lg_dir L = empty_dir"
  by (rule run_refused) (simp add: bare_setup_def)

section \<open>Mails\<close>

text \<open>C16: A mail command that hangs costs one attempt a pass. Over a whole pass of the loop (its sample, check, alerts, queued mails and summary) at most one attempt to mail fails, and none is made once one has failed; no other call of the outside world changes the count.\<close>
theorem one_failed_mail_per_pass:
  fixes fails :: "'w \<Rightarrow> nat"
  assumes "calls_keep S (\<lambda>w w'. fails w' = fails w)"
    and "\<And>send s b w. dp_Mail (se_Deps S) = Some send \<Longrightarrow> fails (fst (send s b w)) = fails w + (if snd (send s b w) = None then 0 else 1)"
  shows "fails (lg_w (pass S now L)) = fails (lg_w L) + (if lg_mailDown (pass S now L) \<and> \<not> lg_mailDown L then 1 else 0)"
proof -
  have "log_mails S fails" using assms by (intro log_mails.intro log_world.intro log_mails_axioms.intro) auto
  from log_mails.actions_fails [OF this acts_pass] show ?thesis by blast
qed

theorem one_failed_mail_per_pass_witness:
  "fst (snd (lg_w (pass (bare_setup (3600 * Second) (60 * Second)) 0 (bare_logger 0 False)))) \<le> 1"
proof -
  let ?S = "bare_setup (3600 * Second) (60 * Second)"
  have k: "calls_keep ?S (\<lambda>w w'. fst (snd w') = fst (snd w))" by (rule bare_keeps) simp
  have "fst (snd (lg_w (pass ?S 0 (bare_logger 0 False)))) = fst (snd (lg_w (bare_logger 0 False))) +
      (if lg_mailDown (pass ?S 0 (bare_logger 0 False)) \<and> \<not> lg_mailDown (bare_logger 0 False) then 1 else 0)"
    by (rule one_failed_mail_per_pass [OF k]) (auto simp: bare_setup_def bare_deps_def split: if_splits prod.splits)
  then show ?thesis by (simp add: bare_logger_def)
qed

text \<open>The alerts of a check. For each criterion with pending events whose last alert is an hour old, the pending lines are cleared and the time is recorded; every other criterion keeps both.\<close>
theorem alerts_when_due:
  "ls_LastSent (lg_st (alerts S now L)) k =
     (if k \<in> set Keys \<and> ls_Pending (lg_st L) k \<noteq> [] \<and> ls_LastSent (lg_st L) k + AlertCooldownS \<le> unix now
      then unix now else ls_LastSent (lg_st L) k) \<and>
   ls_Pending (lg_st (alerts S now L)) k =
     (if k \<in> set Keys \<and> ls_LastSent (lg_st L) k + AlertCooldownS \<le> unix now then [] else ls_Pending (lg_st L) k)"
proof -
  have "distinct Keys" by (simp add: Keys_def)
  from alerts_fold [OF this, of S now L k] show ?thesis
    unfolding alerts_def by (auto simp: alert_due_def algebra_simps)
qed

text \<open>No mail is lost without a trace: it was handed to the mail command, or it waits in the outbox with its subject and body, or it is counted as dropped.\<close>
theorem mail_accounted:
  "(\<exists>send w w'. dp_Mail (se_Deps S) = Some send \<and> \<not> lg_mailDown L \<and>
       send (''[n5-ectest] '' @ subject_clean (lred S s)) (lred S b) w = (w', None) \<and>
       lg_dir (log_mail S s b L) = lg_dir L \<and> lg_st (log_mail S s b L) = lg_st L) \<or>
   (\<exists>name. fd_Outbox (lg_dir (log_mail S s b L)) = fd_Outbox (lg_dir L) @
         [(name, queued_message (lc_MailTo (se_Cfg S)) (''[n5-ectest] '' @ subject_clean (lred S s)) (lred S b))] \<and>
       ls_MailsDropped (lg_st (log_mail S s b L)) = ls_MailsDropped (lg_st L)) \<or>
   (lg_dir (log_mail S s b L) = lg_dir L \<and> ls_MailsDropped (lg_st (log_mail S s b L)) = ls_MailsDropped (lg_st L) + 1)"
  by (rule mail_kept)

text \<open>A queued mail is later sent as it was: subject and body are read back from its file.\<close>
theorem queued_mail_roundtrip:
  assumes "NL \<notin> set rcpt"
  shows "let subj = ''[n5-ectest] '' @ subject_clean s; (head, b) = cut_head (queued_message rcpt subj body)
    in subject_of head = subj \<and> trim_suffix [NL] b = body"
proof -
  have "NL \<notin> set (''[n5-ectest] '' @ subject_clean s)" using subject_clean_line by (simp add: NL_def)
  from queued_read_back [OF assms this] show ?thesis by (simp add: Let_def)
qed

theorem queued_mail_roundtrip_witness:
  "let subj = ''[n5-ectest] '' @ subject_clean ''ALERT K4''; (head, b) = cut_head (queued_message ''root'' subj ''fan2 0 rpm'')
    in subject_of head = subj \<and> trim_suffix [NL] b = ''fan2 0 rpm''"
  by (rule queued_mail_roundtrip) (simp add: NL_def)

text \<open>C40: How often the check from outside mails. Over any series of checks, with any clock and whatever they find, each with the state that the last one wrote, the mails about a silent sampler are at least an hour apart, the first from the last one before, and so are those about a failed unit.\<close>
theorem check_mails_spaced:
  "spaced (cs_LastMail cs # mail_times False (check_runs cs xs)) \<and>
   spaced (cs_LastFailedMail cs # mail_times True (check_runs cs xs))"
  using check_runs_spaced by blast

section \<open>Criteria\<close>

text \<open>C15: A fan that stops is reported once per stall. Over any series of samples the number of K4 events of a fan is the number of maximal runs of at least two samples at 0 rpm.\<close>
theorem fan_stalls_reported:
  fixes L :: "'w logger"
  assumes "ls_ZeroRun (lg_st L) f = 0"
  shows "ls_EventSeq (lg_st (fold (\<lambda>(t, r). check_fan S t r f) rs L)) =
    ls_EventSeq (lg_st L) + int (stalls (map (\<lambda>(t, r). hr_Fan r f = 0) rs))"
  using fan_series [OF assms] by blast

theorem fan_stalls_reported_witness:
  "ls_EventSeq (lg_st (fold (\<lambda>(t, r). check_fan (bare_setup 1 1) t r 2)
     (map (\<lambda>v. (0, (hr_start \<lparr> fs_file = (\<lambda>p. None), fs_dir = (\<lambda>p. None), fs_real = (\<lambda>p. None) \<rparr> '''' '''')\<lparr> hr_Fan := (\<lambda>n. v) \<rparr>))
       [0, 900, 0, 0, 0, 900, 0, 0]) (bare_logger 0 True))) = 2"
  (is "ls_EventSeq (lg_st (fold ?f ?rs ?L)) = 2")
proof -
  have z: "ls_ZeroRun (lg_st ?L) 2 = 0" by (simp add: bare_logger_def new_state_def)
  have "stalls (map (\<lambda>(t, r). hr_Fan r 2 = 0) ?rs) = 2" by (simp add: stalls_def stall_at_def upt_rec nth_Cons')
  then show ?thesis using fan_stalls_reported [OF z, of "bare_setup 1 1" ?rs] by (simp add: bare_logger_def new_state_def)
qed

text \<open>A lasting condition is reported once. Over any series of samples the number of events of an episode is the number of times its condition begins.\<close>
theorem episode_reported_once:
  fixes L :: "'w logger"
  assumes "n \<notin> set (ls_Episodes (lg_st L))"
  shows "ls_EventSeq (lg_st (fold (\<lambda>(on, t, d). episode S k n on t d) xs L)) = ls_EventSeq (lg_st L) + int (rises (map fst xs))"
  using episode_series [OF assms] by blast

theorem episode_reported_once_witness:
  "ls_EventSeq (lg_st (fold (\<lambda>(on, t, d). episode (bare_setup 1 1) ''K6'' ''disk'' on t d)
     [(True, 0, ''low''), (True, 5, ''low''), (False, 10, ''''), (True, 15, ''low'')] (bare_logger 0 True))) = 2"
proof -
  have n: "''disk'' \<notin> set (ls_Episodes (lg_st (bare_logger 0 True)))" by (simp add: bare_logger_def new_state_def)
  show ?thesis using episode_reported_once [OF n, of "bare_setup 1 1" "''K6''"
      "[(True, 0, ''low''), (True, 5, ''low''), (False, 10, ''''), (True, 15, ''low'')]"]
    by (simp add: rises_def upt_rec nth_Cons' bare_logger_def new_state_def)
qed

text \<open>Reboots and gaps. The first sample of a first run reports none; a changed boot id is one event, and a second one if the wall clock says that the last sample is more than 90 s old; without a reboot there is an event exactly when the uptime says so.\<close>
theorem gaps_reported:
  "ls_EventSeq (lg_st (check_boot S now boot up L)) = ls_EventSeq (lg_st L) +
     (if ls_Samples (lg_st L) \<le> 0 \<and> ls_Restarts (lg_st L) \<le> 0 then 0
      else if rebooted (lg_st L) boot
      then 1 + (if ls_LastSampleWall (lg_st L) > 0 \<and> unix now - ls_LastSampleWall (lg_st L) > GapMaxS then 1 else 0)
      else (case up of None \<Rightarrow> 0 | Some m \<Rightarrow>
              if ls_LastSampleMono (lg_st L) > 0 \<and> m - ls_LastSampleMono (lg_st L) > of_int GapMaxS then 1 else 0))"
  by (rule boot_events)

section \<open>Reading back\<close>

text \<open>C26: The event log. An event that is written is read back, after the events before it, with its criterion, its number, its time cut to the second, and its detail as it was written: on one line and redacted. The redactor may change nothing but the detail (a host whose name is that of a criterion, say, would); the year has at most four digits, and the write succeeds.\<close>
theorem logged_event_roundtrip:
  assumes "lred S (event_text t (lg_start L) key (ls_EventSeq (lg_st L) + 1) (flat detail)) =
      event_text t (lg_start L) key (ls_EventSeq (lg_st L) + 1) redacted" "NL \<notin> set redacted"
    and "dp_Write (se_Deps S) EventsName (lg_w L) = (w, None)" "key \<in> set Keys"
    and "0 \<le> ls_EventSeq (lg_st L)" "ls_EventSeq (lg_st L) < 2 ^ 62"
    and "civil (t div 1000000000 div 86400) = (y, mo, dy)" "0 \<le> y" "y \<le> 9999"
    and "fd_Events (lg_dir L) = None \<or> (\<exists>u. fd_Events (lg_dir L) = Some u \<and> (u = [] \<or> last u = NL))"
  shows "ParseEventLog (fd_Events (lg_dir (log_ev S key t detail ev L))) = ParseEventLog (fd_Events (lg_dir L)) @
    [\<lparr> le_Time = t - t mod 1000000000, le_Key = key, le_ID = ls_EventSeq (lg_st L) + 1, le_Detail = redacted,
       le_Line = event_text t (lg_start L) key (ls_EventSeq (lg_st L) + 1) redacted \<rparr>]"
proof -
  let ?n = "ls_EventSeq (lg_st L) + 1"
  let ?line = "event_text t (lg_start L) key ?n redacted"
  have f: "fd_Events (lg_dir (log_ev S key t detail ev L)) = add_line ?line (fd_Events (lg_dir L))"
    using assms(1,3) by (simp add: log_ev_def Let_def append_events_def lwrite_def)
  have nl: "NL \<notin> set ?line"
  proof -
    have "NL \<notin> set (rfc3339 t)" using rfc3339_plain [of t] by (auto simp: list_all_iff blank_char_def NL_def)
    moreover have "NL \<notin> set (fmt_f 3 x)" for x using ts_chars_fmt [of 3 x] by (auto simp: list_all_iff ts_char_def digit_val_def NL_def)
    moreover have "NL \<notin> set (itoa ?n)" using itoa_digits [of ?n] assms(5) by (auto simp: list_all_iff digit_val_def NL_def)
    moreover have "NL \<notin> set key" using key_char [OF assms(4)] by (auto simp: NL_def digit_val_def)
    ultimately show ?thesis using assms(2) by (simp add: event_text_def NL_def)
  qed
  show ?thesis
    unfolding f using parse_added_line [OF nl assms(10)] log_event_text [OF assms(7-9,4) _ _ assms(2), of ?n] assms(5,6) by simp
qed

text \<open>With the redactor of a host: the detail names the host, which is replaced.\<close>

definition redacted_setup :: "(int \<times> nat \<times> bool) LSetup" where
  "redacted_setup = (bare_setup 1 1)\<lparr> se_Deps := bare_deps\<lparr> dp_Redact := Some \<lparr> rd_hosts = [''pve''], rd_protected = [] \<rparr> \<rparr> \<rparr>"

theorem logged_event_roundtrip_witness:
  "ParseEventLog (fd_Events (lg_dir (log_ev redacted_setup ''K4'' 0 ''fan2 0 rpm on pve'' [] (bare_logger 0 True)))) =
    [\<lparr> le_Time = 0, le_Key = ''K4'', le_ID = 1, le_Detail = ''fan2 0 rpm on n5host'',
       le_Line = event_text 0 0 ''K4'' 1 ''fan2 0 rpm on n5host'' \<rparr>]"
proof -
  have c: "civil (0 div 1000000000 div 86400) = (1970, 1, 1)" by code_simp
  let ?e = "event_text 0 0 ''K4'' 1" and ?none = "\<lparr> rd_hosts = [], rd_protected = [] \<rparr>"
  have h: "redact_hosts \<lparr> rd_hosts = [''pve''], rd_protected = [] \<rparr> (?e (flat ''fan2 0 rpm on pve'')) = ?e ''fan2 0 rpm on n5host''" by code_simp
  have "plain_text ?none (?e ''fan2 0 rpm on n5host'')" by code_simp
  from redaction_kept [OF this] h
  have r: "Redactor_String \<lparr> rd_hosts = [''pve''], rd_protected = [] \<rparr> (?e (flat ''fan2 0 rpm on pve'')) = ?e ''fan2 0 rpm on n5host''"
    by (simp add: Redactor_String_def redact_hosts_def [of ?none])
  have "ParseEventLog (fd_Events (lg_dir (log_ev redacted_setup ''K4'' 0 ''fan2 0 rpm on pve'' [] (bare_logger 0 True)))) =
      ParseEventLog (fd_Events (lg_dir (bare_logger 0 True))) @
      [\<lparr> le_Time = 0 - 0 mod 1000000000, le_Key = ''K4'', le_ID = ls_EventSeq (lg_st (bare_logger 0 True)) + 1, le_Detail = ''fan2 0 rpm on n5host'',
         le_Line = event_text 0 (lg_start (bare_logger 0 True)) ''K4'' (ls_EventSeq (lg_st (bare_logger 0 True)) + 1) ''fan2 0 rpm on n5host'' \<rparr>]"
    by (rule logged_event_roundtrip [OF _ _ _ _ _ _ c])
      (use r in \<open>simp_all add: lred_def redacted_setup_def bare_setup_def bare_deps_def bare_logger_def new_state_def empty_dir_def NL_def\<close>)
  then show ?thesis by (simp add: bare_logger_def new_state_def empty_dir_def ParseEventLog_def)
qed

text \<open>C31: Full coverage. A gap between neighbouring samples (and the ends) is explained if it is at most 90 s long, or if at most one interval of it lies outside all planned downtimes. The coverage of a run is between 0 and 100. It is 100 if every gap is explained; and if the planned downtimes do not overlap, only then. (Where they overlap the code counts the common time twice and can report 100 for a gap that is not explained.)\<close>
theorem coverage_full:
  assumes "a < b" "ScanTimes rows = (ts, None)"
  shows "0 \<le> Coverage (Some rows) a b i ann \<and> Coverage (Some rows) a b i ann \<le> 100 \<and>
    ((\<forall>(x, y) \<in> set (neighbours a (kept a b ts) b). gap_explained i ann x y) \<longrightarrow> Coverage (Some rows) a b i ann = 100) \<and>
    (planned_apart ann \<and> Coverage (Some rows) a b i ann = 100 \<longrightarrow>
       (\<forall>(x, y) \<in> set (neighbours a (kept a b ts) b). gap_explained i ann x y))"
proof (intro conjI Coverage_bounds)
  show "(\<forall>(x, y) \<in> set (neighbours a (kept a b ts) b). gap_explained i ann x y) \<longrightarrow> Coverage (Some rows) a b i ann = 100"
    unfolding Coverage_full [OF assms] using gap_explained_covered by blast
  show "planned_apart ann \<and> Coverage (Some rows) a b i ann = 100 \<longrightarrow>
      (\<forall>(x, y) \<in> set (neighbours a (kept a b ts) b). gap_explained i ann x y)"
    unfolding Coverage_full [OF assms] using gap_covered_explained by blast
qed

theorem coverage_full_witness:
  "Coverage (Some ([[''t_iso''], [''1970-01-01T00:01:00Z'']], None)) 0 (600 * Second) 5 [down_for (60 * Second) (500 * Second)] \<noteq> 100"
proof -
  let ?d = "[down_for (60 * Second) (500 * Second)]"
  have s: "ScanTimes ([[''t_iso''], [''1970-01-01T00:01:00Z'']], None) = ([60 * Second], None)" by code_simp
  have g: "set (neighbours 0 (kept 0 (600 * Second) [60 * Second]) (600 * Second)) = {(0, 60 * Second), (60 * Second, 600 * Second)}" by code_simp
  have "planned ?d (60 * Second) (600 * Second) = {60 * Second..<500 * Second}"
    by (auto simp: planned_def down_for_def Second_def)
  then have "\<not> gap_explained 5 ?d (60 * Second) (600 * Second)" by (simp add: gap_explained_def Seconds_def Second_def GapMaxS_def)
  moreover have "planned_apart ?d" by (simp add: planned_apart_def down_for_def)
  ultimately show ?thesis using coverage_full [OF _ s, of 0 "600 * Second" 5 ?d] g by (auto simp: Second_def)
qed

end
