(* ===== verification/Cli_Base.thy ===== *)
theory Cli_Base
  imports Decimal Time_Text Text_Sort Files
begin

text \<open>
  The command line: src/ectest/cmd/n5-ectest/main.go, and what it uses of the Go packages flag, time
  and strconv: the parser of a flag set, durations, integers and booleans.
\<close>

section \<open>Exit codes\<close>

definition exitOK :: int where [const_defs]: "exitOK = 0"
definition exitFail :: int where [const_defs]: "exitFail = 1"
definition exitIncomplete :: int where [const_defs]: "exitIncomplete = 3"
definition exitUsage :: int where [const_defs]: "exitUsage = 64"
definition exitHelp :: int where [const_defs]: "exitHelp = -1"

definition toolName :: string where "toolName = ''n5-ectest''"

definition joinOr :: "string list \<Rightarrow> string \<Rightarrow> string \<Rightarrow> string" where
  "joinOr parts sep none = (if parts = [] then none else joins sep parts)"

section \<open>Values of flags\<close>

definition two63 :: int where [const_defs]: "two63 = 9223372036854775808"

text \<open>\<open>time.ParseDuration\<close>: the leading digits of a part, its fraction, its unit.\<close>

fun lead_int :: "int \<Rightarrow> string \<Rightarrow> (int \<times> string) option" where
  "lead_int x [] = Some (x, [])"
| "lead_int x (c # cs) =
     (case digit_val c of
        None \<Rightarrow> Some (x, c # cs)
      | Some k \<Rightarrow>
          if x > two63 div 10 then None
          else (let y = 10 * x + int k in if y > two63 then None else lead_int y cs))"

fun lead_frac :: "int \<Rightarrow> rat \<Rightarrow> bool \<Rightarrow> string \<Rightarrow> int \<times> rat \<times> string" where
  "lead_frac x scale full [] = (x, scale, [])"
| "lead_frac x scale full (c # cs) =
     (case digit_val c of
        None \<Rightarrow> (x, scale, c # cs)
      | Some k \<Rightarrow>
          (let y = 10 * x + int k
           in if full \<or> x > (two63 - 1) div 10 \<or> y > two63 then lead_frac x scale True cs
              else lead_frac y (scale * 10) False cs))"

definition unit_of :: "string \<Rightarrow> int option" where
  "unit_of u = map_of [(''ns'', 1), (''us'', 1000), ([CHR 0xC2, CHR 0xB5, CHR ''s''], 1000),
     ([CHR 0xCE, CHR 0xBC, CHR ''s''], 1000), (''ms'', Millisecond), (''s'', Second), (''m'', 60 * Second), (''h'', 3600 * Second)] u"

definition unit_char :: "char \<Rightarrow> bool" where
  "unit_char c \<longleftrightarrow> c \<noteq> CHR ''.'' \<and> digit_val c = None"

text \<open>One part: its value in nanoseconds and what follows.\<close>

definition dur_part :: "string \<Rightarrow> (int \<times> string) option" where
  "dur_part s =
     (case lead_int 0 s of
        None \<Rightarrow> None
      | Some (v, s1) \<Rightarrow>
          (let dot = (s1 \<noteq> [] \<and> hd s1 = CHR ''.'');
               (f, scale, s2) = (if dot then lead_frac 0 1 False (tl s1) else (0, 1, s1));
               pre = length s1 < length s; post = dot \<and> length s2 < length (tl s1);
               u = takeWhile unit_char s2; rest = dropWhile unit_char s2
           in if \<not> pre \<and> \<not> post then None
              else case unit_of u of
                     None \<Rightarrow> None
                   | Some unit \<Rightarrow>
                       if v > two63 div unit then None
                       else
                         (let d = v * unit + (if f > 0 then \<lfloor>of_int f * (of_int unit / scale)\<rfloor> else 0)
                          in if d > two63 then None else Some (d, rest))))"

lemma lead_int_shorter: "lead_int x s = Some (v, t) \<Longrightarrow> length t \<le> length s"
  by (induction x s rule: lead_int.induct) (fastforce simp: Let_def split: option.splits if_splits)+

lemma lead_frac_shorter: "lead_frac x c b s = (v, d, t) \<Longrightarrow> length t \<le> length s"
  by (induction x c b s rule: lead_frac.induct) (fastforce simp: Let_def split: option.splits if_splits)+

lemma dur_part_shorter: "dur_part s = Some (v, t) \<Longrightarrow> length t < length s"
proof -
  assume d: "dur_part s = Some (v, t)"
  have w: "length (dropWhile unit_char q) \<le> length q" for q by (rule length_dropWhile_le)
  show "length t < length s" using d w
    by (auto simp: dur_part_def Let_def split: option.splits prod.splits if_splits
        dest!: lead_int_shorter lead_frac_shorter intro: le_less_trans order_trans)
       (fastforce intro: le_less_trans order_trans)+
qed

function dur_parts :: "int \<Rightarrow> string \<Rightarrow> int option" where
  "dur_parts d s =
     (if s = [] then Some d
      else case dur_part s of
             None \<Rightarrow> None
           | Some (v, t) \<Rightarrow> if d + v > two63 then None else dur_parts (d + v) t)"
  by pat_completeness auto
termination by (relation "measure (\<lambda>(d, s). length s)") (auto dest: dur_part_shorter)

declare dur_parts.simps [simp del]

definition duration_text :: "string \<Rightarrow> string" where
  [text_defs]: "duration_text s = ''time: invalid duration '' @ fmt_q s"

definition ParseDuration :: "string \<Rightarrow> string + nanos" where
  "ParseDuration orig =
     (let signed = (orig \<noteq> [] \<and> hd orig \<in> {CHR ''-'', CHR ''+''}); neg = (orig \<noteq> [] \<and> hd orig = CHR ''-'');
          s = (if signed then tl orig else orig)
      in if s = ''0'' then Inr 0
         else if s = [] then Inl (duration_text orig)
         else case dur_parts 0 s of
                None \<Rightarrow> Inl (duration_text orig)
              | Some d \<Rightarrow> if neg then Inr (- d) else if d > two63 - 1 then Inl (duration_text orig) else Inr d)"

text \<open>
  \<open>strconv.ParseInt(s, 0, 64)\<close>, the form of an integer flag: the base from the prefix, underscores
  between digits. The first argument of \<open>underscores_ok\<close> says whether a digit is right before.
\<close>

fun underscores_ok :: "bool \<Rightarrow> string \<Rightarrow> bool" where
  "underscores_ok digit [] \<longleftrightarrow> True"
| "underscores_ok digit (c # cs) \<longleftrightarrow>
     (if c = CHR ''_'' then digit \<and> cs \<noteq> [] \<and> hd cs \<noteq> CHR ''_'' \<and> underscores_ok False cs
      else underscores_ok True cs)"

fun base_val :: "nat \<Rightarrow> nat \<Rightarrow> string \<Rightarrow> nat option" where
  "base_val b n [] = Some n"
| "base_val b n (c # cs) =
     (case hex_val c of None \<Rightarrow> None | Some k \<Rightarrow> if k < b then base_val b (b * n + k) cs else None)"

definition base_prefix :: "string \<Rightarrow> nat \<times> bool \<times> string" where
  "base_prefix s =
     (if s = [] \<or> hd s \<noteq> CHR ''0'' then (10, False, s)
      else if length s \<ge> 3 \<and> lower_char (s ! 1) = CHR ''b'' then (2, True, drop 2 s)
      else if length s \<ge> 3 \<and> lower_char (s ! 1) = CHR ''o'' then (8, True, drop 2 s)
      else if length s \<ge> 3 \<and> lower_char (s ! 1) = CHR ''x'' then (16, True, drop 2 s)
      else (8, True, tl s))"

definition parse_uint0 :: "string \<Rightarrow> nat option" where
  "parse_uint0 s =
     (case base_prefix s of
        (b, prefixed, ds) \<Rightarrow>
          if s = [] \<or> \<not> underscores_ok prefixed ds then None else base_val b 0 (filter (\<lambda>c. c \<noteq> CHR ''_'') ds))"

definition ParseInt0 :: "string \<Rightarrow> int option" where
  "ParseInt0 s =
     (let signed = (s \<noteq> [] \<and> hd s \<in> {CHR ''-'', CHR ''+''}); neg = (s \<noteq> [] \<and> hd s = CHR ''-'')
      in case parse_uint0 (if signed then tl s else s) of
           None \<Rightarrow> None
         | Some n \<Rightarrow>
             if neg then (if int n > two63 then None else Some (- int n))
             else if int n \<ge> two63 then None else Some (int n))"

definition ParseBool :: "string \<Rightarrow> bool option" where
  "ParseBool s =
     (if s \<in> {''1'', ''t'', ''T'', ''TRUE'', ''true'', ''True''} then Some True
      else if s \<in> {''0'', ''f'', ''F'', ''FALSE'', ''false'', ''False''} then Some False else None)"

section \<open>A flag set\<close>

text \<open>
  A flag takes a value or is boolean, and a check refuses values. \<open>FlagSet.Parse\<close> stops at the first
  argument that is no flag; the settings are kept in their order, so that the last one of a name wins.
\<close>

type_synonym flag_set = "(string \<times> bool \<times> (string \<Rightarrow> bool)) list"

datatype flag_word = Positional | Terminator | BadSyntax | Word string "string option"

definition flag_word_of :: "string \<Rightarrow> flag_word" where
  "flag_word_of s =
     (if length s < 2 \<or> hd s \<noteq> CHR ''-'' then Positional
      else if s = ''--'' then Terminator
      else
        (let n = (if s ! 1 = CHR ''-'' then drop 2 s else drop 1 s)
         in if n = [] \<or> hd n = CHR ''-'' \<or> hd n = CHR ''='' then BadSyntax
            else case cut_at (CHR ''='') n of
                   (a, v, True) \<Rightarrow> Word a (Some v)
                 | (a, v, False) \<Rightarrow> Word n None))"

datatype flag_result = Help | FlagError string | Parsed "(string \<times> string) list" "string list"

definition bad_value_text :: "string \<Rightarrow> string \<Rightarrow> string" where
  [text_defs]: "bad_value_text name v = ''invalid value '' @ fmt_q v @ '' for flag -'' @ name"

fun parse_words :: "flag_set \<Rightarrow> (string \<times> string) list \<Rightarrow> string list \<Rightarrow> flag_result" where
  "parse_words F acc [] = Parsed acc []"
| "parse_words F acc (s # args) =
     (case flag_word_of s of
        Positional \<Rightarrow> Parsed acc (s # args)
      | Terminator \<Rightarrow> Parsed acc args
      | BadSyntax \<Rightarrow> FlagError (''bad flag syntax: '' @ s)
      | Word name val \<Rightarrow>
          (case map_of F name of
             None \<Rightarrow> if name = ''help'' \<or> name = ''h'' then Help else FlagError (''flag provided but not defined: -'' @ name)
           | Some (True, ok) \<Rightarrow>
               (let v = (case val of None \<Rightarrow> ''true'' | Some v \<Rightarrow> v)
                in if ok v then parse_words F (acc @ [(name, v)]) args else FlagError (bad_value_text name v))
           | Some (False, ok) \<Rightarrow>
               (case val of
                  Some v \<Rightarrow> if ok v then parse_words F (acc @ [(name, v)]) args else FlagError (bad_value_text name v)
                | None \<Rightarrow>
                    (case args of
                       [] \<Rightarrow> FlagError (''flag needs an argument: -'' @ name)
                     | v # rest \<Rightarrow>
                         if ok v then parse_words F (acc @ [(name, v)]) rest else FlagError (bad_value_text name v)))))"

text \<open>The value of a flag after the settings, or its default.\<close>

definition setting :: "(string \<times> string) list \<Rightarrow> string \<Rightarrow> string \<Rightarrow> string" where
  "setting sets name dflt = (case map_of (rev sets) name of None \<Rightarrow> dflt | Some v \<Rightarrow> v)"

definition bool_setting :: "(string \<times> string) list \<Rightarrow> string \<Rightarrow> bool" where
  "bool_setting sets name = (ParseBool (setting sets name ''false'') = Some True)"

definition duration_setting :: "(string \<times> string) list \<Rightarrow> string \<Rightarrow> nanos \<Rightarrow> nanos" where
  "duration_setting sets name dflt =
     (case map_of (rev sets) name of None \<Rightarrow> dflt
      | Some v \<Rightarrow> (case ParseDuration v of Inr d \<Rightarrow> d | Inl e \<Rightarrow> dflt))"

definition int_setting :: "(string \<times> string) list \<Rightarrow> string \<Rightarrow> int \<Rightarrow> int" where
  "int_setting sets name dflt =
     (case map_of (rev sets) name of None \<Rightarrow> dflt | Some v \<Rightarrow> (case ParseInt0 v of Some n \<Rightarrow> n | None \<Rightarrow> dflt))"

definition string_flag :: "string \<Rightarrow> string \<times> bool \<times> (string \<Rightarrow> bool)" where
  "string_flag n = (n, False, \<lambda>v. True)"
definition bool_flag :: "string \<Rightarrow> string \<times> bool \<times> (string \<Rightarrow> bool)" where
  "bool_flag n = (n, True, \<lambda>v. ParseBool v \<noteq> None)"
definition duration_flag :: "string \<Rightarrow> string \<times> bool \<times> (string \<Rightarrow> bool)" where
  "duration_flag n = (n, False, \<lambda>v. case ParseDuration v of Inl e \<Rightarrow> False | Inr d \<Rightarrow> True)"
definition int_flag :: "string \<Rightarrow> string \<times> bool \<times> (string \<Rightarrow> bool)" where
  "int_flag n = (n, False, \<lambda>v. ParseInt0 v \<noteq> None)"

text \<open>\<open>splitFlags\<close>: flags and their values to the front. \<open>valued\<close> lists the flags that take a value.\<close>

definition flag_name :: "string \<Rightarrow> string" where
  "flag_name a = dropWhile (\<lambda>c. c = CHR ''-'') a"

fun split_loop :: "string list \<Rightarrow> string list \<Rightarrow> string list \<times> string list" where
  "split_loop valued [] = ([], [])"
| "split_loop valued (a # args) =
     (if a = ''--'' then ([], args)
      else if has_prefix ''-'' a \<and> length a > 1
      then (if CHR ''='' \<notin> set (flag_name a) \<and> flag_name a \<in> set valued
            then (case args of
                    [] \<Rightarrow> ([a], [])
                  | v # rest \<Rightarrow> (let (fs, ps) = split_loop valued rest in (a # v # fs, ps)))
            else (let (fs, ps) = split_loop valued args in (a # fs, ps)))
      else (let (fs, ps) = split_loop valued args in (fs, a # ps)))"

definition splitFlags :: "string list \<Rightarrow> string list \<Rightarrow> string list" where
  "splitFlags args valued = (let (fs, ps) = split_loop valued args in fs @ ps)"

text \<open>\<open>parseFlags\<close>: the exit code of a help or of an error, or the settings and the other arguments.\<close>

definition parseFlags :: "flag_set \<Rightarrow> string list \<Rightarrow> string list option \<Rightarrow> int \<times> string + (string \<times> string) list \<times> string list" where
  "parseFlags F args valued =
     (case parse_words F [] (case valued of None \<Rightarrow> args | Some vs \<Rightarrow> splitFlags args vs) of
        Help \<Rightarrow> Inl (exitOK, '''')
      | FlagError e \<Rightarrow> Inl (exitUsage, e)
      | Parsed sets rest \<Rightarrow> Inr (sets, rest))"

section \<open>Dispatch\<close>

text \<open>\<open>run\<close> and \<open>main\<close>: what a command line leads to.\<close>

datatype dispatch = Usage int string | Command string "string list" | Worker "string list"

definition unknown_command_text :: "string \<Rightarrow> string" where
  [text_defs]: "unknown_command_text c = toolName @ '': unknown command '' @ fmt_q c"

definition run_line :: "string list \<Rightarrow> string list \<Rightarrow> dispatch" where
  "run_line commands args =
     (case args of
        [] \<Rightarrow> Usage exitUsage ''''
      | c # rest \<Rightarrow>
          if c \<in> {''-h'', ''--help'', ''help''} then Usage exitOK ''''
          else if c \<notin> set commands then Usage exitUsage (unknown_command_text c)
          else Command c rest)"

definition main_line :: "(string \<Rightarrow> string) \<Rightarrow> string list \<Rightarrow> string list \<Rightarrow> dispatch" where
  "main_line getenv commands args =
     (if getenv ''N5ECTEST_WORKER'' = ''1'' then Worker args else run_line commands args)"

end
