(* ===== verification/Guardian.thy ===== *)
theory Guardian
  imports Pwm_Writer Regulator Redact Session Cli_Base
begin

text \<open>
  The guardian of a writing command and the restore by hand: src/ectest/cmd/n5-ectest/guardian.go and
  restore.go. A run writes a state file before its first command; who finds it open afterwards puts
  the channels back. The state file is replaced as a whole (bundle.WriteAtomic): a write of it either
  succeeds or leaves what was there. The encoding of the state file, the processes and the texts of
  operating system errors are parameters.
\<close>

section \<open>The state file\<close>

definition stateActive :: string where [text_defs]: "stateActive = ''active''"
definition stateRestored :: string where [text_defs]: "stateRestored = ''restored''"
definition stateDiscarded :: string where [text_defs]: "stateDiscarded = ''discarded''"

record state_file =
  gf_Tool :: string
  gf_Version :: string
  gf_PID :: int
  gf_Started :: string
  gf_State :: string
  gf_Device :: Device
  gf_Channels :: "(string \<times> string) list"
  gf_Bundle :: string
  gf_TestRoot :: bool

definition stateOpen :: "state_file \<Rightarrow> bool" where
  "stateOpen st \<longleftrightarrow> gf_State st \<noteq> stateRestored \<and> gf_State st \<noteq> stateDiscarded"

text \<open>What \<open>readState\<close> finds at the path.\<close>

datatype state_read = NoFile | Unreadable string | Written state_file

text \<open>The outside of a command: the kernel of the writer, the clock, the write of the state file.\<close>

record 'w host =
  ho_Kernel :: "'w kernel"
  ho_SysRoot :: string
  ho_Now :: "'w \<Rightarrow> 'w \<times> nanos"
  ho_Save :: "state_file \<Rightarrow> 'w \<Rightarrow> 'w \<times> string option"
  ho_Version :: string

definition write_state :: "'w host \<Rightarrow> state_file \<Rightarrow> 'w \<times> state_read \<Rightarrow> ('w \<times> state_read) \<times> string option" where
  "write_state H st = (\<lambda>(w, f).
     (case ho_Save H st w of
        (w', None) \<Rightarrow> ((w', Written st), None)
      | (w', Some e) \<Rightarrow> ((w', f), Some e)))"

definition channels_text :: "(string \<times> string) list \<Rightarrow> string" where
  [text_defs]: "channels_text cs = ''map['' @
     joins '' '' (map (\<lambda>k. k @ '':'' @ (case map_of cs k of None \<Rightarrow> '''' | Some v \<Rightarrow> v)) (sort_texts (map fst cs))) @ '']''"

section \<open>Restoring from a state file\<close>

definition restore_writer :: "'w host \<Rightarrow> Device \<Rightarrow> unit Writer" where
  "restore_writer H dv =
     \<lparr> wr_SysRoot = ho_SysRoot H, wr_Want = dv, wr_Before = (\<lambda>ch a v h. h), wr_After = (\<lambda>ch a v e h. h),
       wr_Recorder = (\<lambda>p v h. h) \<rparr>"

definition with_detail :: "string \<Rightarrow> string \<Rightarrow> string" where
  "with_detail e d = (if d = '''' then e else e @ '': '' @ d)"

fun werror_text :: "werror \<Rightarrow> string" where
  "werror_text (ErrNoDevice d) = with_detail (''no hwmon device of '' @ ModuleName) d"
| "werror_text (ErrAmbiguous d) = with_detail (''more than one hwmon device of '' @ ModuleName) d"
| "werror_text (ErrDeviceChanged d) =
     with_detail ''driver device changed since the start (module reloaded or another device): nothing written'' d"
| "werror_text (ErrNoAttr d) = with_detail ''pwm attribute not exposed by the driver'' d"
| "werror_text (ErrOutOfRange e) = e"
| "werror_text (ErrNotDuty e) = e"
| "werror_text (ErrWrite e) = e"

text \<open>The error of a writer call. A panic has no place here: a restore of pwm1 to pwm4 never panics (\<open>RestoreTo_no_panic\<close>).\<close>

fun failure :: "wresult \<Rightarrow> string option" where
  "failure Done = None"
| "failure (Failed e) = Some (werror_text e)"
| "failure (Panic p) = Some p"

definition not_a_duty_text :: "string \<Rightarrow> string" where
  [text_defs]: "not_a_duty_text v = fmt_q v @ '' is not auto or a duty''"
definition low_duty_text :: "int \<Rightarrow> string" where
  [text_defs]: "low_duty_text d = ''duty '' @ itoa d @ '' below '' @ itoa MinDuty @ '' is never written''"

definition checkRestoreValue :: "string \<Rightarrow> string option" where
  "checkRestoreValue v =
     (if v = ''auto'' then None
      else case atoi v of
             None \<Rightarrow> Some (not_a_duty_text v)
           | Some d \<Rightarrow> if d > 255 then Some (not_a_duty_text v) else if d < MinDuty then Some (low_duty_text d) else None)"

text \<open>\<open>sortedIntKeys\<close>: each key is moved down from the end; the argument of \<open>sift\<close> is the sorted part, reversed.\<close>

fun sift :: "int \<Rightarrow> int list \<Rightarrow> int list" where
  "sift x [] = [x]"
| "sift x (y # ys) = (if x < y then y # sift x ys else x # y # ys)"

definition sortedIntKeys :: "int list \<Rightarrow> int list" where
  "sortedIntKeys v = rev (fold sift v [])"

definition channel_key :: "string \<Rightarrow> int option" where
  "channel_key k = (case atoi k of None \<Rightarrow> None | Some ch \<Rightarrow> if ch < 1 \<or> ch > 4 then None else Some ch)"

definition bad_channel_text :: "string \<Rightarrow> string" where
  [text_defs]: "bad_channel_text k = ''restore: invalid channel '' @ fmt_q k @ '' in the state file: skipped''"
definition replaced_text :: "string \<Rightarrow> string" where
  [text_defs]: "replaced_text v = ''restore pwm4: state file value '' @ fmt_q v @ '' replaced by '' @ PCIeRestore @ '' (no EC automatic)''"
definition refused_text :: "int \<Rightarrow> string \<Rightarrow> string \<Rightarrow> string" where
  [text_defs]: "refused_text ch v e = ''restore pwm'' @ itoa ch @ ''='' @ v @ '' REFUSED: '' @ e"
definition restore_failed_text :: "string \<Rightarrow> nanos \<Rightarrow> int \<Rightarrow> string \<Rightarrow> string \<Rightarrow> string" where
  [text_defs]: "restore_failed_text ver t ch v e = rfc3339 t @ '' restore pwm'' @ itoa ch @ ''='' @ v @ '' FAILED by '' @ toolName @
     '' '' @ ver @ '': '' @ e"
definition restore_ok_text :: "string \<Rightarrow> nanos \<Rightarrow> int \<Rightarrow> string \<Rightarrow> Device \<Rightarrow> string" where
  [text_defs]: "restore_ok_text ver t ch v dv = rfc3339 t @ '' restore pwm'' @ itoa ch @ ''='' @ v @ '' ok by '' @ toolName @
     '' '' @ ver @ '' (device '' @ Device_String dv @ '')''"

text \<open>One channel: the world, the lines, whether it was restored.\<close>

definition restore_channel :: "'w host \<Rightarrow> Device \<Rightarrow> int \<Rightarrow> string \<Rightarrow> 'w \<Rightarrow> 'w \<times> string list \<times> bool" where
  "restore_channel H dv ch stored w =
     (let swap = (ch = PCIeChannel \<and> stored \<noteq> PCIeRestore);
          pre = (if swap then [replaced_text stored] else []);
          val = (if swap then PCIeRestore else stored)
      in case checkRestoreValue val of
           Some e \<Rightarrow> (w, pre @ [refused_text ch val e], False)
         | None \<Rightarrow>
             (let (w1, t) = ho_Now H w; (r, w2, u) = RestoreTo (ho_Kernel H) (restore_writer H dv) ch val (w1, ())
              in case failure r of
                   Some e \<Rightarrow> (w2, pre @ [restore_failed_text (ho_Version H) t ch val e], False)
                 | None \<Rightarrow> (w2, pre @ [restore_ok_text (ho_Version H) t ch val dv], True)))"

fun restore_each :: "'w host \<Rightarrow> Device \<Rightarrow> (int \<Rightarrow> string) \<Rightarrow> int list \<Rightarrow> 'w \<Rightarrow> 'w \<times> string list \<times> bool" where
  "restore_each H dv val [] w = (w, [], True)"
| "restore_each H dv val (ch # chs) w =
     (let (w1, ls, ok) = restore_channel H dv ch (val ch) w; (w2, ls', ok') = restore_each H dv val chs w1
      in (w2, ls @ ls', ok \<and> ok'))"

definition stored_value :: "state_file \<Rightarrow> int \<Rightarrow> string" where
  "stored_value st ch = (case map_of (gf_Channels st) (itoa ch) of None \<Rightarrow> '''' | Some v \<Rightarrow> v)"

definition valid_keys :: "state_file \<Rightarrow> int list" where
  "valid_keys st = concat (map (\<lambda>(k, v). case channel_key k of None \<Rightarrow> [] | Some ch \<Rightarrow> [ch]) (gf_Channels st))"

definition invalid_lines :: "state_file \<Rightarrow> string list" where
  "invalid_lines st = map (\<lambda>(k, v). bad_channel_text k) (filter (\<lambda>(k, v). channel_key k = None) (gf_Channels st))"

text \<open>\<open>restoreFromState\<close>; \<open>keep\<close> says whether the state file is written (its path is not empty).\<close>

definition restoreFromState :: "'w host \<Rightarrow> bool \<Rightarrow> state_file \<Rightarrow> 'w \<times> state_read \<Rightarrow> ('w \<times> state_read) \<times> string list \<times> bool" where
  "restoreFromState H keep st = (\<lambda>(w, f).
     (let bad = invalid_lines st;
          (w1, ls, ok1) = restore_each H (gf_Device st) (stored_value st) (sortedIntKeys (valid_keys st)) w;
          ok = (bad = [] \<and> ok1)
      in if ok \<and> keep
         then (case write_state H (st\<lparr> gf_State := stateRestored \<rparr>) (w1, f) of
                 (s, None) \<Rightarrow> (s, bad @ ls, ok)
               | (s, Some e) \<Rightarrow> (s, bad @ ls @ [''state file not updated: '' @ e], ok))
         else ((w1, f), bad @ ls, ok)))"

section \<open>The events of the bundle\<close>

text \<open>
  What \<open>appendEvents\<close> finds: how \<open>OpenDir\<close> ends, what \<open>Lstat\<close> says (an error, or whether it is a
  regular file), an error of the open, whether the opened file is the one \<open>Lstat\<close> saw.
\<close>

datatype dir_opened = DirMissing string | DirRefused string | DirOpen

record events_view =
  ew_Dir :: dir_opened
  ew_Lstat :: "string + bool"
  ew_Open :: "string option"
  ew_Same :: bool

definition not_recorded_text :: "string \<Rightarrow> string \<Rightarrow> string" where
  [text_defs]: "not_recorded_text p why = ''note: '' @ p @ '' '' @ why @ '': the restore lines are not recorded in the bundle''"

definition events_problem :: "events_view \<Rightarrow> string option" where
  "events_problem v =
     (case ew_Dir v of
        DirMissing e \<Rightarrow> Some (''not found ('' @ e @ '')'')
      | DirRefused e \<Rightarrow> Some (''not usable ('' @ e @ '')'')
      | DirOpen \<Rightarrow>
          (case ew_Lstat v of
             Inl e \<Rightarrow> Some (''not found ('' @ e @ '')'')
           | Inr regular \<Rightarrow>
               if \<not> regular then Some ''is not a regular file''
               else case ew_Open v of
                      Some e \<Rightarrow> Some (''not writable ('' @ e @ '')'')
                    | None \<Rightarrow> if \<not> ew_Same v then Some ''changed while opened'' else None))"

text \<open>The lines on standard error, and the text that is appended (after which the sums are rewritten).\<close>

definition appendEvents :: "Redactor \<Rightarrow> events_view \<Rightarrow> string \<Rightarrow> string list \<Rightarrow> string list \<times> string option" where
  "appendEvents red v dir ls =
     (if dir = '''' then ([], None)
      else case events_problem v of
             Some why \<Rightarrow> ([not_recorded_text (join_path [dir, ''events.log'']) why], None)
           | None \<Rightarrow> ([], Some (concat (map (\<lambda>l. Redactor_String red l @ [NL]) ls))))"

section \<open>The guardian\<close>

text \<open>How the worker ended: with an exit code, by a signal, or an error of \<open>Wait\<close> that is no exit.\<close>

datatype worker_end = Exited int | KilledBy string | WaitError string

definition exit_code :: "worker_end \<Rightarrow> int" where
  "exit_code e = (case e of Exited n \<Rightarrow> n | KilledBy s \<Rightarrow> -1 | WaitError m \<Rightarrow> exitFail)"

definition how_text :: "worker_end \<Rightarrow> string" where
  [text_defs]: "how_text e = (case e of Exited n \<Rightarrow> if n = 0 then ''exit 0'' else ''exit status '' @ itoa n
     | KilledBy s \<Rightarrow> ''killed by '' @ s | WaitError m \<Rightarrow> m)"

text \<open>The loop of the guardian: the signals it catches until the worker is done go to the worker.\<close>

datatype wake = Caught string | WorkerDone worker_end

fun wait_worker :: "wake list \<Rightarrow> string list \<times> worker_end option" where
  "wait_worker [] = ([], None)"
| "wait_worker (WorkerDone e # ws) = ([], Some e)"
| "wait_worker (Caught s # ws) = (let (ss, e) = wait_worker ws in (s # ss, e))"

text \<open>What the guardian meets: root, the state of n5-fangov, errors of the lock, of removing the old state file, of starting.\<close>

record guard_view =
  gv_Root :: bool
  gv_Fangov :: string
  gv_Lock :: "string option"
  gv_Remove :: "string option"
  gv_Start :: "string option"

definition root_text :: "string \<Rightarrow> string" where
  [text_defs]: "root_text cmd = cmd @ '': must run as root: sudo '' @ toolName @ '' '' @ hd (Fields cmd) @ '' ...''"
definition fangov_text :: "string \<Rightarrow> string \<Rightarrow> string list" where
  [text_defs]: "fangov_text test st =
     [test @ '': the n5-fangov daemon is '' @ st @ ''. Stop it first: systemctl stop n5-fangov'',
      ''          (TESTSPEC G1: no other pwm writer; there is no override)'']"
definition unreadable_lines :: "string \<Rightarrow> string \<Rightarrow> string list" where
  [text_defs]: "unreadable_lines test e =
     [test @ '': state file of an earlier run not readable: '' @ e,
      ''          Check it, then run: n5-ectest restore (or --discard)'']"
definition open_text :: "string \<Rightarrow> string \<Rightarrow> state_file \<Rightarrow> string" where
  [text_defs]: "open_text test sp st = test @ '': '' @ sp @ '' says a run (pid '' @ itoa (gf_PID st) @ '', '' @ gf_Started st @
     '') left pwm channel(s) '' @ channels_text (gf_Channels st) @ '' not restored. Run first: n5-ectest restore''"

text \<open>Before the worker starts: the exit lines, or nothing and the state file is gone.\<close>

definition guard_checks :: "guard_view \<Rightarrow> string \<Rightarrow> string \<Rightarrow> state_read \<Rightarrow> string list option" where
  "guard_checks v test sp f =
     (if \<not> gv_Root v then Some [root_text test]
      else if UnitRunning (gv_Fangov v) then Some (fangov_text test (gv_Fangov v))
      else case gv_Lock v of
             Some e \<Rightarrow> Some [test @ '': '' @ e]
           | None \<Rightarrow>
               (case f of
                  Unreadable e \<Rightarrow> Some (unreadable_lines test e)
                | Written st \<Rightarrow> if stateOpen st then Some [open_text test sp st] else map_option (\<lambda>e. [test @ '': '' @ e]) (gv_Remove v)
                | NoFile \<Rightarrow> map_option (\<lambda>e. [test @ '': '' @ e]) (gv_Remove v)))"

definition died_text :: "int \<Rightarrow> string \<Rightarrow> string \<Rightarrow> string" where
  [text_defs]: "died_text pid how sp = ''guardian: worker pid '' @ itoa pid @ '' ended ('' @ how @
     '') without the restore marker; restore from '' @ sp"
definition unread_after_text :: "string \<Rightarrow> string \<Rightarrow> string" where
  [text_defs]: "unread_after_text test e = ''!! '' @ test @ '': state file not readable after the worker ended: '' @ e @
     '' - check pwm channels, run: n5-ectest restore''"
definition died_notice :: "string \<Rightarrow> string \<Rightarrow> string \<Rightarrow> string" where
  [text_defs]: "died_notice test how sp = ''!! '' @ test @ '': the worker ended ('' @ how @ '') without restoring; restored from '' @ sp"

text \<open>
  The result of a command: exit code, lines (as they are before \<open>printRestore\<close> redacts them), lines for
  a bundle with its directory, the world and the state file.
\<close>

record 'w outcome =
  oc_Code :: int
  oc_Lines :: "string list"
  oc_Bundle :: "(string \<times> string list) option"
  oc_State :: "'w \<times> state_read"

text \<open>After the worker: exit codes below 0 (a signal) become a failure; an open state file is restored.\<close>

definition after_worker :: "'w host \<Rightarrow> string \<Rightarrow> string \<Rightarrow> int \<Rightarrow> worker_end \<Rightarrow> 'w \<times> state_read \<Rightarrow> 'w outcome" where
  "after_worker H test sp pid e = (\<lambda>(w, f).
     (let rc = exit_code e; rc = (if rc < 0 then exitFail else rc)
      in case f of
           Unreadable m \<Rightarrow> \<lparr> oc_Code = exitFail, oc_Lines = [unread_after_text test m], oc_Bundle = None, oc_State = (w, f) \<rparr>
         | NoFile \<Rightarrow> \<lparr> oc_Code = rc, oc_Lines = [], oc_Bundle = None, oc_State = (w, f) \<rparr>
         | Written st \<Rightarrow>
             if gf_State st = stateRestored
             then \<lparr> oc_Code = rc, oc_Lines = [], oc_Bundle = None, oc_State = (w, f) \<rparr>
             else
               (let (s, ls, ok) = restoreFromState H True st (w, f); all = died_text pid (how_text e) sp # ls
                in \<lparr> oc_Code = exitFail,
                     oc_Lines = died_notice test (how_text e) sp # all @ (if ok then [] else [''!! RESTORE FAILED - run: n5-ectest restore'']),
                     oc_Bundle = Some (gf_Bundle st, all), oc_State = s \<rparr>)))"

text \<open>The whole command. \<open>work\<close> is what the worker does to the world and the state file.\<close>

definition guardian :: "'w host \<Rightarrow> guard_view \<Rightarrow> string \<Rightarrow> string \<Rightarrow> int \<Rightarrow> ('w \<times> state_read \<Rightarrow> ('w \<times> state_read) \<times> worker_end)
    \<Rightarrow> 'w \<times> state_read \<Rightarrow> 'w outcome" where
  "guardian H v test sp pid work = (\<lambda>(w, f).
     (case guard_checks v test sp f of
        Some ls \<Rightarrow> \<lparr> oc_Code = exitFail, oc_Lines = ls, oc_Bundle = None, oc_State = (w, f) \<rparr>
      | None \<Rightarrow>
          (case gv_Start v of
             Some e \<Rightarrow> \<lparr> oc_Code = exitFail, oc_Lines = [test @ '': worker: '' @ e], oc_Bundle = None, oc_State = (w, NoFile) \<rparr>
           | None \<Rightarrow> (let (s, e) = work (w, NoFile) in after_worker H test sp pid e s))))"

section \<open>The worker's side\<close>

definition checkWorkerState :: "string \<Rightarrow> string \<Rightarrow> state_read \<Rightarrow> string option" where
  "checkWorkerState sp want f =
     (if sp = '''' then Some ''no state file path''
      else if sp \<noteq> want then Some (''state file path '' @ fmt_q sp @ '' is not '' @ want)
      else case f of
             NoFile \<Rightarrow> None
           | Unreadable e \<Rightarrow> Some (''state file not readable: '' @ e)
           | Written st \<Rightarrow>
               if stateOpen st
               then Some (sp @ '' records an unrestored run (pid '' @ itoa (gf_PID st) @ ''); run: n5-ectest restore'')
               else None)"

section \<open>Restore by hand\<close>

record restore_view =
  rv_Root :: bool
  rv_Fangov :: string
  rv_Lock :: "string option"
  rv_From :: string
  rv_Discard :: bool
  rv_Args :: nat
  rv_FromState :: state_read

definition restore_usage :: string where
  [text_defs]: "restore_usage = ''usage: n5-ectest restore [--from DIR | --discard]''"
definition by_hand_text :: "string \<Rightarrow> state_file \<Rightarrow> string" where
  [text_defs]: "by_hand_text p st = ''restore by hand from '' @ p @ '' (run pid '' @ itoa (gf_PID st) @ '', '' @ gf_Started st @ '')''"
definition fangov_sets_text :: "string \<Rightarrow> string" where
  [text_defs]: "fangov_sets_text st = ''restore: n5-fangov is '' @ st @ '' and sets the channels itself; nothing written''"
definition run_unreadable_lines :: "string \<Rightarrow> string list" where
  [text_defs]: "run_unreadable_lines e = [''restore: '' @ e,
     ''          the run state is not readable: check it by hand (cat it, read pwmN_enable/pwmN), fix or remove it'']"
definition nothing_text :: "string \<Rightarrow> string" where
  [text_defs]: "nothing_text p = ''restore: no '' @ p @ '': nothing to restore''"
definition done_text :: "string \<Rightarrow> state_file \<Rightarrow> string" where
  [text_defs]: "done_text sp st = ''restore: '' @ sp @ '' is marked '' @ gf_State st @ '' (pid '' @ itoa (gf_PID st) @ '', '' @
     gf_Started st @ ''): nothing to do''"
definition from_open_text :: "string \<Rightarrow> state_file \<Rightarrow> string" where
  [text_defs]: "from_open_text sp st = ''restore: '' @ sp @ '' is open (pid '' @ itoa (gf_PID st) @ '', '' @ gf_Started st @
     '', channels '' @ channels_text (gf_Channels st) @ ''): run n5-ectest restore without --from''"

definition quits :: "int \<Rightarrow> string list \<Rightarrow> 'w \<times> state_read \<Rightarrow> 'w outcome" where
  "quits rc ls s = \<lparr> oc_Code = rc, oc_Lines = ls, oc_Bundle = None, oc_State = s \<rparr>"

text \<open>A restore and its report (\<open>printRestore\<close>); \<open>dir\<close> is the bundle its lines are added to.\<close>

definition restore_report :: "'w host \<Rightarrow> bool \<Rightarrow> string \<Rightarrow> string \<Rightarrow> state_file \<Rightarrow> 'w \<times> state_read \<Rightarrow> 'w outcome" where
  "restore_report H keep p dir st s =
     (let (s', ls, ok) = restoreFromState H keep st s; all = by_hand_text p st # ls
      in \<lparr> oc_Code = (if ok then exitOK else exitFail),
           oc_Lines = all @ (if ok then [] else [''restore: not every channel was restored'']),
           oc_Bundle = Some (dir, all), oc_State = s' \<rparr>)"

definition restore_from :: "'w host \<Rightarrow> restore_view \<Rightarrow> string \<Rightarrow> 'w \<times> state_read \<Rightarrow> 'w outcome" where
  "restore_from H v sp s =
     (let bp = join_path [rv_From v, ''restore.json'']
      in case snd s of
           Written st \<Rightarrow>
             if stateOpen st then quits exitFail [from_open_text sp st] s
             else (case rv_FromState v of
                     NoFile \<Rightarrow> quits exitOK [nothing_text bp] s
                   | Unreadable e \<Rightarrow> quits exitFail [''restore: '' @ e] s
                   | Written b \<Rightarrow> restore_report H False bp (rv_From v) b s)
         | _ \<Rightarrow>
             (case rv_FromState v of
                NoFile \<Rightarrow> quits exitOK [nothing_text bp] s
              | Unreadable e \<Rightarrow> quits exitFail [''restore: '' @ e] s
              | Written b \<Rightarrow> restore_report H False bp (rv_From v) b s))"

definition restore_open :: "'w host \<Rightarrow> string \<Rightarrow> 'w \<times> state_read \<Rightarrow> 'w outcome" where
  "restore_open H sp s =
     (case snd s of
        Written st \<Rightarrow>
          if \<not> stateOpen st then quits exitOK [done_text sp st] s else restore_report H True sp (gf_Bundle st) st s
      | _ \<Rightarrow> quits exitOK [nothing_text sp] s)"

text \<open>
  \<open>discardState\<close>: the device now (or the error), what is read of each channel, the terminal of
  standard input, the line that is typed. Nothing is written to the controller.
\<close>

record discard_view =
  dc_Now :: "string + Device"
  dc_Channel :: "int \<Rightarrow> (string \<times> string) option"
  dc_Stdin :: string
  dc_Typed :: string

definition discardText :: string where [text_defs]: "discardText = ''DISCARD''"

definition channel_now :: "discard_view \<Rightarrow> state_file \<Rightarrow> int \<Rightarrow> string" where
  "channel_now d st ch =
     (let now = (case (dc_Now d, dc_Channel d ch) of
                   (Inr dv, Some (en, du)) \<Rightarrow> ''pwm'' @ itoa ch @ ''_enable='' @ en @ '' pwm'' @ itoa ch @ ''='' @ du
                 | _ \<Rightarrow> ''not readable'')
      in ''pwm'' @ itoa ch @ '': restore value '' @ stored_value st ch @ '', now '' @ now)"

definition discard_lines :: "discard_view \<Rightarrow> string \<Rightarrow> state_file \<Rightarrow> string list" where
  "discard_lines d sp st =
     [''Open run state '' @ sp @ '': pid '' @ itoa (gf_PID st) @ '', started '' @ gf_Started st @ '', bundle '' @ orDash (gf_Bundle st),
      ''driver device at the run: '' @ Device_String (gf_Device st),
      ''driver device now:        '' @ (case dc_Now d of Inl e \<Rightarrow> ''none ('' @ e @ '')'' | Inr dv \<Rightarrow> Device_String dv)] @
     map (channel_now d st) (sortedIntKeys (valid_keys st)) @
     [''Discarding writes nothing. Set the channels yourself (pwmN_enable=2, or start n5-fangov) before you leave the box.'']"

definition discard_prompt :: string where
  [text_defs]: "discard_prompt = ''Type exactly  '' @ discardText @ ''  to give the run state up: ''"
definition discarded_line :: "string \<Rightarrow> nanos \<Rightarrow> state_file \<Rightarrow> string" where
  [text_defs]: "discarded_line ver t st = rfc3339 t @ '' run state discarded by hand ('' @ toolName @ '' '' @ ver @
     ''): nothing written; channels '' @ channels_text (gf_Channels st)"

definition discardState :: "'w host \<Rightarrow> discard_view \<Rightarrow> string \<Rightarrow> 'w \<times> state_read \<Rightarrow> 'w outcome" where
  "discardState H d sp s =
     (case snd s of
        Written st \<Rightarrow>
          if \<not> stateOpen st
          then quits exitOK [''restore --discard: no open run state in '' @ sp @ '': nothing to discard''] s
          else
            (let ls = discard_lines d sp st
             in if dc_Stdin d = ''''
                then quits exitFail (ls @ [''restore --discard: standard input is not a terminal; type the confirmation at the device'']) s
                else if trim_space (dc_Typed d) \<noteq> discardText then quits exitFail (ls @ [discard_prompt, ''Not discarded.'']) s
                else
                  (case write_state H (st\<lparr> gf_State := stateDiscarded \<rparr>) s of
                     (s', Some e) \<Rightarrow> quits exitFail (ls @ [discard_prompt, ''restore --discard: '' @ e]) s'
                   | ((w, f), None) \<Rightarrow>
                       (let (w', t) = ho_Now H w
                        in \<lparr> oc_Code = exitOK, oc_Lines = ls @ [discard_prompt, sp @ '' marked discarded.''],
                             oc_Bundle = Some (gf_Bundle st, [discarded_line (ho_Version H) t st]), oc_State = (w', f) \<rparr>)))
      | _ \<Rightarrow> quits exitOK [''restore --discard: no open run state in '' @ sp @ '': nothing to discard''] s)"

definition cmdRestore :: "'w host \<Rightarrow> restore_view \<Rightarrow> discard_view \<Rightarrow> string \<Rightarrow> 'w \<times> state_read \<Rightarrow> 'w outcome" where
  "cmdRestore H v d sp s =
     (if rv_Args v \<noteq> 0 \<or> (rv_From v \<noteq> '''' \<and> rv_Discard v) then quits exitUsage [restore_usage] s
      else if \<not> rv_Root v then quits exitFail [root_text ''restore''] s
      else if UnitRunning (rv_Fangov v) then quits exitFail [fangov_sets_text (rv_Fangov v)] s
      else case rv_Lock v of
             Some e \<Rightarrow> quits exitFail [''restore: '' @ e @ '' (a run is still active; its guardian restores)''] s
           | None \<Rightarrow>
               (case snd s of
                  Unreadable e \<Rightarrow> quits exitFail (run_unreadable_lines e) s
                | _ \<Rightarrow> if rv_Discard v then discardState H d sp s
                       else if rv_From v = '''' then restore_open H sp s else restore_from H v sp s))"

end
