(* ===== verification/Validate_Opts.thy ===== *)
theory Validate_Opts
  imports Guardian Runner_State Restore_Values Sim Boards Session Identity
begin

text \<open>
  The arguments of map and handback and the checks before a run: \<open>parseRunOpts\<close>, \<open>cmdValidate\<close> and
  \<open>runValidation\<close> of src/ectest/cmd/n5-ectest/validate.go, \<open>prepareOutDir\<close> and the deviations of common.go.
\<close>

section \<open>Arguments\<close>

record runOpts =
  op_test :: string
  op_ch :: int
  op_boot :: string
  op_out :: string
  op_console :: bool
  op_dry :: bool
  op_restore :: "int \<Rightarrow> string"
  op_configPath :: string
  op_cfg :: Config

text \<open>\<open>restoreFlag.Set\<close>: the map of the channels and values given so far.\<close>

definition restore_set :: "string \<Rightarrow> (int \<Rightarrow> string) \<Rightarrow> int \<Rightarrow> string" where
  "restore_set s m = (case ParseRestoreArg s of Inl e \<Rightarrow> m | Inr (ch, v) \<Rightarrow> m(ch := v))"

definition run_flags :: flag_set where
  "run_flags =
     [string_flag ''boot'', string_flag ''out'', bool_flag ''i-am-at-the-console'', bool_flag ''dry-run'',
      (''restore'', False, \<lambda>v. case ParseRestoreArg v of Inl e \<Rightarrow> False | Inr x \<Rightarrow> True), string_flag ''fangov-config'',
      duration_flag ''hold'', duration_flag ''sample'', duration_flag ''observe'', duration_flag ''gate-window'', int_flag ''repeat'']"

definition run_valued :: "string list" where
  "run_valued = [''boot'', ''out'', ''restore'', ''fangov-config'', ''hold'', ''sample'', ''observe'', ''gate-window'', ''repeat'']"

text \<open>\<open>Visit\<close> goes through the flags that were set in the order of their names.\<close>

definition timing_flags :: "(string \<times> string) list \<Rightarrow> string list" where
  "timing_flags sets =
     map (\<lambda>n. ''--'' @ n) (filter (\<lambda>n. n \<in> fst ` set sets) [''gate-window'', ''hold'', ''observe'', ''repeat'', ''sample''])"

definition timing_text :: "string \<Rightarrow> string list \<Rightarrow> string" where
  [text_defs]: "timing_text test bad = test @ '': '' @ joins '', '' bad @ '' only with --dry-run; a real run uses the TESTSPEC '' @
     SpecVersion @ '' timing''"
definition channel_text :: "string \<Rightarrow> string \<Rightarrow> string" where
  [text_defs]: "channel_text test arg = test @ '': channel is pwm1..pwm4, not '' @ fmt_q arg"
definition boot_text :: "string \<Rightarrow> string" where
  [text_defs]: "boot_text test = test @ '': --boot is cold or warm''"
definition times_text :: "string \<Rightarrow> string" where
  [text_defs]: "times_text test = test @ '': --sample > 0, --hold and --observe >= --sample, --repeat >= 1''"

definition channel_arg :: "string \<Rightarrow> int option" where
  "channel_arg s =
     (case atoi (trim_prefix ''pwm'' s) of
        None \<Rightarrow> None
      | Some ch \<Rightarrow> if ch < 1 \<or> ch > 4 \<or> \<not> has_prefix ''pwm'' s then None else Some ch)"

text \<open>\<open>sim.OnlineCPUs\<close>.\<close>

definition sim_OnlineCPUs :: int where [const_defs]: "sim_OnlineCPUs = 24"

text \<open>The configuration of the run: that of the specification, in a dry run with the times given.\<close>

definition run_config :: "bool \<Rightarrow> int \<Rightarrow> int \<Rightarrow> nanos \<Rightarrow> nanos \<Rightarrow> nanos \<Rightarrow> nanos \<Rightarrow> int \<Rightarrow> Config" where
  "run_config dry cpus ch h smp obs win n =
     (let c = (SpecConfig ch (TachOf ch) [1, 2, 3])\<lparr> cf_OnlineCPUs := cpus \<rparr>
      in if \<not> dry then c
         else
           (let c = c\<lparr> cf_Hold := h, cf_Sample := smp, cf_Window := win, cf_Repeat := nat n, cf_OnlineCPUs := sim_OnlineCPUs \<rparr>
            in if obs \<noteq> 0 then c\<lparr> cf_Observe := obs, cf_Pre := obs \<rparr> else c))"


definition map_usage :: string where
  [text_defs]: "map_usage = ''map pwmN [--boot cold|warm] [--restore pwmN=auto|D] [--out DIR] [--i-am-at-the-console] | --dry-run''"
definition handback_usage :: string where
  [text_defs]: "handback_usage = ''handback pwmN [--boot cold|warm] [--restore pwmN=auto|D] [--out DIR] [--i-am-at-the-console] | --dry-run''"

definition run_usage :: "string \<Rightarrow> string" where
  "run_usage test = ''usage: n5-ectest '' @ (if test = ''map'' then map_usage else handback_usage)"

text \<open>
  \<open>parseRunOpts\<close>: an exit code and what is printed, or the options. \<open>etc\<close> is the configuration
  directory, \<open>cpus\<close> the number of online CPUs.
\<close>

definition parsed_opts :: "string \<Rightarrow> int \<Rightarrow> string \<Rightarrow> (string \<times> string) list \<Rightarrow> int \<Rightarrow> runOpts" where
  "parsed_opts etc cpus test sets ch =
     (let dry = bool_setting sets ''dry-run''; path = setting sets ''fangov-config'' ''''
      in \<lparr> op_test = test, op_ch = ch, op_boot = setting sets ''boot'' '''', op_out = setting sets ''out'' ''.'',
           op_console = bool_setting sets ''i-am-at-the-console'', op_dry = dry,
           op_restore = fold restore_set (map snd (filter (\<lambda>(n, v). n = ''restore'') sets)) (\<lambda>_. ''''),
           op_configPath = (if path = '''' then join_path [etc, ''n5-fangov'', ''config.toml''] else path),
           op_cfg = run_config dry cpus ch (duration_setting sets ''hold'' (T1StepHoldS * Second))
             (duration_setting sets ''sample'' (SampleS * Second)) (duration_setting sets ''observe'' 0)
             (duration_setting sets ''gate-window'' (GateWindowS * Second)) (int_setting sets ''repeat'' (int RunsRequired)) \<rparr>)"

definition bad_times :: "(string \<times> string) list \<Rightarrow> bool" where
  "bad_times sets =
     (let smp = duration_setting sets ''sample'' (SampleS * Second); h = duration_setting sets ''hold'' (T1StepHoldS * Second);
          obs = duration_setting sets ''observe'' 0
      in smp \<le> 0 \<or> h < smp \<or> (obs \<noteq> 0 \<and> obs < smp) \<or> duration_setting sets ''gate-window'' (GateWindowS * Second) < 0 \<or>
         int_setting sets ''repeat'' (int RunsRequired) < 1)"

definition parseRunOpts :: "string \<Rightarrow> int \<Rightarrow> string \<Rightarrow> string list \<Rightarrow> int \<times> string + runOpts" where
  "parseRunOpts etc cpus test args =
     (case parseFlags run_flags args (Some run_valued) of
        Inl (rc, e) \<Rightarrow> Inl (if rc = exitOK then exitHelp else rc, e)
      | Inr (sets, pos) \<Rightarrow>
          (let dry = bool_setting sets ''dry-run''; boot = setting sets ''boot'' '''';
               chArg = (if length pos = 1 then hd pos else ''pwm3'')
           in if \<not> dry \<and> timing_flags sets \<noteq> [] then Inl (exitUsage, timing_text test (timing_flags sets))
              else if length pos \<noteq> 1 \<and> \<not> (dry \<and> pos = []) then Inl (exitUsage, run_usage test)
              else case channel_arg chArg of
                     None \<Rightarrow> Inl (exitUsage, channel_text test chArg)
                   | Some ch \<Rightarrow>
                       if boot \<noteq> '''' \<and> boot \<noteq> ''cold'' \<and> boot \<noteq> ''warm'' then Inl (exitUsage, boot_text test)
                       else if bad_times sets then Inl (exitUsage, times_text test)
                       else Inr (parsed_opts etc cpus test sets ch)))"

definition writing :: "runOpts \<Rightarrow> bool" where
  "writing o' \<longleftrightarrow> op_test o' = ''map'' \<or> op_ch o' \<noteq> PCIeChannel"

section \<open>Deviations\<close>

definition DeviationConditions :: string where
  [text_defs]: "DeviationConditions = ''conditions of TESTSPEC '' @ sect @ ''1 rule 4 open: #1 D4 cross-check of n5-ectest against a second implementation ('' @ sect @
     ''9; n5-fangov validate implements 0.4, not 0.5) and #4 report reproducing a hand evaluation of the first T4/T5 log not done yet''"
definition DeviationT4T5 :: string where
  [text_defs]: "DeviationT4T5 = ''T4/T5 not evaluated by the tool (TESTSPEC '' @ sect @ ''1 rule 4, '' @ sect @
     ''5.5, #4): reported INCONCLUSIVE '' @ fmt_q ''not implemented'' @ ''; evaluate by hand per '' @ sect @ ''5.5''"

definition baseDeviations :: "string list" where "baseDeviations = [DeviationConditions]"

definition runDeviations :: "runOpts \<Rightarrow> string list" where
  "runDeviations o' = (if op_test o' = ''handback'' \<and> op_ch o' \<noteq> PCIeChannel then [DeviationT4T5] else [])"

section \<open>Before a run\<close>

text \<open>\<open>prepareOutDir\<close>: the errors of creating the directory, of looking at it, and of the probe file.\<close>

record out_probe =
  ou_Mkdir :: "string option"
  ou_Stat :: "string + bool"
  ou_Create :: "string option"
  ou_Close :: "string option"
  ou_Remove :: "string option"

definition out_text :: "string \<Rightarrow> string \<Rightarrow> string" where
  [text_defs]: "out_text d e = ''--out '' @ d @ '': '' @ e"

definition prepareOutDir :: "out_probe \<Rightarrow> string \<Rightarrow> string option" where
  "prepareOutDir p d =
     (if d = '''' then Some ''--out is empty''
      else case ou_Mkdir p of Some e \<Rightarrow> Some (out_text d e)
      | None \<Rightarrow>
          (case ou_Stat p of
             Inl e \<Rightarrow> Some (out_text d e)
           | Inr isdir \<Rightarrow>
               if \<not> isdir then Some (''--out '' @ d @ '' is not a directory'')
               else case ou_Create p of
                      Some e \<Rightarrow> Some (''--out '' @ d @ '' not writable: '' @ e)
                    | None \<Rightarrow>
                        map_option (out_text d) (case ou_Close p of Some e \<Rightarrow> Some e | None \<Rightarrow> ou_Remove p)))"

definition piped_text :: "string \<Rightarrow> string" where
  [text_defs]: "piped_text test = test @ '': standard input is not a terminal. The confirmation must be typed at the device (TESTSPEC G5); piped input is refused.''"
definition remote_lines :: "string \<Rightarrow> string list \<Rightarrow> string list" where
  [text_defs]: "remote_lines test rem =
     [test @ '': this session is remote ('' @ joins ''; '' rem @ ''). Writes run only with the operator at the device (TESTSPEC G5).'',
      ''          Run it on the console, or add --i-am-at-the-console if you sit at the device.'']"
definition no_console_lines :: "string \<Rightarrow> string list" where
  [text_defs]: "no_console_lines test =
     [test @ '': no local console (VT or serial login) in this process chain. Writes run only with the operator at the device (TESTSPEC G5).'',
      ''          Run it on the console (tty1, KVM), or add --i-am-at-the-console if you sit at the device.'']"

definition session_refused :: "runOpts \<Rightarrow> Sess \<Rightarrow> string list option" where
  "session_refused o' s =
     (if op_dry o' \<or> \<not> writing o' then None
      else if se_Stdin s = '''' then Some [piped_text (op_test o')]
      else if \<not> op_console o' \<and> se_Remote s \<noteq> [] then Some (remote_lines (op_test o') (se_Remote s))
      else if \<not> op_console o' \<and> \<not> se_Console s then Some (no_console_lines (op_test o'))
      else None)"

text \<open>The refusals of \<open>runValidation\<close> in their order; all of them exit with \<open>exitFail\<close>.\<close>

definition run_refusal :: "runOpts \<Rightarrow> bool \<Rightarrow> string \<Rightarrow> out_probe \<Rightarrow> Sess \<Rightarrow> string list option" where
  "run_refusal o' su fangov p s =
     (if \<not> op_dry o' \<and> \<not> su then Some [root_text (op_test o')]
      else if \<not> op_dry o' \<and> UnitRunning fangov then Some (fangov_text (op_test o') fangov)
      else case prepareOutDir p (op_out o') of
             Some e \<Rightarrow> Some [op_test o' @ '': '' @ e @ '' (nothing written)'']
           | None \<Rightarrow> session_refused o' s)"

section \<open>Facts\<close>

text \<open>A run on the machine keeps the times of the specification.\<close>

lemma parsed_config:
  assumes "parseRunOpts etc cpus test args = Inr q" "\<not> op_dry q"
  shows "op_cfg q = (SpecConfig (op_ch q) (TachOf (op_ch q)) [1, 2, 3])\<lparr> cf_OnlineCPUs := cpus \<rparr>"
  using assms by (auto simp: parseRunOpts_def parsed_opts_def run_config_def Let_def split: sum.splits prod.splits option.splits if_splits)

lemma no_timing: "timing_flags sets = [] \<longleftrightarrow> fst ` set sets \<inter> {''hold'', ''sample'', ''observe'', ''gate-window'', ''repeat''} = {}"
  by (simp add: timing_flags_def filter_empty_conv)

lemma channel_arg_named: "channel_arg a = Some ch \<Longrightarrow> has_prefix ''pwm'' a \<and> atoi (drop 3 a) = Some ch"
  by (auto simp: channel_arg_def trim_prefix_def numeral_3_eq_3 split: option.splits if_splits)

lemma parsed_args:
  assumes "parseRunOpts etc cpus test args = Inr q" "\<not> op_dry q"
  shows "op_test q = test \<and>
    (\<exists>sets a. parseFlags run_flags args (Some run_valued) = Inr (sets, [a]) \<and> has_prefix ''pwm'' a \<and> atoi (drop 3 a) = Some (op_ch q) \<and>
       fst ` set sets \<inter> {''hold'', ''sample'', ''observe'', ''gate-window'', ''repeat''} = {})"
proof -
  obtain sets pos ch where p: "parseFlags run_flags args (Some run_valued) = Inr (sets, pos)"
    "channel_arg (if length pos = 1 then hd pos else ''pwm3'') = Some ch" "q = parsed_opts etc cpus test sets ch"
    "bool_setting sets ''dry-run'' \<or> timing_flags sets = []" "length pos = 1 \<or> bool_setting sets ''dry-run''"
    using assms(1) by (auto simp: parseRunOpts_def Let_def split: sum.splits option.splits if_splits)
  have d: "\<not> bool_setting sets ''dry-run''" "op_ch q = ch" "op_test q = test"
    using assms(2) p(3) by (simp_all add: parsed_opts_def Let_def)
  then obtain a where "pos = [a]" using p(5) by (auto simp: length_Suc_conv)
  then show ?thesis using p d channel_arg_named by (auto simp: no_timing)
qed

lemma parsed_channel: "parseRunOpts etc cpus test args = Inr q \<Longrightarrow> 1 \<le> op_ch q \<and> op_ch q \<le> 4"
  by (auto simp: parseRunOpts_def parsed_opts_def channel_arg_def Let_def split: sum.splits prod.splits option.splits if_splits)


section \<open>Which process runs what\<close>

text \<open>
  \<open>cmdValidate\<close> and \<open>workerMain\<close>: the exit with a code and a line, a run of this process (with the
  path of the state file it was handed, none in a dry run), or the guardian, which starts the worker.
  \<open>adopt\<close> is the error of adopting the writer lock, \<open>want\<close> the path of the state file of this host.
\<close>

datatype run_start = Leave int string | RunHere runOpts string | RunGuardian

definition cmdValidate :: "string \<Rightarrow> int \<Rightarrow> string \<Rightarrow> string list \<Rightarrow> run_start" where
  "cmdValidate etc cpus test args =
     (case parseRunOpts etc cpus test args of
        Inl (rc, e) \<Rightarrow> Leave (if rc = exitHelp then exitOK else rc) e
      | Inr q \<Rightarrow> if op_dry q then RunHere q '''' else RunGuardian)"

definition no_command_text :: string where
  [text_defs]: "no_command_text = ''n5-ectest: worker mode without a writing command''"
definition no_lock_text :: "string \<Rightarrow> string \<Rightarrow> string" where
  [text_defs]: "no_lock_text test e = test @ '': worker without the writer lock of the guardian: '' @ e"

definition workerMain :: "string \<Rightarrow> int \<Rightarrow> string option \<Rightarrow> string \<Rightarrow> string \<Rightarrow> state_read \<Rightarrow> string list \<Rightarrow> run_start" where
  "workerMain etc cpus adopt sp want f args =
     (case args of
        [] \<Rightarrow> Leave exitUsage no_command_text
      | test # rest \<Rightarrow>
          if test \<noteq> ''map'' \<and> test \<noteq> ''handback'' then Leave exitUsage no_command_text
          else case adopt of
                 Some e \<Rightarrow> Leave exitFail (no_lock_text test e)
               | None \<Rightarrow>
                   (case parseRunOpts etc cpus test rest of
                      Inl (rc, e) \<Rightarrow> Leave exitUsage e
                    | Inr q \<Rightarrow>
                        if op_dry q then RunHere q ''''
                        else case checkWorkerState sp want f of
                               Some e \<Rightarrow> Leave exitFail (test @ '': worker: '' @ e)
                             | None \<Rightarrow> RunHere q sp))"

end
