(* ===== verification/Live_Env.thy ===== *)
theory Live_Env
  imports Runner_Tests Pwm_Writer Regulator Hw_Read Guardian
begin

text \<open>
  The runner's environment on the machine: \<open>liveEnv\<close> of src/ectest/cmd/n5-ectest/validate.go. Its
  world is the kernel's and the expectation of the regulator check, which the writer's hooks update.
\<close>

record 'w machine =
  mh_Kernel :: "'w kernel"
  mh_Sys :: string
  mh_Proc :: string
  mh_Now :: "'w \<Rightarrow> 'w \<times> nanos"
  mh_Sleep :: "bool \<Rightarrow> nanos \<Rightarrow> 'w \<Rightarrow> 'w \<times> bool"
  mh_Stat :: "'w \<Rightarrow> string \<Rightarrow> bool"
  mh_Want :: Device
  mh_Restore :: "int \<Rightarrow> string option"

type_synonym 'w live = "'w \<times> Expectation"

section \<open>Writes\<close>

text \<open>
  The hooks of the writer: \<open>Expect\<close> before a write. What \<open>After\<close> reads when the write failed is only
  known afterwards: the hook notes the channel and the error, and the expectation is refreshed from the
  files as they are then (a failed write is the last one of a call).
\<close>

definition live_writer :: "'w machine \<Rightarrow> (Expectation \<times> (int \<times> string option) option) Writer" where
  "live_writer M =
     \<lparr> wr_SysRoot = mh_Sys M, wr_Want = mh_Want M, wr_Before = (\<lambda>ch a v (ex, q). (Expect ch a v ex, q)),
       wr_After = (\<lambda>ch a v e (ex, q). (ex, Some (ch, e))), wr_Recorder = (\<lambda>p v h. h) \<rparr>"

definition live_read :: "'w machine \<Rightarrow> 'w \<Rightarrow> int \<Rightarrow> Attr \<Rightarrow> int option" where
  "live_read M w = (let fs = k_view (mh_Kernel M) w in ex_read fs (DriverHwmon fs (mh_Sys M)))"

definition live_call :: "'w machine \<Rightarrow> ('w \<times> Expectation \<times> (int \<times> string option) option
      \<Rightarrow> wresult \<times> 'w \<times> Expectation \<times> (int \<times> string option) option) \<Rightarrow> 'w live \<Rightarrow> 'w live \<times> wresult" where
  "live_call M call = (\<lambda>(w, ex).
     (case call (w, ex, None) of
        (r, w', ex', q) \<Rightarrow>
          ((w', case q of None \<Rightarrow> ex' | Some (ch, e) \<Rightarrow> After (live_read M w') ch e ex'), r)))"

definition live_EnterManual :: "'w machine \<Rightarrow> int \<Rightarrow> 'w live \<Rightarrow> 'w live \<times> string option" where
  "live_EnterManual M ch s = (case live_call M (EnterManual (mh_Kernel M) (live_writer M) ch) s of (s', r) \<Rightarrow> (s', failure r))"

definition live_WriteDuty :: "'w machine \<Rightarrow> int \<Rightarrow> int \<Rightarrow> 'w live \<Rightarrow> 'w live \<times> string option" where
  "live_WriteDuty M ch d s = (case live_call M (SetDuty (mh_Kernel M) (live_writer M) ch d) s of (s', r) \<Rightarrow> (s', failure r))"

definition live_Auto :: "'w machine \<Rightarrow> int \<Rightarrow> 'w live \<Rightarrow> 'w live \<times> string option" where
  "live_Auto M ch s = (case live_call M (Auto (mh_Kernel M) (live_writer M) ch) s of (s', r) \<Rightarrow> (s', failure r))"

section \<open>Registers\<close>

definition live_DCR :: "'w machine \<Rightarrow> 'w live \<Rightarrow> 'w live \<times> (string + DCR)" where
  "live_DCR M s =
     (s, case ReadTimeout (k_view (mh_Kernel M) (fst s)) (DCRPath (mh_Sys M)) of
           None \<Rightarrow> Inl ''not readable'' | Some t \<Rightarrow> ParseDCR t)"

definition live_wait :: "'w machine \<Rightarrow> 'w live wait_env" where
  "live_wait M =
     \<lparr> we_now = (\<lambda>(w, ex). case mh_Now M w of (w', t) \<Rightarrow> ((w', ex), t)),
       we_sleep = (\<lambda>d (w, ex). case mh_Sleep M True d w of (w', ok) \<Rightarrow> ((w', ex), ok)),
       we_read = live_DCR M \<rparr>"

section \<open>Restore\<close>

definition restore_value :: "'w machine \<Rightarrow> int \<Rightarrow> string" where
  "restore_value M ch =
     (let v = (case mh_Restore M ch of None \<Rightarrow> '''' | Some v \<Rightarrow> v); v = (if v = '''' then ''auto'' else v)
      in if ch = PCIeChannel then PCIeRestore else v)"

definition unverified_text :: "int \<Rightarrow> int \<Rightarrow> string list \<Rightarrow> nanos \<Rightarrow> string" where
  [text_defs]: "unverified_text ch want bad t = ErrRestoreUnverified @ '': pwm'' @ itoa ch @ ''='' @ itoa want @ '' written, '' @
     joins '', '' bad @ '' after '' @ fmt_f 1 (Seconds t) @ '' s''"

text \<open>The read-back of a fixed duty after the settle time of the channel; \<open>None\<close>: the wait does not return.\<close>

definition verify_duty :: "'w machine \<Rightarrow> int \<Rightarrow> int \<Rightarrow> nanos \<Rightarrow> 'w live \<Rightarrow> ('w live \<times> restore_error option) option" where
  "verify_duty M ch want t0 s =
     (let regs = JudgedRegs ch; st = SettleTime ch
      in case WaitDCR (live_wait M) t0 regs want st st s of
           None \<Rightarrow> None
         | Some (s', q) \<Rightarrow>
             Some (s', if se_Err q \<noteq> None \<or> se_Reached q then None
                       else Some (Unverified (unverified_text ch want
                              (map (\<lambda>n. ''DCR'' @ itoa n @ '' reads '' @ itoa (Reg (se_DCR q) n))
                                 (filter (\<lambda>n. Reg (se_DCR q) n \<noteq> want) regs)) (se_After q)))))"

definition live_Restore :: "'w machine \<Rightarrow> int \<Rightarrow> 'w live \<Rightarrow> ('w live \<times> restore_error option) option" where
  "live_Restore M ch s =
     (let val = restore_value M ch; (s1, t0) = we_now (live_wait M) s
      in case live_call M (RestoreTo (mh_Kernel M) (live_writer M) ch val) s1 of
           (s2, r) \<Rightarrow>
             (case failure r of
                Some e \<Rightarrow> Some (s2, Some (NotRestored e))
              | None \<Rightarrow> if val = ''auto'' then Some (s2, None)
                        else verify_duty M ch (case atoi val of None \<Rightarrow> 0 | Some d \<Rightarrow> d) t0 s2))"

text \<open>
  The environment. Its functions return; where \<open>live_Restore\<close> does not (a clock that stands still),
  the program waits for ever, and the value given here means nothing (\<open>live_returns\<close> in Live_World excludes it).
\<close>

definition live_env :: "'w machine \<Rightarrow> 'w live Env" where
  "live_env M =
     \<lparr> e_Now = we_now (live_wait M),
       e_Sleep = (\<lambda>bg d (w, ex). case mh_Sleep M bg d w of (w', ok) \<Rightarrow> ((w', ex), ok)),
       e_EnterManual = live_EnterManual M, e_WriteDuty = live_WriteDuty M, e_Auto = live_Auto M,
       e_Restore = (\<lambda>ch s. case live_Restore M ch s of Some x \<Rightarrow> x | None \<Rightarrow> (s, Some (NotRestored ''''))),
       e_DCR = live_DCR M,
       e_Read = (\<lambda>(w, ex). ((w, ex), live_Read (mh_Stat M w) (k_view (mh_Kernel M) w) (mh_Sys M) (mh_Proc M))) \<rparr>"

end
