(* ===== verification/Validate.thy ===== *)
theory Validate
  imports Validate_Opts Run_Gates Runner_Tests Bundle Live_Env "HOL-Library.AList"
begin

text \<open>
  A run of map or handback: \<open>validation.run\<close> with \<open>gateG1\<close> and \<open>gateG6\<close> of
  src/ectest/cmd/n5-ectest/validate.go. Everything a run reads, prints and writes beside the runner is a
  \<open>desk\<close> of state-passing functions on a world \<open>'w\<close>. The runner's world is that world and the
  state file the run holds in memory; its hooks write that state file. A run is option-valued because
  a restore that waits for a register may not return. Panics of the Go runtime are not modelled.
\<close>

section \<open>The outside of a run\<close>

text \<open>The values of the JSON files of a bundle.\<close>

datatype jval = JText string | JInt int | JNum rat | JFlag bool | JTexts "string list" | JGates "Gate list" |
  JMachine Machine | JTable "(string \<times> string) list" | JFlags "string \<Rightarrow> bool" | JChans "int \<Rightarrow> string option" |
  JResults "Result list" | JState state_file | JDmi HwIdentity | JOs OSRelease | JFl fl | JList "jval list" | JObject "(string \<times> jval) list"

datatype ecram_read = NoECRAM | ECRAMError string | ECRAMText string

record 'w desk =
  dk_Env :: "'w Env"
  dk_Check :: "('w \<Rightarrow> 'w \<times> string list) option"
  dk_Cancelled :: "'w \<Rightarrow> bool"
  dk_ECRAM :: "'w \<Rightarrow> ecram_read"
  dk_Create :: "string \<Rightarrow> 'w \<Rightarrow> 'w \<times> string option"
  dk_Event :: "string \<Rightarrow> 'w \<Rightarrow> 'w"
  dk_Sample :: "Sample \<Rightarrow> 'w \<Rightarrow> 'w"
  dk_Json :: "string \<Rightarrow> jval \<Rightarrow> 'w \<Rightarrow> 'w \<times> string option"
  dk_Finish :: "'w \<Rightarrow> 'w \<times> string option"
  dk_Save :: "state_file \<Rightarrow> 'w \<Rightarrow> 'w \<times> string option"
  dk_Print :: "string \<Rightarrow> 'w \<Rightarrow> 'w"

text \<open>
  What a run is given: its options, the identity, the redactor, the session, the restore values, the
  device, the gates before the run and the board's reason, the line the operator types.
\<close>

record rig_view =
  vw_Opts :: runOpts
  vw_Id :: Machine
  vw_Red :: Redactor
  vw_Sess :: Sess
  vw_Values :: RestoreValues
  vw_Dev :: Device
  vw_Gates :: "Gate list"
  vw_Board :: string
  vw_Typed :: string
  vw_StatePath :: string
  vw_Version :: string
  vw_Commit :: string
  vw_Binary :: string
  vw_Go :: string
  vw_PID :: int
  vw_TestRoot :: bool
  vw_Abs :: "string \<Rightarrow> string + string"
  vw_Local :: "nanos \<Rightarrow> string"
  vw_SysRoot :: string

definition vch :: "rig_view \<Rightarrow> int" where "vch V = op_ch (vw_Opts V)"
definition vdry :: "rig_view \<Rightarrow> bool" where "vdry V = op_dry (vw_Opts V)"
definition vwriting :: "rig_view \<Rightarrow> bool" where "vwriting V = writing (vw_Opts V)"

definition value_of :: "rig_view \<Rightarrow> int \<Rightarrow> string" where
  "value_of V ch = (case rv_Values (vw_Values V) ch of None \<Rightarrow> '''' | Some v \<Rightarrow> v)"

definition source_of :: "rig_view \<Rightarrow> int \<Rightarrow> string" where
  "source_of V ch = (case rv_Sources (vw_Values V) ch of None \<Rightarrow> '''' | Some v \<Rightarrow> v)"

section \<open>Gates before the run\<close>

definition g1Condition :: string where
  [text_defs]: "g1Condition = ''no other pwm writer: units and processes n5-fangov, n5-fand, fancontrol, fan2go, coolercontrold, thinkfan; processes f8a-pcie.sh, f8a-stress.sh; no pwm file held open; writer lock held and in place; pwm cache unchanged by others''"
definition g6Condition :: string where
  [text_defs]: "g6Condition = ''register snapshot before the first write: duty registers and EC RAM curve tables 0x10-0x27, 0x30-0x38, 0x70-0x81''"
definition g7Condition :: string where
  [text_defs]: "g7Condition = ''board, vendor and driver state allow writes (TESTSPEC G7): N5 PRO/F8NAA in the write table, measured sys_vendor, driver +sr1, force=N, dcr readable, not in a container''"

text \<open>\<open>gateG1\<close>: what the checker finds, and the note of \<open>Units\<close>.\<close>

definition gateG1 :: "string list \<Rightarrow> string \<Rightarrow> Gate" where
  "gateG1 hits nt =
     (let sfx = (if nt \<noteq> '''' then '' ('' @ nt @ '')'' else '''')
      in if hits \<noteq> [] then mk_gate ''G1'' g1Condition ''FAIL'' (joins ''; '' hits @ sfx)
         else mk_gate ''G1'' g1Condition ''PASS'' (''none active; checked again at every sample, writer lock held'' @ sfx))"

definition gateG7 :: "string \<Rightarrow> Gate" where
  "gateG7 board = (if board = '''' then mk_gate ''G7'' g7Condition ''PASS'' '''' else mk_gate ''G7'' g7Condition ''FAIL'' board)"

definition gatePwm :: "int \<Rightarrow> Device \<Rightarrow> string \<Rightarrow> Gate" where
  "gatePwm ch dv reason =
     (let c = ''pwm'' @ itoa ch @ '' exposed by the driver''
      in if reason = '''' then mk_gate ''pwm'' c ''PASS'' (Device_String dv) else mk_gate ''pwm'' c ''FAIL'' reason)"

text \<open>The reason of the channel: that of \<open>WriteGate\<close>, else the error of \<open>Resolve\<close>.\<close>

definition pwm_reason_of :: "string \<Rightarrow> werror option \<Rightarrow> string" where
  "pwm_reason_of reason derr =
     (case derr of None \<Rightarrow> reason | Some e \<Rightarrow> if reason = '''' then werror_text e else reason)"

definition machine_gates :: "string list \<Rightarrow> string \<Rightarrow> Gate \<Rightarrow> string \<Rightarrow> int \<Rightarrow> Device \<Rightarrow> string \<Rightarrow> Gate list" where
  "machine_gates hits nt g2 board ch dv reason = [gateG1 hits nt, g2, gateG7 board, gatePwm ch dv reason]"

definition dry_gates :: "Gate list" where
  "dry_gates = [mk_gate ''G1'' g1Condition ''SKIPPED'' ''dry-run'', mk_gate ''G2'' ''no scrub/resilver/backup'' ''SKIPPED'' ''dry-run'']"

text \<open>The first failed gate, as the reason nothing is written.\<close>

definition failed_gate :: "Gate \<Rightarrow> bool" where "failed_gate g \<longleftrightarrow> g_Result g = ''FAIL''"

definition blocked_by :: "Gate list \<Rightarrow> string" where
  "blocked_by gs =
     (case find failed_gate gs of
        None \<Rightarrow> ''''
      | Some g \<Rightarrow>
          if g_ID g = ''pwm'' then ''pwm not exposed: '' @ g_Detail g
          else if g_ID g = ''G7'' then ''G7 (board/vendor/driver): '' @ g_Detail g
          else g_ID g @ '' failed: '' @ g_Detail g)"

text \<open>The same over all gates before the tests; G6 does not block.\<close>

definition blocked_late :: "string \<Rightarrow> Gate list \<Rightarrow> string" where
  "blocked_late blocked gs =
     (if blocked \<noteq> '''' then blocked
      else case find (\<lambda>g. failed_gate g \<and> g_ID g \<noteq> ''G6'') gs of None \<Rightarrow> '''' | Some g \<Rightarrow> g_ID g @ '' failed: '' @ g_Detail g)"

section \<open>G6\<close>

definition curveTables :: "(int \<times> int) list" where
  [const_defs]: "curveTables = [(0x10, 0x27), (0x30, 0x38), (0x70, 0x81)]"

definition g6_failed_text :: "string \<Rightarrow> string" where
  [text_defs]: "g6_failed_text e = ''duty registers recorded (first sample); curve tables not read through ecram: '' @ e"
definition g6_partial_text :: "string \<Rightarrow> string" where
  [text_defs]: "g6_partial_text p = ''duty registers recorded (first sample); no '' @ p @ '' (driver 0.2.1+sr2 with debug_regs=1): the curve tables come from a mode-A snapshot (tools/f8a/f8a-snapshot.sh) taken after boot and before the module load, named in the run record; whether something wrote earlier in this boot is not visible''"
definition g6_pass_text :: string where
  [text_defs]: "g6_pass_text = ''duty registers (first sample) and curve tables (driver ecram, meta.json ec_ram_tables) recorded before the first write of this run; whether something wrote earlier in this boot is not visible''"

definition hex_byte :: "int \<Rightarrow> string" where
  "hex_byte n = ''0x'' @ map (\<lambda>k. ''0123456789abcdef'' ! nat k) [n div 16, n mod 16]"

definition gateG6 :: "string \<Rightarrow> bool \<Rightarrow> string \<Rightarrow> ecram_read \<Rightarrow> Gate \<times> (string \<times> string) list" where
  "gateG6 sysRoot readable dcrErr rd =
     (let g = mk_gate ''G6'' g6Condition
      in if \<not> readable then (g ''FAIL'' (''duty registers not readable: '' @ dcrErr), [])
         else case rd of
                NoECRAM \<Rightarrow> (g ''PARTIAL'' (g6_partial_text (ECRAMPath sysRoot)), [])
              | ECRAMError e \<Rightarrow> (g ''FAIL'' (g6_failed_text e), [])
              | ECRAMText s \<Rightarrow>
                  (case ParseECRAM s of
                     Inl e \<Rightarrow> (g ''FAIL'' (g6_failed_text e), [])
                   | Inr e \<Rightarrow> (g ''PASS'' g6_pass_text,
                        map (\<lambda>(a, b). (hex_byte a @ ''-'' @ hex_byte b, ECRAM_Hex e a b)) curveTables)))"


section \<open>What the operator sees and types\<close>

definition confirmText :: string where [text_defs]: "confirmText = ''VALIDATE START''"

definition mode_text :: "bool \<Rightarrow> string" where
  [text_defs]: "mode_text dry = (if dry then ''dry-run (simulated EC; nothing is written; not a result under TESTSPEC)'' else ''hardware'')"

definition column_text :: "nat \<Rightarrow> string \<Rightarrow> string" where
  "column_text n s = s @ replicate (n - length s) (CHR '' '')"

definition header_lines :: "rig_view \<Rightarrow> nanos \<Rightarrow> string list" where
  [text_defs]: "header_lines V started =
     [''=== n5-ectest '' @ op_test (vw_Opts V) @ ''  pwm'' @ itoa (vch V) @ ''  TESTSPEC '' @ SpecVersion @ ''  '' @ mode_text (vdry V) @
        ''  '' @ vw_Local V started @ '' ==='',
      Redactor_String (vw_Red V) (''machine: '' @ Key (id_DMI (vw_Id V)) @ '', driver '' @ ModuleName @ '' '' @
        orDash (ds_Version (id_Driver (vw_Id V))) @ '', hardware status '' @ status_text (hw_Status (id_HWStatus (vw_Id V))))]"

text \<open>The duration of the tests as it is announced.\<close>

definition duration_line :: "rig_view \<Rightarrow> string" where
  [text_defs]: "duration_line V =
     (let c = op_cfg (vw_Opts V)
      in if op_test (vw_Opts V) = ''map''
         then ''Duration: about '' @ dur_text (cf_Window c + (int (length T1Steps) + 1) * cf_Hold c) @ '' (gate window and T1).''
         else ''Duration: about '' @ dur_text (cf_Window c + PreWindow c + int (cf_Repeat c) * 2 * (cf_Hold c + HandbackObserve c)) @
              '' (gate window, A, '' @ itoa (int (cf_Repeat c)) @ '' runs of T2/T3).'')"

definition not_readable_text :: "string \<Rightarrow> string" where
  [text_defs]: "not_readable_text e = ''duty registers not readable ('' @ e @ '')''"

definition prompt_lines :: "rig_view \<Rightarrow> bool \<Rightarrow> string \<Rightarrow> bool \<Rightarrow> string \<Rightarrow> string list" where
  [text_defs]: "prompt_lines V will blocked readable e =
     '''' #
     (if will
      then [''This command WRITES duty values to the EC (one channel, duty >= 100 only).'',
            ''The channel is put back into its restore value at the end, on abort and on a signal.'',
            ''Limits (abort): CPU Tctl 85 C, NVMe 70 C, HDD 50 C, a tach at 0 rpm, another pwm writer.'',
            duration_line V,
            ''Restore value pwm'' @ itoa (vch V) @ '': '' @ value_of V (vch V) @ '' ('' @ source_of V (vch V) @ '')'',
            ''Run it inside tmux; if both n5-ectest processes are killed, run: n5-ectest restore'']
      else [''Nothing will be written: '' @ orText blocked (not_readable_text e) @ ''.'',
            if readable
            then ''The run records T0 and the gates, with the '' @ dur_text (cf_Window (op_cfg (vw_Opts V))) @ '' gate window (no writes), in a bundle.''
            else ''The run records T0 and the gates in a bundle.'']) @
     [''Type exactly  '' @ confirmText @ ''  to continue: '']"

definition bool_text :: "bool \<Rightarrow> string" where [text_defs]: "bool_text b = (if b then ''true'' else ''false'')"

definition confirmed_text :: "rig_view \<Rightarrow> string" where
  [text_defs]: "confirmed_text V =
     (let s = vw_Sess V
      in ''operator confirmation typed (stdin '' @ se_Stdin s @ '', console flag '' @ bool_text (op_console (vw_Opts V)) @ '', local console '' @
         bool_text (se_Console s) @ '', remote: '' @ joinOr (se_Remote s) ''; '' ''-'' @ '', tmux: '' @ orDash (se_Tmux s) @ '')'')"

text \<open>\<open>strings.TrimSpace(line) == confirmText\<close>, asked before a writing run on the machine.\<close>

definition asks :: "rig_view \<Rightarrow> bool" where "asks V \<longleftrightarrow> \<not> vdry V \<and> vwriting V"
definition confirmed :: "rig_view \<Rightarrow> bool" where "confirmed V \<longleftrightarrow> \<not> asks V \<or> trim_space (vw_Typed V) = confirmText"

section \<open>The runner of a run\<close>

type_synonym 'w mem = "'w \<times> state_file"

definition outer :: "('w \<Rightarrow> 'w \<times> 'b) \<Rightarrow> 'w mem \<Rightarrow> 'w mem \<times> 'b" where
  "outer f = (\<lambda>(w, st). case f w of (w', x) \<Rightarrow> ((w', st), x))"

definition outer_env :: "'w Env \<Rightarrow> 'w mem Env" where
  "outer_env E =
     \<lparr> e_Now = outer (e_Now E), e_Sleep = (\<lambda>bg d. outer (e_Sleep E bg d)), e_EnterManual = (\<lambda>ch. outer (e_EnterManual E ch)),
       e_WriteDuty = (\<lambda>ch d. outer (e_WriteDuty E ch d)), e_Auto = (\<lambda>ch. outer (e_Auto E ch)),
       e_Restore = (\<lambda>ch. outer (e_Restore E ch)), e_DCR = outer (e_DCR E), e_Read = outer (e_Read E) \<rparr>"

definition run_tag :: "rig_view \<Rightarrow> string" where
  [text_defs]: "run_tag V = toolName @ '' '' @ vw_Version V @ '', driver '' @ orDash (ds_Version (id_Driver (vw_Id V)))"

text \<open>The setup before the bundle is open, with it, and with the state file.\<close>

definition base_setup :: "'w desk \<Rightarrow> rig_view \<Rightarrow> 'w mem Setup" where
  "base_setup D V =
     \<lparr> su_Env = outer_env (dk_Env D), su_Cfg = op_cfg (vw_Opts V),
       su_Guard = map_option (\<lambda>f. outer (\<lambda>w. case f w of (w', hits) \<Rightarrow> (w', joins ''; '' hits))) (dk_Check D),
       su_OnSample = None, su_OnEvent = None, su_BeforeWrite = None, su_BeforeHot = None, su_Tag = run_tag V \<rparr>"

definition open_setup :: "'w desk \<Rightarrow> rig_view \<Rightarrow> 'w mem Setup" where
  "open_setup D V = (base_setup D V)
     \<lparr> su_OnSample := Some (\<lambda>s (w, st). (dk_Sample D s w, st)), su_OnEvent := Some (\<lambda>l (w, st). (dk_Event D l w, st)) \<rparr>"

text \<open>
  An event of a hook: the line goes to the bundle. (It is in \<open>Events\<close> too, which nothing reads any
  more once the bundle is open.) \<open>start\<close> is the start of the run.
\<close>

definition hook_event :: "'w desk \<Rightarrow> nanos \<Rightarrow> string \<Rightarrow> 'w mem \<Rightarrow> 'w mem" where
  "hook_event D start txt = (\<lambda>(w, st).
     (case e_Now (dk_Env D) w of (w1, now) \<Rightarrow> (dk_Event D (FormatEvent now (Seconds (now - start)) txt) w1, st)))"

definition no_state_path :: string where [text_defs]: "no_state_path = ''no guardian state file''"

definition written_text :: "rig_view \<Rightarrow> string" where
  [text_defs]: "written_text V = ''guardian state written: '' @ vw_StatePath V @ '' (restore pwm'' @ itoa (vch V) @ ''='' @ value_of V (vch V) @
     '', device '' @ Device_String (vw_Dev V) @ '')''"
definition written_hot_text :: "rig_view \<Rightarrow> int \<Rightarrow> string" where
  [text_defs]: "written_hot_text V ch = ''guardian state written: '' @ vw_StatePath V @ '' (pwm'' @ itoa ch @ ''=255 after a temperature abort)''"

text \<open>An entry of a Go map: the keys of the list stay distinct.\<close>

definition put_channel :: "string \<Rightarrow> string \<Rightarrow> (string \<times> string) list \<Rightarrow> (string \<times> string) list" where
  "put_channel k v cs = AList.update k v cs"

definition save_state :: "'w desk \<Rightarrow> nanos \<Rightarrow> string \<Rightarrow> 'w mem \<Rightarrow> 'w mem \<times> string option" where
  "save_state D start txt = (\<lambda>(w, st).
     (case dk_Save D st w of
        (w1, Some e) \<Rightarrow> ((w1, st), Some e)
      | (w1, None) \<Rightarrow> (hook_event D start txt (w1, st), None)))"

definition before_write :: "'w desk \<Rightarrow> rig_view \<Rightarrow> nanos \<Rightarrow> 'w mem \<Rightarrow> 'w mem \<times> string option" where
  "before_write D V start s = (if vw_StatePath V = '''' then (s, Some no_state_path) else save_state D start (written_text V) s)"

definition before_hot_state :: "'w desk \<Rightarrow> rig_view \<Rightarrow> nanos \<Rightarrow> int \<Rightarrow> 'w mem \<Rightarrow> 'w mem \<times> string option" where
  "before_hot_state D V start ch = (\<lambda>(w, st).
     (if vw_StatePath V = '''' then ((w, st), Some no_state_path)
      else save_state D start (written_hot_text V ch) (w, st\<lparr> gf_Channels := put_channel (itoa ch) ''255'' (gf_Channels st) \<rparr>)))"

definition write_setup :: "'w desk \<Rightarrow> rig_view \<Rightarrow> nanos \<Rightarrow> 'w mem Setup" where
  "write_setup D V start = (open_setup D V)
     \<lparr> su_BeforeWrite := Some (before_write D V start), su_BeforeHot := Some (before_hot_state D V start) \<rparr>"

definition new_state_file :: "rig_view \<Rightarrow> nanos \<Rightarrow> string \<Rightarrow> state_file" where
  "new_state_file V started dir =
     \<lparr> gf_Tool = toolName, gf_Version = vw_Version V, gf_PID = vw_PID V, gf_Started = rfc3339 started, gf_State = stateActive,
       gf_Device = vw_Dev V, gf_Channels = [(itoa (vch V), value_of V (vch V))], gf_Bundle = dir, gf_TestRoot = vw_TestRoot V \<rparr>"

definition no_state :: state_file where
  "no_state = \<lparr> gf_Tool = '''', gf_Version = '''', gf_PID = 0, gf_Started = '''', gf_State = '''',
     gf_Device = \<lparr> dv_Name = '''', dv_DevicePath = '''', dv_SrcVersion = '''' \<rparr>, gf_Channels = [], gf_Bundle = '''', gf_TestRoot = False \<rparr>"


section \<open>The JSON files\<close>

definition redactionRules :: "string list" where
  [text_defs]: "redactionRules =
     [''host name (full and short) -> '' @ HostPlaceholder @ '' (kernel, DMI and driver strings stay)'',
      ''DMI serial numbers and UUID: never collected; '' @ fmt_q ''serial: X'' @ '' values -> [serial]'',
      ''MAC addresses -> [mac]'',
      ''IPv4 addresses -> [ipv4], IPv6 addresses -> [ipv6]'',
      ''mail addresses -> [mail] (systemd instance units stay)'',
      ''user names: never recorded; the user part of home directory paths -> /home/[user]'',
      ''SSH_* variables: only whether they are set, never their values'']"

definition provenance :: "rig_view \<Rightarrow> string list \<Rightarrow> jval" where
  "provenance V devs =
     (let i = vw_Id V; d = id_Driver i
      in JObject ([(''tool'', JText toolName), (''version'', JText (vw_Version V)), (''commit'', JText (vw_Commit V)),
           (''binary_sha256'', JText (vw_Binary V)), (''go_version'', JText (vw_Go V)),
           (''driver'', JObject [(''module'', JText ModuleName), (''version'', JText (ds_Version d)), (''srcversion'', JText (ds_SrcVersion d)),
              (''parameters'', JTable (ds_Params d)), (''dkms_package_version'', JText (id_DKMSPackage i)), (''taint'', JText (ds_Taint d))]),
           (''kernel'', JObject [(''release'', JText (id_Kernel i)), (''version'', JText (id_KernelVersion i)), (''taint'', JText (id_KernelTaint i))]),
           (''dmi'', JDmi (id_DMI i)), (''os'', JOs (id_OS i)), (''lockdown'', JText (id_Lockdown i)), (''container'', JText (id_Container i)),
           (''boot_type'', JText (op_boot (vw_Opts V))), (''uptime_s'', JFl (id_UptimeS i)), (''boot_id'', JText (id_BootID i)),
           (''spec_version'', JText SpecVersion), (''spec_deviations'', JTexts devs)] @
          (if vw_TestRoot V then [(''test_root'', JFlag True)] else [])))"

definition run_devs :: "rig_view \<Rightarrow> string list" where
  "run_devs V = baseDeviations @ rv_Deviations (vw_Values V) @ runDeviations (vw_Opts V)"

definition session_json :: "rig_view \<Rightarrow> jval" where
  "session_json V =
     JObject [(''stdin'', JText (se_Stdin (vw_Sess V))), (''local_console'', JFlag (se_Console (vw_Sess V))), (''remote'', JTexts (se_Remote (vw_Sess V))),
       (''tmux'', JText (se_Tmux (vw_Sess V))), (''console_flag'', JFlag (op_console (vw_Opts V)))]"

text \<open>The provisional meta.json, and the one that replaces it.\<close>

definition prov_meta :: "rig_view \<Rightarrow> nanos \<Rightarrow> jval" where
  "prov_meta V started =
     JObject [(''spec_version'', JText SpecVersion), (''tool'', JText toolName), (''tool_version'', JText (vw_Version V)),
       (''command'', JText (op_test (vw_Opts V))), (''mode'', JText (mode_text (vdry V))), (''channel'', JInt (vch V)),
       (''started'', JText (rfc3339 started)), (''boot_type'', JText (op_boot (vw_Opts V))), (''identity'', JMachine (vw_Id V)),
       (''gates'', JGates (vw_Gates V)), (''restore_values'', JChans (rv_Values (vw_Values V))),
       (''restore_value_sources'', JChans (rv_Sources (vw_Values V))), (''session'', session_json V), (''spec_deviations'', JTexts (run_devs V)),
       (''provenance'', provenance V (run_devs V)), (''provisional'', JFlag True), (''redaction'', JTexts redactionRules),
       (''settle_s'', JNum (SettleS (vch V)))]"

definition timing_json :: "Config \<Rightarrow> jval" where
  "timing_json c =
     JObject [(''hold_s'', JNum (Seconds (cf_Hold c))), (''sample_s'', JNum (Seconds (cf_Sample c))), (''observe_s'', JNum (Seconds (cf_Observe c))),
       (''a_window_s'', JNum (Seconds (PreWindow c))), (''handback_observe_s'', JNum (Seconds (HandbackObserve c))),
       (''gate_window_s'', JNum (Seconds (cf_Window c))), (''repeat'', JInt (int (cf_Repeat c))), (''due_tolerance_s'', JNum DueToleranceS)]"

text \<open>After a temperature abort the channel of the sensor is at 255, with the reason as its source.\<close>

definition used_values :: "rig_view \<Rightarrow> (int \<Rightarrow> string) \<Rightarrow> int \<Rightarrow> string option" where
  "used_values V over ch = (if over ch \<noteq> '''' then Some ''255'' else rv_Values (vw_Values V) ch)"

definition used_sources :: "rig_view \<Rightarrow> (int \<Rightarrow> string) \<Rightarrow> int \<Rightarrow> string option" where
  "used_sources V over ch = (if over ch \<noteq> '''' then Some (over ch) else rv_Sources (vw_Values V) ch)"

definition run_meta :: "rig_view \<Rightarrow> nanos \<Rightarrow> nanos \<Rightarrow> Gate list \<Rightarrow> (string \<times> string) list \<Rightarrow> string list \<Rightarrow> 'w mem runner \<Rightarrow> jval" where
  "run_meta V started finished gates tables unrestored r =
     (let c = op_cfg (vw_Opts V)
      in JObject [(''spec_version'', JText SpecVersion), (''tool'', JText toolName), (''tool_version'', JText (vw_Version V)),
       (''command'', JText (op_test (vw_Opts V))), (''mode'', JText (mode_text (vdry V))), (''channel'', JInt (vch V)),
       (''started'', JText (rfc3339 started)), (''finished'', JText (rfc3339 finished)), (''boot_type'', JText (op_boot (vw_Opts V))),
       (''identity'', JMachine (vw_Id V)), (''gates'', JGates gates), (''aborted'', JText (rn_Abort r)), (''timing'', timing_json c),
       (''settle_s'', JNum (SettleS (vch V))), (''online_cpus'', JInt (cf_OnlineCPUs c)), (''ec_ram_tables'', JTable tables),
       (''redaction'', JTexts redactionRules), (''limit_sensors'', JFlags (rn_LimitSensors r)),
       (''restore_values'', JChans (used_values V (rn_RestoreOverrides r))),
       (''restore_value_sources'', JChans (used_sources V (rn_RestoreOverrides r))), (''restore_failed'', JTexts unrestored),
       (''restore_warnings'', JTexts (rv_Warnings (vw_Values V) @ rn_RestoreWarnings r)), (''session'', session_json V),
       (''spec_deviations'', JTexts (run_devs V)), (''provenance'', provenance V (run_devs V))])"

definition run_verdict :: "rig_view \<Rightarrow> Result list \<Rightarrow> jval" where
  "run_verdict V results =
     JObject [(''spec_version'', JText SpecVersion), (''channel'', JInt (vch V)), (''command'', JText (op_test (vw_Opts V))), (''tests'', JResults results)]"

section \<open>Gates of the run\<close>

definition say :: "'w desk \<Rightarrow> string list \<Rightarrow> 'w mem runner \<Rightarrow> 'w mem runner" where
  "say D ls r = r\<lparr> rn_world := (case rn_world r of (w, st) \<Rightarrow> (fold (dk_Print D) ls w, st)) \<rparr>"

definition ask_desk :: "('w \<Rightarrow> 'w \<times> 'b) \<Rightarrow> 'w mem runner \<Rightarrow> 'w mem runner \<times> 'b" where
  "ask_desk f r = (case outer f (rn_world r) of (s, x) \<Rightarrow> (r\<lparr> rn_world := s \<rparr>, x))"

definition no_writing_text :: string where [text_defs]: "no_writing_text = ''no writing test (pwm4: T2/T3 N/A)''"
definition g7_failed_text :: string where [text_defs]: "g7_failed_text = ''gate G7 failed: nothing is written''"
definition no_regs_gate_text :: string where
  [text_defs]: "no_regs_gate_text = ''duty registers not readable: nothing is written''"

text \<open>G3 and G4: sampled only where something may be written.\<close>

definition window_gates :: "'w desk \<Rightarrow> rig_view \<Rightarrow> 'w mem Setup \<Rightarrow> 'w mem runner \<Rightarrow> 'w mem runner \<times> Gate \<times> Gate" where
  "window_gates D V S r =
     (let skipped = (\<lambda>why. (r, mk_gate ''G3'' G3Condition ''SKIPPED'' why, mk_gate ''G4'' G4Condition ''SKIPPED'' why))
      in if \<not> vwriting V then skipped no_writing_text
         else if \<not> rn_dcrOK r then skipped no_regs_gate_text
         else if vw_Board V \<noteq> '''' then skipped g7_failed_text
         else Gates S (say D [''gate G3/G4: sampling '' @ dur_text (cf_Window (op_cfg (vw_Opts V))) @ '' without writes ...''] r))"

definition gateG5 :: "rig_view \<Rightarrow> Gate" where
  "gateG5 V =
     (let s = vw_Sess V; g = mk_gate ''G5'' ''operator at the device'';
          typed = ''confirmation typed (stdin '' @ se_Stdin s @ '')'';
          tmux = (if se_Tmux s \<noteq> '''' then '', inside tmux ('' @ se_Tmux s @ '')'' else '''')
      in if vdry V then g ''SKIPPED'' ''dry-run, nothing written''
         else if \<not> vwriting V then g ''SKIPPED'' no_writing_text
         else if se_Remote s \<noteq> []
         then g ''PASS'' (typed @ '', remote session ('' @ joins ''; '' (se_Remote s) @ '') with --i-am-at-the-console'' @ tmux)
         else if \<not> se_Console s
         then g ''PASS'' (typed @ '', no local console in the process chain, --i-am-at-the-console given'' @ tmux)
         else g ''PASS'' (typed @ '', local console'' @ tmux))"

definition g6_dry_text :: string where [text_defs]: "g6_dry_text = ''dry-run (simulated EC; curve tables not read)''"

definition run_G6 :: "'w desk \<Rightarrow> rig_view \<Rightarrow> 'w mem runner \<Rightarrow> Gate \<times> (string \<times> string) list" where
  "run_G6 D V r =
     (if vdry V then (mk_gate ''G6'' g6Condition ''SKIPPED'' g6_dry_text, [])
      else gateG6 (vw_SysRoot V) (rn_dcrOK r) (rn_dcrErr r) (dk_ECRAM D (fst (rn_world r))))"

definition gate_event_text :: "Gate \<Rightarrow> string" where
  [text_defs]: "gate_event_text g = ''gate '' @ g_ID g @ '' '' @ g_Result g @ '': '' @ g_Detail g"
definition gate_line :: "Gate \<Rightarrow> string" where
  [text_defs]: "gate_line g = ''gate '' @ column_text 5 (g_ID g) @ '' '' @ column_text 8 (g_Result g) @ '' '' @ g_Detail g"

fun report_gates :: "'w desk \<Rightarrow> rig_view \<Rightarrow> 'w mem Setup \<Rightarrow> Gate list \<Rightarrow> 'w mem runner \<Rightarrow> 'w mem runner" where
  "report_gates D V S [] r = r"
| "report_gates D V S (g # gs) r =
     report_gates D V S gs (say D [Redactor_String (vw_Red V) (gate_line g)] (event S (gate_event_text g) r))"


section \<open>The tests\<close>

text \<open>\<open>closeOnAbort\<close>: after an abort or a signal the channels are put back at once.\<close>

definition closeOnAbort :: "'w desk \<Rightarrow> 'w mem Setup \<Rightarrow> 'w mem runner \<Rightarrow> ('w mem runner \<times> bool) option" where
  "closeOnAbort D S r =
     (if rn_Abort r \<noteq> '''' \<or> dk_Cancelled D (fst (rn_world r))
      then (case Close S r of None \<Rightarrow> None | Some r' \<Rightarrow> Some (r', True))
      else Some (r, False))"

definition notRun :: "rig_view \<Rightarrow> string \<Rightarrow> string \<Rightarrow> Result" where
  "notRun V t reason =
     (if vch V = PCIeChannel \<and> (t = ''T2'' \<or> t = ''T3'') then NotApplicableResult t (vch V) ReasonNoPCIeAuto
      else NotImplemented t (vch V) reason)"

definition abort_text :: "'w runner \<Rightarrow> string" where
  [text_defs]: "abort_text r = ''not run: '' @ orText (rn_Abort r) ''cancelled (signal)''"

definition run_mapping :: "'w desk \<Rightarrow> rig_view \<Rightarrow> 'w mem Setup \<Rightarrow> 'w mem runner \<Rightarrow> ('w mem runner \<times> Result list) option" where
  "run_mapping D V S r =
     (case closeOnAbort D S r of
        None \<Rightarrow> None
      | Some (r1, True) \<Rightarrow> Some (r1, [NotImplemented ''T1'' (vch V) (abort_text r1)])
      | Some (r1, False) \<Rightarrow>
          (case RunT1 S (say D [''T1 mapping ...''] r1) of None \<Rightarrow> None | Some (r2, t1) \<Rightarrow> Some (r2, [t1])))"

definition run_handback :: "'w desk \<Rightarrow> rig_view \<Rightarrow> 'w mem Setup \<Rightarrow> 'w mem runner \<Rightarrow> ('w mem runner \<times> Result list) option" where
  "run_handback D V S r =
     (case closeOnAbort D S r of
        None \<Rightarrow> None
      | Some (r1, True) \<Rightarrow> Some (r1, [notRun V ''T2'' (abort_text r1), notRun V ''T3'' (abort_text r1)])
      | Some (r1, False) \<Rightarrow>
          (case RunHandback S (if vwriting V then say D [''T2/T3 hand-back and settling ...''] r1 else r1) of
             None \<Rightarrow> None
           | Some (r2, t2, t3) \<Rightarrow> Some (r2, [t2, t3])))"

definition run_tests :: "'w desk \<Rightarrow> rig_view \<Rightarrow> 'w mem Setup \<Rightarrow> string \<Rightarrow> 'w mem runner \<Rightarrow> ('w mem runner \<times> Result list) option" where
  "run_tests D V S blocked r =
     (if blocked \<noteq> '''' \<and> vwriting V
      then Some (r, map (\<lambda>t. notRun V t (''not run: gate '' @ blocked)) (if op_test (vw_Opts V) = ''handback'' then [''T2'', ''T3''] else [''T1'']))
      else if op_test (vw_Opts V) = ''map'' then run_mapping D V S r
      else run_handback D V S r)"

text \<open>T0 and the tests; after them the channels are put back.\<close>

definition all_tests :: "'w desk \<Rightarrow> rig_view \<Rightarrow> 'w mem Setup \<Rightarrow> string \<Rightarrow> 'w mem runner \<Rightarrow> ('w mem runner \<times> Result list) option" where
  "all_tests D V S blocked r =
     (case run_tests D V S blocked r of
        None \<Rightarrow> None
      | Some (r1, res) \<Rightarrow>
          (case closeOnAbort D S r1 of
             None \<Rightarrow> None
           | Some (r2, stopped) \<Rightarrow>
               (let t45 = (if op_test (vw_Opts V) = ''handback''
                           then [T4T5Result ''T4'' (vch V) (rn_Samples r2), T4T5Result ''T5'' (vch V) (rn_Samples r2)] else []);
                    t0 = T0 (T0Values (vw_Id V) (vw_Version V) (op_boot (vw_Opts V))) (op_boot (vw_Opts V))
                in case Close S r2 of None \<Rightarrow> None | Some r3 \<Rightarrow> Some (r3, t0 # res @ t45))))"

section \<open>The end of a run\<close>

definition finish_text :: "'w runner \<Rightarrow> string" where
  [text_defs]: "finish_text r = ''finish: '' @ itoa (int (length (rn_Samples r))) @ '' sample(s), aborted '' @ fmt_q (rn_Abort r)"

text \<open>The files at the end: the first error is reported, \<open>Finish\<close> is always called. \<open>held\<close>: a state file is in memory.\<close>

definition write_files :: "'w desk \<Rightarrow> jval \<Rightarrow> jval \<Rightarrow> bool \<Rightarrow> 'w mem runner \<Rightarrow> 'w mem runner \<times> string option" where
  "write_files D meta verdict held r =
     (let (r1, e1) = ask_desk (dk_Json D MetaName meta) r;
          (r2, e2) = (if e1 = None then ask_desk (dk_Json D VerdictName verdict) r1 else (r1, e1));
          (r3, e3) = (if e2 = None \<and> held then ask_desk (dk_Json D ''restore.json'' (JState (snd (rn_world r2)))) r2 else (r2, e2));
          (r4, e4) = ask_desk (dk_Finish D) r3
      in (r4, if e3 = None then e4 else e3))"

definition outcome_line :: "Result \<Rightarrow> string" where
  [text_defs]: "outcome_line t = column_text 3 (r_ID t) @ '' '' @ column_text 12 (verdict_text (r_Verdict t)) @ '' '' @
     (if r_Reasons t \<noteq> [] then hd (r_Reasons t) else '''')"

definition unrestored_line :: "string \<Rightarrow> string" where
  [text_defs]: "unrestored_line u = ''!! RESTORE FAILED '' @ u @ '' - run: n5-ectest restore''"

definition end_lines :: "rig_view \<Rightarrow> string \<Rightarrow> string option \<Rightarrow> Result list \<Rightarrow> string list \<Rightarrow> string list \<Rightarrow> string list" where
  [text_defs]: "end_lines V dir ferr results warnings unrestored =
     (case ferr of None \<Rightarrow> ['''', ''bundle: '' @ dir] | Some e \<Rightarrow> [op_test (vw_Opts V) @ '': bundle: '' @ e]) @ [''''] @
     map (\<lambda>t. Redactor_String (vw_Red V) (outcome_line t)) results @
     concat (map (\<lambda>w. ['''', ''WARNING: restore '' @ w]) warnings) @
     concat (map (\<lambda>u. [unrestored_line u, op_test (vw_Opts V) @ '': '' @ unrestored_line u]) unrestored)"

text \<open>The exit code and the last lines.\<close>

definition run_code :: "string option \<Rightarrow> string list \<Rightarrow> string \<Rightarrow> bool \<Rightarrow> int" where
  "run_code ferr unrestored abort skipped =
     (if ferr \<noteq> None \<or> unrestored \<noteq> [] \<or> abort \<noteq> '''' \<or> skipped then exitFail else exitOK)"

definition last_lines :: "string \<Rightarrow> bool \<Rightarrow> string \<Rightarrow> string \<Rightarrow> string list" where
  [text_defs]: "last_lines abort skipped blocked e =
     (if abort \<noteq> '''' then ['''', ''ABORTED: '' @ abort]
      else if skipped then ['''', ''Writing tests not run: '' @ orText blocked (not_readable_text e)] else [])"

text \<open>
  The deferred function: the channels once more, then the mark "restored" in the state file when none is
  left (its error is ignored).
\<close>

definition mark_restored :: "'w desk \<Rightarrow> rig_view \<Rightarrow> bool \<Rightarrow> 'w mem runner \<Rightarrow> 'w mem runner" where
  "mark_restored D V held r =
     (if held \<and> vw_StatePath V \<noteq> '''' \<and> Unrestored r = []
      then (case rn_world r of (w, st) \<Rightarrow>
              (let st' = st\<lparr> gf_State := stateRestored \<rparr> in r\<lparr> rn_world := (fst (dk_Save D st' w), st') \<rparr>))
      else r)"

definition end_of_run :: "'w desk \<Rightarrow> rig_view \<Rightarrow> 'w mem Setup \<Rightarrow> string \<Rightarrow> bool \<Rightarrow> string \<Rightarrow> Gate list \<Rightarrow> (string \<times> string) list \<Rightarrow> Result list
    \<Rightarrow> 'w mem runner \<Rightarrow> (int \<times> 'w mem runner) option" where
  "end_of_run D V S dir held blocked gates tables results r =
     (let unrestored = Unrestored r;
          (r1, finished) = ask_desk (e_Now (dk_Env D)) r;
          meta = run_meta V (rn_start r1) finished gates tables unrestored r1;
          r2 = event S (finish_text r1) r1;
          (r3, ferr) = write_files D meta (run_verdict V results) held r2;
          skipped = (vwriting V \<and> (blocked \<noteq> '''' \<or> \<not> rn_dcrOK r3));
          r4 = say D (end_lines V dir ferr results (rn_RestoreWarnings r3) unrestored @
                 last_lines (rn_Abort r3) skipped blocked (rn_dcrErr r3)) r3
      in case Close S r4 of
           None \<Rightarrow> None
         | Some r5 \<Rightarrow> Some (run_code ferr unrestored (rn_Abort r3) skipped, mark_restored D V held r5))"

section \<open>The run\<close>

text \<open>From the first sample on: first what is checked before a test may write.\<close>

definition run_checks :: "'w desk \<Rightarrow> rig_view \<Rightarrow> 'w mem Setup \<Rightarrow> 'w mem runner \<Rightarrow> 'w mem runner \<times> Gate list \<times> (string \<times> string) list" where
  "run_checks D V S r =
     (let (r1, s, why) = sampleAt S PhaseBoot (-1) None r;
          r2 = (if why \<noteq> '''' then stop S why r1 else r1);
          (r3, g3, g4) = window_gates D V S r2;
          (g6, tables) = run_G6 D V r3;
          gates = vw_Gates V @ [g3, g4, gateG5 V, g6]
      in (report_gates D V S gates r3, gates, tables))"

text \<open>\<open>early\<close> is the reason that blocked before.\<close>

definition run_body :: "'w desk \<Rightarrow> rig_view \<Rightarrow> 'w mem Setup \<Rightarrow> string \<Rightarrow> bool \<Rightarrow> string \<Rightarrow> 'w mem runner \<Rightarrow> (int \<times> 'w mem runner) option" where
  "run_body D V S dir held early r =
     (let (r4, gates, tables) = run_checks D V S r;
          blocked = blocked_late early gates
      in case all_tests D V S blocked r4 of
           None \<Rightarrow> None
         | Some (r5, results) \<Rightarrow> end_of_run D V S dir held blocked gates tables results r5)"

definition start_text :: "rig_view \<Rightarrow> string" where
  [text_defs]: "start_text V =
     (let d = id_Driver (vw_Id V)
      in ''start '' @ toolName @ '' '' @ op_test (vw_Opts V) @ '' pwm'' @ itoa (vch V) @ '': '' @ toolName @ '' '' @ vw_Version V @ '' (commit '' @
         vw_Commit V @ ''), driver '' @ ModuleName @ '' '' @ orDash (ds_Version d) @ '' srcversion '' @ orDash (ds_SrcVersion d) @
         ''; mode '' @ mode_text (vdry V))"

definition bundle_dir :: "rig_view \<Rightarrow> nanos \<Rightarrow> string" where
  "bundle_dir V started =
     join_path [op_out (vw_Opts V), DirName started (hi_Board (id_DMI (vw_Id V))) (hi_BIOS (id_DMI (vw_Id V))) (''validate-pwm'' @ itoa (vch V))] @
     (if vdry V then ''-'' @ op_test (vw_Opts V) @ ''-dryrun'' else '''')"

definition nothing_written_text :: "rig_view \<Rightarrow> string \<Rightarrow> string \<Rightarrow> string" where
  [text_defs]: "nothing_written_text V what e = op_test (vw_Opts V) @ '': '' @ what @ '': '' @ e @ '' (nothing written)''"

text \<open>The run with an open bundle: the first lines, the provisional meta.json, the state file in memory.\<close>

definition run_opened :: "'w desk \<Rightarrow> rig_view \<Rightarrow> string \<Rightarrow> bool \<Rightarrow> string \<Rightarrow> 'w mem runner \<Rightarrow> (int \<times> 'w mem runner) option" where
  "run_opened D V dir will early r0 =
     (let S = open_setup D V;
          r1 = event S (start_text V) (r0\<lparr> rn_world := (case rn_world r0 of (w, st) \<Rightarrow> (fold (dk_Event D) (rn_Events r0) w, st)) \<rparr>);
          give_up = (\<lambda>what e r. Some (exitFail, say D [nothing_written_text V what e] (fst (ask_desk (dk_Finish D) r))))
      in case ask_desk (dk_Json D MetaName (prov_meta V (rn_start r0))) r1 of
           (r2, Some e) \<Rightarrow> give_up ''bundle'' e r2
         | (r2, None) \<Rightarrow>
             if \<not> vdry V \<and> will
             then (case vw_Abs V dir of
                     Inl e \<Rightarrow> give_up ''bundle path'' e r2
                   | Inr full \<Rightarrow>
                       run_body D V (write_setup D V (rn_start r0)) dir True early
                         (r2\<lparr> rn_world := (fst (rn_world r2), new_state_file V (rn_start r0) full) \<rparr>))
             else run_body D V S dir False early r2)"

text \<open>\<open>validation.run\<close>.\<close>

definition run_validation :: "'w desk \<Rightarrow> rig_view \<Rightarrow> 'w \<Rightarrow> (int \<times> 'w mem runner) option" where
  "run_validation D V w =
     (let S = base_setup D V;
          r0 = NewRunner (su_Env S) (w, no_state);
          blocked = blocked_by (vw_Gates V);
          will = (vwriting V \<and> blocked = '''' \<and> rn_dcrOK r0);
          r1 = say D (header_lines V (rn_start r0)) r0;
          r2 = (if asks V then say D (prompt_lines V will blocked (rn_dcrOK r0) (rn_dcrErr r0)) r1 else r1)
      in if \<not> confirmed V then Some (exitFail, say D ['''', ''Aborted, nothing written.''] r2)
         else
           (let r3 = (if asks V then event S (confirmed_text V) r2 else r2);
                dir = bundle_dir V (rn_start r0)
            in case ask_desk (dk_Create D dir) r3 of
                 (r4, Some e) \<Rightarrow> Some (exitFail, say D [nothing_written_text V ''bundle'' e] r4)
               | (r4, None) \<Rightarrow> run_opened D V dir will blocked r4))"

end
