(* ===== verification/Validate_Watch.thy ===== *)
theory Validate_Watch
  imports Validate Runner_Trace
begin

text \<open>
  What a run of map or handback does, in order: \<open>watched_desk\<close> wraps any desk so that each command to
  the machine and each write of the state file is appended to a list beside the world. The interface
  \<open>saved_runner\<close> says what the runner's proofs need of a setup with a state file; inside it
  \<open>run_inv\<close> is kept by every operation of the runner.
\<close>

section \<open>The list\<close>

datatype watch = WCmd cmd | WSave state_file bool

fun commands :: "watch list \<Rightarrow> cmd list" where
  "commands [] = []"
| "commands (WCmd c # l) = c # commands l"
| "commands (WSave st ok # l) = commands l"

text \<open>The state file on disk after a list: the last one that was written (an atomic write leaves old or new).\<close>

fun disk :: "state_file option \<Rightarrow> watch list \<Rightarrow> state_file option" where
  "disk d [] = d"
| "disk d (WCmd c # l) = disk d l"
| "disk d (WSave st ok # l) = disk (if ok then Some st else d) l"

definition listed :: "state_file \<Rightarrow> int \<Rightarrow> bool" where
  "listed st ch \<longleftrightarrow> map_of (gf_Channels st) (itoa ch) \<noteq> None"

text \<open>
  The value of the channel \<open>ch\<close> of the run in the state file: its restore value \<open>v\<close>, or 255 if the
  temperature limit of that very channel tripped (\<open>hot\<close> is the channel of the tripped limit, 0 if none).
\<close>

definition carries :: "state_file \<Rightarrow> int \<Rightarrow> string \<Rightarrow> int \<Rightarrow> bool" where
  "carries st ch v hot \<longleftrightarrow>
     map_of (gf_Channels st) (itoa ch) = Some v \<or> hot = ch \<and> map_of (gf_Channels st) (itoa ch) = Some ''255''"

lemma carries_listed: "carries st ch v hot \<Longrightarrow> listed st ch"
  by (auto simp: carries_def listed_def)

text \<open>
  The two commands of a temperature abort: manual mode and 255. They are also given when the state
  file that would list the channel with 255 could not be written.
\<close>

definition hot_cmd :: "int \<Rightarrow> cmd \<Rightarrow> bool" where
  "hot_cmd ch c \<longleftrightarrow> (case c of CManual k b \<Rightarrow> k = ch | CDuty k d b \<Rightarrow> k = ch \<and> d = 255 | _ \<Rightarrow> False)"

definition failed_hot :: "watch list \<Rightarrow> int \<Rightarrow> bool" where
  "failed_hot l ch \<longleftrightarrow>
     list_ex (\<lambda>x. case x of WSave st ok \<Rightarrow> \<not> ok \<and> map_of (gf_Channels st) (itoa ch) = Some ''255'' | WCmd c \<Rightarrow> False) l"

definition cmd_channel :: "cmd \<Rightarrow> int option" where
  "cmd_channel c = (case c of CBefore b \<Rightarrow> None | CManual k b \<Rightarrow> Some k | CDuty k d b \<Rightarrow> Some k | CAuto k b \<Rightarrow> Some k
     | CRestore k b \<Rightarrow> Some k)"

text \<open>A command is covered when the state file lists its channel, or it is such a command of a temperature abort.\<close>

definition covered :: "state_file \<Rightarrow> int \<Rightarrow> watch list \<Rightarrow> cmd \<Rightarrow> bool" where
  "covered st hot l x \<longleftrightarrow>
     (case cmd_channel x of None \<Rightarrow> True
      | Some ch \<Rightarrow> listed st ch \<or> ch = hot \<and> hot \<noteq> 0 \<and> hot_cmd ch x \<and> failed_hot l ch)"

text \<open>What holds at a moment of a run: the state file on disk is open, has the value of the channel and covers every command.\<close>

definition filed :: "int \<Rightarrow> string \<Rightarrow> int \<Rightarrow> watch list \<Rightarrow> bool" where
  "filed c v hot l \<longleftrightarrow>
     commands l = [] \<or>
     (\<exists>st. disk None l = Some st \<and> gf_State st = stateActive \<and> carries st c v hot \<and> list_all (covered st hot l) (commands l))"

lemma commands_append [simp]: "commands (a @ b) = commands a @ commands b"
  by (induction a rule: commands.induct) simp_all

lemma disk_append [simp]: "disk d (a @ b) = disk (disk d a) b"
  by (induction d a rule: disk.induct) simp_all

lemma on_channel_iff: "on_channel ch c \<longleftrightarrow> cmd_channel c = Some ch"
  by (auto simp: on_channel_def cmd_channel_def split: cmd.splits)

section \<open>The invariant\<close>

text \<open>
  \<open>c\<close> is the channel of the run and \<open>v\<close> its restore value, \<open>st\<close> the state file in memory, \<open>hot\<close> the channel of a tripped
  limit.
\<close>

definition proper :: "int \<Rightarrow> string \<Rightarrow> int \<Rightarrow> watch list \<Rightarrow> bool" where
  "proper c v hot l \<longleftrightarrow> (\<forall>a b. l = a @ b \<longrightarrow> filed c v hot a)"

definition in_memory :: "int \<Rightarrow> string \<Rightarrow> int \<Rightarrow> watch list \<Rightarrow> state_file \<Rightarrow> bool" where
  "in_memory c v hot l st \<longleftrightarrow>
     gf_State st = stateActive \<and> carries st c v hot \<and>
     list_all (\<lambda>x. case cmd_channel x of None \<Rightarrow> True | Some ch \<Rightarrow> listed st ch) (commands l)"

definition run_inv :: "int \<Rightarrow> string \<Rightarrow> watch list \<Rightarrow> state_file \<Rightarrow> (int \<Rightarrow> bool) \<Rightarrow> bool \<Rightarrow> (int \<Rightarrow> string) \<Rightarrow> int \<Rightarrow> bool" where
  "run_inv c v l st touched wrote over hot \<longleftrightarrow>
     proper c v hot l \<and> in_memory c v hot l st \<and> c \<noteq> 0 \<and>
     (\<forall>d. disk None l = Some d \<longrightarrow> gf_State d = stateActive \<and> carries d c v hot) \<and>
     (wrote \<longrightarrow> disk None l \<noteq> None) \<and>
     (\<forall>ch. touched ch \<longrightarrow> ch = c \<or> ch = hot \<and> hot \<noteq> 0) \<and>
     cmd_inv False (commands l) touched wrote over"

lemma proper_filed: "proper c v hot l \<Longrightarrow> filed c v hot l"
  by (simp add: proper_def)

lemma proper_prefix: "proper c v hot (a @ b) \<Longrightarrow> proper c v hot a"
  by (simp add: proper_def)

lemma proper_Nil [simp]: "proper c v hot []"
  by (simp add: proper_def filed_def)

lemma proper_snoc: "proper c v hot (l @ [x]) \<longleftrightarrow> proper c v hot l \<and> filed c v hot (l @ [x])"
proof -
  have "l @ [x] = a @ b \<longleftrightarrow> a = l @ [x] \<and> b = [] \<or> (\<exists>b'. b = b' @ [x] \<and> l = a @ b')" for a b
    by (cases b rule: rev_cases) auto
  then show ?thesis by (auto simp: proper_def)
qed

lemma failed_hot_append [simp]: "failed_hot (a @ b) ch \<longleftrightarrow> failed_hot a ch \<or> failed_hot b ch"
  by (simp add: failed_hot_def)

lemma covered_mono: "covered st hot l x \<Longrightarrow> covered st hot (l @ m) x"
  by (auto simp: covered_def split: option.splits)

lemma active_open: "gf_State d = stateActive \<Longrightarrow> stateOpen d"
  by (simp add: stateOpen_def stateActive_def stateRestored_def stateDiscarded_def)

text \<open>A command whose channel is listed in memory and covered on disk, and a write of the file in memory.\<close>

lemma run_inv_covered:
  assumes i: "run_inv c v l st touched True over hot" and d: "disk None l = Some d" "covered d hot l cmd"
    and m: "\<And>ch. cmd_channel cmd = Some ch \<Longrightarrow> listed st ch"
  shows "proper c v hot (l @ [WCmd cmd]) \<and> in_memory c v hot (l @ [WCmd cmd]) st"
proof -
  have f: "filed c v hot l" using i proper_filed by (simp add: run_inv_def)
  have c: "list_all (covered d hot l) (commands l)" using f d(1) by (auto simp: filed_def)
  then have "list_all (covered d hot (l @ [WCmd cmd])) (commands l)" using covered_mono by (auto simp: list_all_iff)
  then have "filed c v hot (l @ [WCmd cmd])" using d i covered_mono by (auto simp: filed_def run_inv_def)
  then show ?thesis using i m by (auto simp: run_inv_def proper_snoc in_memory_def split: option.splits)
qed

lemma run_inv_command:
  assumes "run_inv c v l st touched True over hot" "safe_cmd cmd" "\<And>k. on_channel k cmd \<Longrightarrow> k = ch"
    and "proper c v hot (l @ [WCmd cmd]) \<and> in_memory c v hot (l @ [WCmd cmd]) st" "ch = c \<or> ch = hot \<and> hot \<noteq> 0"
  shows "run_inv c v (l @ [WCmd cmd]) st (touched(ch := True)) True over hot"
proof -
  have "cmd_inv False (commands l @ [cmd]) (touched(ch := True)) True over"
    using cmd_inv_command [OF _ assms(2,3)] assms(1) by (simp add: run_inv_def)
  then show ?thesis using assms(1,4,5) by (auto simp: run_inv_def)
qed

lemma run_inv_rest:
  assumes "run_inv c v l st touched True over hot" "safe_cmd cmd" "\<And>k. on_channel k cmd \<Longrightarrow> k = ch"
    and "proper c v hot (l @ [WCmd cmd]) \<and> in_memory c v hot (l @ [WCmd cmd]) st"
    and "at_rest (commands l @ [cmd]) over' ch" "\<And>k. k \<noteq> ch \<Longrightarrow> over' k = over k"
  shows "run_inv c v (l @ [WCmd cmd]) st (touched(ch := False)) True over' hot"
proof -
  have "cmd_inv False (commands l @ [cmd]) (touched(ch := False)) True over'"
    using cmd_inv_rest [OF _ assms(2,3,5,6)] assms(1) by (simp add: run_inv_def)
  then show ?thesis using assms(1,4) by (auto simp: run_inv_def)
qed

lemma run_inv_save:
  assumes i: "run_inv c v l st touched wrote over hot" and m: "in_memory c v hot l st'"
  shows "run_inv c v (l @ [WSave st' ok]) st' touched wrote over hot"
    and "ok \<Longrightarrow> run_inv c v (l @ [WSave st' ok]) st' touched True over hot"
proof -
  have f: "filed c v hot l" using i proper_filed by (simp add: run_inv_def)
  have "filed c v hot (l @ [WSave st' ok])"
  proof (cases "commands l = []")
    case False
    then obtain d where d: "disk None l = Some d" "gf_State d = stateActive" "carries d c v hot" "list_all (covered d hot l) (commands l)"
      using f by (auto simp: filed_def)
    have "list_all (covered st' hot (l @ [WSave st' ok])) (commands l)"
      using m by (auto simp: in_memory_def covered_def list_all_iff split: option.splits)
    moreover have "list_all (covered d hot (l @ [WSave st' ok])) (commands l)" using d(4) covered_mono by (auto simp: list_all_iff)
    ultimately show ?thesis using m d by (cases ok) (simp_all add: filed_def in_memory_def)
  qed (simp add: filed_def)
  then show "run_inv c v (l @ [WSave st' ok]) st' touched wrote over hot"
    "ok \<Longrightarrow> run_inv c v (l @ [WSave st' ok]) st' touched True over hot"
    using i m by (auto simp: run_inv_def cmd_inv_def proper_snoc in_memory_def)
qed

lemma run_inv_start:
  "gf_State st = stateActive \<Longrightarrow> carries st c v hot \<Longrightarrow> c \<noteq> 0 \<Longrightarrow> run_inv c v [] st (\<lambda>ch. False) False over hot"
  by (simp add: run_inv_def in_memory_def cmd_inv_def only_failed_def at_rest_def last_cmd_def)

lemma in_memory_put:
  assumes "in_memory c v hot l st" "st' = st\<lparr> gf_Channels := put_channel (itoa hot) ''255'' (gf_Channels st) \<rparr>"
  shows "in_memory c v hot l st'" "listed st' hot" "map_of (gf_Channels st') (itoa hot) = Some ''255''"
  using assms by (auto simp: in_memory_def carries_def put_channel_def update_conv' listed_def list_all_iff
      split: option.splits dest: itoa_inj)

text \<open>A limit that trips only adds to what is allowed.\<close>

lemma covered_hot: "covered st 0 l x \<Longrightarrow> covered st hot l x"
  by (auto simp: covered_def split: option.splits)

lemma filed_hot: "c \<noteq> 0 \<Longrightarrow> filed c v 0 l \<Longrightarrow> filed c v hot l"
  using covered_hot by (fastforce simp: filed_def carries_def list_all_iff)

lemma run_inv_hot: "run_inv c v l st touched wrote over 0 \<Longrightarrow> run_inv c v l st touched wrote over hot"
  using filed_hot [of c v] by (auto simp: run_inv_def proper_def in_memory_def carries_def)

section \<open>The interface to a runner with a state file\<close>

text \<open>\<open>p\<close> says that there is a path for the state file; without one no write is allowed.\<close>

definition run_kept :: "('w \<Rightarrow> watch list \<times> state_file) \<Rightarrow> bool \<Rightarrow> int \<Rightarrow> string \<Rightarrow> 'w runner \<Rightarrow> bool" where
  "run_kept ob p c v r \<longleftrightarrow>
     (rn_wrote r \<longrightarrow> p) \<and>
     run_inv c v (fst (ob (rn_world r))) (snd (ob (rn_world r))) (rn_touched r) (rn_wrote r) (rn_RestoreOverrides r) (rn_hot r)"

locale watched_runner =
  fixes S :: "'w Setup" and ob :: "'w \<Rightarrow> watch list \<times> state_file"
  assumes ob_now [simp]: "ob (fst (e_Now (su_Env S) w)) = ob w"
    and ob_sleep [simp]: "ob (fst (e_Sleep (su_Env S) bg d w)) = ob w"
    and ob_dcr [simp]: "ob (fst (e_DCR (su_Env S) w)) = ob w"
    and ob_read [simp]: "ob (fst (e_Read (su_Env S) w)) = ob w"
    and ob_guard: "su_Guard S = Some g \<Longrightarrow> ob (fst (g w)) = ob w"
    and ob_sample: "su_OnSample S = Some f \<Longrightarrow> ob (f s w) = ob w"
    and ob_event: "su_OnEvent S = Some e \<Longrightarrow> ob (e l w) = ob w"
begin

lemma ob_eventAt [simp]: "ob (rn_world (fst (eventAt S txt r))) = ob (rn_world r)"
  by (simp add: eventAt_def Let_def split_beta ob_event split: option.split)

lemma ob_event_world [simp]: "ob (rn_world (event S txt r)) = ob (rn_world r)"
  by (simp add: event_def)

lemma ob_stop [simp]: "ob (rn_world (stop S reason r)) = ob (rn_world r)"
  by (simp add: stop_def)

lemma ob_guard_world [simp]: "ob (rn_world (fst (guard S r))) = ob (rn_world r)"
  by (simp add: guard_def split_beta ob_guard split: option.split)

lemma ob_record [simp]: "ob (rn_world (record_sample S s r)) = ob (rn_world r)"
  by (simp add: record_sample_def ob_sample split: option.split)

lemma ob_read_regs [simp]: "ob (rn_world (fst (read_regs S r))) = ob (rn_world r)"
  by (simp add: read_regs_def split_beta)

lemma ob_sample_ts [simp]: "ob (rn_world (fst (sample_ts S phase due now r))) = ob (rn_world r)"
  by (simp add: sample_ts_def Let_def split: option.split)

lemma ob_sampleAt [simp]: "ob (rn_world (fst (sampleAt S phase written due r))) = ob (rn_world r)"
  by (simp add: sampleAt_def Let_def split_beta)

end

lemma set_hot_change: "rn_hot r \<noteq> 0 \<Longrightarrow> rn_hot (set_hot ch why r) = rn_hot r"
  by (simp add: set_hot_def)

lemma event_hot [simp]: "rn_hot (fst (eventAt S txt r)) = rn_hot r" "rn_hot (event S txt r) = rn_hot r"
  by (simp_all add: event_def eventAt_def Let_def split_beta)

lemma sampleAt_hot: "rn_hot r \<noteq> 0 \<Longrightarrow> rn_hot (fst (sampleAt S phase written due r)) = rn_hot r"
proof -
  have "rn_hot (fst (sensor_loop ls q)) = rn_hot q" for ls and q :: "'a runner"
    by (induction ls q rule: sensor_loop.induct) (auto simp: Let_def)
  moreover have "rn_hot (fst (guard S q)) = rn_hot q" for q by simp
  moreover have "rn_hot (record_sample S s q) = rn_hot q" for s q by (simp add: record_sample_def)
  moreover have "rn_hot (fst (read_regs S q)) = rn_hot q" for q by (simp add: read_regs_def split_beta)
  moreover have "rn_hot (fst (sample_ts S phase due now q)) = rn_hot q" for now q
    by (simp add: sample_ts_def Let_def split: option.split)
  ultimately show "rn_hot r \<noteq> 0 \<Longrightarrow> ?thesis"
    by (simp add: sampleAt_def check_limits_def Let_def split_beta set_hot_change split: option.split)
qed

locale saved_runner = watched_runner +
  fixes v :: string and p :: bool
  assumes ob_manual: "ob (fst (e_EnterManual (su_Env S) ch w)) =
      (fst (ob w) @ [WCmd (CManual ch (snd (e_EnterManual (su_Env S) ch w) = None))], snd (ob w))"
    and ob_duty: "ob (fst (e_WriteDuty (su_Env S) ch d w)) =
      (fst (ob w) @ [WCmd (CDuty ch d (snd (e_WriteDuty (su_Env S) ch d w) = None))], snd (ob w))"
    and ob_auto: "ob (fst (e_Auto (su_Env S) ch w)) =
      (fst (ob w) @ [WCmd (CAuto ch (snd (e_Auto (su_Env S) ch w) = None))], snd (ob w))"
    and ob_restore: "ob (fst (e_Restore (su_Env S) ch w)) =
      (fst (ob w) @ [WCmd (CRestore ch (restored (snd (e_Restore (su_Env S) ch w))))], snd (ob w))"
    and has_before: "su_BeforeWrite S = Some b \<Longrightarrow>
      (if p then ob (fst (b w)) = (fst (ob w) @ [WSave (snd (ob w)) (snd (b w) = None)], snd (ob w))
       else ob (fst (b w)) = ob w \<and> snd (b w) \<noteq> None)"
    and some_before: "su_BeforeWrite S \<noteq> None"
    and ob_hot: "su_BeforeHot S = Some h \<Longrightarrow> p \<Longrightarrow> st = (snd (ob w))\<lparr> gf_Channels := put_channel (itoa ch) ''255'' (gf_Channels (snd (ob w))) \<rparr> \<Longrightarrow>
      ob (fst (h ch w)) = (fst (ob w) @ [WSave st (snd (h ch w) = None)], st)"
    and some_hot: "su_BeforeHot S \<noteq> None"
begin

abbreviation Inv :: "'a runner \<Rightarrow> bool" where
  "Inv \<equiv> run_kept ob p (cf_Channel (su_Cfg S)) v"

lemma Inv_firstWrite:
  assumes "Inv r"
  shows "Inv (fst (firstWrite S r))" "snd (firstWrite S r) = None \<Longrightarrow> rn_wrote (fst (firstWrite S r))"
proof -
  obtain b where b: "su_BeforeWrite S = Some b" using some_before by blast
  have m: "in_memory (cf_Channel (su_Cfg S)) v (rn_hot r) (fst (ob (rn_world r))) (snd (ob (rn_world r)))"
    using assms by (simp add: run_kept_def run_inv_def)
  note sv = run_inv_save [OF conjunct2 [OF assms [unfolded run_kept_def]] m]
  show "Inv (fst (firstWrite S r))"
    using assms has_before [OF b, of "rn_world r"] sv b
    by (cases p) (auto simp: firstWrite_def split_beta run_kept_def split: option.split)
  show "snd (firstWrite S r) = None \<Longrightarrow> rn_wrote (fst (firstWrite S r))"
    by (auto simp: firstWrite_def split_beta split: option.splits if_splits)
qed

text \<open>A command to the channel of the run is covered: the state file lists it.\<close>

lemma Inv_own:
  assumes "Inv r" "rn_wrote r" "\<And>k. on_channel k cmd \<Longrightarrow> k = cf_Channel (su_Cfg S)"
  shows "proper (cf_Channel (su_Cfg S)) v (rn_hot r) (fst (ob (rn_world r)) @ [WCmd cmd]) \<and>
    in_memory (cf_Channel (su_Cfg S)) v (rn_hot r) (fst (ob (rn_world r)) @ [WCmd cmd]) (snd (ob (rn_world r)))"
proof -
  let ?c = "cf_Channel (su_Cfg S)" and ?l = "fst (ob (rn_world r))" and ?st = "snd (ob (rn_world r))"
  have i: "run_inv ?c v ?l ?st (rn_touched r) True (rn_RestoreOverrides r) (rn_hot r)" using assms(1,2) by (simp add: run_kept_def)
  obtain d where d: "disk None ?l = Some d" "carries d ?c v (rn_hot r)" using i by (auto simp: run_inv_def)
  have k: "cmd_channel cmd = Some k \<Longrightarrow> k = ?c" for k using assms(3) [of k] by (simp add: on_channel_iff)
  have "carries ?st ?c v (rn_hot r)" using i by (simp add: run_inv_def in_memory_def)
  then show ?thesis
    using carries_listed [OF d(2)] carries_listed k by (intro run_inv_covered [OF i d(1)]) (auto simp: covered_def split: option.split)
qed

lemma Inv_command:
  assumes "Inv r" "rn_wrote r" "safe_cmd cmd" "\<And>k. on_channel k cmd \<Longrightarrow> k = ch" "ch = cf_Channel (su_Cfg S)"
    and "ob (rn_world r') = (fst (ob (rn_world r)) @ [WCmd cmd], snd (ob (rn_world r)))" "rn_touched r' = (rn_touched r)(ch := True)"
    "rn_wrote r' = rn_wrote r" "rn_RestoreOverrides r' = rn_RestoreOverrides r" "rn_hot r' = rn_hot r"
  shows "Inv r'"
proof -
  have "\<And>k. on_channel k cmd \<Longrightarrow> k = cf_Channel (su_Cfg S)" using assms(4,5) by blast
  from Inv_own [OF assms(1,2) this] show ?thesis
    using run_inv_command [OF _ assms(3,4)] assms(1,2,5-) by (simp add: run_kept_def)
qed

lemma Inv_write: "Inv r \<Longrightarrow> ch = cf_Channel (su_Cfg S) \<Longrightarrow> Inv (fst (write_duty S ch duty r))"
proof -
  assume I: "Inv r" and ch: "ch = cf_Channel (su_Cfg S)"
  let ?f = "firstWrite S r"
  note f = Inv_firstWrite [OF I]
  show ?thesis
  proof (cases "\<not> (duty < MinDuty \<or> duty > 255) \<and> snd ?f = None")
    case True
    let ?e = "snd (e_WriteDuty (su_Env S) ch duty (rn_world (fst ?f)))"
    have "safe_cmd (CDuty ch duty (?e = None))" using True by (simp add: safe_cmd_def)
    then show ?thesis
      by (intro Inv_command [OF f(1), of "CDuty ch duty (?e = None)" ch])
        (use True f(2) ch in \<open>simp_all add: write_duty_def Let_def split_beta on_channel_def touch_update ob_duty split: option.split\<close>)
  next
    case False
    then show ?thesis using I f by (auto simp: write_duty_def split_beta split: option.split)
  qed
qed

lemma Inv_manual: "Inv r \<Longrightarrow> ch = cf_Channel (su_Cfg S) \<Longrightarrow> Inv (fst (manual S ch r))"
proof -
  assume I: "Inv r" and ch: "ch = cf_Channel (su_Cfg S)"
  let ?f = "firstWrite S r"
  note f = Inv_firstWrite [OF I]
  show ?thesis
  proof (cases "snd ?f = None")
    case True
    let ?e = "snd (e_EnterManual (su_Env S) ch (rn_world (fst ?f)))"
    show ?thesis
      by (rule Inv_command [OF f(1), of "CManual ch (?e = None)" ch])
        (use True f(2) ch in \<open>simp_all add: manual_def Let_def split_beta on_channel_def safe_cmd_def touch_update ob_manual split: option.split\<close>)
  next
    case False
    then show ?thesis using f by (auto simp: manual_def split_beta split: option.split)
  qed
qed

lemma Inv_auto: "Inv r \<Longrightarrow> ch = cf_Channel (su_Cfg S) \<Longrightarrow> Inv (fst (auto_cmd S ch r))"
proof -
  assume I: "Inv r" and ch: "ch = cf_Channel (su_Cfg S)"
  let ?f = "firstWrite S r"
  note f = Inv_firstWrite [OF I]
  show ?thesis
  proof (cases "snd ?f = None")
    case True
    let ?e = "snd (e_Auto (su_Env S) ch (rn_world (fst ?f)))"
    show ?thesis
      by (rule Inv_command [OF f(1), of "CAuto ch (?e = None)" ch])
        (use True f(2) ch in \<open>simp_all add: auto_cmd_def Let_def split_beta on_channel_def safe_cmd_def touch_update ob_auto split: option.split\<close>)
  next
    case False
    then show ?thesis using f by (auto simp: auto_cmd_def split_beta split: option.split)
  qed
qed

lemma Inv_mark: "Inv r \<Longrightarrow> Inv (mark_hot r)"
  by (auto simp: mark_hot_def Let_def run_kept_def run_inv_def cmd_inv_def HotChannel_def touch_update touch_sel)

text \<open>
  After the attempt to store the channel with 255 the file in memory lists it; the one on disk does,
  or the attempt failed.
\<close>

lemma Inv_before_hot:
  assumes I: "Inv r" and w: "rn_wrote r" and ch: "ch = rn_hot r"
  shows "Inv (before_hot S ch whn r)" "listed (snd (ob (rn_world (before_hot S ch whn r)))) ch"
    "\<exists>d. disk None (fst (ob (rn_world (before_hot S ch whn r)))) = Some d \<and>
       (listed d ch \<or> failed_hot (fst (ob (rn_world (before_hot S ch whn r)))) ch)"
proof -
  let ?c = "cf_Channel (su_Cfg S)" and ?w = "rn_world r"
  obtain h where h: "su_BeforeHot S = Some h" using some_hot by blast
  let ?st = "(snd (ob ?w))\<lparr> gf_Channels := put_channel (itoa ch) ''255'' (gf_Channels (snd (ob ?w))) \<rparr>"
  let ?ok = "snd (h ch ?w) = None"
  have p: "p" using I w by (simp add: run_kept_def)
  have o: "ob (fst (h ch ?w)) = (fst (ob ?w) @ [WSave ?st ?ok], ?st)" by (rule ob_hot [OF h p]) simp
  have i: "run_inv ?c v (fst (ob ?w)) (snd (ob ?w)) (rn_touched r) True (rn_RestoreOverrides r) (rn_hot r)"
    using I w by (simp add: run_kept_def)
  have "in_memory ?c v (rn_hot r) (fst (ob ?w)) (snd (ob ?w))" using i by (simp add: run_inv_def)
  then have m: "in_memory ?c v (rn_hot r) (fst (ob ?w)) ?st" "listed ?st ch" "map_of (gf_Channels ?st) (itoa ch) = Some ''255''"
    using in_memory_put [of ?c v "rn_hot r" "fst (ob ?w)" "snd (ob ?w)" ?st] ch by simp_all
  have b: "ob (rn_world (before_hot S ch whn r)) = (fst (ob ?w) @ [WSave ?st ?ok], ?st)"
    using o h by (simp add: before_hot_def split_beta split: option.split)
  have "run_inv ?c v (fst (ob ?w) @ [WSave ?st ?ok]) ?st (rn_touched r) True (rn_RestoreOverrides r) (rn_hot r)"
    by (rule run_inv_save(1) [OF i m(1)])
  then show "Inv (before_hot S ch whn r)" using I w b by (simp add: run_kept_def)
  show "listed (snd (ob (rn_world (before_hot S ch whn r)))) ch" using m(2) b by simp
  obtain d where "disk None (fst (ob ?w)) = Some d" using i by (auto simp: run_inv_def)
  then show "\<exists>d. disk None (fst (ob (rn_world (before_hot S ch whn r)))) = Some d \<and>
      (listed d ch \<or> failed_hot (fst (ob (rn_world (before_hot S ch whn r)))) ch)"
    using m(2,3) b by (auto simp: failed_hot_def)
qed

lemma check_hot_kept:
  assumes "check_hot S ch whn why t0 r = Some (r', ok)"
  shows "ob (rn_world r') = ob (rn_world r)" "rn_touched r' = rn_touched r" "rn_wrote r' = rn_wrote r"
    "rn_RestoreOverrides r' = rn_RestoreOverrides r" "rn_hot r' = rn_hot r" "ok"
proof -
  have w: "ob w = ob (rn_world r)" if "WaitDCR (wait_env_of (su_Env S)) t0 regs 255 st st (rn_world r) = Some (w, s)" for w s regs st
    using WaitDCR_inv [OF that, of "\<lambda>w. ob w = ob (rn_world r)"] by (simp add: wait_env_of_def)
  show "ob (rn_world r') = ob (rn_world r)" "rn_touched r' = rn_touched r" "rn_wrote r' = rn_wrote r"
    "rn_RestoreOverrides r' = rn_RestoreOverrides r" "rn_hot r' = rn_hot r" "ok"
    using assms w by (auto simp: check_hot_def Let_def split: if_splits option.splits)
qed

lemma Inv_restoreHot:
  assumes I: "Inv r" and w: "rn_wrote r" and t: "rn_touched r ch" and h: "ch = rn_hot r" "rn_hot r \<noteq> 0"
    and run: "restoreHot S ch whn r = Some (r', ok)"
  shows "Inv (if ok then untouch ch r' else r')"
proof -
  let ?E = "su_Env S" and ?c = "cf_Channel (su_Cfg S)"
  define r1 where "r1 = before_hot S ch whn r"
  obtain w1 t0 where n: "e_Now ?E (rn_world r1) = (w1, t0)" by fastforce
  obtain w2 e1 where em: "e_EnterManual ?E ch w1 = (w2, e1)" by fastforce
  obtain w3 e2 where wd: "e_WriteDuty ?E ch 255 w2 = (w3, e2)" by fastforce
  obtain l st where l: "ob (rn_world r1) = (l, st)" by fastforce
  have b: "rn_touched r1 = rn_touched r" "rn_wrote r1" "rn_RestoreOverrides r1 = rn_RestoreOverrides r" "rn_hot r1 = rn_hot r"
    using w by (simp_all add: r1_def)
  note bh = Inv_before_hot [OF I w h(1), of whn, folded r1_def]
  have J: "run_inv ?c v l st (rn_touched r) True (rn_RestoreOverrides r) (rn_hot r)" and p: "p"
    using bh(1) b l w I by (simp_all add: run_kept_def)
  obtain d where d: "disk None l = Some d" "listed d ch \<or> failed_hot l ch" "listed st ch" using bh(2,3) l by auto
  have o1: "ob w1 = (l, st)" using ob_now [of "rn_world r1"] n l by simp
  have o2: "ob w2 = (l @ [WCmd (CManual ch (e1 = None))], st)" using ob_manual [of ch w1] em o1 by simp
  have o3: "ob w3 = ((l @ [WCmd (CManual ch (e1 = None))]) @ [WCmd (CDuty ch 255 (e2 = None))], st)"
    using ob_duty [of ch 255 w2] wd o2 by simp
  have s: "safe_cmd (CDuty ch 255 b)" "on_channel k (CDuty ch 255 b) \<longleftrightarrow> k = ch" "hot_cmd ch (CDuty ch 255 b)"
     "safe_cmd (CManual ch b)" "on_channel k (CManual ch b) \<longleftrightarrow> k = ch" "hot_cmd ch (CManual ch b)" for b k
    by (auto simp: safe_cmd_def on_channel_def MinDuty_def hot_cmd_def)
  have tt: "(rn_touched r)(ch := True) = rn_touched r" using t by (simp add: fun_upd_idem)
  have cov: "covered d (rn_hot r) m cmd" if "m = l \<or> m = l @ [WCmd x]" "hot_cmd ch cmd" "\<And>k. on_channel k cmd \<longleftrightarrow> k = ch" for m x cmd
    using d(2) h that by (auto simp: covered_def on_channel_iff split: option.split)
  have q1: "proper ?c v (rn_hot r) (l @ [WCmd (CManual ch b)]) \<and> in_memory ?c v (rn_hot r) (l @ [WCmd (CManual ch b)]) st" for b
    by (rule run_inv_covered [OF J d(1) cov]) (use s d(3) in \<open>auto simp: on_channel_iff [symmetric]\<close>)
  have i2: "run_inv ?c v (l @ [WCmd (CManual ch b)]) st (rn_touched r) True (rn_RestoreOverrides r) (rn_hot r)" for b
    using run_inv_command [OF J, of "CManual ch b" ch] s tt h q1 by simp
  have q2: "proper ?c v (rn_hot r) ((l @ [WCmd (CManual ch b)]) @ [WCmd (CDuty ch 255 q)]) \<and>
      in_memory ?c v (rn_hot r) ((l @ [WCmd (CManual ch b)]) @ [WCmd (CDuty ch 255 q)]) st" for b q
    by (rule run_inv_covered [OF i2 _ cov]) (use s d in \<open>auto simp: on_channel_iff [symmetric]\<close>)
  have i3: "run_inv ?c v ((l @ [WCmd (CManual ch b)]) @ [WCmd (CDuty ch 255 q)]) st (rn_touched r) True (rn_RestoreOverrides r) (rn_hot r)" for b q
    using run_inv_command [OF i2, of "CDuty ch 255 q" ch b] s tt h q2 by simp
  note run' = run [unfolded restoreHot_def Let_def, folded r1_def, unfolded n prod.case write_hot_def]
  consider e where "e1 = Some e" | e where "e1 = None" "e2 = Some e" | "e1 = None" "e2 = None" by fastforce
  then show ?thesis
  proof cases
    case 1
    then have "Inv r'" "\<not> ok" using run' em o2 i2 b p by (auto simp: run_kept_def)
    then show ?thesis by simp
  next
    case 2
    then have "Inv r'" "\<not> ok" using run' em wd o3 i3 b p by (auto simp: run_kept_def simp del: append_assoc)
    then show ?thesis by simp
  next
    case 3
    define why where "why = hot_why (rn_hotWhy r)"
    define r3 where "r3 = r1\<lparr> rn_world := w3 \<rparr>"
    define r4 where "r4 = r3\<lparr> rn_RestoreOverrides := (rn_RestoreOverrides r3)(ch := why), rn_restoreErr := (rn_restoreErr r3)(ch := []) \<rparr>"
    have c: "check_hot S ch whn why t0 r4 = Some (r', ok)"
      using run' em wd 3 by (simp add: r4_def r3_def why_def)
    note f = check_hot_kept [OF c]
    have "run_inv ?c v ((l @ [WCmd (CManual ch True)]) @ [WCmd (CDuty ch 255 True)]) st ((rn_touched r)(ch := False)) True
        ((rn_RestoreOverrides r)(ch := why)) (rn_hot r)"
      by (rule run_inv_rest [OF i2, of _ ch]) (use s h q2 in \<open>simp_all add: at_rest_snoc why_def del: append_assoc\<close>)
    then show ?thesis using f 3 o3 b p by (simp add: run_kept_def r4_def r3_def untouch_def)
  qed
qed

lemma Inv_restore:
  assumes I: "Inv r" and t: "rn_touched r ch" and run: "restore_untouch S ch whn r = Some r'"
  shows "Inv r'"
proof -
  let ?c = "cf_Channel (su_Cfg S)"
  have w: "rn_wrote r" and c: "ch = ?c \<or> ch = rn_hot r \<and> rn_hot r \<noteq> 0" and nz: "?c \<noteq> 0" using I t by (auto simp: run_kept_def run_inv_def cmd_inv_def)
  obtain r1 ok where r1: "restore S ch whn r = Some (r1, ok)" "r' = (if ok then untouch ch r1 else r1)"
    using run by (auto simp: restore_untouch_def split: option.splits)
  show ?thesis
  proof (cases "ch = HotChannel r")
    case True
    have "ch = rn_hot r \<and> rn_hot r \<noteq> 0" using True c w nz by (auto simp: HotChannel_def split: if_splits)
    then show ?thesis using Inv_restoreHot [OF I w t] r1 True by (simp add: restore_def)
  next
    case False
    then have ch: "ch = ?c" using c w by (auto simp: HotChannel_def)
    obtain w' e where e: "e_Restore (su_Env S) ch (rn_world r) = (w', e)" by fastforce
    have o: "ob w' = (fst (ob (rn_world r)) @ [WCmd (CRestore ch (restored e))], snd (ob (rn_world r)))"
      using ob_restore [of ch "rn_world r"] e by simp
    have f: "ob (rn_world r1) = ob w' \<and> rn_touched r1 = rn_touched r \<and> rn_wrote r1 = rn_wrote r \<and>
      rn_RestoreOverrides r1 = rn_RestoreOverrides r \<and> rn_hot r1 = rn_hot r \<and> ok = restored e"
      using r1(1) False e
      by (cases e rule: option.exhaust; (cases "the e")?) (auto simp: restore_def Let_def restored_def)
    have s: "safe_cmd (CRestore ch b)" "on_channel k (CRestore ch b) \<longleftrightarrow> k = ch" for b k
      by (auto simp: safe_cmd_def on_channel_def)
    have J: "run_inv ?c v (fst (ob (rn_world r))) (snd (ob (rn_world r))) (rn_touched r) True (rn_RestoreOverrides r) (rn_hot r)"
      using I w by (simp add: run_kept_def)
    show ?thesis
    proof (cases ok)
      case True
      have "run_inv ?c v (fst (ob (rn_world r)) @ [WCmd (CRestore ch True)]) (snd (ob (rn_world r))) ((rn_touched r)(ch := False)) True
          (rn_RestoreOverrides r) (rn_hot r)"
        by (rule run_inv_rest [OF J, of _ ch]) (use s ch Inv_own [OF I w, of "CRestore ch True"] in \<open>simp_all add: at_rest_def last_cmd_snoc\<close>)
      then show ?thesis using True f o w r1(2) I by (simp add: run_kept_def untouch_def)
    next
      case no: False
      have "Inv r1"
        by (rule Inv_command [OF I w, of "CRestore ch False" ch]) (use no f o s ch t in \<open>simp_all add: fun_upd_idem\<close>)
      then show ?thesis using no r1(2) by simp
    qed
  qed
qed

lemma Inv_sample: "Inv r \<Longrightarrow> Inv (fst (sampleAt S phase written due r))"
  using sampleAt_hot [of r S phase written due] run_inv_hot by (cases "rn_hot r = 0") (auto simp: run_kept_def)

end

sublocale saved_runner \<subseteq> keeps: runner_inv S Inv
  by unfold_locales
    (simp_all add: Inv_write Inv_manual Inv_auto Inv_mark Inv_sample Inv_restore, simp_all add: run_kept_def)

section \<open>A desk that keeps the list\<close>

definition beside :: "('w \<Rightarrow> 'w \<times> 'b) \<Rightarrow> 'w \<times> 'e \<Rightarrow> ('w \<times> 'e) \<times> 'b" where
  "beside f = (\<lambda>(w, l). case f w of (w', x) \<Rightarrow> ((w', l), x))"

definition noted :: "('b \<Rightarrow> watch) \<Rightarrow> ('w \<Rightarrow> 'w \<times> 'b) \<Rightarrow> 'w \<times> watch list \<Rightarrow> ('w \<times> watch list) \<times> 'b" where
  "noted g f = (\<lambda>(w, l). case f w of (w', x) \<Rightarrow> ((w', l @ [g x]), x))"

definition watched_env :: "'w Env \<Rightarrow> ('w \<times> watch list) Env" where
  "watched_env E =
     \<lparr> e_Now = beside (e_Now E), e_Sleep = (\<lambda>bg d. beside (e_Sleep E bg d)),
       e_EnterManual = (\<lambda>ch. noted (\<lambda>e. WCmd (CManual ch (e = None))) (e_EnterManual E ch)),
       e_WriteDuty = (\<lambda>ch d. noted (\<lambda>e. WCmd (CDuty ch d (e = None))) (e_WriteDuty E ch d)),
       e_Auto = (\<lambda>ch. noted (\<lambda>e. WCmd (CAuto ch (e = None))) (e_Auto E ch)),
       e_Restore = (\<lambda>ch. noted (\<lambda>e. WCmd (CRestore ch (restored e))) (e_Restore E ch)),
       e_DCR = beside (e_DCR E), e_Read = beside (e_Read E) \<rparr>"

definition watched_desk :: "'w desk \<Rightarrow> ('w \<times> watch list) desk" where
  "watched_desk D =
     \<lparr> dk_Env = watched_env (dk_Env D), dk_Check = map_option beside (dk_Check D), dk_Cancelled = (\<lambda>(w, l). dk_Cancelled D w),
       dk_ECRAM = (\<lambda>(w, l). dk_ECRAM D w), dk_Create = (\<lambda>d. beside (dk_Create D d)), dk_Event = (\<lambda>t (w, l). (dk_Event D t w, l)),
       dk_Sample = (\<lambda>s (w, l). (dk_Sample D s w, l)), dk_Json = (\<lambda>n j. beside (dk_Json D n j)), dk_Finish = beside (dk_Finish D),
       dk_Save = (\<lambda>st. noted (\<lambda>e. WSave st (e = None)) (dk_Save D st)), dk_Print = (\<lambda>t (w, l). (dk_Print D t w, l)) \<rparr>"

definition watch_of :: "('w \<times> watch list) mem \<Rightarrow> watch list \<times> state_file" where
  "watch_of p = (snd (fst p), snd p)"

definition watched :: "('w \<times> watch list) mem runner \<Rightarrow> watch list" where
  "watched r = snd (fst (rn_world r))"

lemma outer_sel [simp]: "fst (fst (outer f p)) = fst (f (fst p))" "snd (fst (outer f p)) = snd p" "snd (outer f p) = snd (f (fst p))"
  by (simp_all add: outer_def split_beta)

lemma beside_sel [simp]: "snd (fst (beside f p)) = snd p" "fst (fst (beside f p)) = fst (f (fst p))" "snd (beside f p) = snd (f (fst p))"
  by (simp_all add: beside_def split_beta)

lemma noted_sel [simp]: "snd (fst (noted g f p)) = snd p @ [g (snd (f (fst p)))]" "snd (noted g f p) = snd (f (fst p))"
  by (simp_all add: noted_def split_beta)

lemma setup_env [simp]:
  "su_Env (base_setup D V) = outer_env (dk_Env D)" "su_Env (open_setup D V) = outer_env (dk_Env D)"
  "su_Env (write_setup D V t) = outer_env (dk_Env D)" "su_Cfg (base_setup D V) = op_cfg (vw_Opts V)"
  "su_Cfg (open_setup D V) = op_cfg (vw_Opts V)" "su_Cfg (write_setup D V t) = op_cfg (vw_Opts V)"
  by (simp_all add: base_setup_def open_setup_def write_setup_def)

lemma watched_quiet: "watched_runner (write_setup (watched_desk D) V t) watch_of" "watched_runner (open_setup (watched_desk D) V) watch_of"
  "watched_runner (base_setup (watched_desk D) V) watch_of"
  by (unfold_locales;
      auto simp: watch_of_def watched_desk_def watched_env_def outer_env_def base_setup_def open_setup_def write_setup_def split_beta)+

interpretation opened: watched_runner "open_setup (watched_desk D) V" watch_of for D :: "'w desk" and V
  by (rule watched_quiet)

interpretation begun: watched_runner "base_setup (watched_desk D) V" watch_of for D :: "'w desk" and V
  by (rule watched_quiet)

lemma hook_event_watch: "watch_of (hook_event (watched_desk D) t txt p) = watch_of p"
  by (simp add: hook_event_def watch_of_def watched_desk_def watched_env_def split_beta)

lemma save_watch:
  "watch_of (fst (save_state (watched_desk D) t txt p)) =
     (fst (watch_of p) @ [WSave (snd p) (snd (save_state (watched_desk D) t txt p) = None)], snd (watch_of p))"
  by (cases "dk_Save (watched_desk D) (snd p) (fst p)"; cases "snd (dk_Save (watched_desk D) (snd p) (fst p))")
    (auto simp: save_state_def split_beta hook_event_watch, auto simp: watch_of_def watched_desk_def noted_def split_beta)

interpretation writer: saved_runner "write_setup (watched_desk D) V t" watch_of v "vw_StatePath V \<noteq> ''''" for D :: "'w desk" and V t v
proof (intro saved_runner.intro watched_quiet saved_runner_axioms.intro)
  fix b :: "('w \<times> watch list) mem \<Rightarrow> ('w \<times> watch list) mem \<times> string option" and w :: "('w \<times> watch list) mem"
  assume "su_BeforeWrite (write_setup (watched_desk D) V t) = Some b"
  then have b: "b = before_write (watched_desk D) V t" by (simp add: write_setup_def)
  show "if vw_StatePath V \<noteq> '''' then watch_of (fst (b w)) = (fst (watch_of w) @ [WSave (snd (watch_of w)) (snd (b w) = None)], snd (watch_of w))
      else watch_of (fst (b w)) = watch_of w \<and> snd (b w) \<noteq> None"
    using save_watch [of D t "written_text V" w] by (simp add: b before_write_def watch_of_def)
next
  fix h :: "int \<Rightarrow> ('w \<times> watch list) mem \<Rightarrow> ('w \<times> watch list) mem \<times> string option" and ch st and w :: "('w \<times> watch list) mem"
  assume "su_BeforeHot (write_setup (watched_desk D) V t) = Some h" "vw_StatePath V \<noteq> ''''"
    and st: "st = (snd (watch_of w))\<lparr> gf_Channels := put_channel (itoa ch) ''255'' (gf_Channels (snd (watch_of w))) \<rparr>"
  then have h: "h ch w = save_state (watched_desk D) t (written_hot_text V ch) (fst w, st)"
    by (auto simp: write_setup_def before_hot_state_def watch_of_def split_beta)
  show "watch_of (fst (h ch w)) = (fst (watch_of w) @ [WSave st (snd (h ch w) = None)], st)"
    using save_watch [of D t "written_hot_text V ch" "(fst w, st)"] by (simp add: h watch_of_def)
qed (simp_all add: write_setup_def watch_of_def watched_desk_def watched_env_def outer_env_def open_setup_def base_setup_def)

end
