(* ===== verification/Validate_Facts.thy ===== *)
theory Validate_Facts
  imports Validate_Watch Runner_Properties
begin

text \<open>
  The whole run: what every step of \<open>run_body\<close> keeps is kept by the run (locale \<open>whole_run\<close>), for a
  run with a state file and for one that may not write; what a finished run says, and that it returns.
\<close>

section \<open>From steps to the run\<close>

lemma ask_desk_sel [simp]:
  "rn_touched (fst (ask_desk g r)) = rn_touched r" "rn_wrote (fst (ask_desk g r)) = rn_wrote r"
  "rn_dcrOK (fst (ask_desk g r)) = rn_dcrOK r" "rn_Abort (fst (ask_desk g r)) = rn_Abort r" "rn_start (fst (ask_desk g r)) = rn_start r"
  "rn_restoreErr (fst (ask_desk g r)) = rn_restoreErr r" "rn_hot (fst (ask_desk g r)) = rn_hot r"
  "rn_RestoreOverrides (fst (ask_desk g r)) = rn_RestoreOverrides r"
  by (simp_all add: ask_desk_def split_beta)

lemma say_sel [simp]:
  "rn_touched (say D ls r) = rn_touched r" "rn_wrote (say D ls r) = rn_wrote r" "rn_dcrOK (say D ls r) = rn_dcrOK r"
  "rn_Abort (say D ls r) = rn_Abort r" "rn_start (say D ls r) = rn_start r" "rn_hot (say D ls r) = rn_hot r"
  "rn_restoreErr (say D ls r) = rn_restoreErr r" "rn_RestoreOverrides (say D ls r) = rn_RestoreOverrides r"
  by (simp_all add: say_def)

text \<open>What is checked before a test may write.\<close>

locale checked_run = quiet_steps S I for S :: "'w mem Setup" and I :: "'w mem runner \<Rightarrow> bool" +
  fixes D :: "'w desk" and V :: rig_view
  assumes keep_limits: "I r \<Longrightarrow> I (r\<lparr> rn_LimitSensors := m \<rparr>)"
    and keep_say: "I r \<Longrightarrow> I (say D ls r)"
begin

lemma Gates_keeps: "I r \<Longrightarrow> I (fst (Gates S r))"
  by (simp add: Gates_def gate_result_def Let_def split_beta quiet_keeps hold_keeps keep_limits split: option.split)

lemma window_gates_keeps: "I r \<Longrightarrow> I (fst (window_gates D V S r))"
  by (simp add: window_gates_def Let_def Gates_keeps keep_say)

lemma report_gates_keeps: "I r \<Longrightarrow> I (report_gates D V S gs r)"
  by (induction gs arbitrary: r) (simp_all add: keep_say event_keeps)

lemma run_checks_keeps: "I r \<Longrightarrow> I (fst (run_checks D V S r))"
  by (simp add: run_checks_def Let_def split_beta report_gates_keeps window_gates_keeps keep_sample stop_keeps)

end

text \<open>The tests may be blocked (\<open>B\<close>), then they do nothing.\<close>

locale whole_run = checked_run S I D V for S :: "'w mem Setup" and I :: "'w mem runner \<Rightarrow> bool" and D :: "'w desk" and V :: rig_view +
  fixes B :: "string \<Rightarrow> bool"
  assumes keep_close: "I r \<Longrightarrow> Close S r = Some r' \<Longrightarrow> I r'"
    and keep_json: "I r \<Longrightarrow> I (fst (ask_desk (dk_Json D n j) r))"
    and keep_finish: "I r \<Longrightarrow> I (fst (ask_desk (dk_Finish D) r))"
    and keep_clock: "I r \<Longrightarrow> I (fst (ask_desk (e_Now (dk_Env D)) r))"
    and keep_tests: "I r \<Longrightarrow> B blocked \<Longrightarrow> run_tests D V S blocked r = Some (r', res) \<Longrightarrow> I r'"
begin

lemma closeOnAbort_keeps: "I r \<Longrightarrow> closeOnAbort D S r = Some (r', b) \<Longrightarrow> I r'"
  using keep_close by (auto simp: closeOnAbort_def split: if_splits option.splits)

lemma all_tests_keeps:
  assumes "I r" "B blocked" "all_tests D V S blocked r = Some (r', res)"
  shows "I r'"
proof -
  obtain r1 res1 where r1: "run_tests D V S blocked r = Some (r1, res1)"
    using assms(3) by (auto simp: all_tests_def split: option.splits)
  then obtain r2 b where r2: "closeOnAbort D S r1 = Some (r2, b)"
    using assms(3) by (auto simp: all_tests_def split: option.splits)
  then have "Close S r2 = Some r'" using assms(3) r1 by (auto simp: all_tests_def Let_def split: option.splits)
  then show ?thesis using keep_close closeOnAbort_keeps [OF keep_tests [OF assms(1,2) r1] r2] by blast
qed

lemma write_files_keeps: "I r \<Longrightarrow> I (fst (write_files D meta verdict has r))"
  by (simp add: write_files_def Let_def split_beta keep_json keep_finish)

text \<open>The end: \<open>Close\<close> once more, then the mark.\<close>

lemma end_of_run_keeps:
  assumes "I r" "end_of_run D V S dir has blocked gates tables results r = Some (rc, r')"
  shows "\<exists>q. I q \<and> r' = mark_restored D V has q"
proof -
  let ?c = "ask_desk (e_Now (dk_Env D)) r"
  let ?e = "event S (finish_text (fst ?c)) (fst ?c)"
  let ?w = "write_files D (run_meta V (rn_start (fst ?c)) (snd ?c) gates tables (Unrestored r) (fst ?c)) (run_verdict V results) has ?e"
  have w: "I (fst ?w)" by (intro write_files_keeps event_keeps keep_clock assms(1))
  obtain ls q where "Close S (say D ls (fst ?w)) = Some q" "r' = mark_restored D V has q"
    using assms(2) by (auto simp: end_of_run_def Let_def split_beta split: option.splits)
  then show ?thesis using keep_close keep_say [OF w] by blast
qed

lemma run_body_keeps:
  assumes "I r" "run_body D V S dir has early r = Some (rc, r')" "B (blocked_late early (fst (snd (run_checks D V S r))))"
  shows "\<exists>q. I q \<and> r' = mark_restored D V has q"
proof -
  let ?k = "run_checks D V S r"
  obtain r5 results where t: "all_tests D V S (blocked_late early (fst (snd ?k))) (fst ?k) = Some (r5, results)"
    and e: "end_of_run D V S dir has (blocked_late early (fst (snd ?k))) (fst (snd ?k)) (snd (snd ?k)) results r5 = Some (rc, r')"
    using assms(2) by (auto simp: run_body_def Let_def split_beta split: option.splits)
  show ?thesis by (rule end_of_run_keeps [OF all_tests_keeps [OF run_checks_keeps [OF assms(1)] assms(3) t] e])
qed

end


section \<open>A run that commands the machine\<close>

locale commanding_run = runner_inv S I for S :: "'w mem Setup" and I :: "'w mem runner \<Rightarrow> bool" +
  fixes D :: "'w desk" and V :: rig_view
  assumes say_keeps: "I r \<Longrightarrow> I (say D ls r)"
    and json_keeps: "I r \<Longrightarrow> I (fst (ask_desk (dk_Json D n j) r))"
    and finish_keeps: "I r \<Longrightarrow> I (fst (ask_desk (dk_Finish D) r))"
    and clock_keeps: "I r \<Longrightarrow> I (fst (ask_desk (e_Now (dk_Env D)) r))"
begin

lemma stops_keep: "I r \<Longrightarrow> closeOnAbort D S r = Some (r', b) \<Longrightarrow> I r'"
  using Close_keeps by (auto simp: closeOnAbort_def split: if_splits option.splits)

lemma mapping_keeps:
  assumes "I r" "run_mapping D V S r = Some (r', res)"
  shows "I r'"
proof -
  obtain r1 b where c: "closeOnAbort D S r = Some (r1, b)" using assms(2) by (auto simp: run_mapping_def split: option.splits)
  have I1: "I r1" using stops_keep [OF assms(1) c] .
  show ?thesis using assms(2) c I1 RunT1_keeps [OF say_keeps [OF I1]] by (cases b) (auto simp: run_mapping_def split: option.splits)
qed

lemma handback_keeps:
  assumes "I r" "run_handback D V S r = Some (r', res)"
  shows "I r'"
proof -
  obtain r1 b where c: "closeOnAbort D S r = Some (r1, b)" using assms(2) by (auto simp: run_handback_def split: option.splits)
  have I1: "I r1" using stops_keep [OF assms(1) c] .
  then have "I (if vwriting V then say D [''T2/T3 hand-back and settling ...''] r1 else r1)" by (simp add: say_keeps)
  from RunHandback_keeps [OF this] show ?thesis
    using assms(2) c I1 by (cases b) (auto simp: run_handback_def split: option.splits)
qed

lemma run_tests_keeps: "I r \<Longrightarrow> run_tests D V S blocked r = Some (r', res) \<Longrightarrow> I r'"
  using mapping_keeps handback_keeps unfolding run_tests_def by (metis (no_types, lifting) option.inject prod.inject)

end

sublocale commanding_run \<subseteq> whole: whole_run S I D V "\<lambda>b. True"
proof unfold_locales
  fix blocked r r' res
  assume "I r" "run_tests D V S blocked r = Some (r', res)"
  then show "I r'" by (rule run_tests_keeps)
qed (simp_all add: keep_limits Close_keeps say_keeps json_keeps finish_keeps clock_keeps)

interpretation writing_run: commanding_run "write_setup (watched_desk D) V t" "run_kept watch_of (vw_StatePath V \<noteq> '''') (cf_Channel (op_cfg (vw_Opts V))) (value_of V (vch V))" "watched_desk D" V
  for D :: "'w desk" and V t
proof -
  let ?S = "write_setup (watched_desk D) V t" and ?I = "run_kept watch_of (vw_StatePath V \<noteq> '''') (cf_Channel (op_cfg (vw_Opts V))) (value_of V (vch V))"
  have s: "snd (fold (dk_Print (watched_desk D)) ls w) = snd w" for ls and w :: "'w \<times> watch list"
    by (induction ls arbitrary: w) (simp_all add: watched_desk_def split_beta)
  have "runner_inv ?S ?I" using writer.keeps.runner_inv_axioms [of D V t "value_of V (vch V)"] by simp
  then show "commanding_run ?S ?I (watched_desk D)"
    by (rule commanding_run.intro, unfold_locales)
      (simp_all add: run_kept_def say_def ask_desk_def watch_of_def outer_def split_beta s,
       simp_all add: watched_desk_def watched_env_def)
qed

section \<open>A run that may not command it\<close>

definition idle :: "('w \<times> watch list) mem runner \<Rightarrow> bool" where
  "idle r \<longleftrightarrow> watched r = [] \<and> (\<forall>ch. \<not> rn_touched r ch) \<and> \<not> rn_wrote r"

definition barred :: "rig_view \<Rightarrow> string \<Rightarrow> ('w \<times> watch list) mem runner \<Rightarrow> bool" where
  "barred V early r \<longleftrightarrow> idle r \<and> (vwriting V \<longrightarrow> early \<noteq> '''' \<or> \<not> rn_dcrOK r) \<and> cf_Channel (op_cfg (vw_Opts V)) = vch V"

lemma idle_Close: "idle r \<Longrightarrow> Close S r = Some r"
  by (simp add: idle_def Close_def mark_hot_def HotChannel_def Let_def)

lemma barred_tests:
  fixes D :: "('w \<times> watch list) desk"
  assumes "barred V early r" "run_tests D V (open_setup D V) blocked r = Some (r', res)" "early \<noteq> [] \<longrightarrow> blocked \<noteq> []"
    and "\<And>r ls. barred V early r \<Longrightarrow> barred V early (say D ls r)"
  shows "barred V early r'"
proof (cases "vwriting V \<and> blocked \<noteq> []")
  case True
  then show ?thesis using assms by (simp add: run_tests_def)
next
  case False
  have c: "Close S q = Some q" if "barred V early q" for S :: "('w \<times> watch list) mem Setup" and q :: "('w \<times> watch list) mem runner" using that by (simp add: barred_def idle_Close)
  have t1: "q' = q" if "barred V early q" "RunT1 (open_setup D V) q = Some (q', x)" "vwriting V" for q q' x
    using that False assms(3) by (auto simp: barred_def RunT1_def Let_def split: if_splits)
  have t2: "q' = q" if "barred V early q" "RunHandback (open_setup D V) q = Some (q', x)" for q q' x
    using that False assms(3)
    by (auto simp: barred_def RunHandback_def Let_def vwriting_def writing_def vch_def split: if_splits)
  have w: "vwriting V" if "op_test (vw_Opts V) = ''map''" using that by (simp add: vwriting_def writing_def)
  show ?thesis
    using assms(2) False assms(1) assms(4) [OF assms(1)] assms(3) c t1 t2 w
    by (auto simp: run_tests_def run_mapping_def run_handback_def closeOnAbort_def split: if_splits option.splits bool.splits) blast+
qed

interpretation barred_run: whole_run "open_setup (watched_desk D) V" "barred V early" "watched_desk D" V "\<lambda>b. early \<noteq> '''' \<longrightarrow> b \<noteq> ''''"
  for D :: "'w desk" and V early
proof -
  let ?S = "open_setup (watched_desk D) V"
  have s: "snd (fold (dk_Print (watched_desk D)) ls w) = snd w" for ls and w :: "'w \<times> watch list"
    by (induction ls arbitrary: w) (simp_all add: watched_desk_def split_beta)
  have y: "barred V early r \<Longrightarrow> barred V early (say (watched_desk D) ls r)" for r and ls
    by (simp add: barred_def idle_def watched_def say_def split_beta s)
  have ob: "watched (fst (eventAt ?S tx r)) = watched r" "watched (fst (sampleAt ?S phase wr due r)) = watched r" for tx phase wr due and r :: "('w \<times> watch list) mem runner"
    using opened.ob_eventAt [of D V tx r] opened.ob_sampleAt [of D V phase wr due r] by (simp_all add: watch_of_def watched_def)
  have d: "watched (fst (ask_desk (dk_Json (watched_desk D) n j) r)) = watched r" "watched (fst (ask_desk (dk_Finish (watched_desk D)) r)) = watched r"
    "watched (fst (ask_desk (e_Now (dk_Env (watched_desk D))) r)) = watched r"
    "watched (r\<lparr> rn_world := fst (e_Now (outer_env (dk_Env (watched_desk D))) (rn_world r)) \<rparr>) = watched r"
    "watched (r\<lparr> rn_world := fst (e_Sleep (outer_env (dk_Env (watched_desk D))) bg t (rn_world r)) \<rparr>) = watched r"
    for n j bg t and r :: "('w \<times> watch list) mem runner"
    by (simp_all add: watched_def ask_desk_def split_beta) (simp_all add: watched_desk_def watched_env_def outer_env_def)
  show "whole_run ?S (barred V early) (watched_desk D) V (\<lambda>b. early \<noteq> [] \<longrightarrow> b \<noteq> [])"
  proof
    fix r r' :: "('w \<times> watch list) mem runner"
    assume "barred V early r" "Close ?S r = Some r'"
    then show "barred V early r'" by (simp add: barred_def idle_Close)
  next
    fix blocked and r r' :: "('w \<times> watch list) mem runner" and res
    assume "barred V early r" "early \<noteq> [] \<longrightarrow> blocked \<noteq> []" "run_tests (watched_desk D) V ?S blocked r = Some (r', res)"
    then show "barred V early r'" using barred_tests y by blast
  qed (simp_all add: y, simp_all add: barred_def idle_def ob d, simp_all add: watched_def)
qed


section \<open>The parts before the body\<close>

lemma fold_watch: "snd (fold (dk_Print (watched_desk D)) ls w) = snd w" "snd (fold (dk_Event (watched_desk D)) ls w) = snd w"
  by (induction ls arbitrary: w) (simp_all add: watched_desk_def split_beta)

lemma idle_steps [simp]:
  "idle (say (watched_desk D) ls r) = idle r"
  "idle (fst (ask_desk (dk_Create (watched_desk D) d) r)) = idle r"
  "idle (fst (ask_desk (dk_Json (watched_desk D) n j) r)) = idle r"
  "idle (fst (ask_desk (dk_Finish (watched_desk D)) r)) = idle r"
  "idle (r\<lparr> rn_world := (case rn_world r of (w, st) \<Rightarrow> (fold (dk_Event (watched_desk D)) es w, st)) \<rparr>) = idle r"
  by (simp_all add: idle_def watched_def say_def ask_desk_def split_beta fold_watch) (simp_all add: watched_desk_def)

lemma idle_event [simp]:
  "idle (event (base_setup (watched_desk D) V) t r) = idle r" "idle (event (open_setup (watched_desk D) V) t r) = idle r"
  using begun.ob_event_world [of D V t r] opened.ob_event_world [of D V t r] by (simp_all add: idle_def watched_def watch_of_def)

lemma idle_start: "idle (NewRunner (outer_env (dk_Env (watched_desk D))) ((w, []), st))"
  by (simp add: NewRunner_def Let_def split_beta idle_def watched_def) (simp add: watched_desk_def watched_env_def outer_env_def)

lemma kept_start:
  assumes "idle r" "c \<noteq> 0" "c = vch V"
  shows "run_kept watch_of p c (value_of V (vch V)) (r\<lparr> rn_world := (fst (rn_world r), new_state_file V t dir) \<rparr>)"
proof -
  have "rn_touched r = (\<lambda>ch. False)" "watched r = []" "\<not> rn_wrote r" using assms(1) by (auto simp: idle_def)
  then show ?thesis
    using run_inv_start [of "new_state_file V t dir" c "value_of V (vch V)" "rn_hot r" "rn_RestoreOverrides r"] assms(2,3)
    by (simp add: run_kept_def watch_of_def watched_def new_state_file_def carries_def)
qed

text \<open>The view of a run as \<open>parseRunOpts\<close> makes it: the configuration is that of the channel.\<close>

definition own_channel :: "rig_view \<Rightarrow> bool" where
  "own_channel V \<longleftrightarrow> cf_Channel (op_cfg (vw_Opts V)) = vch V \<and> vch V \<noteq> 0"

text \<open>What a writing run needs before it starts: asked and confirmed, no failed gate.\<close>

definition may_write :: "rig_view \<Rightarrow> bool" where
  "may_write V \<longleftrightarrow> vwriting V \<and> trim_space (vw_Typed V) = confirmText \<and> blocked_by (vw_Gates V) = ''''"

text \<open>
  A run that gets to its tests with writing. From a state in which nothing was commanded (and the
  registers are readable) the checks, the sampling of G3 and G4 among them, end with nothing commanded
  and no gate but G6 failed; then come the tests, and the end of the run.
\<close>

definition gated_run :: "'w desk \<Rightarrow> rig_view \<Rightarrow> int \<Rightarrow> ('w \<times> watch list) mem runner \<Rightarrow> bool" where
  "gated_run D V rc r \<longleftrightarrow>
     (\<exists>t dir q r4 gates tables r5 results.
        let D' = watched_desk D; S = write_setup D' V t
        in watched q = [] \<and> rn_dcrOK q \<and> run_checks D' V S q = (r4, gates, tables) \<and> watched r4 = [] \<and>
           list_all (\<lambda>g. failed_gate g \<longrightarrow> g_ID g = ''G6'') gates \<and>
           all_tests D' V S '''' r4 = Some (r5, results) \<and>
           end_of_run D' V S dir True '''' gates tables results r5 = Some (rc, r))"

lemma late_passed: "blocked_late early gs = '''' \<Longrightarrow> early = '''' \<and> list_all (\<lambda>g. failed_gate g \<longrightarrow> g_ID g = ''G6'') gs"
  by (auto simp: blocked_late_def find_None_iff list_all_iff split: if_splits option.splits)

definition waiting :: "rig_view \<Rightarrow> ('w \<times> watch list) mem runner \<Rightarrow> bool" where
  "waiting V r \<longleftrightarrow> idle r \<and> vwriting V"

interpretation waiting_run: whole_run "write_setup (watched_desk D) V t" "waiting V" "watched_desk D" V "\<lambda>b. b \<noteq> ''''"
  for D :: "'w desk" and V t
proof -
  let ?S = "write_setup (watched_desk D) V t"
  have ob: "watched (fst (eventAt ?S tx r)) = watched r" "watched (fst (sampleAt ?S phase wr due r)) = watched r" for tx phase wr due and r :: "('w \<times> watch list) mem runner"
    using writer.ob_eventAt [of D V t tx r] writer.ob_sampleAt [of D V t phase wr due r] by (simp_all add: watch_of_def watched_def)
  have d: "watched (fst (ask_desk (e_Now (dk_Env (watched_desk D))) r)) = watched r"
    "watched (r\<lparr> rn_world := fst (e_Now (outer_env (dk_Env (watched_desk D))) (rn_world r)) \<rparr>) = watched r"
    "watched (r\<lparr> rn_world := fst (e_Sleep (outer_env (dk_Env (watched_desk D))) bg x (rn_world r)) \<rparr>) = watched r"
    for bg x and r :: "('w \<times> watch list) mem runner"
    by (simp_all add: watched_def ask_desk_def split_beta) (simp_all add: watched_desk_def watched_env_def outer_env_def)
  show "whole_run ?S (waiting V) (watched_desk D) V (\<lambda>b. b \<noteq> [])"
  proof
    fix r r' :: "('w \<times> watch list) mem runner"
    assume "waiting V r" "Close ?S r = Some r'"
    then show "waiting V r'" by (simp add: waiting_def idle_Close)
  next
    fix blocked and r r' :: "('w \<times> watch list) mem runner" and res
    assume "waiting V r" "blocked \<noteq> []" "run_tests (watched_desk D) V ?S blocked r = Some (r', res)"
    then show "waiting V r'" by (auto simp: run_tests_def waiting_def)
  qed (simp_all add: waiting_def, simp_all add: idle_def ob d, simp_all add: watched_def)
qed

lemma body_gated:
  assumes b: "run_body (watched_desk D) V (write_setup (watched_desk D) V t) dir True early q = Some (rc, r)"
    and q: "waiting V q" "rn_dcrOK q"
  shows "commands (watched r) = [] \<or> gated_run D V rc r"
proof -
  let ?S = "write_setup (watched_desk D) V t"
  obtain r4 gates tables where k: "run_checks (watched_desk D) V ?S q = (r4, gates, tables)" by (metis prod_cases3)
  have w: "waiting V r4" using waiting_run.run_checks_keeps [OF q(1), of D t] k by simp
  show ?thesis
  proof (cases "blocked_late early gates = ''''")
    case True
    obtain r5 results where "all_tests (watched_desk D) V ?S '''' r4 = Some (r5, results)"
      "end_of_run (watched_desk D) V ?S dir True '''' gates tables results r5 = Some (rc, r)"
      using b k True by (auto simp: run_body_def split: option.splits)
    then show ?thesis using q w k late_passed [OF True] unfolding gated_run_def waiting_def idle_def Let_def by blast
  next
    case False
    then obtain q' where "waiting V q'" "r = mark_restored (watched_desk D) V True q'"
      using waiting_run.run_body_keeps [OF q(1) b] k by auto
    then have "commands (watched r) = []"
      by (auto simp: waiting_def idle_def mark_restored_def Let_def split_beta watched_def) (auto simp: watched_desk_def noted_def split_beta)
    then show ?thesis ..
  qed
qed

lemma opened_cases:
  assumes "run_opened (watched_desk D) V dir will early r0 = Some (rc, r)" "idle r0" "own_channel V" "\<not> vdry V"
    and w: "will \<longleftrightarrow> vwriting V \<and> early = '''' \<and> rn_dcrOK r0"
  obtains "idle r" "rc = exitFail"
    | q where "will" "run_kept watch_of (vw_StatePath V \<noteq> '''') (vch V) (value_of V (vch V)) q" "r = mark_restored (watched_desk D) V True q"
        "commands (watched r) = [] \<or> gated_run D V rc r"
    | q where "idle q" "r = mark_restored (watched_desk D) V False q"
proof -
  let ?D = "watched_desk D"
  define r1 where "r1 = event (open_setup ?D V) (start_text V) (r0\<lparr> rn_world := (case rn_world r0 of (w, st) \<Rightarrow> (fold (dk_Event ?D) (rn_Events r0) w, st)) \<rparr>)"
  obtain r2 e where r2: "ask_desk (dk_Json ?D MetaName (prov_meta V (rn_start r0))) r1 = (r2, e)" by fastforce
  have i1: "idle r1" "rn_dcrOK r1 = rn_dcrOK r0" using assms(2) by (simp_all add: r1_def)
  have i2: "idle r2" "rn_dcrOK r2 = rn_dcrOK r0"
    using i1 idle_steps(3) [of D MetaName "prov_meta V (rn_start r0)" r1] ask_desk_sel(3) [of "dk_Json ?D MetaName (prov_meta V (rn_start r0))" r1] r2
    by simp_all
  note run = assms(1) [unfolded run_opened_def Let_def, folded r1_def, unfolded r2 prod.case]
  consider x where "e = Some x" | "e = None" "will" | "e = None" "\<not> will" by fastforce
  then show thesis
  proof cases
    case 1
    then show thesis using run i2 that(1) by auto
  next
    case 2
    show thesis
    proof (cases "vw_Abs V dir")
      case (Inl a)
      then show thesis using run 2 i2 assms(4) that(1) by auto
    next
      case (Inr full)
      let ?q = "r2\<lparr> rn_world := (fst (rn_world r2), new_state_file V (rn_start r0) full) \<rparr>"
      have k: "run_kept watch_of (vw_StatePath V \<noteq> '''') (cf_Channel (op_cfg (vw_Opts V))) (value_of V (vch V)) ?q"
        using kept_start [OF i2(1)] assms(3) by (simp add: own_channel_def)
      have b: "run_body ?D V (write_setup ?D V (rn_start r0)) dir True early ?q = Some (rc, r)" using run 2 Inr assms(4) by simp
      have "waiting V ?q" "rn_dcrOK ?q" using i2 2 w by (simp_all add: waiting_def idle_def watched_def)
      note g = body_gated [OF b this]
      obtain q where "run_kept watch_of (vw_StatePath V \<noteq> '''') (vch V) (value_of V (vch V)) q" "r = mark_restored ?D V True q"
        using writing_run.whole.run_body_keeps [OF k b TrueI] assms(3) by (auto simp: own_channel_def)
      then show thesis using that(2) g 2 by blast
    qed
  next
    case 3
    then have b: "barred V early r2" using i2 w assms(3) by (auto simp: barred_def own_channel_def)
    have "early \<noteq> [] \<longrightarrow> blocked_late early gs \<noteq> []" for gs by (simp add: blocked_late_def)
    then show thesis
      using barred_run.run_body_keeps [OF b, of D dir False early rc r] run 3 assms(4) that(3) by (auto simp: barred_def)
  qed
qed

lemma validation_cases:
  assumes "run_validation (watched_desk D) V (w, []) = Some (rc, r)" "own_channel V" "\<not> vdry V"
  obtains "idle r" "rc = exitFail"
    | q where "may_write V" "run_kept watch_of (vw_StatePath V \<noteq> '''') (vch V) (value_of V (vch V)) q" "r = mark_restored (watched_desk D) V True q"
        "commands (watched r) = [] \<or> gated_run D V rc r"
    | q where "idle q" "r = mark_restored (watched_desk D) V False q"
proof -
  let ?D = "watched_desk D" and ?S = "base_setup (watched_desk D) V"
  define r0 where "r0 = NewRunner (su_Env ?S) ((w, []), no_state)"
  define early where "early = blocked_by (vw_Gates V)"
  define will where "will \<longleftrightarrow> vwriting V \<and> early = '''' \<and> rn_dcrOK r0"
  define r1 where "r1 = say ?D (header_lines V (rn_start r0)) r0"
  define r2 where "r2 = (if asks V then say ?D (prompt_lines V will early (rn_dcrOK r0) (rn_dcrErr r0)) r1 else r1)"
  define r3 where "r3 = (if asks V then event ?S (confirmed_text V) r2 else r2)"
  obtain r4 e where r4: "ask_desk (dk_Create ?D (bundle_dir V (rn_start r0))) r3 = (r4, e)" by fastforce
  have i: "idle r2" "idle r3" "rn_dcrOK r3 = rn_dcrOK r0"
    using idle_start [of D w no_state] by (simp_all add: r0_def r1_def r2_def r3_def)
  have i4: "idle r4" "rn_dcrOK r4 = rn_dcrOK r0"
    using i idle_steps(2) [of D "bundle_dir V (rn_start r0)" r3] ask_desk_sel(3) [of "dk_Create ?D (bundle_dir V (rn_start r0))" r3] r4 by simp_all
  note run = assms(1) [unfolded run_validation_def Let_def, folded r0_def early_def, folded will_def r1_def, folded r2_def, folded r3_def, unfolded r4 prod.case]
  show thesis
  proof (cases "confirmed V \<and> e = None")
    case False
    then show thesis using run i i4 that(1) by (auto split: if_splits option.splits)
  next
    case True
    then have o: "run_opened ?D V (bundle_dir V (rn_start r0)) will early r4 = Some (rc, r)" using run by simp
    have "may_write V" if will using that True assms(3) by (auto simp: will_def early_def may_write_def confirmed_def asks_def)
    then show thesis using opened_cases [OF o i4(1) assms(2,3)] will_def i4(2) that by metis
  qed
qed

end
