(* ===== verification/Guardian_Facts.thy ===== *)
theory Guardian_Facts
  imports Guardian
begin

text \<open>
  What a restore from a state file promises, as an interface (\<open>put_back\<close>) to whatever says that a
  channel is at its value, and its interpretation on the trace of attempted writes; the order of the
  channels; what the commands leave alone; flags and arguments in any order.
\<close>

section \<open>Order of the channels\<close>

lemma set_sift: "set (sift x ys) = insert x (set ys)"
  by (induction x ys rule: sift.induct) auto

lemma mset_sift: "mset (sift x ys) = add_mset x (mset ys)"
  by (induction x ys rule: sift.induct) auto

lemma sorted_sift: "sorted (rev ys) \<Longrightarrow> sorted (rev (sift x ys))"
proof (induction x ys rule: sift.induct)
  case (2 x y ys)
  then show ?case by (auto simp: sorted_append set_sift)
qed simp

lemma sortedIntKeys_sort: "sortedIntKeys v = sort v"
proof -
  have "sorted (rev (fold sift v ys)) \<and> mset (fold sift v ys) = mset v + mset ys" if "sorted (rev ys)" for ys
    using that by (induction v arbitrary: ys) (simp_all add: sorted_sift mset_sift)
  from this [of "[]"] show ?thesis unfolding sortedIntKeys_def by (intro properties_for_sort [symmetric]) simp_all
qed

section \<open>Values\<close>

lemma checkRestoreValue_ok: "checkRestoreValue v = None \<longleftrightarrow> restorable v"
  by (auto simp: checkRestoreValue_def restorable_def split: option.splits)

text \<open>The value a channel of a state file is restored to.\<close>

definition back_value :: "state_file \<Rightarrow> int \<Rightarrow> string" where
  "back_value st ch = (if ch = PCIeChannel then PCIeRestore else stored_value st ch)"

lemma failure_none: "failure r = None \<longleftrightarrow> r = Done"
  by (cases r) auto

section \<open>A restore\<close>

locale put_back =
  fixes H :: "'w host" and dv :: Device and P :: "int \<Rightarrow> string \<Rightarrow> 'w \<Rightarrow> bool"
  assumes put: "1 \<le> ch \<Longrightarrow> ch \<le> 4 \<Longrightarrow>
      RestoreTo (ho_Kernel H) (restore_writer H dv) ch v (w, ()) = (Done, w', u) \<Longrightarrow> P ch v w'"
    and others: "RestoreTo (ho_Kernel H) (restore_writer H dv) ch v (w, ()) = (r, w', u) \<Longrightarrow> c \<noteq> ch \<Longrightarrow> 1 \<le> ch \<Longrightarrow> ch \<le> 4 \<Longrightarrow>
      1 \<le> c \<Longrightarrow> c \<le> 4 \<Longrightarrow> P c v' w \<Longrightarrow> P c v' w'"
    and clock: "P c v w \<Longrightarrow> P c v (fst (ho_Now H w))"
    and saved: "P c v w \<Longrightarrow> P c v (fst (ho_Save H st w))"
begin

lemma channel_put:
  assumes "restore_channel H dv ch (stored_value st ch) w = (w', ls, True)" "1 \<le> ch" "ch \<le> 4"
  shows "P ch (back_value st ch) w'"
proof -
  let ?v = "back_value st ch"
  obtain w1 t where n: "ho_Now H w = (w1, t)" by fastforce
  obtain r w2 u where r: "RestoreTo (ho_Kernel H) (restore_writer H dv) ch ?v (w1, ()) = (r, w2, u)" by (metis surj_pair)
  have "r = Done \<and> w' = w2" using assms(1) n r
    by (auto simp: restore_channel_def back_value_def Let_def failure_none split: option.splits if_splits prod.splits)
  with put [OF assms(2,3)] r show ?thesis by blast
qed

lemma channel_others:
  assumes "restore_channel H dv ch v w = (w', ls, ok)" "c \<noteq> ch" "1 \<le> ch" "ch \<le> 4" "1 \<le> c" "c \<le> 4" "P c v' w"
  shows "P c v' w'"
proof -
  have p: "P c v' (fst (ho_Now H w))" using clock assms(7) by blast
  obtain w1 t where n: "ho_Now H w = (w1, t)" by fastforce
  have "P c v' w2" if "RestoreTo (ho_Kernel H) (restore_writer H dv) ch x (w1, ()) = (r, w2, u)" for x r w2 u
    using others [OF that assms(2-6)] p n by simp
  then show ?thesis using assms(1,7) n
    by (auto simp: restore_channel_def Let_def split: option.splits if_splits prod.splits)
qed

lemma each_kept:
  assumes "restore_each H dv val chs w = (w', ls, ok)" "c \<notin> set chs" "\<forall>ch \<in> set chs. 1 \<le> ch \<and> ch \<le> 4" "1 \<le> c" "c \<le> 4" "P c v w"
  shows "P c v w'"
  using assms
proof (induction chs arbitrary: w ls ok)
  case (Cons ch chs)
  obtain w1 l1 o1 where r: "restore_channel H dv ch (val ch) w = (w1, l1, o1)" by (metis surj_pair)
  obtain w2 l2 o2 where e: "restore_each H dv val chs w1 = (w2, l2, o2)" by (metis surj_pair)
  have w: "w2 = w'" using Cons.prems(1) r e by auto
  have "P c v w1" using channel_others [OF r] Cons.prems by auto
  then show ?case using Cons.IH [of w1 l2 o2] Cons.prems e w by auto
qed simp

lemma each_put:
  assumes "restore_each H dv (stored_value st) chs w = (w', ls, True)" "\<forall>ch \<in> set chs. 1 \<le> ch \<and> ch \<le> 4" "c \<in> set chs"
  shows "P c (back_value st c) w'"
  using assms
proof (induction chs arbitrary: w ls)
  case (Cons ch chs)
  obtain w1 l1 o1 where r: "restore_channel H dv ch (stored_value st ch) w = (w1, l1, o1)" by (metis surj_pair)
  obtain w2 l2 o2 where e: "restore_each H dv (stored_value st) chs w1 = (w2, l2, o2)" by (metis surj_pair)
  have o: "o1" "o2" "w' = w2" using Cons.prems(1) r e by auto
  show ?case
  proof (cases "c \<in> set chs")
    case True
    then show ?thesis using Cons.IH [of w1 l2] e o Cons.prems by auto
  next
    case False
    then have c: "c = ch" "1 \<le> c" "c \<le> 4" using Cons.prems by auto
    have "P c (back_value st c) w1" using channel_put [of ch st w w1 l1] r o(1) c by simp
    then show ?thesis using each_kept [OF e False] Cons.prems c o(3) by auto
  qed
qed simp

lemma valid_range: "ch \<in> set (valid_keys st) \<Longrightarrow> 1 \<le> ch \<and> ch \<le> 4"
  by (auto simp: valid_keys_def channel_key_def split: option.splits if_splits)

lemma restored:
  assumes "restoreFromState H keep st (w, f) = (s, ls, True)" "gf_Device st = dv" "c \<in> set (valid_keys st)"
  shows "P c (back_value st c) (fst s)"
proof -
  obtain w1 l1 o1 where e: "restore_each H dv (stored_value st) (sort (valid_keys st)) w = (w1, l1, o1)" by (metis surj_pair)
  have o: "o1" using assms(1,2) e by (auto simp: restoreFromState_def sortedIntKeys_sort Let_def split: if_splits prod.splits option.splits)
  have p: "P c (back_value st c) w1"
    using each_put [of st "sort (valid_keys st)" w w1 l1 c] e o assms(3) valid_range by auto
  obtain w2 e2 where s: "ho_Save H (st\<lparr> gf_State := stateRestored \<rparr>) w1 = (w2, e2)" by fastforce
  have "P c (back_value st c) w2" using saved [OF p, of "st\<lparr> gf_State := stateRestored \<rparr>"] s by simp
  then show ?thesis using p assms(1,2) e s
    by (auto simp: restoreFromState_def sortedIntKeys_sort Let_def write_state_def split: if_splits prod.splits option.splits)
qed

end

section \<open>The trace of attempted writes\<close>

text \<open>
  A host whose kernel and clock are those of \<open>H\<close> and whose kernel keeps a list of every attempted
  write beside the world: the file, the value, whether it succeeded.
\<close>

type_synonym attempt = "string \<times> string \<times> bool"

definition attempts_host :: "'w host \<Rightarrow> ('w \<times> attempt list) host" where
  "attempts_host H =
     \<lparr> ho_Kernel = \<lparr> k_view = (\<lambda>(w, tr). k_view (ho_Kernel H) w),
          k_write = (\<lambda>p v (w, tr). (case k_write (ho_Kernel H) p v w of (w', e) \<Rightarrow> ((w', tr @ [(base_name p, v, e = None)]), e))) \<rparr>,
       ho_SysRoot = ho_SysRoot H,
       ho_Now = (\<lambda>(w, tr). (case ho_Now H w of (w', t) \<Rightarrow> ((w', tr), t))),
       ho_Save = (\<lambda>st (w, tr). (case ho_Save H st w of (w', e) \<Rightarrow> ((w', tr), e))),
       ho_Version = ho_Version H \<rparr>"

definition of_channel :: "int \<Rightarrow> attempt list \<Rightarrow> attempt list" where
  "of_channel ch = filter (\<lambda>(n, v, ok). n = Name Duty ch \<or> n = Name Enable ch)"

text \<open>A channel was put to a value by its last attempted writes: the automatic, or manual mode and a duty.\<close>

definition value_writes :: "int \<Rightarrow> string \<Rightarrow> attempt list" where
  "value_writes ch v =
     (if v = ''auto'' then [(Name Enable ch, ''2'', True)]
      else [(Name Enable ch, ''1'', True), (Name Duty ch, itoa (case atoi v of None \<Rightarrow> 0 | Some d \<Rightarrow> d), True)])"

definition put_last :: "int \<Rightarrow> string \<Rightarrow> attempt list \<Rightarrow> bool" where
  "put_last ch v tr \<longleftrightarrow> (\<exists>before. of_channel ch tr = before @ value_writes ch v)"

lemma base_name_join: "CHR ''/'' \<notin> set n \<Longrightarrow> n \<noteq> '''' \<Longrightarrow> base_name (join_path [d, n]) = n"
proof -
  assume n: "CHR ''/'' \<notin> set n" "n \<noteq> ''''"
  have "split_at (CHR ''/'') (d @ CHR ''/'' # n) = split_at (CHR ''/'') d @ [n]"
  proof (induction d)
    case (Cons c d)
    then show ?case by (cases "split_at (CHR ''/'') d") simp_all
  qed (use n in \<open>simp add: split_at_one\<close>)
  then have "last (split_at (CHR ''/'') (d @ CHR ''/'' # n)) = n" by simp
  with n show ?thesis by (cases "d = ''''") (simp_all add: join_path_def base_name_def split_at_one)
qed

lemma channel_cases: "1 \<le> ch \<Longrightarrow> ch \<le> 4 \<Longrightarrow> ch = 1 \<or> ch = 2 \<or> ch = 3 \<or> ch = (4 :: int)"
  by auto

lemma names: "Name Duty 1 = ''pwm1''" "Name Duty 2 = ''pwm2''" "Name Duty 3 = ''pwm3''" "Name Duty 4 = ''pwm4''"
  "Name Enable 1 = ''pwm1_enable''" "Name Enable 2 = ''pwm2_enable''" "Name Enable 3 = ''pwm3_enable''" "Name Enable 4 = ''pwm4_enable''"
  by code_simp+

lemma name_plain: "1 \<le> ch \<Longrightarrow> ch \<le> 4 \<Longrightarrow> CHR ''/'' \<notin> set (Name a ch) \<and> Name a ch \<noteq> ''''"
  by (cases a) (auto dest!: channel_cases simp: names)

lemma name_inj: "1 \<le> ch \<Longrightarrow> ch \<le> 4 \<Longrightarrow> 1 \<le> c \<Longrightarrow> c \<le> 4 \<Longrightarrow> Name a ch = Name b c \<longleftrightarrow> ch = c \<and> a = b"
  by (cases a; cases b) (auto dest!: channel_cases simp: names)

text \<open>A call of the writer appends at most one attempt, on its own channel.\<close>

lemma Write_attempt:
  assumes "Write (ho_Kernel (attempts_host H)) W ch a v ((w, tr), h) = (r, (w', tr'), h')" "1 \<le> ch" "ch \<le> 4"
  shows "tr' = tr \<and> r \<noteq> Done \<or> tr' = tr @ [(Name a ch, itoa v, r = Done)]"
  using assms(1) base_name_join name_plain [OF assms(2,3), of a]
  by (auto simp: Write_def Let_def attempts_host_def check_args_def
      split: wresult.splits sum.splits prod.splits option.splits if_splits Attr.splits)

lemma of_channel_app [simp]: "of_channel ch (a @ b) = of_channel ch a @ of_channel ch b"
  by (simp add: of_channel_def)

lemma of_channel_own [simp]: "of_channel ch [(Name a ch, v, ok)] = [(Name a ch, v, ok)]"
  by (cases a) (simp_all add: of_channel_def)

lemma of_channel_other: "1 \<le> ch \<Longrightarrow> ch \<le> 4 \<Longrightarrow> 1 \<le> c \<Longrightarrow> c \<le> 4 \<Longrightarrow> c \<noteq> ch \<Longrightarrow> of_channel c [(Name a ch, v, ok)] = []"
  using name_inj by (auto simp: of_channel_def)

lemma Write_others:
  assumes "Write (ho_Kernel (attempts_host H)) W ch a v (s, h) = (r, s', h')" "1 \<le> ch" "ch \<le> 4" "1 \<le> c" "c \<le> 4" "c \<noteq> ch"
  shows "of_channel c (snd s') = of_channel c (snd s)"
proof -
  obtain w tr where s: "s = (w, tr)" by fastforce
  obtain w' tr' where s': "s' = (w', tr')" by fastforce
  show ?thesis using Write_attempt [OF assms(1) [unfolded s s'] assms(2,3)] of_channel_other [OF assms(2-6)] s s' by auto
qed

lemma RestoreTo_others:
  assumes "RestoreTo (ho_Kernel (attempts_host H)) W ch v (s, h) = (r, s', h')" "1 \<le> ch" "ch \<le> 4" "1 \<le> c" "c \<le> 4" "c \<noteq> ch"
  shows "of_channel c (snd s') = of_channel c (snd s)"
proof -
  let ?k = "ho_Kernel (attempts_host H)"
  have k: "of_channel c (snd s2) = of_channel c (snd s1)" if "Write ?k W ch a x (s1, h1) = (q, s2, h2)" for a x s1 h1 q s2 h2
    using Write_others [OF that assms(2-6)] .
  obtain q s1 h1 where m: "Write ?k W ch Enable 1 (s, h) = (q, s1, h1)" by (metis surj_pair)
  from assms(1) consider "Write ?k W ch Enable 2 (s, h) = (r, s', h')" | "s' = s"
    | d where "Write ?k W ch Duty d (s1, h1) = (r, s', h')" | "s' = s1"
    using m by (auto simp: RestoreTo_def Auto_def EnterManual_def SetDuty_def split: option.splits if_splits wresult.splits)
  then show ?thesis using k [OF m] by cases (auto dest: k)
qed

lemma RestoreTo_puts:
  assumes "RestoreTo (ho_Kernel (attempts_host H)) W ch v (s, h) = (Done, s', h')" "1 \<le> ch" "ch \<le> 4"
  shows "put_last ch v (snd s')"
proof (cases "v = ''auto''")
  case True
  obtain w tr where s: "s = (w, tr)" by fastforce
  obtain w' tr' where s': "s' = (w', tr')" by fastforce
  have "tr' = tr @ [(Name Enable ch, itoa 2, True)]"
    using Write_attempt [of H W ch Enable 2 w tr h Done w' tr' h'] assms True s s' by (simp add: RestoreTo_def Auto_def)
  moreover have "itoa 2 = ''2''" by code_simp
  ultimately show ?thesis using True s' by (simp add: put_last_def value_writes_def)
next
  case False
  then obtain d where d: "atoi v = Some d" using assms(1) by (auto simp: RestoreTo_def split: option.splits)
  obtain w tr where s: "s = (w, tr)" by fastforce
  obtain w' tr' where s': "s' = (w', tr')" by fastforce
  obtain r w1 tr1 h1 where m: "Write (ho_Kernel (attempts_host H)) W ch Enable 1 ((w, tr), h) = (r, (w1, tr1), h1)"
    by (metis surj_pair)
  have r: "r = Done" "Write (ho_Kernel (attempts_host H)) W ch Duty d ((w1, tr1), h1) = (Done, (w', tr'), h')"
    using assms(1) False d s s' m by (auto simp: RestoreTo_def EnterManual_def SetDuty_def split: if_splits wresult.splits)
  have "tr1 = tr @ [(Name Enable ch, itoa 1, True)]" "tr' = tr1 @ [(Name Duty ch, itoa d, True)]"
    using Write_attempt [OF m assms(2,3)] Write_attempt [OF r(2) assms(2,3)] r(1) by simp_all
  moreover have "itoa 1 = ''1''" by code_simp
  ultimately show ?thesis using False d s' by (auto simp: put_last_def value_writes_def of_channel_def)
qed

interpretation attempts: put_back "attempts_host H" dv "\<lambda>c v (w, tr). put_last c v tr" for H :: "'w host" and dv
proof
  fix ch v w w' u
  assume "1 \<le> ch" "ch \<le> 4" "RestoreTo (ho_Kernel (attempts_host H)) (restore_writer (attempts_host H) dv) ch v (w, ()) = (Done, w', u)"
  then have "put_last ch v (snd w')" using RestoreTo_puts [of H "restore_writer (attempts_host H) dv" ch v w "()" w' u] by simp
  then show "case w' of (w, tr) \<Rightarrow> put_last ch v tr" by (simp add: split_beta)
next
  fix ch v w r w' u c v'
  assume "RestoreTo (ho_Kernel (attempts_host H)) (restore_writer (attempts_host H) dv) ch v (w, ()) = (r, w', u)" "c \<noteq> ch"
    "1 \<le> ch" "ch \<le> 4" "1 \<le> c" "c \<le> 4" "case w of (w, tr) \<Rightarrow> put_last c v' tr"
  then have "of_channel c (snd w') = of_channel c (snd w)" "put_last c v' (snd w)"
    using RestoreTo_others [of H _ ch v w "()" r w' u c] by (auto simp: split_beta)
  then show "case w' of (w, tr) \<Rightarrow> put_last c v' tr" by (simp add: put_last_def split_beta)
qed (auto simp: attempts_host_def split: prod.splits)

end
