(* ===== verification/Run_Properties.thy ===== *)
theory Run_Properties
  imports Validate_Facts Guardian_Facts
begin

section \<open>A machine and a view for the examples\<close>

text \<open>A machine on which only time passes, and a mapping of pwm1 on it with short times.\<close>

definition still_env :: "int Env" where
  "still_env = \<lparr> e_Now = (\<lambda>w. (w, w)), e_Sleep = (\<lambda>_ d w. (w + d, True)), e_EnterManual = (\<lambda>_ w. (w, None)),
     e_WriteDuty = (\<lambda>_ _ w. (w, None)), e_Auto = (\<lambda>_ w. (w, None)), e_Restore = (\<lambda>_ w. (w, None)),
     e_DCR = (\<lambda>w. (w, Inr (replicate 16 200))),
     e_Read = (\<lambda>w. (w, \<lparr> rd_Fan = (\<lambda>_. Some 1000), rd_Tctl = Some 40, rd_NVMeMax = Some 45, rd_HDDMax = Some 38,
       rd_ECCPU = Some 37, rd_ECSys = Some 33, rd_ECBoard = Some 27, rd_ECAmb = Some 22, rd_Load1 = Some 0 \<rparr>)) \<rparr>"

definition still_desk :: "int desk" where
  "still_desk = \<lparr> dk_Env = still_env, dk_Check = None, dk_Cancelled = (\<lambda>_. False), dk_ECRAM = (\<lambda>_. NoECRAM), dk_Create = (\<lambda>_ w. (w, None)),
     dk_Event = (\<lambda>_ w. w), dk_Sample = (\<lambda>_ w. w), dk_Json = (\<lambda>_ _ w. (w, None)), dk_Finish = (\<lambda>w. (w, None)), dk_Save = (\<lambda>_ w. (w, None)),
     dk_Print = (\<lambda>_ w. w) \<rparr>"

definition no_files :: filesys where "no_files = \<lparr> fs_file = (\<lambda>_. None), fs_dir = (\<lambda>_. None), fs_real = (\<lambda>_. None) \<rparr>"

definition still_view :: "string \<Rightarrow> rig_view" where
  "still_view typed =
     \<lparr> vw_Opts = \<lparr> op_test = ''map'', op_ch = 1, op_boot = ''cold'', op_out = ''.'', op_console = False, op_dry = False, op_restore = (\<lambda>_. ''''),
          op_configPath = '''', op_cfg = (SpecConfig 1 1 [1, 2, 3])\<lparr> cf_Hold := Second, cf_Sample := Second, cf_Window := Second, cf_OnlineCPUs := 8 \<rparr> \<rparr>,
       vw_Id = Collect no_files \<lparr> oe_denied = (\<lambda>_. False), oe_text = (\<lambda>_. '''') \<rparr> (\<lambda>_. '''')
         ([], \<lparr> tm_Source = '''', tm_SHA = '''', tm_Generated = '''' \<rparr>) HostRoots,
       vw_Red = \<lparr> rd_hosts = [], rd_protected = [] \<rparr>, vw_Sess = \<lparr> se_Remote = [], se_Console = True, se_Stdin = ''tty'', se_Tmux = '''' \<rparr>,
       vw_Values = \<lparr> rv_Values = [1 \<mapsto> ''auto''], rv_Sources = [1 \<mapsto> SourceDefault], rv_Warnings = [], rv_Deviations = [] \<rparr>,
       vw_Dev = \<lparr> dv_Name = ModuleName, dv_DevicePath = ''/d'', dv_SrcVersion = '''' \<rparr>, vw_Gates = [mk_gate ''G1'' g1Condition ''PASS'' ''''],
       vw_Board = '''', vw_Typed = typed, vw_StatePath = ''/run/s'', vw_Version = ''1'', vw_Commit = '''', vw_Binary = '''', vw_Go = '''', vw_PID = 7,
       vw_TestRoot = False, vw_Abs = Inr, vw_Local = rfc3339, vw_SysRoot = ''/sys'' \<rparr>"

text \<open>A host with the files of pwm3, and a state file for it.\<close>

definition still_host :: "unit host" where
  "still_host =
     \<lparr> ho_Kernel = \<lparr> k_view = (\<lambda>_.
          \<lparr> fs_file = map_of ((''/sys/class/hwmon/hwmon3/name'', ModuleName @ [NL]) #
              map (\<lambda>n. (''/d/hwmon/hwmon3/'' @ n, ''1'')) [''pwm3'', ''pwm3_enable'']),
            fs_dir = map_of [(''/sys/class/hwmon'', [''hwmon3''])], fs_real = map_of [(''/sys/class/hwmon/hwmon3'', ''/d/hwmon/hwmon3'')] \<rparr>),
          k_write = (\<lambda>_ _ w. (w, None)) \<rparr>,
       ho_SysRoot = ''/sys'', ho_Now = (\<lambda>w. (w, 0)), ho_Save = (\<lambda>_ w. (w, None)), ho_Version = ''1'' \<rparr>"

definition still_state :: state_file where
  "still_state = \<lparr> gf_Tool = toolName, gf_Version = ''1'', gf_PID = 7, gf_Started = '''', gf_State = stateActive,
     gf_Device = \<lparr> dv_Name = ModuleName, dv_DevicePath = ''/d'', dv_SrcVersion = '''' \<rparr>,
     gf_Channels = [(''3'', ''120'')], gf_Bundle = '''', gf_TestRoot = False \<rparr>"

section \<open>A run returns\<close>

lemma still_clock: "clock (wait_env_of (outer_env (dk_Env (watched_desk still_desk)))) (\<lambda>((w, l), st). w)"
  by unfold_locales (auto simp: wait_env_of_def outer_env_def outer_def watched_desk_def watched_env_def beside_def still_desk_def still_env_def
      split: prod.splits)

lemma still_config: "own_channel (still_view t)" "\<not> vdry (still_view t)" "vch (still_view t) = 1" "value_of (still_view t) 1 = ''auto''"
  by (simp_all add: own_channel_def vdry_def vch_def still_view_def SpecConfig_def value_of_def)

lemma closeOnAbort_returns: "clock (wait_env_of (su_Env S)) clk \<Longrightarrow> (closeOnAbort D S r = None) = False"
  using Close_returns [of S clk r] by (auto simp: closeOnAbort_def)

lemma run_tests_returns:
  assumes "clock (wait_env_of (su_Env S)) clk"
  shows "(run_tests D V S blocked r = None) = False"
  by (simp add: run_tests_def run_mapping_def run_handback_def Let_def split_beta closeOnAbort_returns [OF assms] RunT1_returns [OF assms]
      RunHandback_returns [OF assms] split: option.split bool.split del: not_None_eq)

lemma all_tests_returns:
  assumes "clock (wait_env_of (su_Env S)) clk"
  shows "(all_tests D V S blocked r = None) = False"
proof -
  obtain r1 res where r1: "run_tests D V S blocked r = Some (r1, res)" using run_tests_returns [OF assms] by fastforce
  obtain r2 b where r2: "closeOnAbort D S r1 = Some (r2, b)" using closeOnAbort_returns [OF assms] by fastforce
  obtain r3 where "Close S r2 = Some r3" using Close_returns [OF assms] by blast
  then show ?thesis using r1 r2 by (simp add: all_tests_def Let_def)
qed

lemma end_of_run_returns:
  assumes "clock (wait_env_of (su_Env S)) clk"
  shows "(end_of_run D V S dir has blocked gates tables results r = None) = False"
  using Close_returns [OF assms] by (auto simp: end_of_run_def Let_def split_beta split: option.split)

lemma run_body_returns:
  assumes "clock (wait_env_of (su_Env S)) clk"
  shows "(run_body D V S dir has early r = None) = False"
  by (simp add: run_body_def Let_def split_beta all_tests_returns [OF assms] end_of_run_returns [OF assms] split: option.split del: not_None_eq)

lemma validation_returns:
  assumes "clock (wait_env_of (outer_env (dk_Env D))) clk"
  shows "run_validation D V w \<noteq> None"
proof -
  have c: "clock (wait_env_of (su_Env (write_setup D V t))) clk" "clock (wait_env_of (su_Env (open_setup D V))) clk" for t
    using assms by simp_all
  show ?thesis
    by (simp add: run_validation_def run_opened_def Let_def split_beta run_body_returns [OF c(1)] run_body_returns [OF c(2)]
        split: option.split sum.split del: not_None_eq)
qed

text \<open>on a machine whose clock sleeps move on, every run of map or handback returns.\<close>

theorem whole_run_returns:
  assumes "clock (wait_env_of (outer_env (dk_Env D))) clk"
  shows "run_validation D V w \<noteq> None"
  by (rule validation_returns [OF assms])

theorem whole_run_returns_witness:
  "\<exists>rc r. run_validation (watched_desk still_desk) (still_view confirmText) (0, []) = Some (rc, r)"
  using whole_run_returns [OF still_clock, of "still_view confirmText" "(0, [])"] by fastforce

text \<open>An example of a run, for the properties below.\<close>

lemma still_run: "\<exists>rc r. run_validation (watched_desk still_desk) (still_view t) (0, []) = Some (rc, r)"
  using validation_returns [OF still_clock, of "still_view t" "(0, [])"] by fastforce

section \<open>A run that is killed\<close>

text \<open>
  What a run that was killed has done is recoverable (\<open>c\<close> is its channel, \<open>v\<close> the restore value,
  \<open>hot\<close> the channel whose temperature limit tripped in the run, 0 if none did): nothing was commanded;
  or the state file on disk is active, has the value of the channel and covers every command; or it says
  restored, and every channel is at rest. Its value is \<open>v\<close>, or 255 if \<open>hot\<close> is this channel. A command is
  covered when its channel is listed; only the manual mode and the 255 of the temperature abort are also
  given when the write of the file that lists \<open>hot\<close> with 255 was tried before and failed.
\<close>

definition recoverable :: "int \<Rightarrow> string \<Rightarrow> int \<Rightarrow> watch list \<Rightarrow> (int \<Rightarrow> string) \<Rightarrow> bool" where
  "recoverable c v hot l over \<longleftrightarrow>
     commands l = [] \<or>
     (\<exists>st. disk None l = Some st \<and>
        (gf_State st = stateActive \<and> carries st c v hot \<and> list_all (covered st hot l) (commands l) \<or>
         gf_State st = stateRestored \<and> list_all (at_rest (commands l) over) [1, 2, 3, 4]))"

lemma recoverable_proper: "proper c v hot l \<Longrightarrow> recoverable c v hot l over"
  using proper_filed [of c v hot l] by (auto simp: recoverable_def filed_def)

lemma recoverable_more:
  assumes "proper c v hot l"
  shows "recoverable c v hot (l @ [WSave st False]) over"
proof -
  have m: "list_all (covered d hot l) xs \<Longrightarrow> list_all (covered d hot (l @ [WSave st False])) xs" for d xs
    by (induction xs) (simp_all add: covered_mono)
  have "commands l = [] \<or> (\<exists>d. disk None l = Some d \<and> gf_State d = stateActive \<and> carries d c v hot \<and> list_all (covered d hot l) (commands l))"
    using proper_filed [OF assms] by (simp add: filed_def)
  then show ?thesis using m by (auto simp: recoverable_def)
qed

lemma Unrestored_none: "Unrestored r = [] \<Longrightarrow> ch \<in> {1, 2, 3, 4} \<Longrightarrow> \<not> rn_touched r ch"
  using Unrestored_touched [of ch r] by auto

lemma watched_mark:
  "watched (mark_restored (watched_desk D) V has q) = watched q \<and> rn_RestoreOverrides (mark_restored (watched_desk D) V has q) = rn_RestoreOverrides q \<or>
   (\<exists>st ok. watched (mark_restored (watched_desk D) V has q) = watched q @ [WSave st ok] \<and> gf_State st = stateRestored) \<and> has \<and> Unrestored q = [] \<and>
     rn_RestoreOverrides (mark_restored (watched_desk D) V has q) = rn_RestoreOverrides q"
  by (auto simp: mark_restored_def Let_def split_beta watched_def) (auto simp: watched_desk_def noted_def split_beta)

lemma mark_hot_kept [simp]: "rn_hot (mark_restored D V has q) = rn_hot q"
  by (simp add: mark_restored_def Let_def split_beta)

lemma mark_False [simp]: "mark_restored D V False q = q"
  by (simp add: mark_restored_def)

lemma kept_proper: "run_kept watch_of p c v q \<Longrightarrow> proper c v (rn_hot q) (watched q)"
  by (simp add: run_kept_def run_inv_def watch_of_def watched_def)

lemma recoverable_marked:
  assumes "run_kept watch_of path c v q" "mark_restored (watched_desk D) V True q = r" "watched r = pre @ post"
  shows "recoverable c v (rn_hot r) pre (rn_RestoreOverrides r)"
proof -
  have p: "proper c v (rn_hot r) (watched q)" using kept_proper [OF assms(1)] assms(2) by auto
  note m = watched_mark [of D V True q, unfolded assms(2)]
  show ?thesis
  proof (cases "post = [] \<and> watched r \<noteq> watched q")
    case False
    then have "\<exists>x. watched q = pre @ x" using m assms(3)
      by (metis append_Nil2 append_butlast_last_id butlast_append butlast_snoc)
    then show ?thesis using recoverable_proper proper_prefix p by metis
  next
    case True
    then obtain st ok where e: "pre = watched q @ [WSave st ok]" "gf_State st = stateRestored" "Unrestored q = []"
      "rn_RestoreOverrides r = rn_RestoreOverrides q" using m assms(3) by auto
    have "cmd_inv False (commands (watched q)) (rn_touched q) (rn_wrote q) (rn_RestoreOverrides q)"
      using assms(1) by (simp add: run_kept_def run_inv_def watch_of_def watched_def)
    then have a: "list_all (at_rest (commands (watched q)) (rn_RestoreOverrides q)) [1, 2, 3, 4]"
      using Unrestored_none [OF e(3)] by (simp add: cmd_inv_def)
    show ?thesis
    proof (cases ok)
      case True
      then show ?thesis using e a by (simp add: recoverable_def)
    next
      case no: False
      then show ?thesis using recoverable_more [OF p] e(1) by simp
    qed
  qed
qed

lemma killed_run:
  assumes "run_validation (watched_desk D) V (w, []) = Some (rc, r)" "own_channel V" "\<not> vdry V" "watched r = pre @ post"
  shows "recoverable (vch V) (value_of V (vch V)) (rn_hot r) pre (rn_RestoreOverrides r)"
proof -
  consider "idle r" | q where "run_kept watch_of (vw_StatePath V \<noteq> '''') (vch V) (value_of V (vch V)) q" "mark_restored (watched_desk D) V True q = r"
    using validation_cases [OF assms(1-3)] by (metis mark_False)
  then show ?thesis
  proof cases
    case 1
    then show ?thesis using assms(4) by (simp add: idle_def recoverable_def)
  qed (rule recoverable_marked [OF _ _ assms(4)])
qed

text \<open>C3: whatever the machine, the disk and the operator do, at every moment of a run of map or handback
  that is not a dry run, nothing was commanded; or the state file on disk is active, carries the restore
  value of the channel of the run (255 only if its temperature limit tripped in the run) and lists the
  channel of every command, with one exception: manual mode and 255 on the channel of a tripped
  temperature limit, after the write of the file that would list it was tried and failed; or the file
  says restored and every channel is at rest.\<close>

theorem killed_run_recoverable:
  assumes "run_validation (watched_desk D) V (w, []) = Some (rc, r)" "own_channel V" "\<not> vdry V" "watched r = pre @ post"
  shows "recoverable (vch V) (value_of V (vch V)) (rn_hot r) pre (rn_RestoreOverrides r)"
  using assms by (rule killed_run)

theorem killed_run_recoverable_witness:
  "\<exists>rc r. run_validation (watched_desk still_desk) (still_view confirmText) (0, []) = Some (rc, r) \<and>
     list_all (\<lambda>n. recoverable 1 ''auto'' (rn_hot r) (take n (watched r)) (rn_RestoreOverrides r)) [0..<Suc (length (watched r))]"
proof -
  obtain rc r where r: "run_validation (watched_desk still_desk) (still_view confirmText) (0, []) = Some (rc, r)" using still_run by blast
  show ?thesis
    using killed_run_recoverable [OF r still_config(1,2) append_take_drop_id [symmetric]] r by (simp add: still_config list_all_iff del: upt_Suc)
qed

text \<open>C5: a run that commands anything was asked for on the machine, was confirmed by the operator with the
  exact word, and no gate had failed before; and after its checks, the sampling of G3 and G4 among them,
  nothing had been commanded and no gate but G6 had failed: the tests, which command, come after that.\<close>

theorem commands_only_confirmed:
  assumes "run_validation (watched_desk D) V (w, []) = Some (rc, r)" "own_channel V" "\<not> vdry V"
  shows "commands (watched r) = [] \<or> may_write V \<and> gated_run D V rc r"
  by (rule validation_cases [OF assms]) (auto simp: idle_def)

theorem commands_only_confirmed_witness:
  "\<exists>rc r. run_validation (watched_desk still_desk) (still_view ''no'') (0, []) = Some (rc, r) \<and> commands (watched r) = []"
proof -
  obtain rc r where r: "run_validation (watched_desk still_desk) (still_view ''no'') (0, []) = Some (rc, r)" using still_run by blast
  have "\<not> may_write (still_view ''no'')" by (simp add: may_write_def still_view_def) code_simp
  then show ?thesis using commands_only_confirmed [OF r still_config(1,2)] r by blast
qed

section \<open>After the run\<close>

lemma restoreFromState_file:
  assumes "restoreFromState H True st (w, f) = (s, ls, ok)"
  shows "ok \<and> snd s = Written (st\<lparr> gf_State := stateRestored \<rparr>) \<or> snd s = f"
  using assms by (auto simp: restoreFromState_def Let_def split_beta write_state_def split: if_splits option.splits prod.splits)

text \<open>C24: a guardian that finds a state file not marked restored reports a failure; afterwards the file
  says restored and every channel in it was put to its value by its last attempted writes, or the file
  is as it was found.\<close>

theorem guardian_puts_back:
  assumes "gf_State st \<noteq> stateRestored"
  shows "let out = after_worker (attempts_host H) test sp pid e ((w, tr), Written st)
    in oc_Code out = exitFail \<and>
      (snd (oc_State out) = Written st \<or>
       snd (oc_State out) = Written (st\<lparr> gf_State := stateRestored \<rparr>) \<and>
         list_all (\<lambda>ch. put_last ch (back_value st ch) (snd (fst (oc_State out)))) (valid_keys st))"
proof -
  obtain s ls ok where r: "restoreFromState (attempts_host H) True st ((w, tr), Written st) = (s, ls, ok)" by (metis prod_cases3)
  have "put_last ch (back_value st ch) (snd (fst s))" if "ok" "ch \<in> set (valid_keys st)" for ch
    using attempts.restored [of H True st "(w, tr)" "Written st" s ls "gf_Device st" ch] r that by (simp add: split_beta)
  then show ?thesis using restoreFromState_file [OF r] r assms by (auto simp: after_worker_def Let_def list_all_iff)
qed

theorem guardian_puts_back_witness:
  "let out = after_worker (attempts_host still_host) ''map'' ''/run/s'' 7 (KilledBy ''killed'') (((), []), Written still_state)
   in oc_Code out = exitFail \<and> snd (oc_State out) = Written (still_state\<lparr> gf_State := stateRestored \<rparr>) \<and>
     list_all (\<lambda>ch. put_last ch (back_value still_state ch) (snd (fst (oc_State out)))) [3]"
proof -
  let ?out = "after_worker (attempts_host still_host) ''map'' ''/run/s'' 7 (KilledBy ''killed'') (((), []), Written still_state)"
  have "gf_State (case snd (oc_State ?out) of Written st \<Rightarrow> st | _ \<Rightarrow> still_state) = stateRestored" by code_simp
  moreover have "valid_keys still_state = [3]" "gf_State still_state \<noteq> stateRestored" by code_simp+
  ultimately show ?thesis
    using guardian_puts_back [of still_state still_host "''map''" "''/run/s''" 7 "KilledBy ''killed''" "()" "[]"] by (auto simp: Let_def)
qed

text \<open>What the guardian finds after its worker was killed.\<close>

definition found :: "watch list \<Rightarrow> state_read" where
  "found l = (case disk None l of None \<Rightarrow> NoFile | Some st \<Rightarrow> Written st)"

lemma guard_refuses: "stateOpen st \<Longrightarrow> guard_checks v test sp (Written st) \<noteq> None"
  by (auto simp: guard_checks_def split: option.split)

lemma channel_key_itoa: "1 \<le> ch \<Longrightarrow> ch \<le> 4 \<Longrightarrow> channel_key (itoa ch) = Some ch"
proof -
  have "channel_key (itoa 1) = Some 1" "channel_key (itoa 2) = Some 2" "channel_key (itoa 3) = Some 3" "channel_key (itoa 4) = Some 4"
    by code_simp+
  then show "1 \<le> ch \<Longrightarrow> ch \<le> 4 \<Longrightarrow> ?thesis" by (auto dest!: channel_cases)
qed

lemma carries_key: "carries st ch v hot \<Longrightarrow> 1 \<le> ch \<Longrightarrow> ch \<le> 4 \<Longrightarrow> ch \<in> set (valid_keys st)"
  by (force simp: carries_def valid_keys_def channel_key_itoa dest: map_of_SomeD)

lemma carries_value: "carries st ch v hot \<Longrightarrow> stored_value st ch \<in> {v, ''255''}"
  by (auto simp: carries_def stored_value_def)

lemma guardian_put:
  assumes "gf_State st \<noteq> stateRestored" "c \<in> set (valid_keys st)"
    and "after_worker (attempts_host H) test sp pid e ((w, tr), Written st) = out"
  shows "snd (oc_State out) = Written st \<or> put_last c (back_value st c) (snd (fst (oc_State out)))"
proof -
  obtain s ls ok where r: "restoreFromState (attempts_host H) True st ((w, tr), Written st) = (s, ls, ok)" by (metis prod_cases3)
  have "put_last c (back_value st c) (snd (fst s))" if "ok"
    using attempts.restored [of H True st "(w, tr)" "Written st" s ls "gf_Device st" c] r that assms(2) by (simp add: split_beta)
  then show ?thesis using restoreFromState_file [OF r] r assms(1,3) by (auto simp: after_worker_def Let_def)
qed

text \<open>C4: a run of map or handback that commanded anything is killed at any moment, and its guardian finds
  the state file as the run left it. Then every channel is at rest already; or the guardian put the
  channel back, by its last attempted writes, to its restore value or to the 255 of a temperature abort;
  or the state file is still open, and the next map or handback refuses to start.\<close>

theorem killed_run_put_back:
  assumes "run_validation (watched_desk D) V (w, []) = Some (rc, r)" "own_channel V" "\<not> vdry V" "watched r = pre @ post"
    "1 \<le> vch V" "vch V \<le> 4"
    and "after_worker (attempts_host H) test sp pid e ((w', []), found pre) = out"
  shows "list_all (at_rest (commands pre) (rn_RestoreOverrides r)) [1, 2, 3, 4] \<or>
    (\<exists>val \<in> {value_of V (vch V), ''255''}.
       put_last (vch V) (if vch V = PCIeChannel then PCIeRestore else val) (snd (fst (oc_State out)))) \<or>
    guard_checks v test sp (snd (oc_State out)) \<noteq> None"
proof (cases "list_all (at_rest (commands pre) (rn_RestoreOverrides r)) [1, 2, 3, 4]")
  case False
  then have "commands pre \<noteq> []" by (auto simp: at_rest_def last_cmd_def)
  then obtain st where st: "disk None pre = Some st" "gf_State st = stateActive" "carries st (vch V) (value_of V (vch V)) (rn_hot r)"
    using killed_run [OF assms(1-4)] False by (auto simp: recoverable_def)
  have "snd (oc_State out) = Written st \<or> put_last (vch V) (back_value st (vch V)) (snd (fst (oc_State out)))"
    using guardian_put [of st "vch V" H test sp pid e w' "[]" out] carries_key [OF st(3) assms(5,6)] assms(7) st(1,2)
    by (simp add: found_def stateActive_def stateRestored_def)
  then show ?thesis using carries_value [OF st(3)] guard_refuses [OF active_open [OF st(2)]] by (auto simp: back_value_def)
qed blast

theorem killed_run_put_back_witness:
  "\<exists>rc r. run_validation (watched_desk still_desk) (still_view confirmText) (0, []) = Some (rc, r) \<and>
     list_all (\<lambda>n.
       let out = after_worker (attempts_host still_host) ''map'' ''/run/s'' 7 (KilledBy ''killed'') (((), []), found (take n (watched r)))
       in list_all (at_rest (commands (take n (watched r))) (rn_RestoreOverrides r)) [1, 2, 3, 4] \<or>
          (\<exists>val \<in> {''auto'', ''255''}. put_last 1 val (snd (fst (oc_State out)))) \<or>
          guard_checks \<lparr> gv_Root = True, gv_Fangov = '''', gv_Lock = None, gv_Remove = None, gv_Start = None \<rparr> ''map'' ''/run/s''
            (snd (oc_State out)) \<noteq> None) [0..<Suc (length (watched r))]"
proof -
  obtain rc r where r: "run_validation (watched_desk still_desk) (still_view confirmText) (0, []) = Some (rc, r)" using still_run by blast
  show ?thesis
    using killed_run_put_back [OF r still_config(1,2) append_take_drop_id [symmetric] _ _ refl, where H = still_host] r
    by (simp add: still_config PCIeChannel_def Let_def list_all_iff del: upt_Suc)
qed

end
