(* ===== verification/Live_World.thy ===== *)
theory Live_World
  imports Run_Properties Live_Env
begin

text \<open>
  What every operation on the outside keeps is kept by a run: the interfaces \<open>kept_world\<close> (for the
  runner) and \<open>kept_desk\<close> (for a run of map or handback), and the desk of a run on the machine.
\<close>

section \<open>The world of the runner\<close>

locale kept_world =
  fixes S :: "'w Setup" and W :: "'w \<Rightarrow> bool"
  assumes now [simp]: "W w \<Longrightarrow> W (fst (e_Now (su_Env S) w))"
    and sleep [simp]: "W w \<Longrightarrow> W (fst (e_Sleep (su_Env S) bg d w))"
    and dcr [simp]: "W w \<Longrightarrow> W (fst (e_DCR (su_Env S) w))"
    and reads [simp]: "W w \<Longrightarrow> W (fst (e_Read (su_Env S) w))"
    and manual_kept [simp]: "W w \<Longrightarrow> W (fst (e_EnterManual (su_Env S) ch w))"
    and duty_kept [simp]: "W w \<Longrightarrow> W (fst (e_WriteDuty (su_Env S) ch d w))"
    and auto_kept [simp]: "W w \<Longrightarrow> W (fst (e_Auto (su_Env S) ch w))"
    and restore_kept [simp]: "W w \<Longrightarrow> W (fst (e_Restore (su_Env S) ch w))"
    and guard_kept: "su_Guard S = Some g \<Longrightarrow> W w \<Longrightarrow> W (fst (g w))"
    and sample_kept: "su_OnSample S = Some f \<Longrightarrow> W w \<Longrightarrow> W (f s w)"
    and event_kept: "su_OnEvent S = Some h \<Longrightarrow> W w \<Longrightarrow> W (h l w)"
    and before_kept: "su_BeforeWrite S = Some b \<Longrightarrow> W w \<Longrightarrow> W (fst (b w))"
    and hot_kept: "su_BeforeHot S = Some k \<Longrightarrow> W w \<Longrightarrow> W (fst (k ch w))"
begin

abbreviation Good :: "'w runner \<Rightarrow> bool" where "Good r \<equiv> W (rn_world r)"

lemma good_eventAt [simp]: "Good r \<Longrightarrow> Good (fst (eventAt S txt r))"
  by (simp add: eventAt_def Let_def split_beta event_kept split: option.split)

lemma good_event [simp]: "Good r \<Longrightarrow> Good (event S txt r)"
  by (simp add: event_def)

lemma good_guard: "Good r \<Longrightarrow> Good (fst (guard S r))"
  by (simp add: guard_def split_beta guard_kept split: option.split)

lemma good_read_regs: "Good r \<Longrightarrow> Good (fst (read_regs S r))"
  by (simp add: read_regs_def split_beta)

lemma good_sample_ts: "Good r \<Longrightarrow> Good (fst (sample_ts S phase due t r))"
  by (simp add: sample_ts_def Let_def split: option.split)

lemma good_record: "Good r \<Longrightarrow> Good (record_sample S s r)"
  by (simp add: record_sample_def sample_kept split: option.split)

lemma good_sampleAt: "Good r \<Longrightarrow> Good (fst (sampleAt S phase written due r))"
  by (simp add: sampleAt_def Let_def split_beta good_guard good_read_regs good_sample_ts good_record)

lemma good_firstWrite: "Good r \<Longrightarrow> Good (fst (firstWrite S r))"
  by (simp add: firstWrite_def split_beta before_kept split: option.split)

lemma good_before_hot: "Good r \<Longrightarrow> Good (before_hot S ch whn r)"
  by (simp add: before_hot_def split_beta hot_kept split: option.split)

lemma good_check_hot:
  assumes "Good r" "check_hot S ch whn why t0 r = Some (r', ok)"
  shows "Good r'"
proof -
  have "W w" if "WaitDCR (wait_env_of (su_Env S)) t0 regs want st tm (rn_world r) = Some (w, s)" for w s regs want st tm
    using WaitDCR_inv [OF that, of W] assms(1) by (simp add: wait_env_of_def)
  then show ?thesis using assms by (auto simp: check_hot_def Let_def split: if_splits option.splits)
qed

lemma good_write_hot: "Good r \<Longrightarrow> Good (fst (write_hot S ch r))"
  by (simp add: write_hot_def split_beta split: option.split)

lemma good_restoreHot:
  assumes "Good r" "restoreHot S ch whn r = Some (r', ok)"
  shows "Good r'"
proof -
  let ?b = "before_hot S ch whn r"
  obtain r2 e where w: "write_hot S ch (?b\<lparr> rn_world := fst (e_Now (su_Env S) (rn_world ?b)) \<rparr>) = (r2, e)" by fastforce
  have "Good r2" using good_write_hot [of "?b\<lparr> rn_world := fst (e_Now (su_Env S) (rn_world ?b)) \<rparr>" ch] good_before_hot [OF assms(1)] w by simp
  then have e: "Good (event S t r2)" "Good (r2\<lparr> rn_RestoreOverrides := o', rn_restoreErr := x \<rparr>)" for t o' x by simp_all
  show ?thesis
  proof (cases e)
    case None
    then obtain o' x whn' why t0 where "check_hot S ch whn' why t0 (r2\<lparr> rn_RestoreOverrides := o', rn_restoreErr := x \<rparr>) = Some (r', ok)"
      using assms(2) w by (auto simp: restoreHot_def Let_def split_beta)
    then show ?thesis by (rule good_check_hot [OF e(2)])
  next
    case (Some x)
    then show ?thesis using assms(2) w e(1) by (auto simp: restoreHot_def Let_def split_beta)
  qed
qed

lemma good_restore:
  assumes "Good r" "restore_untouch S ch whn r = Some r'"
  shows "Good r'"
proof -
  obtain r1 ok where r1: "restore S ch whn r = Some (r1, ok)" "r' = (if ok then untouch ch r1 else r1)"
    using assms(2) by (auto simp: restore_untouch_def split: option.splits)
  have "Good (event S t (r\<lparr> rn_world := fst (e_Restore (su_Env S) ch (rn_world r)) \<rparr>))" for t
    by (rule good_event) (simp add: assms(1))
  then have "Good r1" using r1(1) good_restoreHot [OF assms(1)]
    by (auto simp: restore_def Let_def split_beta split: if_splits option.splits restore_error.splits)
  then show ?thesis using r1(2) by simp
qed

end

sublocale kept_world \<subseteq> world: runner_inv S Good
proof unfold_locales
  fix r :: "'w runner" and ch duty
  assume "Good r"
  then have "Good (fst (firstWrite S r))" by (rule good_firstWrite)
  then show "Good (fst (manual S ch r))" "Good (fst (write_duty S ch duty r))" "Good (fst (auto_cmd S ch r))"
    using \<open>Good r\<close> by (simp_all add: manual_def write_duty_def auto_cmd_def Let_def split_beta split: option.split)
qed (simp_all add: good_sampleAt good_restore mark_hot_def Let_def)

context kept_world begin

lemma good_inv: "runner_inv S Good"
  by (rule world.runner_inv_axioms)

end

context commanding_run begin

lemma body_keeps: "I r \<Longrightarrow> run_body D V S dir has early r = Some (rc, r') \<Longrightarrow> \<exists>q. I q \<and> r' = mark_restored D V has q"
  by (rule whole.run_body_keeps) simp_all

end

section \<open>The world of a run\<close>

locale kept_desk =
  fixes D :: "'w desk" and W :: "'w \<Rightarrow> bool"
  assumes d_now: "W w \<Longrightarrow> W (fst (e_Now (dk_Env D) w))"
    and d_sleep: "W w \<Longrightarrow> W (fst (e_Sleep (dk_Env D) bg d w))"
    and d_dcr: "W w \<Longrightarrow> W (fst (e_DCR (dk_Env D) w))"
    and d_read: "W w \<Longrightarrow> W (fst (e_Read (dk_Env D) w))"
    and d_manual: "W w \<Longrightarrow> W (fst (e_EnterManual (dk_Env D) ch w))"
    and d_duty: "W w \<Longrightarrow> W (fst (e_WriteDuty (dk_Env D) ch d w))"
    and d_auto: "W w \<Longrightarrow> W (fst (e_Auto (dk_Env D) ch w))"
    and d_restore: "W w \<Longrightarrow> W (fst (e_Restore (dk_Env D) ch w))"
    and d_check: "dk_Check D = Some g \<Longrightarrow> W w \<Longrightarrow> W (fst (g w))"
    and d_create: "W w \<Longrightarrow> W (fst (dk_Create D dir w))"
    and d_event: "W w \<Longrightarrow> W (dk_Event D l w)"
    and d_sample: "W w \<Longrightarrow> W (dk_Sample D s w)"
    and d_json: "W w \<Longrightarrow> W (fst (dk_Json D n j w))"
    and d_finish: "W w \<Longrightarrow> W (fst (dk_Finish D w))"
    and d_save: "W w \<Longrightarrow> W (fst (dk_Save D st w))"
    and d_print: "W w \<Longrightarrow> W (dk_Print D t w)"
begin

abbreviation Fine :: "'w mem \<Rightarrow> bool" where "Fine p \<equiv> W (fst p)"

lemmas desk_keeps = d_now d_sleep d_dcr d_read d_manual d_duty d_auto d_restore d_check d_create d_event d_sample d_json d_finish d_save d_print

lemma fine_event: "Fine p \<Longrightarrow> Fine (hook_event D t txt p)"
  by (simp add: hook_event_def split_beta desk_keeps)

lemma fine_save: "Fine p \<Longrightarrow> Fine (fst (save_state D t txt p))"
  using d_save [of "fst p" "snd p"]
  by (cases "dk_Save D (snd p) (fst p)"; cases "snd (dk_Save D (snd p) (fst p))") (auto simp: save_state_def split_beta fine_event)

lemma fine_before: "Fine p \<Longrightarrow> Fine (fst (before_write D V t p))"
  by (simp add: before_write_def fine_save)

lemma fine_hot: "Fine p \<Longrightarrow> Fine (fst (before_hot_state D V t ch p))"
  by (simp add: before_hot_state_def split_beta fine_save)

lemma base_kept: "kept_world (base_setup D V) Fine"
  by unfold_locales (auto simp: base_setup_def outer_env_def split_beta desk_keeps)

lemma open_kept: "kept_world (open_setup D V) Fine"
  by unfold_locales (auto simp: open_setup_def base_setup_def outer_env_def split_beta desk_keeps)

lemma write_kept: "kept_world (write_setup D V t) Fine"
  by unfold_locales
    (auto simp: write_setup_def open_setup_def base_setup_def outer_env_def split_beta desk_keeps fine_before fine_hot)

lemma fine_fold: "W w \<Longrightarrow> W (fold (dk_Print D) ls w)" "W w \<Longrightarrow> W (fold (dk_Event D) ls w)"
  by (induction ls arbitrary: w) (simp_all add: desk_keeps)

lemma fine_say [simp]: "Fine (rn_world r) \<Longrightarrow> Fine (rn_world (say D ls r))"
  by (simp add: say_def split_beta fine_fold)

lemma fine_ask: "(\<And>w. W w \<Longrightarrow> W (fst (f w))) \<Longrightarrow> Fine (rn_world r) \<Longrightarrow> Fine (rn_world (fst (ask_desk f r)))"
  by (simp add: ask_desk_def split_beta)

lemma commanding:
  assumes "kept_world S Fine"
  shows "commanding_run S (\<lambda>r. Fine (rn_world r)) D"
  by (rule commanding_run.intro [OF kept_world.good_inv [OF assms]])
    (unfold_locales, simp_all add: fine_ask desk_keeps)

lemma mark_kept: "Fine (rn_world q) \<Longrightarrow> Fine (rn_world (mark_restored D V has q))"
  by (simp add: mark_restored_def Let_def split_beta desk_keeps)

lemma body_kept:
  assumes "kept_world S Fine" "Fine (rn_world r)" "run_body D V S dir has early r = Some (rc, r')"
  shows "Fine (rn_world r')"
  using commanding_run.body_keeps [OF commanding [OF assms(1)] assms(2,3)] mark_kept by blast

lemma event_fine: "kept_world S Fine \<Longrightarrow> Fine (rn_world r) \<Longrightarrow> Fine (rn_world (event S t r))"
  by (rule kept_world.good_event)

lemma opened_kept:
  assumes "Fine (rn_world r)" "run_opened D V dir will early r = Some (rc, r')"
  shows "Fine (rn_world r')"
proof -
  let ?S = "open_setup D V"
  define r1 where "r1 = event ?S (start_text V) (r\<lparr> rn_world := (case rn_world r of (w, st) \<Rightarrow> (fold (dk_Event D) (rn_Events r) w, st)) \<rparr>)"
  obtain r2 e where r2: "ask_desk (dk_Json D MetaName (prov_meta V (rn_start r))) r1 = (r2, e)" by fastforce
  have "Fine (rn_world r1)" unfolding r1_def by (intro event_fine open_kept) (simp add: split_beta fine_fold assms(1))
  then have f: "Fine (rn_world r2)" using fine_ask [of "dk_Json D MetaName (prov_meta V (rn_start r))" r1] d_json r2 by simp
  have g: "Fine (rn_world (say D ls (fst (ask_desk (dk_Finish D) r2))))" for ls by (intro fine_say fine_ask d_finish f)
  note run = assms(2) [unfolded run_opened_def Let_def, folded r1_def, unfolded r2 prod.case]
  have b: "Fine (rn_world r')" if "run_body D V (write_setup D V t) dir has early (r2\<lparr> rn_world := (fst (rn_world r2), st) \<rparr>) = Some (rc, r')" for t has st
    by (rule body_kept [OF write_kept _ that]) (simp add: f)
  show ?thesis
    using run g body_kept [OF open_kept f] b by (auto split: option.splits if_splits sum.splits)
qed

lemma validation_kept:
  assumes "W w" "run_validation D V w = Some (rc, r)"
  shows "Fine (rn_world r)"
proof -
  let ?S = "base_setup D V"
  define r0 where "r0 = NewRunner (su_Env ?S) (w, no_state)"
  define early where "early = blocked_by (vw_Gates V)"
  define will where "will \<longleftrightarrow> vwriting V \<and> early = '''' \<and> rn_dcrOK r0"
  define r1 where "r1 = say D (header_lines V (rn_start r0)) r0"
  define r2 where "r2 = (if asks V then say D (prompt_lines V will early (rn_dcrOK r0) (rn_dcrErr r0)) r1 else r1)"
  define r3 where "r3 = (if asks V then event ?S (confirmed_text V) r2 else r2)"
  obtain r4 e where r4: "ask_desk (dk_Create D (bundle_dir V (rn_start r0))) r3 = (r4, e)" by fastforce
  have "Fine (rn_world r0)" by (simp add: r0_def NewRunner_def Let_def split_beta base_setup_def outer_env_def desk_keeps assms(1))
  then have f2: "Fine (rn_world r2)" by (simp add: r1_def r2_def)
  then have "Fine (rn_world r3)" by (simp add: r3_def event_fine [OF base_kept])
  then have f4: "Fine (rn_world r4)" using fine_ask [of "dk_Create D (bundle_dir V (rn_start r0))" r3] d_create r4 by simp
  note run = assms(2) [unfolded run_validation_def Let_def, folded r0_def early_def, folded will_def r1_def, folded r2_def, folded r3_def, unfolded r4 prod.case]
  show ?thesis using run f2 f4 opened_kept [OF f4] by (auto split: if_splits option.splits)
qed

end

section \<open>The desk of a run on the machine\<close>

text \<open>
  The environment of the machine (\<open>live_env\<close>) and the regulator check with its expectation; the
  bundle, the state file and the terminal are those of \<open>R\<close>. \<open>systemctl\<close> and \<open>lock\<close> are what the
  check finds at this moment.
\<close>

definition desk_with :: "'w desk \<Rightarrow> ('w \<times> 'e) desk" where
  "desk_with R =
     \<lparr> dk_Env = \<lparr> e_Now = beside (e_Now (dk_Env R)), e_Sleep = (\<lambda>bg d. beside (e_Sleep (dk_Env R) bg d)),
         e_EnterManual = (\<lambda>ch. beside (e_EnterManual (dk_Env R) ch)), e_WriteDuty = (\<lambda>ch d. beside (e_WriteDuty (dk_Env R) ch d)),
         e_Auto = (\<lambda>ch. beside (e_Auto (dk_Env R) ch)), e_Restore = (\<lambda>ch. beside (e_Restore (dk_Env R) ch)),
         e_DCR = beside (e_DCR (dk_Env R)), e_Read = beside (e_Read (dk_Env R)) \<rparr>,
       dk_Check = map_option beside (dk_Check R), dk_Cancelled = (\<lambda>(w, e). dk_Cancelled R w), dk_ECRAM = (\<lambda>(w, e). dk_ECRAM R w),
       dk_Create = (\<lambda>d. beside (dk_Create R d)), dk_Event = (\<lambda>l (w, e). (dk_Event R l w, e)),
       dk_Sample = (\<lambda>s (w, e). (dk_Sample R s w, e)), dk_Json = (\<lambda>n j. beside (dk_Json R n j)), dk_Finish = beside (dk_Finish R),
       dk_Save = (\<lambda>st. beside (dk_Save R st)), dk_Print = (\<lambda>t (w, e). (dk_Print R t w, e)) \<rparr>"

definition machine_check :: "'w machine \<Rightarrow> ('w \<Rightarrow> string \<Rightarrow> string + string) \<Rightarrow> ('w \<Rightarrow> string option) \<Rightarrow> (int \<Rightarrow> bool) \<Rightarrow> 'w live \<Rightarrow> string list" where
  "machine_check M systemctl lock self = (\<lambda>(w, ex).
     Check (systemctl w) (k_view (mh_Kernel M) w) (live_read M w)
       \<lparr> ck_ProcRoot = mh_Proc M, ck_Self = self, ck_Lock = Some (lock w), ck_Expect = Some ex \<rparr>)"

definition machine_desk :: "'w machine \<Rightarrow> ('w \<Rightarrow> string \<Rightarrow> string + string) \<Rightarrow> ('w \<Rightarrow> string option) \<Rightarrow> (int \<Rightarrow> bool) \<Rightarrow> 'w desk \<Rightarrow> 'w live desk" where
  "machine_desk M systemctl lock self R =
     (desk_with R)\<lparr> dk_Env := live_env M, dk_Check := Some (\<lambda>s. (s, machine_check M systemctl lock self s)) \<rparr>"

section \<open>What reaches the kernel in a run\<close>

text \<open>The machine whose kernel keeps a list of every attempted write beside its world.\<close>

definition tapped :: "'w machine \<Rightarrow> ('w \<times> (string \<times> string) list) machine" where
  "tapped M =
     \<lparr> mh_Kernel = traced (mh_Kernel M), mh_Sys = mh_Sys M, mh_Proc = mh_Proc M, mh_Now = beside (mh_Now M),
       mh_Sleep = (\<lambda>bg d. beside (mh_Sleep M bg d)), mh_Stat = (\<lambda>(w, tr). mh_Stat M w), mh_Want = mh_Want M, mh_Restore = mh_Restore M \<rparr>"

definition only_safe :: "('w \<times> (string \<times> string) list) live \<Rightarrow> bool" where
  "only_safe s \<longleftrightarrow> list_all safe_entry (snd (fst s))"

lemma live_call_safe:
  assumes "only_safe s" "\<And>w h r w' h'. list_all safe_entry (snd w) \<Longrightarrow> call (w, h) = (r, w', h') \<Longrightarrow> list_all safe_entry (snd w')"
  shows "only_safe (fst (live_call M call s))"
proof -
  obtain r w' ex q where c: "call (fst s, snd s, None) = (r, w', ex, q)" by (metis surj_pair)
  have "list_all safe_entry (snd w')" using assms(2) [OF _ c] assms(1) by (simp add: only_safe_def)
  then show ?thesis using c by (simp add: live_call_def only_safe_def split_beta split: option.split)
qed

lemma writes_safe:
  "list_all safe_entry (snd w) \<Longrightarrow> Write (traced k) W ch a v (w, h) = (r, w', h') \<Longrightarrow> list_all safe_entry (snd w')"
  "list_all safe_entry (snd w) \<Longrightarrow> RestoreTo (traced k) W ch x (w, h) = (r, w', h') \<Longrightarrow> list_all safe_entry (snd w')"
  using traced_kernel.Write_keeps [of w k W ch a v h r w' h'] traced_kernel.RestoreTo_keeps [of w k W ch x h r w' h']
  by (simp_all add: split_beta)

lemma tapped_kernel [simp]: "mh_Kernel (tapped M) = traced (mh_Kernel M)"
  by (simp add: tapped_def)

lemma live_safe:
  assumes "only_safe s"
  shows "only_safe (fst (live_EnterManual (tapped M) ch s))" "only_safe (fst (live_WriteDuty (tapped M) ch d s))"
    "only_safe (fst (live_Auto (tapped M) ch s))"
    "only_safe (fst (live_call (tapped M) (RestoreTo (traced (mh_Kernel M)) (live_writer (tapped M)) ch x) s))"
proof -
  have c: "only_safe (fst (live_call (tapped M) (Write (traced (mh_Kernel M)) (live_writer (tapped M)) ch a v) s))" for a v
    by (rule live_call_safe [OF assms]) (rule writes_safe(1))
  show "only_safe (fst (live_call (tapped M) (RestoreTo (traced (mh_Kernel M)) (live_writer (tapped M)) ch x) s))"
    by (rule live_call_safe [OF assms]) (rule writes_safe(2))
  show "only_safe (fst (live_EnterManual (tapped M) ch s))" "only_safe (fst (live_WriteDuty (tapped M) ch d s))"
    "only_safe (fst (live_Auto (tapped M) ch s))"
    using c by (simp_all add: live_EnterManual_def live_WriteDuty_def live_Auto_def split_beta EnterManual_def SetDuty_def Auto_def)
qed

lemma live_time:
  assumes "only_safe s"
  shows "only_safe (fst (we_now (live_wait (tapped M)) s))" "only_safe (fst (we_sleep (live_wait (tapped M)) d s))"
    "only_safe (fst (we_read (live_wait (tapped M)) s))"
    "only_safe (fst (case s of (w, ex) \<Rightarrow> case mh_Sleep (tapped M) bg d w of (w', ok) \<Rightarrow> ((w', ex), ok)))"
  using assms by (simp_all add: only_safe_def live_wait_def split_beta live_DCR_def tapped_def)

lemma live_Restore_safe:
  assumes "only_safe s" "live_Restore (tapped M) ch s = Some (s', e)"
  shows "only_safe s'"
proof -
  obtain s1 t0 where n: "we_now (live_wait (tapped M)) s = (s1, t0)" by fastforce
  have s1: "only_safe s1" using live_time(1) [OF assms(1), of M] n by simp
  obtain s2 r where c: "live_call (tapped M) (RestoreTo (traced (mh_Kernel M)) (live_writer (tapped M)) ch (restore_value (tapped M) ch)) s1 = (s2, r)"
    by fastforce
  have s2: "only_safe s2" using live_safe(4) [OF s1, of M ch "restore_value (tapped M) ch"] c by simp
  have v: "only_safe s3" if "verify_duty (tapped M) ch want t0 s2 = Some (s3, q)" for s3 q want
  proof -
    have "only_safe w" if "WaitDCR (live_wait (tapped M)) t0 regs want st tm s2 = Some (w, x)" for w x regs st tm
      using WaitDCR_inv [OF that, of only_safe] s2 live_time by blast
    then show ?thesis using that by (auto simp: verify_duty_def Let_def split: option.splits)
  qed
  show ?thesis using assms(2) n c s2 v by (auto simp: live_Restore_def Let_def split: option.splits if_splits)
qed

interpretation machine_world: kept_desk "machine_desk (tapped M) systemctl lock self (desk_with R)" only_safe
  for M :: "'w machine" and systemctl lock self R
proof
  fix s :: "('w \<times> (string \<times> string) list) live" and ch d bg
  assume s: "only_safe s"
  show "only_safe (fst (e_Restore (dk_Env (machine_desk (tapped M) systemctl lock self (desk_with R))) ch s))"
    using live_Restore_safe [OF s, of M ch] s by (auto simp: machine_desk_def live_env_def split: option.split)
  show "only_safe (fst (e_Sleep (dk_Env (machine_desk (tapped M) systemctl lock self (desk_with R))) bg d s))"
    using live_time(4) [OF s, of M bg d] by (simp add: machine_desk_def live_env_def)
next
  fix s :: "('w \<times> (string \<times> string) list) live" and g
  assume "dk_Check (machine_desk (tapped M) systemctl lock self (desk_with R)) = Some g" "only_safe s"
  then show "only_safe (fst (g s))" by (auto simp: machine_desk_def)
qed (simp_all add: machine_desk_def live_env_def live_safe live_time live_DCR_def split_beta,
     simp_all add: only_safe_def desk_with_def split_beta)

section \<open>The machine returns\<close>

text \<open>The clock of a machine: sleeping moves it on, nothing moves it back.\<close>

locale going_machine =
  fixes M :: "'w machine" and clk :: "'w \<Rightarrow> nanos"
  assumes machine_now: "mh_Now M w = (w', t) \<Longrightarrow> clk w \<le> t \<and> t \<le> clk w'"
    and machine_sleep: "mh_Sleep M True d w = (w', True) \<Longrightarrow> 0 \<le> d \<Longrightarrow> clk w + d \<le> clk w'"
begin

lemma wait_clock: "clock (live_wait M) (\<lambda>(w, ex). clk w)"
  by unfold_locales
    (auto simp: live_wait_def live_DCR_def split: prod.splits dest: machine_now machine_sleep)

text \<open>A restore returns: \<open>live_env\<close> never gives the value it has for one that does not.\<close>

lemma live_returns: "live_Restore M ch s \<noteq> None"
proof -
  have "verify_duty M ch want t0 s \<noteq> None" for want t0 s
    using clock.WaitDCR_returns [OF wait_clock, of t0 "JudgedRegs ch" want "SettleTime ch" "SettleTime ch" s]
    by (auto simp: verify_duty_def Let_def)
  then show ?thesis by (simp add: live_Restore_def Let_def split_beta split: option.split)
qed

lemma env_clock: "clock (wait_env_of (outer_env (live_env M))) (\<lambda>((w, ex), st). clk w)"
  by unfold_locales
    (auto simp: wait_env_of_def outer_env_def outer_def live_env_def live_wait_def live_DCR_def split: prod.splits dest: machine_now machine_sleep)

lemma run_ends: "run_validation (machine_desk M systemctl lock self R) V w \<noteq> None"
  by (rule validation_returns [where clk = "\<lambda>((w, ex), st). clk w"]) (simp add: machine_desk_def env_clock)

end

section \<open>A machine of files\<close>

text \<open>A machine whose kernel stores what is written to the files, and whose clock only sleeps move on.\<close>

definition file_machine :: "string \<Rightarrow> string \<Rightarrow> Device \<Rightarrow> (int \<Rightarrow> string option) \<Rightarrow> (nanos \<times> filesys) machine" where
  "file_machine sys proc dv vals =
     \<lparr> mh_Kernel = \<lparr> k_view = snd, k_write = (\<lambda>p v (t, fs). ((t, fs\<lparr> fs_file := (fs_file fs)(p \<mapsto> v) \<rparr>), None)) \<rparr>,
       mh_Sys = sys, mh_Proc = proc, mh_Now = (\<lambda>(t, fs). ((t, fs), t)), mh_Sleep = (\<lambda>bg d (t, fs). ((t + d, fs), True)),
       mh_Stat = (\<lambda>(t, fs) p. fs_file fs p \<noteq> None), mh_Want = dv, mh_Restore = vals \<rparr>"

interpretation files_go: going_machine "file_machine sys proc dv vals" fst for sys proc dv vals
  by unfold_locales (auto simp: file_machine_def)

context going_machine begin

lemma tapped_goes: "going_machine (tapped M) (\<lambda>(w, tr). clk w)"
  by unfold_locales (auto simp: tapped_def beside_def split: prod.splits dest: machine_now machine_sleep)

end

interpretation files_tapped: going_machine "tapped (file_machine sys proc dv vals)" "\<lambda>(w, tr). fst w" for sys proc dv vals
  by (rule files_go.tapped_goes)

interpretation machine_runner: kept_world "write_setup (machine_desk (tapped M) systemctl lock self (desk_with R)) V t" "\<lambda>p. only_safe (fst p)"
  for M :: "'w machine" and systemctl lock self R V t
  by (rule machine_world.write_kept)

section \<open>Properties\<close>

text \<open>C6: whatever a run of map or handback on the machine does, from the first line to the exit, restores
  included, every value it tries to write to a file of the driver is allowed: manual mode or the
  automatic, or a duty of 100 to 255, of the channels 1 to 4.\<close>

theorem machine_writes_allowed:
  assumes "run_validation (machine_desk (tapped M) systemctl lock self (desk_with R)) V ((w, []), ex) = Some (rc, r)"
  shows "list_all safe_entry (snd (fst (fst (rn_world r))))"
  using machine_world.validation_kept [OF _ assms] by (simp add: only_safe_def)

text \<open>The machine and the desk of the examples.\<close>

definition disk_machine :: "(nanos \<times> filesys) machine" where
  "disk_machine = file_machine ''/sys'' ''/proc'' \<lparr> dv_Name = ModuleName, dv_DevicePath = ''/d'', dv_SrcVersion = '''' \<rparr> (\<lambda>_. None)"

definition file_desk :: "(nanos \<times> filesys) desk" where "file_desk = desk_with still_desk"

definition still_ex :: Expectation where "still_ex = NewExpectation (\<lambda>ch a. None)"

theorem machine_writes_allowed_witness:
  "\<exists>rc r. run_validation (machine_desk (tapped disk_machine) (\<lambda>_ _. Inl '''') (\<lambda>_. None) (\<lambda>_. False)
       (desk_with file_desk)) (still_view confirmText) (((0, no_files), []), still_ex) = Some (rc, r) \<and>
     list_all safe_entry (snd (fst (fst (rn_world r))))"
proof -
  obtain rc r where "run_validation (machine_desk (tapped disk_machine) (\<lambda>_ _. Inl '''') (\<lambda>_. None) (\<lambda>_. False)
       (desk_with file_desk)) (still_view confirmText) (((0, no_files), []), still_ex) = Some (rc, r)"
    using files_tapped.run_ends unfolding disk_machine_def by fastforce
  with machine_writes_allowed [OF this] show ?thesis by blast
qed

text \<open>C20: on a machine whose clock sleeps move on every run of map or handback returns, the read-backs of the
  restores included.\<close>

theorem machine_run_returns:
  assumes "\<And>w w' t. mh_Now M w = (w', t) \<Longrightarrow> clk w \<le> t \<and> t \<le> clk w'"
    and "\<And>d w w'. mh_Sleep M True d w = (w', True) \<Longrightarrow> 0 \<le> d \<Longrightarrow> clk w + d \<le> clk w'"
  shows "(\<forall>ch s. live_Restore M ch s \<noteq> None) \<and> run_validation (machine_desk M systemctl lock self R) V w \<noteq> None"
  using going_machine.live_returns [OF going_machine.intro] going_machine.run_ends [OF going_machine.intro] assms by blast

theorem machine_run_returns_witness:
  "\<exists>rc r. run_validation (machine_desk disk_machine (\<lambda>_ _. Inl '''') (\<lambda>_. None) (\<lambda>_. False) file_desk)
     (still_view confirmText) ((0, no_files), still_ex) = Some (rc, r)"
  using machine_run_returns [of disk_machine fst "\<lambda>_ _. Inl ''''" "\<lambda>_. None" "\<lambda>_. False" file_desk
      "still_view confirmText" "((0, no_files), still_ex)"]
  by (auto simp: disk_machine_def file_machine_def)

end
