(* ===== verification/Cli_Properties.thy ===== *)
theory Cli_Properties
  imports Validate_Opts
begin

text \<open>
  The command line of map and handback: flags may stand anywhere, and a run on the machine keeps the
  times of the specification.
\<close>

section \<open>Flags anywhere\<close>

text \<open>
  The meaning meant: every argument is either a flag, with its value, or positional. \<open>--\<close> is left out
  (its treatment is another: see the header of the root theory).
\<close>

fun anywhere :: "flag_set \<Rightarrow> (string \<times> string) list \<Rightarrow> string list \<Rightarrow> string list \<Rightarrow> ((string \<times> string) list \<times> string list) option" where
  "anywhere F sets pos [] = Some (sets, pos)"
| "anywhere F sets pos (s # args) =
     (case flag_word_of s of
        Positional \<Rightarrow> anywhere F sets (pos @ [s]) args
      | Word name val \<Rightarrow>
          (case (map_of F name, val) of
             (Some (True, ok), None) \<Rightarrow> if ok ''true'' then anywhere F (sets @ [(name, ''true'')]) pos args else None
           | (Some (b, ok), Some v) \<Rightarrow> if ok v then anywhere F (sets @ [(name, v)]) pos args else None
           | (Some (False, ok), None) \<Rightarrow>
               (case args of [] \<Rightarrow> None | v # rest \<Rightarrow> if ok v then anywhere F (sets @ [(name, v)]) pos rest else None)
           | (None, _) \<Rightarrow> None)
      | _ \<Rightarrow> None)"

text \<open>A word as \<open>splitFlags\<close> sees it.\<close>

lemma word_cases:
  assumes "flag_word_of s = Word name val"
  shows "s \<noteq> ''--'' \<and> has_prefix ''-'' s \<and> length s > 1 \<and> (val = None \<longrightarrow> flag_name s = name) \<and> (val = None \<longleftrightarrow> CHR ''='' \<notin> set (flag_name s))"
proof -
  obtain c t where s: "s = CHR ''-'' # c # t"
    using assms by (cases s; cases "tl s") (auto simp: flag_word_of_def split: if_splits)
  define n where "n = (if c = CHR ''-'' then t else c # t)"
  have n: "n \<noteq> []" "hd n \<noteq> CHR ''-''" "s \<noteq> ''--''"
    using assms by (auto simp: flag_word_of_def s n_def Let_def split: if_splits)
  have "dropWhile (\<lambda>c. c = CHR ''-'') n = n" using n by (cases n) auto
  then have "flag_name s = n" by (auto simp: flag_name_def s n_def)
  moreover have "val = None \<and> name = n \<and> CHR ''='' \<notin> set n \<or> val \<noteq> None \<and> CHR ''='' \<in> set n"
    using assms by (auto simp: flag_word_of_def s n_def Let_def cut_at_def split: if_splits)
  ultimately show ?thesis using n s by (auto simp: has_prefix_def)
qed

lemma positional_cases: "flag_word_of s = Positional \<longleftrightarrow> \<not> (has_prefix ''-'' s \<and> length s > 1)"
  by (cases s) (auto simp: flag_word_of_def has_prefix_def Let_def split: prod.splits bool.splits)

text \<open>What the flags in front leave: the positional arguments \<open>ps\<close>, at any of which the parser stops.\<close>

definition in_front :: "flag_set \<Rightarrow> string list \<Rightarrow> (string \<times> string) list \<Rightarrow> string list \<Rightarrow> (string \<times> string) list \<Rightarrow> string list \<Rightarrow> bool" where
  "in_front F vs sets args sets' ps \<longleftrightarrow>
     (\<exists>fs. split_loop vs args = (fs, ps) \<and> list_all (\<lambda>p. flag_word_of p = Positional) ps \<and>
        (\<forall>qs. qs = [] \<or> flag_word_of (hd qs) = Positional \<longrightarrow> parse_words F sets (fs @ qs) = Parsed sets' qs))"

lemma front_nil: "in_front F vs sets [] sets []"
proof -
  have "parse_words F sets qs = Parsed sets qs" if "qs = [] \<or> flag_word_of (hd qs) = Positional" for qs
    using that by (cases qs) auto
  then show ?thesis by (simp add: in_front_def)
qed

lemma front_positional:
  assumes "in_front F vs sets args sets' ps" "flag_word_of s = Positional"
  shows "in_front F vs sets (s # args) sets' (s # ps)"
proof -
  have "s \<noteq> ''--''" using assms(2) by (auto simp: flag_word_of_def)
  moreover have "\<not> (has_prefix ''-'' s \<and> length s > 1)" using assms(2) by (simp add: positional_cases)
  ultimately have "split_loop vs (s # args) = (fst (split_loop vs args), s # snd (split_loop vs args))" by (auto simp: split_beta)
  then show ?thesis using assms by (auto simp: in_front_def)
qed

lemma front_word:
  assumes "in_front F vs (sets @ [(name, v)]) args sets' ps" "flag_word_of s = Word name val" "map_of F name = Some (b, ok)" "ok v"
    "val = Some v \<or> val = None \<and> b \<and> v = ''true''" "val = None \<Longrightarrow> name \<notin> set vs"
  shows "in_front F vs sets (s # args) sets' ps"
  using assms word_cases [OF assms(2)] by (cases b) (auto simp: in_front_def)

lemma front_value:
  assumes "in_front F vs (sets @ [(name, v)]) args sets' ps" "flag_word_of s = Word name None" "map_of F name = Some (False, ok)" "ok v"
    "name \<in> set vs"
  shows "in_front F vs sets (s # v # args) sets' ps"
  using assms word_cases [OF assms(2)] by (auto simp: in_front_def)

lemma anywhere_front:
  assumes v: "\<And>n. n \<in> set vs \<longleftrightarrow> (\<exists>ok. map_of F n = Some (False, ok))"
  shows "anywhere F sets pos args = Some (sets', pos') \<Longrightarrow> \<exists>ps. pos' = pos @ ps \<and> in_front F vs sets args sets' ps"
proof (induction args arbitrary: sets pos rule: length_induct)
  case (1 args)
  show ?case
  proof (cases args)
    case Nil
    then show ?thesis using 1(2) front_nil by auto
  next
    case (Cons s rest)
    have IH: "\<exists>ps. pos' = q @ ps \<and> in_front F vs st ys sets' ps" if "length ys < length args" "anywhere F st q ys = Some (sets', pos')" for ys st q
      using 1(1) that by blast
    show ?thesis
    proof (cases "flag_word_of s")
      case Positional
      then show ?thesis using 1(2) Cons IH [of rest sets "pos @ [s]"] front_positional by fastforce
    next
      case (Word name val)
      then obtain b ok where f: "map_of F name = Some (b, ok)" using 1(2) Cons by (cases "map_of F name") auto
      have n: "name \<in> set vs \<longleftrightarrow> \<not> b" using v [of name] f by auto
      show ?thesis
      proof (cases val)
        case (Some x)
        then have "ok x" "anywhere F (sets @ [(name, x)]) pos rest = Some (sets', pos')"
          using 1(2) Cons Word f by (cases b; auto split: if_splits)+
        then show ?thesis using IH [of rest] front_word [OF _ Word f] Some Cons by fastforce
      next
        case None
        show ?thesis
        proof (cases b)
          case True
          then have "ok ''true''" "anywhere F (sets @ [(name, ''true'')]) pos rest = Some (sets', pos')"
            using 1(2) Cons Word f None by (auto split: if_splits)
          then show ?thesis using IH [of rest] front_word [OF _ Word f] None Cons True n by fastforce
        next
          case False
          then obtain x xs where x: "rest = x # xs" "ok x" "anywhere F (sets @ [(name, x)]) pos xs = Some (sets', pos')"
            using 1(2) Cons Word f None by (auto split: if_splits list.splits)
          then obtain ps where "pos' = pos @ ps" "in_front F vs (sets @ [(name, x)]) xs sets' ps" using IH [of xs] Cons by auto
          then show ?thesis using front_value [of F vs sets name x xs sets' ps s ok] x Word f None False n Cons by auto
        qed
      qed
    qed (use 1(2) Cons in auto)
  qed
qed

lemma run_flags_valued: "n \<in> set run_valued \<longleftrightarrow> (\<exists>ok. map_of run_flags n = Some (False, ok))"
  by (auto simp: run_valued_def run_flags_def string_flag_def bool_flag_def duration_flag_def int_flag_def)

text \<open>C29: the flags of map and handback may stand before, between and after the arguments.\<close>

theorem flags_anywhere:
  assumes "anywhere run_flags [] [] args = Some (sets, pos)"
  shows "parseFlags run_flags args (Some run_valued) = Inr (sets, pos)"
proof -
  obtain fs where "split_loop run_valued args = (fs, pos)" "list_all (\<lambda>p. flag_word_of p = Positional) pos"
    "\<forall>qs. qs = [] \<or> flag_word_of (hd qs) = Positional \<longrightarrow> parse_words run_flags [] (fs @ qs) = Parsed sets qs"
    using anywhere_front [OF run_flags_valued assms] by (auto simp: in_front_def)
  then show ?thesis by (cases pos) (auto simp: parseFlags_def splitFlags_def)
qed

theorem flags_anywhere_witness:
  "parseFlags run_flags [''--out'', ''d'', ''pwm3'', ''--dry-run'', ''-boot=cold'', ''x''] (Some run_valued) =
     Inr ([(''out'', ''d''), (''dry-run'', ''true''), (''boot'', ''cold'')], [''pwm3'', ''x''])"
proof -
  have "anywhere run_flags [] [] [''--out'', ''d'', ''pwm3'', ''--dry-run'', ''-boot=cold'', ''x''] =
    Some ([(''out'', ''d''), (''dry-run'', ''true''), (''boot'', ''cold'')], [''pwm3'', ''x''])" by code_simp
  then show ?thesis by (rule flags_anywhere)
qed

section \<open>The configuration of a run\<close>

text \<open>C30: the options of a run on the machine. They come from exactly one argument, the name of one of the four
  channels, and no flag for the times was given; and they have the values of the specification: steps
  held 60 s, a sample every 5 s, three repetitions, a gate window of 300 s, 180 s (pwm1, pwm2) or 900 s
  observed after the hand-back and 300 s or 900 s before it, all tachs, and the own tach of the channel
  where it has one.\<close>

theorem real_run_config:
  assumes "parseRunOpts etc cpus test args = Inr q" "\<not> op_dry q"
  shows "op_test q = test \<and> 1 \<le> op_ch q \<and> op_ch q \<le> 4 \<and>
    (\<exists>sets a. parseFlags run_flags args (Some run_valued) = Inr (sets, [a]) \<and> has_prefix ''pwm'' a \<and> atoi (drop 3 a) = Some (op_ch q) \<and>
       fst ` set sets \<inter> {''hold'', ''sample'', ''observe'', ''gate-window'', ''repeat''} = {}) \<and>
    op_cfg q =
      \<lparr> cf_Channel = op_ch q, cf_OwnTach = (if op_ch q \<le> 3 then op_ch q else 0), cf_Tachs = [1, 2, 3],
        cf_Hold = 60 * 10 ^ 9, cf_Sample = 5 * 10 ^ 9, cf_Observe = (if op_ch q \<le> 2 then 180 else 900) * 10 ^ 9,
        cf_Pre = (if op_ch q \<le> 2 then 300 else 900) * 10 ^ 9, cf_Window = 300 * 10 ^ 9, cf_OnlineCPUs = cpus, cf_Repeat = 3 \<rparr>"
proof -
  have c: "1 \<le> op_ch q \<and> op_ch q \<le> 4" by (rule parsed_channel [OF assms(1)])
  have "op_cfg q = (SpecConfig (op_ch q) (TachOf (op_ch q)) [1, 2, 3])\<lparr> cf_OnlineCPUs := cpus \<rparr>" by (rule parsed_config [OF assms])
  then show ?thesis using c parsed_args [OF assms] by (simp add: SpecConfig_def TachOf_def T3LimitS_def PreWindowS_def const_defs Second_def)
qed

theorem real_run_config_witness:
  "\<exists>q. parseRunOpts ''/etc'' 24 ''map'' [''pwm3'', ''--boot'', ''cold''] = Inr q \<and> op_ch q = 3 \<and>
     cf_Hold (op_cfg q) = 60 * 10 ^ 9 \<and> cf_Observe (op_cfg q) = 900 * 10 ^ 9 \<and> cf_Repeat (op_cfg q) = 3"
proof -
  have e: "(case parseRunOpts ''/etc'' 24 ''map'' [''pwm3'', ''--boot'', ''cold''] of Inr q \<Rightarrow> op_ch q = 3 \<and> \<not> op_dry q | Inl x \<Rightarrow> False)"
    by code_simp
  then obtain q where q: "parseRunOpts ''/etc'' 24 ''map'' [''pwm3'', ''--boot'', ''cold''] = Inr q" "op_ch q = 3" "\<not> op_dry q"
    by (auto split: sum.splits)
  then show ?thesis using real_run_config [OF q(1,3)] by simp
qed

end
