(* ===== verification/Commands.thy ===== *)
theory Commands
  imports Validate Snapshot Report Boards Session
begin

text \<open>
  The commands that only read: version, diff, report, snapshot and identify
  (src/ectest/cmd/n5-ectest/main.go, snapshot.go, report.go, identify.go). A command is its exit code and
  the lines it prints; decoders, the rendered page and operating system errors are parameters.
\<close>

section \<open>Version\<close>

type_synonym exits = "int \<times> string list"

definition version_text :: "string \<Rightarrow> string \<Rightarrow> string \<Rightarrow> string" where
  [text_defs]: "version_text version commit goversion =
     toolName @ '' '' @ version @ '' (commit '' @ commit @ '', '' @ goversion @ ''), TESTSPEC '' @ SpecVersion"

definition cmdVersion :: "string \<Rightarrow> string \<Rightarrow> string \<Rightarrow> string list \<Rightarrow> exits" where
  "cmdVersion version commit goversion args =
     (case parseFlags [] args None of
        Inl (rc, e) \<Rightarrow> (rc, [e])
      | Inr (sets, pos) \<Rightarrow>
          if pos \<noteq> [] then (exitUsage, [''usage: n5-ectest version'']) else (exitOK, [version_text version commit goversion]))"

text \<open>The commit: the value of the build, else the stamp of the toolchain with twelve digits.\<close>

definition commitID :: "string \<Rightarrow> (string \<times> string) list option \<Rightarrow> string" where
  "commitID commit settings =
     (if commit \<noteq> '''' then commit
      else case settings of
             None \<Rightarrow> ''unknown''
           | Some s \<Rightarrow>
               (let last_of = (\<lambda>k. case map_of (rev s) k of None \<Rightarrow> '''' | Some v \<Rightarrow> v); rev = last_of ''vcs.revision''
                in if length rev \<ge> 12
                   then take 12 rev @ (if last_of ''vcs.modified'' = ''true'' then ''-dirty'' else '''') else ''unknown''))"

section \<open>Diff\<close>

definition diff_usage :: string where
  [text_defs]: "diff_usage = ''usage: n5-ectest diff A B   (snapshot files or bundle dirs; exit 0 identical, 1 CHANGED, 2 incomplete input)''"
definition diff_flag_text :: "string \<Rightarrow> string list" where
  [text_defs]: "diff_flag_text a = [''diff: unknown flag '' @ a, diff_usage]"

fun diff_flags :: "string list \<Rightarrow> exits option" where
  "diff_flags [] = None"
| "diff_flags (a # as) =
     (if a = ''-h'' \<or> a = ''--help'' \<or> a = ''-help'' then Some (exitOK, [diff_usage])
      else if length a > 1 \<and> hd a = CHR ''-'' then Some (exitUsage, diff_flag_text a)
      else diff_flags as)"

definition cmdDiff :: "(string \<Rightarrow> string + SnapFile) \<Rightarrow> string list \<Rightarrow> exits" where
  "cmdDiff parse args =
     (case diff_flags args of
        Some x \<Rightarrow> x
      | None \<Rightarrow>
          (case args of
             [p, q] \<Rightarrow>
               (case parse p of
                  Inl e \<Rightarrow> (DiffIncomplete, [''diff: '' @ e])
                | Inr a \<Rightarrow>
                    (case parse q of
                       Inl e \<Rightarrow> (DiffIncomplete, [''diff: '' @ e])
                     | Inr b \<Rightarrow> (case Diff_Snapshots a b of (t, rc) \<Rightarrow> (rc, [t]))))
           | _ \<Rightarrow> (exitUsage, [diff_usage])))"

section \<open>Report\<close>

text \<open>\<open>filepath.Clean\<close>: the elements that are kept, the last one first.\<close>

fun clean_parts :: "bool \<Rightarrow> string list \<Rightarrow> string list \<Rightarrow> string list" where
  "clean_parts rooted out [] = out"
| "clean_parts rooted out (p # ps) =
     (if p = '''' \<or> p = ''.'' then clean_parts rooted out ps
      else if p = ''..''
      then (if out \<noteq> [] \<and> hd out \<noteq> ''..'' then clean_parts rooted (tl out) ps
            else if rooted then clean_parts rooted out ps
            else clean_parts rooted (''..'' # out) ps)
      else clean_parts rooted (p # out) ps)"

definition Clean :: "string \<Rightarrow> string" where
  "Clean p =
     (if p = '''' then ''.''
      else
        (let rooted = has_prefix ''/'' p; ps = rev (clean_parts rooted [] (split_at (CHR ''/'') p))
         in if rooted then ''/'' @ joins ''/'' ps else if ps = [] then ''.'' else joins ''/'' ps))"

text \<open>
  \<open>report.Recompute\<close> of a loaded bundle: an absent meta.json or verdict.json is not decoded. (A log run
  is summarised by the logger.) \<open>None\<close> is its panic.
\<close>

definition recompute_loaded :: "Machine \<Rightarrow> (string \<Rightarrow> string + Meta) \<Rightarrow> (string \<Rightarrow> string + StoredTest list) \<Rightarrow> 'm Loaded \<Rightarrow> (string + Recomputed) option" where
  "recompute_loaded zero dmeta dverdict l =
     Recompute zero (if lo_MetaRaw l = '''' then None else Some (dmeta (lo_MetaRaw l)))
       (if lo_VerdictRaw l = '''' then Inr [] else dverdict (lo_VerdictRaw l)) (lo_Samples l) (lo_Events l)"

definition mismatch_line :: "Mismatch \<Rightarrow> string" where
  [text_defs]: "mismatch_line m = ''MISMATCH '' @ mi_ID m @ '': '' @ Source m @ '' '' @ mi_Stored m @ '', recomputed '' @ mi_Recomputed m"
definition sums_line :: "string list \<Rightarrow> string" where
  [text_defs]: "sums_line ps = ''SHA256SUMS: '' @ joins ''; '' ps"

definition report_lines :: "Recomputed \<Rightarrow> string list \<Rightarrow> string \<Rightarrow> string list" where
  "report_lines r problems out =
     map outcome_line (re_Tests r) @ map mismatch_line (re_Mismatches r) @ map (\<lambda>n. ''note: '' @ n) (re_Notes r) @
     (if problems \<noteq> [] then [sums_line problems] else []) @ [''report: '' @ out]"

text \<open>Whether the stored meta.json is the one of a finished run.\<close>

definition finished_meta :: "(string \<Rightarrow> string + Meta) \<Rightarrow> 'm Loaded \<Rightarrow> bool" where
  "finished_meta dmeta l \<longleftrightarrow> lo_MetaRaw l \<noteq> '''' \<and> (case dmeta (lo_MetaRaw l) of Inl e \<Rightarrow> False | Inr m \<Rightarrow> \<not> me_Provisional m)"

definition report_code :: "Recomputed \<Rightarrow> string list \<Rightarrow> bool \<Rightarrow> int" where
  "report_code r problems finished = (if re_Mismatches r \<noteq> [] \<or> problems \<noteq> [] \<or> \<not> finished then exitFail else exitOK)"

definition report_usage :: string where
  [text_defs]: "report_usage = ''usage: n5-ectest report DIR [--out FILE]''"

text \<open>\<open>load\<close> reads the bundle, \<open>save\<close> writes the page to a file (its error).\<close>

definition report_dir :: "Machine \<Rightarrow> (string \<Rightarrow> string + Meta) \<Rightarrow> (string \<Rightarrow> string + StoredTest list) \<Rightarrow> (string \<Rightarrow> string + 'm Loaded)
    \<Rightarrow> ('m Loaded \<Rightarrow> Recomputed \<Rightarrow> string \<Rightarrow> string option) \<Rightarrow> string \<Rightarrow> string \<Rightarrow> exits option" where
  "report_dir zero dmeta dverdict load save dir out =
     (case load dir of
        Inl e \<Rightarrow> Some (exitFail, [''report: '' @ e])
      | Inr l \<Rightarrow>
          (case recompute_loaded zero dmeta dverdict l of
             None \<Rightarrow> None
           | Some (Inl e) \<Rightarrow> Some (exitFail, [''report: '' @ e])
           | Some (Inr r) \<Rightarrow>
               (let out = (if out = '''' then dir @ ''.report.html'' else out)
                in case save l r out of
                     Some e \<Rightarrow> Some (exitFail, [''report: '' @ e])
                   | None \<Rightarrow> Some (report_code r (lo_SumProblems l) (finished_meta dmeta l), report_lines r (lo_SumProblems l) out))))"

definition cmdReport :: "Machine \<Rightarrow> (string \<Rightarrow> string + Meta) \<Rightarrow> (string \<Rightarrow> string + StoredTest list) \<Rightarrow> (string \<Rightarrow> string + 'm Loaded)
    \<Rightarrow> ('m Loaded \<Rightarrow> Recomputed \<Rightarrow> string \<Rightarrow> string option) \<Rightarrow> string list \<Rightarrow> exits option" where
  "cmdReport zero dmeta dverdict load save args =
     (case parseFlags [string_flag ''out''] args (Some [''out'']) of
        Inl (rc, e) \<Rightarrow> Some (rc, [e])
      | Inr (sets, pos) \<Rightarrow>
          (case pos of
             [d] \<Rightarrow> report_dir zero dmeta dverdict load save (Clean d) (setting sets ''out'' '''')
           | _ \<Rightarrow> Some (exitUsage, [report_usage])))"

section \<open>Snapshot\<close>

text \<open>What \<open>encoding/json\<close> refuses: a number that is no number.\<close>

fun encodable :: "jval \<Rightarrow> bool" where
  "encodable (JFl v) \<longleftrightarrow> v \<noteq> NaN"
| "encodable (JMachine i) \<longleftrightarrow> id_UptimeS i \<noteq> NaN"
| "encodable (JList vs) \<longleftrightarrow> list_all encodable vs"
| "encodable (JObject fs) \<longleftrightarrow> list_all (\<lambda>(k, v). encodable v) fs"
| "encodable _ \<longleftrightarrow> True"

definition nan_text :: string where
  [text_defs]: "nan_text = ''json: unsupported value: NaN''"

definition WriteJSON :: "'w desk \<Rightarrow> string \<Rightarrow> jval \<Rightarrow> 'w \<Rightarrow> 'w \<times> string option" where
  "WriteJSON D name v w = (if encodable v then dk_Json D name v w else (w, Some nan_text))"

definition snapshot_usage :: string where
  [text_defs]: "snapshot_usage = ''usage: n5-ectest snapshot LABEL [--mode B|A] [--boot cold|warm] [--out DIR]''"
definition label_text :: string where
  [text_defs]: "label_text = ''snapshot: label must be [A-Za-z0-9._-]+''"
definition boot_opt_text :: string where
  [text_defs]: "boot_opt_text = ''snapshot: --boot is cold or warm''"
definition mode_a_text :: "string list" where
  [text_defs]: "mode_a_text =
     [''snapshot: mode A (raw EC reads through /dev/port, module unloaded) is not built yet (design '' @ [CHR 0xC2, CHR 0xA7] @
        ''3: after maintenance window 1).'',
      ''          Use tools/f8a/f8a-snapshot.sh LABEL for mode A; n5-ectest diff reads its files.'']"
definition mode_opt_text :: string where
  [text_defs]: "mode_opt_text = ''snapshot: --mode is B or A''"
definition no_module_text :: string where
  [text_defs]: "no_module_text = ''snapshot: '' @ ModuleName @
     '' is not loaded: mode B needs it. Mode A (module unloaded) is not built yet; use tools/f8a/f8a-snapshot.sh''"

text \<open>The label, the boot type and the directory, or how the command ends.\<close>

definition snapshot_args :: "string list \<Rightarrow> exits + string \<times> string \<times> string" where
  "snapshot_args args =
     (case parseFlags [string_flag ''mode'', string_flag ''boot'', string_flag ''out''] args (Some [''mode'', ''boot'', ''out'']) of
        Inl (rc, e) \<Rightarrow> Inl (rc, [e])
      | Inr (sets, pos) \<Rightarrow>
          (case pos of
             [label] \<Rightarrow>
               (let mode = setting sets ''mode'' ''B''; boot = setting sets ''boot'' ''''
                in if label = '''' \<or> \<not> list_all safe_char label then Inl (exitUsage, [label_text])
                   else if boot \<notin> {'''', ''cold'', ''warm''} then Inl (exitUsage, [boot_opt_text])
                   else if mode = ''B'' then Inr (label, boot, setting sets ''out'' ''.'')
                   else if mode = ''A'' then Inl (exitFail, mode_a_text)
                   else Inl (exitUsage, [mode_opt_text]))
           | _ \<Rightarrow> Inl (exitUsage, [snapshot_usage])))"

definition snapshot_refused :: "filesys \<Rightarrow> string \<Rightarrow> Machine \<Rightarrow> out_probe \<Rightarrow> string \<Rightarrow> string option" where
  "snapshot_refused fs sysRoot i p out =
     (if \<not> fst (ReadOnly (id_DMI i)) then Some (''snapshot: '' @ snd (ReadOnly (id_DMI i)))
      else if \<not> ds_Loaded (id_Driver i) \<and> DriverHwmon fs sysRoot = '''' then Some no_module_text
      else map_option (\<lambda>e. ''snapshot: '' @ e) (prepareOutDir p out))"

definition toolLine :: "rig_view \<Rightarrow> string" where
  [text_defs]: "toolLine V =
     (let d = id_Driver (vw_Id V)
      in toolName @ '' '' @ vw_Version V @ '' (commit '' @ vw_Commit V @ ''), driver '' @ ModuleName @ '' '' @
         orDash (ds_Version d) @ '' srcversion '' @ orDash (ds_SrcVersion d))"

definition snap_header :: "rig_view \<Rightarrow> string \<Rightarrow> string \<Rightarrow> nanos \<Rightarrow> string \<Rightarrow> Header" where
  "snap_header V label boot started fangov =
     \<lparr> hd_Tool = toolName, hd_Version = vw_Version V @ '' (commit '' @ vw_Commit V @ '')'', hd_SpecVersion = SpecVersion,
       hd_Label = label, hd_Mode = ''B'', hd_Boot = boot, hd_DateUTC = rfc3339 started, hd_FangovState = fangov \<rparr>"

definition snap_sample :: "ModeB \<Rightarrow> nanos \<Rightarrow> Sample" where
  "snap_sample m started =
     (let r = mb_Reading m;
          s = (NewSample started 0 ''snapshot'' 0 (-1))
            \<lparr> s_Fan := map (hr_Fan r) [1, 2, 3], s_ECCPU := ec_of r ''cpu'', s_ECSys := ec_of r ''system'', s_ECBoard := ec_of r ''board'',
              s_ECAmb := ec_of r ''ambient'', s_HDDMax := hr_HDDMax r, s_NVMeMax := hr_NVMeMax r, s_Tctl := hr_Tctl r, s_Load1 := hr_Load1 r \<rparr>
      in if dc_Dump (mb_DCR m) = '''' then s
         else case ParseDCR (dc_Dump (mb_DCR m)) of
                Inl e \<Rightarrow> s
              | Inr d \<Rightarrow> s\<lparr> s_DCR := map (Reg d) [1, 2, 3, 4, 5] \<rparr>)"

section \<open>The files of a snapshot\<close>

definition channels_json :: "(int \<Rightarrow> int) \<Rightarrow> jval" where
  "channels_json f = JObject (map (\<lambda>n. (itoa n, JInt (f n))) [1, 2, 3, 4])"

definition ec_keys :: "string list" where
  "ec_keys = [''ambient'', ''board'', ''cpu'', ''system'', ''temp1'', ''temp2'', ''temp3'', ''temp4'']"

definition ec_json :: "Reading \<Rightarrow> jval" where
  "ec_json r = JObject (List.map_filter (\<lambda>k. map_option (\<lambda>v. (k, JFl v)) (hr_EC r k)) ec_keys)"

definition text_field :: "string \<Rightarrow> string \<Rightarrow> (string \<times> jval) list" where
  "text_field k v = (if v = '''' then [] else [(k, JText v)])"

definition dcr_json :: "DCRInfo \<Rightarrow> jval" where
  "dcr_json d =
     JObject (text_field ''path'' (dc_Path d) @ text_field ''dump'' (dc_Dump d) @
       (if dc_Channels d = [] then [] else [(''channels'', JObject (map (\<lambda>(k, n). (k, JInt n)) (dc_Channels d)))]) @
       text_field ''error'' (dc_Error d))"

definition t6_reason :: "string \<Rightarrow> fl \<Rightarrow> string \<Rightarrow> string" where
  [text_defs]: "t6_reason label up boot = ''mode-B snapshot '' @ fmt_q label @ ''; uptime '' @
     (case up of None \<Rightarrow> ''NaN'' | Some u \<Rightarrow> fmt_f 0 u) @ '' s, boot type '' @ fmt_q boot @ ''; writes earlier in this boot are not visible''"

definition t6_json :: "Machine \<Rightarrow> string \<Rightarrow> string \<Rightarrow> ModeB \<Rightarrow> jval" where
  "t6_json i label boot m =
     (let r = mb_Reading m
      in JObject [(''id'', JText ''T6''), (''verdict'', JText (verdict_text Reported)), (''reasons'', JTexts [t6_reason label (id_UptimeS i) boot]),
           (''values'', JObject [(''dcr'', dcr_json (mb_DCR m)),
              (''pwm_cache'', JObject [(''pwm'', channels_json (hr_PWM r)), (''pwm_enable'', channels_json (hr_Enable r))]),
              (''fans'', channels_json (hr_Fan r)), (''ec'', ec_json r)])])"

definition snap_meta :: "rig_view \<Rightarrow> string \<Rightarrow> string \<Rightarrow> nanos \<Rightarrow> ModeB \<Rightarrow> jval" where
  "snap_meta V label boot started m =
     JObject [(''spec_version'', JText SpecVersion), (''tool'', JText toolName), (''tool_version'', JText (vw_Version V)),
       (''command'', JText ''snapshot''), (''label'', JText label), (''mode'', JText ''B''), (''boot_type'', JText boot),
       (''started'', JText (rfc3339 started)), (''identity'', JMachine (vw_Id V)), (''incomplete'', JTexts (mb_Incomplete m)),
       (''spec_deviations'', JTexts baseDeviations),
       (''provenance'', provenance (V\<lparr> vw_Opts := (vw_Opts V)\<lparr> op_boot := boot \<rparr> \<rparr>) baseDeviations), (''redaction'', JTexts redactionRules)]"

definition snap_verdict :: "Machine \<Rightarrow> string \<Rightarrow> string \<Rightarrow> ModeB \<Rightarrow> jval" where
  "snap_verdict i label boot m =
     JObject [(''spec_version'', JText SpecVersion), (''command'', JText ''snapshot''), (''tests'', JList [t6_json i label boot m])]"

text \<open>
  The writes into the open bundle: each one only after the ones before it succeeded, the sums always.
  \<open>write\<close> writes a text file of the bundle. The result is the first error.
\<close>

definition snap_files :: "'w desk \<Rightarrow> (string \<Rightarrow> string \<Rightarrow> 'w \<Rightarrow> 'w \<times> string option) \<Rightarrow> string \<Rightarrow> jval \<Rightarrow> jval \<Rightarrow> 'w \<Rightarrow> 'w \<times> string option" where
  "snap_files D write text meta verdict w =
     (let (w1, e1) = write ''snapshot.txt'' text w;
          (w2, e2) = (if e1 = None then WriteJSON D MetaName meta w1 else (w1, e1));
          (w3, e3) = (if e2 = None then WriteJSON D VerdictName verdict w2 else (w2, e2));
          (w4, e4) = dk_Finish D w3
      in (w4, if e3 = None then e4 else e3))"

definition snap_code :: "ModeB \<Rightarrow> int" where
  "snap_code m = (if mb_Incomplete m \<noteq> [] then exitIncomplete else exitOK)"

definition snap_bundle :: "'w desk \<Rightarrow> (string \<Rightarrow> string \<Rightarrow> 'w \<Rightarrow> 'w \<times> string option) \<Rightarrow> rig_view \<Rightarrow> ModeB \<Rightarrow> string \<Rightarrow> string \<Rightarrow> string \<Rightarrow> nanos \<Rightarrow> 'w \<Rightarrow> 'w \<times> exits" where
  "snap_bundle D write V m label boot out started w =
     (let i = vw_Id V; dir = join_path [out, DirName started (hi_Board (id_DMI i)) (hi_BIOS (id_DMI i)) (''snapshot-'' @ label)]
      in case dk_Create D dir w of
           (w1, Some e) \<Rightarrow> (w1, (exitFail, [''snapshot: '' @ e]))
         | (w1, None) \<Rightarrow>
             (let w2 = dk_Event D (FormatEvent started 0 (''snapshot '' @ label @ '' mode B by '' @ toolLine V)) w1;
                  w3 = dk_Sample D (snap_sample m started) w2;
                  (w4, e) = snap_files D write (mb_Text m) (snap_meta V label boot started m) (snap_verdict i label boot m) w3
              in case e of
                   Some e \<Rightarrow> (w4, (exitFail, [''snapshot: '' @ e]))
                 | None \<Rightarrow> (w4, (snap_code m, [Redactor_String (vw_Red V) (mb_Text m), ''bundle: '' @ dir]))))"

definition cmdSnapshot :: "'w desk \<Rightarrow> (string \<Rightarrow> string \<Rightarrow> 'w \<Rightarrow> 'w \<times> string option) \<Rightarrow> rig_view \<Rightarrow> (string \<Rightarrow> bool) \<Rightarrow> os_errors \<Rightarrow>
    filesys \<Rightarrow> filesys \<Rightarrow> Roots \<Rightarrow> (string \<Rightarrow> string + string) \<Rightarrow> (string \<Rightarrow> out_probe) \<Rightarrow> string list \<Rightarrow> 'w \<Rightarrow> 'w \<times> exits" where
  "cmdSnapshot D write V stat oe fs fs' r systemctl probe args w =
     (case snapshot_args args of
        Inl x \<Rightarrow> (w, x)
      | Inr (label, boot, out) \<Rightarrow>
          (case snapshot_refused fs (ro_Sys r) (vw_Id V) (probe out) out of
             Some e \<Rightarrow> (w, (exitFail, [e]))
           | None \<Rightarrow>
               (let (w1, started) = e_Now (dk_Env D) w;
                    m = TakeModeB stat oe fs fs' (snap_header V label boot started (FangovState systemctl)) (vw_Id V) (ro_Sys r) (ro_Proc r) (ro_Etc r)
                in snap_bundle D write V m label boot out started w1)))"

section \<open>Identify\<close>

definition or_q :: "string \<Rightarrow> string" where "or_q s = orText s ''?''"

definition params_text :: "State \<Rightarrow> string" where
  "params_text dr =
     joins '' '' (List.map_filter (\<lambda>k. map_option (\<lambda>v. k @ ''='' @ v) (map_of (ds_Params dr) k)) [''force'', ''experimental_write'', ''debug_regs''])"

definition driver_lines :: "Machine \<Rightarrow> string list" where
  [text_defs]: "driver_lines i =
     (let dr = id_Driver i
      in if ds_Loaded dr \<or> ds_HwmonPath dr \<noteq> ''''
         then [''driver          '' @ ModuleName @ '' '' @ or_q (ds_Version dr) @ '', srcversion '' @ or_q (ds_SrcVersion dr) @ '', taint '' @
                 or_q (ds_Taint dr) @ '', '' @ Mode dr,
               ''parameters      '' @ or_q (params_text dr),
               ''package         '' @ PackageName @ '' '' @ orText (id_DKMSPackage i) ''not installed''] @
              map (\<lambda>f. ''note            '' @ f) (Findings dr)
         else [''driver          '' @ ModuleName @ '' not loaded''])"

definition channel_number :: "DCRInfo \<Rightarrow> string \<Rightarrow> int" where
  "channel_number d k = (case map_of (dc_Channels d) k of None \<Rightarrow> 0 | Some n \<Rightarrow> n)"

definition dcr_line :: "DCRInfo \<Rightarrow> string" where
  [text_defs]: "dcr_line d =
     (if dc_Dump d = '''' then ''dcr             unavailable: '' @ dc_Error d
      else ''dcr             '' @ dc_Dump d @ ''  ('' @ joins '', '' (map (\<lambda>k. k @ '' '' @ itoa (channel_number d k)) [''pwm1'', ''pwm2'', ''pwm3'', ''pwm4'']) @ '')'')"

definition trim_semis :: "string \<Rightarrow> string" where
  "trim_semis s =
     (let cut = dropWhile (\<lambda>c. c = CHR '';'' \<or> c = CHR '' '') in rev (cut (rev (cut s))))"

definition may_run :: "filesys \<Rightarrow> Machine \<Rightarrow> int \<Rightarrow> string" where
  [text_defs]: "may_run fs i ch =
     (case WriteGate fs i ch of (br, pr) \<Rightarrow>
        if br = '''' \<and> pr = '''' then ''map/handback    pwm'' @ itoa ch @ '': allowed''
        else ''map/handback    pwm'' @ itoa ch @ '': gate failure, nothing would be written: '' @ trim_semis (br @ ''; '' @ pr))"

definition what_may_run :: "filesys \<Rightarrow> bool \<Rightarrow> Machine \<Rightarrow> string list" where
  [text_defs]: "what_may_run fs as_root i =
     (case ReadOnly (id_DMI i) of (ok, why) \<Rightarrow>
        if \<not> ok then [''n5-ectest       identify, diff and report only: '' @ why]
        else ''n5-ectest       snapshot, log: yes'' #
          (if as_root then map (may_run fs i) [1, 2, 3, 4] else [''map/handback    not evaluated without root (sudo n5-ectest identify)'']))"

definition no_root_text :: string where
  [text_defs]: "no_root_text = ''note            not root: dcr and the container state need root - run: sudo n5-ectest identify''"

definition identify_lines :: "filesys \<Rightarrow> string \<Rightarrow> string \<Rightarrow> bool \<Rightarrow> Machine \<Rightarrow> string list" where
  [text_defs]: "identify_lines fs version commit as_root i =
     (let d = id_DMI i
      in [''n5-ectest       '' @ version @ '' (commit '' @ commit @ '')'',
          ''product         '' @ or_q (hi_Product d) @ '' (vendor '' @ or_q (hi_SysVendor d) @ '')'',
          ''board           '' @ or_q (hi_Board d) @ '', version '' @ or_q (hi_BoardVersion d),
          ''BIOS            '' @ or_q (hi_BIOS d) @ '' ('' @ or_q (hi_BIOSDate d) @ '', release '' @ or_q (hi_BIOSRelease d) @ '')'',
          ''EC firmware     '' @ or_q (hi_EC d),
          ''kernel          '' @ or_q (id_Kernel i) @ '', taint '' @ or_q (id_KernelTaint i),
          ''OS              '' @ or_q (os_ID (id_OS i)) @ '' '' @ or_q (os_VersionID (id_OS i)) @ '', lockdown '' @ or_q (id_Lockdown i) @
            '', container '' @ orText (id_Container i) ''none'',
          ''uptime          '' @ (case id_UptimeS i of None \<Rightarrow> ''NaN'' | Some u \<Rightarrow> fmt_f 0 u) @ '' s, boot id '' @ or_q (id_BootID i)] @
         driver_lines i @ [dcr_line (id_DCR i), ''hardware status '' @ Describe (id_HWStatus i)] @
         (if as_root then [] else [no_root_text]) @ what_may_run fs as_root i)"

definition identify_usage :: string where
  [text_defs]: "identify_usage = ''usage: n5-ectest identify [--json]''"

text \<open>\<open>indent\<close> is the JSON encoder; the texts of the result are redacted.\<close>

definition cmdIdentify :: "filesys \<Rightarrow> (jval \<Rightarrow> string) \<Rightarrow> rig_view \<Rightarrow> bool \<Rightarrow> string list \<Rightarrow> exits" where
  "cmdIdentify fs indent V as_root args =
     (case parseFlags [bool_flag ''json''] args None of
        Inl (rc, e) \<Rightarrow> (rc, [e])
      | Inr (sets, pos) \<Rightarrow>
          if pos \<noteq> [] then (exitUsage, [identify_usage])
          else if bool_setting sets ''json''
          then (let v = JObject [(''tool'', JText toolName), (''version'', JText (vw_Version V)), (''commit'', JText (vw_Commit V)),
                  (''identity'', JMachine (vw_Id V))]
                in (exitOK, [Redactor_String (vw_Red V) (if encodable v then indent v else '''')]))
          else (exitOK, [Redactor_String (vw_Red V) (concat (map (\<lambda>l. l @ [NL]) (identify_lines fs (vw_Version V) (vw_Commit V) as_root (vw_Id V))))]))"

end
