(* ===== verification/Log_Commands.thy ===== *)
theory Log_Commands
  imports Log_Tools Commands Log_World
begin

text \<open>
  The command log with its subcommands check and annotate (src/ectest/cmd/n5-ectest/log.go): what starts a
  run of the logger, where it is kept and found again, and the exit codes. The commands that are run, the
  entries of directories and operating system errors are parameters.
\<close>

section \<open>Arguments\<close>

definition defaultLogDir :: string where "defaultLogDir = ''/var/lib/n5-ectest''"

definition validRunID :: "string \<Rightarrow> bool" where
  "validRunID s \<longleftrightarrow> s \<noteq> '''' \<and> length s \<le> 64 \<and> list_all safe_char s \<and> s \<noteq> ''.'' \<and> s \<noteq> ''..''"

definition mail_to_text :: "string \<Rightarrow> string" where
  [text_defs]: "mail_to_text cmd = cmd @ '': --mail-to must not start with '' @ [CHR 0x27] @ ''-'' @ [CHR 0x27]"

definition checkMailTo :: "string \<Rightarrow> bool" where "checkMailTo rcpt \<longleftrightarrow> \<not> has_prefix ''-'' rcpt"

text \<open>
  A float becomes a \<open>time.Duration\<close>: the integral part; what does not fit, NaN included, becomes the
  smallest integer (amd64).
\<close>

definition float_duration :: "rat \<Rightarrow> nanos" where
  "float_duration x = (if x \<ge> of_int two63 then - two63 else \<lfloor>x\<rfloor>)"

definition bad_days_text :: "string \<Rightarrow> string" where
  [text_defs]: "bad_days_text s = ''bad duration '' @ fmt_q s"

definition parseDays :: "string \<Rightarrow> string + nanos" where
  "parseDays s =
     (if has_suffix ''d'' s
      then (case ParseFloat (butlast s) of
              None \<Rightarrow> Inl (bad_days_text s)
            | Some None \<Rightarrow> Inr (- two63)
            | Some (Some n) \<Rightarrow> if n \<le> 0 then Inl (bad_days_text s) else Inr (float_duration (n * 24 * of_int (3600 * Second))))
      else ParseDuration s)"

definition no_mail_to_text :: string where
  [text_defs]: "no_mail_to_text = ''no --mail-to: mails go to the outbox beside the run and stdout''"
definition no_sendmail_text :: string where
  [text_defs]: "no_sendmail_text = ''no sendmail and no --mail-cmd: mails go to the outbox beside the run and stdout''"
definition mail_via_text :: "string \<Rightarrow> string" where
  [text_defs]: "mail_via_text c = ''mail via '' @ c @ '', recipient set''"

text \<open>The mail command (the function is \<open>CommandMailer\<close> of it) and the note.\<close>

definition mailer :: "(string \<Rightarrow> bool) \<Rightarrow> string \<Rightarrow> string \<Rightarrow> string list option \<times> string" where
  "mailer there cmdLine rcpt =
     (if rcpt = '''' then (None, no_mail_to_text)
      else
        (let cmd = (if cmdLine \<noteq> '''' then Fields cmdLine
                    else case find there [''/usr/sbin/sendmail'', ''/usr/bin/sendmail'', ''/usr/bin/msmtp''] of
                           None \<Rightarrow> [] | Some p \<Rightarrow> [p])
         in if cmd = [] then (None, no_sendmail_text) else (Some cmd, mail_via_text (hd cmd))))"

definition logIdentity :: "Machine \<Rightarrow> (string \<times> string) list" where
  "logIdentity i =
     [(''kernel'', id_Kernel i), (''driver_version'', ds_Version (id_Driver i)), (''srcversion'', ds_SrcVersion (id_Driver i)),
      (''parameters'', params_text (id_Driver i)), (''dkms_package'', id_DKMSPackage i), (''bios'', hi_BIOS (id_DMI i)),
      (''ec_firmware'', hi_EC (id_DMI i))]"

section \<open>What the logger asks\<close>

text \<open>\<open>fangovShow\<close>: the output of systemctl.\<close>

record fangov_show =
  fg_State :: string
  fg_Load :: string
  fg_Restarts :: int

definition fangov_line :: "string \<Rightarrow> fangov_show \<Rightarrow> fangov_show" where
  "fangov_line l f =
     (case cut_at (CHR ''='') (trim_space l) of (k, v, ok) \<Rightarrow>
        if k = ''LoadState'' then f\<lparr> fg_Load := v \<rparr>
        else if k = ''ActiveState'' then f\<lparr> fg_State := v \<rparr>
        else if k = ''NRestarts'' then f\<lparr> fg_Restarts := atoi_or v \<rparr> else f)"

definition fangovShow :: "string + string \<Rightarrow> string + string \<times> int" where
  "fangovShow output =
     (case output of
        Inl e \<Rightarrow> Inl e
      | Inr t \<Rightarrow>
          (let f = fold fangov_line (split_at NL t) \<lparr> fg_State = '''', fg_Load = '''', fg_Restarts = 0 \<rparr>
           in if fg_Load f = ''not-found'' then Inr (FangovNotInstalled, 0) else Inr (fg_State f, fg_Restarts f)))"

text \<open>\<open>logJournal\<close>: the journal, or the kernel's ring buffer where there is no journal.\<close>

definition boot_time :: "nanos \<Rightarrow> filesys \<Rightarrow> Roots \<Rightarrow> nanos" where
  "boot_time now fs r =
     (let up = (case uptime_of (readTrim fs (join_path [ro_Proc r, ''uptime''])) of None \<Rightarrow> - two63 | Some u \<Rightarrow> float_duration (u * of_int Second))
      in now - (if up = - two63 then two63 else up))"

definition logJournal ::
  "('w \<Rightarrow> 'w \<times> (JLine list \<times> string \<times> string option)) \<Rightarrow> ('w \<Rightarrow> bool) \<Rightarrow> ('w \<Rightarrow> string + string list) \<Rightarrow> ('w \<Rightarrow> 'w \<times> nanos) \<Rightarrow>
     ('w \<Rightarrow> filesys) \<Rightarrow> Roots \<Rightarrow> string \<Rightarrow> string \<Rightarrow> 'w \<Rightarrow> 'w \<times> (JLine list \<times> string \<times> string option)" where
  "logJournal journal no_command kmsg now_of files r u cursor w =
     (case journal w of
        (w1, (ls, cur, err)) \<Rightarrow>
          if err \<noteq> None \<and> u = '''' \<and> no_command w1
          then (let (w2, t) = now_of w1
                in (w2, Kmsg (kmsg w1) (if has_prefix ''kmsg:'' cursor then cursor else '''') (boot_time t (files w1) r)))
          else (w1, (ls, cur, err)))"

section \<open>The directory of a run\<close>

text \<open>The entries of the directory with whether each is a directory.\<close>

definition findRunIn :: "string \<Rightarrow> (string \<times> bool) list \<Rightarrow> string \<Rightarrow> string option" where
  "findRunIn out ents run =
     map_option (\<lambda>e. join_path [out, fst e]) (find (\<lambda>e. snd e \<and> has_suffix (''-log-'' @ run) (fst e)) ents)"

definition findRun :: "(string \<Rightarrow> bool) \<Rightarrow> string \<Rightarrow> (string \<times> bool) list \<Rightarrow> string \<Rightarrow> string option" where
  "findRun isdir out ents run = (if isdir run then Some run else findRunIn out ents run)"

definition newRun :: "string \<Rightarrow> nanos \<Rightarrow> HwIdentity \<Rightarrow> string \<Rightarrow> string" where
  "newRun out now d run = join_path [out, DirName now (hi_Board d) (hi_BIOS d) (''log-'' @ run)]"

section \<open>The command log\<close>

record log_opts =
  lo_Run :: string
  lo_Out :: string
  lo_Duration :: nanos
  lo_Interval :: nanos
  lo_MailTo :: string
  lo_MailCmd :: string

definition log_usage :: string where
  [text_defs]: "log_usage =
     ''usage: n5-ectest log [--duration 7d] [--interval 30s] [--mail-to ADDR] [--mail-cmd CMD] [--run-id ID] [--out DIR] | log check RUN | log annotate RUN (--event N | --down FROM TO) TEXT''"
definition log_duration_text :: "string \<Rightarrow> string" where
  [text_defs]: "log_duration_text e = ''log: --duration: '' @ e"
definition log_interval_text :: string where
  [text_defs]: "log_interval_text = ''log: --interval is 5s..60s (each sample makes the driver talk to the EC; K5 fires above 90 s)''"
definition run_id_text :: string where
  [text_defs]: "run_id_text = ''log: --run-id must be [A-Za-z0-9._-]{1,64}, not . or ..''"

definition log_flags :: flag_set where
  "log_flags = [string_flag ''duration'', duration_flag ''interval'', string_flag ''mail-to'', string_flag ''mail-cmd'', string_flag ''run-id'', string_flag ''out'']"

text \<open>The options of a run, the id from the minute of the start when none is given.\<close>

definition log_args :: "nanos \<Rightarrow> string list \<Rightarrow> exits + log_opts" where
  "log_args now args =
     (case parseFlags log_flags args None of
        Inl (rc, e) \<Rightarrow> Inl (rc, [e])
      | Inr (sets, pos) \<Rightarrow>
          if pos \<noteq> [] then Inl (exitUsage, [log_usage])
          else
            (case parseDays (setting sets ''duration'' ''7d'') of
               Inl e \<Rightarrow> Inl (exitUsage, [log_duration_text e])
             | Inr d \<Rightarrow>
                 (let iv = duration_setting sets ''interval'' (30 * Second); given = setting sets ''run-id'' '''';
                      run = (if given = '''' then minute_stamp now else given); rcpt = setting sets ''mail-to'' ''''
                  in if d \<le> 0 then Inl (exitUsage, [log_duration_text ''<nil>''])
                     else if iv < 5 * Second \<or> iv > 60 * Second then Inl (exitUsage, [log_interval_text])
                     else if \<not> validRunID run then Inl (exitUsage, [run_id_text])
                     else if \<not> checkMailTo rcpt then Inl (exitUsage, [mail_to_text ''log''])
                     else Inr \<lparr> lo_Run = run, lo_Out = setting sets ''out'' defaultLogDir, lo_Duration = d, lo_Interval = iv,
                                lo_MailTo = rcpt, lo_MailCmd = setting sets ''mail-cmd'' '''' \<rparr>)))"

definition log_config :: "log_opts \<Rightarrow> string \<Rightarrow> LogConfig" where
  "log_config o' dir =
     \<lparr> lc_RunID = lo_Run o', lc_Dir = dir, lc_Duration = lo_Duration o', lc_Interval = lo_Interval o', lc_MailTo = lo_MailTo o' \<rparr>"

definition log_line :: "log_opts \<Rightarrow> string \<Rightarrow> string \<Rightarrow> string" where
  [text_defs]: "log_line o' dir mail_note =
     ''n5-ectest log '' @ lo_Run o' @ '': '' @ dir @ '', interval '' @ dur_text (lo_Interval o') @ '', duration '' @ dur_text (lo_Duration o') @
     ''; '' @ mail_note"

definition nothing_to_do_text :: "string \<Rightarrow> string \<Rightarrow> string" where
  [text_defs]: "nothing_to_do_text e dir = ''log: '' @ e @ '': nothing to do (report: n5-ectest report '' @ dir @ '')''"

definition log_end :: "string \<Rightarrow> run_end \<Rightarrow> exits" where
  "log_end dir e =
     (case e of
        Returned \<Rightarrow> (exitOK, [])
      | AlreadyFinished t \<Rightarrow> (exitOK, [nothing_to_do_text t dir])
      | Failed t \<Rightarrow> (exitFail, [''log: '' @ t]))"

text \<open>The meta.json of a run before the logger adds its part.\<close>

definition empty_meta :: log_meta where
  "empty_meta = \<lparr> lm_started = '''', lm_planned_end = '''', lm_finished = '''', lm_log = None, lm_identity_changes = [] \<rparr>"

text \<open>
  The surroundings of the command: the machine, the entries of the directory of the runs and the error of
  making it, what a run directory holds, the error of making it, the redactor of the machine, and the
  connections of the logger but the mail.
\<close>

record 'w log_site =
  li_Id :: Machine
  li_Mkdir :: "string \<Rightarrow> string option"
  li_Ents :: "string \<Rightarrow> (string \<times> bool) list"
  li_There :: "string \<Rightarrow> bool"
  li_Dir :: "string \<Rightarrow> log_dir"
  li_MkRun :: "string \<Rightarrow> string option"
  li_Red :: Redactor
  li_Deps :: "'w Deps"
  li_Exec :: "string list \<Rightarrow> string \<Rightarrow> 'w \<Rightarrow> 'w \<times> (string \<times> string) option"

definition log_deps :: "'w log_site \<Rightarrow> log_opts \<Rightarrow> 'w Deps" where
  "log_deps E o' =
     (li_Deps E)\<lparr> dp_Mail := map_option (\<lambda>c. CommandMailer (li_Exec E) c (lo_MailTo o')) (fst (mailer (li_There E) (lo_MailCmd o') (lo_MailTo o'))),
       dp_Redact := Some (li_Red E) \<rparr>"

definition run_dir :: "'w log_site \<Rightarrow> nanos \<Rightarrow> log_opts \<Rightarrow> string" where
  "run_dir E now o' =
     (case findRunIn (lo_Out o') (li_Ents E (lo_Out o')) (lo_Run o') of
        Some d \<Rightarrow> d | None \<Rightarrow> newRun (lo_Out o') now (id_DMI (li_Id E)) (lo_Run o'))"

definition log_run :: "'w log_site \<Rightarrow> nanos \<Rightarrow> log_opts \<Rightarrow> 'w \<Rightarrow> ('w logger \<times> run_end) option" where
  "log_run E now o' w =
     (let dir = run_dir E now o'
      in Run_Log \<lparr> se_Cfg = log_config o' dir, se_Deps = log_deps E o' \<rparr> (li_MkRun E dir) (li_Dir E dir) (Some empty_meta) w)"

text \<open>
  \<open>cmdLog\<close> without the subcommands: the logger when one ran, and the exit; \<open>None\<close> if the run does not return.
  The clock is read twice: for the default id (\<open>now\<close>) and for the name of a new directory (\<open>later\<close>).
\<close>

definition cmdLog :: "'w log_site \<Rightarrow> nanos \<Rightarrow> nanos \<Rightarrow> string list \<Rightarrow> 'w \<Rightarrow> ('w logger option \<times> exits) option" where
  "cmdLog E now later args w =
     (case log_args now args of
        Inl x \<Rightarrow> Some (None, x)
      | Inr o' \<Rightarrow>
          if \<not> fst (ReadOnly (id_DMI (li_Id E))) then Some (None, (exitFail, [''log: '' @ snd (ReadOnly (id_DMI (li_Id E)))]))
          else case li_Mkdir E (lo_Out o') of
                 Some e \<Rightarrow> Some (None, (exitFail, [''log: '' @ e]))
               | None \<Rightarrow>
                   (let dir = run_dir E later o'; line = log_line o' dir (snd (mailer (li_There E) (lo_MailCmd o') (lo_MailTo o')))
                    in case log_run E later o' w of
                         None \<Rightarrow> None
                       | Some (L, e) \<Rightarrow> Some (Some L, (fst (log_end dir e), line # snd (log_end dir e)))))"

section \<open>log check\<close>

definition check_usage :: string where
  [text_defs]: "check_usage = ''usage: n5-ectest log check RUN [--out DIR] [--mail-to ADDR] [--unit-failed UNIT]''"
definition no_run_text :: "string \<Rightarrow> string \<Rightarrow> string \<Rightarrow> string" where
  [text_defs]: "no_run_text cmd run out = cmd @ '': no run '' @ fmt_q run @ '' in '' @ out"

text \<open>What a run directory shows the check: its state, the time of samples.csv, the state of the checker.\<close>

record check_site =
  ci_IsDir :: "string \<Rightarrow> bool"
  ci_Ents :: "string \<Rightarrow> (string \<times> bool) list"
  ci_There :: "string \<Rightarrow> bool"
  ci_State :: "string \<Rightarrow> stored_state"
  ci_Missing :: "string \<Rightarrow> string"
  ci_MTime :: "string \<Rightarrow> int option"
  ci_Check :: "string \<Rightarrow> check_state"

text \<open>A mail that is due goes to the mail command, or is printed.\<close>

record check_end =
  ce_Exit :: exits
  ce_Mail :: "(string list \<times> string \<times> string) option"
  ce_Saved :: "(string \<times> check_state) option"

definition quiet_end :: "exits \<Rightarrow> check_end" where
  "quiet_end x = \<lparr> ce_Exit = x, ce_Mail = None, ce_Saved = None \<rparr>"

definition check_run :: "check_site \<Rightarrow> nanos \<Rightarrow> string list option \<Rightarrow> string \<Rightarrow> string \<Rightarrow> check_end" where
  "check_run E now cmd failed dir =
     (case Check_log (ci_Missing E dir) (ci_State E dir) (ci_MTime E dir) now failed (ci_Check E dir) of
        (r, msg, saved) \<Rightarrow>
          \<lparr> ce_Exit = (if ck_Stale r then exitFail else exitOK,
              (case (cmd, msg) of (None, Some (s, b)) \<Rightarrow> [s, b] | _ \<Rightarrow> []) @ [ck_Text r]),
            ce_Mail = (case (cmd, msg) of (Some c, Some (s, b)) \<Rightarrow> Some (c, s, b) | _ \<Rightarrow> None),
            ce_Saved = map_option (\<lambda>cs. (dir, cs)) saved \<rparr>)"

definition check_flags :: flag_set where
  "check_flags = map string_flag [''out'', ''mail-to'', ''mail-cmd'', ''unit-failed'']"

definition cmdLogCheck :: "check_site \<Rightarrow> nanos \<Rightarrow> string list \<Rightarrow> check_end" where
  "cmdLogCheck E now args =
     (case parseFlags check_flags args (Some [''out'', ''mail-to'', ''mail-cmd'', ''unit-failed'']) of
        Inl (rc, e) \<Rightarrow> quiet_end (rc, [e])
      | Inr (sets, pos) \<Rightarrow>
          (case pos of
             [run] \<Rightarrow>
               (let out = setting sets ''out'' defaultLogDir; rcpt = setting sets ''mail-to'' ''''
                in if \<not> checkMailTo rcpt then quiet_end (exitUsage, [mail_to_text ''log check''])
                   else case findRun (ci_IsDir E) out (ci_Ents E out) run of
                          None \<Rightarrow> quiet_end (exitFail, [no_run_text ''log check'' run out])
                        | Some dir \<Rightarrow>
                            check_run E now (fst (mailer (ci_There E) (setting sets ''mail-cmd'' '''') rcpt)) (setting sets ''unit-failed'' '''') dir)
           | _ \<Rightarrow> quiet_end (exitUsage, [check_usage])))"

section \<open>log annotate\<close>

definition annotate_usage :: string where
  [text_defs]: "annotate_usage =
     ''usage: n5-ectest log annotate RUN --event N[,M...] TEXT... | --down FROM TO TEXT...   (FROM/TO: RFC 3339)''"
definition annotated_text :: "string \<Rightarrow> string" where
  [text_defs]: "annotated_text dir = ''annotated in '' @ join_path [dir, AnnotationsFile]"
definition rewritten_text :: string where
  [text_defs]: "rewritten_text = ''SHA256SUMS of the finished run rewritten''"

fun event_ids :: "string list \<Rightarrow> int list option" where
  "event_ids [] = Some []"
| "event_ids (s # ss) =
     (case atoi (trim_prefix ''#'' s) of
        None \<Rightarrow> None
      | Some n \<Rightarrow> map_option (\<lambda>ns. n # ns) (event_ids ss))"

text \<open>The line to append, or an error; \<open>None\<close> is the usage.\<close>

definition annotation_line :: "string \<Rightarrow> string option \<Rightarrow> nanos \<Rightarrow> string list \<Rightarrow> (string + string) option" where
  "annotation_line dir events now args =
     (if args ! 1 = ''--event''
      then map_option (\<lambda>ids. AnnotateEvents dir events now ids (joins '' '' (drop 3 args))) (event_ids (split_at (CHR '','') (args ! 2)))
      else if args ! 1 = ''--down''
      then (if length args < 5 then None
            else case (parse_rfc3339 (args ! 2), parse_rfc3339 (args ! 3)) of
                   (Some f, Some t) \<Rightarrow> Some (AnnotateDown f t (joins '' '' (drop 4 args)))
                 | _ \<Rightarrow> None)
      else None)"

text \<open>The files: events.log of a directory, appending to the annotations, the sums.\<close>

record 'w note_site =
  nn_IsDir :: "string \<Rightarrow> bool"
  nn_Ents :: "string \<Rightarrow> (string \<times> bool) list"
  nn_Events :: "string \<Rightarrow> string option"
  nn_Append :: "string \<Rightarrow> string \<Rightarrow> 'w \<Rightarrow> 'w \<times> string option"
  nn_Summed :: "string \<Rightarrow> 'w \<Rightarrow> bool"
  nn_Sums :: "string \<Rightarrow> 'w \<Rightarrow> 'w \<times> string option"

definition note_run :: "'w note_site \<Rightarrow> nanos \<Rightarrow> string \<Rightarrow> string list \<Rightarrow> 'w \<Rightarrow> 'w \<times> exits" where
  "note_run E now dir args w =
     (case annotation_line dir (nn_Events E dir) now args of
        None \<Rightarrow> (w, (exitUsage, [annotate_usage]))
      | Some (Inl e) \<Rightarrow> (w, (exitFail, [''log annotate: '' @ e]))
      | Some (Inr line) \<Rightarrow>
          (case nn_Append E (join_path [dir, AnnotationsFile]) line w of
             (w1, Some e) \<Rightarrow> (w1, (exitFail, [''log annotate: '' @ e]))
           | (w1, None) \<Rightarrow>
               if \<not> nn_Summed E dir w1 then (w1, (exitOK, [annotated_text dir]))
               else case nn_Sums E dir w1 of
                      (w2, Some e) \<Rightarrow> (w2, (exitFail, [annotated_text dir, ''log annotate: SHA256SUMS: '' @ e]))
                    | (w2, None) \<Rightarrow> (w2, (exitOK, [annotated_text dir, rewritten_text]))))"

definition cmdLogAnnotate :: "'w note_site \<Rightarrow> nanos \<Rightarrow> string list \<Rightarrow> 'w \<Rightarrow> 'w \<times> exits" where
  "cmdLogAnnotate E now args w =
     (let given = (length args \<ge> 2 \<and> args ! 0 = ''--out''); out = (if given then args ! 1 else defaultLogDir);
          rest = (if given then drop 2 args else args)
      in if length rest < 3 then (w, (exitUsage, [annotate_usage]))
         else case findRun (nn_IsDir E) out (nn_Ents E out) (rest ! 0) of
                None \<Rightarrow> (w, (exitFail, [no_run_text ''log annotate'' (rest ! 0) out]))
              | Some dir \<Rightarrow> note_run E now dir rest w)"

end
