(* ===== verification/Gen_Results.thy ===== *)
theory Gen_Results
  imports Hw_Status Text_Sort Snapshot_Facts
begin

text \<open>
  The generator of the embedded results table: src/go/n5/hwstatus/internal/genresults/main.go. It takes
  the table out of befunde/RESULTS.md and prints the text that \<open>Parse\<close> of the package reads; sha256 is
  a parameter. Reading and writing the two files is not modelled.
\<close>

section \<open>One line\<close>

definition TAB :: char where "TAB = CHR 0x09"

definition dash_cell :: "string \<Rightarrow> bool" where
  "dash_cell c \<longleftrightarrow> c \<noteq> [] \<and> list_all (\<lambda>x. x = CHR ''-'') c"

definition date_cell :: "string \<Rightarrow> bool" where
  "date_cell c \<longleftrightarrow> length c = 10 \<and> c ! 4 = CHR ''-'' \<and> c ! 7 = CHR ''-'' \<and> list_all (\<lambda>i. is_digit (c ! i)) [0, 1, 2, 3, 5, 6, 8, 9]"

definition md_cells :: "string \<Rightarrow> string list" where
  "md_cells line =
     (let l = trim_space (filter (\<lambda>c. c \<noteq> CHR ''`'') line); l = trim_suffix ''|'' (trim_prefix ''|'' l)
      in split_at (CHR ''|'') l)"

definition clean_cell :: "string \<Rightarrow> string" where
  "clean_cell c = trim_space (map (\<lambda>x. if x = TAB then CHR '' '' else x) c)"

definition columns_text :: "nat \<Rightarrow> nat \<Rightarrow> string" where
  [text_defs]: "columns_text n k = ''RESULTS.md:'' @ itoa (int n) @ '': '' @ itoa (int k) @ '' columns, want 8''"
definition md_status_text :: "nat \<Rightarrow> string \<Rightarrow> string" where
  [text_defs]: "md_status_text n s = ''RESULTS.md:'' @ itoa (int n) @ '': unknown status '' @ s"
definition md_origin_text :: "nat \<Rightarrow> string \<Rightarrow> string \<Rightarrow> string" where
  [text_defs]: "md_origin_text n s o' = ''RESULTS.md:'' @ itoa (int n) @ '': status '' @ s @ '' needs origin eigen, not '' @ o'"

datatype md_row = NoRow | BadRow string | TableRow "string list"

definition md_row_of :: "nat \<Rightarrow> string \<Rightarrow> md_row" where
  "md_row_of n line =
     (let c = md_cells line
      in if length c \<noteq> 8 then BadRow (columns_text n (length c))
         else
           (let c = map clean_cell c
            in if c ! 0 = ''Produkt'' \<or> dash_cell (c ! 0) then NoRow
               else if parse_status (c ! 4) = None then BadRow (md_status_text n (c ! 4))
               else if (c ! 4 = ''validated'' \<or> c ! 4 = ''tested'') \<and> c ! 5 \<noteq> ''eigen'' then BadRow (md_origin_text n (c ! 4) (c ! 5))
               else TableRow c))"

section \<open>The loop\<close>

record gen_state =
  gs_On :: bool
  gs_Done :: bool
  gs_Rows :: "string list list"
  gs_Errs :: "string list"
  gs_Newest :: string

definition newer :: "string \<Rightarrow> string \<Rightarrow> string" where
  "newer d newest = (if date_cell d \<and> text_less newest d then d else newest)"

definition gen_line :: "nat \<Rightarrow> string \<Rightarrow> gen_state \<Rightarrow> gen_state" where
  "gen_line n line g =
     (if contains_str Begin line then g\<lparr> gs_On := True \<rparr>
      else if contains_str End line then g\<lparr> gs_On := False, gs_Done := True \<rparr>
      else if \<not> gs_On g \<or> trim_space line = '''' then g
      else case md_row_of n line of
             NoRow \<Rightarrow> g
           | BadRow e \<Rightarrow> g\<lparr> gs_Errs := gs_Errs g @ [e] \<rparr>
           | TableRow c \<Rightarrow> g\<lparr> gs_Newest := newer (c ! 6) (gs_Newest g), gs_Rows := gs_Rows g @ [c] \<rparr>)"

text \<open>The scanner stops with an error at a line of 64 KiB.\<close>

fun gen_loop :: "nat \<Rightarrow> string list \<Rightarrow> gen_state \<Rightarrow> string + gen_state" where
  "gen_loop n [] g = Inr g"
| "gen_loop n (l # ls) g =
     (if int (length l) \<ge> MaxLine then Inl scan_error else gen_loop (Suc n) ls (gen_line n (trim_right CR l) g))"

definition gen_start :: gen_state where
  "gen_start = \<lparr> gs_On = False, gs_Done = False, gs_Rows = [], gs_Errs = [], gs_Newest = '''' \<rparr>"

definition no_markers_text :: string where [text_defs]: "no_markers_text = ''RESULTS.md: hwstatus markers not found''"

text \<open>The rows and the newest date, or the error.\<close>

definition gen_rows :: "string \<Rightarrow> string + string list list \<times> string" where
  "gen_rows src =
     (case gen_loop 1 (scan_lines src) gen_start of
        Inl e \<Rightarrow> Inl e
      | Inr g \<Rightarrow>
          (let errs = gs_Errs g @ (if gs_Done g then [] else [no_markers_text])
           in if errs \<noteq> [] then Inl (joins [NL] errs)
              else if gs_Rows g = [] then Inl ''RESULTS.md: empty hwstatus table''
              else if gs_Newest g = '''' then Inl ''RESULTS.md: no row carries a date (YYYY-MM-DD)''
              else Inr (gs_Rows g, gs_Newest g)))"

definition results_source :: string where
  [text_defs]: "results_source = ''befunde/RESULTS.md (github.com/SirRenix/minisforum-n5pro-fan-proxmox)''"

definition gen_comment :: string where
  [text_defs]: "gen_comment =
     ''# Generated by go generate (go/n5/hwstatus/internal/genresults) -- do not edit; edit befunde/RESULTS.md and re-run.''"

definition comment_text :: "string \<Rightarrow> string \<Rightarrow> string" where
  "comment_text k v = ''# '' @ k @ '': '' @ v"

definition column_names :: string where
  [text_defs]: "column_names = joins [TAB] [''product'', ''board'', ''bios'', ''ec'', ''status'', ''origin'', ''date'', ''note'']"

definition tsv_lines :: "string \<Rightarrow> string \<Rightarrow> string list list \<Rightarrow> string list" where
  "tsv_lines sm newest rows =
     [gen_comment, comment_text ''source'' results_source, comment_text ''source-table-sha256'' sm, comment_text ''generated'' newest,
      comment_text ''columns'' column_names] @ map (joins [TAB]) rows"

definition Generate :: "(string \<Rightarrow> string) \<Rightarrow> string \<Rightarrow> string + string" where
  "Generate sha src =
     (case Sum sha src of
        Inl e \<Rightarrow> Inl e
      | Inr sm \<Rightarrow>
          (case gen_rows src of
             Inl e \<Rightarrow> Inl e
           | Inr (rows, newest) \<Rightarrow> Inr (concat (map (\<lambda>l. l @ [NL]) (tsv_lines sm newest rows)))))"

section \<open>What the program reads back\<close>

text \<open>
  A row the program can read: no key field is empty, the origin is known, and its first cell does not
  start a comment. The generator checks none of the three.
\<close>

definition readable_row :: "string list \<Rightarrow> bool" where
  "readable_row c \<longleftrightarrow> c ! 0 \<noteq> '''' \<and> c ! 1 \<noteq> '''' \<and> c ! 2 \<noteq> '''' \<and> c ! 3 \<noteq> '''' \<and> origins (map lower_char (c ! 5)) \<noteq> None \<and>
     hd (c ! 0) \<noteq> CHR ''#'' \<and> int (length (joins [TAB] c)) < MaxLine"

definition entry_of :: "string list \<Rightarrow> Entry" where
  "entry_of c =
     \<lparr> en_Product = c ! 0, en_Board = c ! 1, en_BIOS = c ! 2, en_EC = c ! 3, en_Status = the (parse_status (c ! 4)),
       en_Origin = the (origins (map lower_char (c ! 5))), en_Date = c ! 6, en_Note = c ! 7 \<rparr>"

text \<open>What every row of the generator is.\<close>

definition clean :: "string \<Rightarrow> bool" where
  "clean c \<longleftrightarrow> trim_space c = c \<and> TAB \<notin> set c \<and> NL \<notin> set c"

definition gen_row_ok :: "string list \<Rightarrow> bool" where
  "gen_row_ok c \<longleftrightarrow> length c = 8 \<and> list_all clean c \<and> parse_status (c ! 4) \<noteq> None \<and>
     ((c ! 4 = ''validated'' \<or> c ! 4 = ''tested'') \<longrightarrow> c ! 5 = ''eigen'')"

section \<open>Facts\<close>

lemma trim_ends: "trim_space s \<noteq> [] \<Longrightarrow> \<not> is_space (hd (trim_space s)) \<and> \<not> is_space (last (trim_space s))"
proof -
  let ?d = "dropWhile is_space s" let ?t = "trim_space s"
  assume ne: "?t \<noteq> []"
  have t: "?t = rev (dropWhile is_space (rev ?d))" by (simp add: trim_space_def)
  have "?d = ?t @ rev (takeWhile is_space (rev ?d))"
    unfolding t by (metis rev_append rev_rev_ident takeWhile_dropWhile_id)
  then have h: "?d \<noteq> []" "hd ?d = hd ?t" using ne by (metis append_is_Nil_conv, metis hd_append2)
  have "\<not> is_space (hd ?d)" using hd_dropWhile [OF h(1)] .
  moreover have "\<not> is_space (hd (dropWhile is_space (rev ?d)))" using ne hd_dropWhile [of is_space "rev ?d"] by (simp add: t)
  then have "\<not> is_space (last ?t)" using ne by (simp add: t last_rev)
  ultimately show ?thesis using h(2) by simp
qed

lemma trim_space_idem [simp]: "trim_space (trim_space s) = trim_space s"
proof (cases "trim_space s = []")
  case True
  then show ?thesis by (simp only: True) (simp add: trim_space_def)
qed (use trim_ends [of s] trim_space_id [of "trim_space s"] in simp)

lemma set_trim_space: "set (trim_space s) \<subseteq> set s"
  unfolding trim_space_def by (metis set_dropWhileD set_rev subsetI)

lemma clean_ends: "clean c \<Longrightarrow> c \<noteq> [] \<Longrightarrow> \<not> is_space (hd c) \<and> \<not> is_space (last c)"
  using trim_ends [of c] by (simp add: clean_def)

lemma clean_cell_clean: "NL \<notin> set c \<Longrightarrow> clean (clean_cell c)"
  using set_trim_space [of "map (\<lambda>x. if x = TAB then CHR '' '' else x) c"]
  by (auto simp: clean_def clean_cell_def TAB_def NL_def split: if_splits)

lemma set_split_at: "x \<in> set (split_at c s) \<Longrightarrow> set x \<subseteq> set s"
proof (induction c s arbitrary: x rule: split_at.induct)
  case (2 c a s)
  show ?case
  proof (cases "a = c")
    case False
    obtain y ys where y: "split_at c s = y # ys" by (cases "split_at c s") simp_all
    then have "x = a # y \<or> x \<in> set ys" using 2(3) False by simp
    moreover have "set y \<subseteq> set s" "z \<in> set ys \<Longrightarrow> set z \<subseteq> set s" for z using 2(2) [OF False] y by simp_all
    ultimately show ?thesis by fastforce
  qed (use 2 in fastforce)
qed simp

lemma md_row_ok:
  assumes "md_row_of n line = TableRow c" "NL \<notin> set line"
  shows "gen_row_ok c"
proof -
  have c: "c = map clean_cell (md_cells line)" "length (md_cells line) = 8" "parse_status (c ! 4) \<noteq> None"
    "(c ! 4 = ''validated'' \<or> c ! 4 = ''tested'') \<longrightarrow> c ! 5 = ''eigen''"
    using assms(1) by (auto simp: md_row_of_def Let_def split: if_splits)
  have "set (trim_suffix ''|'' (trim_prefix ''|'' (trim_space (filter (\<lambda>c. c \<noteq> CHR ''`'') line)))) \<subseteq> set line"
    using set_trim_space [of "filter (\<lambda>c. c \<noteq> CHR ''`'') line"]
    by (auto simp: trim_suffix_def trim_prefix_def dest!: in_set_takeD in_set_dropD)
  then have "NL \<notin> set x" if "x \<in> set (md_cells line)" for x
    using set_split_at that assms(2) unfolding md_cells_def Let_def by blast
  then have "list_all clean c" using clean_cell_clean by (auto simp: c(1) list_all_iff)
  then show ?thesis using c by (simp add: gen_row_ok_def)
qed

definition gen_inv :: "gen_state \<Rightarrow> bool" where
  "gen_inv g \<longleftrightarrow> list_all gen_row_ok (gs_Rows g) \<and> (gs_Newest g = '''' \<or> date_cell (gs_Newest g))"

lemma gen_line_inv: "gen_inv g \<Longrightarrow> NL \<notin> set line \<Longrightarrow> gen_inv (gen_line n line g)"
  by (auto simp: gen_line_def gen_inv_def newer_def md_row_ok split: md_row.split)

lemma gen_loop_inv: "gen_inv g \<Longrightarrow> list_all (\<lambda>l. NL \<notin> set l) ls \<Longrightarrow> gen_loop n ls g = Inr g' \<Longrightarrow> gen_inv g'"
proof (induction ls arbitrary: n g)
  case (Cons l ls)
  have "NL \<notin> set (trim_right CR l)" using Cons.prems(2) by (auto simp: trim_right_def dest!: set_dropWhileD)
  then have "gen_inv (gen_line n (trim_right CR l) g)" using Cons.prems(1) gen_line_inv by blast
  then show ?case using Cons.IH Cons.prems by (auto split: if_splits)
qed simp

lemma no_NL_lines: "list_all (\<lambda>l. NL \<notin> set l) (split_at NL s)"
  by (induction NL s rule: split_at.induct) (auto split: list.splits)

lemma gen_rows_ok:
  assumes "gen_rows src = Inr (rows, newest)"
  shows "list_all gen_row_ok rows" "date_cell newest" "rows \<noteq> []"
proof -
  obtain g where g: "gen_loop 1 (scan_lines src) gen_start = Inr g" "rows = gs_Rows g" "newest = gs_Newest g" "newest \<noteq> ''''" "rows \<noteq> []"
    using assms by (auto simp: gen_rows_def Let_def split: sum.splits if_splits)
  have "list_all (\<lambda>l. NL \<notin> set l) (scan_lines src)"
    using no_NL_lines [of src] by (auto simp: scan_lines_def Let_def list_all_iff dest: in_set_butlastD)
  then have "gen_inv g" using gen_loop_inv [OF _ _ g(1)] by (simp add: gen_inv_def gen_start_def)
  then show "list_all gen_row_ok rows" "date_cell newest" "rows \<noteq> []" using g by (auto simp: gen_inv_def)
qed

section \<open>A row read back\<close>

lemma split_joins: "cs \<noteq> [] \<Longrightarrow> list_all (\<lambda>c. x \<notin> set c) cs \<Longrightarrow> split_at x (joins [x] cs) = cs"
  by (induction "[x]" cs rule: joins.induct) (simp_all add: split_at_one split_at_app)

lemma trim_right_keep: "s = [] \<or> last s \<noteq> c \<Longrightarrow> trim_right c s = s"
  by (cases s rule: rev_cases) (auto simp: trim_right_def)

lemma joins_last: "joins [x] (cs @ [z]) = concat (map (\<lambda>c. c @ [x]) cs) @ z"
proof (induction cs)
  case (Cons c cs)
  then show ?case by (cases cs) simp_all
qed simp

lemma last_joins:
  assumes "cs \<noteq> []"
  shows "joins [x] cs = [] \<or> last (joins [x] cs) = x \<or> last cs \<noteq> [] \<and> last (joins [x] cs) = last (last cs)"
proof -
  obtain ys z where cs: "cs = ys @ [z]" using assms by (cases cs rule: rev_cases) auto
  have "concat (map (\<lambda>c. c @ [x]) ys) = [] \<or> last (concat (map (\<lambda>c. c @ [x]) ys)) = x" by (cases ys rule: rev_cases) simp_all
  then show ?thesis by (cases z) (auto simp: cs joins_last)
qed

lemma trim_empty:
  assumes "trim_space s = []" "x \<in> set s"
  shows "is_space x"
proof -
  have "\<forall>y \<in> set (dropWhile is_space s). is_space y" using assms(1) by (simp add: trim_space_def dropWhile_eq_Nil_conv)
  then have "dropWhile is_space s = []" using hd_dropWhile [of is_space s] by (cases "dropWhile is_space s") auto
  then show ?thesis using assms(2) by (simp add: dropWhile_eq_Nil_conv)
qed

lemma row_text:
  assumes "gen_row_ok c" "readable_row c"
  shows "trim_right CR (joins [TAB] c) = joins [TAB] c" "trim_space (joins [TAB] c) \<noteq> ''''" "\<not> has_prefix ''#'' (joins [TAB] c)"
    "row_line n (joins [TAB] c) = Inr (entry_of c)"
proof -
  obtain a b cs where c: "c = a # b # cs" using assms(1) by (cases c; cases "tl c") (auto simp: gen_row_ok_def)
  have cl: "list_all clean c" "length c = 8" "c \<noteq> []" using assms(1) by (auto simp: gen_row_ok_def)
  have a: "a \<noteq> ''''" "hd a \<noteq> CHR ''#''" "\<not> is_space (hd a)" using assms(2) cl(1) clean_ends [of a] by (auto simp: c readable_row_def)
  have j: "joins [TAB] c = a @ [TAB] @ joins [TAB] (b # cs)" by (simp add: c)
  have hd: "hd (joins [TAB] c) = hd a" using a(1) by (simp add: j)
  show "\<not> has_prefix ''#'' (joins [TAB] c)" using a hd by (cases a) (auto simp: j has_prefix_def)
  have "\<exists>x \<in> set (joins [TAB] c). \<not> is_space x" using a(1,3) by (cases a) (auto simp: j)
  then show "trim_space (joins [TAB] c) \<noteq> ''''" using trim_empty by blast
  have "joins [TAB] c \<noteq> []" by (simp add: c)
  then have "last (joins [TAB] c) \<noteq> CR"
    using last_joins [OF cl(3), of TAB] clean_ends [of "last c"] cl(1,3) by (auto simp: TAB_def CR_def is_space_def list_all_iff)
  then show "trim_right CR (joins [TAB] c) = joins [TAB] c" by (rule trim_right_keep [OF disjI2])
  have s: "split_at (CHR 0x09) (joins [TAB] c) = c" using split_joins [OF cl(3), of TAB] cl(1) by (auto simp: TAB_def clean_def list_all_iff)
  have m: "map trim_space c = c" using cl(1) by (auto simp: clean_def list_all_iff intro: map_idI)
  obtain st o' where st: "parse_status (c ! 4) = Some st" "origins (map lower_char (c ! 5)) = Some o'"
    using assms by (auto simp: gen_row_ok_def readable_row_def)
  have "status_text st = c ! 4" using st(1) by (auto simp: parse_status_def split: if_splits)
  then have "Verified st \<longrightarrow> o' = ''own''" using assms(1) st by (auto simp: Verified_def gen_row_ok_def origins_def lower_char_def)
  then show "row_line n (joins [TAB] c) = Inr (entry_of c)"
    using assms(2) st by (auto simp: row_line_def s m cl(2) Let_def entry_of_def readable_row_def)
qed

lemma rows_back:
  "list_all gen_row_ok rows \<Longrightarrow> list_all readable_row rows \<Longrightarrow> parse_loop n (map (joins [TAB]) rows) out m = Inr (out @ map entry_of rows, m)"
  by (induction rows arbitrary: n out) (simp_all add: row_text Let_def, auto simp: readable_row_def)

text \<open>A row that is not readable is an error or is dropped.\<close>

lemma row_back_only:
  assumes "gen_row_ok c" "row_line n (trim_right CR (joins [TAB] c)) = Inr e" "\<not> has_prefix ''#'' (trim_right CR (joins [TAB] c))"
    "int (length (joins [TAB] c)) < MaxLine"
  shows "readable_row c"
proof -
  have cl: "list_all clean c" "length c = 8" "c \<noteq> []" using assms(1) by (auto simp: gen_row_ok_def)
  obtain a b cs where c: "c = a # b # cs" using cl(2) by (cases c; cases "tl c") auto
  have "joins [TAB] c \<noteq> []" by (simp add: c)
  then have "last (joins [TAB] c) \<noteq> CR"
    using last_joins [OF cl(3), of TAB] clean_ends [of "last c"] cl(1,3) by (auto simp: TAB_def CR_def is_space_def list_all_iff)
  then have t: "trim_right CR (joins [TAB] c) = joins [TAB] c" by (rule trim_right_keep [OF disjI2])
  have s: "split_at (CHR 0x09) (joins [TAB] c) = c" using split_joins [OF cl(3), of TAB] cl(1) by (auto simp: TAB_def clean_def list_all_iff)
  have m: "map trim_space c = c" using cl(1) by (auto simp: clean_def list_all_iff intro: map_idI)
  have "hd (c ! 0) \<noteq> CHR ''#''" if "c ! 0 \<noteq> ''''" using assms(3) that unfolding t by (cases a) (auto simp: c has_prefix_def)
  then show ?thesis using assms(2,4) by (auto simp: t row_line_def s m cl(2) Let_def readable_row_def split: if_splits option.splits)
qed

lemma rows_count:
  "list_all gen_row_ok rows \<Longrightarrow> parse_loop n (map (joins [TAB]) rows) out m = Inr (out', m') \<Longrightarrow>
     length out' \<le> length out + length rows \<and> (length out' = length out + length rows \<longrightarrow> list_all readable_row rows)"
proof (induction rows arbitrary: n out m)
  case (Cons c rows)
  let ?l = "trim_right CR (joins [TAB] c)"
  have len: "int (length (joins [TAB] c)) < MaxLine" using Cons.prems(2) by (auto split: if_splits)
  consider m2 where "parse_loop (Suc n) (map (joins [TAB]) rows) out m2 = Inr (out', m')"
    | e where "row_line n ?l = Inr e" "\<not> has_prefix ''#'' ?l" "parse_loop (Suc n) (map (joins [TAB]) rows) (out @ [e]) m = Inr (out', m')"
    using Cons.prems(2) by (auto simp: Let_def split: if_splits sum.splits)
  then show ?case
  proof cases
    case 1
    then show ?thesis using Cons.IH [OF _ 1] Cons.prems(1) by auto
  next
    case 2
    then show ?thesis using Cons.IH [OF _ 2(3)] Cons.prems(1) row_back_only [OF _ 2(1,2) len] by auto
  qed
qed simp

section \<open>The whole text\<close>

lemma split_lines_scan: "list_all (\<lambda>l. NL \<notin> set l) ls \<Longrightarrow> scan_lines (concat (map (\<lambda>l. l @ [NL]) ls)) = ls"
  by (simp add: scan_lines_def split_lines)

lemma digit_not_space: "is_digit c \<Longrightarrow> \<not> is_space c"
  by (auto simp: is_space_def is_digit_def digit_val_def)

lemma date_plain:
  assumes "date_cell d"
  shows "word_ok d" "length d = 10"
proof -
  have "\<not> is_space (d ! i)" if "i < 10" for i
  proof -
    have "i \<in> {0, 1, 2, 3, 4, 5, 6, 7, 8, 9}" using that by auto
    moreover have "\<not> is_space (CHR ''-'')" by (simp add: is_space_def)
    ultimately show ?thesis using assms digit_not_space by (auto simp: date_cell_def)
  qed
  then show "word_ok d" "length d = 10" using assms by (auto simp: date_cell_def word_ok_def list_all_length)
qed

lemma word_ends: "word_ok w \<Longrightarrow> w \<noteq> [] \<and> \<not> is_space (hd w) \<and> \<not> is_space (last w)"
  by (auto simp: word_ok_def list_all_iff)

text \<open>The comment lines: a key and a value.\<close>

lemma comment_line:
  assumes "word_ok k" "CHR '':'' \<notin> set k" "v \<noteq> []" "\<not> is_space (hd v)" "\<not> is_space (last v)"
  shows "trim_right CR (''# '' @ k @ '': '' @ v) = ''# '' @ k @ '': '' @ v" "trim_space (''# '' @ k @ '': '' @ v) \<noteq> ''''"
    "has_prefix ''#'' (''# '' @ k @ '': '' @ v)"
    "meta_line (''# '' @ k @ '': '' @ v) m =
       (if k = ''source'' then m\<lparr> tm_Source := v \<rparr> else if k = ''source-table-sha256'' then m\<lparr> tm_SHA := v \<rparr>
        else if k = ''generated'' then m\<lparr> tm_Generated := v \<rparr> else m)"
proof -
  let ?l = "''# '' @ k @ '': '' @ v"
  have cr: "is_space CR" by (simp add: is_space_def CR_def)
  have "last ?l = last v" using assms(3) by simp
  then have "last ?l \<noteq> CR" using assms(5) cr by metis
  then show "trim_right CR ?l = ?l" by (rule trim_right_keep [OF disjI2])
  have "\<not> is_space (CHR ''#'')" by (simp add: is_space_def)
  then show "trim_space ?l \<noteq> ''''" using trim_empty [of ?l "CHR ''#''"] by auto
  show "has_prefix ''#'' ?l" by (simp add: has_prefix_def)
  have w: "k \<noteq> []" "\<not> is_space (hd k)" "trim_space k = k" using word_ends [OF assms(1)] trim_space_id by auto
  have s: "trim_space (CHR '' '' # x) = trim_space x" for x by (simp add: trim_space_def)
  have "trim_space (k @ '': '' @ v) = k @ '': '' @ v" using w assms(3,5) by (intro trim_space_id) auto
  then have "trim_space (trim_prefix ''#'' ?l) = k @ '':'' @ CHR '' '' # v" using s [of "k @ '': '' @ v"] by (simp add: trim_prefix_def has_prefix_def)
  moreover have "trim_space (CHR '' '' # v) = v" using trim_space_id [OF assms(3,4,5)] s by simp
  moreover have "cut_at (CHR '':'') (k @ '':'' @ CHR '' '' # v) = (k, CHR '' '' # v, True)" using cut_at_app [OF assms(2)] by simp
  ultimately show "meta_line ?l m = (if k = ''source'' then m\<lparr> tm_Source := v \<rparr> else if k = ''source-table-sha256'' then m\<lparr> tm_SHA := v \<rparr>
        else if k = ''generated'' then m\<lparr> tm_Generated := v \<rparr> else m)"
    by (simp add: meta_line_def w(3))
qed

lemma parse_comment:
  assumes "word_ok k" "CHR '':'' \<notin> set k" "v \<noteq> []" "\<not> is_space (hd v)" "\<not> is_space (last v)" "length k + length v < 60000"
  shows "parse_loop n (comment_text k v # ls) out m = parse_loop (Suc n) ls out
      (if k = ''source'' then m\<lparr> tm_Source := v \<rparr> else if k = ''source-table-sha256'' then m\<lparr> tm_SHA := v \<rparr>
       else if k = ''generated'' then m\<lparr> tm_Generated := v \<rparr> else m)"
  using comment_line [OF assms(1-5)] assms(6) by (simp add: comment_text_def Let_def MaxLine_def)

lemma parse_gen_comment: "parse_loop n (gen_comment # ls) out m = parse_loop (Suc n) ls out m"
proof -
  have "trim_right CR gen_comment = gen_comment" "trim_space gen_comment \<noteq> ''''" "has_prefix ''#'' gen_comment"
    "snd (snd (cut_at (CHR '':'') (trim_space (trim_prefix ''#'' gen_comment)))) = False" "int (length gen_comment) < MaxLine"
    by code_simp+
  then show ?thesis by (simp add: meta_line_def split_beta)
qed

lemma header_back:
  assumes "word_ok sm" "length sm = 64" "date_cell newest"
  shows "parse_loop 1 (tsv_lines sm newest rows) [] \<lparr> tm_Source = '''', tm_SHA = '''', tm_Generated = '''' \<rparr> =
    parse_loop 6 (map (joins [TAB]) rows) [] \<lparr> tm_Source = results_source, tm_SHA = sm, tm_Generated = newest \<rparr>"
proof -
  have k: "word_ok ''source''" "word_ok ''source-table-sha256''" "word_ok ''generated''" "word_ok ''columns''" by code_simp+
  have src: "results_source \<noteq> []" "\<not> is_space (hd results_source)" "\<not> is_space (last results_source)" "length results_source < 1000" by code_simp+
  have col: "column_names \<noteq> []" "\<not> is_space (hd column_names)" "\<not> is_space (last column_names)" "length column_names < 1000" by code_simp+
  note sm = word_ends [OF assms(1)] and d = word_ends [OF date_plain(1) [OF assms(3)]]
  have "parse_loop n (comment_text ''source'' results_source # ls) out m = parse_loop (Suc n) ls out (m\<lparr> tm_Source := results_source \<rparr>)"
    "parse_loop n (comment_text ''source-table-sha256'' sm # ls) out m = parse_loop (Suc n) ls out (m\<lparr> tm_SHA := sm \<rparr>)"
    "parse_loop n (comment_text ''generated'' newest # ls) out m = parse_loop (Suc n) ls out (m\<lparr> tm_Generated := newest \<rparr>)"
    "parse_loop n (comment_text ''columns'' column_names # ls) out m = parse_loop (Suc n) ls out m" for n ls out m
    using parse_comment [OF k(1) _ src(1-3)] parse_comment [OF k(2), of sm] parse_comment [OF k(3), of newest] parse_comment [OF k(4) _ col(1-3)]
      src(4) col(4) sm d assms(2) date_plain(2) [OF assms(3)] by simp_all
  then show ?thesis by (simp add: tsv_lines_def parse_gen_comment eval_nat_numeral del: parse_loop.simps)
qed

section \<open>The generator and the program\<close>

text \<open>C27: the program reads every row of a generated table back as it is in RESULTS.md, with the checksum and the
  newest date, exactly when no row has an empty key field, an origin it does not know, a first cell that
  starts a comment or 64 KiB; the generator checks none of these.\<close>

theorem generated_table_read:
  assumes "Generate sha src = Inr out" "gen_rows src = Inr (rows, newest)" "Sum sha src = Inr sm" "word_ok sm" "length sm = 64"
  shows "Parse out = Inr (map entry_of rows, \<lparr> tm_Source = results_source, tm_SHA = sm, tm_Generated = newest \<rparr>) \<longleftrightarrow> list_all readable_row rows"
proof -
  note ok = gen_rows_ok [OF assms(2)]
  have o': "out = concat (map (\<lambda>l. l @ [NL]) (tsv_lines sm newest rows))" using assms(1-3) by (simp add: Generate_def)
  have w: "word_ok x \<Longrightarrow> NL \<notin> set x" for x by (auto simp: word_ok_def list_all_iff is_space_def NL_def)
  have "NL \<notin> set (joins [TAB] c)" if "c \<in> set rows" for c
  proof -
    have "list_all clean c" using ok(1) that by (auto simp: list_all_iff gen_row_ok_def)
    then show ?thesis by (induction "[TAB]" c rule: joins.induct) (auto simp: clean_def TAB_def NL_def)
  qed
  moreover have "NL \<notin> set gen_comment" "NL \<notin> set results_source" "NL \<notin> set column_names" by code_simp+
  ultimately have "list_all (\<lambda>l. NL \<notin> set l) (tsv_lines sm newest rows)"
    using w [OF assms(4)] w [OF date_plain(1) [OF ok(2)]] by (auto simp: tsv_lines_def comment_text_def list_all_iff NL_def)
  then have p: "parse_loop 1 (scan_lines out) [] \<lparr> tm_Source = '''', tm_SHA = '''', tm_Generated = '''' \<rparr> =
      parse_loop 6 (map (joins [TAB]) rows) [] \<lparr> tm_Source = results_source, tm_SHA = sm, tm_Generated = newest \<rparr>"
    using header_back [OF assms(4,5) ok(2)] by (simp add: o' split_lines_scan)
  show ?thesis
  proof
    assume "list_all readable_row rows"
    then have "parse_loop 6 (map (joins [TAB]) rows) [] \<lparr> tm_Source = results_source, tm_SHA = sm, tm_Generated = newest \<rparr> =
        Inr (map entry_of rows, \<lparr> tm_Source = results_source, tm_SHA = sm, tm_Generated = newest \<rparr>)"
      using rows_back [OF ok(1)] by simp
    moreover have "results_source \<noteq> ''''" by (simp add: results_source_def)
    moreover have "newest \<noteq> ''''" using ok(2) by (auto simp: date_cell_def)
    ultimately show "Parse out = Inr (map entry_of rows, \<lparr> tm_Source = results_source, tm_SHA = sm, tm_Generated = newest \<rparr>)"
      using ok(3) unfolding Parse_def p by simp
  next
    assume "Parse out = Inr (map entry_of rows, \<lparr> tm_Source = results_source, tm_SHA = sm, tm_Generated = newest \<rparr>)"
    then have "\<exists>m'. parse_loop 6 (map (joins [TAB]) rows) [] \<lparr> tm_Source = results_source, tm_SHA = sm, tm_Generated = newest \<rparr> =
        Inr (map entry_of rows, m')"
      unfolding Parse_def p by (auto split: sum.splits if_splits prod.splits)
    then show "list_all readable_row rows" using rows_count [OF ok(1)] by fastforce
  qed
qed

definition sample_results :: string where
  "sample_results = concat (map (\<lambda>l. l @ [NL])
     [''# Results'', Begin, ''| Produkt | Board | BIOS | EC | Status | Herkunft | Datum | Notiz |'', ''|---|---|---|---|---|---|---|---|'',
      ''| N5 PRO | `F8NAA` | 1.05 | * | tested | eigen | 2026-10-16 | MW1 |'', End])"

theorem generated_table_read_witness:
  "\<exists>out. Generate (\<lambda>_. replicate 64 (CHR ''a'')) sample_results = Inr out \<and>
     Parse out = Inr ([\<lparr> en_Product = ''N5 PRO'', en_Board = ''F8NAA'', en_BIOS = ''1.05'', en_EC = ''*'', en_Status = Tested, en_Origin = ''own'',
        en_Date = ''2026-10-16'', en_Note = ''MW1'' \<rparr>],
       \<lparr> tm_Source = results_source, tm_SHA = replicate 64 (CHR ''a''), tm_Generated = ''2026-10-16'' \<rparr>)"
proof -
  let ?row = "[''N5 PRO'', ''F8NAA'', ''1.05'', ''*'', ''tested'', ''eigen'', ''2026-10-16'', ''MW1'']" and ?sha = "\<lambda>_. replicate 64 (CHR ''a'')"
  have r: "gen_rows sample_results = Inr ([?row], ''2026-10-16'')" by code_simp
  have s: "Sum ?sha sample_results = Inr (replicate 64 (CHR ''a''))" by code_simp
  have w: "word_ok (replicate 64 (CHR ''a''))" by code_simp
  have e: "entry_of ?row = \<lparr> en_Product = ''N5 PRO'', en_Board = ''F8NAA'', en_BIOS = ''1.05'', en_EC = ''*'', en_Status = Tested, en_Origin = ''own'',
        en_Date = ''2026-10-16'', en_Note = ''MW1'' \<rparr>" by code_simp
  have "list_all readable_row [?row]" by code_simp
  moreover obtain out where "Generate ?sha sample_results = Inr out" using r s by (simp add: Generate_def)
  ultimately show ?thesis using generated_table_read [OF _ r s w, of out] e by auto
qed

end
