(* ===== verification/Command_Properties.thy ===== *)
theory Command_Properties
  imports Log_Commands Gen_Results Run_Properties Report_Checks
begin

text \<open>
  Properties of the commands that only read: the exit code of report and of a snapshot, what log starts, and
  that an interrupted run of the logger is found again.
\<close>

section \<open>The directory of a log run\<close>

lemma replace_safe: "list_all safe_char s \<Longrightarrow> replace_unsafe b s = s"
  by (induction s arbitrary: b) simp_all

lemma safe_not_space: "safe_char c \<Longrightarrow> \<not> is_space c"
  by (auto simp: safe_char_def alnum_def between_def is_space_def)

lemma clean_safe:
  assumes "list_all safe_char s" "s \<noteq> ''''"
  shows "clean_name s = s"
proof -
  have "trim_space s = s" using assms by (intro trim_space_id) (simp_all add: list_all_iff safe_not_space)
  with assms show ?thesis by (simp add: clean_name_def replace_safe)
qed

lemma find_app: "find P (xs @ ys) = (case find P xs of None \<Rightarrow> find P ys | Some x \<Rightarrow> Some x)"
  by (induction xs) simp_all

lemma ends_with: "has_suffix p (xs @ p)"
  by (simp add: has_suffix_def)

lemma DirName_suffix:
  assumes "validRunID run"
  shows "has_suffix (''-log-'' @ run) (DirName t board bios (''log-'' @ run))"
proof -
  have "clean_name (''log-'' @ run) = ''log-'' @ run"
    using assms by (intro clean_safe) (simp_all add: validRunID_def safe_char_def alnum_def between_def)
  then show ?thesis by (simp add: DirName_def has_suffix_def)
qed

section \<open>The clock of a log run\<close>

text \<open>What a run of \<open>log\<close> relies on: no call sets the clock back, a sleep moves it on.\<close>

locale going_site =
  fixes E :: "'w log_site" and tick :: "'w \<Rightarrow> int"
  assumes site_calls: "calls_keep \<lparr> se_Cfg = c, se_Deps = li_Deps E \<rparr> (\<lambda>w w'. tick w \<le> tick w')"
    and site_now: "snd (dp_Now (li_Deps E) w) = tick w"
    and site_exec: "tick w \<le> tick (fst (li_Exec E argv stdin w))"
    and site_sleep: "tick w < tick (fst (dp_Sleep (li_Deps E) d w))"
begin

lemma mail_keeps: "tick w \<le> tick (fst (CommandMailer (li_Exec E) cmd rcpt subject body w))"
  using site_exec by (auto simp: CommandMailer_def split: sum.split prod.split option.split) (metis fst_conv)+

lemma command_clock: "log_clock \<lparr> se_Cfg = c, se_Deps = log_deps E o' \<rparr> tick"
proof unfold_locales
  show "calls_keep \<lparr> se_Cfg = c, se_Deps = log_deps E o' \<rparr> (\<lambda>w w'. tick w \<le> tick w')"
    using site_calls by (simp add: calls_keep_def log_deps_def)
qed (auto simp: log_deps_def site_now site_sleep mail_keeps)

lemma log_returns: "cmdLog E now later args w \<noteq> None"
proof -
  have "(log_run E later o' w = None) = False" for o'
    using log_clock.run_returns [OF command_clock] unfolding log_run_def Let_def by (metis option.distinct(1))
  then show ?thesis unfolding cmdLog_def Let_def by (simp only: simp_thms split: sum.split option.split prod.split if_split) simp
qed

end

text \<open>The world of \<open>bare_deps\<close> on an N5 Pro, with a mail command that always works.\<close>

definition bare_site :: "(int \<times> nat \<times> bool) log_site" where
  "bare_site =
     \<lparr> li_Id = (vw_Id (still_view ''''))\<lparr> id_DMI := (id_DMI (vw_Id (still_view '''')))\<lparr> hi_Product := ''N5 PRO'', hi_Board := ''F8NAA'', hi_BIOS := ''1.05'' \<rparr> \<rparr>,
       li_Mkdir = (\<lambda>_. None), li_Ents = (\<lambda>_. []), li_There = (\<lambda>_. True), li_Dir = (\<lambda>_. empty_dir), li_MkRun = (\<lambda>_. None),
       li_Red = \<lparr> rd_hosts = [''pve''], rd_protected = [] \<rparr>, li_Deps = bare_deps, li_Exec = (\<lambda>_ _ w. (w, None)) \<rparr>"

lemma bare_calls: "calls_keep \<lparr> se_Cfg = c, se_Deps = bare_deps \<rparr> (\<lambda>w w'. fst w \<le> fst w')"
  by (simp add: calls_keep_def bare_deps_def)

interpretation bare_going: going_site bare_site fst
  by unfold_locales (auto simp: bare_site_def bare_deps_def calls_keep_def)

lemma log_args_ok:
  assumes "log_args now args = Inr o'"
  shows "0 < lo_Duration o'" "5 * Second \<le> lo_Interval o'" "lo_Interval o' \<le> 60 * Second" "validRunID (lo_Run o')"
    "\<not> has_prefix ''-'' (lo_MailTo o')"
  using assms by (auto simp: log_args_def Let_def checkMailTo_def split: sum.splits prod.splits if_splits)

section \<open>Properties\<close>

text \<open>C21: The command log returns under any outside world whose clock goes on, and a run of the logger was started only on a board of the family, with a duration, an interval of 5 to 60 seconds, an id that is one element of a path, and a recipient that is no option. Its exit code is 0 exactly when the run did not fail.\<close>
theorem log_command_ends:
  fixes tick :: "'w \<Rightarrow> int"
  assumes "\<And>c. calls_keep \<lparr> se_Cfg = c, se_Deps = li_Deps E \<rparr> (\<lambda>w w'. tick w \<le> tick w')"
    and "\<And>w. snd (dp_Now (li_Deps E) w) = tick w" "\<And>a i w. tick w \<le> tick (fst (li_Exec E a i w))"
    and "\<And>n w. tick w < tick (fst (dp_Sleep (li_Deps E) n w))"
  shows "\<exists>ran rc ls. cmdLog E now later args w = Some (ran, rc, ls) \<and>
    (\<forall>L. ran = Some L \<longrightarrow> fst (ReadOnly (id_DMI (li_Id E))) \<and>
       (\<exists>o' e. log_args now args = Inr o' \<and> log_run E later o' w = Some (L, e) \<and> (rc = exitOK \<longleftrightarrow> (\<forall>t. e \<noteq> Failed t)) \<and>
          0 < lo_Duration o' \<and> 5 * Second \<le> lo_Interval o' \<and> lo_Interval o' \<le> 60 * Second \<and> validRunID (lo_Run o') \<and>
          \<not> has_prefix ''-'' (lo_MailTo o')))"
proof -
  have "cmdLog E now later args w \<noteq> None" using assms by (intro going_site.log_returns [of _ tick] going_site.intro)
  then obtain ran rc ls where c: "cmdLog E now later args w = Some (ran, rc, ls)" by (metis not_None_eq surj_pair)
  have "fst (ReadOnly (id_DMI (li_Id E))) \<and>
      (\<exists>o' e. log_args now args = Inr o' \<and> log_run E later o' w = Some (L, e) \<and> (rc = exitOK \<longleftrightarrow> (\<forall>t. e \<noteq> Failed t)) \<and>
        0 < lo_Duration o' \<and> 5 * Second \<le> lo_Interval o' \<and> lo_Interval o' \<le> 60 * Second \<and> validRunID (lo_Run o') \<and>
        \<not> has_prefix ''-'' (lo_MailTo o'))" if L: "ran = Some L" for L
  proof -
    from c L obtain o' e where o: "log_args now args = Inr o'" "log_run E later o' w = Some (L, e)" "rc = fst (log_end (run_dir E later o') e)"
      and r: "fst (ReadOnly (id_DMI (li_Id E)))"
      by (auto simp: cmdLog_def Let_def split: sum.splits option.splits if_splits)
    have "rc = exitOK \<longleftrightarrow> (\<forall>t. e \<noteq> Failed t)"
      unfolding o(3) by (cases e) (simp_all add: log_end_def exitOK_def exitFail_def)
    with r o(1,2) log_args_ok [OF o(1)] show ?thesis by blast
  qed
  with c show ?thesis by blast
qed

theorem log_command_ends_witness:
  "\<exists>ran rc ls. cmdLog bare_site 0 1 [''--interval'', ''5s'', ''--run-id'', ''a''] (0, 0, True) = Some (ran, rc, ls)"
proof -
  from log_command_ends [OF bare_going.site_calls bare_going.site_now bare_going.site_exec bare_going.site_sleep, of 0 1 "[''--interval'', ''5s'', ''--run-id'', ''a'']" "(0, 0, True)"] show ?thesis by blast
qed

text \<open>C12: Where a stopped log goes on. A start that found no directory of its id made a new one; the next start with the same id and parent directory goes on in it if what is listed before it was there at the first start. In general it goes on in the first listed directory whose name ends in -log- and the id: the new one, or one that appeared since and is listed before it, which may be that of another id.\<close>
theorem log_found_again:
  assumes "log_args now args = Inr o'" "findRunIn (lo_Out o') (li_Ents E (lo_Out o')) (lo_Run o') = None"
    and "li_Ents E' (lo_Out o') = es @ (DirName later (hi_Board (id_DMI (li_Id E))) (hi_BIOS (id_DMI (li_Id E))) (''log-'' @ lo_Run o'), True) # es'"
    and "lo_Run p = lo_Run o'" "lo_Out p = lo_Out o'"
  shows "run_dir E' later' p = (case findRunIn (lo_Out o') es (lo_Run o') of None \<Rightarrow> run_dir E later o' | Some d \<Rightarrow> d) \<and>
    (set es \<subseteq> set (li_Ents E (lo_Out o')) \<longrightarrow> run_dir E' later' p = run_dir E later o')"
proof -
  have "has_suffix (''-log-'' @ lo_Run o') (DirName later b v (''log-'' @ lo_Run o'))" for b v
    by (rule DirName_suffix [OF log_args_ok(4) [OF assms(1)]])
  then have "findRunIn (lo_Out o') (li_Ents E' (lo_Out o')) (lo_Run o') =
      (case findRunIn (lo_Out o') es (lo_Run o') of None \<Rightarrow> Some (newRun (lo_Out o') later (id_DMI (li_Id E)) (lo_Run o')) | Some d \<Rightarrow> Some d)"
    using assms(3) by (auto simp: findRunIn_def newRun_def find_app split: option.split)
  then have g: "run_dir E' later' p = (case findRunIn (lo_Out o') es (lo_Run o') of None \<Rightarrow> run_dir E later o' | Some d \<Rightarrow> d)"
    using assms by (simp add: run_dir_def split: option.splits)
  have "findRunIn (lo_Out o') es (lo_Run o') = None" if "set es \<subseteq> set (li_Ents E (lo_Out o'))"
    using that assms(2) by (auto simp: findRunIn_def find_None_iff)
  with g show ?thesis by simp
qed

theorem log_found_again_witness:
  "\<exists>o'. log_args 0 [''--run-id'', ''a''] = Inr o' \<and>
     run_dir (bare_site\<lparr> li_Ents := (\<lambda>_. [(''lost'', True), (DirName 1 ''F8NAA'' ''1.05'' ''log-a'', True)]) \<rparr>) (3600 * Second) o' =
     run_dir (bare_site\<lparr> li_Ents := (\<lambda>_. [(''lost'', True)]) \<rparr>) 1 o'"
proof -
  have "case log_args 0 [''--run-id'', ''a''] of Inl x \<Rightarrow> False | Inr o' \<Rightarrow> lo_Run o' = ''a''" by code_simp
  then obtain o' where o: "log_args 0 [''--run-id'', ''a''] = Inr o'" "lo_Run o' = ''a''" by (auto split: sum.splits)
  show ?thesis
    using log_found_again [OF o(1), of "bare_site\<lparr> li_Ents := (\<lambda>_. [(''lost'', True)]) \<rparr>"
        "bare_site\<lparr> li_Ents := (\<lambda>_. [(''lost'', True), (DirName 1 ''F8NAA'' ''1.05'' ''log-a'', True)]) \<rparr>" "[(''lost'', True)]" 1 "[]" o' "3600 * Second"] o
    by (simp add: bare_site_def findRunIn_def has_suffix_def)
qed

text \<open>The entries are compared by their end: the run \<open>a\<close> is also found in the directory of a run \<open>x-log-a\<close>.\<close>

lemma other_run_found: "validRunID ''x-log-a'' \<and> findRunIn ''d'' [(DirName t b v ''log-x-log-a'', True)] ''a'' \<noteq> None"
proof -
  have v: "validRunID ''x-log-a''" by code_simp
  then have "clean_name ''log-x-log-a'' = ''log-x-log-a''" by code_simp
  then have "DirName t b v ''log-x-log-a'' = (minute_stamp t @ ''-'' @ clean_name b @ ''-'' @ clean_name v @ ''-log-x'') @ ''-log-a''"
    by (simp add: DirName_def)
  then have "has_suffix ''-log-a'' (DirName t b v ''log-x-log-a'')" by (simp only: ends_with)
  with v show ?thesis by (simp add: findRunIn_def)
qed

section \<open>The report\<close>

lemma recompute_clean:
  assumes "recompute_loaded zero dmeta dverdict l = Some (Inr r)" "lo_MetaRaw l \<noteq> ''''" "dmeta (lo_MetaRaw l) = Inr m" "\<not> me_Provisional m"
  obtains st tests gates subs where "(if lo_VerdictRaw l = '''' then Inr [] else dverdict (lo_VerdictRaw l)) = Inr st"
    "recompute_tests m st (lo_Samples l) (ParseEvents (lo_Events l)) = Some (tests, gates, subs)"
    "re_Mismatches r = gates @ compareTests st (map test_view tests)"
proof -
  from assms obtain st where st: "(if lo_VerdictRaw l = '''' then Inr [] else dverdict (lo_VerdictRaw l)) = Inr st"
    "recompute_meta m [] st (lo_Samples l) (ParseEvents (lo_Events l)) = Some r"
    by (auto simp: recompute_loaded_def Recompute_def split: sum.splits if_splits)
  from st(2) assms(4) obtain tests gates subs where "recompute_tests m st (lo_Samples l) (ParseEvents (lo_Events l)) = Some (tests, gates, subs)"
    "re_Mismatches r = gates @ compareTests st (map test_view tests)"
    by (auto simp: recompute_meta_def Let_def split: option.splits)
  with st(1) that show ?thesis by blast
qed

text \<open>C22: The report exits with 0 only when the bundle is that of a finished run, no checksum is wrong, every gate is confirmed, and the stored tests, with their runs and sub-runs, are those recomputed, with the same verdicts.\<close>
theorem report_exit_zero:
  assumes "report_dir zero dmeta dverdict load save dir out = Some (exitOK, ls)"
  shows "\<exists>l m st tests subs. load dir = Inr l \<and> lo_SumProblems l = [] \<and> dmeta (lo_MetaRaw l) = Inr m \<and> \<not> me_Provisional m \<and>
    (if lo_VerdictRaw l = '''' then Inr [] else dverdict (lo_VerdictRaw l)) = Inr st \<and>
    recompute_tests m st (lo_Samples l) (ParseEvents (lo_Events l)) = Some (tests, [], subs) \<and>
    (distinct (map te_ID st) \<and> (\<forall>t \<in> set st. distinct (map st_Run (te_Runs t))) \<longrightarrow>
       te_ID ` set st = te_ID ` test_view ` set tests \<and>
       (\<forall>x \<in> set st. \<forall>y \<in> set tests. te_ID x = te_ID (test_view y) \<longrightarrow>
          te_Verdict x = te_Verdict (test_view y) \<and> same_runs (te_Runs x) (te_Runs (test_view y))))"
proof -
  from assms obtain l r where l: "load dir = Inr l" "recompute_loaded zero dmeta dverdict l = Some (Inr r)"
    "report_code r (lo_SumProblems l) (finished_meta dmeta l) = exitOK"
    by (auto simp: report_dir_def Let_def exitOK_def exitFail_def split: sum.splits option.splits)
  then have z: "re_Mismatches r = []" "lo_SumProblems l = []" "finished_meta dmeta l"
    by (auto simp: report_code_def exitOK_def exitFail_def split: if_splits)
  then obtain m where m: "lo_MetaRaw l \<noteq> ''''" "dmeta (lo_MetaRaw l) = Inr m" "\<not> me_Provisional m"
    by (auto simp: finished_meta_def split: sum.splits)
  from recompute_clean [OF l(2) m] obtain st tests gates subs where
    r: "(if lo_VerdictRaw l = '''' then Inr [] else dverdict (lo_VerdictRaw l)) = Inr st"
      "recompute_tests m st (lo_Samples l) (ParseEvents (lo_Events l)) = Some (tests, gates, subs)"
      "re_Mismatches r = gates @ compareTests st (map test_view tests)" .
  have g: "gates = []" "compareTests st (map test_view tests) = []" using r(3) z(1) by simp_all
  have same: "distinct (map te_ID st) \<and> (\<forall>t \<in> set st. distinct (map st_Run (te_Runs t))) \<longrightarrow>
       te_ID ` set st = te_ID ` test_view ` set tests \<and>
       (\<forall>x \<in> set st. \<forall>y \<in> set tests. te_ID x = te_ID (test_view y) \<longrightarrow>
          te_Verdict x = te_Verdict (test_view y) \<and> same_runs (te_Runs x) (te_Runs (test_view y)))"
    using compareTests_nil [of st "map test_view tests"] g(2) by (simp add: image_image)
  show ?thesis
    by (intro exI conjI, rule l(1), rule z(2), rule m(2), rule m(3), rule r(1), rule r(2) [unfolded g(1)], rule same)
qed

text \<open>A finished snapshot with its T6, and the same one whose verdict was changed.\<close>

definition ex_bundle :: "unit Loaded" where
  "ex_bundle = \<lparr> lo_Dir = ''b'', lo_MetaRaw = ''{}'', lo_Meta = None, lo_Samples = [], lo_Events = [], lo_VerdictRaw = ''{}'', lo_SumProblems = [] \<rparr>"

definition ex_meta :: Meta where
  "ex_meta = (zero_meta (vw_Id (still_view '''')))\<lparr> me_Command := ''snapshot'' \<rparr>"

definition ex_report :: "string \<Rightarrow> exits option" where
  "ex_report v = report_dir (vw_Id (still_view '''')) (\<lambda>_. Inr ex_meta) (\<lambda>_. Inr [\<lparr> te_ID = ''T6'', te_Verdict = v, te_Runs = [] \<rparr>])
     (\<lambda>_. Inr ex_bundle) (\<lambda>_ _ _. None) ''b'' ''''"

theorem report_exit_zero_witness:
  "\<exists>ls tests subs. ex_report (verdict_text Reported) = Some (exitOK, ls) \<and>
     recompute_tests ex_meta [\<lparr> te_ID = ''T6'', te_Verdict = verdict_text Reported, te_Runs = [] \<rparr>] [] (ParseEvents []) = Some (tests, [], subs)"
proof -
  obtain ls where e: "ex_report (verdict_text Reported) = Some (exitOK, ls)"
    by (simp add: ex_report_def report_dir_def recompute_loaded_def Recompute_def recompute_meta_def recompute_tests_def Let_def
        ex_bundle_def ex_meta_def zero_meta_def compareTests_def compare_test_def compareRuns_def last_with_def differs_def
        test_view_def mk_result_def report_code_def finished_meta_def checkGates_def)
  from report_exit_zero [OF e [unfolded ex_report_def]] e show ?thesis by (auto simp: ex_bundle_def)
qed

section \<open>Snapshots\<close>

text \<open>A temperature without a value is no number, and a number in the JSON of T6.\<close>

lemma encodable_texts: "encodable (JObject (text_field k v))"
  by (simp add: text_field_def)

lemma encodable_append: "encodable (JObject (xs @ ys)) \<longleftrightarrow> encodable (JObject xs) \<and> encodable (JObject ys)"
  by simp

lemma encodable_verdict: "encodable (snap_verdict i label boot m) \<longleftrightarrow> (\<forall>k \<in> set ec_keys. hr_EC (mb_Reading m) k \<noteq> Some NaN)"
proof -
  have "encodable (ec_json r) \<longleftrightarrow> (\<forall>k \<in> set ec_keys. hr_EC r k \<noteq> Some NaN)" for r
    by (auto simp: ec_json_def list_all_iff List.map_filter_def)
  moreover have "encodable (channels_json f)" for f by (simp add: channels_json_def)
  moreover have "encodable (dcr_json d)" for d
    by (auto simp: dcr_json_def text_field_def list_all_iff split: prod.split)
  ultimately show ?thesis by (simp add: snap_verdict_def t6_json_def Let_def)
qed

lemma encodable_meta: "encodable (snap_meta V label boot t m) \<longleftrightarrow> id_UptimeS (vw_Id V) \<noteq> NaN"
  by (auto simp: snap_meta_def provenance_def Let_def)

text \<open>C23: How a snapshot exits that was allowed and could write its files: with 1 if one of the controller's temperatures has no value (JSON has no number for it, so that verdict.json is not written), else with 3 if it is incomplete, else with 0.\<close>
theorem snapshot_exit:
  assumes "\<And>d w. snd (dk_Create D d w) = None" "\<And>n v w. snd (dk_Json D n v w) = None" "\<And>w. snd (dk_Finish D w) = None"
    and "\<And>n t w. snd (write n t w) = None" "id_UptimeS (vw_Id V) \<noteq> NaN"
    and "snapshot_args args = Inr (label, boot, out)" "snapshot_refused fs (ro_Sys r) (vw_Id V) (probe out) out = None"
    and "e_Now (dk_Env D) w = (w1, t0)"
    and "m = TakeModeB stat oe fs fs' (snap_header V label boot t0 (FangovState systemctl)) (vw_Id V) (ro_Sys r) (ro_Proc r) (ro_Etc r)"
  shows "fst (snd (cmdSnapshot D write V stat oe fs fs' r systemctl probe args w)) =
    (if \<exists>k \<in> set ec_keys. hr_EC (mb_Reading m) k = Some NaN then exitFail
     else if mb_Incomplete m \<noteq> [] then exitIncomplete else exitOK)"
proof -
  have files: "snd (snap_files D write t (snap_meta V label boot t0 m) (snap_verdict i label boot m) v) =
      (if \<exists>k \<in> set ec_keys. hr_EC (mb_Reading m) k = Some NaN then Some nan_text else None)" for t i v
    by (simp add: snap_files_def WriteJSON_def encodable_meta encodable_verdict Let_def case_prod_beta assms(2-5))
  have "fst (snd (snap_bundle D write V m label boot out t0 w1)) =
    (if \<exists>k \<in> set ec_keys. hr_EC (mb_Reading m) k = Some NaN then exitFail else snap_code m)"
    by (simp add: snap_bundle_def Let_def case_prod_beta assms(1) files)
  then show ?thesis using assms(6-9) by (simp add: cmdSnapshot_def snap_code_def)
qed

text \<open>A machine with the module loaded and no file of the driver that can be read.\<close>

definition deaf_view :: rig_view where
  "deaf_view = (still_view '''')\<lparr> vw_Id := (vw_Id (still_view ''''))
     \<lparr> id_DMI := (id_DMI (vw_Id (still_view '''')))\<lparr> hi_Product := ''N5 PRO'', hi_Board := ''F8NAA'' \<rparr>,
       id_Driver := (id_Driver (vw_Id (still_view '''')))\<lparr> ds_Loaded := True \<rparr>, id_UptimeS := Some 60 \<rparr> \<rparr>"

definition good_probe :: out_probe where
  "good_probe = \<lparr> ou_Mkdir = None, ou_Stat = Inr True, ou_Create = None, ou_Close = None, ou_Remove = None \<rparr>"

theorem snapshot_exit_witness:
  "fst (snd (cmdSnapshot still_desk (\<lambda>_ _ w. (w, None)) deaf_view (\<lambda>_. False) \<lparr> oe_denied = (\<lambda>_. False), oe_text = (\<lambda>_. '''') \<rparr>
      no_files no_files HostRoots (\<lambda>_. Inr ''active'') (\<lambda>_. good_probe) [''a''] 0)) = exitFail"
proof -
  let ?oe = "\<lparr> oe_denied = (\<lambda>_. False), oe_text = (\<lambda>_. '''') \<rparr>"
  let ?m = "TakeModeB (\<lambda>_. False) ?oe no_files no_files (snap_header deaf_view ''a'' '''' 0 (FangovState (\<lambda>_. Inr ''active''))) (vw_Id deaf_view)
      (ro_Sys HostRoots) (ro_Proc HostRoots) (ro_Etc HostRoots)"
  have args: "snapshot_args [''a''] = Inr (''a'', '''', ''.'')" by code_simp
  have ok: "snapshot_refused no_files (ro_Sys HostRoots) (vw_Id deaf_view) good_probe ''.'' = None"
    by (simp add: snapshot_refused_def deaf_view_def ReadOnly_def prepareOutDir_def good_probe_def)
  have h: "DriverHwmon no_files s = ''''" for s by (simp add: DriverHwmon_def hwmonDirs_def no_files_def)
  have "hr_EC (mb_Reading ?m) ''cpu'' = Some NaN"
    by (simp add: TakeModeB_def Let_def case_prod_beta Read_All_def hr_start_def h)
  then have nan: "\<exists>k \<in> set ec_keys. hr_EC (mb_Reading ?m) k = Some NaN" by (simp add: ec_keys_def)
  have "e_Now (dk_Env still_desk) 0 = (0, 0)" by (simp add: still_desk_def still_env_def)
  from snapshot_exit [OF _ _ _ _ _ args ok this refl, of "\<lambda>_ _ w. (w, None)" "\<lambda>_. False" ?oe no_files "\<lambda>_. Inr ''active''"] nan show ?thesis
    by (simp add: still_desk_def deaf_view_def)
qed

end
