(* ===== verification/Spec2Isabelle.thy ===== *)
theory Spec2Isabelle
  imports Spec_Properties Device_Properties Runner_Properties Host_Properties Report_Properties
    Guard_Properties Log_Properties Redact Live_World Cli_Properties Command_Properties
begin

text \<open>
  A verification development for n5-ectest and its Go packages: the tool that validates the fan
  control of the Minisforum N5 Pro by writing duties to the embedded controller, sampling registers,
  tachs and temperatures, and judging the hand-back to the controller's automatic.

  \<^bold>\<open>The parts of the program and how they interact.\<close> The runner (internal/runner) drives a test on a
  machine behind the interface \<open>Env\<close>: a real one, whose only write path is the pwm writer
  (internal/pwmw), or the model of the controller (internal/sim) of a dry run. It takes samples
  (internal/spec/sample.go), ends a run at its safety limits, and hands the data to the evaluators
  (internal/spec/eval.go). Other writers are looked for by the regulator check
  (internal/regulator). The values a channel is restored to come from arguments or a configuration
  (runner/restorevals.go). The driver package (go/n5/n5driver) reads the kernel module and parses its
  register dump; the package hwstatus says what is known about the machine, identity collects what
  names it. A run is stored as a bundle; the report (internal/report) recomputes its verdicts.

  \<^bold>\<open>Theories.\<close>
  \<^item> Prelude, Files, Time_Text: numbers, text, files and times as the Go library has them.
  \<^item> Spec_Base, Spec_Handback, Spec_Aggregate, Spec_T1, Spec_Gates: spec/eval.go and sample.go, the
    evaluators T2/T3, T1, G4, with their characterisations; Spec_Properties states the properties.
  \<^item> Driver, Restore_Values, Pwm_Writer, Regulator: n5driver.go, restorevals.go, pwmw.go, regulator.go;
    Regulator also holds the pwm attributes of the kernel module (minisforum_n5_it5571.c with patch 0004)
    and the interface \<open>quiet_cache\<close> of a check. Device_Properties states the properties.
  \<^item> Settle, Runner_State, Runner_Tests: settle.go and runner.go. Runner_Inv, Runner_Safety: the
    interfaces of invariants (locales \<open>quiet_steps\<close>, \<open>runner_steps\<close>, \<open>runner_inv\<close>), each kept by single
    operations and proved once for all procedures and for every order of use (\<open>runs\<close>). Runner_Trace,
    Runner_Results: the interpretations (commands sent, first abort, records, no commands while
    sampling) and what the procedures leave behind. Sim: sim.go, an instance of the runner's
    interface and of the interface \<open>clock\<close>. Runner_Examples, Runner_Properties: examples and properties.
  \<^item> Hw_Status, Run_Gates: hwstatus.go with tablesum.go, and gates.go; Host_Properties.
  \<^item> Decimal, Time_Parse, Sample_Csv: numbers and times read from text, the rows of samples.csv.
    Identity: identity.go and spec/t0.go. Report: recompute.go. Report_Facts, Report_T1,
    Report_Checks: event lines and stored samples, the mapping recomputed from what a run left, the
    comparison, the gates and the panics; Report_Properties.

  \<^item> Writer_Lock: writerlock_unix.go over a model of descriptors and flock, as a step relation of several
    processes, one system call at a time. Redact: redact.go over an executable matcher of regular expressions. Session, Boards,
    Hw_Read, Snapshot (with Text_Sort, Snapshot_Facts): session.go, boards.go, hwread.go, snapshot.go.
    Bundle, Bundle_Facts: bundle.go. Guard_Properties states the properties.
  \<^item> Log_Base, Log_Run, Log_Tools: criteria.go, events.go and logger.go. Log_Steps decomposes every
    operation of a run into actions of a step relation (\<open>lact\<close>), so that Log_Facts proves the invariant
    of the state and the growth of the files once. Log_World: the interfaces to the outside world
    (locales \<open>log_world\<close>, \<open>log_clock\<close>, \<open>log_mails\<close>) and their interpretations. Log_Criteria, Log_Coverage:
    series of samples, the event log, the coverage and the outside check; Log_Properties.

  \<^item> Cli_Base, Validate_Opts: common.go and the options of map and handback, with the flag package as far
    as it is used; Cli_Properties. Guardian: guardian.go and restore.go; Guardian_Facts holds the interface
    \<open>put_back\<close> of a restore. Live_Env: the runner's environment on the machine (validate.go). Validate: a
    run of map or handback from the first line to the exit code (\<open>run_validation\<close>), over a \<open>desk\<close> that
    holds the machine, the bundle, the state file and the terminal. Validate_Watch: a desk that lists
    commands and writes of the state file in order, with the interfaces \<open>watched_runner\<close> and
    \<open>saved_runner\<close>; Validate_Facts: from single steps to the whole run (locales \<open>checked_run\<close>,
    \<open>whole_run\<close>, \<open>commanding_run\<close>). Run_Properties: a run killed at any moment, its guardian, the confirmation.
    Live_World: what every outside operation keeps is kept by a run (locales \<open>kept_world\<close>, \<open>kept_desk\<close>),
    the desk of a run on the machine, and the interface \<open>going_machine\<close> of its clock.
  \<^item> Commands, Log_Commands: version, diff, report, snapshot and identify (main.go, snapshot.go, report.go,
    identify.go), and log with check and annotate (log.go), which starts the logger of Log_Run. Gen_Results:
    the generator of the results table (genresults/main.go) that Hw_Status reads. Command_Properties:
    the interface \<open>going_site\<close> of a log run and the properties of these commands.

  \<^bold>\<open>State and operations.\<close> The fields of \<open>runner.Runner\<close> that a run never changes are the record
  \<open>Setup\<close>, the others the record \<open>runner\<close>; everything outside (kernel, clock, hooks) is a world
  \<open>'w\<close> that \<open>Env\<close> and the hooks transform. A Go \<open>int\<close> is an \<open>int\<close>, register bytes are 8-bit words, a
  \<open>float64\<close> is an exact rational (\<open>fl\<close> adds NaN): binary rounding is not modelled, the decimal
  rounding the program asks for is. Errors are values, a panic is a value of the result. The
  register wait may not return: it is \<open>while_option\<close>, and its properties prove that it does under a
  clock that sleeps move on. So is the loop of a log run, a \<open>partial_function (option)\<close>, with the same
  result. The other loops end by a measure; of a process's ancestors the program itself looks at 128
  at most.

  \<^bold>\<open>What the lemmas show.\<close> Runs: only allowed duties are written, nothing before the hook, after
  \<open>Close\<close> every channel is at rest or listed, a completed mapping commands exactly its duties, and
  the procedures return. Report: from the records of a completed mapping it computes the result of
  the run. Evaluators: each verdict equals a declarative reading of the samples.
  Writer: no sequence of calls reaches the kernel with another value. Parsers: round trips and what
  is accepted. Regulator: own writes are not reported as foreign, others are, over the attributes
  of the kernel module; its one exception (the automatic of channel 4) is characterised.

  Whole runs: at every moment the state file on disk is enough to put back what was commanded, the
  guardian does it, nothing is commanded without a confirmation and before every gate, the ones measured
  before the first write included, has passed, and every run returns.
  Logger: its state is well-formed over every number of restarts, a run ends under a clock that goes
  on, files only grow, a failed mail ends the attempts of a pass, mails of the outside check are an hour apart, stalls and
  episodes are reported once, events are read back as they were written (with the detail redacted), a
  coverage of 100 means that every gap is explained or short as long as downtimes do not overlap.
  Guards: one verified writer, local sessions, the measured board.

  \<^bold>\<open>Not modelled.\<close> Of the report, the summary of a log run and the rendering (HTML, SVG). Of
  cmd/n5-ectest, the usage text, the notifications to systemd, the handling of signals (a signal is the
  cancelled context of the desk) and of panics (\<open>recover\<close>), and the fake trees of
  the tests. The text of an operating system error is
  not modelled, neither are time limits of reads and writes (a timed-out one is a failed one). Code
  outside the repository (the TOML and JSON decoders, sha256, systemctl, journalctl, tmux, zpool, the
  rest of the kernel) is an argument of the definitions that use it.
\<close>

end
